(* ===== verification/Prelude.thy ===== *)
theory Prelude
  imports Main "HOL-Library.Sublist" "HOL-Library.List_Lexorder" "HOL-Library.Char_ord"
    "HOL-Library.Product_Lexorder"
begin

text \<open>
  Vocabulary shared by every component.

  A Rust \<open>str\<close> is modelled as the list of its UTF-8 bytes (\<open>string = char list\<close>, one
  \<open>char\<close> per byte), so \<open>len()\<close>, slicing, \<open>find\<close> and comparison are the list operations.
  Literals outside ASCII are written as their bytes. Operations of the
  Rust standard library that work on characters (\<open>trim\<close>, \<open>chars\<close>, \<open>is_char_boundary\<close>)
  are given here on bytes; they agree with Rust's on well-formed UTF-8.
\<close>

named_theorems model_defs \<open>operations of a component, unfolded together\<close>
named_theorems safe_intros \<open>operations that keep an invariant of the tables\<close>
named_theorems quiet_simps \<open>operations run with no interference and no driver error\<close>

section \<open>Bytes and UTF-8\<close>

definition byte :: "char \<Rightarrow> nat" where
  "byte c = of_char c"

definition is_cont :: "char \<Rightarrow> bool" where
  "is_cont c \<longleftrightarrow> digit7 c \<and> \<not> digit6 c"

text \<open>\<open>str::is_char_boundary\<close>\<close>

definition is_char_boundary :: "string \<Rightarrow> nat \<Rightarrow> bool" where
  "is_char_boundary s i \<longleftrightarrow>
     (if i = 0 \<or> i = length s then True else if i < length s then \<not> is_cont (s ! i) else False)"

text \<open>\<open>s.chars().count()\<close> and the prefix holding the first \<open>n\<close> characters\<close>

definition char_count :: "string \<Rightarrow> nat" where
  "char_count s = length (filter (\<lambda>c. \<not> is_cont c) s)"

fun take_chars :: "nat \<Rightarrow> string \<Rightarrow> string" where
  "take_chars n [] = []"
| "take_chars n (c # s) =
     (if is_cont c then c # take_chars n s
      else (case n of 0 \<Rightarrow> [] | Suc m \<Rightarrow> c # take_chars m s))"

lemma is_char_boundary_0 [simp]: "is_char_boundary s 0"
  by (simp add: is_char_boundary_def)

lemma is_char_boundary_length [simp]: "is_char_boundary s (length s)"
  by (simp add: is_char_boundary_def)

lemma prefix_take_chars: "prefix (take_chars n s) s"
  by (induction n s rule: take_chars.induct) (auto split: nat.splits)

lemma char_count_Cons: "char_count (c # s) = (if is_cont c then char_count s else Suc (char_count s))"
  by (simp add: char_count_def)

lemma char_count_take_chars:
  "char_count (take_chars n s) = min n (char_count s)"
  by (induction n s rule: take_chars.induct)
     (auto simp: char_count_def split: nat.splits)

section \<open>Whitespace and substrings\<close>

text \<open>The UTF-8 encodings of the characters with the Unicode property \<open>White_Space\<close>.\<close>

definition white_space :: "string list" where
  "white_space = [
    [CHR 0x20], [CHR 0x0A], [CHR 0x09], [CHR 0x0D], [CHR 0x0B], [CHR 0x0C],
    [CHR 0xC2, CHR 0x85], [CHR 0xC2, CHR 0xA0], [CHR 0xE1, CHR 0x9A, CHR 0x80],
    [CHR 0xE2, CHR 0x80, CHR 0x80], [CHR 0xE2, CHR 0x80, CHR 0x81],
    [CHR 0xE2, CHR 0x80, CHR 0x82], [CHR 0xE2, CHR 0x80, CHR 0x83],
    [CHR 0xE2, CHR 0x80, CHR 0x84], [CHR 0xE2, CHR 0x80, CHR 0x85],
    [CHR 0xE2, CHR 0x80, CHR 0x86], [CHR 0xE2, CHR 0x80, CHR 0x87],
    [CHR 0xE2, CHR 0x80, CHR 0x88], [CHR 0xE2, CHR 0x80, CHR 0x89],
    [CHR 0xE2, CHR 0x80, CHR 0x8A], [CHR 0xE2, CHR 0x80, CHR 0xA8],
    [CHR 0xE2, CHR 0x80, CHR 0xA9], [CHR 0xE2, CHR 0x80, CHR 0xAF],
    [CHR 0xE2, CHR 0x81, CHR 0x9F], [CHR 0xE3, CHR 0x80, CHR 0x80]]"

function strip_all :: "string list \<Rightarrow> string \<Rightarrow> string" where
  "strip_all ws s =
     (case find (\<lambda>w. w \<noteq> [] \<and> prefix w s) ws of
        Some w \<Rightarrow> strip_all ws (drop (length w) s)
      | None \<Rightarrow> s)"
  by pat_completeness auto
termination
  by (relation "measure (\<lambda>(ws, s). length s)")
     (auto simp: find_Some_iff prefix_def)

declare strip_all.simps [simp del]

definition trim_start :: "string \<Rightarrow> string" where
  "trim_start s = strip_all white_space s"

definition trim_end :: "string \<Rightarrow> string" where
  "trim_end s = rev (strip_all (map rev white_space) (rev s))"

definition trim :: "string \<Rightarrow> string" where
  "trim s = trim_end (trim_start s)"

definition trim_start_matches :: "char \<Rightarrow> string \<Rightarrow> string" where
  "trim_start_matches c s = dropWhile (\<lambda>x. x = c) s"

fun find_sub :: "string \<Rightarrow> string \<Rightarrow> nat option" where
  "find_sub pat s =
     (if prefix pat s then Some 0
      else (case s of [] \<Rightarrow> None | _ # t \<Rightarrow> map_option Suc (find_sub pat t)))"

declare find_sub.simps [simp del]

definition contains :: "string \<Rightarrow> string \<Rightarrow> bool" where
  "contains s pat \<longleftrightarrow> find_sub pat s \<noteq> None"

text \<open>Start of the last occurrence (\<open>str::rfind\<close>).\<close>

fun rfind_sub :: "string \<Rightarrow> string \<Rightarrow> nat option" where
  "rfind_sub pat [] = (if pat = [] then Some 0 else None)"
| "rfind_sub pat (c # s) =
     (case rfind_sub pat s of
        Some i \<Rightarrow> Some (Suc i)
      | None \<Rightarrow> if prefix pat (c # s) then Some 0 else None)"

definition starts_with :: "string \<Rightarrow> string \<Rightarrow> bool" where
  "starts_with s pat = prefix pat s"

definition ends_with :: "string \<Rightarrow> string \<Rightarrow> bool" where
  "ends_with s pat = suffix pat s"

definition strip_prefix :: "string \<Rightarrow> string \<Rightarrow> string option" where
  "strip_prefix pat s = (if prefix pat s then Some (drop (length pat) s) else None)"

definition strip_suffix :: "string \<Rightarrow> string \<Rightarrow> string option" where
  "strip_suffix pat s = (if suffix pat s then Some (take (length s - length pat) s) else None)"

text \<open>\<open>s.replace(pat, by)\<close>, left to right without overlap; the program's patterns are not empty.\<close>

function replace :: "string \<Rightarrow> string \<Rightarrow> string \<Rightarrow> string" where
  "replace pat by s =
     (case s of [] \<Rightarrow> []
      | c # t \<Rightarrow> if pat \<noteq> [] \<and> prefix pat s then by @ replace pat by (drop (length pat) s)
                else c # replace pat by t)"
  by pat_completeness auto
termination
  by (relation "measure (\<lambda>(pat, by, s). length s)") auto

declare replace.simps [simp del]


text \<open>\<open>s.split(c)\<close> for a single character, \<open>s.split_once(c)\<close>, and \<open>join\<close>\<close>

fun split_char :: "char \<Rightarrow> string \<Rightarrow> string list" where
  "split_char d [] = [[]]"
| "split_char d (c # s) =
     (if c = d then [] # split_char d s
      else (case split_char d s of [] \<Rightarrow> [[c]] | w # ws \<Rightarrow> (c # w) # ws))"

lemma split_char_no_sep: "w \<in> set (split_char d s) \<Longrightarrow> d \<notin> set w"
  by (induction s arbitrary: w) (auto split: if_splits list.splits)

definition split_once :: "char \<Rightarrow> string \<Rightarrow> (string \<times> string) option" where
  "split_once d s =
     (if d \<in> set s then Some (takeWhile (\<lambda>c. c \<noteq> d) s, tl (dropWhile (\<lambda>c. c \<noteq> d) s)) else None)"

fun join :: "string \<Rightarrow> string list \<Rightarrow> string" where
  "join sep [] = []"
| "join sep [w] = w"
| "join sep (w # v # ws) = w @ sep @ join sep (v # ws)"

text \<open>\<open>str::lines\<close>: pieces ended by a line feed, a final empty piece dropped, one carriage
  return removed before each line feed.\<close>

definition strip_cr :: "string \<Rightarrow> string" where
  "strip_cr l = (if suffix [CHR 0x0D] l then butlast l else l)"

definition lines_of :: "string \<Rightarrow> string list" where
  "lines_of s =
     (let ps = split_char (CHR 0x0A) s
      in map strip_cr (butlast ps) @ (if last ps = [] then [] else [last ps]))"


text \<open>\<open>str::split_whitespace\<close>\<close>

definition ws_prefix :: "string \<Rightarrow> nat" where
  "ws_prefix s = (case find (\<lambda>w. prefix w s) white_space of Some w \<Rightarrow> length w | None \<Rightarrow> 0)"

fun split_ws_from :: "nat \<Rightarrow> string \<Rightarrow> string \<Rightarrow> string list" where
  "split_ws_from skip acc [] = (if acc = [] then [] else [acc])"
| "split_ws_from (Suc k) acc (c # s) = split_ws_from k acc s"
| "split_ws_from 0 acc (c # s) =
     (case ws_prefix (c # s) of
        0 \<Rightarrow> split_ws_from 0 (acc @ [c]) s
      | Suc k \<Rightarrow> (if acc = [] then [] else [acc]) @ split_ws_from k [] s)"

definition split_whitespace :: "string \<Rightarrow> string list" where
  "split_whitespace s = split_ws_from 0 [] s"

text \<open>\<open>opt.or_else(f)\<close>\<close>

definition or_else :: "'a option \<Rightarrow> 'a option \<Rightarrow> 'a option" where
  "or_else a b = (case a of Some x \<Rightarrow> Some x | None \<Rightarrow> b)"

text \<open>All values, or none if one is missing.\<close>

fun all_some :: "'a option list \<Rightarrow> 'a list option" where
  "all_some [] = Some []"
| "all_some (x # xs) = Option.bind x (\<lambda>y. map_option ((#) y) (all_some xs))"

section \<open>Numbers\<close>

definition is_digit :: "char \<Rightarrow> bool" where
  "is_digit c \<longleftrightarrow> 48 \<le> byte c \<and> byte c \<le> 57"

definition is_ascii_alphanumeric :: "char \<Rightarrow> bool" where
  "is_ascii_alphanumeric c \<longleftrightarrow>
     is_digit c \<or> (65 \<le> byte c \<and> byte c \<le> 90) \<or> (97 \<le> byte c \<and> byte c \<le> 122)"

definition is_ascii_hexdigit :: "char \<Rightarrow> bool" where
  "is_ascii_hexdigit c \<longleftrightarrow>
     is_digit c \<or> (97 \<le> byte c \<and> byte c \<le> 102) \<or> (65 \<le> byte c \<and> byte c \<le> 70)"

definition to_ascii_lowercase :: "string \<Rightarrow> string" where
  "to_ascii_lowercase s =
     map (\<lambda>c. if 65 \<le> byte c \<and> byte c \<le> 90 then char_of (byte c + 32) else c) s"

definition eq_ignore_ascii_case :: "string \<Rightarrow> string \<Rightarrow> bool" where
  "eq_ignore_ascii_case s t \<longleftrightarrow> to_ascii_lowercase s = to_ascii_lowercase t"

text \<open>The mark of a shortened text.\<close>

definition ELLIPSIS :: string where
  "ELLIPSIS = [CHR 0xE2, CHR 0x80, CHR 0xA6]"

definition digits_value :: "string \<Rightarrow> nat" where
  "digits_value s = foldl (\<lambda>n c. n * 10 + (byte c - 48)) 0 s"

text \<open>\<open>str::parse\<close> for an unsigned integer whose largest value is \<open>max\<close>: an optional plus
  sign, then at least one digit, and no overflow.\<close>

definition parse_uint :: "nat \<Rightarrow> string \<Rightarrow> nat option" where
  "parse_uint mx s =
     (let ds = (case s of c # t \<Rightarrow> if c = CHR ''+'' then t else s | [] \<Rightarrow> s)
      in if ds \<noteq> [] \<and> list_all is_digit ds \<and> digits_value ds \<le> mx
         then Some (digits_value ds) else None)"

definition parse_u16 :: "string \<Rightarrow> nat option" where
  "parse_u16 s = parse_uint 65535 s"

definition parse_u32 :: "string \<Rightarrow> nat option" where
  "parse_u32 s = parse_uint 4294967295 s"

text \<open>Decimal rendering of an integer (\<open>Display\<close>).\<close>

fun show_nat :: "nat \<Rightarrow> string" where
  "show_nat n = (if n < 10 then [char_of (48 + n)] else show_nat (n div 10) @ [char_of (48 + n mod 10)])"

declare show_nat.simps [simp del]

definition show_int :: "int \<Rightarrow> string" where
  "show_int i = (if i < 0 then ''-'' @ show_nat (nat (- i)) else show_nat (nat i))"


section \<open>Separators\<close>

lemma first_colon: "x \<notin> set a \<Longrightarrow> x \<notin> set b \<Longrightarrow> a @ x # c = b @ x # d \<longleftrightarrow> a = b \<and> c = d"
proof (induction a arbitrary: b)
  case Nil then show ?case by (cases b) auto
next
  case (Cons y a) then show ?case by (cases b) auto
qed

lemma last_colon: "x \<notin> set c \<Longrightarrow> x \<notin> set d \<Longrightarrow> a @ x # c = b @ x # d \<longleftrightarrow> a = b \<and> c = d"
  using first_colon [of x "rev c" "rev d" "rev a" "rev b"]
  by (metis append_assoc append.simps(1,2) rev.simps(2) rev_append rev_rev_ident set_rev)

section \<open>Facts about searching\<close>

lemma rfind_sub_Some:
  "rfind_sub pat s = Some i \<Longrightarrow> \<exists>u v. s = u @ pat @ v \<and> length u = i"
proof (induction s arbitrary: i)
  case Nil
  then show ?case by (auto split: if_splits)
next
  case (Cons c s)
  show ?case
  proof (cases "rfind_sub pat s")
    case None
    with Cons.prems show ?thesis by (auto simp: prefix_def split: if_splits)
  next
    case (Some j)
    with Cons.IH obtain u v where "s = u @ pat @ v" "length u = j" by blast
    with Some Cons.prems have "c # s = (c # u) @ pat @ v \<and> length (c # u) = i" by simp
    then show ?thesis by blast
  qed
qed

lemma rfind_sub_bound: "rfind_sub pat s = Some i \<Longrightarrow> i + length pat \<le> length s"
  using rfind_sub_Some by fastforce

lemma rfind_sub_None: "rfind_sub pat s = None \<longleftrightarrow> \<not> sublist pat s"
  by (induction s) (auto simp: sublist_Cons_right split: option.splits)

lemma find_sub_Some:
  "find_sub pat s = Some i \<Longrightarrow> \<exists>u v. s = u @ pat @ v \<and> length u = i"
proof (induction s arbitrary: i)
  case Nil
  then show ?case by (auto simp: find_sub.simps [of pat "[]"] split: if_splits)
next
  case (Cons c s)
  show ?case
  proof (cases "prefix pat (c # s)")
    case True
    with Cons.prems have "i = 0" by (simp add: find_sub.simps [of pat "c # s"])
    with True show ?thesis by (auto simp: prefix_def)
  next
    case False
    with Cons.prems obtain j where "find_sub pat s = Some j" "i = Suc j"
      by (auto simp: find_sub.simps [of pat "c # s"])
    with Cons.IH obtain u v where "s = u @ pat @ v" "length u = j" by blast
    with \<open>i = Suc j\<close> have "c # s = (c # u) @ pat @ v \<and> length (c # u) = i" by simp
    then show ?thesis by blast
  qed
qed

lemma find_sub_None: "find_sub pat s = None \<longleftrightarrow> \<not> sublist pat s"
proof (induction s)
  case Nil
  then show ?case by (simp add: find_sub.simps [of pat "[]"])
next
  case (Cons c s)
  then show ?case by (simp add: find_sub.simps [of pat "c # s"] sublist_Cons_right)
qed

lemma contains_iff_sublist: "contains s pat \<longleftrightarrow> sublist pat s"
  by (simp add: contains_def find_sub_None)

lemma find_sub_bound: "find_sub pat s = Some i \<Longrightarrow> i + length pat \<le> length s"
  using find_sub_Some by fastforce

lemma find_sub_append: "find_sub pat s = Some i \<Longrightarrow> find_sub pat (s @ t) = Some i"
proof (induction pat s arbitrary: i rule: find_sub.induct)
  case (1 pat s)
  show ?case
  proof (cases "prefix pat s")
    case True
    with 1(2) have "i = 0" "prefix pat (s @ t)" by (simp_all add: find_sub.simps [of pat s])
    then show ?thesis by (simp add: find_sub.simps [of pat "s @ t"])
  next
    case False
    with 1(2) obtain c u k where s: "s = c # u" "find_sub pat u = Some k" "i = Suc k"
      by (auto simp: find_sub.simps [of pat s] split: list.splits)
    have "\<not> prefix pat (s @ t)"
    proof
      assume p: "prefix pat (s @ t)"
      have "length pat \<le> length s" using find_sub_bound [OF 1(2)] by simp
      with p False show False by (auto simp: prefix_def append_eq_append_conv2)
    qed
    then show ?thesis using 1(1) [OF False s(1) s(2)] s by (simp add: find_sub.simps [of pat "c # u @ t"])
  qed
qed

section \<open>Facts about blank text\<close>

text \<open>A string made of white-space characters only: what \<open>trim\<close> empties.\<close>

definition blank :: "string \<Rightarrow> bool" where
  "blank s \<longleftrightarrow> trim s = []"

text \<open>No encoding of a white-space character begins another one, so stripping is deterministic.\<close>

definition prefix_code :: "string list \<Rightarrow> bool" where
  "prefix_code ws \<longleftrightarrow> list_all (\<lambda>v. v \<noteq> [] \<and> list_all (\<lambda>w. prefix v w \<longrightarrow> v = w) ws) ws"

lemma prefix_code_white_space: "prefix_code white_space"
  by (simp add: prefix_code_def white_space_def)

lemma find_in: "find p xs = Some x \<Longrightarrow> x \<in> set xs \<and> p x"
  by (induction xs) (auto split: if_splits)

lemma strip_all_Nil [simp]: "strip_all ws [] = []"
proof -
  have "find (\<lambda>w. w \<noteq> [] \<and> prefix w []) ws = None" by (simp add: find_None_iff)
  then show ?thesis by (simp add: strip_all.simps [of ws "[]"])
qed

lemma strip_all_step:
  assumes "prefix_code ws" and "v \<in> set ws"
  shows "strip_all ws (v @ s) = strip_all ws s"
proof -
  have "find (\<lambda>w. w \<noteq> [] \<and> prefix w (v @ s)) ws \<noteq> None"
    using assms by (auto simp: find_None_iff prefix_code_def list_all_iff)
  then obtain w where w: "find (\<lambda>w. w \<noteq> [] \<and> prefix w (v @ s)) ws = Some w" by auto
  then have "w \<in> set ws" "prefix w (v @ s)" by (auto simp: find_Some_iff in_set_conv_nth)
  then have "prefix w v \<or> prefix v w" using prefix_same_cases [of w "v @ s" v] by auto
  with assms \<open>w \<in> set ws\<close> have "w = v" by (auto simp: prefix_code_def list_all_iff)
  with w show ?thesis by (simp add: strip_all.simps [of ws "v @ s"])
qed

lemma strip_all_concat:
  "prefix_code ws \<Longrightarrow> set vs \<subseteq> set ws \<Longrightarrow> strip_all ws (concat vs @ s) = strip_all ws s"
  by (induction vs) (auto simp: strip_all_step)

lemma strip_all_split: "\<exists>vs. set vs \<subseteq> set ws \<and> s = concat vs @ strip_all ws s"
proof (induction ws s rule: strip_all.induct)
  case (1 ws s)
  show ?case
  proof (cases "find (\<lambda>w. w \<noteq> [] \<and> prefix w s) ws")
    case None
    then show ?thesis by (intro exI [of _ "[]"]) (simp add: strip_all.simps [of ws s])
  next
    case (Some w)
    then have "w \<in> set ws" and "prefix w s" by (auto simp: find_Some_iff in_set_conv_nth)
    from "1.IH" [OF Some] obtain vs where vs: "set vs \<subseteq> set ws"
      "drop (length w) s = concat vs @ strip_all ws (drop (length w) s)" by blast
    have "s = w @ drop (length w) s" using \<open>prefix w s\<close> by (auto simp: prefix_def)
    with vs Some \<open>w \<in> set ws\<close> show ?thesis
      by (intro exI [of _ "w # vs"]) (simp add: strip_all.simps [of ws s])
  qed
qed

lemma strip_all_stuck: "strip_all ws (strip_all ws s) = strip_all ws s"
proof (induction ws s rule: strip_all.induct)
  case (1 ws s)
  then show ?case
    by (cases "find (\<lambda>w. w \<noteq> [] \<and> prefix w s) ws") (simp_all add: strip_all.simps [of ws s])
qed

text \<open>Blank strings are exactly the concatenations of white-space characters.\<close>

lemma blank_iff: "blank s \<longleftrightarrow> (\<exists>vs. set vs \<subseteq> set white_space \<and> s = concat vs)"
proof
  assume "blank s"
  then have r: "strip_all (map rev white_space) (rev (trim_start s)) = []"
    by (simp add: blank_def trim_def trim_end_def)
  obtain us where us: "set us \<subseteq> set (map rev white_space)"
    "rev (trim_start s) = concat us"
    using strip_all_split [of "map rev white_space" "rev (trim_start s)"] r by auto
  then have "trim_start s = concat (rev (map rev us))"
    by (metis rev_concat rev_map rev_rev_ident)
  moreover have "set (rev (map rev us)) \<subseteq> set white_space" using us(1) by auto
  moreover obtain vs where "set vs \<subseteq> set white_space" "s = concat vs @ trim_start s"
    using strip_all_split [of white_space s] by (auto simp: trim_start_def)
  ultimately show "\<exists>vs. set vs \<subseteq> set white_space \<and> s = concat vs"
    by (intro exI [of _ "vs @ rev (map rev us)"]) (auto simp del: rev_map)
next
  assume "\<exists>vs. set vs \<subseteq> set white_space \<and> s = concat vs"
  then obtain vs where "set vs \<subseteq> set white_space" "s = concat vs" by blast
  then have "trim_start s = []"
    using strip_all_concat [OF prefix_code_white_space, of vs "[]"] by (simp add: trim_start_def)
  then show "blank s" by (simp add: blank_def trim_def trim_end_def)
qed

lemma blank_append: "blank s \<Longrightarrow> blank t \<Longrightarrow> blank (s @ t)"
  unfolding blank_iff by (metis concat_append le_sup_iff set_append)

lemma blank_Nil [simp]: "blank []"
  by (simp add: blank_def trim_def trim_start_def trim_end_def)

lemma blank_newlines: "blank (replicate n (CHR 0x0A))"
proof -
  have "[CHR 0x0A] \<in> set white_space" by (simp add: white_space_def)
  then show ?thesis
    unfolding blank_iff
    by (intro exI [of _ "replicate n [CHR 0x0A]"]) (induction n; auto)
qed

end
