(* ===== verification/Text.thy ===== *)
theory Text
  imports Prelude
begin

text \<open>
  Cutting text at byte limits (\<open>crates/astra-gateway/src/text.rs\<close>, and the message splitter and
  the small formatters of \<open>runner.rs\<close>). Slicing a \<open>str\<close> off a character boundary panics in
  Rust, so a slice is an \<open>option\<close> here and \<open>None\<close> is the panic; the splitter, whose loop does
  not end on every input, is a partial function and \<open>None\<close> means that it does not return.
\<close>

section \<open>text.rs\<close>

text \<open>\<open>&s[..n]\<close>\<close>

definition slice_to :: "string \<Rightarrow> nat \<Rightarrow> string option" where
  "slice_to s n = (if is_char_boundary s n then Some (take n s) else None)"

fun fcb_loop :: "string \<Rightarrow> nat \<Rightarrow> nat" where
  "fcb_loop s e = (if 0 < e \<and> \<not> is_char_boundary s e then fcb_loop s (e - 1) else e)"

declare fcb_loop.simps [simp del]

definition floor_char_boundary :: "string \<Rightarrow> nat \<Rightarrow> nat" where
  "floor_char_boundary s max_bytes =
     (if length s \<le> max_bytes then length s else fcb_loop s max_bytes)"

definition safe_prefix :: "string \<Rightarrow> nat \<Rightarrow> string option" where
  "safe_prefix s max_bytes = slice_to s (floor_char_boundary s max_bytes)"

definition truncate_with_suffix :: "string \<Rightarrow> nat \<Rightarrow> string \<Rightarrow> string option" where
  "truncate_with_suffix s max_bytes suff =
     (if length s \<le> max_bytes then Some s
      else let prefix_budget = max_bytes - length suff
           in map_option (\<lambda>p. p @ suff) (safe_prefix s prefix_budget))"

lemma fcb_loop_bound: "fcb_loop s e \<le> e"
  by (induction s e rule: fcb_loop.induct) (subst fcb_loop.simps, auto)

lemma fcb_loop_boundary: "is_char_boundary s (fcb_loop s e)"
proof (induction s e rule: fcb_loop.induct)
  case (1 s e)
  then show ?case
    by (cases "0 < e \<and> \<not> is_char_boundary s e") (auto simp: fcb_loop.simps [of s e])
qed

lemma fcb_loop_greatest:
  "is_char_boundary s k \<Longrightarrow> k \<le> e \<Longrightarrow> k \<le> fcb_loop s e"
proof (induction s e rule: fcb_loop.induct)
  case (1 s e)
  show ?case
  proof (cases "0 < e \<and> \<not> is_char_boundary s e")
    case True
    with "1.prems" have "k \<le> e - 1" by (cases "k = e") auto
    with True "1.IH" "1.prems" show ?thesis by (simp add: fcb_loop.simps [of s e])
  next
    case False
    with "1.prems" show ?thesis by (auto simp: fcb_loop.simps [of s e])
  qed
qed

lemma floor_char_boundary_boundary: "is_char_boundary s (floor_char_boundary s n)"
  by (simp add: floor_char_boundary_def fcb_loop_boundary)

lemma floor_char_boundary_bound: "floor_char_boundary s n \<le> min n (length s)"
  using fcb_loop_bound [of s n] by (auto simp: floor_char_boundary_def)

lemma floor_char_boundary_greatest:
  "is_char_boundary s k \<Longrightarrow> k \<le> n \<Longrightarrow> k \<le> floor_char_boundary s n"
  by (auto simp: floor_char_boundary_def fcb_loop_greatest is_char_boundary_def split: if_splits)

lemma safe_prefix_Some: "safe_prefix s n = Some (take (floor_char_boundary s n) s)"
  by (simp add: safe_prefix_def slice_to_def floor_char_boundary_boundary)

lemma truncate_with_suffix_total: "truncate_with_suffix s n suff \<noteq> None"
  by (simp add: truncate_with_suffix_def safe_prefix_Some Let_def)

lemma truncate_with_suffix_length:
  assumes "truncate_with_suffix s n suff = Some r"
  shows "length r \<le> max n (length suff)"
  using assms floor_char_boundary_bound [of s "n - length suff"]
  by (auto simp: truncate_with_suffix_def safe_prefix_Some Let_def split: if_splits)

text \<open>A cut less than four bytes below the budget: characters have at most three continuation
  bytes, which the hypothesis says of the text.\<close>

lemma fcb_loop_close:
  assumes "\<And>i. i + 3 < length s \<Longrightarrow> \<exists>k\<le>3. \<not> is_cont (s ! (i + k))"
    and "e < length s" and "3 \<le> e"
  shows "e \<le> fcb_loop s e + 3"
proof -
  obtain k where "k \<le> 3" "\<not> is_cont (s ! (e - 3 + k))"
    using assms(1) [of "e - 3"] assms(2,3) by auto
  moreover have "e - 3 + k < length s" using \<open>k \<le> 3\<close> assms(2,3) by linarith
  ultimately have "is_char_boundary s (e - 3 + k)" by (simp add: is_char_boundary_def)
  then have "e - 3 + k \<le> fcb_loop s e" using \<open>k \<le> 3\<close> assms(3) by (intro fcb_loop_greatest) auto
  then show ?thesis by simp
qed


section \<open>The message splitter of runner.rs\<close>

definition MAX_CHUNK_LEN :: nat where
  "MAX_CHUNK_LEN = 3800"

definition fence :: string where
  "fence = ''```''"

text \<open>\<open>s.matches(pat).count()\<close>: occurrences from the left, without overlap\<close>

function count_sub :: "string \<Rightarrow> string \<Rightarrow> nat" where
  "count_sub pat s =
     (case s of [] \<Rightarrow> 0
      | c # t \<Rightarrow> if pat \<noteq> [] \<and> prefix pat s then Suc (count_sub pat (drop (length pat) s))
                else count_sub pat t)"
  by pat_completeness auto
termination
  by (relation "measure (\<lambda>(pat, s). length s)") auto

declare count_sub.simps [simp del]

function paragraph_break_before :: "string \<Rightarrow> nat \<Rightarrow> nat option" where
  "paragraph_break_before s pos =
     (if 0 < pos then
        (case rfind_sub [CHR 0x0A, CHR 0x0A] (take pos s) of
           Some p \<Rightarrow> if even (count_sub fence (take p s)) then Some p
                     else paragraph_break_before s p
         | None \<Rightarrow> None)
      else None)"
  by pat_completeness auto
termination
  by (relation "measure (\<lambda>(s, pos). pos)") (auto dest!: rfind_sub_bound)

declare paragraph_break_before.simps [simp del]

definition rfind_paragraph_break :: "string \<Rightarrow> nat option" where
  "rfind_paragraph_break s = paragraph_break_before s (length s)"

function fence_break_before :: "string \<Rightarrow> nat \<Rightarrow> nat option" where
  "fence_break_before s search =
     (if 3 < search then
        (case rfind_sub fence (take search s) of
           Some p \<Rightarrow>
             (let after_fence = p + 3
              in if after_fence < length s \<and> s ! after_fence = CHR 0x0A then Some (after_fence + 1)
                 else fence_break_before s p)
         | None \<Rightarrow> None)
      else None)"
  by pat_completeness auto
termination
  by (relation "measure (\<lambda>(s, search). search)") (auto dest!: rfind_sub_bound simp: fence_def)

declare fence_break_before.simps [simp del]

definition rfind_fence_break :: "string \<Rightarrow> nat option" where
  "rfind_fence_break s = fence_break_before s (length s)"

definition choose_split :: "string \<Rightarrow> nat" where
  "choose_split window =
     (case or_else (rfind_paragraph_break window)
             (or_else (rfind_fence_break window)
               (or_else (rfind_sub [CHR 0x0A] window) (rfind_sub [CHR '' ''] window))) of
        Some p \<Rightarrow> p
      | None \<Rightarrow> length window)"

text \<open>One turn of the loop body for a remainder above the limit: the chunk cut off and the text
  left for the next turn.\<close>

definition split_turn :: "nat \<Rightarrow> string \<Rightarrow> string \<times> string" where
  "split_turn limit remaining =
     (let window_end = floor_char_boundary remaining limit;
          window = take window_end remaining;
          split_at = choose_split window;
          chunk = take split_at remaining;
          rest = trim_start_matches (CHR 0x0A) (drop split_at remaining);
          rest' = (if starts_with rest [CHR 0x0A] then trim_start_matches (CHR 0x0A) rest else rest)
      in (chunk, rest'))"

partial_function (option) split_loop :: "nat \<Rightarrow> string list \<Rightarrow> string \<Rightarrow> string list option" where
  "split_loop limit chunks remaining =
     (if remaining = [] then Some chunks
      else if length remaining \<le> limit then
        Some (if trim remaining \<noteq> [] then chunks @ [remaining] else chunks)
      else (case split_turn limit remaining of
        (chunk, rest) \<Rightarrow>
          split_loop limit (if trim chunk \<noteq> [] then chunks @ [chunk] else chunks) rest))"

definition split_message_at :: "nat \<Rightarrow> string \<Rightarrow> string list option" where
  "split_message_at limit text =
     (if length text \<le> limit then Some [text] else split_loop limit [] text)"

definition split_message :: "string \<Rightarrow> string list option" where
  "split_message text = split_message_at MAX_CHUNK_LEN text"

subsection \<open>Bounds of a turn\<close>

lemma paragraph_break_before_bound:
  "paragraph_break_before s pos = Some p \<Longrightarrow> p + 2 \<le> length s"
proof (induction s pos rule: paragraph_break_before.induct)
  case (1 s pos)
  then show ?case
    by (cases "rfind_sub [CHR 0x0A, CHR 0x0A] (take pos s)")
       (auto simp: paragraph_break_before.simps [of s pos] dest!: rfind_sub_bound split: if_splits)
qed

lemma fence_break_before_bound:
  "fence_break_before s pos = Some p \<Longrightarrow> 4 \<le> p \<and> p \<le> length s"
proof (induction s pos rule: fence_break_before.induct)
  case (1 s pos)
  then show ?case
    by (cases "rfind_sub fence (take pos s)")
       (auto simp: fence_break_before.simps [of s pos] Let_def split: if_splits)
qed

lemma choose_split_bound: "choose_split w \<le> length w"
  by (auto simp: choose_split_def or_else_def rfind_paragraph_break_def rfind_fence_break_def
      dest!: paragraph_break_before_bound fence_break_before_bound rfind_sub_bound
      split: option.splits)


lemma trim_start_matches_split: "\<exists>n. s = replicate n c @ trim_start_matches c s"
proof (induction s)
  case (Cons x s)
  then obtain n where n: "s = replicate n c @ trim_start_matches c s" by blast
  show ?case
  proof (cases "x = c")
    case True
    with n have "x # s = replicate (Suc n) c @ trim_start_matches c (x # s)"
      by (simp add: trim_start_matches_def)
    then show ?thesis by blast
  next
    case False
    then have "x # s = replicate 0 c @ trim_start_matches c (x # s)"
      by (simp add: trim_start_matches_def)
    then show ?thesis by blast
  qed
qed (simp add: trim_start_matches_def)

lemma trim_start_matches_idem:
  "trim_start_matches c (trim_start_matches c s) = trim_start_matches c s"
  by (simp add: trim_start_matches_def dropWhile_idem)

lemma split_turn_eq:
  "split_turn limit r =
     (let k = choose_split (take (floor_char_boundary r limit) r)
      in (take k r, trim_start_matches (CHR 0x0A) (drop k r)))"
  by (simp add: split_turn_def Let_def trim_start_matches_idem)

lemma split_turn_parts:
  assumes "split_turn limit r = (c, rest)"
  shows "\<exists>n. r = c @ replicate n (CHR 0x0A) @ rest" and "length c \<le> limit"
proof -
  define k where "k = choose_split (take (floor_char_boundary r limit) r)"
  from assms have c: "c = take k r" and rest: "rest = trim_start_matches (CHR 0x0A) (drop k r)"
    by (simp_all add: split_turn_eq k_def Let_def)
  from rest obtain n where "drop k r = replicate n (CHR 0x0A) @ rest"
    using trim_start_matches_split by blast
  then have "r = c @ replicate n (CHR 0x0A) @ rest" by (metis c append_take_drop_id)
  then show "\<exists>n. r = c @ replicate n (CHR 0x0A) @ rest" by blast
  have "k \<le> floor_char_boundary r limit"
    using choose_split_bound [of "take (floor_char_boundary r limit) r"] by (simp add: k_def)
  then show "length c \<le> limit" using floor_char_boundary_bound [of r limit] by (simp add: c)
qed

subsection \<open>What a result looks like\<close>

text \<open>\<open>laid_out t cs\<close>: the pieces \<open>cs\<close> appear in \<open>t\<close> in order, and only blank text lies between
  and around them.\<close>

inductive laid_out :: "string \<Rightarrow> string list \<Rightarrow> bool" where
  nothing: "blank t \<Longrightarrow> laid_out t []"
| piece: "blank g \<Longrightarrow> laid_out t cs \<Longrightarrow> laid_out (g @ c @ t) (c # cs)"

inductive_cases laid_out_NilE: "laid_out t []"
inductive_cases laid_out_ConsE: "laid_out t (c # cs)"

lemma laid_out_blank: "blank g \<Longrightarrow> laid_out t cs \<Longrightarrow> laid_out (g @ t) cs"
proof (induction cs arbitrary: t)
  case Nil
  then show ?case by (auto elim: laid_out_NilE intro: laid_out.nothing blank_append)
next
  case (Cons c cs)
  from Cons.prems(2) obtain g' t' where "t = g' @ c @ t'" "blank g'" "laid_out t' cs"
    by (rule laid_out_ConsE)
  with Cons.prems(1) have "laid_out ((g @ g') @ c @ t') (c # cs)"
    by (blast intro: laid_out.piece blank_append)
  with \<open>t = _\<close> show ?case by simp
qed

lemma laid_out_snoc: "laid_out t cs \<Longrightarrow> laid_out (t @ c) (cs @ [c])"
proof (induction rule: laid_out.induct)
  case (nothing t)
  have "laid_out [] []" by (rule laid_out.nothing) simp
  moreover have "blank t" by fact
  ultimately have "laid_out (t @ c @ []) [c]" by (blast intro: laid_out.piece)
  then show ?case by simp
next
  case (piece g t cs d)
  then show ?case using laid_out.piece [of g "t @ c" "cs @ [c]" d] by simp
qed

lemma laid_out_append_blank: "laid_out t cs \<Longrightarrow> blank g \<Longrightarrow> laid_out (t @ g) cs"
proof (induction rule: laid_out.induct)
  case (nothing t)
  then show ?case by (blast intro: laid_out.nothing blank_append)
next
  case (piece h t cs d)
  then show ?case using laid_out.piece [of h "t @ g" cs d] by simp
qed

text \<open>What holds of the pieces collected so far holds of the result, if there is one.\<close>

lemma split_loop_inv:
  assumes ret: "split_loop limit chunks r = Some cs"
  shows "(\<forall>s. laid_out s chunks \<longrightarrow> laid_out (s @ r) cs) \<and>
     (\<forall>c \<in> set cs. c \<in> set chunks \<or> length c \<le> limit \<and> \<not> blank c)"
proof (rule split_loop.raw_induct
    [where P = "\<lambda>limit chunks r cs. (\<forall>s. laid_out s chunks \<longrightarrow> laid_out (s @ r) cs) \<and>
     (\<forall>c \<in> set cs. c \<in> set chunks \<or> length c \<le> limit \<and> \<not> blank c)", OF _ ret])
  fix f limit chunks r cs
  assume IH: "\<And>limit chunks r cs. f limit chunks r = Some cs \<Longrightarrow>
      (\<forall>s. laid_out s chunks \<longrightarrow> laid_out (s @ r) cs) \<and>
      (\<forall>c \<in> set cs. c \<in> set chunks \<or> length c \<le> limit \<and> \<not> blank c)"
    and eq: "(if r = [] then Some chunks
      else if length r \<le> limit then Some (if trim r \<noteq> [] then chunks @ [r] else chunks)
      else (case split_turn limit r of (chunk, rest) \<Rightarrow>
          f limit (if trim chunk \<noteq> [] then chunks @ [chunk] else chunks) rest)) = Some cs"
  consider "r = []" | "r \<noteq> []" "length r \<le> limit" | "r \<noteq> []" "\<not> length r \<le> limit" by blast
  then show "(\<forall>s. laid_out s chunks \<longrightarrow> laid_out (s @ r) cs) \<and>
      (\<forall>c \<in> set cs. c \<in> set chunks \<or> length c \<le> limit \<and> \<not> blank c)"
  proof cases
    case 1
    with eq show ?thesis by simp
  next
    case 2
    with eq show ?thesis
      by (auto simp: blank_def laid_out_snoc intro: laid_out_append_blank split: if_splits)
  next
    case 3
    obtain c rest where t: "split_turn limit r = (c, rest)" by fastforce
    from split_turn_parts [OF t] obtain n where
      r: "r = c @ replicate n (CHR 0x0A) @ rest" and "length c \<le> limit" by blast
    define chunks' where "chunks' = (if trim c \<noteq> [] then chunks @ [c] else chunks)"
    from 3 eq t have "f limit chunks' rest = Some cs" by (simp add: chunks'_def)
    note ih = IH [OF this]
    have "laid_out (s @ c) chunks'" if "laid_out s chunks" for s
      using that by (simp add: chunks'_def laid_out_snoc laid_out_append_blank blank_def)
    then have "laid_out ((s @ c) @ replicate n (CHR 0x0A)) chunks'" if "laid_out s chunks" for s
      using that by (blast intro: laid_out_append_blank blank_newlines)
    with ih have "\<forall>s. laid_out s chunks \<longrightarrow> laid_out (((s @ c) @ replicate n (CHR 0x0A)) @ rest) cs"
      by blast
    then have "\<forall>s. laid_out s chunks \<longrightarrow> laid_out (s @ r) cs" by (simp add: r)
    moreover have "\<forall>c \<in> set cs. c \<in> set chunks \<or> length c \<le> limit \<and> \<not> blank c"
      using ih \<open>length c \<le> limit\<close> by (auto simp: chunks'_def blank_def split: if_splits)
    ultimately show ?thesis by blast
  qed
qed


subsection \<open>When the loop ends, and when it does not\<close>

text \<open>Every character starts within four bytes of the one before: true of UTF-8.\<close>

definition utf8_spaced :: "string \<Rightarrow> bool" where
  "utf8_spaced s \<longleftrightarrow> (\<forall>i. i + 3 < length s \<longrightarrow> (\<exists>k\<le>3. \<not> is_cont (s ! (i + k))))"

lemma utf8_spaced_drop: "utf8_spaced (u @ s) \<Longrightarrow> utf8_spaced s"
proof (unfold utf8_spaced_def, intro allI impI)
  fix i
  assume u: "\<forall>i. i + 3 < length (u @ s) \<longrightarrow> (\<exists>k\<le>3. \<not> is_cont ((u @ s) ! (i + k)))"
    and i: "i + 3 < length s"
  from i have "(length u + i) + 3 < length (u @ s)" by simp
  with u obtain k where "k \<le> 3" "\<not> is_cont ((u @ s) ! (length u + i + k))" by blast
  then show "\<exists>k\<le>3. \<not> is_cont (s ! (i + k))" by (auto simp: nth_append add.assoc)
qed

lemma paragraph_break_before_found:
  "paragraph_break_before s pos = Some p \<Longrightarrow> \<exists>q. rfind_sub [CHR 0x0A, CHR 0x0A] (take q s) = Some p"
proof (induction s pos rule: paragraph_break_before.induct)
  case (1 s pos)
  then show ?case
    by (cases "rfind_sub [CHR 0x0A, CHR 0x0A] (take pos s)")
       (auto simp: paragraph_break_before.simps [of s pos] split: if_splits)
qed

lemma rfind_sub_0_hd: "rfind_sub (c # pat) w = Some 0 \<Longrightarrow> \<exists>t. w = c # t"
  by (auto dest!: rfind_sub_Some)

lemma choose_split_0:
  assumes "choose_split w = 0" and "w \<noteq> []"
  shows "hd w = CHR 0x0A \<or> hd w = CHR '' ''"
proof -
  from assms consider "rfind_paragraph_break w = Some 0" | "rfind_fence_break w = Some 0"
    | "rfind_sub [CHR 0x0A] w = Some 0" | "rfind_sub [CHR '' ''] w = Some 0"
    by (auto simp: choose_split_def or_else_def split: option.splits)
  then show ?thesis
  proof cases
    case 1
    then obtain q where "rfind_sub [CHR 0x0A, CHR 0x0A] (take q w) = Some 0"
      by (auto simp: rfind_paragraph_break_def dest: paragraph_break_before_found)
    then obtain t where "take q w = CHR 0x0A # t" by (auto dest: rfind_sub_0_hd)
    then show ?thesis by (cases w; cases q) auto
  next
    case 2
    then show ?thesis by (auto simp: rfind_fence_break_def dest: fence_break_before_bound)
  next
    case 3
    then show ?thesis by (auto dest: rfind_sub_0_hd)
  next
    case 4
    then show ?thesis by (auto dest: rfind_sub_0_hd)
  qed
qed

lemma split_turn_progress:
  assumes "utf8_spaced r" and "CHR '' '' \<notin> set r" and "4 \<le> limit" and "limit < length r"
    and "split_turn limit r = (c, rest)"
  shows "length rest < length r"
proof -
  define w where "w = take (floor_char_boundary r limit) r"
  define k where "k = choose_split w"
  have "limit \<le> floor_char_boundary r limit + 3"
    using assms(1,3,4) fcb_loop_close [of r limit]
    by (simp add: floor_char_boundary_def utf8_spaced_def)
  with assms(3,4) have "w \<noteq> []" by (auto simp: w_def)
  have rest: "rest = trim_start_matches (CHR 0x0A) (drop k r)"
    using assms(5) by (simp add: split_turn_eq k_def w_def Let_def)
  obtain x xs where r: "r = x # xs" using assms(4) by (cases r) auto
  with \<open>w \<noteq> []\<close> have hd: "hd w = x" by (auto simp: w_def take_Cons split: nat.splits)
  have le: "length (trim_start_matches (CHR 0x0A) s) \<le> length s" for s :: string
    by (simp add: trim_start_matches_def length_dropWhile_le)
  show ?thesis
  proof (cases "k = 0")
    case True
    with choose_split_0 [of w] \<open>w \<noteq> []\<close> hd assms(2) r have "x = CHR 0x0A" by (auto simp: k_def)
    with True rest r have "rest = trim_start_matches (CHR 0x0A) xs"
      by (simp add: trim_start_matches_def)
    with le [of xs] r show ?thesis by simp
  next
    case False
    with le [of "drop k r"] rest r show ?thesis by simp
  qed
qed

lemma split_loop_returns:
  "utf8_spaced r \<Longrightarrow> CHR '' '' \<notin> set r \<Longrightarrow> 4 \<le> limit \<Longrightarrow> \<exists>cs. split_loop limit chunks r = Some cs"
proof (induction "length r" arbitrary: r chunks rule: less_induct)
  case less
  show ?case
  proof (cases "r = [] \<or> length r \<le> limit")
    case True
    then show ?thesis by (auto simp: split_loop.simps [of limit chunks r])
  next
    case False
    obtain c rest where t: "split_turn limit r = (c, rest)" by fastforce
    from split_turn_parts(1) [OF t] obtain n where
      r: "r = (c @ replicate n (CHR 0x0A)) @ rest" by auto
    with less.prems have "utf8_spaced rest" "CHR '' '' \<notin> set rest"
      by (metis utf8_spaced_drop, auto)
    moreover have "length rest < length r" using split_turn_progress [OF less.prems _ t] False by simp
    ultimately obtain cs where
      "split_loop limit (if trim c \<noteq> [] then chunks @ [c] else chunks) rest = Some cs"
      using less.hyps less.prems(3) by blast
    with t False show ?thesis by (simp add: split_loop.simps [of limit chunks r])
  qed
qed

text \<open>A remainder that begins with its only space, and has no line feed, is cut at offset 0 and
  comes back unchanged.\<close>

definition stuck :: "nat \<Rightarrow> string \<Rightarrow> bool" where
  "stuck limit r \<longleftrightarrow> (\<exists>w. r = CHR '' '' # w \<and> limit \<le> length w \<and> CHR '' '' \<notin> set w \<and>
     CHR 0x0A \<notin> set w)"

lemma rfind_sub_absent: "c \<in> set pat \<Longrightarrow> c \<notin> set w \<Longrightarrow> rfind_sub pat w = None"
  by (metis rfind_sub_None set_mono_sublist subsetD)

lemma fence_break_before_no_newline:
  "CHR 0x0A \<notin> set s \<Longrightarrow> fence_break_before s q = None"
proof (induction s q rule: fence_break_before.induct)
  case (1 s q)
  then show ?case
    by (cases "rfind_sub fence (take q s)")
       (auto simp: fence_break_before.simps [of s q] Let_def dest: nth_mem)
qed

lemma rfind_paragraph_break_no_newline:
  assumes "CHR 0x0A \<notin> set s"
  shows "rfind_paragraph_break s = None"
proof (cases "rfind_paragraph_break s")
  case (Some p)
  then obtain q where "rfind_sub [CHR 0x0A, CHR 0x0A] (take q s) = Some p"
    by (auto simp: rfind_paragraph_break_def dest: paragraph_break_before_found)
  with assms show ?thesis using rfind_sub_absent [of "CHR 0x0A" _ "take q s"]
    by (metis in_set_takeD list.set_intros(1) option.distinct(1))
qed

lemma choose_split_last_space:
  assumes "CHR 0x0A \<notin> set (a @ CHR '' '' # w)" and "CHR '' '' \<notin> set w"
  shows "choose_split (a @ CHR '' '' # w) = length a"
proof -
  have "rfind_sub [CHR 0x0A] (a @ CHR '' '' # w) = None"
    using assms(1) by (intro rfind_sub_absent [of "CHR 0x0A"]) auto
  moreover have "rfind_sub [CHR '' ''] (a @ CHR '' '' # w) = Some (length a)"
    using rfind_sub_absent [of "CHR '' ''" "[CHR '' '']" w] assms(2) by (induction a) auto
  ultimately show ?thesis
    using assms(1) rfind_paragraph_break_no_newline [of "a @ CHR '' '' # w"]
      fence_break_before_no_newline [of "a @ CHR '' '' # w"]
    by (simp add: choose_split_def or_else_def rfind_fence_break_def)
qed

lemma choose_split_Nil: "choose_split [] = 0"
  using choose_split_bound [of "[]"] by simp

lemma split_turn_stuck:
  assumes "stuck limit r"
  shows "split_turn limit r = ([], r)"
proof -
  from assms obtain w where r: "r = CHR '' '' # w" and
    w: "CHR '' '' \<notin> set w" "CHR 0x0A \<notin> set w" by (auto simp: stuck_def)
  have "choose_split (take (floor_char_boundary r limit) r) = 0"
  proof (cases "floor_char_boundary r limit")
    case (Suc n)
    with w show ?thesis by (auto simp: r intro!: choose_split_last_space [of "[]", simplified] dest: in_set_takeD)
  qed (simp add: choose_split_Nil)
  then show ?thesis by (simp add: split_turn_eq r trim_start_matches_def)
qed

lemma split_loop_stuck:
  assumes "stuck limit r"
  shows "split_loop limit chunks r = None"
proof -
  have "\<not> stuck limit r" if ret: "split_loop limit chunks r = Some cs" for cs
  proof (rule split_loop.raw_induct
      [where P = "\<lambda>limit chunks r cs. \<not> stuck limit r", OF _ ret])
    fix f limit chunks r cs
    assume IH: "\<And>limit chunks r cs. f limit chunks r = Some cs \<Longrightarrow> \<not> stuck limit r"
      and eq: "(if r = [] then Some chunks
        else if length r \<le> limit then Some (if trim r \<noteq> [] then chunks @ [r] else chunks)
        else (case split_turn limit r of (chunk, rest) \<Rightarrow>
            f limit (if trim chunk \<noteq> [] then chunks @ [chunk] else chunks) rest)) = Some cs"
    show "\<not> stuck limit r"
    proof
      assume st: "stuck limit r"
      then have "r \<noteq> []" "\<not> length r \<le> limit" by (auto simp: stuck_def)
      with eq split_turn_stuck [OF st] IH st show False by fastforce
    qed
  qed
  with assms show ?thesis by (cases "split_loop limit chunks r") auto
qed


lemma split_message_at_pieces:
  assumes "split_message_at limit t = Some cs"
  shows "laid_out t cs" and "c \<in> set cs \<Longrightarrow> length c \<le> limit"
proof -
  have "laid_out t [t]" using laid_out_snoc [OF laid_out.nothing [OF blank_Nil], of t] by simp
  moreover have "laid_out [] []" by (simp add: laid_out.nothing)
  ultimately show "laid_out t cs" and "c \<in> set cs \<Longrightarrow> length c \<le> limit"
    using assms split_loop_inv [of limit "[]" t cs]
    by (auto simp: split_message_at_def split: if_splits)
qed

lemma split_message_at_returns:
  "utf8_spaced t \<Longrightarrow> CHR '' '' \<notin> set t \<Longrightarrow> 4 \<le> limit \<Longrightarrow> \<exists>cs. split_message_at limit t = Some cs"
  by (simp add: split_message_at_def split_loop_returns)

section \<open>Properties\<close>

text \<open>
  Property C39: if the splitter returns, every piece fits the platform limit of 3800 bytes, and the message
  consists of the pieces in their order with only blank text before, between and after them. That
  blank text is dropped, so the pieces need not put the message together again; but no character that is not
  blank is lost, repeated or moved. That it returns is not said here: on some messages it does not.
\<close>

theorem split_message_pieces:
  assumes "split_message t = Some cs"
  shows "laid_out t cs \<and> (\<forall>c \<in> set cs. length c \<le> 3800)"
  using assms split_message_at_pieces [of 3800 t cs] by (auto simp: split_message_def MAX_CHUNK_LEN_def)

lemma split_message_pieces_witness:
  "\<exists>cs. split_message (replicate 9000 (CHR ''x'')) = Some cs \<and>
     laid_out (replicate 9000 (CHR ''x'')) cs \<and> (\<forall>c \<in> set cs. length c \<le> 3800)"
proof -
  have "utf8_spaced (replicate 9000 (CHR ''x''))" by (auto simp: utf8_spaced_def is_cont_def)
  then have "\<exists>cs. split_message_at 3800 (replicate 9000 (CHR ''x'')) = Some cs"
    by (rule split_message_at_returns) auto
  then obtain cs where "split_message (replicate 9000 (CHR ''x'')) = Some cs"
    by (auto simp: split_message_def MAX_CHUNK_LEN_def)
  with split_message_pieces [OF this] show ?thesis by blast
qed

text \<open>The splitter's loop ends on every well-formed message without a space
  character, whatever its length and its line breaks.\<close>

theorem split_message_terminates:
  assumes "utf8_spaced t" and "CHR '' '' \<notin> set t"
  shows "\<exists>cs. split_message t = Some cs"
  using assms split_message_at_returns [of t 3800] by (simp add: split_message_def MAX_CHUNK_LEN_def)

lemma split_message_terminates_witness:
  "\<exists>cs. split_message (replicate 5000 (CHR 0x0A) @ replicate 5000 (CHR ''x'')) = Some cs"
proof -
  have "utf8_spaced (replicate 5000 (CHR 0x0A) @ replicate 5000 (CHR ''x''))"
    by (auto simp: utf8_spaced_def is_cont_def nth_append intro!: exI [of _ 0])
  then show ?thesis by (rule split_message_terminates) auto
qed

text \<open>Property C40: the splitter does not return on a message whose first word, short of the
  limit, is followed by one space and then by at least 3800 bytes without a space or a line
  feed (Chinese text, a URL, base64): it cuts before the space, and then cuts the rest, which
  begins with that space, at offset 0 for ever.\<close>

theorem split_message_diverges:
  assumes "CHR '' '' \<notin> set a" and "CHR 0x0A \<notin> set a" and "length a < 3797"
    and "utf8_spaced (a @ CHR '' '' # w)"
    and "3800 \<le> length w" and "CHR '' '' \<notin> set w" and "CHR 0x0A \<notin> set w"
  shows "split_message (a @ CHR '' '' # w) = None"
proof -
  let ?t = "a @ CHR '' '' # w"
  define e where "e = floor_char_boundary ?t 3800"
  have "3800 \<le> e + 3"
    using assms(4,5) fcb_loop_close [of ?t 3800]
    by (auto simp: e_def floor_char_boundary_def utf8_spaced_def)
  with assms(3) have e: "take e ?t = a @ CHR '' '' # take (e - length a - 1) w"
    by (simp add: take_Cons')
  have "choose_split (take e ?t) = length a"
    unfolding e using assms by (intro choose_split_last_space) (auto dest: in_set_takeD)
  then have turn: "split_turn 3800 ?t = (a, CHR '' '' # w)"
    by (simp add: split_turn_eq e_def trim_start_matches_def)
  have "stuck 3800 (CHR '' '' # w)" using assms by (auto simp: stuck_def)
  then have "split_loop 3800 cs (CHR '' '' # w) = None" for cs by (rule split_loop_stuck)
  with turn assms(5) show ?thesis
    by (simp add: split_message_def MAX_CHUNK_LEN_def split_message_at_def
        split_loop.simps [of 3800 "[]" ?t])
qed

lemma split_message_diverges_witness:
  "split_message (''Link:'' @ CHR '' '' # replicate 3800 (CHR ''x'')) = None"
proof (rule split_message_diverges)
  show "utf8_spaced (''Link:'' @ CHR '' '' # replicate 3800 (CHR ''x''))"
    unfolding utf8_spaced_def
  proof (intro allI impI exI [of _ 0] conjI)
    fix i :: nat
    assume "i + 3 < length (''Link:'' @ CHR '' '' # replicate 3800 (CHR ''x''))"
    then have "(''Link:'' @ CHR '' '' # replicate 3800 (CHR ''x'')) ! i
        \<in> set (''Link:'' @ CHR '' '' # replicate 3800 (CHR ''x''))" by (intro nth_mem) simp
    then show "\<not> is_cont ((''Link:'' @ CHR '' '' # replicate 3800 (CHR ''x'')) ! (i + 0))"
      by (auto simp: is_cont_def)
  qed simp
qed auto

text \<open>\<open>safe_prefix\<close> never slices inside a character (it never panics), it returns the
  longest prefix within the byte budget that ends at a character boundary, and
  \<open>truncate_with_suffix\<close> always returns, within the budget whenever the suffix is.\<close>

theorem safe_prefix_correct:
  "\<exists>k. safe_prefix s n = Some (take k s) \<and> is_char_boundary s k \<and> k \<le> n \<and>
     (\<forall>j \<le> n. is_char_boundary s j \<longrightarrow> j \<le> k) \<and>
     (\<exists>r. truncate_with_suffix s n suff = Some r \<and> length r \<le> max n (length suff))"
proof -
  obtain r where "truncate_with_suffix s n suff = Some r" using truncate_with_suffix_total by blast
  with truncate_with_suffix_length [OF this] show ?thesis
    using floor_char_boundary_bound [of s n]
    by (intro exI [of _ "floor_char_boundary s n"])
       (auto simp: safe_prefix_Some floor_char_boundary_boundary floor_char_boundary_greatest)
qed

lemma safe_prefix_correct_witness:
  "\<exists>k. safe_prefix [CHR ''a'', CHR 0xC3, CHR 0xA9] 2 = Some (take k [CHR ''a'', CHR 0xC3, CHR 0xA9]) \<and>
     k \<le> 2 \<and> 1 \<le> k"
proof -
  have b: "is_char_boundary [CHR ''a'', CHR 0xC3, CHR 0xA9] 1"
    by (simp add: is_char_boundary_def is_cont_def)
  with safe_prefix_correct [of "[CHR ''a'', CHR 0xC3, CHR 0xA9]" 2 "[]"] show ?thesis by fastforce
qed

end
