(* ===== verification/Cron.thy ===== *)
theory Cron
  imports Prelude
begin

text \<open>
  Cron expressions (\<open>store/mod.rs\<close>): which ones the gateway accepts and when the next run is.

  A \<open>NaiveDateTime\<close> is an \<open>int\<close>, the seconds since 1970-01-01 00:00:00, its fraction of a
  second dropped: every comparison in this code is between the current time and a whole second.
  Times are assumed to stay in the range of \<open>chrono\<close>'s calendar. The textual form
  \<open>%Y-%m-%d %H:%M:%S\<close> is left to the caller: the functions return the time it shows.
  The process-wide time-zone offset is an argument.
\<close>

section \<open>Acceptance\<close>

definition validate_cron_part :: "string \<Rightarrow> nat \<Rightarrow> nat \<Rightarrow> bool" where
  "validate_cron_part part lo hi =
     (let (base, step) = (case split_once (CHR ''/'') part of Some x \<Rightarrow> x | None \<Rightarrow> (part, [])) in
      if step \<noteq> [] \<and> (case parse_u32 step of Some n \<Rightarrow> \<not> 0 < n | None \<Rightarrow> True) then False
      else if base = ''*'' then True
      else case split_once (CHR ''-'') base of
        Some (a, b) \<Rightarrow>
          (case (parse_u32 a, parse_u32 b) of
             (Some start, Some stop) \<Rightarrow> start \<le> stop \<and> lo \<le> start \<and> stop \<le> hi
           | _ \<Rightarrow> False)
      | None \<Rightarrow>
          (case parse_u32 base of Some v \<Rightarrow> lo \<le> v \<and> v \<le> hi | None \<Rightarrow> False))"

definition validate_cron_field :: "string \<Rightarrow> nat \<Rightarrow> nat \<Rightarrow> bool" where
  "validate_cron_field field lo hi =
     (if field = [] then False
      else list_all (\<lambda>part. validate_cron_part part lo hi) (split_char (CHR '','') field))"

definition is_valid_cron_expr :: "string \<Rightarrow> bool" where
  "is_valid_cron_expr expr =
     (let parts = split_whitespace expr in
      if length parts \<noteq> 5 then False
      else validate_cron_field (parts ! 0) 0 59 \<and>
           validate_cron_field (parts ! 1) 0 23 \<and>
           validate_cron_field (parts ! 2) 1 31 \<and>
           validate_cron_field (parts ! 3) 1 12 \<and>
           validate_cron_field (parts ! 4) 0 7)"

section \<open>Calendar arithmetic\<close>

definition day_of :: "int \<Rightarrow> int" where
  "day_of t = t div 86400"

definition hour_of :: "int \<Rightarrow> nat" where
  "hour_of t = nat (t mod 86400 div 3600)"

definition minute_of :: "int \<Rightarrow> nat" where
  "minute_of t = nat (t mod 3600 div 60)"

text \<open>\<open>num_days_from_monday\<close>: the first of January 1970 was a Thursday.\<close>

definition weekday_of_day :: "int \<Rightarrow> nat" where
  "weekday_of_day d = nat ((d + 3) mod 7)"

definition and_hms_opt :: "int \<Rightarrow> nat \<Rightarrow> nat \<Rightarrow> int option" where
  "and_hms_opt d h m = (if h < 24 \<and> m < 60 then Some (d * 86400 + int h * 3600 + int m * 60) else None)"

definition or_time :: "int option \<Rightarrow> int \<Rightarrow> int" where
  "or_time x d = (case x of Some t \<Rightarrow> t | None \<Rightarrow> d)"

text \<open>\<open>FixedOffset::east_opt(hours * 3600)\<close>, with no offset where that fails\<close>

definition fixed_offset :: "int \<Rightarrow> int" where
  "fixed_offset hours = (if - 86400 < hours * 3600 \<and> hours * 3600 < 86400 then hours * 3600 else 0)"

definition to_utc :: "int \<Rightarrow> int \<Rightarrow> int" where
  "to_utc local offset = local - offset"

section \<open>Days of the week\<close>

text \<open>The addition wraps at 32 bits, as it does in a release build.\<close>

definition cron_dow_to_chrono :: "nat \<Rightarrow> nat" where
  "cron_dow_to_chrono cron_day = (cron_day + 6) mod 2 ^ 32 mod 7"

definition parse_dow_part :: "string \<Rightarrow> nat list" where
  "parse_dow_part part =
     (case split_once (CHR ''-'') part of
        Some (a, b) \<Rightarrow>
          (case (parse_u32 a, parse_u32 b) of
             (Some s, Some e) \<Rightarrow> map cron_dow_to_chrono [s..<Suc e]
           | _ \<Rightarrow> [])
      | None \<Rightarrow>
          (case parse_u32 part of Some d \<Rightarrow> [cron_dow_to_chrono d] | None \<Rightarrow> []))"

definition parse_dow :: "string \<Rightarrow> nat list" where
  "parse_dow s = concat (map parse_dow_part (split_char (CHR '','') s))"

section \<open>The next run\<close>

text \<open>\<open>for _ in 0..n\<close>: move one day forward until the weekday is wanted.\<close>

fun skip_days :: "nat \<Rightarrow> nat list \<Rightarrow> int \<Rightarrow> int" where
  "skip_days 0 targets d = d"
| "skip_days (Suc n) targets d =
     (if weekday_of_day d \<in> set targets then d else skip_days n targets (d + 1))"

text \<open>The second half of \<open>next_step_minutes\<close>: the hour is not fixed, or it is the current one.\<close>

definition next_step_here :: "int \<Rightarrow> nat \<Rightarrow> string \<Rightarrow> string \<Rightarrow> int \<Rightarrow> int" where
  "next_step_here now_local step hour_field dow_field offset =
     (let next_minute = (minute_of now_local div step + 1) * step;
          candidate =
            (if next_minute < 60
             then or_time (and_hms_opt (day_of now_local) (hour_of now_local) next_minute)
                    (now_local + int step * 60)
             else or_time (and_hms_opt (day_of (now_local + 3600)) (hour_of (now_local + 3600)) 0)
                    (now_local + int step * 60));
          target_days = (if dow_field \<noteq> ''*'' then parse_dow dow_field else [])
      in if target_days \<noteq> [] \<and> weekday_of_day (day_of candidate) \<notin> set target_days then
           (let hour = (if hour_field = ''*'' then 0
                        else case parse_u32 hour_field of Some h \<Rightarrow> h | None \<Rightarrow> 0);
                day = skip_days 8 target_days (day_of candidate + 1)
            in to_utc (or_time (and_hms_opt day hour 0) candidate) offset)
         else to_utc candidate offset)"

definition next_step_minutes :: "int \<Rightarrow> nat \<Rightarrow> string \<Rightarrow> string \<Rightarrow> int \<Rightarrow> int" where
  "next_step_minutes now_local step hour_field dow_field offset =
     (case (if hour_field \<noteq> ''*'' then parse_u32 hour_field else None) of
        Some target_hour \<Rightarrow>
          if hour_of now_local \<noteq> target_hour then
            (let today_target = or_time (and_hms_opt (day_of now_local) target_hour 0) now_local in
             if now_local < today_target then to_utc today_target offset
             else to_utc (today_target + 86400) offset)
          else next_step_here now_local step hour_field dow_field offset
      | None \<Rightarrow> next_step_here now_local step hour_field dow_field offset)"

text \<open>\<open>for _ in 0..8\<close> over times of day: only the day is looked at.\<close>

fun skip_times :: "nat \<Rightarrow> nat list \<Rightarrow> int \<Rightarrow> int" where
  "skip_times 0 targets t = t"
| "skip_times (Suc n) targets t =
     (if weekday_of_day (day_of t) \<in> set targets then t else skip_times n targets (t + 86400))"

definition next_fixed :: "int \<Rightarrow> string \<Rightarrow> string \<Rightarrow> string \<Rightarrow> int \<Rightarrow> int" where
  "next_fixed now_local minute_field hour_field dow_field offset =
     (let minute = (case parse_u32 minute_field of Some m \<Rightarrow> m | None \<Rightarrow> 0);
          hour = (case parse_u32 hour_field of Some h \<Rightarrow> h | None \<Rightarrow> 9);
          today_local = or_time (and_hms_opt (day_of now_local) hour minute) now_local;
          candidate = (if now_local < today_local then today_local else today_local + 86400);
          target_days = (if dow_field \<noteq> ''*'' then parse_dow dow_field else [])
      in to_utc (if target_days \<noteq> [] then skip_times 8 target_days candidate else candidate) offset)"

text \<open>\<open>next_cron_run_str_with_tz\<close> at the UTC time \<open>now_utc\<close>\<close>

definition next_cron_run :: "int \<Rightarrow> string \<Rightarrow> int \<Rightarrow> int" where
  "next_cron_run now_utc expr tz_offset_hours =
     (let offset = fixed_offset tz_offset_hours;
          now_local = now_utc + tz_offset_hours * 3600;
          parts = split_whitespace expr
      in if length parts \<noteq> 5 then now_utc + 86400
         else if parts ! 0 = ''*'' then next_step_minutes now_local 1 (parts ! 1) (parts ! 4) offset
         else case Option.bind (strip_prefix ''*/'' (parts ! 0)) parse_u32 of
           Some step \<Rightarrow>
             if 0 < step \<and> step < 60
             then next_step_minutes now_local step (parts ! 1) (parts ! 4) offset
             else next_fixed now_local (parts ! 0) (parts ! 1) (parts ! 4) offset
         | None \<Rightarrow> next_fixed now_local (parts ! 0) (parts ! 1) (parts ! 4) offset)"

section \<open>Preference keys\<close>

text \<open>A character outside ASCII letters and digits becomes one underscore, whatever its number
  of bytes.\<close>

definition key_safe :: "string \<Rightarrow> string" where
  "key_safe s = concat (map (\<lambda>c. if is_ascii_alphanumeric c then [c]
                                else if is_cont c then [] else ''_'') s)"

definition model_preference_key :: "string \<Rightarrow> string option \<Rightarrow> string" where
  "model_preference_key cli_name chat_id =
     (case chat_id of
        Some chat \<Rightarrow> ''model_override_'' @ key_safe cli_name @ ''_'' @ key_safe chat
      | None \<Rightarrow> ''model_override_'' @ key_safe cli_name)"

definition codex_model_selection_preference_key :: "string \<Rightarrow> string" where
  "codex_model_selection_preference_key chat_id = ''codex_model_selection_'' @ key_safe chat_id"

section \<open>Calendar facts\<close>

lemma and_hms_opt_Some:
  "and_hms_opt d h m = Some t \<longleftrightarrow> h < 24 \<and> m < 60 \<and> t = d * 86400 + int h * 3600 + int m * 60"
  by (auto simp: and_hms_opt_def)

lemma hm_parts:
  assumes "h < 24" and "m < 60"
  shows "day_of (d * 86400 + int h * 3600 + int m * 60) = d"
    and "hour_of (d * 86400 + int h * 3600 + int m * 60) = h"
    and "minute_of (d * 86400 + int h * 3600 + int m * 60) = m"
proof -
  let ?r = "int h * 3600 + int m * 60"
  have r: "0 \<le> ?r" "?r < 86400" using assms by auto
  have e: "d * 86400 + int h * 3600 + int m * 60 = d * 86400 + ?r" by simp
  show "day_of (d * 86400 + int h * 3600 + int m * 60) = d"
    unfolding e day_of_def using r by simp
  have "(d * 86400 + ?r) mod 86400 = ?r" using r by simp
  moreover have "?r div 3600 = int h" using assms by simp
  ultimately show "hour_of (d * 86400 + int h * 3600 + int m * 60) = h"
    unfolding e hour_of_def by simp
  have "(int m * 60 + (24 * d + int h) * 3600) mod 3600 = int m * 60 mod 3600"
    by (rule mod_mult_self1)
  moreover have "d * 86400 + int h * 3600 + int m * 60 = int m * 60 + (24 * d + int h) * 3600"
    by simp
  moreover have "int m * 60 mod 3600 = int m * 60" using assms by simp
  ultimately have "(d * 86400 + int h * 3600 + int m * 60) mod 3600 = int m * 60" by argo
  then show "minute_of (d * 86400 + int h * 3600 + int m * 60) = m"
    by (simp add: minute_of_def)
qed

lemma time_split:
  "t = day_of t * 86400 + int (hour_of t) * 3600 + int (minute_of t) * 60 + t mod 60"
  "hour_of t < 24" "minute_of t < 60"
proof -
  have m: "t mod 86400 mod 3600 = t mod 3600" "t mod 3600 mod 60 = t mod 60"
    by (simp_all add: mod_mod_cancel)
  have "0 \<le> t mod 86400 div 3600" "0 \<le> t mod 3600 div 60"
    by (simp_all add: pos_imp_zdiv_nonneg_iff)
  then have "int (hour_of t) = t mod 86400 div 3600" "int (minute_of t) = t mod 3600 div 60"
    by (simp_all add: hour_of_def minute_of_def)
  then show "t = day_of t * 86400 + int (hour_of t) * 3600 + int (minute_of t) * 60 + t mod 60"
    unfolding day_of_def
    using m div_mult_mod_eq [of t 86400] div_mult_mod_eq [of "t mod 86400" 3600]
      div_mult_mod_eq [of "t mod 3600" 60] by linarith
  have "t mod 86400 < 86400" "t mod 3600 < 3600" by simp_all
  then show "hour_of t < 24" "minute_of t < 60"
    by (auto simp: hour_of_def minute_of_def nat_less_iff intro!: div_less_iff_less_mult [THEN iffD2])
qed

lemma day_bounds: "day_of t * 86400 \<le> t" "t < (day_of t + 1) * 86400"
  unfolding day_of_def by presburger+

lemma cron_dow_less [simp]: "cron_dow_to_chrono d < 7"
  by (simp add: cron_dow_to_chrono_def)

lemma parse_dow_less: "d \<in> set (parse_dow s) \<Longrightarrow> d < 7"
  by (auto simp: parse_dow_def parse_dow_part_def split: option.splits)

lemma weekday_add: "weekday_of_day (d + int n) = (weekday_of_day d + n) mod 7"
proof -
  have "(d + 3) mod 7 = int (weekday_of_day d)"
    by (simp add: weekday_of_day_def)
  moreover have "(d + int n + 3) mod 7 = ((d + 3) mod 7 + int n) mod 7"
    by (simp only: mod_add_left_eq) (simp only: ac_simps)
  ultimately have "(d + int n + 3) mod 7 = int ((weekday_of_day d + n) mod 7)"
    by (simp add: zmod_int)
  then show ?thesis
    unfolding weekday_of_day_def [of "d + int n"] by (simp only: nat_int)
qed

lemma weekday_less: "weekday_of_day d < 7"
  by (simp add: weekday_of_day_def nat_less_iff)

text \<open>Within a week every weekday comes up, so the search finds the first wanted day.\<close>

lemma weekday_within_week: "w < 7 \<Longrightarrow> \<exists>n < 7. weekday_of_day (d + int n) = w"
proof -
  assume w: "w < 7"
  let ?n = "(w + 7 - weekday_of_day d) mod 7"
  have "(weekday_of_day d + ?n) mod 7 = (weekday_of_day d + (w + 7 - weekday_of_day d)) mod 7"
    by (rule mod_add_right_eq)
  also have "\<dots> = w" using w weekday_less [of d] by simp
  finally show ?thesis by (intro exI [of _ ?n]) (simp add: weekday_add)
qed

lemma skip_days_first:
  assumes "i < n" and "weekday_of_day (d + int i) \<in> set ts"
    and "\<And>j. j < i \<Longrightarrow> weekday_of_day (d + int j) \<notin> set ts"
  shows "skip_days n ts d = d + int i"
  using assms
proof (induction n arbitrary: d i)
  case (Suc n)
  show ?case
  proof (cases i)
    case (Suc k)
    have "skip_days n ts (d + 1) = d + 1 + int k"
      using Suc.prems Suc Suc.prems(3) [of "Suc _"]
      by (intro Suc.IH) (auto simp: ac_simps)
    with Suc Suc.prems(3) [of 0] show ?thesis by simp
  qed (use Suc.prems in simp)
qed simp

lemma skip_times_days: "skip_times n ts t = t + (skip_days n ts (day_of t) - day_of t) * 86400"
proof (induction n arbitrary: t)
  case (Suc n)
  have "day_of (t + 86400) = day_of t + 1" by (simp add: day_of_def)
  with Suc.IH [of "t + 86400"] show ?case by simp
qed simp

text \<open>The day found: the first one not before \<open>d\<close> whose weekday is wanted.\<close>

lemma skip_days_wanted:
  assumes "ts \<noteq> []" and "\<And>w. w \<in> set ts \<Longrightarrow> w < 7"
  obtains i where "i < 7" "skip_days 8 ts d = d + int i" "weekday_of_day (d + int i) \<in> set ts"
    "\<And>j. j < i \<Longrightarrow> weekday_of_day (d + int j) \<notin> set ts"
proof -
  let ?P = "\<lambda>i. weekday_of_day (d + int i) \<in> set ts"
  from assms obtain w where "w \<in> set ts" "w < 7" by (cases ts) auto
  then obtain k where "k < 7" "?P k" using weekday_within_week [of w d] by auto
  then have "?P (Least ?P)" "Least ?P \<le> k" by (auto intro: LeastI Least_le)
  with \<open>k < 7\<close> skip_days_first [of "Least ?P" 8 d ts] show thesis
    by (intro that [of "Least ?P"]) (auto dest: not_less_Least)
qed

section \<open>Which times are found\<close>

text \<open>A whole minute at that hour and minute; a day the day-of-week field asks for, every day
  when it is a star or names none.\<close>

definition at_time :: "int \<Rightarrow> nat \<Rightarrow> nat \<Rightarrow> bool" where
  "at_time t h m \<longleftrightarrow> hour_of t = h \<and> minute_of t = m \<and> t mod 60 = 0"

definition wanted :: "string \<Rightarrow> int \<Rightarrow> bool" where
  "wanted dow d \<longleftrightarrow>
     dow = ''*'' \<or> parse_dow dow = [] \<or> weekday_of_day d \<in> set (parse_dow dow)"

definition targets :: "string \<Rightarrow> nat list" where
  "targets dow = (if dow \<noteq> ''*'' then parse_dow dow else [])"

lemma wanted_targets: "wanted dow d \<longleftrightarrow> targets dow = [] \<or> weekday_of_day d \<in> set (targets dow)"
  by (auto simp: wanted_def targets_def)

lemma targets_less: "w \<in> set (targets dow) \<Longrightarrow> w < 7"
  by (auto simp: targets_def parse_dow_less split: if_splits)

lemma at_time_iff:
  "h < 24 \<Longrightarrow> m < 60 \<Longrightarrow>
   at_time t h m \<longleftrightarrow> t = day_of t * 86400 + int h * 3600 + int m * 60"
proof
  assume "at_time t h m"
  then show "t = day_of t * 86400 + int h * 3600 + int m * 60"
    using time_split(1) [of t] by (simp add: at_time_def)
next
  assume a: "h < 24" "m < 60" and t: "t = day_of t * 86400 + int h * 3600 + int m * 60"
  have "t mod 60 = (int m + 60 * int h + 1440 * day_of t) * 60 mod 60"
    by (subst t) (simp add: algebra_simps)
  with hm_parts [OF a, of "day_of t"] t show "at_time t h m"
    by (simp only: at_time_def) simp
qed

lemma offset_ok: "- 24 < tz \<Longrightarrow> tz < 24 \<Longrightarrow> fixed_offset tz = tz * 3600"
  by (simp add: fixed_offset_def)

lemma next_fixed_first:
  fixes mf hf dow :: string and now :: int
  defines "h \<equiv> case parse_u32 hf of Some h \<Rightarrow> h | None \<Rightarrow> 9"
    and "m \<equiv> case parse_u32 mf of Some m \<Rightarrow> m | None \<Rightarrow> 0"
    and "t \<equiv> next_fixed now mf hf dow 0"
  assumes hm: "h < 24" "m < 60"
  shows "now < t" and "at_time t h m" and "wanted dow (day_of t)"
    and "now < u \<Longrightarrow> u < t \<Longrightarrow> at_time u h m \<Longrightarrow> \<not> wanted dow (day_of u)"
    and "t \<le> now + 7 * 86400"
proof -
  let ?at = "\<lambda>d. d * 86400 + int h * 3600 + int m * 60"
  define d0 where "d0 = (if now < ?at (day_of now) then day_of now else day_of now + 1)"
  have first: "now < ?at d0" and least: "\<And>d. now < ?at d \<Longrightarrow> d0 \<le> d" and soon: "?at d0 \<le> now + 86400"
    using hm day_bounds [of now] by (auto simp: d0_def split: if_splits)
  have c: "?at d0 = (if now < ?at (day_of now) then ?at (day_of now) else ?at (day_of now) + 86400)"
    by (simp add: d0_def)
  have day: "day_of (?at d) = d" for d using hm by (rule hm_parts)
  have "\<exists>i < 7. t = ?at (d0 + int i) \<and> wanted dow (d0 + int i) \<and>
      (\<forall>j < i. \<not> wanted dow (d0 + int j))"
  proof (cases "targets dow = []")
    case True
    then have "t = ?at d0"
      using hm c by (simp add: t_def next_fixed_def h_def m_def and_hms_opt_def or_time_def to_utc_def
          targets_def Let_def)
    with True show ?thesis by (intro exI [of _ 0]) (simp add: wanted_targets)
  next
    case False
    then obtain i where i: "i < 7" "skip_days 8 (targets dow) d0 = d0 + int i"
      "weekday_of_day (d0 + int i) \<in> set (targets dow)"
      "\<And>j. j < i \<Longrightarrow> weekday_of_day (d0 + int j) \<notin> set (targets dow)"
      using skip_days_wanted [OF False, of d0] targets_less by blast
    have "t = skip_times 8 (targets dow) (?at d0)"
      using False hm c by (simp add: t_def next_fixed_def h_def m_def and_hms_opt_def or_time_def
          to_utc_def targets_def Let_def)
    with i(2) have "t = ?at (d0 + int i)" by (simp add: skip_times_days day)
    with i False show ?thesis by (auto simp: wanted_targets)
  qed
  then obtain i where i: "i < 7" "t = ?at (d0 + int i)" "wanted dow (d0 + int i)"
    "\<And>j. j < i \<Longrightarrow> \<not> wanted dow (d0 + int j)" by blast
  show "now < t" using i first by simp
  have dt: "day_of t = d0 + int i" unfolding i(2) by (rule day)
  show "at_time t h m" unfolding at_time_iff [OF hm] dt by (rule i(2))
  show "wanted dow (day_of t)" using i(3) dt by simp
  show "t \<le> now + 7 * 86400" using i soon by simp
  assume u: "now < u" "u < t" "at_time u h m"
  with hm have ud: "u = ?at (day_of u)" by (simp add: at_time_iff)
  with u least have "d0 \<le> day_of u" "day_of u < d0 + int i" using i(2) by auto
  with i(4) [of "nat (day_of u - d0)"] show "\<not> wanted dow (day_of u)" by simp
qed

lemma offset_shift:
  "next_fixed now mf hf dow off = next_fixed now mf hf dow 0 - off"
  "next_step_here now n hf dow off = next_step_here now n hf dow 0 - off"
  "next_step_minutes now n hf dow off = next_step_minutes now n hf dow 0 - off"
  by (simp_all add: next_fixed_def next_step_here_def next_step_minutes_def to_utc_def Let_def
      split: option.split)

text \<open>The next minute of the day divisible by the step, whatever the hour.\<close>

lemma minute_in_hour: "0 \<le> r \<Longrightarrow> r < 3600 \<Longrightarrow> minute_of (c * 3600 + r) = nat (r div 60)"
  by (simp add: minute_of_def)

lemma next_multiple:
  fixes m n :: nat
  assumes "0 < n"
  defines "k \<equiv> (m div n + 1) * n"
  shows "m < k" and "n dvd k" and "m < j \<Longrightarrow> j < k \<Longrightarrow> \<not> n dvd j"
proof -
  show "m < k" using assms dividend_less_div_times [of n m] by simp
  show "n dvd k" by (simp add: k_def)
  assume j: "m < j" "j < k"
  show "\<not> n dvd j"
  proof
    assume "n dvd j"
    then obtain q where q: "j = q * n" by (metis dvd_def mult.commute)
    with j(2) have "q * n < (m div n + 1) * n" by (simp only: k_def)
    then have "q < m div n + 1" by (simp only: mult_less_cancel2)
    moreover from j q assms have "m div n < q" by (simp add: div_less_iff_less_mult)
    ultimately show False by simp
  qed
qed

lemma step_candidate:
  fixes now :: int and n :: nat
  defines "hs \<equiv> now - now mod 3600"
    and "k \<equiv> (minute_of now div n + 1) * n"
  assumes "0 < n"
  shows "next_step_here now n hf ''*'' 0 = hs + int (min k 60) * 60"
proof -
  have day_hour: "day_of t * 86400 + int (hour_of t) * 3600 = t - t mod 3600" for t
  proof -
    have "int (minute_of t) * 60 + t mod 60 = t mod 3600"
      using div_mult_mod_eq [of "t mod 3600" 60] by (simp add: minute_of_def mod_mod_cancel)
    with time_split(1) [of t] show ?thesis by linarith
  qed
  have "(now + 3600) mod 3600 = now mod 3600" by simp
  then show ?thesis
    using time_split(2) [of now] time_split(2) [of "now + 3600"] day_hour [of now]
      day_hour [of "now + 3600"]
    unfolding next_step_here_def Let_def k_def [symmetric]
    by (simp add: and_hms_opt_def or_time_def to_utc_def min_def hs_def)
qed

lemma next_step_any_hour:
  fixes now :: int and n :: nat and hf :: string
  defines "t \<equiv> next_step_here now n hf ''*'' 0"
  assumes n: "0 < n"
  shows "now < t" and "t mod 60 = 0" and "n dvd minute_of t" and "t \<le> now + 3600"
    and "now < u \<Longrightarrow> u < t \<Longrightarrow> u mod 60 = 0 \<Longrightarrow> \<not> n dvd minute_of u"
proof -
  define c where "c = now div 3600"
  define r where "r = now mod 3600"
  define k where "k = (minute_of now div n + 1) * n"
  have now: "now = c * 3600 + r" "0 \<le> r" "r < 3600" by (simp_all add: c_def r_def)
  have m: "int (minute_of now) = r div 60" using now by (simp add: minute_in_hour)
  have t: "t = c * 3600 + int (min k 60) * 60"
    unfolding t_def k_def c_def step_candidate [OF n] by (simp only: minus_mod_eq_div_mult)
  note k = next_multiple [OF n, of "minute_of now", folded k_def]
  have rk: "r < int k * 60" using k(1) m now by linarith
  then show "now < t" using now t by (simp add: min_def)
  show "t \<le> now + 3600" using now t by (simp add: min_def)
  have "t = (c * 60 + int (min k 60)) * 60" using t by simp
  then show "t mod 60 = 0" by (metis mod_mult_self2_is_0)
  show "n dvd minute_of t"
  proof (cases "k < 60")
    case True
    then have "minute_of t = k" unfolding t by (subst minute_in_hour) auto
    with k(2) show ?thesis by simp
  next
    case False
    then have "t = (c + 1) * 3600 + 0" using t by simp
    then have "minute_of t = 0" using minute_in_hour [of 0 "c + 1"] by simp
    then show ?thesis by simp
  qed
  assume u: "now < u" "u < t" "u mod 60 = 0"
  define j where "j = (u - c * 3600) div 60"
  have "(u + (- c * 60) * 60) mod 60 = u mod 60" by (rule mod_mult_self1)
  then have "(u - c * 3600) mod 60 = 0" using u(3) by (simp add: mult.commute)
  then have uj: "u = c * 3600 + j * 60"
    unfolding j_def using div_mult_mod_eq [of "u - c * 3600" 60] by linarith
  with u now t have j: "r < j * 60" "j < int (min k 60)" "0 \<le> j" by auto
  then have mu: "minute_of u = nat j" unfolding uj by (subst minute_in_hour) auto
  from j m have "minute_of now < nat j" "nat j < k" by linarith+
  with k(3) mu show "\<not> n dvd minute_of u" by simp
qed

text \<open>Whatever the expression, the next run is later than now, by nine days at most.\<close>

lemma next_step_here_later:
  assumes "0 < n"
  shows "now < next_step_here now n hf dow 0" and "next_step_here now n hf dow 0 \<le> now + 9 * 86400"
proof -
  define c where "c = next_step_here now n hf ''*'' 0"
  have c: "now < c" "c \<le> now + 3600"
    using next_step_any_hour(1,4) [OF assms] by (simp_all add: c_def)
  let ?h = "if hf = ''*'' then 0 else case parse_u32 hf of Some h \<Rightarrow> h | None \<Rightarrow> 0"
  let ?d = "skip_days 8 (targets dow) (day_of c + 1)"
  have eq: "next_step_here now n hf dow 0 =
      (if targets dow \<noteq> [] \<and> weekday_of_day (day_of c) \<notin> set (targets dow)
       then or_time (and_hms_opt ?d ?h 0) c else c)"
    by (simp add: next_step_here_def c_def targets_def to_utc_def Let_def)
  have "now < next_step_here now n hf dow 0 \<and> next_step_here now n hf dow 0 \<le> now + 9 * 86400"
  proof (cases "targets dow \<noteq> [] \<and> weekday_of_day (day_of c) \<notin> set (targets dow) \<and> ?h < 24")
    case False
    then have "next_step_here now n hf dow 0 = c"
      unfolding eq by (auto simp: and_hms_opt_def or_time_def)
    with c show ?thesis by simp
  next
    case True
    then have ne: "targets dow \<noteq> []" by simp
    obtain i where "i < 7" "?d = day_of c + 1 + int i"
      by (rule skip_days_wanted [OF ne targets_less, where d = "day_of c + 1"])
    moreover from True have "next_step_here now n hf dow 0 = ?d * 86400 + int ?h * 3600"
      unfolding eq by (simp add: and_hms_opt_def or_time_def)
    ultimately show ?thesis using c day_bounds [of c] True by auto
  qed
  then show "now < next_step_here now n hf dow 0" "next_step_here now n hf dow 0 \<le> now + 9 * 86400"
    by auto
qed

lemma next_step_minutes_later:
  assumes "0 < n"
  shows "now < next_step_minutes now n hf dow 0" and "next_step_minutes now n hf dow 0 \<le> now + 9 * 86400"
  using next_step_here_later [OF assms, of now hf dow] day_bounds [of now]
  by (auto simp: next_step_minutes_def to_utc_def and_hms_opt_def or_time_def Let_def
      split: option.split if_split)

lemma next_fixed_later:
  shows "now < next_fixed now mf hf dow 0" and "next_fixed now mf hf dow 0 \<le> now + 9 * 86400"
proof -
  let ?h = "case parse_u32 hf of Some h \<Rightarrow> h | None \<Rightarrow> 9"
  let ?m = "case parse_u32 mf of Some m \<Rightarrow> m | None \<Rightarrow> 0"
  have "now < next_fixed now mf hf dow 0 \<and> next_fixed now mf hf dow 0 \<le> now + 9 * 86400"
  proof (cases "?h < 24 \<and> ?m < 60")
    case True
    with next_fixed_first(1,5) [of hf mf now dow] show ?thesis by auto
  next
    case False
    then have "and_hms_opt (day_of now) ?h ?m = None" by (auto simp: and_hms_opt_def)
    then have "next_fixed now mf hf dow 0 =
        (if targets dow = [] then now + 86400 else skip_times 8 (targets dow) (now + 86400))"
      by (simp add: next_fixed_def or_time_def to_utc_def targets_def Let_def)
    moreover obtain i where "targets dow \<noteq> [] \<Longrightarrow> i < 7 \<and>
        skip_days 8 (targets dow) (day_of (now + 86400)) = day_of (now + 86400) + int i"
      using skip_days_wanted [of "targets dow" "day_of (now + 86400)"] targets_less by metis
    ultimately show ?thesis by (auto simp: skip_times_days)
  qed
  then show "now < next_fixed now mf hf dow 0" "next_fixed now mf hf dow 0 \<le> now + 9 * 86400"
    by auto
qed

text \<open>
  With any time-zone offset of less than a day, and whatever the expression, even a
  malformed one, the next run is later than now and at most nine days away; so a job that has just
  run is never due again at once, and none is put off for ever.
\<close>

theorem next_cron_run_later:
  assumes "- 24 < tz" and "tz < 24"
  shows "now < next_cron_run now expr tz \<and> next_cron_run now expr tz \<le> now + 9 * 86400"
proof -
  let ?l = "now + tz * 3600"
  have later: "now < next_step_minutes ?l n hf dow 0 - tz * 3600"
      "next_step_minutes ?l n hf dow 0 - tz * 3600 \<le> now + 9 * 86400" if "0 < n" for n hf dow
    using next_step_minutes_later [OF that, of ?l hf dow] by linarith+
  have fixed: "now < next_fixed ?l mf hf dow 0 - tz * 3600"
      "next_fixed ?l mf hf dow 0 - tz * 3600 \<le> now + 9 * 86400" for mf hf dow
    using next_fixed_later [of ?l mf hf dow] by linarith+
  show ?thesis
    unfolding next_cron_run_def Let_def offset_ok [OF assms] offset_shift [where off = "tz * 3600"]
    using later [of 1] later fixed by (simp split: option.split)
qed

lemma next_cron_run_later_witness:
  "0 < next_cron_run 0 ''*/5 9 * * 1'' 8 \<and> next_cron_run 0 ''*/5 9 * * 1'' 8 \<le> 9 * 86400"
  using next_cron_run_later [of 8 0 "''*/5 9 * * 1''"] by simp

text \<open>A number is neither a star nor a step.\<close>

lemma parse_u32_head:
  "parse_u32 s = Some n \<Longrightarrow> s \<noteq> ''*'' \<and> strip_prefix ''*/'' s = None"
  by (cases s) (auto simp: parse_u32_def parse_uint_def strip_prefix_def is_digit_def byte_def
      Let_def split: if_splits)

text \<open>
  An expression whose minute is a number runs at the first time after now, in local
  time, at that minute of its hour on a day its day-of-week field asks for; an hour that is not a
  number counts as nine o'clock, and the day-of-month and month fields are ignored.
\<close>

theorem fixed_minute_runs:
  assumes "split_whitespace expr = [mf, hf, dm, mon, dow]" and "parse_u32 mf = Some m" and "m < 60"
    and "h = (case parse_u32 hf of Some h \<Rightarrow> h | None \<Rightarrow> 9)" and "h < 24"
    and "- 24 < tz" and "tz < 24"
  shows "let local = (\<lambda>u. u + tz * 3600); t = next_cron_run now expr tz in
    now < t \<and> at_time (local t) h m \<and> wanted dow (day_of (local t)) \<and>
    (\<forall>u. now < u \<and> u < t \<and> at_time (local u) h m \<longrightarrow> \<not> wanted dow (day_of (local u)))"
proof -
  have t: "next_cron_run now expr tz = next_fixed (now + tz * 3600) mf hf dow 0 - tz * 3600"
    using assms(1,2) parse_u32_head [OF assms(2)]
    by (simp add: next_cron_run_def offset_ok [OF assms(6,7)] offset_shift [where off = "tz * 3600"])
  have "(case parse_u32 hf of Some h \<Rightarrow> h | None \<Rightarrow> 9) < 24"
      "(case parse_u32 mf of Some m \<Rightarrow> m | None \<Rightarrow> 0) < 60"
    using assms by simp_all
  note first = next_fixed_first [OF this, where now = "now + tz * 3600" and dow = dow, folded assms(4)]
  show ?thesis
    unfolding Let_def t using first assms(2) by auto
qed

lemma fixed_minute_runs_witness:
  "let t = next_cron_run 0 ''30 8 * * 1-5'' 0 in
   0 < t \<and> at_time t 8 30 \<and> wanted ''1-5'' (day_of t)"
  using fixed_minute_runs [of "''30 8 * * 1-5''" "''30''" "''8''" "''*''" "''*''" "''1-5''" 30 8 0 0]
  by (simp add: split_whitespace_def ws_prefix_def white_space_def Let_def parse_u32_def
      parse_uint_def is_digit_def byte_def digits_value_def)

text \<open>
  An expression with a step of N minutes, N at most 59, any hour and any day, runs at
  the next whole minute of the clock that is divisible by N, counting from the full hour.
\<close>

theorem step_runs:
  assumes "split_whitespace expr = [''*/'' @ ns, ''*'', dm, mon, ''*'']" and "parse_u32 ns = Some n"
    and "0 < n" and "n < 60" and "- 24 < tz" and "tz < 24"
  shows "let local = (\<lambda>u. u + tz * 3600); t = next_cron_run now expr tz in
    now < t \<and> t \<le> now + 3600 \<and> local t mod 60 = 0 \<and> n dvd minute_of (local t) \<and>
    (\<forall>u. now < u \<and> u < t \<and> local u mod 60 = 0 \<longrightarrow> \<not> n dvd minute_of (local u))"
proof -
  have t: "next_cron_run now expr tz = next_step_here (now + tz * 3600) n ''*'' ''*'' 0 - tz * 3600"
    using assms(1-4)
    by (simp add: next_cron_run_def strip_prefix_def next_step_minutes_def
        offset_ok [OF assms(5,6)] offset_shift(2) [where off = "tz * 3600"])
  show ?thesis
    unfolding Let_def t using next_step_any_hour [OF assms(3), where now = "now + tz * 3600" and hf = "''*''"]
    by auto
qed

lemma step_runs_witness:
  "next_cron_run 61 ''*/15 * * * *'' 0 \<le> 61 + 3600 \<and> 15 dvd minute_of (next_cron_run 61 ''*/15 * * * *'' 0)"
  using step_runs [of "''*/15 * * * *''" "''15''" "''*''" "''*''" 15 0 61]
  by (simp add: split_whitespace_def ws_prefix_def white_space_def Let_def parse_u32_def
      parse_uint_def is_digit_def byte_def digits_value_def)

lemmas cron_eval = split_whitespace_def ws_prefix_def white_space_def Let_def parse_u32_def
  parse_uint_def is_digit_def byte_def digits_value_def next_cron_run_def strip_prefix_def
  fixed_offset_def next_step_minutes_def next_step_here_def next_fixed_def hour_of_def minute_of_def
  day_of_def and_hms_opt_def or_time_def to_utc_def weekday_of_day_def parse_dow_def
  parse_dow_part_def cron_dow_to_chrono_def split_once_def

text \<open>
  Expressions the gateway accepts but does not follow, at concrete times of January
  1970 (UTC). Every fifth minute of nine o'clock fires at ten when asked after 9:55; on Mondays,
  it fires on a Saturday when asked on Friday at ten; the thirtieth minute of every hour runs at
  9:30 only; the first of the month runs on the second; and a step with no number is a minute 0.
\<close>

theorem accepted_not_followed:
  "is_valid_cron_expr ''*/5 9 * * *'' \<and>
   next_cron_run (9 * 3600 + 57 * 60) ''*/5 9 * * *'' 0 = 10 * 3600 \<and>
   is_valid_cron_expr ''*/5 9 * * 1'' \<and>
   next_cron_run (86400 + 10 * 3600) ''*/5 9 * * 1'' 0 = 2 * 86400 + 9 * 3600 \<and>
   is_valid_cron_expr ''30 * * * *'' \<and>
   next_cron_run 0 ''30 * * * *'' 0 = 9 * 3600 + 30 * 60 \<and>
   is_valid_cron_expr ''0 9 1 * *'' \<and>
   next_cron_run (10 * 3600) ''0 9 1 * *'' 0 = 86400 + 9 * 3600 \<and>
   is_valid_cron_expr ''*/ 9 * * *'' \<and>
   next_cron_run 0 ''*/ 9 * * *'' 0 = 9 * 3600"
proof -
  have "is_valid_cron_expr ''*/5 9 * * *''" "is_valid_cron_expr ''*/5 9 * * 1''"
    "is_valid_cron_expr ''30 * * * *''" "is_valid_cron_expr ''0 9 1 * *''"
    "is_valid_cron_expr ''*/ 9 * * *''"
    by (simp_all add: is_valid_cron_expr_def validate_cron_field_def validate_cron_part_def cron_eval)
  moreover have "next_cron_run (9 * 3600 + 57 * 60) ''*/5 9 * * *'' 0 = 10 * 3600"
    "next_cron_run (86400 + 10 * 3600) ''*/5 9 * * 1'' 0 = 2 * 86400 + 9 * 3600"
    "next_cron_run 0 ''30 * * * *'' 0 = 9 * 3600 + 30 * 60"
    "next_cron_run (10 * 3600) ''0 9 1 * *'' 0 = 86400 + 9 * 3600"
    "next_cron_run 0 ''*/ 9 * * *'' 0 = 9 * 3600"
    by (simp_all add: cron_eval)
  ultimately show ?thesis by blast
qed

text \<open>
  The weekday numbers of cron, 0 and 7 for Sunday, become the numbers the calendar
  uses (0 for Monday), and a range of weekdays becomes exactly the days in it.
\<close>

theorem weekdays_read:
  "(\<forall>d \<le> 7. cron_dow_to_chrono d = (if d = 0 \<or> d = 7 then 6 else d - 1)) \<and>
   (split_once (CHR ''-'') part = Some (a, b) \<longrightarrow> parse_u32 a = Some i \<longrightarrow> parse_u32 b = Some j \<longrightarrow> j \<le> 7 \<longrightarrow>
      set (parse_dow_part part) = (\<lambda>d. if d = 0 \<or> d = 7 then 6 else d - 1) ` {i..j})"
proof -
  have c: "cron_dow_to_chrono d = (if d = 0 \<or> d = 7 then 6 else d - 1)" if "d \<le> 7" for d
  proof -
    have "d \<in> {0, 1, 2, 3, 4, 5, 6, 7}" using that by auto
    then show ?thesis by (auto simp: cron_dow_to_chrono_def)
  qed
  moreover have "set (parse_dow_part part) = (\<lambda>d. if d = 0 \<or> d = 7 then 6 else d - 1) ` {i..j}"
    if "split_once (CHR ''-'') part = Some (a, b)" "parse_u32 a = Some i" "parse_u32 b = Some j" "j \<le> 7"
  proof -
    have "set (parse_dow_part part) = cron_dow_to_chrono ` set [i..<Suc j]"
      unfolding parse_dow_part_def that(1) option.case prod.case that(2,3) by (rule set_map)
    also have "set [i..<Suc j] = {i..j}"
      by (simp only: set_upt atLeastLessThanSuc_atLeastAtMost)
    also have "cron_dow_to_chrono ` {i..j} = (\<lambda>d. if d = 0 \<or> d = 7 then 6 else d - 1) ` {i..j}"
      using c that(4) by (intro image_cong) simp_all
    finally show ?thesis .
  qed
  ultimately show ?thesis by blast
qed

lemma weekdays_read_witness: "set (parse_dow_part ''1-2'') = {0, 1}"
proof -
  have "split_once (CHR ''-'') ''1-2'' = Some (''1'', ''2'')" "parse_u32 ''1'' = Some 1"
      "parse_u32 ''2'' = Some 2"
    by (simp_all add: cron_eval)
  moreover have "{1..2::nat} = {1, 2}" by auto
  ultimately show ?thesis
    using weekdays_read [of "''1-2''" "''1''" "''2''" 1 2] by simp
qed

end
