(* ===== verification/Sql.thy ===== *)
theory Sql
  imports Prelude
begin

text \<open>
  How the gateway's storage code meets its database.

  The SQL text is part of the source; the engine and the driver (\<open>sqlx\<close>) are not. An operation
  of the code is a sequence of statements, each of which is atomic in the engine. What the code
  cannot control is supplied by a \<open>world\<close>, one \<open>env\<close> for each statement or clock reading: the
  engine's clock, the process clock, the next UUID, the text of a uniqueness error, whether the
  driver reports an error, and what other tasks and processes did to the tables since the last
  statement. A reported error may come before the statement ran (\<open>Refused\<close>) or after
  (\<open>Lost\<close>, a connection that breaks during the reply).
\<close>

section \<open>Worlds, connections and operations\<close>

datatype fate = Runs | Refused string | Lost string

record 's env =
  env_now :: string
  env_utc :: int
  env_uuid :: string
  env_conflict :: string
  env_fate :: fate
  env_others :: "'s \<Rightarrow> 's"

record 's conn =
  tables :: 's
  tick :: nat
  world :: "nat \<Rightarrow> 's env"

type_synonym ('s, 'e, 'a) op = "'s conn \<Rightarrow> ('e + 'a) \<times> 's conn"

text \<open>The body of a statement sees the environment (for its clock and error text) and the tables.\<close>

type_synonym ('s, 'a) sql = "'s env \<Rightarrow> 's \<Rightarrow> (string + 'a) \<times> 's"

definition stmt :: "('s, 'a) sql \<Rightarrow> ('s, string, 'a) op" where
  "stmt f c =
     (let e = world c (tick c);
          s = env_others e (tables c);
          c' = c\<lparr>tick := Suc (tick c)\<rparr>
      in case env_fate e of
           Refused m \<Rightarrow> (Inl m, c'\<lparr>tables := s\<rparr>)
         | Lost m \<Rightarrow> (Inl m, c'\<lparr>tables := snd (f e s)\<rparr>)
         | Runs \<Rightarrow> (fst (f e s), c'\<lparr>tables := snd (f e s)\<rparr>))"

definition ret :: "'a \<Rightarrow> ('s, 'e, 'a) op" where
  "ret a c = (Inr a, c)"

definition fail :: "'e \<Rightarrow> ('s, 'e, 'a) op" where
  "fail e c = (Inl e, c)"

text \<open>The \<open>?\<close> operator: go on with the value, or return the error.\<close>

definition and_then :: "('s, 'e, 'a) op \<Rightarrow> ('a \<Rightarrow> ('s, 'e, 'b) op) \<Rightarrow> ('s, 'e, 'b) op" where
  "and_then m k c = (case m c of (Inl e, c') \<Rightarrow> (Inl e, c') | (Inr a, c') \<Rightarrow> k a c')"

definition map_err :: "('e \<Rightarrow> 'f) \<Rightarrow> ('s, 'e, 'a) op \<Rightarrow> ('s, 'f, 'a) op" where
  "map_err g m c = (case m c of (Inl e, c') \<Rightarrow> (Inl (g e), c') | (Inr a, c') \<Rightarrow> (Inr a, c'))"

text \<open>A call whose \<open>Result\<close> the caller inspects itself (\<open>let _ = \<dots>\<close>, \<open>match\<close>).\<close>

definition attempt :: "('s, 'e, 'a) op \<Rightarrow> ('s, 'f, 'e + 'a) op" where
  "attempt m c = (case m c of (r, c') \<Rightarrow> (Inr r, c'))"

text \<open>\<open>Utc::now()\<close> and \<open>Uuid::new_v4()\<close>\<close>

definition utc_now :: "('s, 'e, int) op" where
  "utc_now c = (Inr (env_utc (world c (tick c))), c\<lparr>tick := Suc (tick c)\<rparr>)"

definition new_uuid :: "('s, 'e, string) op" where
  "new_uuid c = (Inr (env_uuid (world c (tick c))), c\<lparr>tick := Suc (tick c)\<rparr>)"

text \<open>A transaction: the statements of the body see no other writer, and any error, a rollback,
  or a commit that is refused, leaves the tables as they were when it began.\<close>

datatype 'a tx_end = Commit 'a | Rollback 'a

definition alone :: "'s env \<Rightarrow> 's env" where
  "alone e = e\<lparr>env_others := (\<lambda>s. s)\<rparr>"

definition transaction :: "(string \<Rightarrow> 'e) \<Rightarrow> ('s, 'e, 'a tx_end) op \<Rightarrow> ('s, 'e, 'a) op" where
  "transaction conv body c =
     (case stmt (\<lambda>e s. (Inr (), s)) c of
        (Inl m, c1) \<Rightarrow> (Inl (conv m), c1)
      | (Inr _, c1) \<Rightarrow>
          (case body (c1\<lparr>world := (\<lambda>n. alone (world c n))\<rparr>) of
             (Inl x, c2) \<Rightarrow> (Inl x, c1\<lparr>tick := tick c2\<rparr>)
           | (Inr r, c2) \<Rightarrow>
               (let c3 = c1\<lparr>tick := Suc (tick c2)\<rparr> in
                case (env_fate (world c (tick c2)), r) of
                  (Runs, Commit a) \<Rightarrow> (Inr a, c3\<lparr>tables := tables c2\<rparr>)
                | (Lost m, Commit a) \<Rightarrow> (Inl (conv m), c3\<lparr>tables := tables c2\<rparr>)
                | (Refused m, Commit a) \<Rightarrow> (Inl (conv m), c3)
                | (Runs, Rollback a) \<Rightarrow> (Inr a, c3)
                | (Lost m, Rollback a) \<Rightarrow> (Inl (conv m), c3)
                | (Refused m, Rollback a) \<Rightarrow> (Inl (conv m), c3))))"

section \<open>Tables\<close>

text \<open>\<open>INSERT\<close> into a table whose primary key is \<open>key\<close>; \<open>UPDATE \<dots> WHERE\<close> with the number of
  rows matched; \<open>DELETE\<close>; \<open>ORDER BY\<close> with ties in insertion order.\<close>

definition insert_row :: "('r \<Rightarrow> 'k) \<Rightarrow> 'r \<Rightarrow> 'r list \<Rightarrow> 'r list option" where
  "insert_row key r rows = (if key r \<in> set (map key rows) then None else Some (rows @ [r]))"

definition update_where :: "('r \<Rightarrow> bool) \<Rightarrow> ('r \<Rightarrow> 'r) \<Rightarrow> 'r list \<Rightarrow> 'r list" where
  "update_where p f rows = map (\<lambda>r. if p r then f r else r) rows"

definition affected :: "('r \<Rightarrow> bool) \<Rightarrow> 'r list \<Rightarrow> nat" where
  "affected p rows = length (filter p rows)"

definition delete_where :: "('r \<Rightarrow> bool) \<Rightarrow> 'r list \<Rightarrow> 'r list" where
  "delete_where p rows = filter (\<lambda>r. \<not> p r) rows"

definition order_asc :: "('r \<Rightarrow> 'k::linorder) \<Rightarrow> 'r list \<Rightarrow> 'r list" where
  "order_asc k rows = sort_key k rows"

definition order_desc :: "('r \<Rightarrow> 'k::linorder) \<Rightarrow> 'r list \<Rightarrow> 'r list" where
  "order_desc k rows = rev (sort_key k (rev rows))"

definition first_row :: "'r list \<Rightarrow> 'r option" where
  "first_row rows = (case rows of [] \<Rightarrow> None | r # _ \<Rightarrow> Some r)"

lemma set_order_desc [simp]: "set (order_desc k rows) = set rows"
  by (simp add: order_desc_def)

lemma set_order_asc [simp]: "set (order_asc k rows) = set rows"
  by (simp add: order_asc_def)

lemma sorted_order_asc: "sorted (map k (order_asc k rows))"
  by (simp add: order_asc_def)

lemma sorted_order_desc: "sorted (rev (map k (order_desc k rows)))"
  by (simp add: order_desc_def flip: rev_map)

text \<open>The first \<open>n\<close> rows in order: none left out comes before one that is in.\<close>

lemma take_order_asc:
  "set (take n (order_asc k rows)) \<subseteq> set rows"
  "sorted (map k (take n (order_asc k rows)))"
  "length (take n (order_asc k rows)) = min n (length rows)"
  "length rows \<le> n \<Longrightarrow> set (take n (order_asc k rows)) = set rows"
  "x \<in> set rows \<Longrightarrow> x \<notin> set (take n (order_asc k rows)) \<Longrightarrow> y \<in> set (take n (order_asc k rows)) \<Longrightarrow>
   k y \<le> k x"
proof -
  have sorted: "sorted (map k (order_asc k rows))" by (simp add: order_asc_def)
  show "set (take n (order_asc k rows)) \<subseteq> set rows"
    using set_take_subset [of n "order_asc k rows"] by simp
  show "sorted (map k (take n (order_asc k rows)))"
    using sorted by (simp add: sorted_wrt_take flip: take_map)
  show "length (take n (order_asc k rows)) = min n (length rows)"
    by (simp add: order_asc_def)
  show "length rows \<le> n \<Longrightarrow> set (take n (order_asc k rows)) = set rows"
    by (simp add: order_asc_def)
  assume "x \<in> set rows" "x \<notin> set (take n (order_asc k rows))" "y \<in> set (take n (order_asc k rows))"
  moreover have "set (order_asc k rows) =
      set (take n (order_asc k rows)) \<union> set (drop n (order_asc k rows))"
    by (metis append_take_drop_id set_append)
  ultimately have "x \<in> set (drop n (order_asc k rows))" by auto
  moreover have "sorted_wrt (\<lambda>a b. k a \<le> k b) (take n (order_asc k rows) @ drop n (order_asc k rows))"
    using sorted by (simp add: sorted_wrt_map)
  ultimately show "k y \<le> k x"
    using \<open>y \<in> _\<close> by (auto simp only: sorted_wrt_append)
qed

lemma length_update_where [simp]: "length (update_where p f rows) = length rows"
  by (simp add: update_where_def)

lemma map_key_update_where:
  "(\<And>r. key (f r) = key r) \<Longrightarrow> map key (update_where p f rows) = map key rows"
  by (induction rows) (auto simp: update_where_def)

lemma set_update_where: "set (update_where p f rows) = (\<lambda>r. if p r then f r else r) ` set rows"
  by (simp add: update_where_def)

lemma bex_update_where:
  "(\<exists>r \<in> set (update_where p f rows). Q r) \<longleftrightarrow>
   (\<exists>r \<in> set rows. if p r then Q (f r) else Q r)"
  by (induction rows) (auto simp: update_where_def)

lemma affected_pos: "0 < affected p rows \<longleftrightarrow> (\<exists>r \<in> set rows. p r)"
  by (induction rows) (auto simp: affected_def)

lemma update_where_none: "affected p rows = 0 \<Longrightarrow> update_where p f rows = rows"
  by (induction rows) (auto simp: affected_def update_where_def split: if_splits)

lemma lookup_mem:
  "distinct (map key rows) \<Longrightarrow> r \<in> set rows \<Longrightarrow>
   first_row (filter (\<lambda>x. key x = key r) rows) = Some r"
  by (induction rows) (auto simp: first_row_def)

lemma affected_distinct:
  "distinct (map key rows) \<Longrightarrow> (\<And>r. p r \<Longrightarrow> key r = k) \<Longrightarrow> affected p rows \<le> 1"
proof (induction rows)
  case (Cons r rows)
  have "filter p rows = []" if "p r"
    using that Cons.prems by (auto simp: filter_empty_conv)
  with Cons show ?case by (auto simp: affected_def)
qed (simp add: affected_def)

lemma first_row_in: "first_row rows = Some r \<Longrightarrow> r \<in> set rows"
  by (auto simp: first_row_def split: list.splits)

text \<open>Looking a row up by its key, after an update that keeps the keys, and after an insert.\<close>

lemma first_row_simps [simp]: "first_row [] = None" "first_row (r # rows) = Some r"
  by (simp_all add: first_row_def)

lemma first_row_map [simp]: "first_row (map f rows) = map_option f (first_row rows)"
  by (simp add: first_row_def split: list.split)

lemma first_row_filter_None: "first_row (filter p rows) = None \<longleftrightarrow> (\<forall>r \<in> set rows. \<not> p r)"
  by (induction rows) auto

lemma first_row_append: "first_row (xs @ ys) = (case first_row xs of None \<Rightarrow> first_row ys | Some r \<Rightarrow> Some r)"
  by (simp add: first_row_def split: list.split)

lemma lookup_update_where:
  assumes "\<And>r. key (f r) = key r"
  shows "first_row (filter (\<lambda>r. key r = k) (update_where p f rows)) =
    map_option (\<lambda>r. if p r then f r else r) (first_row (filter (\<lambda>r. key r = k) rows))"
proof -
  have "filter (\<lambda>r. key r = k) (update_where p f rows) =
      map (\<lambda>r. if p r then f r else r) (filter (\<lambda>r. key r = k) rows)"
    using assms by (induction rows) (auto simp: update_where_def)
  then show ?thesis by simp
qed

lemma lookup_None: "first_row (filter (\<lambda>r. key r = k) rows) = None \<longleftrightarrow> k \<notin> set (map key rows)"
  by (induction rows) (auto simp: first_row_def)

lemma lookup_SomeD:
  "first_row (filter (\<lambda>r. key r = k) rows) = Some r \<Longrightarrow> r \<in> set rows \<and> key r = k"
  by (auto dest: first_row_in)

lemma affected_lookup:
  assumes "distinct (map key rows)"
  shows "affected (\<lambda>r. key r = k \<and> q r) rows =
    (case first_row (filter (\<lambda>r. key r = k) rows) of
       Some r \<Rightarrow> if q r then 1 else 0 | None \<Rightarrow> 0)"
  using assms
proof (induction rows)
  case (Cons r rows)
  have "filter (\<lambda>r. key r = k \<and> q r) rows = []" if "key r = k"
    unfolding filter_empty_conv using that Cons.prems by (metis distinct.simps(2) image_eqI
      list.set_map list.simps(9))
  with Cons show ?case by (auto simp: affected_def first_row_def)
qed (simp add: affected_def first_row_def)

text \<open>\<open>grows step xs ys\<close>: \<open>ys\<close> is \<open>xs\<close> with each row taken one step, followed by new rows.\<close>

definition grows :: "('r \<Rightarrow> 'r \<Rightarrow> bool) \<Rightarrow> 'r list \<Rightarrow> 'r list \<Rightarrow> bool" where
  "grows step xs ys \<longleftrightarrow> length xs \<le> length ys \<and> (\<forall>i < length xs. step (xs ! i) (ys ! i))"

lemma grows_refl: "(\<And>r. step r r) \<Longrightarrow> grows step xs xs"
  by (simp add: grows_def)

lemma grows_trans:
  assumes "\<And>a b c. step a b \<Longrightarrow> step b c \<Longrightarrow> step a c" and "grows step xs ys" and "grows step ys zs"
  shows "grows step xs zs"
  using assms by (auto simp: grows_def)

lemma grows_append: "(\<And>r. step r r) \<Longrightarrow> grows step xs (xs @ ys)"
  by (simp add: grows_def nth_append)

lemma grows_update_where:
  "(\<And>r. step r r) \<Longrightarrow> (\<And>r. r \<in> set rows \<Longrightarrow> p r \<Longrightarrow> step r (f r)) \<Longrightarrow>
   grows step rows (update_where p f rows)"
  by (simp add: grows_def update_where_def)

lemma grows_member:
  "grows step xs ys \<Longrightarrow> x \<in> set xs \<Longrightarrow> \<exists>y \<in> set ys. step x y"
proof -
  assume g: "grows step xs ys" and "x \<in> set xs"
  then obtain i where "i < length xs" "x = xs ! i" by (auto simp: in_set_conv_nth)
  with g have "step x (ys ! i)" "ys ! i \<in> set ys" by (auto simp: grows_def)
  then show ?thesis by blast
qed

lemma insert_row_Some:
  "insert_row key r rows = Some rows' \<longleftrightarrow> key r \<notin> set (map key rows) \<and> rows' = rows @ [r]"
  by (auto simp: insert_row_def)

lemma insert_row_ok:
  assumes "insert_row key r rows = Some rows'" and "distinct (map key rows)"
    and "\<forall>x \<in> set rows. P x" and "P r" and "\<And>x. step x x"
  shows "distinct (map key rows')" and "\<forall>x \<in> set rows'. P x" and "grows step rows rows'"
  using assms by (auto simp: insert_row_Some grows_append)

section \<open>Obeying a protocol\<close>

text \<open>
  \<open>obeys I R m\<close>: if the tables satisfy \<open>I\<close>, and whatever others do between statements keeps
  \<open>I\<close> and follows the relation \<open>R\<close>, then running \<open>m\<close> keeps \<open>I\<close> and follows \<open>R\<close>, whichever
  statements fail. This is what can be said of an operation under concurrency and errors.
\<close>

definition polite :: "('s \<Rightarrow> bool) \<Rightarrow> ('s \<Rightarrow> 's \<Rightarrow> bool) \<Rightarrow> (nat \<Rightarrow> 's env) \<Rightarrow> bool" where
  "polite I R w \<longleftrightarrow> (\<forall>n s. I s \<longrightarrow> I (env_others (w n) s) \<and> R s (env_others (w n) s))"

definition obeys :: "('s \<Rightarrow> bool) \<Rightarrow> ('s \<Rightarrow> 's \<Rightarrow> bool) \<Rightarrow> ('s, 'e, 'a) op \<Rightarrow> bool" where
  "obeys I R m \<longleftrightarrow>
     (\<forall>c. polite I R (world c) \<longrightarrow> I (tables c) \<longrightarrow>
        I (tables (snd (m c))) \<and> R (tables c) (tables (snd (m c))) \<and> world (snd (m c)) = world c)"

locale protocol =
  fixes I :: "'s \<Rightarrow> bool" and R :: "'s \<Rightarrow> 's \<Rightarrow> bool"
  assumes refl: "I s \<Longrightarrow> R s s"
    and trans: "R s t \<Longrightarrow> R t u \<Longrightarrow> R s u"
begin

lemma stmt_obeys:
  assumes "\<And>e s. I s \<Longrightarrow> I (snd (f e s)) \<and> R s (snd (f e s))"
  shows "obeys I R (stmt f)"
  unfolding obeys_def
proof (intro allI impI)
  fix c :: "'s conn"
  assume p: "polite I R (world c)" and i: "I (tables c)"
  let ?s = "env_others (world c (tick c)) (tables c)"
  from p i have s: "I ?s" "R (tables c) ?s" by (auto simp: polite_def)
  note f = assms [OF s(1), of "world c (tick c)"]
  from s f trans have "R (tables c) (snd (f (world c (tick c)) ?s))" by blast
  with s f show "I (tables (snd (stmt f c))) \<and> R (tables c) (tables (snd (stmt f c))) \<and>
      world (snd (stmt f c)) = world c"
    by (simp add: stmt_def Let_def split: fate.splits)
qed

lemma read_obeys: "(\<And>e s. snd (f e s) = s) \<Longrightarrow> obeys I R (stmt f)"
  by (rule stmt_obeys) (simp add: refl)

lemma pure_obeys:
  "(\<And>c. tables (snd (m c)) = tables c \<and> world (snd (m c)) = world c) \<Longrightarrow> obeys I R m"
  by (simp add: obeys_def refl)

lemma ret_obeys: "obeys I R (ret a)" and fail_obeys: "obeys I R (fail e)"
  and utc_obeys: "obeys I R utc_now" and uuid_obeys: "obeys I R new_uuid"
  by (rule pure_obeys; simp add: ret_def fail_def utc_now_def new_uuid_def)+

lemma and_then_obeys:
  assumes "obeys I R m" and "\<And>a. obeys I R (k a)"
  shows "obeys I R (and_then m k)"
  unfolding obeys_def
proof (intro allI impI)
  fix c :: "'s conn"
  assume p: "polite I R (world c)" and i: "I (tables c)"
  obtain r c' where m: "m c = (r, c')" by fastforce
  with assms(1) p i have 1: "I (tables c')" "R (tables c) (tables c')" "world c' = world c"
    by (force simp: obeys_def)+
  show "I (tables (snd (and_then m k c))) \<and> R (tables c) (tables (snd (and_then m k c))) \<and>
      world (snd (and_then m k c)) = world c"
  proof (cases r)
    case (Inr a)
    with assms(2) [of a] 1 p show ?thesis by (auto simp: and_then_def m obeys_def intro: trans)
  qed (use m 1 in \<open>simp add: and_then_def\<close>)
qed

lemma map_err_obeys: "obeys I R m \<Longrightarrow> obeys I R (map_err g m)"
  by (force simp: obeys_def map_err_def split: prod.splits sum.splits)

lemma attempt_obeys: "obeys I R m \<Longrightarrow> obeys I R (attempt m)"
  by (force simp: obeys_def attempt_def split: prod.splits)

lemma if_obeys: "obeys I R m \<Longrightarrow> obeys I R n \<Longrightarrow> obeys I R (if b then m else n)"
  by simp

lemma polite_alone: "polite I R (\<lambda>n. alone (w n))"
  by (simp add: polite_def alone_def refl)

lemma transaction_obeys:
  assumes "obeys I R body"
  shows "obeys I R (transaction conv body)"
  unfolding obeys_def
proof (intro allI impI)
  fix c :: "'s conn"
  assume p: "polite I R (world c)" and i: "I (tables c)"
  obtain r c1 where m: "stmt (\<lambda>e s. (Inr (), s)) c = (r, c1)" by fastforce
  have "obeys I R (stmt (\<lambda>e s. (Inr (), s)))" by (rule read_obeys) simp
  with p i m have 1: "I (tables c1)" "R (tables c) (tables c1)" "world c1 = world c"
    by (force simp: obeys_def)+
  obtain r2 c2 where b: "body (c1\<lparr>world := (\<lambda>n. alone (world c n))\<rparr>) = (r2, c2)" by fastforce
  with assms 1 polite_alone [of "world c"] have 2: "I (tables c2)" "R (tables c1) (tables c2)"
    unfolding obeys_def
    by (metis conn.select_convs(1) conn.select_convs(3) conn.surjective conn.update_convs(3) snd_conv)+
  with 1 have "R (tables c) (tables c2)" by (blast intro: trans)
  with 1 2 m b show "I (tables (snd (transaction conv body c))) \<and>
      R (tables c) (tables (snd (transaction conv body c))) \<and>
      world (snd (transaction conv body c)) = world c"
    by (auto simp: transaction_def Let_def split: sum.splits fate.splits tx_end.splits)
qed

lemmas obeys_rules = ret_obeys fail_obeys utc_obeys uuid_obeys and_then_obeys map_err_obeys
  attempt_obeys if_obeys transaction_obeys

end

section \<open>Undisturbed runs\<close>

definition quiet :: "'s conn \<Rightarrow> bool" where
  "quiet c \<longleftrightarrow> (\<forall>n. env_fate (world c n) = Runs \<and> (\<forall>s. env_others (world c n) s = s))"

abbreviation here :: "'s conn \<Rightarrow> 's env" where
  "here c \<equiv> world c (tick c)"

lemma stmt_quiet [quiet_simps]:
  "quiet c \<Longrightarrow> stmt f c =
     (fst (f (here c) (tables c)), c\<lparr>tick := Suc (tick c), tables := snd (f (here c) (tables c))\<rparr>)"
  by (simp add: quiet_def stmt_def Let_def)

lemma quiet_update [simp]:
  "quiet (c\<lparr>tables := t\<rparr>) = quiet c" "quiet (c\<lparr>tick := k\<rparr>) = quiet c"
  by (simp_all add: quiet_def)

lemma and_then_run [quiet_simps]:
  "m c = (Inr a, c') \<Longrightarrow> and_then m k c = k a c'"
  "m c = (Inl e, c') \<Longrightarrow> and_then m k c = (Inl e, c')"
  by (simp_all add: and_then_def)

lemma map_err_run [quiet_simps]:
  "m c = (Inr a, c') \<Longrightarrow> map_err g m c = (Inr a, c')"
  "m c = (Inl e, c') \<Longrightarrow> map_err g m c = (Inl (g e), c')"
  by (simp_all add: map_err_def)


section \<open>Refinement of an abstract operation\<close>

text \<open>
  \<open>refines I view m f\<close>: in an undisturbed run on good tables, the operation \<open>m\<close> does to the
  tables, seen through \<open>view\<close>, what the abstract operation \<open>f\<close> does, and returns its value; where
  \<open>f\<close> gives no value, \<open>m\<close> returns an error.
\<close>

definition ok_of :: "'e + 'a \<Rightarrow> 'a option" where
  "ok_of r = (case r of Inl _ \<Rightarrow> None | Inr a \<Rightarrow> Some a)"

lemma ok_of_simps [simp]: "ok_of (Inl e) = None" "ok_of (Inr a) = Some a"
  by (simp_all add: ok_of_def)

definition refines ::
  "('s \<Rightarrow> bool) \<Rightarrow> ('s \<Rightarrow> 'b) \<Rightarrow> ('s, 'e, 'a) op \<Rightarrow> ('b \<Rightarrow> 'a option \<times> 'b) \<Rightarrow> bool" where
  "refines I view m f \<longleftrightarrow>
     (\<forall>c. quiet c \<longrightarrow> I (tables c) \<longrightarrow>
        quiet (snd (m c)) \<and> I (tables (snd (m c))) \<and>
        f (view (tables c)) = (ok_of (fst (m c)), view (tables (snd (m c)))))"

definition abs_then :: "('b \<Rightarrow> 'a option \<times> 'b) \<Rightarrow> ('a \<Rightarrow> 'b \<Rightarrow> 'd option \<times> 'b) \<Rightarrow> 'b \<Rightarrow> 'd option \<times> 'b" where
  "abs_then f g b = (case f b of (None, b') \<Rightarrow> (None, b') | (Some a, b') \<Rightarrow> g a b')"

definition abs_attempt :: "('b \<Rightarrow> 'a option \<times> 'b) \<Rightarrow> 'b \<Rightarrow> unit option \<times> 'b" where
  "abs_attempt f b = (Some (), snd (f b))"

lemma refinesD:
  assumes "refines I view m f" and "quiet c" and "I (tables c)" and "m c = (r, c')"
  shows "quiet c'" and "I (tables c')" and "f (view (tables c)) = (ok_of r, view (tables c'))"
  using assms by (auto simp: refines_def)

lemma refines_and_then:
  assumes "refines I view m f" and "\<And>a. refines I view (k a) (g a)"
  shows "refines I view (and_then m k) (abs_then f g)"
  unfolding refines_def
proof (intro allI impI)
  fix c :: "'a conn"
  assume c: "quiet c" "I (tables c)"
  obtain r c' where m: "m c = (r, c')" by fastforce
  note 1 = refinesD [OF assms(1) c m]
  show "quiet (snd (and_then m k c)) \<and> I (tables (snd (and_then m k c))) \<and>
      abs_then f g (view (tables c)) =
      (ok_of (fst (and_then m k c)), view (tables (snd (and_then m k c))))"
  proof (cases r)
    case (Inl e)
    with 1 m show ?thesis by (simp add: and_then_def abs_then_def)
  next
    case (Inr a)
    with 1 m assms(2) [of a] show ?thesis by (simp add: and_then_def abs_then_def refines_def)
  qed
qed

lemma refines_ret: "refines I view (ret a) (\<lambda>b. (Some a, b))"
  by (simp add: refines_def ret_def)

lemma refines_attempt_then:
  assumes "refines I view m f" and "refines I view k g"
  shows "refines I view (and_then (attempt m) (\<lambda>_. k)) (abs_then (abs_attempt f) (\<lambda>_. g))"
  unfolding refines_def
proof (intro allI impI)
  fix c :: "'a conn"
  assume c: "quiet c" "I (tables c)"
  obtain r c' where m: "m c = (r, c')" by fastforce
  note 1 = refinesD [OF assms(1) c m]
  with m assms(2) show "quiet (snd (and_then (attempt m) (\<lambda>_. k) c)) \<and>
      I (tables (snd (and_then (attempt m) (\<lambda>_. k) c))) \<and>
      abs_then (abs_attempt f) (\<lambda>_. g) (view (tables c)) =
      (ok_of (fst (and_then (attempt m) (\<lambda>_. k) c)),
       view (tables (snd (and_then (attempt m) (\<lambda>_. k) c))))"
    by (simp add: and_then_def attempt_def abs_then_def abs_attempt_def refines_def)
qed

lemma refines_if:
  "refines I view m f \<Longrightarrow> refines I view n g \<Longrightarrow>
   refines I view (if b then m else n) (if b then f else g)"
  by simp

lemma refines_map_err: "refines I view m f \<Longrightarrow> refines I view (map_err h m) f"
  by (auto simp: refines_def map_err_def ok_of_def split: prod.splits sum.splits)

text \<open>A single statement.\<close>

lemma refines_stmt:
  assumes "\<And>e s. I s \<Longrightarrow> I (snd (q e s)) \<and> f (view s) = (ok_of (fst (q e s)), view (snd (q e s)))"
  shows "refines I view (stmt q) f"
  using assms by (simp add: refines_def stmt_quiet)

text \<open>A read whose value decides what follows.\<close>

lemma refines_read:
  assumes "\<And>c. quiet c \<Longrightarrow> I (tables c) \<Longrightarrow>
      quiet (snd (k (q (tables c)) c)) \<and> I (tables (snd (k (q (tables c)) c))) \<and>
      f (view (tables c)) =
        (ok_of (fst (k (q (tables c)) c)), view (tables (snd (k (q (tables c)) c))))"
  shows "refines I view (and_then (map_err h (stmt (\<lambda>e s. (Inr (q s), s)))) k) f"
  unfolding refines_def
proof (intro allI impI)
  fix c :: "'a conn"
  assume c: "quiet c" "I (tables c)"
  let ?c = "c\<lparr>tick := Suc (tick c)\<rparr>"
  have "map_err h (stmt (\<lambda>e s. (Inr (q s), s))) c = (Inr (q (tables c)), ?c)"
    using c by (simp add: map_err_def stmt_quiet)
  with assms [of ?c] c show
    "quiet (snd (and_then (map_err h (stmt (\<lambda>e s. (Inr (q s), s)))) k c)) \<and>
     I (tables (snd (and_then (map_err h (stmt (\<lambda>e s. (Inr (q s), s)))) k c))) \<and>
     f (view (tables c)) =
       (ok_of (fst (and_then (map_err h (stmt (\<lambda>e s. (Inr (q s), s)))) k c)),
        view (tables (snd (and_then (map_err h (stmt (\<lambda>e s. (Inr (q s), s)))) k c))))"
    by (simp add: and_then_run)
qed

text \<open>An operation that obeys the protocol only has to be compared on undisturbed runs.\<close>

lemma quiet_world: "world d = world c \<Longrightarrow> quiet d = quiet c"
  by (simp add: quiet_def)

context protocol
begin

lemma quiet_polite: "quiet c \<Longrightarrow> polite I R (world c)"
  by (simp add: quiet_def polite_def refl)

lemma refinesI:
  assumes "obeys I R m"
    and "\<And>c. quiet c \<Longrightarrow> I (tables c) \<Longrightarrow>
      f (view (tables c)) = (ok_of (fst (m c)), view (tables (snd (m c))))"
  shows "refines I view m f"
  using assms quiet_polite unfolding refines_def obeys_def by (metis quiet_world)

end

section \<open>Transactions run alone\<close>

definition undisturbed :: "'s conn \<Rightarrow> bool" where
  "undisturbed c \<longleftrightarrow> (\<forall>n s. env_others (world c n) s = s)"

lemma and_then_Inr:
  "and_then m k c = (Inr b, c'') \<longleftrightarrow> (\<exists>a c'. m c = (Inr a, c') \<and> k a c' = (Inr b, c''))"
  by (auto simp: and_then_def split: prod.split sum.split)

lemma map_err_Inr: "map_err g m c = (Inr a, c') \<longleftrightarrow> m c = (Inr a, c')"
  by (auto simp: map_err_def split: prod.split sum.split)

lemma ret_Inr: "ret a c = (Inr b, c') \<longleftrightarrow> b = a \<and> c' = c"
  by (auto simp: ret_def)

lemma stmt_Inr:
  "undisturbed c \<Longrightarrow> stmt f c = (Inr a, c') \<longleftrightarrow>
     env_fate (here c) = Runs \<and> fst (f (here c) (tables c)) = Inr a \<and>
     c' = c\<lparr>tick := Suc (tick c), tables := snd (f (here c) (tables c))\<rparr>"
  by (auto simp: undisturbed_def stmt_def Let_def split: fate.split)

lemma undisturbed_update [simp]:
  "undisturbed (c\<lparr>tables := t\<rparr>) = undisturbed c" "undisturbed (c\<lparr>tick := n\<rparr>) = undisturbed c"
  by (simp_all add: undisturbed_def)

lemmas success = and_then_Inr map_err_Inr ret_Inr stmt_Inr

lemma quiet_undisturbed: "quiet c \<Longrightarrow> undisturbed c"
  by (simp add: quiet_def undisturbed_def)

text \<open>A quiet transaction does what its body does, and takes two more steps of time.\<close>

lemma transaction_quiet:
  assumes "quiet c"
    and "body (c\<lparr>tick := Suc (tick c), world := (\<lambda>n. alone (world c n))\<rparr>) = (r, c2)"
  shows "transaction conv body c =
    (case r of Inl x \<Rightarrow> (Inl x, c\<lparr>tick := tick c2\<rparr>)
     | Inr (Commit a) \<Rightarrow> (Inr a, c\<lparr>tick := Suc (tick c2), tables := tables c2\<rparr>)
     | Inr (Rollback a) \<Rightarrow> (Inr a, c\<lparr>tick := Suc (tick c2)\<rparr>))"
  using assms by (auto simp: transaction_def stmt_quiet Let_def quiet_def split: sum.split tx_end.split)

context protocol
begin

text \<open>A transaction whose body, run alone to its end, keeps the protocol: what the tables look
  like half-way does not matter.\<close>

lemma transaction_alone_obeys:
  assumes "\<And>c r c'. undisturbed c \<Longrightarrow> I (tables c) \<Longrightarrow> body c = (Inr r, c') \<Longrightarrow>
    I (tables c') \<and> R (tables c) (tables c')"
  shows "obeys I R (transaction conv body)"
  unfolding obeys_def
proof (intro allI impI)
  fix c :: "'s conn"
  assume p: "polite I R (world c)" and i: "I (tables c)"
  obtain r c1 where m: "stmt (\<lambda>e s. (Inr (), s)) c = (r, c1)" by fastforce
  have "obeys I R (stmt (\<lambda>e s. (Inr (), s)))" by (rule read_obeys) simp
  with p i m have 1: "I (tables c1)" "R (tables c) (tables c1)" "world c1 = world c"
    by (force simp: obeys_def)+
  let ?c = "c1\<lparr>world := (\<lambda>n. alone (world c n))\<rparr>"
  obtain r2 c2 where b: "body ?c = (r2, c2)" by fastforce
  have "undisturbed ?c" by (simp add: undisturbed_def alone_def)
  with assms [of ?c _ c2] 1(1) b have 2: "\<And>a. r2 = Inr a \<Longrightarrow> I (tables c2) \<and> R (tables c) (tables c2)"
    by (auto intro: trans [OF 1(2)])
  from 1 2 m b show "I (tables (snd (transaction conv body c))) \<and>
      R (tables c) (tables (snd (transaction conv body c))) \<and>
      world (snd (transaction conv body c)) = world c"
    by (auto simp: transaction_def Let_def split: sum.splits fate.splits tx_end.splits)
qed

end

section \<open>A calm world\<close>

text \<open>A store nobody else uses, on which no statement fails.\<close>

definition calm_env :: "nat \<Rightarrow> 's env" where
  "calm_env n = \<lparr>env_now = ''now'', env_utc = int n, env_uuid = ''id'' @ show_nat n,
     env_conflict = ''UNIQUE'', env_fate = Runs, env_others = (\<lambda>s. s)\<rparr>"

definition calm :: "'s \<Rightarrow> 's conn" where
  "calm s = \<lparr>tables = s, tick = 0, world = calm_env\<rparr>"

lemma calm_simps [simp]: "tables (calm s) = s" "quiet (calm s)" "tick (calm s) = 0"
    "world (calm s) = calm_env"
  by (simp_all add: calm_def quiet_def calm_env_def)

end
