(* ===== verification/Trace_Types.thy ===== *)
theory Trace_Types
  imports Prelude
begin

text \<open>
  Data of \<open>crates/astra-gateway/src/trace_model.rs\<close>: identifiers, statuses with their stored
  spelling and their permitted transitions, and the records that pass between the runner and a
  trace repository. Identifiers (\<open>RequestId\<close>, \<open>TraceId\<close>, \<open>RunId\<close>, \<open>OutboxId\<close>) wrap a
  \<open>String\<close> and are strings here. A record's fields carry a two-letter prefix, since several
  structs share field names. \<open>Utc::now()\<close> values are integers.
\<close>

text \<open>JSON values (\<open>serde_json::Value\<close>). A number that is no integer keeps its decimal text; the
  entries of an object are listed in the order of its keys.\<close>

datatype json = JNull | JBool bool | JNum int | JFloat string | JStr string | JArr "json list"
  | JObj "(string \<times> json) list"

definition opt_json :: "('a \<Rightarrow> json) \<Rightarrow> 'a option \<Rightarrow> json" where
  "opt_json f x = (case x of None \<Rightarrow> JNull | Some a \<Rightarrow> f a)"

record conversation_key =
  ck_platform :: string
  ck_chat_id :: string
  ck_cli_profile :: string

definition ConversationKey_new :: "string \<Rightarrow> string \<Rightarrow> string \<Rightarrow> conversation_key" where
  "ConversationKey_new platform chat_id cli_profile =
     \<lparr>ck_platform = platform, ck_chat_id = chat_id, ck_cli_profile = cli_profile\<rparr>"

definition ConversationKey_display :: "conversation_key \<Rightarrow> string" where
  "ConversationKey_display k = ck_platform k @ '':'' @ ck_chat_id k @ '':'' @ ck_cli_profile k"

section \<open>Statuses\<close>

datatype request_status = RqAccepted | RqRunning | RqCompleted | RqFailed

fun RequestStatus_as_str :: "request_status \<Rightarrow> string" where
  "RequestStatus_as_str RqAccepted = ''accepted''"
| "RequestStatus_as_str RqRunning = ''running''"
| "RequestStatus_as_str RqCompleted = ''completed''"
| "RequestStatus_as_str RqFailed = ''failed''"

definition RequestStatus_parse :: "string \<Rightarrow> request_status option" where
  "RequestStatus_parse v =
     (if v = ''accepted'' then Some RqAccepted
      else if v = ''running'' then Some RqRunning
      else if v = ''completed'' then Some RqCompleted
      else if v = ''failed'' then Some RqFailed
      else None)"

fun RequestStatus_is_terminal :: "request_status \<Rightarrow> bool" where
  "RequestStatus_is_terminal RqCompleted = True"
| "RequestStatus_is_terminal RqFailed = True"
| "RequestStatus_is_terminal _ = False"

definition RequestStatus_can_transition_to :: "request_status \<Rightarrow> request_status \<Rightarrow> bool" where
  "RequestStatus_can_transition_to self next \<longleftrightarrow>
     (case (self, next) of
        (RqAccepted, RqRunning) \<Rightarrow> True
      | (RqAccepted, RqCompleted) \<Rightarrow> True
      | (RqAccepted, RqFailed) \<Rightarrow> True
      | (RqRunning, RqCompleted) \<Rightarrow> True
      | (RqRunning, RqFailed) \<Rightarrow> True
      | _ \<Rightarrow> False) \<or> self = next"

datatype run_status = RnStarted | RnSucceeded | RnFailed

fun RunStatus_as_str :: "run_status \<Rightarrow> string" where
  "RunStatus_as_str RnStarted = ''started''"
| "RunStatus_as_str RnSucceeded = ''succeeded''"
| "RunStatus_as_str RnFailed = ''failed''"

definition RunStatus_parse :: "string \<Rightarrow> run_status option" where
  "RunStatus_parse v =
     (if v = ''started'' then Some RnStarted
      else if v = ''succeeded'' then Some RnSucceeded
      else if v = ''failed'' then Some RnFailed
      else None)"

definition RunStatus_can_transition_to :: "run_status \<Rightarrow> run_status \<Rightarrow> bool" where
  "RunStatus_can_transition_to self next \<longleftrightarrow>
     (case (self, next) of
        (RnStarted, RnSucceeded) \<Rightarrow> True
      | (RnStarted, RnFailed) \<Rightarrow> True
      | _ \<Rightarrow> False) \<or> self = next"

datatype outbox_status = ObPending | ObSent | ObFailed

fun OutboxStatus_as_str :: "outbox_status \<Rightarrow> string" where
  "OutboxStatus_as_str ObPending = ''pending''"
| "OutboxStatus_as_str ObSent = ''sent''"
| "OutboxStatus_as_str ObFailed = ''failed''"

definition OutboxStatus_parse :: "string \<Rightarrow> outbox_status option" where
  "OutboxStatus_parse v =
     (if v = ''pending'' then Some ObPending
      else if v = ''sent'' then Some ObSent
      else if v = ''failed'' then Some ObFailed
      else None)"

definition OutboxStatus_can_transition_to :: "outbox_status \<Rightarrow> outbox_status \<Rightarrow> bool" where
  "OutboxStatus_can_transition_to self next \<longleftrightarrow>
     (case (self, next) of
        (ObPending, ObSent) \<Rightarrow> True
      | (ObPending, ObFailed) \<Rightarrow> True
      | (ObFailed, ObSent) \<Rightarrow> True
      | (ObFailed, ObFailed) \<Rightarrow> True
      | _ \<Rightarrow> False) \<or> self = next"

definition OUTBOX_MAX_RETRIES :: int where
  "OUTBOX_MAX_RETRIES = 3"

section \<open>Events\<close>

datatype event_kind =
    RequestReceived | RequestCompleted | RequestFailed | RunStarted | RunCompleted | RunFailed
  | RequestQueued | RequestRunning | RequestCancelled | RequestShutdown | TurnSteerAccepted
  | TurnSteerFallback | TurnSteerOutcomeUnknown | PolicyDenied | CliProgress | Feedback
  | OutboxQueued | OutboxSent | OutboxFailed | Unknown

fun GatewayEventKind_as_str :: "event_kind \<Rightarrow> string" where
  "GatewayEventKind_as_str RequestReceived = ''request_received''"
| "GatewayEventKind_as_str RequestCompleted = ''request_completed''"
| "GatewayEventKind_as_str RequestFailed = ''request_failed''"
| "GatewayEventKind_as_str RunStarted = ''run_started''"
| "GatewayEventKind_as_str RunCompleted = ''run_completed''"
| "GatewayEventKind_as_str RunFailed = ''run_failed''"
| "GatewayEventKind_as_str RequestQueued = ''request_queued''"
| "GatewayEventKind_as_str RequestRunning = ''request_running''"
| "GatewayEventKind_as_str RequestCancelled = ''request_cancelled''"
| "GatewayEventKind_as_str RequestShutdown = ''request_shutdown''"
| "GatewayEventKind_as_str TurnSteerAccepted = ''turn_steer_accepted''"
| "GatewayEventKind_as_str TurnSteerFallback = ''turn_steer_fallback''"
| "GatewayEventKind_as_str TurnSteerOutcomeUnknown = ''turn_steer_outcome_unknown''"
| "GatewayEventKind_as_str PolicyDenied = ''policy_denied''"
| "GatewayEventKind_as_str CliProgress = ''cli_progress''"
| "GatewayEventKind_as_str Feedback = ''feedback''"
| "GatewayEventKind_as_str OutboxQueued = ''outbox_queued''"
| "GatewayEventKind_as_str OutboxSent = ''outbox_sent''"
| "GatewayEventKind_as_str OutboxFailed = ''outbox_failed''"
| "GatewayEventKind_as_str Unknown = ''unknown''"

definition GatewayEventKind_parse :: "string \<Rightarrow> event_kind" where
  "GatewayEventKind_parse v =
     (if v = ''request_received'' then RequestReceived
      else if v = ''request_completed'' then RequestCompleted
      else if v = ''request_failed'' then RequestFailed
      else if v = ''run_started'' then RunStarted
      else if v = ''run_completed'' then RunCompleted
      else if v = ''run_failed'' then RunFailed
      else if v = ''request_queued'' then RequestQueued
      else if v = ''request_running'' then RequestRunning
      else if v = ''request_cancelled'' then RequestCancelled
      else if v = ''request_shutdown'' then RequestShutdown
      else if v = ''turn_steer_accepted'' then TurnSteerAccepted
      else if v = ''turn_steer_fallback'' then TurnSteerFallback
      else if v = ''turn_steer_outcome_unknown'' then TurnSteerOutcomeUnknown
      else if v = ''policy_denied'' then PolicyDenied
      else if v = ''cli_progress'' then CliProgress
      else if v = ''feedback'' then Feedback
      else if v = ''outbox_queued'' then OutboxQueued
      else if v = ''outbox_sent'' then OutboxSent
      else if v = ''outbox_failed'' then OutboxFailed
      else Unknown)"

section \<open>Records\<close>

record gateway_request =
  rq_request_id :: string
  rq_trace_id :: string
  rq_conversation :: conversation_key
  rq_platform_msg_id :: string
  rq_user_id :: string
  rq_text :: string
  rq_status :: request_status
  rq_error_message :: "string option"
  rq_created_at :: int

record gateway_run =
  rn_run_id :: string
  rn_request_id :: string
  rn_trace_id :: string
  rn_cli_profile :: string
  rn_session_id :: "string option"
  rn_status :: run_status
  rn_exit_code :: "int option"
  rn_error_message :: "string option"

record outbox_record =
  ob_outbox_id :: string
  ob_request_id :: string
  ob_trace_id :: string
  ob_platform :: string
  ob_chat_id :: string
  ob_reply_token :: "string option"
  ob_body :: string
  ob_status :: outbox_status
  ob_error_message :: "string option"
  ob_retry_count :: int

record new_gateway_event =
  ne_trace_id :: string
  ne_request_id :: string
  ne_run_id :: "string option"
  ne_kind :: event_kind
  ne_payload :: json

record gateway_event =
  ge_sequence :: int
  ge_trace_id :: string
  ge_request_id :: string
  ge_run_id :: "string option"
  ge_kind :: event_kind
  ge_payload :: json
  ge_created_at :: string

record trace_summary =
  ts_trace_id :: string
  ts_request_id :: string
  ts_status :: request_status
  ts_text_preview :: string
  ts_created_at :: string
  ts_event_count :: nat

record active_request_summary =
  as_trace_id :: string
  as_request_id :: string
  as_user_id :: string
  as_status :: request_status
  as_text_preview :: string
  as_created_at :: string
  as_error_message :: "string option"
  as_run_status :: "run_status option"
  as_outbox_status :: "outbox_status option"
  as_outbox_error_message :: "string option"
  as_event_count :: nat
  as_last_event_kind :: "event_kind option"

definition display_status :: "active_request_summary \<Rightarrow> string" where
  "display_status a =
     (case (as_status a, as_outbox_status a) of
        (_, Some ObFailed) \<Rightarrow> ''reply_retrying''
      | (st, ob) \<Rightarrow>
          if ob = Some ObPending \<and> RequestStatus_is_terminal (as_status a) then ''reply_pending''
          else (case st of
                  RqAccepted \<Rightarrow> ''queued''
                | RqRunning \<Rightarrow> ''running''
                | RqCompleted \<Rightarrow> ''completed''
                | RqFailed \<Rightarrow> ''failed''))"

definition is_cancellable :: "active_request_summary \<Rightarrow> bool" where
  "is_cancellable a \<longleftrightarrow> as_status a = RqAccepted"

record gateway_status_summary =
  gs_active_count :: nat
  gs_queued_count :: nat
  gs_running_count :: nat
  gs_retrying_outbox_count :: nat
  gs_pending_outbox_count :: nat
  gs_recent_trace_count :: nat
  gs_last_trace :: "trace_summary option"

datatype cancel_request_outcome =
    Cancelled active_request_summary
  | AlreadyRunning active_request_summary
  | CancelNotFound

text \<open>Constructors of the structs, with the generated identifiers and the clock as arguments.\<close>

definition GatewayRequest_new ::
  "string \<Rightarrow> string \<Rightarrow> int \<Rightarrow> conversation_key \<Rightarrow> string \<Rightarrow> string \<Rightarrow> string \<Rightarrow> gateway_request" where
  "GatewayRequest_new rid tid now conversation platform_msg_id user_id text =
     \<lparr>rq_request_id = rid, rq_trace_id = tid, rq_conversation = conversation,
      rq_platform_msg_id = platform_msg_id, rq_user_id = user_id, rq_text = text,
      rq_status = RqAccepted, rq_error_message = None, rq_created_at = now\<rparr>"

definition GatewayRun_start ::
  "string \<Rightarrow> string \<Rightarrow> string \<Rightarrow> string \<Rightarrow> string option \<Rightarrow> gateway_run" where
  "GatewayRun_start run_id request_id trace_id cli_profile session_id =
     \<lparr>rn_run_id = run_id, rn_request_id = request_id, rn_trace_id = trace_id,
      rn_cli_profile = cli_profile, rn_session_id = session_id, rn_status = RnStarted,
      rn_exit_code = None, rn_error_message = None\<rparr>"

definition OutboxRecord_pending ::
  "string \<Rightarrow> string \<Rightarrow> string \<Rightarrow> string \<Rightarrow> string \<Rightarrow> string option \<Rightarrow> string \<Rightarrow> outbox_record" where
  "OutboxRecord_pending outbox_id request_id trace_id platform chat_id reply_token body =
     \<lparr>ob_outbox_id = outbox_id, ob_request_id = request_id, ob_trace_id = trace_id,
      ob_platform = platform, ob_chat_id = chat_id, ob_reply_token = reply_token,
      ob_body = body, ob_status = ObPending, ob_error_message = None, ob_retry_count = 0\<rparr>"

section \<open>Spelling and transitions\<close>

lemma RequestStatus_parse_as_str [simp]: "RequestStatus_parse (RequestStatus_as_str s) = Some s"
  by (cases s) (simp_all add: RequestStatus_parse_def)

lemma RunStatus_parse_as_str [simp]: "RunStatus_parse (RunStatus_as_str s) = Some s"
  by (cases s) (simp_all add: RunStatus_parse_def)

lemma OutboxStatus_parse_as_str [simp]: "OutboxStatus_parse (OutboxStatus_as_str s) = Some s"
  by (cases s) (simp_all add: OutboxStatus_parse_def)

lemma GatewayEventKind_parse_as_str [simp]: "GatewayEventKind_parse (GatewayEventKind_as_str k) = k"
  by (cases k) (simp_all add: GatewayEventKind_parse_def)

lemma RequestStatus_as_str_inj [simp]: "RequestStatus_as_str a = RequestStatus_as_str b \<longleftrightarrow> a = b"
  by (metis RequestStatus_parse_as_str option.inject)

lemma OutboxStatus_as_str_inj [simp]: "OutboxStatus_as_str a = OutboxStatus_as_str b \<longleftrightarrow> a = b"
  by (metis OutboxStatus_parse_as_str option.inject)

lemma RunStatus_as_str_inj [simp]: "RunStatus_as_str a = RunStatus_as_str b \<longleftrightarrow> a = b"
  by (metis RunStatus_parse_as_str option.inject)

lemma RequestStatus_parse_Some: "RequestStatus_parse v = Some s \<longleftrightarrow> v = RequestStatus_as_str s"
  by (cases s) (auto simp: RequestStatus_parse_def)

lemma OutboxStatus_parse_Some: "OutboxStatus_parse v = Some s \<longleftrightarrow> v = OutboxStatus_as_str s"
  by (cases s) (auto simp: OutboxStatus_parse_def)

lemma RunStatus_parse_Some: "RunStatus_parse v = Some s \<longleftrightarrow> v = RunStatus_as_str s"
  by (cases s) (auto simp: RunStatus_parse_def)

lemma terminal_transition:
  "RequestStatus_can_transition_to s t \<Longrightarrow> RequestStatus_is_terminal s \<Longrightarrow> s = t"
  by (cases s; cases t) (auto simp: RequestStatus_can_transition_to_def)

lemma sent_transition: "OutboxStatus_can_transition_to ObSent t \<Longrightarrow> t = ObSent"
  by (cases t) (auto simp: OutboxStatus_can_transition_to_def)

end
