(* ===== verification/Trace_Tables.thy ===== *)
theory Trace_Tables
  imports Sql Trace_Types
begin

text \<open>
  The four tables of the trace store (\<open>gw_trace_requests\<close>, \<open>gw_trace_runs\<close>,
  \<open>gw_trace_events\<close>, \<open>gw_trace_outbox\<close>) as \<open>trace_model.rs\<close> creates them, one record per
  row type. Status and kind columns hold text. \<open>event_id\<close> is assigned by the engine
  (\<open>AUTOINCREMENT\<close>), from a counter kept beside the tables. The statements the two SQL backends
  share are here as table updates.
\<close>

record request_row =
  qr_request_id :: string
  qr_trace_id :: string
  qr_platform :: string
  qr_chat_id :: string
  qr_cli_profile :: string
  qr_platform_msg_id :: string
  qr_user_id :: string
  qr_text :: string
  qr_status :: string
  qr_error_message :: "string option"
  qr_created_at :: string
  qr_updated_at :: string

record run_row =
  qn_run_id :: string
  qn_request_id :: string
  qn_trace_id :: string
  qn_cli_profile :: string
  qn_session_id :: "string option"
  qn_status :: string
  qn_exit_code :: "int option"
  qn_error_message :: "string option"
  qn_started_at :: string
  qn_finished_at :: "string option"

record event_row =
  qe_event_id :: int
  qe_trace_id :: string
  qe_request_id :: string
  qe_run_id :: "string option"
  qe_kind :: string
  qe_payload :: string
  qe_created_at :: string

record outbox_row =
  qo_outbox_id :: string
  qo_trace_id :: string
  qo_request_id :: string
  qo_platform :: string
  qo_chat_id :: string
  qo_reply_token :: "string option"
  qo_body :: string
  qo_status :: string
  qo_error_message :: "string option"
  qo_retry_count :: int
  qo_created_at :: string
  qo_sent_at :: "string option"

record trace_db =
  tb_requests :: "request_row list"
  tb_runs :: "run_row list"
  tb_events :: "event_row list"
  tb_outbox :: "outbox_row list"
  tb_next_event :: int

type_synonym 'a trace_op = "(trace_db, string, 'a) op"

definition unwrap_or :: "'a \<Rightarrow> 'a option \<Rightarrow> 'a" where
  "unwrap_or d x = (case x of Some a \<Rightarrow> a | None \<Rightarrow> d)"

lemma unwrap_or_simps [simp]: "unwrap_or d (Some a) = a" "unwrap_or d None = d"
  by (simp_all add: unwrap_or_def)

definition select :: "('s \<Rightarrow> 'a) \<Rightarrow> ('s, 'a) sql" where
  "select q e s = (Inr (q s), s)"

definition update_requests ::
  "(request_row \<Rightarrow> bool) \<Rightarrow> (string \<Rightarrow> request_row \<Rightarrow> request_row) \<Rightarrow> (trace_db, nat) sql" where
  "update_requests p f e s =
     (Inr (affected p (tb_requests s)),
      s\<lparr>tb_requests := update_where p (f (env_now e)) (tb_requests s)\<rparr>)"

definition update_runs ::
  "(run_row \<Rightarrow> bool) \<Rightarrow> (string \<Rightarrow> run_row \<Rightarrow> run_row) \<Rightarrow> (trace_db, nat) sql" where
  "update_runs p f e s =
     (Inr (affected p (tb_runs s)), s\<lparr>tb_runs := update_where p (f (env_now e)) (tb_runs s)\<rparr>)"

definition update_outbox ::
  "(outbox_row \<Rightarrow> bool) \<Rightarrow> (string \<Rightarrow> outbox_row \<Rightarrow> outbox_row) \<Rightarrow> (trace_db, nat) sql" where
  "update_outbox p f e s =
     (Inr (affected p (tb_outbox s)), s\<lparr>tb_outbox := update_where p (f (env_now e)) (tb_outbox s)\<rparr>)"

text \<open>Inserts: a duplicate primary key is an error of the engine.\<close>

definition insert_request :: "(string \<Rightarrow> request_row) \<Rightarrow> (trace_db, unit) sql" where
  "insert_request r e s =
     (case insert_row qr_request_id (r (env_now e)) (tb_requests s) of
        None \<Rightarrow> (Inl (env_conflict e), s)
      | Some rows \<Rightarrow> (Inr (), s\<lparr>tb_requests := rows\<rparr>))"

definition insert_run :: "(string \<Rightarrow> run_row) \<Rightarrow> (trace_db, unit) sql" where
  "insert_run r e s =
     (case insert_row qn_run_id (r (env_now e)) (tb_runs s) of
        None \<Rightarrow> (Inl (env_conflict e), s)
      | Some rows \<Rightarrow> (Inr (), s\<lparr>tb_runs := rows\<rparr>))"

definition insert_outbox :: "(string \<Rightarrow> outbox_row) \<Rightarrow> (trace_db, unit) sql" where
  "insert_outbox r e s =
     (case insert_row qo_outbox_id (r (env_now e)) (tb_outbox s) of
        None \<Rightarrow> (Inl (env_conflict e), s)
      | Some rows \<Rightarrow> (Inr (), s\<lparr>tb_outbox := rows\<rparr>))"

definition insert_event :: "(string \<Rightarrow> int \<Rightarrow> event_row) \<Rightarrow> (trace_db, unit) sql" where
  "insert_event r e s =
     (Inr (), s\<lparr>tb_events := tb_events s @ [r (env_now e) (tb_next_event s)],
                tb_next_event := tb_next_event s + 1\<rparr>)"

text \<open>\<open>CASE WHEN length(text) > 120 THEN substr(text, 1, 120) || '...'\<close> with the ellipsis character\<close>

definition preview :: "string \<Rightarrow> string" where
  "preview t = (if 120 < char_count t then take_chars 120 t @ [CHR 0xE2, CHR 0x80, CHR 0xA6] else t)"

definition in_conversation :: "conversation_key \<Rightarrow> request_row \<Rightarrow> bool" where
  "in_conversation k r \<longleftrightarrow>
     qr_platform r = ck_platform k \<and> qr_chat_id r = ck_chat_id k \<and>
     qr_cli_profile r = ck_cli_profile k"

text \<open>\<open>status IN ('pending', 'failed') AND retry_count < ?\<close> and \<open>status IN ('accepted', 'running')\<close>\<close>

definition retryable :: "outbox_row \<Rightarrow> bool" where
  "retryable o' \<longleftrightarrow>
     (qo_status o' = ''pending'' \<or> qo_status o' = ''failed'') \<and>
     qo_retry_count o' < OUTBOX_MAX_RETRIES"

definition active_status :: "string \<Rightarrow> bool" where
  "active_status st \<longleftrightarrow> st = ''accepted'' \<or> st = ''running''"

lemma active_status_iff:
  "active_status (RequestStatus_as_str st) \<longleftrightarrow> \<not> RequestStatus_is_terminal st"
  by (cases st) (simp_all add: active_status_def)

section \<open>Well-formed tables\<close>

text \<open>
  Keys are unique, every status is the spelling of a status, retry counters stay between 0 and
  the maximum, and event numbers increase along the log and stay below the counter.
\<close>

definition request_row_ok :: "request_row \<Rightarrow> bool" where
  "request_row_ok r \<longleftrightarrow> RequestStatus_parse (qr_status r) \<noteq> None"

definition run_row_ok :: "run_row \<Rightarrow> bool" where
  "run_row_ok r \<longleftrightarrow> RunStatus_parse (qn_status r) \<noteq> None"

definition outbox_row_ok :: "outbox_row \<Rightarrow> bool" where
  "outbox_row_ok r \<longleftrightarrow>
     OutboxStatus_parse (qo_status r) \<noteq> None \<and>
     0 \<le> qo_retry_count r \<and> qo_retry_count r \<le> OUTBOX_MAX_RETRIES"

definition trace_ok :: "trace_db \<Rightarrow> bool" where
  "trace_ok s \<longleftrightarrow>
     distinct (map qr_request_id (tb_requests s)) \<and>
     distinct (map qn_run_id (tb_runs s)) \<and>
     distinct (map qo_outbox_id (tb_outbox s)) \<and>
     (\<forall>r \<in> set (tb_requests s). request_row_ok r) \<and>
     (\<forall>r \<in> set (tb_runs s). run_row_ok r) \<and>
     (\<forall>r \<in> set (tb_outbox s). outbox_row_ok r) \<and>
     sorted_wrt (<) (map qe_event_id (tb_events s)) \<and>
     (\<forall>e \<in> set (tb_events s). qe_event_id e < tb_next_event s)"

text \<open>
  How tables may evolve, in any number of statements: no request, run, or outbox row is deleted;
  identity columns and bodies never change; a request in a terminal status keeps it, so does a
  sent outbox entry; retry counters never decrease; the event log only grows at its end.
\<close>

definition request_row_step :: "request_row \<Rightarrow> request_row \<Rightarrow> bool" where
  "request_row_step r r' \<longleftrightarrow>
     qr_request_id r' = qr_request_id r \<and> qr_trace_id r' = qr_trace_id r \<and>
     qr_platform r' = qr_platform r \<and> qr_chat_id r' = qr_chat_id r \<and>
     qr_cli_profile r' = qr_cli_profile r \<and> qr_user_id r' = qr_user_id r \<and>
     qr_text r' = qr_text r \<and> qr_created_at r' = qr_created_at r \<and>
     (\<not> active_status (qr_status r) \<longrightarrow> qr_status r' = qr_status r)"

definition run_row_step :: "run_row \<Rightarrow> run_row \<Rightarrow> bool" where
  "run_row_step r r' \<longleftrightarrow>
     qn_run_id r' = qn_run_id r \<and> qn_request_id r' = qn_request_id r \<and>
     (qn_status r \<noteq> ''started'' \<longrightarrow> qn_status r' = qn_status r)"

definition outbox_row_step :: "outbox_row \<Rightarrow> outbox_row \<Rightarrow> bool" where
  "outbox_row_step r r' \<longleftrightarrow>
     qo_outbox_id r' = qo_outbox_id r \<and> qo_request_id r' = qo_request_id r \<and>
     qo_platform r' = qo_platform r \<and> qo_chat_id r' = qo_chat_id r \<and>
     qo_body r' = qo_body r \<and> qo_reply_token r' = qo_reply_token r \<and>
     (qo_status r = ''sent'' \<longrightarrow> qo_status r' = ''sent'') \<and>
     qo_retry_count r \<le> qo_retry_count r'"

definition trace_step :: "trace_db \<Rightarrow> trace_db \<Rightarrow> bool" where
  "trace_step s s' \<longleftrightarrow>
     grows request_row_step (tb_requests s) (tb_requests s') \<and>
     grows run_row_step (tb_runs s) (tb_runs s') \<and>
     grows outbox_row_step (tb_outbox s) (tb_outbox s') \<and>
     prefix (tb_events s) (tb_events s')"


section \<open>Statements obey the protocol\<close>

lemma request_row_step_refl [simp]: "request_row_step r r"
  and run_row_step_refl [simp]: "run_row_step n n"
  and outbox_row_step_refl [simp]: "outbox_row_step b b"
  by (simp_all add: request_row_step_def run_row_step_def outbox_row_step_def)

lemma request_row_step_trans:
  "request_row_step a b \<Longrightarrow> request_row_step b c \<Longrightarrow> request_row_step a c"
  by (auto simp: request_row_step_def)

lemma run_row_step_trans: "run_row_step a b \<Longrightarrow> run_row_step b c \<Longrightarrow> run_row_step a c"
  by (auto simp: run_row_step_def)

lemma outbox_row_step_trans:
  "outbox_row_step a b \<Longrightarrow> outbox_row_step b c \<Longrightarrow> outbox_row_step a c"
  by (auto simp: outbox_row_step_def)

lemma trace_step_refl: "trace_step s s"
  by (simp add: trace_step_def grows_refl)

lemma trace_step_trans: "trace_step s t \<Longrightarrow> trace_step t u \<Longrightarrow> trace_step s u"
  unfolding trace_step_def
  by (meson grows_trans outbox_row_step_trans prefix_order.trans request_row_step_trans
      run_row_step_trans)

interpretation trace: protocol trace_ok trace_step
  by unfold_locales (auto intro: trace_step_refl trace_step_trans)

lemma insert_request_obeys:
  assumes "\<And>t. request_row_ok (r t)"
  shows "obeys trace_ok trace_step (stmt (insert_request r))"
proof (rule trace.stmt_obeys)
  fix e :: "trace_db env" and s assume ok: "trace_ok s"
  show "trace_ok (snd (insert_request r e s)) \<and> trace_step s (snd (insert_request r e s))"
    using ok assms insert_row_ok [of qr_request_id "r (env_now e)" "tb_requests s" _ request_row_ok
        request_row_step]
    by (auto simp: insert_request_def trace_ok_def trace_step_def grows_refl split: option.splits)
qed

lemma insert_run_obeys:
  assumes "\<And>t. run_row_ok (r t)"
  shows "obeys trace_ok trace_step (stmt (insert_run r))"
proof (rule trace.stmt_obeys)
  fix e :: "trace_db env" and s assume ok: "trace_ok s"
  show "trace_ok (snd (insert_run r e s)) \<and> trace_step s (snd (insert_run r e s))"
    using ok assms insert_row_ok [of qn_run_id "r (env_now e)" "tb_runs s" _ run_row_ok run_row_step]
    by (auto simp: insert_run_def trace_ok_def trace_step_def grows_refl split: option.splits)
qed

lemma insert_outbox_obeys:
  assumes "\<And>t. outbox_row_ok (r t)"
  shows "obeys trace_ok trace_step (stmt (insert_outbox r))"
proof (rule trace.stmt_obeys)
  fix e :: "trace_db env" and s assume ok: "trace_ok s"
  show "trace_ok (snd (insert_outbox r e s)) \<and> trace_step s (snd (insert_outbox r e s))"
    using ok assms insert_row_ok [of qo_outbox_id "r (env_now e)" "tb_outbox s" _ outbox_row_ok
        outbox_row_step]
    by (auto simp: insert_outbox_def trace_ok_def trace_step_def grows_refl split: option.splits)
qed

lemma insert_event_obeys:
  assumes "\<And>t n. qe_event_id (r t n) = n"
  shows "obeys trace_ok trace_step (stmt (insert_event r))"
proof (rule trace.stmt_obeys)
  fix e :: "trace_db env" and s assume ok: "trace_ok s"
  show "trace_ok (snd (insert_event r e s)) \<and> trace_step s (snd (insert_event r e s))"
    using ok assms
    by (fastforce simp: insert_event_def trace_ok_def trace_step_def grows_refl sorted_wrt_append)
qed

lemma update_requests_obeys:
  assumes "\<And>t r. p r \<Longrightarrow> request_row_ok r \<Longrightarrow> request_row_step r (f t r) \<and> request_row_ok (f t r)"
    and "\<And>t r. qr_request_id (f t r) = qr_request_id r"
  shows "obeys trace_ok trace_step (stmt (update_requests p f))"
proof (rule trace.stmt_obeys)
  fix e :: "trace_db env" and s assume ok: "trace_ok s"
  have "grows request_row_step (tb_requests s) (update_where p (f (env_now e)) (tb_requests s))"
    using ok assms(1) by (intro grows_update_where) (auto simp: trace_ok_def)
  with ok assms show "trace_ok (snd (update_requests p f e s)) \<and>
      trace_step s (snd (update_requests p f e s))"
    by (auto simp: update_requests_def trace_ok_def trace_step_def grows_refl set_update_where
        map_key_update_where)
qed

lemma update_runs_obeys:
  assumes "\<And>t r. p r \<Longrightarrow> run_row_ok r \<Longrightarrow> run_row_step r (f t r) \<and> run_row_ok (f t r)"
    and "\<And>t r. qn_run_id (f t r) = qn_run_id r"
  shows "obeys trace_ok trace_step (stmt (update_runs p f))"
proof (rule trace.stmt_obeys)
  fix e :: "trace_db env" and s assume ok: "trace_ok s"
  have "grows run_row_step (tb_runs s) (update_where p (f (env_now e)) (tb_runs s))"
    using ok assms(1) by (intro grows_update_where) (auto simp: trace_ok_def)
  with ok assms show "trace_ok (snd (update_runs p f e s)) \<and> trace_step s (snd (update_runs p f e s))"
    by (auto simp: update_runs_def trace_ok_def trace_step_def grows_refl set_update_where
        map_key_update_where)
qed

lemma update_outbox_obeys:
  assumes "\<And>t r. p r \<Longrightarrow> outbox_row_ok r \<Longrightarrow> outbox_row_step r (f t r) \<and> outbox_row_ok (f t r)"
    and "\<And>t r. qo_outbox_id (f t r) = qo_outbox_id r"
  shows "obeys trace_ok trace_step (stmt (update_outbox p f))"
proof (rule trace.stmt_obeys)
  fix e :: "trace_db env" and s assume ok: "trace_ok s"
  have "grows outbox_row_step (tb_outbox s) (update_where p (f (env_now e)) (tb_outbox s))"
    using ok assms(1) by (intro grows_update_where) (auto simp: trace_ok_def)
  with ok assms show "trace_ok (snd (update_outbox p f e s)) \<and>
      trace_step s (snd (update_outbox p f e s))"
    by (auto simp: update_outbox_def trace_ok_def trace_step_def grows_refl set_update_where
        map_key_update_where)
qed

lemma select_obeys: "obeys trace_ok trace_step (stmt (select q))"
  by (rule trace.read_obeys) (simp add: select_def)

lemmas trace_stmt_obeys = select_obeys insert_request_obeys insert_run_obeys insert_outbox_obeys
  insert_event_obeys update_requests_obeys update_runs_obeys update_outbox_obeys

end
