(* ===== verification/Trace_Writer.thy ===== *)
theory Trace_Writer
  imports Trace_Tables
begin

text \<open>
  The \<open>TraceRepository\<close> trait of \<open>trace_model.rs\<close> as a record of operations (what a
  \<open>dyn TraceRepository\<close> is), its default methods, and \<open>TraceWriter\<close>, through which the runner
  and the scheduler record the life of one request. The trait's contract is the locale
  \<open>trace_repository\<close>; the writer is shown to keep it.
\<close>

record 's trace_repo =
  tr_create_request :: "gateway_request \<Rightarrow> ('s, string, unit) op"
  tr_get_request :: "string \<Rightarrow> ('s, string, gateway_request option) op"
  tr_update_request_status ::
    "string \<Rightarrow> request_status \<Rightarrow> string option \<Rightarrow> ('s, string, unit) op"
  tr_transition_request_if ::
    "string \<Rightarrow> request_status \<Rightarrow> request_status \<Rightarrow> string option \<Rightarrow> ('s, string, bool) op"
  tr_create_run :: "gateway_run \<Rightarrow> ('s, string, unit) op"
  tr_finish_run ::
    "string \<Rightarrow> run_status \<Rightarrow> int option \<Rightarrow> string option \<Rightarrow> ('s, string, unit) op"
  tr_enqueue_outbox :: "outbox_record \<Rightarrow> ('s, string, unit) op"
  tr_get_outbox :: "string \<Rightarrow> ('s, string, outbox_record option) op"
  tr_list_retryable_outbox :: "string option \<Rightarrow> nat \<Rightarrow> ('s, string, outbox_record list) op"
  tr_update_outbox_status ::
    "string \<Rightarrow> outbox_status \<Rightarrow> string option \<Rightarrow> ('s, string, unit) op"
  tr_append_event :: "new_gateway_event \<Rightarrow> ('s, string, unit) op"
  tr_list_events_for_trace :: "string \<Rightarrow> nat \<Rightarrow> ('s, string, gateway_event list) op"
  tr_list_recent_traces :: "conversation_key \<Rightarrow> nat \<Rightarrow> ('s, string, trace_summary list) op"
  tr_list_active_requests ::
    "conversation_key \<Rightarrow> nat \<Rightarrow> ('s, string, active_request_summary list) op"
  tr_sweep_stale_requests :: "string \<Rightarrow> ('s, string, nat) op"
  tr_sweep_conversation_stale_requests ::
    "conversation_key \<Rightarrow> string \<Rightarrow> ('s, string, nat) op"
  tr_force_fail_request :: "string \<Rightarrow> string \<Rightarrow> ('s, string, bool) op"
  tr_dismiss_failed_outbox :: "string \<Rightarrow> ('s, string, unit) op"

section \<open>Default methods of the trait\<close>

definition claim_accepted_request :: "'s trace_repo \<Rightarrow> string \<Rightarrow> ('s, string, bool) op" where
  "claim_accepted_request repo request_id =
     tr_transition_request_if repo request_id RqAccepted RqRunning None"

definition release_steer_claim :: "'s trace_repo \<Rightarrow> string \<Rightarrow> ('s, string, bool) op" where
  "release_steer_claim repo request_id =
     tr_transition_request_if repo request_id RqRunning RqAccepted None"

definition fail_if_accepted ::
  "'s trace_repo \<Rightarrow> string \<Rightarrow> string \<Rightarrow> ('s, string, bool) op" where
  "fail_if_accepted repo request_id reason =
     tr_transition_request_if repo request_id RqAccepted RqFailed (Some reason)"

definition gateway_status ::
  "'s trace_repo \<Rightarrow> conversation_key \<Rightarrow> ('s, string, gateway_status_summary) op" where
  "gateway_status repo conversation =
     and_then (tr_list_active_requests repo conversation 20) (\<lambda>active.
     and_then (tr_list_recent_traces repo conversation 10) (\<lambda>recent.
     ret \<lparr>gs_active_count = length active,
          gs_queued_count = length (filter (\<lambda>r. as_status r = RqAccepted) active),
          gs_running_count = length (filter (\<lambda>r. as_status r = RqRunning) active),
          gs_retrying_outbox_count =
            length (filter (\<lambda>r. as_outbox_status r = Some ObFailed) active),
          gs_pending_outbox_count =
            length (filter (\<lambda>r. as_outbox_status r = Some ObPending) active),
          gs_recent_trace_count = length recent,
          gs_last_trace = first_row recent\<rparr>))"

definition selected :: "string \<Rightarrow> active_request_summary \<Rightarrow> bool" where
  "selected selector request \<longleftrightarrow>
     as_trace_id request = selector \<or> as_request_id request = selector \<or>
     starts_with (as_trace_id request) selector \<or> starts_with (as_request_id request) selector"

definition cancel_accepted_request ::
  "'s trace_repo \<Rightarrow> conversation_key \<Rightarrow> string \<Rightarrow> string \<Rightarrow>
   ('s, string, cancel_request_outcome) op" where
  "cancel_accepted_request repo conversation selector reason =
     and_then (tr_list_active_requests repo conversation 50) (\<lambda>active.
     case find (selected selector) active of
       None \<Rightarrow> ret CancelNotFound
     | Some request \<Rightarrow>
         (if as_status request = RqRunning then ret (AlreadyRunning request)
          else if as_status request \<noteq> RqAccepted then ret CancelNotFound
          else
            and_then (fail_if_accepted repo (as_request_id request) reason) (\<lambda>failed.
            if \<not> failed then
              and_then (tr_get_request repo (as_request_id request)) (\<lambda>current.
              case current of
                Some q \<Rightarrow> if rq_status q = RqRunning then ret (AlreadyRunning request)
                          else ret CancelNotFound
              | None \<Rightarrow> ret CancelNotFound)
            else
              and_then (tr_append_event repo
                 \<lparr>ne_trace_id = as_trace_id request, ne_request_id = as_request_id request,
                  ne_run_id = None, ne_kind = RequestCancelled,
                  ne_payload = JObj [(''reason'', JStr reason)]\<rparr>) (\<lambda>_.
              ret (Cancelled (request\<lparr>as_status := RqFailed,
                                     as_error_message := Some reason,
                                     as_last_event_kind := Some RequestCancelled,
                                     as_event_count := as_event_count request + 1\<rparr>))))))"

section \<open>TraceWriter\<close>

record trace_writer =
  tw_trace_id :: string
  tw_request_id :: string

definition from_existing :: "string \<Rightarrow> string \<Rightarrow> trace_writer" where
  "from_existing trace_id request_id = \<lparr>tw_trace_id = trace_id, tw_request_id = request_id\<rparr>"

definition tw_append ::
  "'s trace_repo \<Rightarrow> trace_writer \<Rightarrow> event_kind \<Rightarrow> json \<Rightarrow> ('s, string, unit) op" where
  "tw_append repo w kind payload =
     tr_append_event repo
       \<lparr>ne_trace_id = tw_trace_id w, ne_request_id = tw_request_id w, ne_run_id = None,
        ne_kind = kind, ne_payload = payload\<rparr>"

definition tw_begin ::
  "'s trace_repo \<Rightarrow> gateway_request \<Rightarrow> ('s, string, trace_writer) op" where
  "tw_begin repo request =
     and_then (tr_create_request repo request) (\<lambda>_.
     let writer = \<lparr>tw_trace_id = rq_trace_id request, tw_request_id = rq_request_id request\<rparr>;
         conversation = rq_conversation request
     in and_then (tw_append repo writer RequestReceived
          (JObj [(''conversation'', JStr (ConversationKey_display conversation)),
                 (''platform'', JStr (ck_platform conversation)),
                 (''chat_id'', JStr (ck_chat_id conversation)),
                 (''cli_profile'', JStr (ck_cli_profile conversation)),
                 (''platform_msg_id'', JStr (rq_platform_msg_id request)),
                 (''user_id'', JStr (rq_user_id request))]))
        (\<lambda>_. ret writer))"

definition mark_queued :: "'s trace_repo \<Rightarrow> trace_writer \<Rightarrow> nat \<Rightarrow> ('s, string, unit) op" where
  "mark_queued repo w depth =
     tw_append repo w RequestQueued (JObj [(''queue_depth'', JNum (int depth))])"

definition mark_running :: "'s trace_repo \<Rightarrow> trace_writer \<Rightarrow> ('s, string, unit) op" where
  "mark_running repo w = tw_append repo w RequestRunning (JObj [])"

definition claim_for_steer :: "'s trace_repo \<Rightarrow> trace_writer \<Rightarrow> ('s, string, bool) op" where
  "claim_for_steer repo w =
     and_then (claim_accepted_request repo (tw_request_id w)) (\<lambda>claimed.
     if \<not> claimed then ret False
     else and_then (mark_running repo w) (\<lambda>_. ret True))"

definition tw_release_steer_claim :: "'s trace_repo \<Rightarrow> trace_writer \<Rightarrow> ('s, string, bool) op" where
  "tw_release_steer_claim repo w = release_steer_claim repo (tw_request_id w)"

definition mark_cancelled ::
  "'s trace_repo \<Rightarrow> trace_writer \<Rightarrow> string \<Rightarrow> ('s, string, unit) op" where
  "mark_cancelled repo w reason =
     tw_append repo w RequestCancelled (JObj [(''reason'', JStr reason)])"

definition mark_shutdown ::
  "'s trace_repo \<Rightarrow> trace_writer \<Rightarrow> string \<Rightarrow> ('s, string, unit) op" where
  "mark_shutdown repo w reason =
     tw_append repo w RequestShutdown (JObj [(''reason'', JStr reason)])"

definition start_run ::
  "'s trace_repo \<Rightarrow> trace_writer \<Rightarrow> string \<Rightarrow> string option \<Rightarrow> ('s, string, string) op" where
  "start_run repo w cli_profile session_id =
     and_then (tr_update_request_status repo (tw_request_id w) RqRunning None) (\<lambda>_.
     and_then new_uuid (\<lambda>run_id.
     let run = GatewayRun_start run_id (tw_request_id w) (tw_trace_id w) cli_profile session_id in
     and_then (tr_create_run repo run) (\<lambda>_.
     and_then (tr_append_event repo
        \<lparr>ne_trace_id = tw_trace_id w, ne_request_id = tw_request_id w,
         ne_run_id = Some (rn_run_id run), ne_kind = RunStarted,
         ne_payload = JObj [(''cli_profile'', JStr (rn_cli_profile run)),
                            (''session_id'', opt_json JStr (rn_session_id run))]\<rparr>) (\<lambda>_.
     ret (rn_run_id run)))))"

definition tw_finish_run ::
  "'s trace_repo \<Rightarrow> trace_writer \<Rightarrow> string \<Rightarrow> run_status \<Rightarrow> int option \<Rightarrow> string option \<Rightarrow>
   ('s, string, unit) op" where
  "tw_finish_run repo w run_id status exit_code error_message =
     and_then (tr_finish_run repo run_id status exit_code error_message) (\<lambda>_.
     tr_append_event repo
       \<lparr>ne_trace_id = tw_trace_id w, ne_request_id = tw_request_id w,
        ne_run_id = Some run_id,
        ne_kind = (case status of RnSucceeded \<Rightarrow> RunCompleted | RnFailed \<Rightarrow> RunFailed
                    | RnStarted \<Rightarrow> RunStarted),
        ne_payload = JObj [(''status'', JStr (RunStatus_as_str status)),
                           (''exit_code'', opt_json JNum exit_code),
                           (''error'', opt_json JStr error_message)]\<rparr>)"

definition complete_request :: "'s trace_repo \<Rightarrow> trace_writer \<Rightarrow> ('s, string, unit) op" where
  "complete_request repo w =
     and_then (tr_update_request_status repo (tw_request_id w) RqCompleted None) (\<lambda>_.
     tw_append repo w RequestCompleted (JObj []))"

definition fail_request ::
  "'s trace_repo \<Rightarrow> trace_writer \<Rightarrow> string \<Rightarrow> ('s, string, unit) op" where
  "fail_request repo w error_message =
     and_then (tr_update_request_status repo (tw_request_id w) RqFailed (Some error_message)) (\<lambda>_.
     tw_append repo w RequestFailed (JObj [(''error'', JStr error_message)]))"

definition fail_request_if_active ::
  "'s trace_repo \<Rightarrow> trace_writer \<Rightarrow> string \<Rightarrow> ('s, string, bool) op" where
  "fail_request_if_active repo w error_message =
     and_then (tr_force_fail_request repo (tw_trace_id w) error_message) (\<lambda>forced.
     if \<not> forced then ret False
     else and_then (tw_append repo w RequestFailed (JObj [(''error'', JStr error_message)]))
            (\<lambda>_. ret True))"

definition tw_enqueue_outbox ::
  "'s trace_repo \<Rightarrow> trace_writer \<Rightarrow> string \<Rightarrow> string \<Rightarrow> string option \<Rightarrow> string \<Rightarrow>
   ('s, string, string) op" where
  "tw_enqueue_outbox repo w platform chat_id reply_token body =
     and_then new_uuid (\<lambda>outbox_id.
     let outbox = OutboxRecord_pending outbox_id (tw_request_id w) (tw_trace_id w) platform
                    chat_id reply_token body in
     and_then (tr_enqueue_outbox repo outbox) (\<lambda>_.
     and_then (tw_append repo w OutboxQueued
        (JObj [(''outbox_id'', JStr (ob_outbox_id outbox)),
               (''platform'', JStr (ob_platform outbox)),
               (''chat_id'', JStr (ob_chat_id outbox)),
               (''body_len'', JNum (int (length (ob_body outbox))))])) (\<lambda>_.
     ret (ob_outbox_id outbox))))"

definition mark_outbox_sent ::
  "'s trace_repo \<Rightarrow> trace_writer \<Rightarrow> string \<Rightarrow> nat \<Rightarrow> ('s, string, unit) op" where
  "mark_outbox_sent repo w outbox_id chunk_count =
     and_then (tr_update_outbox_status repo outbox_id ObSent None) (\<lambda>_.
     and_then (tw_append repo w OutboxSent
        (JObj [(''outbox_id'', JStr outbox_id), (''chunk_count'', JNum (int chunk_count))])) (\<lambda>_.
     and_then (attempt (complete_request repo w)) (\<lambda>_.
     ret ())))"

definition mark_outbox_failed ::
  "'s trace_repo \<Rightarrow> trace_writer \<Rightarrow> string \<Rightarrow> string \<Rightarrow> nat \<Rightarrow> ('s, string, unit) op" where
  "mark_outbox_failed repo w outbox_id error_message failed_chunk =
     and_then (tr_update_outbox_status repo outbox_id ObFailed (Some error_message)) (\<lambda>_.
     tw_append repo w OutboxFailed
       (JObj [(''outbox_id'', JStr outbox_id), (''error'', JStr error_message),
              (''failed_chunk'', JNum (int failed_chunk))]))"


section \<open>Sequences of calls\<close>

text \<open>
  The calls the runner, the scheduler and the command handlers make; \<open>run_calls\<close> performs any
  sequence of them, each on whatever the one before left, dropping the values returned.
\<close>

datatype trace_call =
    CallBegin gateway_request
  | CallQueued trace_writer nat
  | CallRunning trace_writer
  | CallClaim trace_writer
  | CallRelease trace_writer
  | CallMarkCancelled trace_writer string
  | CallMarkShutdown trace_writer string
  | CallStartRun trace_writer string "string option"
  | CallFinishRun trace_writer string run_status "int option" "string option"
  | CallComplete trace_writer
  | CallFail trace_writer string
  | CallFailIfActive trace_writer string
  | CallEnqueue trace_writer string string "string option" string
  | CallSent trace_writer string nat
  | CallNotSent trace_writer string string nat
  | CallCancel conversation_key string string
  | CallStatus conversation_key
  | CallRetryable "string option" nat
  | CallSweep string
  | CallSweepConversation conversation_key string
  | CallDismiss string

fun do_call :: "'s trace_repo \<Rightarrow> trace_call \<Rightarrow> ('s, string, unit) op" where
  "do_call repo (CallBegin q) = and_then (tw_begin repo q) (\<lambda>_. ret ())"
| "do_call repo (CallQueued w n) = mark_queued repo w n"
| "do_call repo (CallRunning w) = mark_running repo w"
| "do_call repo (CallClaim w) = and_then (claim_for_steer repo w) (\<lambda>_. ret ())"
| "do_call repo (CallRelease w) = and_then (tw_release_steer_claim repo w) (\<lambda>_. ret ())"
| "do_call repo (CallMarkCancelled w m) = mark_cancelled repo w m"
| "do_call repo (CallMarkShutdown w m) = mark_shutdown repo w m"
| "do_call repo (CallStartRun w p sid) = and_then (start_run repo w p sid) (\<lambda>_. ret ())"
| "do_call repo (CallFinishRun w rid st x m) = tw_finish_run repo w rid st x m"
| "do_call repo (CallComplete w) = complete_request repo w"
| "do_call repo (CallFail w m) = fail_request repo w m"
| "do_call repo (CallFailIfActive w m) = and_then (fail_request_if_active repo w m) (\<lambda>_. ret ())"
| "do_call repo (CallEnqueue w p ch t b) = and_then (tw_enqueue_outbox repo w p ch t b) (\<lambda>_. ret ())"
| "do_call repo (CallSent w oid n) = mark_outbox_sent repo w oid n"
| "do_call repo (CallNotSent w oid m n) = mark_outbox_failed repo w oid m n"
| "do_call repo (CallCancel k sel m) = and_then (cancel_accepted_request repo k sel m) (\<lambda>_. ret ())"
| "do_call repo (CallStatus k) = and_then (gateway_status repo k) (\<lambda>_. ret ())"
| "do_call repo (CallRetryable p n) = and_then (tr_list_retryable_outbox repo p n) (\<lambda>_. ret ())"
| "do_call repo (CallSweep m) = and_then (tr_sweep_stale_requests repo m) (\<lambda>_. ret ())"
| "do_call repo (CallSweepConversation k m) =
     and_then (tr_sweep_conversation_stale_requests repo k m) (\<lambda>_. ret ())"
| "do_call repo (CallDismiss rid) = tr_dismiss_failed_outbox repo rid"

definition run_calls :: "'s trace_repo \<Rightarrow> trace_call list \<Rightarrow> 's conn \<Rightarrow> 's conn" where
  "run_calls repo calls c = fold (\<lambda>call c. snd (do_call repo call c)) calls c"

section \<open>What a repository promises\<close>

text \<open>
  The abstract trace store: the status and trace of each request, the status and failed attempts
  of each outbox entry, and the log of event kinds with their trace. The operations below say
  what the trait's methods do to it; \<open>None\<close> is an error.
\<close>

record trace_abs =
  ab_status :: "string \<Rightarrow> request_status option"
  ab_trace_of :: "string \<Rightarrow> string option"
  ab_outbox :: "string \<Rightarrow> (outbox_status \<times> int) option"
  ab_log :: "(string \<times> event_kind) list"

definition spec_create_request :: "gateway_request \<Rightarrow> trace_abs \<Rightarrow> unit option \<times> trace_abs" where
  "spec_create_request q a =
     (if ab_status a (rq_request_id q) \<noteq> None then (None, a)
      else (Some (), a\<lparr>ab_status := (ab_status a)(rq_request_id q \<mapsto> rq_status q),
                      ab_trace_of := (ab_trace_of a)(rq_request_id q \<mapsto> rq_trace_id q)\<rparr>))"

definition spec_update_request_status ::
  "string \<Rightarrow> request_status \<Rightarrow> trace_abs \<Rightarrow> unit option \<times> trace_abs" where
  "spec_update_request_status rid st a =
     (case ab_status a rid of
        None \<Rightarrow> (None, a)
      | Some cur \<Rightarrow>
          if RequestStatus_can_transition_to cur st
          then (Some (), a\<lparr>ab_status := (ab_status a)(rid \<mapsto> st)\<rparr>) else (None, a))"

definition spec_transition_request_if ::
  "string \<Rightarrow> request_status \<Rightarrow> request_status \<Rightarrow> trace_abs \<Rightarrow> bool option \<times> trace_abs" where
  "spec_transition_request_if rid expected next a =
     (if ab_status a rid = Some expected
      then (Some True, a\<lparr>ab_status := (ab_status a)(rid \<mapsto> next)\<rparr>) else (Some False, a))"

definition spec_enqueue_outbox :: "string \<Rightarrow> trace_abs \<Rightarrow> unit option \<times> trace_abs" where
  "spec_enqueue_outbox oid a =
     (if ab_outbox a oid \<noteq> None then (None, a)
      else (Some (), a\<lparr>ab_outbox := (ab_outbox a)(oid \<mapsto> (ObPending, 0))\<rparr>))"

definition spec_update_outbox_status ::
  "string \<Rightarrow> outbox_status \<Rightarrow> trace_abs \<Rightarrow> unit option \<times> trace_abs" where
  "spec_update_outbox_status oid st a =
     (case ab_outbox a oid of
        None \<Rightarrow> (None, a)
      | Some (cur, n) \<Rightarrow>
          if \<not> OutboxStatus_can_transition_to cur st then (None, a)
          else if st = ObFailed then
            (if n < OUTBOX_MAX_RETRIES
             then (Some (), a\<lparr>ab_outbox := (ab_outbox a)(oid \<mapsto> (ObFailed, n + 1))\<rparr>)
             else (None, a))
          else (Some (), a\<lparr>ab_outbox := (ab_outbox a)(oid \<mapsto> (st, n))\<rparr>))"

definition spec_append :: "string \<Rightarrow> event_kind \<Rightarrow> trace_abs \<Rightarrow> unit option \<times> trace_abs" where
  "spec_append tid kind a = (Some (), a\<lparr>ab_log := ab_log a @ [(tid, kind)]\<rparr>)"

definition active_in :: "trace_abs \<Rightarrow> string \<Rightarrow> string \<Rightarrow> bool" where
  "active_in a tid rid \<longleftrightarrow>
     ab_trace_of a rid = Some tid \<and> (ab_status a rid = Some RqAccepted \<or> ab_status a rid = Some RqRunning)"

definition spec_force_fail :: "string \<Rightarrow> trace_abs \<Rightarrow> bool option \<times> trace_abs" where
  "spec_force_fail tid a =
     (Some (\<exists>rid. active_in a tid rid),
      a\<lparr>ab_status := (\<lambda>rid. if active_in a tid rid then Some RqFailed else ab_status a rid)\<rparr>)"

locale trace_repository = protocol I R
  for I :: "'s \<Rightarrow> bool" and R :: "'s \<Rightarrow> 's \<Rightarrow> bool" +
  fixes repo :: "'s trace_repo"
  assumes create_request_obeys: "\<And>q. obeys I R (tr_create_request repo q)"
    and get_request_obeys: "\<And>rid. obeys I R (tr_get_request repo rid)"
    and update_request_status_obeys: "\<And>rid st m. obeys I R (tr_update_request_status repo rid st m)"
    and transition_request_if_obeys: "\<And>rid e n m. \<not> RequestStatus_is_terminal e \<Longrightarrow>
      obeys I R (tr_transition_request_if repo rid e n m)"
    and create_run_obeys: "\<And>n. obeys I R (tr_create_run repo n)"
    and finish_run_obeys: "\<And>rid st x m. obeys I R (tr_finish_run repo rid st x m)"
    and enqueue_outbox_obeys: "\<And>b. obeys I R (tr_enqueue_outbox repo b)"
    and get_outbox_obeys: "\<And>oid. obeys I R (tr_get_outbox repo oid)"
    and list_retryable_outbox_obeys: "\<And>p n. obeys I R (tr_list_retryable_outbox repo p n)"
    and update_outbox_status_obeys: "\<And>oid st m. obeys I R (tr_update_outbox_status repo oid st m)"
    and append_event_obeys: "\<And>e. obeys I R (tr_append_event repo e)"
    and list_events_obeys: "\<And>tid n. obeys I R (tr_list_events_for_trace repo tid n)"
    and list_recent_traces_obeys: "\<And>k n. obeys I R (tr_list_recent_traces repo k n)"
    and list_active_requests_obeys: "\<And>k n. obeys I R (tr_list_active_requests repo k n)"
    and sweep_stale_requests_obeys: "\<And>m. obeys I R (tr_sweep_stale_requests repo m)"
    and sweep_conversation_obeys: "\<And>k m. obeys I R (tr_sweep_conversation_stale_requests repo k m)"
    and force_fail_request_obeys: "\<And>tid m. obeys I R (tr_force_fail_request repo tid m)"
    and dismiss_failed_outbox_obeys: "\<And>rid. obeys I R (tr_dismiss_failed_outbox repo rid)"
begin

lemmas method_obeys = create_request_obeys get_request_obeys update_request_status_obeys
  create_run_obeys finish_run_obeys enqueue_outbox_obeys get_outbox_obeys
  list_retryable_outbox_obeys update_outbox_status_obeys append_event_obeys list_events_obeys
  list_recent_traces_obeys list_active_requests_obeys sweep_stale_requests_obeys
  sweep_conversation_obeys force_fail_request_obeys dismiss_failed_outbox_obeys

lemma claim_obeys: "obeys I R (claim_accepted_request repo rid)"
  and release_obeys: "obeys I R (release_steer_claim repo rid)"
  and fail_if_accepted_obeys: "obeys I R (fail_if_accepted repo rid m)"
  by (simp_all add: claim_accepted_request_def release_steer_claim_def fail_if_accepted_def
      transition_request_if_obeys)

lemma append_obeys: "obeys I R (tw_append repo w k p)"
  by (simp add: tw_append_def append_event_obeys)

lemmas op_obeys = method_obeys obeys_rules claim_obeys release_obeys fail_if_accepted_obeys append_obeys

lemma gateway_status_obeys: "obeys I R (gateway_status repo k)"
  by (simp add: gateway_status_def op_obeys)

lemma cancel_obeys: "obeys I R (cancel_accepted_request repo k sel m)"
  unfolding cancel_accepted_request_def
  by (intro and_then_obeys) (auto split: option.splits simp: op_obeys Let_def)

lemma tw_begin_obeys: "obeys I R (tw_begin repo q)"
  by (simp add: tw_begin_def op_obeys Let_def)

lemma mark_obeys: "obeys I R (mark_queued repo w d)" "obeys I R (mark_running repo w)"
    "obeys I R (mark_cancelled repo w m)" "obeys I R (mark_shutdown repo w m)"
  by (simp_all add: mark_queued_def mark_running_def mark_cancelled_def mark_shutdown_def append_obeys)

lemma claim_for_steer_obeys: "obeys I R (claim_for_steer repo w)"
  by (simp add: claim_for_steer_def op_obeys mark_obeys)

lemma tw_release_obeys: "obeys I R (tw_release_steer_claim repo w)"
  by (simp add: tw_release_steer_claim_def release_obeys)

lemma start_run_obeys: "obeys I R (start_run repo w p sid)"
  by (simp add: start_run_def op_obeys Let_def)

lemma tw_finish_run_obeys: "obeys I R (tw_finish_run repo w rid st x m)"
  by (simp add: tw_finish_run_def op_obeys)

lemma complete_obeys: "obeys I R (complete_request repo w)"
  and fail_request_obeys: "obeys I R (fail_request repo w m)"
  and fail_request_if_active_obeys: "obeys I R (fail_request_if_active repo w m)"
  by (simp_all add: complete_request_def fail_request_def fail_request_if_active_def op_obeys)

lemma tw_enqueue_outbox_obeys: "obeys I R (tw_enqueue_outbox repo w p ch t b)"
  by (simp add: tw_enqueue_outbox_def op_obeys Let_def)

lemma mark_outbox_obeys: "obeys I R (mark_outbox_sent repo w oid n)"
    "obeys I R (mark_outbox_failed repo w oid m n)"
  by (simp_all add: mark_outbox_sent_def mark_outbox_failed_def op_obeys complete_obeys)

lemmas writer_obeys = tw_begin_obeys mark_obeys claim_for_steer_obeys tw_release_obeys
  start_run_obeys tw_finish_run_obeys complete_obeys fail_request_obeys
  fail_request_if_active_obeys tw_enqueue_outbox_obeys mark_outbox_obeys

lemma do_call_obeys: "obeys I R (do_call repo call)"
  by (cases call)
     (simp_all add: writer_obeys and_then_obeys ret_obeys cancel_obeys gateway_status_obeys method_obeys)

lemma run_calls_obeys:
  assumes "polite I R (world c)" and "I (tables c)"
  shows "I (tables (run_calls repo calls c)) \<and> R (tables c) (tables (run_calls repo calls c))"
  using assms
proof (induction calls arbitrary: c)
  case Nil
  then show ?case by (simp add: run_calls_def refl)
next
  case (Cons call calls)
  let ?c = "snd (do_call repo call c)"
  from do_call_obeys [of call] Cons.prems
  have "I (tables ?c)" "R (tables c) (tables ?c)" "world ?c = world c" by (auto simp: obeys_def)
  with Cons show ?case by (auto simp: run_calls_def intro: trans)
qed

end


section \<open>What the writer does to the abstract store\<close>

definition spec_complete_request :: "trace_writer \<Rightarrow> trace_abs \<Rightarrow> unit option \<times> trace_abs" where
  "spec_complete_request w =
     abs_then (spec_update_request_status (tw_request_id w) RqCompleted)
       (\<lambda>_. spec_append (tw_trace_id w) RequestCompleted)"

definition spec_fail_request :: "trace_writer \<Rightarrow> trace_abs \<Rightarrow> unit option \<times> trace_abs" where
  "spec_fail_request w =
     abs_then (spec_update_request_status (tw_request_id w) RqFailed)
       (\<lambda>_. spec_append (tw_trace_id w) RequestFailed)"

definition spec_begin :: "gateway_request \<Rightarrow> trace_abs \<Rightarrow> trace_writer option \<times> trace_abs" where
  "spec_begin q =
     abs_then (spec_create_request q)
       (\<lambda>_. abs_then (spec_append (rq_trace_id q) RequestReceived)
         (\<lambda>_ a. (Some \<lparr>tw_trace_id = rq_trace_id q, tw_request_id = rq_request_id q\<rparr>, a)))"

definition spec_claim_for_steer :: "trace_writer \<Rightarrow> trace_abs \<Rightarrow> bool option \<times> trace_abs" where
  "spec_claim_for_steer w =
     abs_then (spec_transition_request_if (tw_request_id w) RqAccepted RqRunning)
       (\<lambda>claimed. if \<not> claimed then (\<lambda>a. (Some False, a))
         else abs_then (spec_append (tw_trace_id w) RequestRunning) (\<lambda>_ a. (Some True, a)))"

definition spec_fail_request_if_active ::
  "trace_writer \<Rightarrow> trace_abs \<Rightarrow> bool option \<times> trace_abs" where
  "spec_fail_request_if_active w =
     abs_then (spec_force_fail (tw_trace_id w))
       (\<lambda>forced. if \<not> forced then (\<lambda>a. (Some False, a))
         else abs_then (spec_append (tw_trace_id w) RequestFailed) (\<lambda>_ a. (Some True, a)))"

definition spec_mark_outbox_sent ::
  "trace_writer \<Rightarrow> string \<Rightarrow> trace_abs \<Rightarrow> unit option \<times> trace_abs" where
  "spec_mark_outbox_sent w oid =
     abs_then (spec_update_outbox_status oid ObSent)
       (\<lambda>_. abs_then (spec_append (tw_trace_id w) OutboxSent)
         (\<lambda>_. abs_then (abs_attempt (spec_complete_request w)) (\<lambda>_ a. (Some (), a))))"

definition spec_mark_outbox_failed ::
  "trace_writer \<Rightarrow> string \<Rightarrow> trace_abs \<Rightarrow> unit option \<times> trace_abs" where
  "spec_mark_outbox_failed w oid =
     abs_then (spec_update_outbox_status oid ObFailed)
       (\<lambda>_. spec_append (tw_trace_id w) OutboxFailed)"

locale trace_refinement = trace_repository I R repo
  for I :: "'s \<Rightarrow> bool" and R :: "'s \<Rightarrow> 's \<Rightarrow> bool" and repo :: "'s trace_repo" +
  fixes view :: "'s \<Rightarrow> trace_abs"
  assumes create_request_refines: "\<And>q. refines I view (tr_create_request repo q) (spec_create_request q)"
    and update_request_refines: "\<And>rid st m.
      refines I view (tr_update_request_status repo rid st m) (spec_update_request_status rid st)"
    and transition_refines: "\<And>rid e n m. \<not> RequestStatus_is_terminal e \<Longrightarrow>
      refines I view (tr_transition_request_if repo rid e n m) (spec_transition_request_if rid e n)"
    and enqueue_refines: "\<And>b. ob_status b = ObPending \<Longrightarrow> ob_retry_count b = 0 \<Longrightarrow>
      refines I view (tr_enqueue_outbox repo b) (spec_enqueue_outbox (ob_outbox_id b))"
    and update_outbox_refines: "\<And>oid st m.
      refines I view (tr_update_outbox_status repo oid st m) (spec_update_outbox_status oid st)"
    and append_refines: "\<And>e.
      refines I view (tr_append_event repo e) (spec_append (ne_trace_id e) (ne_kind e))"
    and force_fail_refines: "\<And>tid m.
      refines I view (tr_force_fail_request repo tid m) (spec_force_fail tid)"
begin

lemma tw_append_refines: "refines I view (tw_append repo w k p) (spec_append (tw_trace_id w) k)"
  using append_refines [of "\<lparr>ne_trace_id = tw_trace_id w, ne_request_id = tw_request_id w,
    ne_run_id = None, ne_kind = k, ne_payload = p\<rparr>"] by (simp add: tw_append_def)

lemma complete_refines: "refines I view (complete_request repo w) (spec_complete_request w)"
  unfolding complete_request_def spec_complete_request_def
  by (intro refines_and_then update_request_refines tw_append_refines)

lemma fail_request_refines: "refines I view (fail_request repo w m) (spec_fail_request w)"
  unfolding fail_request_def spec_fail_request_def
  by (intro refines_and_then update_request_refines tw_append_refines)

lemma tw_begin_refines: "refines I view (tw_begin repo q) (spec_begin q)"
  unfolding tw_begin_def spec_begin_def Let_def
  using tw_append_refines [of "\<lparr>tw_trace_id = rq_trace_id q, tw_request_id = rq_request_id q\<rparr>"]
  by (intro refines_and_then create_request_refines refines_ret) simp

lemma claim_for_steer_refines: "refines I view (claim_for_steer repo w) (spec_claim_for_steer w)"
  unfolding claim_for_steer_def spec_claim_for_steer_def claim_accepted_request_def mark_running_def
  by (intro refines_and_then transition_refines refines_if tw_append_refines refines_ret) simp

lemma fail_request_if_active_refines:
  "refines I view (fail_request_if_active repo w m) (spec_fail_request_if_active w)"
  unfolding fail_request_if_active_def spec_fail_request_if_active_def
  by (intro refines_and_then force_fail_refines refines_if tw_append_refines refines_ret)

lemma mark_outbox_sent_refines:
  "refines I view (mark_outbox_sent repo w oid n) (spec_mark_outbox_sent w oid)"
  unfolding mark_outbox_sent_def spec_mark_outbox_sent_def
  by (intro refines_and_then update_outbox_refines tw_append_refines refines_attempt_then
      complete_refines refines_ret)

lemma mark_outbox_failed_refines:
  "refines I view (mark_outbox_failed repo w oid m n) (spec_mark_outbox_failed w oid)"
  unfolding mark_outbox_failed_def spec_mark_outbox_failed_def
  by (intro refines_and_then update_outbox_refines tw_append_refines)

end

subsection \<open>Closed forms\<close>

lemma spec_mark_outbox_sent_eq:
  "spec_mark_outbox_sent w oid a =
     (case ab_outbox a oid of
        None \<Rightarrow> (None, a)
      | Some (cur, n) \<Rightarrow>
          (let a' = a\<lparr>ab_outbox := (ab_outbox a)(oid \<mapsto> (ObSent, n)),
                      ab_log := ab_log a @ [(tw_trace_id w, OutboxSent)]\<rparr> in
           case ab_status a (tw_request_id w) of
             Some st \<Rightarrow>
               if RequestStatus_can_transition_to st RqCompleted
               then (Some (), a'\<lparr>ab_status := (ab_status a)(tw_request_id w \<mapsto> RqCompleted),
                                ab_log := ab_log a' @ [(tw_trace_id w, RequestCompleted)]\<rparr>)
               else (Some (), a')
           | None \<Rightarrow> (Some (), a')))"
proof -
  have "OutboxStatus_can_transition_to cur ObSent" for cur
    by (cases cur) (simp_all add: OutboxStatus_can_transition_to_def)
  then show ?thesis
    by (auto simp: spec_mark_outbox_sent_def spec_complete_request_def abs_then_def abs_attempt_def
        spec_update_outbox_status_def spec_update_request_status_def spec_append_def Let_def
        split: option.splits)
qed

lemma spec_claim_for_steer_eq:
  "spec_claim_for_steer w a =
     (if ab_status a (tw_request_id w) = Some RqAccepted
      then (Some True, a\<lparr>ab_status := (ab_status a)(tw_request_id w \<mapsto> RqRunning),
                         ab_log := ab_log a @ [(tw_trace_id w, RequestRunning)]\<rparr>)
      else (Some False, a))"
  by (simp add: spec_claim_for_steer_def abs_then_def spec_transition_request_if_def spec_append_def)

end
