(* ===== verification/Trace_Sqlite.thy ===== *)
theory Trace_Sqlite
  imports Trace_Writer
begin

text \<open>
  \<open>SqliteTraceRepository\<close> of \<open>trace_model.rs\<close>: one operation per method of the
  \<open>TraceRepository\<close> trait, with its statements, guards and error texts in the order of the code.
  \<open>serde_json\<close> is not part of the repository: \<open>ser\<close> is its \<open>to_string\<close> and \<open>de\<close> its
  \<open>from_str\<close>. Each operation is shown to obey the protocol of the trace tables.
\<close>

section \<open>Requests\<close>

definition sqlite_create_request :: "gateway_request \<Rightarrow> unit trace_op" where
  "sqlite_create_request request =
     map_err (\<lambda>e. ''create trace request failed: '' @ e)
       (stmt (insert_request (\<lambda>now.
          \<lparr>qr_request_id = rq_request_id request,
           qr_trace_id = rq_trace_id request,
           qr_platform = ck_platform (rq_conversation request),
           qr_chat_id = ck_chat_id (rq_conversation request),
           qr_cli_profile = ck_cli_profile (rq_conversation request),
           qr_platform_msg_id = rq_platform_msg_id request,
           qr_user_id = rq_user_id request,
           qr_text = rq_text request,
           qr_status = RequestStatus_as_str (rq_status request),
           qr_error_message = rq_error_message request,
           qr_created_at = now,
           qr_updated_at = now\<rparr>)))"

definition request_of_row :: "int \<Rightarrow> request_row \<Rightarrow> gateway_request" where
  "request_of_row now r =
     \<lparr>rq_request_id = qr_request_id r,
      rq_trace_id = qr_trace_id r,
      rq_conversation =
        ConversationKey_new (qr_platform r) (qr_chat_id r) (qr_cli_profile r),
      rq_platform_msg_id = qr_platform_msg_id r,
      rq_user_id = qr_user_id r,
      rq_text = qr_text r,
      rq_status = unwrap_or RqFailed (RequestStatus_parse (qr_status r)),
      rq_error_message = qr_error_message r,
      rq_created_at = now\<rparr>"

definition find_request :: "string \<Rightarrow> trace_db \<Rightarrow> request_row option" where
  "find_request rid s = first_row (filter (\<lambda>r. qr_request_id r = rid) (tb_requests s))"

definition sqlite_get_request :: "string \<Rightarrow> gateway_request option trace_op" where
  "sqlite_get_request request_id =
     and_then (map_err (\<lambda>e. ''get trace request failed: '' @ e)
                (stmt (select (find_request request_id))))
       (\<lambda>row. case row of
          None \<Rightarrow> ret None
        | Some r \<Rightarrow> and_then utc_now (\<lambda>now. ret (Some (request_of_row now r))))"

definition sqlite_update_request_status ::
  "string \<Rightarrow> request_status \<Rightarrow> string option \<Rightarrow> unit trace_op" where
  "sqlite_update_request_status request_id status error_message =
     and_then (map_err (\<lambda>e. ''load request status failed: '' @ e)
                (stmt (select (\<lambda>s. map_option qr_status (find_request request_id s)))))
       (\<lambda>current. case current of
          None \<Rightarrow> fail (''trace request '' @ request_id @ '' not found'')
        | Some stored \<Rightarrow>
            (let current = unwrap_or RqFailed (RequestStatus_parse stored) in
             if \<not> RequestStatus_can_transition_to current status then
               fail (''invalid request transition '' @ RequestStatus_as_str current @ '' -> '' @
                     RequestStatus_as_str status)
             else
               and_then (map_err (\<lambda>e. ''update request status failed: '' @ e)
                          (stmt (update_requests
                             (\<lambda>r. qr_request_id r = request_id \<and>
                                  qr_status r = RequestStatus_as_str current)
                             (\<lambda>now r. r\<lparr>qr_status := RequestStatus_as_str status,
                                        qr_error_message := error_message,
                                        qr_updated_at := now\<rparr>))))
                 (\<lambda>rows_affected.
                    if rows_affected \<noteq> 1 then
                      fail (''concurrent request status update for '' @ request_id @
                            ''; expected '' @ RequestStatus_as_str current)
                    else ret ())))"

definition sqlite_transition_request_if ::
  "string \<Rightarrow> request_status \<Rightarrow> request_status \<Rightarrow> string option \<Rightarrow> bool trace_op" where
  "sqlite_transition_request_if request_id expected next error_message =
     and_then (map_err (\<lambda>e. ''conditional request transition failed: '' @ e)
                (stmt (update_requests
                   (\<lambda>r. qr_request_id r = request_id \<and>
                        qr_status r = RequestStatus_as_str expected)
                   (\<lambda>now r. r\<lparr>qr_status := RequestStatus_as_str next,
                              qr_error_message := error_message,
                              qr_updated_at := now\<rparr>))))
       (\<lambda>rows_affected. ret (rows_affected = 1))"

section \<open>Runs\<close>

definition sqlite_create_run :: "gateway_run \<Rightarrow> unit trace_op" where
  "sqlite_create_run run =
     map_err (\<lambda>e. ''create trace run failed: '' @ e)
       (stmt (insert_run (\<lambda>now.
          \<lparr>qn_run_id = rn_run_id run,
           qn_request_id = rn_request_id run,
           qn_trace_id = rn_trace_id run,
           qn_cli_profile = rn_cli_profile run,
           qn_session_id = rn_session_id run,
           qn_status = RunStatus_as_str (rn_status run),
           qn_exit_code = rn_exit_code run,
           qn_error_message = rn_error_message run,
           qn_started_at = now,
           qn_finished_at = None\<rparr>)))"

definition find_run :: "string \<Rightarrow> trace_db \<Rightarrow> run_row option" where
  "find_run run_id s = first_row (filter (\<lambda>r. qn_run_id r = run_id) (tb_runs s))"

definition sqlite_finish_run ::
  "string \<Rightarrow> run_status \<Rightarrow> int option \<Rightarrow> string option \<Rightarrow> unit trace_op" where
  "sqlite_finish_run run_id status exit_code error_message =
     and_then (map_err (\<lambda>e. ''load run status failed: '' @ e)
                (stmt (select (\<lambda>s. map_option qn_status (find_run run_id s)))))
       (\<lambda>current. case current of
          None \<Rightarrow> fail (''trace run '' @ run_id @ '' not found'')
        | Some stored \<Rightarrow>
            (let current = unwrap_or RnFailed (RunStatus_parse stored) in
             if \<not> RunStatus_can_transition_to current status then
               fail (''invalid run transition '' @ RunStatus_as_str current @ '' -> '' @
                     RunStatus_as_str status)
             else
               and_then (map_err (\<lambda>e. ''finish trace run failed: '' @ e)
                          (stmt (update_runs
                             (\<lambda>r. qn_run_id r = run_id \<and> qn_status r = RunStatus_as_str current)
                             (\<lambda>now r. r\<lparr>qn_status := RunStatus_as_str status,
                                        qn_exit_code := exit_code,
                                        qn_error_message := error_message,
                                        qn_finished_at := Some now\<rparr>))))
                 (\<lambda>rows_affected.
                    if rows_affected \<noteq> 1 then
                      fail (''concurrent run status update for '' @ run_id @
                            ''; expected '' @ RunStatus_as_str current)
                    else ret ())))"

section \<open>Outbox\<close>

definition sqlite_enqueue_outbox :: "outbox_record \<Rightarrow> unit trace_op" where
  "sqlite_enqueue_outbox outbox =
     map_err (\<lambda>e. ''enqueue outbox failed: '' @ e)
       (stmt (insert_outbox (\<lambda>now.
          \<lparr>qo_outbox_id = ob_outbox_id outbox,
           qo_trace_id = ob_trace_id outbox,
           qo_request_id = ob_request_id outbox,
           qo_platform = ob_platform outbox,
           qo_chat_id = ob_chat_id outbox,
           qo_reply_token = ob_reply_token outbox,
           qo_body = ob_body outbox,
           qo_status = OutboxStatus_as_str (ob_status outbox),
           qo_error_message = ob_error_message outbox,
           qo_retry_count = 0,
           qo_created_at = now,
           qo_sent_at = None\<rparr>)))"

definition outbox_of_row :: "outbox_row \<Rightarrow> outbox_record" where
  "outbox_of_row r =
     \<lparr>ob_outbox_id = qo_outbox_id r,
      ob_request_id = qo_request_id r,
      ob_trace_id = qo_trace_id r,
      ob_platform = qo_platform r,
      ob_chat_id = qo_chat_id r,
      ob_reply_token = qo_reply_token r,
      ob_body = qo_body r,
      ob_status = unwrap_or ObFailed (OutboxStatus_parse (qo_status r)),
      ob_error_message = qo_error_message r,
      ob_retry_count = max (qo_retry_count r) 0\<rparr>"

definition find_outbox :: "string \<Rightarrow> trace_db \<Rightarrow> outbox_row option" where
  "find_outbox oid s = first_row (filter (\<lambda>r. qo_outbox_id r = oid) (tb_outbox s))"

definition sqlite_get_outbox :: "string \<Rightarrow> outbox_record option trace_op" where
  "sqlite_get_outbox outbox_id =
     and_then (map_err (\<lambda>e. ''get outbox failed: '' @ e) (stmt (select (find_outbox outbox_id))))
       (\<lambda>row. ret (map_option outbox_of_row row))"

definition sqlite_list_retryable_outbox ::
  "string option \<Rightarrow> nat \<Rightarrow> outbox_record list trace_op" where
  "sqlite_list_retryable_outbox platform limit' =
     and_then (map_err (\<lambda>e. ''list retryable outbox failed: '' @ e)
                (case platform of
                   Some p \<Rightarrow> stmt (select (\<lambda>s. take (min limit' 200) (order_asc qo_created_at
                               (filter (\<lambda>r. qo_platform r = p \<and> retryable r) (tb_outbox s)))))
                 | None \<Rightarrow> stmt (select (\<lambda>s. take (min limit' 200) (order_asc qo_created_at
                               (filter retryable (tb_outbox s)))))))
       (\<lambda>rows. ret (map outbox_of_row rows))"


definition outbox_concurrent :: "string \<Rightarrow> outbox_status \<Rightarrow> nat \<Rightarrow> unit trace_op" where
  "outbox_concurrent outbox_id current rows_affected =
     (if rows_affected \<noteq> 1 then
        fail (''concurrent outbox status update for '' @ outbox_id @ ''; expected '' @
              OutboxStatus_as_str current)
      else ret ())"

definition sqlite_update_outbox_status ::
  "string \<Rightarrow> outbox_status \<Rightarrow> string option \<Rightarrow> unit trace_op" where
  "sqlite_update_outbox_status outbox_id status error_message =
     and_then (map_err (\<lambda>e. ''load outbox status failed: '' @ e)
                (stmt (select (\<lambda>s. map_option (\<lambda>r. (qo_status r, qo_retry_count r))
                                     (find_outbox outbox_id s)))))
       (\<lambda>current. case current of
          None \<Rightarrow> fail (''outbox '' @ outbox_id @ '' not found'')
        | Some (stored, retry_count) \<Rightarrow>
            (let current = unwrap_or ObFailed (OutboxStatus_parse stored) in
             if \<not> OutboxStatus_can_transition_to current status then
               fail (''invalid outbox transition '' @ OutboxStatus_as_str current @ '' -> '' @
                     OutboxStatus_as_str status)
             else if status = ObSent then
               and_then (map_err (\<lambda>e. ''update outbox status failed: '' @ e)
                          (stmt (update_outbox
                             (\<lambda>r. qo_outbox_id r = outbox_id \<and>
                                  qo_status r = OutboxStatus_as_str current)
                             (\<lambda>now r. r\<lparr>qo_status := OutboxStatus_as_str status,
                                        qo_error_message := error_message,
                                        qo_sent_at := Some now\<rparr>))))
                 (outbox_concurrent outbox_id current)
             else if status = ObFailed then
               (if OUTBOX_MAX_RETRIES \<le> retry_count then
                  fail (''outbox '' @ outbox_id @ '' retry limit reached ('' @
                        show_int OUTBOX_MAX_RETRIES @ '')'')
                else
                  and_then (map_err (\<lambda>e. ''update outbox status failed: '' @ e)
                             (stmt (update_outbox
                                (\<lambda>r. qo_outbox_id r = outbox_id \<and>
                                     qo_status r = OutboxStatus_as_str current \<and>
                                     qo_retry_count r < OUTBOX_MAX_RETRIES)
                                (\<lambda>now r. r\<lparr>qo_status := OutboxStatus_as_str status,
                                           qo_error_message := error_message,
                                           qo_retry_count := qo_retry_count r + 1\<rparr>))))
                    (outbox_concurrent outbox_id current))
             else
               and_then (map_err (\<lambda>e. ''update outbox status failed: '' @ e)
                          (stmt (update_outbox
                             (\<lambda>r. qo_outbox_id r = outbox_id \<and>
                                  qo_status r = OutboxStatus_as_str current)
                             (\<lambda>now r. r\<lparr>qo_status := OutboxStatus_as_str status,
                                        qo_error_message := error_message\<rparr>))))
                 (outbox_concurrent outbox_id current)))"

section \<open>Events\<close>

definition sqlite_append_event ::
  "(json \<Rightarrow> string + string) \<Rightarrow> new_gateway_event \<Rightarrow> unit trace_op" where
  "sqlite_append_event ser event =
     (case ser (ne_payload event) of
        Inl e \<Rightarrow> fail (''serialize trace event payload failed: '' @ e)
      | Inr payload \<Rightarrow>
          map_err (\<lambda>e. ''append trace event failed: '' @ e)
            (stmt (insert_event (\<lambda>now event_id.
               \<lparr>qe_event_id = event_id,
                qe_trace_id = ne_trace_id event,
                qe_request_id = ne_request_id event,
                qe_run_id = ne_run_id event,
                qe_kind = GatewayEventKind_as_str (ne_kind event),
                qe_payload = payload,
                qe_created_at = now\<rparr>))))"

definition event_of_row :: "(string \<Rightarrow> json option) \<Rightarrow> event_row \<Rightarrow> gateway_event" where
  "event_of_row de r =
     \<lparr>ge_sequence = qe_event_id r,
      ge_trace_id = qe_trace_id r,
      ge_request_id = qe_request_id r,
      ge_run_id = qe_run_id r,
      ge_kind = GatewayEventKind_parse (qe_kind r),
      ge_payload = unwrap_or JNull (de (qe_payload r)),
      ge_created_at = qe_created_at r\<rparr>"

definition sqlite_list_events_for_trace ::
  "(string \<Rightarrow> json option) \<Rightarrow> string \<Rightarrow> nat \<Rightarrow> gateway_event list trace_op" where
  "sqlite_list_events_for_trace de trace_id limit' =
     and_then (map_err (\<lambda>e. ''list trace events failed: '' @ e)
                (stmt (select (\<lambda>s. take (min limit' 200) (order_asc qe_event_id
                                     (filter (\<lambda>e. qe_trace_id e = trace_id) (tb_events s)))))))
       (\<lambda>rows. ret (map (event_of_row de) rows))"

section \<open>Listings\<close>

definition events_of_trace :: "trace_db \<Rightarrow> string \<Rightarrow> event_row list" where
  "events_of_trace s tid = filter (\<lambda>e. qe_trace_id e = tid) (tb_events s)"

definition summary_of_row :: "trace_db \<Rightarrow> request_row \<Rightarrow> trace_summary" where
  "summary_of_row s r =
     \<lparr>ts_trace_id = qr_trace_id r,
      ts_request_id = qr_request_id r,
      ts_status = unwrap_or RqFailed (RequestStatus_parse (qr_status r)),
      ts_text_preview = preview (qr_text r),
      ts_created_at = qr_created_at r,
      ts_event_count = length (events_of_trace s (qr_trace_id r))\<rparr>"

definition sqlite_list_recent_traces ::
  "conversation_key \<Rightarrow> nat \<Rightarrow> trace_summary list trace_op" where
  "sqlite_list_recent_traces conversation limit' =
     map_err (\<lambda>e. ''list recent traces failed: '' @ e)
       (stmt (select (\<lambda>s. map (summary_of_row s)
          (take (min limit' 50) (order_desc qr_created_at
             (filter (in_conversation conversation) (tb_requests s)))))))"

definition retryable_of_request :: "trace_db \<Rightarrow> string \<Rightarrow> outbox_row list" where
  "retryable_of_request s rid =
     order_desc qo_created_at (filter (\<lambda>b. qo_request_id b = rid \<and> retryable b) (tb_outbox s))"

definition active_of_row :: "trace_db \<Rightarrow> request_row \<Rightarrow> active_request_summary" where
  "active_of_row s r =
     (let runs = order_desc qn_started_at
                   (filter (\<lambda>n. qn_request_id n = qr_request_id r) (tb_runs s));
          outbox = first_row (retryable_of_request s (qr_request_id r));
          events = events_of_trace s (qr_trace_id r)
      in \<lparr>as_trace_id = qr_trace_id r,
          as_request_id = qr_request_id r,
          as_user_id = qr_user_id r,
          as_status = unwrap_or RqFailed (RequestStatus_parse (qr_status r)),
          as_text_preview = preview (qr_text r),
          as_created_at = qr_created_at r,
          as_error_message = qr_error_message r,
          as_run_status = Option.bind (map_option qn_status (first_row runs)) RunStatus_parse,
          as_outbox_status = Option.bind (map_option qo_status outbox) OutboxStatus_parse,
          as_outbox_error_message = Option.bind outbox qo_error_message,
          as_event_count = length events,
          as_last_event_kind =
            map_option (\<lambda>e. GatewayEventKind_parse (qe_kind e))
              (first_row (order_desc qe_event_id events))\<rparr>)"

text \<open>\<open>CASE r.status WHEN 'running' THEN 0 WHEN 'accepted' THEN 1 ELSE 2 END\<close>\<close>

definition status_rank :: "string \<Rightarrow> nat" where
  "status_rank st = (if st = ''running'' then 0 else if st = ''accepted'' then 1 else 2)"

definition active_rows :: "trace_db \<Rightarrow> conversation_key \<Rightarrow> request_row list" where
  "active_rows s conversation =
     order_asc (\<lambda>r. (status_rank (qr_status r), qr_created_at r))
       (filter (\<lambda>r. in_conversation conversation r \<and>
                    (active_status (qr_status r) \<or> retryable_of_request s (qr_request_id r) \<noteq> []))
          (tb_requests s))"

definition sqlite_list_active_requests ::
  "conversation_key \<Rightarrow> nat \<Rightarrow> active_request_summary list trace_op" where
  "sqlite_list_active_requests conversation limit' =
     map_err (\<lambda>e. ''list active requests failed: '' @ e)
       (stmt (select (\<lambda>s. map (active_of_row s) (take (min limit' 100) (active_rows s conversation)))))"

section \<open>Sweeps\<close>

definition fail_row :: "string \<Rightarrow> string \<Rightarrow> request_row \<Rightarrow> request_row" where
  "fail_row reason now r =
     r\<lparr>qr_status := ''failed'', qr_error_message := Some reason, qr_updated_at := now\<rparr>"

definition sqlite_sweep_stale_requests :: "string \<Rightarrow> nat trace_op" where
  "sqlite_sweep_stale_requests reason =
     map_err (\<lambda>e. ''sweep stale requests failed: '' @ e)
       (stmt (update_requests (\<lambda>r. active_status (qr_status r)) (fail_row reason)))"

definition sqlite_sweep_conversation_stale_requests ::
  "conversation_key \<Rightarrow> string \<Rightarrow> nat trace_op" where
  "sqlite_sweep_conversation_stale_requests conversation reason =
     map_err (\<lambda>e. ''sweep conversation stale requests failed: '' @ e)
       (stmt (update_requests
          (\<lambda>r. in_conversation conversation r \<and> active_status (qr_status r)) (fail_row reason)))"

definition sqlite_force_fail_request :: "string \<Rightarrow> string \<Rightarrow> bool trace_op" where
  "sqlite_force_fail_request trace_id reason =
     and_then (map_err (\<lambda>e. ''force fail request failed: '' @ e)
                (stmt (update_requests
                   (\<lambda>r. qr_trace_id r = trace_id \<and> active_status (qr_status r))
                   (fail_row reason))))
       (\<lambda>rows_affected. ret (0 < rows_affected))"

definition sqlite_dismiss_failed_outbox :: "string \<Rightarrow> unit trace_op" where
  "sqlite_dismiss_failed_outbox request_id =
     and_then (map_err (\<lambda>e. ''dismiss failed outbox failed: '' @ e)
                (stmt (update_outbox
                   (\<lambda>b. qo_request_id b = request_id \<and> qo_status b = ''failed'')
                   (\<lambda>now b. b\<lparr>qo_status := ''sent'', qo_sent_at := Some now\<rparr>))))
       (\<lambda>_. ret ())"


section \<open>The repository object\<close>

definition sqlite_repo ::
  "(json \<Rightarrow> string + string) \<Rightarrow> (string \<Rightarrow> json option) \<Rightarrow> trace_db trace_repo" where
  "sqlite_repo ser de =
     \<lparr>tr_create_request = sqlite_create_request,
      tr_get_request = sqlite_get_request,
      tr_update_request_status = sqlite_update_request_status,
      tr_transition_request_if = sqlite_transition_request_if,
      tr_create_run = sqlite_create_run,
      tr_finish_run = sqlite_finish_run,
      tr_enqueue_outbox = sqlite_enqueue_outbox,
      tr_get_outbox = sqlite_get_outbox,
      tr_list_retryable_outbox = sqlite_list_retryable_outbox,
      tr_update_outbox_status = sqlite_update_outbox_status,
      tr_append_event = sqlite_append_event ser,
      tr_list_events_for_trace = sqlite_list_events_for_trace de,
      tr_list_recent_traces = sqlite_list_recent_traces,
      tr_list_active_requests = sqlite_list_active_requests,
      tr_sweep_stale_requests = sqlite_sweep_stale_requests,
      tr_sweep_conversation_stale_requests = sqlite_sweep_conversation_stale_requests,
      tr_force_fail_request = sqlite_force_fail_request,
      tr_dismiss_failed_outbox = sqlite_dismiss_failed_outbox\<rparr>"

section \<open>The operations obey the protocol\<close>

lemma request_row_ok_status [simp]:
  "request_row_ok (r\<lparr>qr_status := RequestStatus_as_str st\<rparr>)"
  by (simp add: request_row_ok_def)

lemma sqlite_create_request_obeys: "obeys trace_ok trace_step (sqlite_create_request q)"
  unfolding sqlite_create_request_def
  by (intro trace.map_err_obeys insert_request_obeys) (simp add: request_row_ok_def)

lemma sqlite_get_request_obeys: "obeys trace_ok trace_step (sqlite_get_request rid)"
  unfolding sqlite_get_request_def
  by (intro trace.and_then_obeys trace.map_err_obeys select_obeys)
     (auto split: option.splits simp: trace.obeys_rules)

lemma request_status_update_obeys:
  assumes "RequestStatus_can_transition_to cur st \<or> \<not> RequestStatus_is_terminal cur"
  shows "obeys trace_ok trace_step
    (stmt (update_requests (\<lambda>r. qr_request_id r = rid \<and> qr_status r = RequestStatus_as_str cur)
       (\<lambda>now r. r\<lparr>qr_status := RequestStatus_as_str st, qr_error_message := m, qr_updated_at := now\<rparr>)))"
  using assms terminal_transition [of cur st]
  by (intro update_requests_obeys)
     (auto simp: request_row_step_def request_row_ok_def active_status_iff)

lemma sqlite_update_request_status_obeys:
  "obeys trace_ok trace_step (sqlite_update_request_status rid st m)"
  unfolding sqlite_update_request_status_def Let_def
  by (intro trace.and_then_obeys trace.map_err_obeys select_obeys)
     (auto split: option.splits simp: trace.obeys_rules request_status_update_obeys)

lemma sqlite_transition_request_if_obeys:
  "\<not> RequestStatus_is_terminal e \<Longrightarrow>
   obeys trace_ok trace_step (sqlite_transition_request_if rid e n m)"
  unfolding sqlite_transition_request_if_def
  by (intro trace.and_then_obeys trace.map_err_obeys request_status_update_obeys trace.ret_obeys)
     simp

lemma sqlite_create_run_obeys: "obeys trace_ok trace_step (sqlite_create_run n)"
  unfolding sqlite_create_run_def
  by (intro trace.map_err_obeys insert_run_obeys) (simp add: run_row_ok_def)

lemma run_status_update_obeys:
  assumes "RunStatus_can_transition_to cur st"
  shows "obeys trace_ok trace_step
    (stmt (update_runs (\<lambda>r. qn_run_id r = rid \<and> qn_status r = RunStatus_as_str cur)
       (\<lambda>now r. r\<lparr>qn_status := RunStatus_as_str st, qn_exit_code := x, qn_error_message := m,
                  qn_finished_at := Some now\<rparr>)))"
  using assms
  by (intro update_runs_obeys)
     (cases cur; cases st; auto simp: run_row_step_def run_row_ok_def RunStatus_can_transition_to_def
        RunStatus_parse_def)+

lemma sqlite_finish_run_obeys: "obeys trace_ok trace_step (sqlite_finish_run rid st x m)"
  unfolding sqlite_finish_run_def Let_def
  by (intro trace.and_then_obeys trace.map_err_obeys select_obeys)
     (auto split: option.splits simp: trace.obeys_rules run_status_update_obeys)

lemma sqlite_enqueue_outbox_obeys: "obeys trace_ok trace_step (sqlite_enqueue_outbox b)"
  unfolding sqlite_enqueue_outbox_def
  by (intro trace.map_err_obeys insert_outbox_obeys)
     (simp add: outbox_row_ok_def OUTBOX_MAX_RETRIES_def)

lemma sqlite_get_outbox_obeys: "obeys trace_ok trace_step (sqlite_get_outbox oid)"
  by (simp add: sqlite_get_outbox_def trace.obeys_rules select_obeys)

lemma sqlite_list_retryable_outbox_obeys:
  "obeys trace_ok trace_step (sqlite_list_retryable_outbox p n)"
  by (simp add: sqlite_list_retryable_outbox_def trace.obeys_rules select_obeys split: option.split)

lemma outbox_status_update_obeys:
  assumes "OutboxStatus_can_transition_to cur st"
    and "\<And>now r. qo_outbox_id (f now r) = qo_outbox_id r"
    and "\<And>now r. qo_status (f now r) = OutboxStatus_as_str st"
    and "\<And>now r. outbox_row_step (r\<lparr>qo_status := OutboxStatus_as_str st\<rparr>) (f now r)"
    and "\<And>now r. p r \<Longrightarrow> qo_retry_count r \<le> OUTBOX_MAX_RETRIES \<Longrightarrow>
           qo_retry_count (f now r) \<le> OUTBOX_MAX_RETRIES"
  shows "obeys trace_ok trace_step
    (stmt (update_outbox (\<lambda>r. qo_outbox_id r = oid \<and> qo_status r = OutboxStatus_as_str cur \<and> p r) f))"
proof (rule update_outbox_obeys)
  fix t r
  assume p: "qo_outbox_id r = oid \<and> qo_status r = OutboxStatus_as_str cur \<and> p r"
    and ok: "outbox_row_ok r"
  have "cur = ObSent \<Longrightarrow> st = ObSent" using assms(1) sent_transition by blast
  then have "qo_status r = ''sent'' \<Longrightarrow> OutboxStatus_as_str st = ''sent''"
    using p by (cases cur) auto
  with p ok assms(3) [of t r] assms(4) [of r t] assms(5) [of r t] show
    "outbox_row_step r (f t r) \<and> outbox_row_ok (f t r)"
    by (auto simp: outbox_row_step_def outbox_row_ok_def dest: order_trans)
qed (rule assms(2))

lemma outbox_concurrent_obeys: "obeys trace_ok trace_step (outbox_concurrent oid cur n)"
  by (simp add: outbox_concurrent_def trace.obeys_rules)

lemma sqlite_update_outbox_status_obeys:
  "obeys trace_ok trace_step (sqlite_update_outbox_status oid st m)"
proof -
  have up: "obeys trace_ok trace_step
      (stmt (update_outbox (\<lambda>r. qo_outbox_id r = oid \<and> qo_status r = OutboxStatus_as_str cur) f))"
    if "OutboxStatus_can_transition_to cur st"
      and "\<And>now r. qo_outbox_id (f now r) = qo_outbox_id r"
      and "\<And>now r. qo_status (f now r) = OutboxStatus_as_str st"
      and "\<And>now r. outbox_row_step (r\<lparr>qo_status := OutboxStatus_as_str st\<rparr>) (f now r)"
      and "\<And>now r. qo_retry_count (f now r) = qo_retry_count r"
    for f cur
    using outbox_status_update_obeys [of cur st f "\<lambda>_. True" oid] that by simp
  have up2: "obeys trace_ok trace_step
      (stmt (update_outbox (\<lambda>r. qo_outbox_id r = oid \<and> qo_status r = OutboxStatus_as_str cur \<and>
           qo_retry_count r < OUTBOX_MAX_RETRIES)
         (\<lambda>now r. r\<lparr>qo_status := OutboxStatus_as_str st, qo_error_message := m,
           qo_retry_count := qo_retry_count r + 1\<rparr>)))"
    if "OutboxStatus_can_transition_to cur st" for cur
    by (rule outbox_status_update_obeys [OF that]) (auto simp: outbox_row_step_def)
  show ?thesis
    unfolding sqlite_update_outbox_status_def Let_def
    by (intro trace.and_then_obeys trace.map_err_obeys select_obeys)
       (simp add: trace.obeys_rules outbox_concurrent_obeys up up2 outbox_row_step_def
         del: OutboxStatus_as_str.simps split: option.split prod.split)
qed

lemma sqlite_append_event_obeys: "obeys trace_ok trace_step (sqlite_append_event ser e)"
  by (auto simp: sqlite_append_event_def trace.obeys_rules insert_event_obeys split: sum.split)

lemma sqlite_list_obeys:
  "obeys trace_ok trace_step (sqlite_list_events_for_trace de tid n)"
  "obeys trace_ok trace_step (sqlite_list_recent_traces k n)"
  "obeys trace_ok trace_step (sqlite_list_active_requests k n)"
  by (simp_all add: sqlite_list_events_for_trace_def sqlite_list_recent_traces_def
      sqlite_list_active_requests_def trace.obeys_rules select_obeys)

lemma fail_row_obeys:
  assumes "\<And>r. p r \<Longrightarrow> active_status (qr_status r)"
  shows "obeys trace_ok trace_step (stmt (update_requests p (fail_row m)))"
  using assms
  by (intro update_requests_obeys)
     (auto simp: fail_row_def request_row_step_def request_row_ok_def RequestStatus_parse_def)

lemma sqlite_sweep_obeys:
  "obeys trace_ok trace_step (sqlite_sweep_stale_requests m)"
  "obeys trace_ok trace_step (sqlite_sweep_conversation_stale_requests k m)"
  "obeys trace_ok trace_step (sqlite_force_fail_request tid m)"
  unfolding sqlite_sweep_stale_requests_def sqlite_sweep_conversation_stale_requests_def
    sqlite_force_fail_request_def
  by (intro trace.map_err_obeys trace.and_then_obeys fail_row_obeys trace.ret_obeys; simp)+

lemma sqlite_dismiss_failed_outbox_obeys:
  "obeys trace_ok trace_step (sqlite_dismiss_failed_outbox rid)"
  unfolding sqlite_dismiss_failed_outbox_def
  by (intro trace.and_then_obeys trace.map_err_obeys update_outbox_obeys trace.ret_obeys)
     (auto simp: outbox_row_step_def outbox_row_ok_def OutboxStatus_parse_def)

lemmas sqlite_obeys = sqlite_create_request_obeys sqlite_get_request_obeys
  sqlite_update_request_status_obeys sqlite_transition_request_if_obeys sqlite_create_run_obeys
  sqlite_finish_run_obeys sqlite_enqueue_outbox_obeys sqlite_get_outbox_obeys
  sqlite_list_retryable_outbox_obeys sqlite_update_outbox_status_obeys sqlite_append_event_obeys
  sqlite_list_obeys sqlite_sweep_obeys sqlite_dismiss_failed_outbox_obeys

interpretation sqlite: trace_repository trace_ok trace_step "sqlite_repo ser de" for ser de
  by unfold_locales (simp_all add: sqlite_repo_def sqlite_obeys)

end
