(* ===== verification/Trace_View.thy ===== *)
theory Trace_View
  imports Trace_Sqlite
begin

text \<open>
  \<open>SqliteTraceRepository\<close> implements the abstract trace store: the tables are read through
  \<open>trace_view\<close>, and each operation of the repository, run undisturbed on well-formed tables,
  does to the view what the abstract operation says. What is proved of \<open>TraceWriter\<close> from the
  contract then holds of it on these tables.
\<close>

definition trace_view :: "trace_db \<Rightarrow> trace_abs" where
  "trace_view s =
     \<lparr>ab_status = (\<lambda>rid. Option.bind (find_request rid s) (\<lambda>r. RequestStatus_parse (qr_status r))),
      ab_trace_of = (\<lambda>rid. map_option qr_trace_id (find_request rid s)),
      ab_outbox = (\<lambda>oid. Option.bind (find_outbox oid s)
         (\<lambda>r. map_option (\<lambda>st. (st, qo_retry_count r)) (OutboxStatus_parse (qo_status r)))),
      ab_log = map (\<lambda>e. (qe_trace_id e, GatewayEventKind_parse (qe_kind e))) (tb_events s)\<rparr>"

lemma trace_ok_request:
  "trace_ok s \<Longrightarrow> find_request rid s = Some r \<Longrightarrow>
   qr_request_id r = rid \<and> (\<exists>st. qr_status r = RequestStatus_as_str st)"
  by (auto simp: find_request_def trace_ok_def request_row_ok_def RequestStatus_parse_Some
      dest!: lookup_SomeD)

lemma trace_ok_outbox:
  "trace_ok s \<Longrightarrow> find_outbox oid s = Some r \<Longrightarrow>
   qo_outbox_id r = oid \<and> (\<exists>st. qo_status r = OutboxStatus_as_str st)"
  by (auto simp: find_outbox_def trace_ok_def outbox_row_ok_def OutboxStatus_parse_Some
      dest!: lookup_SomeD)

lemma find_request_update:
  "(\<And>r. qr_request_id (f r) = qr_request_id r) \<Longrightarrow>
   find_request k (s\<lparr>tb_requests := update_where p f (tb_requests s)\<rparr>) =
   map_option (\<lambda>r. if p r then f r else r) (find_request k s)"
  by (simp add: find_request_def lookup_update_where)

lemma find_outbox_update:
  "(\<And>r. qo_outbox_id (f r) = qo_outbox_id r) \<Longrightarrow>
   find_outbox k (s\<lparr>tb_outbox := update_where p f (tb_outbox s)\<rparr>) =
   map_option (\<lambda>r. if p r then f r else r) (find_outbox k s)"
  by (simp add: find_outbox_def lookup_update_where)

lemma find_frame [simp]:
  "find_request k (s\<lparr>tb_outbox := b\<rparr>) = find_request k s"
  "find_outbox k (s\<lparr>tb_requests := q\<rparr>) = find_outbox k s"
  "find_request k (s\<lparr>tb_events := ev, tb_next_event := n\<rparr>) = find_request k s"
  "find_outbox k (s\<lparr>tb_events := ev, tb_next_event := n\<rparr>) = find_outbox k s"
  by (simp_all add: find_request_def find_outbox_def)

lemma request_affected:
  "trace_ok s \<Longrightarrow> affected (\<lambda>r. qr_request_id r = rid \<and> q r) (tb_requests s) =
    (case find_request rid s of Some r \<Rightarrow> if q r then 1 else 0 | None \<Rightarrow> 0)"
  by (simp add: trace_ok_def affected_lookup find_request_def)

lemma outbox_affected:
  "trace_ok s \<Longrightarrow> affected (\<lambda>r. qo_outbox_id r = oid \<and> q r) (tb_outbox s) =
    (case find_outbox oid s of Some r \<Rightarrow> if q r then 1 else 0 | None \<Rightarrow> 0)"
  by (simp add: trace_ok_def affected_lookup find_outbox_def)

lemma find_request_insert:
  "find_request k (s\<lparr>tb_requests := tb_requests s @ [r]\<rparr>) =
    (case find_request k s of None \<Rightarrow> if qr_request_id r = k then Some r else None | Some x \<Rightarrow> Some x)"
  by (simp add: find_request_def first_row_append split: option.split)

lemma find_outbox_insert:
  "find_outbox k (s\<lparr>tb_outbox := tb_outbox s @ [r]\<rparr>) =
    (case find_outbox k s of None \<Rightarrow> if qo_outbox_id r = k then Some r else None | Some x \<Rightarrow> Some x)"
  by (simp add: find_outbox_def first_row_append split: option.split)

lemma find_None:
  "find_request k s = None \<longleftrightarrow> k \<notin> qr_request_id ` set (tb_requests s)"
  "find_outbox b s = None \<longleftrightarrow> b \<notin> qo_outbox_id ` set (tb_outbox s)"
  by (simp_all add: find_request_def find_outbox_def lookup_None)

lemma view_status:
  "ab_status (trace_view s) rid =
    Option.bind (find_request rid s) (\<lambda>r. RequestStatus_parse (qr_status r))"
  by (simp add: trace_view_def)

lemma view_status_None:
  "trace_ok s \<Longrightarrow> ab_status (trace_view s) rid = None \<longleftrightarrow> find_request rid s = None"
  using trace_ok_request [of s rid] by (cases "find_request rid s") (auto simp: trace_view_def)

lemma view_status_Some:
  "trace_ok s \<Longrightarrow> ab_status (trace_view s) rid = Some st \<longleftrightarrow>
   (\<exists>r. find_request rid s = Some r \<and> qr_status r = RequestStatus_as_str st)"
  by (auto simp: trace_view_def bind_eq_Some_conv RequestStatus_parse_Some)

lemma view_outbox_None:
  "trace_ok s \<Longrightarrow> ab_outbox (trace_view s) oid = None \<longleftrightarrow> find_outbox oid s = None"
  using trace_ok_outbox [of s oid] by (cases "find_outbox oid s") (auto simp: trace_view_def)

lemma view_outbox_Some:
  "trace_ok s \<Longrightarrow> ab_outbox (trace_view s) oid = Some (st, n) \<longleftrightarrow>
   (\<exists>r. find_outbox oid s = Some r \<and> qo_status r = OutboxStatus_as_str st \<and> qo_retry_count r = n)"
  by (auto simp: trace_view_def bind_eq_Some_conv OutboxStatus_parse_Some)

lemma view_insert_request:
  assumes "trace_ok s" and "find_request (qr_request_id r) s = None"
    and "qr_status r = RequestStatus_as_str st"
  shows "trace_view (s\<lparr>tb_requests := tb_requests s @ [r]\<rparr>) =
    (trace_view s)\<lparr>ab_status := (ab_status (trace_view s))(qr_request_id r \<mapsto> st),
      ab_trace_of := (ab_trace_of (trace_view s))(qr_request_id r \<mapsto> qr_trace_id r)\<rparr>"
  using assms by (auto simp: trace_view_def find_request_insert fun_eq_iff split: option.split)

lemma view_insert_outbox:
  assumes "trace_ok s" and "find_outbox (qo_outbox_id r) s = None"
    and "qo_status r = OutboxStatus_as_str st"
  shows "trace_view (s\<lparr>tb_outbox := tb_outbox s @ [r]\<rparr>) =
    (trace_view s)\<lparr>ab_outbox := (ab_outbox (trace_view s))(qo_outbox_id r \<mapsto> (st, qo_retry_count r))\<rparr>"
  using assms by (auto simp: trace_view_def find_outbox_insert fun_eq_iff split: option.split)

lemma view_insert_event:
  "trace_view (s\<lparr>tb_events := tb_events s @ [e], tb_next_event := n\<rparr>) =
    (trace_view s)\<lparr>ab_log := ab_log (trace_view s) @
       [(qe_trace_id e, GatewayEventKind_parse (qe_kind e))]\<rparr>"
  by (simp add: trace_view_def)

lemma view_update_requests:
  assumes "\<And>r. qr_request_id (f r) = qr_request_id r" and "\<And>r. qr_trace_id (f r) = qr_trace_id r"
    and "\<And>r. qr_status (f r) = RequestStatus_as_str st"
  shows "trace_view (s\<lparr>tb_requests := update_where p f (tb_requests s)\<rparr>) =
    (trace_view s)\<lparr>ab_status := (\<lambda>rid. case find_request rid s of
       Some r \<Rightarrow> if p r then Some st else RequestStatus_parse (qr_status r) | None \<Rightarrow> None)\<rparr>"
proof -
  have "map_option qr_trace_id (map_option (\<lambda>r. if p r then f r else r) x) = map_option qr_trace_id x"
    for x using assms(2) by (cases x) auto
  with assms show ?thesis
    by (auto simp: trace_view_def find_request_update fun_eq_iff split: option.split)
qed

lemma view_update_request:
  assumes "trace_ok s" and "find_request rid s = Some r0" and "q r0"
    and "\<And>r. qr_request_id (f r) = qr_request_id r" and "\<And>r. qr_trace_id (f r) = qr_trace_id r"
    and "\<And>r. qr_status (f r) = RequestStatus_as_str st"
  shows "trace_view (s\<lparr>tb_requests :=
      update_where (\<lambda>r. qr_request_id r = rid \<and> q r) f (tb_requests s)\<rparr>) =
    (trace_view s)\<lparr>ab_status := (ab_status (trace_view s))(rid \<mapsto> st)\<rparr>"
proof -
  have "(case find_request k s of
       Some r \<Rightarrow> if qr_request_id r = rid \<and> q r then Some st else RequestStatus_parse (qr_status r)
     | None \<Rightarrow> None) = ((ab_status (trace_view s))(rid \<mapsto> st)) k" for k
    using assms(1-3) trace_ok_request [OF assms(1), of k]
    by (auto simp: trace_view_def split: option.split)
  then show ?thesis by (simp only: view_update_requests [OF assms(4-6)])
qed

lemma view_update_outbox:
  assumes "trace_ok s" and "find_outbox oid s = Some r0" and "q r0"
    and "\<And>r. qo_outbox_id (f r) = qo_outbox_id r"
    and "\<And>r. qo_status (f r) = OutboxStatus_as_str st"
  shows "trace_view (s\<lparr>tb_outbox :=
      update_where (\<lambda>r. qo_outbox_id r = oid \<and> q r) f (tb_outbox s)\<rparr>) =
    (trace_view s)\<lparr>ab_outbox := (ab_outbox (trace_view s))(oid \<mapsto> (st, qo_retry_count (f r0)))\<rparr>"
proof -
  have "Option.bind (map_option (\<lambda>r. if qo_outbox_id r = oid \<and> q r then f r else r) (find_outbox k s))
       (\<lambda>r. map_option (\<lambda>st. (st, qo_retry_count r)) (OutboxStatus_parse (qo_status r))) =
     ((ab_outbox (trace_view s))(oid \<mapsto> (st, qo_retry_count (f r0)))) k" for k
    using assms trace_ok_outbox [OF assms(1), of k]
    by (cases "find_outbox k s") (auto simp: trace_view_def)
  with assms(4) show ?thesis by (auto simp: trace_view_def find_outbox_update)
qed

lemma sqlite_create_request_refines:
  "refines trace_ok trace_view (sqlite_create_request q) (spec_create_request q)"
proof (rule trace.refinesI [OF sqlite_create_request_obeys])
  fix c :: "trace_db conn"
  assume c: "quiet c" "trace_ok (tables c)"
  show "spec_create_request q (trace_view (tables c)) =
    (ok_of (fst (sqlite_create_request q c)), trace_view (tables (snd (sqlite_create_request q c))))"
  proof (cases "find_request (rq_request_id q) (tables c)")
    case None
    with c show ?thesis
      by (auto simp: spec_create_request_def sqlite_create_request_def map_err_def stmt_quiet
        insert_request_def insert_row_def view_status_None view_insert_request
        simp flip: find_None)
  next
    case (Some r)
    with c show ?thesis
      by (auto simp: spec_create_request_def sqlite_create_request_def map_err_def stmt_quiet
        insert_request_def insert_row_def view_status_None simp flip: find_None)
  qed
qed

lemma sqlite_update_request_status_refines:
  "refines trace_ok trace_view (sqlite_update_request_status rid st m)
     (spec_update_request_status rid st)"
proof (rule trace.refinesI [OF sqlite_update_request_status_obeys])
  fix c :: "trace_db conn"
  assume c: "quiet c" "trace_ok (tables c)"
  show "spec_update_request_status rid st (trace_view (tables c)) =
    (ok_of (fst (sqlite_update_request_status rid st m c)),
     trace_view (tables (snd (sqlite_update_request_status rid st m c))))"
  proof (cases "find_request rid (tables c)")
    case None
    with c view_status_None [OF c(2), of rid] show ?thesis
      by (simp add: spec_update_request_status_def sqlite_update_request_status_def map_err_def
          and_then_def stmt_quiet select_def fail_def)
  next
    case (Some r)
    then obtain cur where cur: "qr_status r = RequestStatus_as_str cur"
      using trace_ok_request [OF c(2)] by blast
    with Some c(2) have v: "ab_status (trace_view (tables c)) rid = Some cur"
      by (auto simp: view_status_Some)
    from Some c cur v show ?thesis
      by (simp add: spec_update_request_status_def sqlite_update_request_status_def map_err_def
          and_then_def stmt_quiet select_def fail_def ret_def update_requests_def request_affected
          view_update_request [OF c(2) Some] Let_def)
  qed
qed

lemma sqlite_transition_request_if_refines:
  assumes "\<not> RequestStatus_is_terminal e"
  shows "refines trace_ok trace_view (sqlite_transition_request_if rid e n m)
     (spec_transition_request_if rid e n)"
proof (rule trace.refinesI [OF sqlite_transition_request_if_obeys [OF assms]])
  fix c :: "trace_db conn"
  assume c: "quiet c" "trace_ok (tables c)"
  let ?p = "\<lambda>r. qr_request_id r = rid \<and> qr_status r = RequestStatus_as_str e"
  show "spec_transition_request_if rid e n (trace_view (tables c)) =
    (ok_of (fst (sqlite_transition_request_if rid e n m c)),
     trace_view (tables (snd (sqlite_transition_request_if rid e n m c))))"
  proof (cases "ab_status (trace_view (tables c)) rid = Some e")
    case True
    then obtain r where "find_request rid (tables c) = Some r" "qr_status r = RequestStatus_as_str e"
      using c(2) by (auto simp: view_status_Some)
    with c True show ?thesis
      by (simp add: spec_transition_request_if_def sqlite_transition_request_if_def map_err_def
          and_then_def stmt_quiet ret_def update_requests_def request_affected view_update_request)
  next
    case False
    then have "affected ?p (tb_requests (tables c)) = 0"
      using c(2) by (auto simp: view_status_Some request_affected split: option.split)
    with c False show ?thesis
      by (simp add: spec_transition_request_if_def sqlite_transition_request_if_def map_err_def
          and_then_def stmt_quiet ret_def update_requests_def update_where_none)
  qed
qed

lemma sqlite_enqueue_outbox_refines:
  assumes "ob_status b = ObPending"
  shows "refines trace_ok trace_view (sqlite_enqueue_outbox b) (spec_enqueue_outbox (ob_outbox_id b))"
proof (rule trace.refinesI [OF sqlite_enqueue_outbox_obeys])
  fix c :: "trace_db conn"
  assume c: "quiet c" "trace_ok (tables c)"
  show "spec_enqueue_outbox (ob_outbox_id b) (trace_view (tables c)) =
    (ok_of (fst (sqlite_enqueue_outbox b c)), trace_view (tables (snd (sqlite_enqueue_outbox b c))))"
  proof (cases "find_outbox (ob_outbox_id b) (tables c)")
    case None
    with c assms show ?thesis
      by (auto simp: spec_enqueue_outbox_def sqlite_enqueue_outbox_def map_err_def stmt_quiet
        insert_outbox_def insert_row_def view_outbox_None view_insert_outbox [of _ _ ObPending]
        simp flip: find_None)
  next
    case (Some r)
    with c show ?thesis
      by (auto simp: spec_enqueue_outbox_def sqlite_enqueue_outbox_def map_err_def stmt_quiet
        insert_outbox_def insert_row_def view_outbox_None simp flip: find_None)
  qed
qed

lemma sqlite_update_outbox_status_refines:
  "refines trace_ok trace_view (sqlite_update_outbox_status oid st m)
     (spec_update_outbox_status oid st)"
proof (rule trace.refinesI [OF sqlite_update_outbox_status_obeys])
  fix c :: "trace_db conn"
  assume c: "quiet c" "trace_ok (tables c)"
  show "spec_update_outbox_status oid st (trace_view (tables c)) =
    (ok_of (fst (sqlite_update_outbox_status oid st m c)),
     trace_view (tables (snd (sqlite_update_outbox_status oid st m c))))"
  proof (cases "find_outbox oid (tables c)")
    case None
    with c view_outbox_None [OF c(2), of oid] show ?thesis
      by (simp add: spec_update_outbox_status_def sqlite_update_outbox_status_def map_err_def
          and_then_def stmt_quiet select_def fail_def)
  next
    case (Some r)
    then obtain cur where cur: "qo_status r = OutboxStatus_as_str cur"
      using trace_ok_outbox [OF c(2)] by blast
    with Some c(2) have v: "ab_outbox (trace_view (tables c)) oid = Some (cur, qo_retry_count r)"
      by (auto simp: view_outbox_Some)
    note up = view_update_outbox [OF c(2) Some, where q = "\<lambda>r. qo_status r = OutboxStatus_as_str cur"]
      view_update_outbox [OF c(2) Some, where st = ObFailed and q = "\<lambda>r. qo_status r = OutboxStatus_as_str cur \<and>
        qo_retry_count r < OUTBOX_MAX_RETRIES"]
    have eq: "st \<noteq> ObSent \<Longrightarrow> st \<noteq> ObFailed \<Longrightarrow> st = ObPending" by (cases st) auto
    from Some c cur v eq show ?thesis
      by (simp add: spec_update_outbox_status_def sqlite_update_outbox_status_def map_err_def
          and_then_def stmt_quiet select_def fail_def ret_def update_outbox_def outbox_affected
          up Let_def outbox_concurrent_def del: OutboxStatus_as_str.simps)
  qed
qed

lemma sqlite_append_event_refines:
  "refines trace_ok trace_view (sqlite_append_event (\<lambda>j. Inr (ser j)) e)
     (spec_append (ne_trace_id e) (ne_kind e))"
  by (rule trace.refinesI [OF sqlite_append_event_obeys])
     (simp add: spec_append_def sqlite_append_event_def map_err_def stmt_quiet insert_event_def
        view_insert_event)

lemma find_request_mem:
  "trace_ok s \<Longrightarrow> r \<in> set (tb_requests s) \<Longrightarrow> find_request (qr_request_id r) s = Some r"
  by (simp add: find_request_def trace_ok_def lookup_mem)

lemma view_active_in:
  assumes "trace_ok s"
  shows "active_in (trace_view s) tid rid \<longleftrightarrow>
    (\<exists>r. find_request rid s = Some r \<and> qr_trace_id r = tid \<and> active_status (qr_status r))"
  using trace_ok_request [OF assms, of rid]
  by (auto simp: active_in_def trace_view_def active_status_def RequestStatus_parse_def
      split: if_splits)

lemma sqlite_force_fail_request_refines:
  "refines trace_ok trace_view (sqlite_force_fail_request tid m) (spec_force_fail tid)"
proof (rule trace.refinesI [OF sqlite_sweep_obeys(3)])
  fix c :: "trace_db conn"
  assume c: "quiet c" "trace_ok (tables c)"
  let ?s = "tables c" and ?p = "\<lambda>r. qr_trace_id r = tid \<and> active_status (qr_status r)"
  have up: "trace_view (?s\<lparr>tb_requests := update_where ?p (fail_row m now) (tb_requests ?s)\<rparr>) =
      (trace_view ?s)\<lparr>ab_status := (\<lambda>rid. if active_in (trace_view ?s) tid rid then Some RqFailed
         else ab_status (trace_view ?s) rid)\<rparr>" for now
  proof -
    have "(case find_request rid ?s of
         Some r \<Rightarrow> if ?p r then Some RqFailed else RequestStatus_parse (qr_status r) | None \<Rightarrow> None) =
      (if active_in (trace_view ?s) tid rid then Some RqFailed else ab_status (trace_view ?s) rid)"
      for rid
      using c(2) by (auto simp: view_active_in view_status split: option.split)
    then show ?thesis
      by (subst view_update_requests [where st = RqFailed]) (simp_all add: fail_row_def)
  qed
  have "0 < affected ?p (tb_requests ?s) \<longleftrightarrow> (\<exists>rid. active_in (trace_view ?s) tid rid)"
    unfolding affected_pos view_active_in [OF c(2)]
    using find_request_mem [OF c(2)] by (auto simp: find_request_def dest: lookup_SomeD)
  with c up show "spec_force_fail tid (trace_view ?s) =
      (ok_of (fst (sqlite_force_fail_request tid m c)),
       trace_view (tables (snd (sqlite_force_fail_request tid m c))))"
    by (simp add: spec_force_fail_def sqlite_force_fail_request_def map_err_def and_then_def
        stmt_quiet ret_def update_requests_def)
qed

interpretation sqlite_store: trace_refinement trace_ok trace_step
  "sqlite_repo (\<lambda>j. Inr (ser j)) de" trace_view for ser de
  by unfold_locales
     (simp_all add: sqlite_repo_def sqlite_create_request_refines
        sqlite_update_request_status_refines sqlite_transition_request_if_refines
        sqlite_enqueue_outbox_refines sqlite_update_outbox_status_refines
        sqlite_append_event_refines sqlite_force_fail_request_refines)

end
