(* ===== verification/Trace_Props.thy ===== *)
theory Trace_Props
  imports Trace_View
begin

text \<open>
  What the trace store guarantees to the rest of the gateway, for \<open>SqliteTraceRepository\<close>: what
  stays true under any sequence of calls, whatever other tasks do between the statements and
  whichever statements fail, and what each call does when it is not disturbed.
\<close>

section \<open>Example tables\<close>

lemma calm_polite [simp]: "polite trace_ok trace_step calm_env"
  by (simp add: polite_def calm_env_def trace_step_refl)

definition demo_request :: "string \<Rightarrow> string \<Rightarrow> request_row" where
  "demo_request rid st =
     \<lparr>qr_request_id = rid, qr_trace_id = ''t'' @ rid, qr_platform = ''p'', qr_chat_id = ''c'',
      qr_cli_profile = ''k'', qr_platform_msg_id = ''m'', qr_user_id = ''u'', qr_text = ''hi'',
      qr_status = st, qr_error_message = None, qr_created_at = ''0'', qr_updated_at = ''0''\<rparr>"

definition demo_outbox :: "string \<Rightarrow> string \<Rightarrow> string \<Rightarrow> int \<Rightarrow> outbox_row" where
  "demo_outbox oid rid st n =
     \<lparr>qo_outbox_id = oid, qo_trace_id = ''t'' @ rid, qo_request_id = rid, qo_platform = ''p'',
      qo_chat_id = ''c'', qo_reply_token = None, qo_body = ''hi'', qo_status = st,
      qo_error_message = None, qo_retry_count = n, qo_created_at = ''0'', qo_sent_at = None\<rparr>"

text \<open>A request in each status, one entry sent, one pending, one at the retry limit.\<close>

definition demo_db :: trace_db where
  "demo_db =
     \<lparr>tb_requests = [demo_request ''a'' ''accepted'', demo_request ''r'' ''running'',
                     demo_request ''d'' ''completed''],
      tb_runs = [],
      tb_events = [],
      tb_outbox = [demo_outbox ''s'' ''d'' ''sent'' 1, demo_outbox ''q'' ''r'' ''pending'' 0,
                   demo_outbox ''x'' ''a'' ''failed'' 3],
      tb_next_event = 0\<rparr>"

lemma demo_ok: "trace_ok demo_db"
  by (simp add: trace_ok_def demo_db_def demo_request_def demo_outbox_def request_row_ok_def
      outbox_row_ok_def RequestStatus_parse_def OutboxStatus_parse_def OUTBOX_MAX_RETRIES_def)

section \<open>Whatever happens\<close>

lemma lookup_grows:
  assumes "grows step xs ys" and "\<And>a b. step a b \<Longrightarrow> key b = key a" and "distinct (map key ys)"
    and "first_row (filter (\<lambda>r. key r = k) xs) = Some r"
  shows "\<exists>r'. first_row (filter (\<lambda>r. key r = k) ys) = Some r' \<and> step r r'"
proof -
  from assms(4) have "r \<in> set xs" "key r = k" by (auto dest: lookup_SomeD)
  with assms(1) obtain r' where "r' \<in> set ys" "step r r'" by (blast dest: grows_member)
  with assms(2,3) \<open>key r = k\<close> lookup_mem [of key ys r'] show ?thesis by auto
qed

lemma find_request_grows:
  "trace_step s t \<Longrightarrow> trace_ok t \<Longrightarrow> find_request rid s = Some r \<Longrightarrow>
   \<exists>r'. find_request rid t = Some r' \<and> request_row_step r r'"
  unfolding find_request_def trace_step_def trace_ok_def
  by (rule lookup_grows [of request_row_step]) (auto simp: request_row_step_def)

lemma find_outbox_grows:
  "trace_step s t \<Longrightarrow> trace_ok t \<Longrightarrow> find_outbox oid s = Some r \<Longrightarrow>
   \<exists>r'. find_outbox oid t = Some r' \<and> outbox_row_step r r'"
  unfolding find_outbox_def trace_step_def trace_ok_def
  by (rule lookup_grows [of outbox_row_step]) (auto simp: outbox_row_step_def)

text \<open>
  Property C1: on well-formed tables (unique keys, known statuses, retry counters within the
  limit, event numbers increasing), any sequence of trace calls leaves well-formed tables, and
  never deletes a row, never revives a finished request, never un-sends a reply and only appends
  to the event log, whichever statements fail and whatever well-behaved writers do in between.
\<close>

theorem calls_keep_store:
  assumes "trace_ok (tables c)" and "polite trace_ok trace_step (world c)"
  shows "trace_ok (tables (run_calls (sqlite_repo ser de) calls c)) \<and>
         trace_step (tables c) (tables (run_calls (sqlite_repo ser de) calls c))"
  by (rule sqlite.run_calls_obeys [OF assms(2,1)])

lemma calls_keep_store_witness:
  "trace_ok (tables (run_calls (sqlite_repo (\<lambda>_. Inr ''{}'') (\<lambda>_. None)) [CallSweep ''restart''] (calm demo_db)))"
  using calls_keep_store [of "calm demo_db"] demo_ok by simp

text \<open>
  Property C2: once a request is completed or failed, no sequence of trace calls changes its
  status, its text or the user it belongs to again, and the request is never lost.
\<close>

theorem finished_request_stays:
  assumes "trace_ok (tables c)" and "polite trace_ok trace_step (world c)"
    and "find_request rid (tables c) = Some r" and "qr_status r = RequestStatus_as_str st"
    and "RequestStatus_is_terminal st"
  shows "\<exists>r'. find_request rid (tables (run_calls (sqlite_repo ser de) calls c)) = Some r' \<and>
    qr_status r' = RequestStatus_as_str st \<and> qr_text r' = qr_text r \<and> qr_user_id r' = qr_user_id r"
  using sqlite.run_calls_obeys [OF assms(2,1)] assms(3-5) active_status_iff [of st]
  by (fastforce dest: find_request_grows simp: request_row_step_def)

lemma finished_request_stays_witness:
  "\<exists>r'. find_request ''d'' (tables (run_calls (sqlite_repo (\<lambda>_. Inr ''{}'') (\<lambda>_. None))
     [CallFail \<lparr>tw_trace_id = ''td'', tw_request_id = ''d''\<rparr> ''late''] (calm demo_db))) = Some r' \<and>
     qr_status r' = ''completed'' \<and> qr_text r' = ''hi'' \<and> qr_user_id r' = ''u''"
  using finished_request_stays [of "calm demo_db" "''d''" "demo_request ''d'' ''completed''" RqCompleted]
    demo_ok
  by (simp add: find_request_def demo_db_def demo_request_def)

text \<open>
  Property C3: a reply recorded as sent stays sent, its body and addressee never change, and its
  number of failed attempts never goes down or over the limit, under any sequence of calls.
\<close>

theorem outbox_entry_stays:
  assumes "trace_ok (tables c)" and "polite trace_ok trace_step (world c)"
    and "find_outbox oid (tables c) = Some b"
  shows "\<exists>b'. find_outbox oid (tables (run_calls (sqlite_repo ser de) calls c)) = Some b' \<and>
    (qo_status b = ''sent'' \<longrightarrow> qo_status b' = ''sent'') \<and>
    qo_body b' = qo_body b \<and> qo_chat_id b' = qo_chat_id b \<and>
    qo_retry_count b \<le> qo_retry_count b' \<and> qo_retry_count b' \<le> OUTBOX_MAX_RETRIES"
proof -
  let ?t = "tables (run_calls (sqlite_repo ser de) calls c)"
  from sqlite.run_calls_obeys [OF assms(2,1)] have t: "trace_ok ?t" "trace_step (tables c) ?t"
    by auto
  then obtain b' where b': "find_outbox oid ?t = Some b'" "outbox_row_step b b'"
    using assms(3) find_outbox_grows by blast
  then have "outbox_row_ok b'"
    using t(1) by (auto simp: trace_ok_def find_outbox_def dest: lookup_SomeD)
  with b' show ?thesis by (auto simp: outbox_row_step_def outbox_row_ok_def)
qed

lemma outbox_entry_stays_witness:
  "\<exists>b'. find_outbox ''s'' (tables (run_calls (sqlite_repo (\<lambda>_. Inr ''{}'') (\<lambda>_. None))
     [CallNotSent \<lparr>tw_trace_id = ''td'', tw_request_id = ''d''\<rparr> ''s'' ''late'' 0] (calm demo_db))) = Some b' \<and>
     qo_status b' = ''sent''"
  using outbox_entry_stays [of "calm demo_db" "''s''" "demo_outbox ''s'' ''d'' ''sent'' 1"] demo_ok
  by (fastforce simp: find_outbox_def demo_db_def demo_outbox_def)

text \<open>
  The events of a trace read after any sequence of calls start with the events that
  were there before, unchanged and in the same order.
\<close>

theorem event_log_only_grows:
  assumes "trace_ok (tables c)" and "polite trace_ok trace_step (world c)"
  shows "prefix (map (event_of_row de) (events_of_trace (tables c) tid))
    (map (event_of_row de)
      (events_of_trace (tables (run_calls (sqlite_repo ser de) calls c)) tid))"
proof -
  have "prefix (tb_events (tables c)) (tb_events (tables (run_calls (sqlite_repo ser de) calls c)))"
    using sqlite.run_calls_obeys [OF assms(2,1)] by (simp add: trace_step_def)
  then show ?thesis by (auto simp: events_of_trace_def prefix_def)
qed

lemma event_log_only_grows_witness:
  "prefix [] (map (event_of_row (\<lambda>_. None)) (events_of_trace (tables (run_calls
     (sqlite_repo (\<lambda>_. Inr ''{}'') (\<lambda>_. None)) [CallRunning \<lparr>tw_trace_id = ''tr'', tw_request_id = ''r''\<rparr>]
     (calm demo_db))) ''tr''))"
  using event_log_only_grows [of "calm demo_db" "\<lambda>_. None" "''tr''"] demo_ok
  by (simp add: events_of_trace_def demo_db_def)

section \<open>What each call does, undisturbed\<close>

text \<open>
  Property C16: recording a delivered reply. An unknown outbox entry is an error and changes
  nothing; otherwise the entry becomes sent with its retry counter kept, the delivery is logged,
  and the request is completed (and that logged) exactly when it was not failed already.
\<close>

theorem mark_outbox_sent_effect:
  assumes "quiet c" and "trace_ok (tables c)"
    and "mark_outbox_sent (sqlite_repo (\<lambda>j. Inr (ser j)) de) w oid n c = (r, c')"
  shows "(ok_of r, trace_view (tables c')) =
    (let a = trace_view (tables c) in
     case ab_outbox a oid of
       None \<Rightarrow> (None, a)
     | Some (cur, k) \<Rightarrow>
         (let sent = a\<lparr>ab_outbox := (ab_outbox a)(oid \<mapsto> (ObSent, k)),
                       ab_log := ab_log a @ [(tw_trace_id w, OutboxSent)]\<rparr> in
          if ab_status a (tw_request_id w) \<in> {Some RqAccepted, Some RqRunning, Some RqCompleted}
          then (Some (), sent\<lparr>ab_status := (ab_status a)(tw_request_id w \<mapsto> RqCompleted),
                             ab_log := ab_log sent @ [(tw_trace_id w, RequestCompleted)]\<rparr>)
          else (Some (), sent)))"
proof -
  have q: "RequestStatus_can_transition_to st RqCompleted \<longleftrightarrow> st \<noteq> RqFailed" for st
    by (cases st) (simp_all add: RequestStatus_can_transition_to_def)
  have ne: "st \<noteq> RqFailed \<longleftrightarrow> st = RqAccepted \<or> st = RqRunning \<or> st = RqCompleted" for st
    by (cases st) simp_all
  from refinesD(3) [OF sqlite_store.mark_outbox_sent_refines assms(1,2,3)]
  have "(ok_of r, trace_view (tables c')) = spec_mark_outbox_sent w oid (trace_view (tables c))" ..
  then show ?thesis
    unfolding spec_mark_outbox_sent_eq Let_def
    by (auto simp: q ne split: option.split)
qed

lemma mark_outbox_sent_effect_witness:
  "ab_outbox (trace_view (tables (snd (mark_outbox_sent (sqlite_repo (\<lambda>_. Inr ''{}'') (\<lambda>_. None))
     \<lparr>tw_trace_id = ''tr'', tw_request_id = ''r''\<rparr> ''q'' 1 (calm demo_db))))) ''q'' =
   Some (ObSent, 0)"
proof -
  obtain r c' where m: "mark_outbox_sent (sqlite_repo (\<lambda>_. Inr ''{}'') (\<lambda>_. None))
     \<lparr>tw_trace_id = ''tr'', tw_request_id = ''r''\<rparr> ''q'' 1 (calm demo_db) = (r, c')" by fastforce
  have v: "ab_outbox (trace_view demo_db) ''q'' = Some (ObPending, 0)"
    by (simp add: trace_view_def find_outbox_def demo_db_def demo_outbox_def OutboxStatus_parse_def)
  from mark_outbox_sent_effect [OF _ _ m] demo_ok v m show ?thesis
    by (auto simp: Let_def split: if_splits)
qed

text \<open>
  Recording a failed delivery. It is an error for an entry that is unknown, already
  sent, or has failed as often as allowed; otherwise the entry is failed with its counter one
  higher, and the failure is logged. So an entry fails at most three times.
\<close>

theorem mark_outbox_failed_effect:
  assumes "quiet c" and "trace_ok (tables c)"
    and "mark_outbox_failed (sqlite_repo (\<lambda>j. Inr (ser j)) de) w oid m n c = (r, c')"
  shows "(ok_of r, trace_view (tables c')) =
    (let a = trace_view (tables c) in
     case ab_outbox a oid of
       None \<Rightarrow> (None, a)
     | Some (cur, k) \<Rightarrow>
         if cur = ObSent \<or> OUTBOX_MAX_RETRIES \<le> k then (None, a)
         else (Some (), a\<lparr>ab_outbox := (ab_outbox a)(oid \<mapsto> (ObFailed, k + 1)),
                         ab_log := ab_log a @ [(tw_trace_id w, OutboxFailed)]\<rparr>))"
proof -
  have q: "OutboxStatus_can_transition_to st ObFailed \<longleftrightarrow> st \<noteq> ObSent" for st
    by (cases st) (simp_all add: OutboxStatus_can_transition_to_def)
  from refinesD(3) [OF sqlite_store.mark_outbox_failed_refines assms(1,2,3)]
  have "(ok_of r, trace_view (tables c')) = spec_mark_outbox_failed w oid (trace_view (tables c))" ..
  then show ?thesis
    by (auto simp: spec_mark_outbox_failed_def spec_update_outbox_status_def spec_append_def
        abs_then_def Let_def q split: option.split)
qed

lemma mark_outbox_failed_effect_witness:
  "ok_of (fst (mark_outbox_failed (sqlite_repo (\<lambda>_. Inr ''{}'') (\<lambda>_. None))
     \<lparr>tw_trace_id = ''ta'', tw_request_id = ''a''\<rparr> ''x'' ''gone'' 1 (calm demo_db))) = None"
proof -
  obtain r c' where m: "mark_outbox_failed (sqlite_repo (\<lambda>_. Inr ''{}'') (\<lambda>_. None))
     \<lparr>tw_trace_id = ''ta'', tw_request_id = ''a''\<rparr> ''x'' ''gone'' 1 (calm demo_db) = (r, c')"
    by fastforce
  have v: "ab_outbox (trace_view demo_db) ''x'' = Some (ObFailed, 3)"
    by (simp add: trace_view_def find_outbox_def demo_db_def demo_outbox_def OutboxStatus_parse_def)
  from mark_outbox_failed_effect [OF _ _ m] demo_ok v m show ?thesis
    by (auto simp: OUTBOX_MAX_RETRIES_def)
qed

text \<open>
  A queued request can be claimed for steering once. The claim succeeds exactly when
  the request is accepted, it then is running, and a second claim is refused and changes nothing;
  a claim of a request in any other status is refused without error and changes nothing.
\<close>

theorem steer_claim_exclusive:
  assumes "quiet c" and "trace_ok (tables c)"
    and "claim_for_steer (sqlite_repo (\<lambda>j. Inr (ser j)) de) w c = (r1, c1)"
    and "claim_for_steer (sqlite_repo (\<lambda>j. Inr (ser j)) de) w c1 = (r2, c2)"
  shows "r1 = Inr (ab_status (trace_view (tables c)) (tw_request_id w) = Some RqAccepted) \<and>
    r2 = Inr False \<and> trace_view (tables c2) = trace_view (tables c1) \<and>
    (if r1 = Inr True then ab_status (trace_view (tables c1)) (tw_request_id w) = Some RqRunning
     else trace_view (tables c1) = trace_view (tables c))"
proof -
  note 1 = refinesD [OF sqlite_store.claim_for_steer_refines assms(1,2,3)]
  note 2 = refinesD [OF sqlite_store.claim_for_steer_refines 1(1,2) assms(4)]
  have ok: "Some a = ok_of x \<longleftrightarrow> x = Inr a" for x :: "string + bool" and a
    by (cases x) auto
  show ?thesis
  proof (cases "ab_status (trace_view (tables c)) (tw_request_id w) = Some RqAccepted")
    case True
    with 1(3) have r1: "r1 = Inr True"
      and "ab_status (trace_view (tables c1)) (tw_request_id w) = Some RqRunning"
      by (auto simp: spec_claim_for_steer_eq ok dest: sym [where t = "trace_view _"])
    with 2(3) True show ?thesis by (simp add: spec_claim_for_steer_eq ok)
  next
    case False
    with 1(3) have "r1 = Inr False" "trace_view (tables c1) = trace_view (tables c)"
      by (simp_all add: spec_claim_for_steer_eq ok)
    with 2(3) False show ?thesis by (simp add: spec_claim_for_steer_eq ok)
  qed
qed

lemma steer_claim_exclusive_witness:
  "fst (claim_for_steer (sqlite_repo (\<lambda>_. Inr ''{}'') (\<lambda>_. None))
     \<lparr>tw_trace_id = ''ta'', tw_request_id = ''a''\<rparr> (calm demo_db)) = Inr True"
proof -
  let ?m = "claim_for_steer (sqlite_repo (\<lambda>_. Inr ''{}'') (\<lambda>_. None))
     \<lparr>tw_trace_id = ''ta'', tw_request_id = ''a''\<rparr>"
  obtain r1 c1 r2 c2 where m: "?m (calm demo_db) = (r1, c1)" "?m c1 = (r2, c2)" by fastforce
  have v: "ab_status (trace_view demo_db) ''a'' = Some RqAccepted"
    by (simp add: trace_view_def find_request_def demo_db_def demo_request_def
        RequestStatus_parse_def)
  from steer_claim_exclusive [OF _ _ m] demo_ok v m show ?thesis by simp
qed

lemma find_SomeD: "find p xs = Some x \<Longrightarrow> p x \<and> x \<in> set xs"
  by (auto simp: find_Some_iff)

lemma stmt_select_quiet:
  "quiet c \<Longrightarrow> stmt (select q) c = (Inr (q (tables c)), c\<lparr>tick := Suc (tick c)\<rparr>)"
  by (simp add: stmt_quiet select_def)

text \<open>The entries that may still be delivered.\<close>

definition candidates :: "string option \<Rightarrow> trace_db \<Rightarrow> outbox_row list" where
  "candidates p s =
     filter (\<lambda>b. (case p of Some x \<Rightarrow> qo_platform b = x | None \<Rightarrow> True) \<and>
       (qo_status b = ''pending'' \<or> qo_status b = ''failed'') \<and> qo_retry_count b < 3) (tb_outbox s)"

lemma candidates_retryable:
  "candidates None s = filter retryable (tb_outbox s)"
  "candidates (Some x) s = filter (\<lambda>r. qo_platform r = x \<and> retryable r) (tb_outbox s)"
  by (auto simp: candidates_def retryable_def OUTBOX_MAX_RETRIES_def intro!: filter_cong)

text \<open>
  The replies handed to the delivery loop. Exactly entries of the platform asked for
  that are pending or failed with attempts left, at most 200, the oldest first, and none left out
  is older than one returned; nothing is changed.
\<close>

theorem retryable_listing:
  assumes "quiet c" and "trace_ok (tables c)"
  shows "\<exists>rows. fst (sqlite_list_retryable_outbox p n c) = Inr (map outbox_of_row rows) \<and>
    tables (snd (sqlite_list_retryable_outbox p n c)) = tables c \<and>
    set rows \<subseteq> set (candidates p (tables c)) \<and>
    length rows = min (min n 200) (length (candidates p (tables c))) \<and>
    sorted (map qo_created_at rows) \<and>
    (\<forall>b \<in> set (candidates p (tables c)). b \<in> set rows \<or> (\<forall>b' \<in> set rows. qo_created_at b' \<le> qo_created_at b)) \<and>
    (\<forall>b \<in> set rows. ob_status (outbox_of_row b) \<noteq> ObSent \<and>
       ob_outbox_id (outbox_of_row b) = qo_outbox_id b \<and> ob_body (outbox_of_row b) = qo_body b)"
proof -
  let ?cs = "candidates p (tables c)"
  define rows where "rows = take (min n 200) (order_asc qo_created_at ?cs)"
  have "sqlite_list_retryable_outbox p n c =
      (Inr (map outbox_of_row rows), c\<lparr>tick := Suc (tick c)\<rparr>)"
    using assms(1)
    by (cases p) (auto simp: sqlite_list_retryable_outbox_def and_then_def map_err_def
        stmt_select_quiet ret_def rows_def candidates_retryable)
  moreover have "ob_status (outbox_of_row b) \<noteq> ObSent" if "b \<in> set rows" for b
    using that take_order_asc(1) [where n = "min n 200" and k = qo_created_at and rows = ?cs]
    by (auto simp: rows_def candidates_def outbox_of_row_def OutboxStatus_parse_def)
  ultimately show ?thesis
    using take_order_asc [where n = "min n 200" and k = qo_created_at and rows = ?cs]
    by (intro exI [of _ rows]) (auto simp: rows_def outbox_of_row_def)
qed

lemma retryable_listing_witness:
  "\<exists>rows. fst (sqlite_list_retryable_outbox None 5 (calm demo_db)) = Inr (map outbox_of_row rows) \<and>
     length rows = 1"
  using retryable_listing [of "calm demo_db" None 5] demo_ok
  by (fastforce simp: candidates_def demo_db_def demo_outbox_def)

text \<open>
  Cancelling by a trace or request id or a prefix of one. Only a request that is
  still queued is cancelled: it becomes failed and its cancellation is logged. A request already
  running, and a selector that finds none, leave the store unchanged.
\<close>

theorem cancel_only_queued:
  assumes "quiet c" and "trace_ok (tables c)"
    and "cancel_accepted_request (sqlite_repo (\<lambda>j. Inr (ser j)) de) k sel m c = (r, c')"
  shows "\<exists>out. r = Inr out \<and> (let a = trace_view (tables c); a' = trace_view (tables c') in
    case out of
      Cancelled q \<Rightarrow> selected sel q \<and> ab_status a (as_request_id q) = Some RqAccepted \<and>
        a' = a\<lparr>ab_status := (ab_status a)(as_request_id q \<mapsto> RqFailed),
               ab_log := ab_log a @ [(as_trace_id q, RequestCancelled)]\<rparr>
    | AlreadyRunning q \<Rightarrow> selected sel q \<and> ab_status a (as_request_id q) = Some RqRunning \<and> a' = a
    | CancelNotFound \<Rightarrow> a' = a)"
proof -
  let ?repo = "sqlite_repo (\<lambda>j. Inr (ser j)) de"
  let ?a = "trace_view (tables c)"
  let ?L = "map (active_of_row (tables c)) (take 50 (active_rows (tables c) k))"
  let ?c1 = "c\<lparr>tick := Suc (tick c)\<rparr>"
  have list: "tr_list_active_requests ?repo k 50 c = (Inr ?L, ?c1)"
    using assms(1) by (simp add: sqlite_repo_def sqlite_list_active_requests_def map_err_def
        stmt_select_quiet)
  show ?thesis
  proof (cases "find (selected sel) ?L")
    case None
    with assms(3) list show ?thesis
      by (auto simp: cancel_accepted_request_def and_then_def ret_def)
  next
    case (Some q)
    then have sel: "selected sel q" and "q \<in> set ?L"
      by (auto dest: find_SomeD)
    then obtain row where row: "row \<in> set (tb_requests (tables c))" "q = active_of_row (tables c) row"
      using set_take_subset [of 50 "active_rows (tables c) k"] by (auto simp: active_rows_def)
    note found = find_request_mem [OF assms(2) row(1)]
    then obtain st0 where "qr_status row = RequestStatus_as_str st0"
      using trace_ok_request [OF assms(2)] by blast
    with found row(2) have st: "ab_status ?a (as_request_id q) = Some (as_status q)"
      by (simp add: active_of_row_def Let_def view_status)
    obtain r2 c2 where m2: "fail_if_accepted ?repo (as_request_id q) m ?c1 = (r2, c2)" by fastforce
    have "refines trace_ok trace_view (fail_if_accepted ?repo (as_request_id q) m)
        (spec_transition_request_if (as_request_id q) RqAccepted RqFailed)"
      by (simp add: fail_if_accepted_def sqlite_store.transition_refines)
    note 2 = refinesD [OF this _ _ m2]
    obtain r3 c3 where m3: "tr_append_event ?repo
        \<lparr>ne_trace_id = as_trace_id q, ne_request_id = as_request_id q, ne_run_id = None,
         ne_kind = RequestCancelled, ne_payload = JObj [(''reason'', JStr m)]\<rparr> c2 = (r3, c3)"
      by fastforce
    note 3 = refinesD [OF sqlite_store.append_refines _ _ m3]
    have ok: "Some b = ok_of x \<longleftrightarrow> x = Inr b" for x :: "string + 'b" and b by (cases x) auto
    show ?thesis
    proof (cases "as_status q")
      case RqAccepted
      with st assms(1,2) 2 have v2: "r2 = Inr True" "quiet c2" "trace_ok (tables c2)"
        "trace_view (tables c2) = ?a\<lparr>ab_status := (ab_status ?a)(as_request_id q \<mapsto> RqFailed)\<rparr>"
        by (auto simp: spec_transition_request_if_def ok)
      with 3 have v3: "r3 = Inr ()" "trace_view (tables c3) =
          (trace_view (tables c2))\<lparr>ab_log := ab_log (trace_view (tables c2)) @
             [(as_trace_id q, RequestCancelled)]\<rparr>"
        by (auto simp: spec_append_def ok)
      from assms(3) RqAccepted Some list m2 m3 v2 v3 sel st show ?thesis
        by (auto simp: cancel_accepted_request_def and_then_def ret_def Let_def selected_def)
    qed (use assms(3) Some list sel st in
        \<open>auto simp: cancel_accepted_request_def and_then_def ret_def\<close>)
  qed
qed

lemma cancel_only_queued_witness:
  "\<exists>out. fst (cancel_accepted_request (sqlite_repo (\<lambda>_. Inr ''{}'') (\<lambda>_. None))
     (ConversationKey_new ''p'' ''c'' ''k'') ''ta'' ''stop'' (calm demo_db)) = Inr out"
proof -
  obtain r c' where m: "cancel_accepted_request (sqlite_repo (\<lambda>_. Inr ''{}'') (\<lambda>_. None))
     (ConversationKey_new ''p'' ''c'' ''k'') ''ta'' ''stop'' (calm demo_db) = (r, c')" by fastforce
  from cancel_only_queued [OF _ _ m] demo_ok m show ?thesis by auto
qed

text \<open>The requests a conversation still has open: unfinished, or with a reply to deliver.\<close>

definition open_requests :: "conversation_key \<Rightarrow> trace_db \<Rightarrow> request_row list" where
  "open_requests k s =
     filter (\<lambda>r. in_conversation k r \<and>
       (qr_status r = ''accepted'' \<or> qr_status r = ''running'' \<or>
        (\<exists>b \<in> set (candidates None s). qo_request_id b = qr_request_id r))) (tb_requests s)"

lemma active_rows_open:
  "active_rows s k = order_asc (\<lambda>r. (status_rank (qr_status r), qr_created_at r)) (open_requests k s)"
proof -
  have "retryable_of_request s rid \<noteq> [] \<longleftrightarrow> (\<exists>b \<in> set (candidates None s). qo_request_id b = rid)" for rid
    by (auto simp: retryable_of_request_def candidates_retryable simp flip: set_empty)
  then show ?thesis
    by (auto simp: active_rows_def open_requests_def active_status_def
        intro!: arg_cong [where f = "order_asc _"] filter_cong)
qed

text \<open>
  The open requests of a conversation are listed running first, then queued, then
  those only waiting for their reply, the oldest first in each group; at most 100, and a request
  left out comes after every one returned.
\<close>

theorem active_listing:
  assumes "quiet c"
  shows "\<exists>rows. fst (sqlite_list_active_requests k n c) = Inr (map (active_of_row (tables c)) rows) \<and>
    tables (snd (sqlite_list_active_requests k n c)) = tables c \<and>
    set rows \<subseteq> set (open_requests k (tables c)) \<and>
    length rows = min (min n 100) (length (open_requests k (tables c))) \<and>
    sorted (map (\<lambda>r. (status_rank (qr_status r), qr_created_at r)) rows) \<and>
    (\<forall>r \<in> set (open_requests k (tables c)). r \<in> set rows \<or>
       (\<forall>r' \<in> set rows. (status_rank (qr_status r'), qr_created_at r') \<le>
          (status_rank (qr_status r), qr_created_at r)))"
proof -
  let ?k = "\<lambda>r. (status_rank (qr_status r), qr_created_at r)"
  let ?cs = "open_requests k (tables c)"
  have "sqlite_list_active_requests k n c =
      (Inr (map (active_of_row (tables c)) (take (min n 100) (order_asc ?k ?cs))),
       c\<lparr>tick := Suc (tick c)\<rparr>)"
    using assms
    by (simp add: sqlite_list_active_requests_def map_err_def stmt_select_quiet active_rows_open)
  then show ?thesis
    using take_order_asc [where n = "min n 100" and k = ?k and rows = ?cs]
    by (intro exI [of _ "take (min n 100) (order_asc ?k ?cs)"]) auto
qed

lemma active_listing_witness:
  "\<exists>rows. fst (sqlite_list_active_requests (ConversationKey_new ''p'' ''c'' ''k'') 9 (calm demo_db)) =
     Inr (map (active_of_row demo_db) rows) \<and> length rows = 2"
  using active_listing [of "calm demo_db" "ConversationKey_new ''p'' ''c'' ''k''" 9]
  by (fastforce simp: open_requests_def in_conversation_def ConversationKey_new_def candidates_def
      demo_db_def demo_outbox_def demo_request_def)

text \<open>
  The sweep at start-up fails every request that was queued or running, reports how
  many, leaves none open, and touches neither finished requests nor the other tables.
\<close>

theorem sweep_clears:
  assumes "quiet c"
  shows "let s = tables c; (r, c') = sqlite_sweep_stale_requests m c; s' = tables c' in
    r = Inr (length (filter (\<lambda>q. active_status (qr_status q)) (tb_requests s))) \<and>
    filter (\<lambda>q. active_status (qr_status q)) (tb_requests s') = [] \<and>
    length (tb_requests s') = length (tb_requests s) \<and>
    (\<forall>i < length (tb_requests s).
       if active_status (qr_status (tb_requests s ! i))
       then qr_status (tb_requests s' ! i) = ''failed'' \<and> qr_error_message (tb_requests s' ! i) = Some m
       else tb_requests s' ! i = tb_requests s ! i) \<and>
    tb_outbox s' = tb_outbox s \<and> tb_runs s' = tb_runs s \<and> tb_events s' = tb_events s"
  using assms
  by (auto simp: sqlite_sweep_stale_requests_def map_err_def stmt_quiet update_requests_def
      affected_def update_where_def fail_row_def filter_empty_conv active_status_def Let_def)

lemma sweep_clears_witness:
  "fst (sqlite_sweep_stale_requests ''restart'' (calm demo_db)) = Inr 2"
  using sweep_clears [of "calm demo_db" "''restart''"]
  by (auto simp: demo_db_def demo_request_def active_status_def Let_def split: prod.splits)

text \<open>
  Every status and event kind is stored as a text that reads back as itself, and a
  text is read as a status only if it is the one written for it.
\<close>

theorem status_roundtrip:
  "RequestStatus_parse (RequestStatus_as_str a) = Some a \<and>
   RunStatus_parse (RunStatus_as_str b) = Some b \<and>
   OutboxStatus_parse (OutboxStatus_as_str d) = Some d \<and>
   GatewayEventKind_parse (GatewayEventKind_as_str k) = k \<and>
   (RequestStatus_parse v = Some a \<longleftrightarrow> v = RequestStatus_as_str a) \<and>
   (OutboxStatus_parse v = Some d \<longleftrightarrow> v = OutboxStatus_as_str d)"
  by (simp add: RequestStatus_parse_Some OutboxStatus_parse_Some)

end
