(* ===== verification/Store_Types.thy ===== *)
theory Store_Types
  imports Sql Trace_Types Cron
begin

text \<open>
  Data of the gateway store (\<open>store/mod.rs\<close>): its error type, the records its operations take
  and return, and usage statuses. An \<open>f64\<close> is only passed on and summed by code outside the
  repository, so it is a type variable \<open>'f\<close>; counters are natural numbers below the bound of
  their Rust type.
\<close>

datatype store_error = Database string | Io string | Serialization string | NotFound string

definition db :: "('s, string, 'a) op \<Rightarrow> ('s, store_error, 'a) op" where
  "db m = map_err Database m"

record session_record =
  sr_session_id :: string
  sr_is_current :: bool
  sr_created_at :: string

record cron_job_spec =
  cj_job_id :: string
  cj_platform :: string
  cj_chat_id :: string
  cj_user_id :: string
  cj_cron_expr :: string
  cj_message :: string
  cj_description :: string

record cron_job_record =
  cr_job_id :: string
  cr_cron_expr :: string
  cr_description :: string
  cr_enabled :: bool

record due_job =
  dj_job_id :: string
  dj_platform :: string
  dj_chat_id :: string
  dj_message :: string
  dj_cron_expr :: string

record platform_credential =
  pc_platform :: string
  pc_user_id :: string
  pc_credential_type :: string
  pc_credentials :: json
  pc_expires_at :: "string option"

datatype usage_status =
    UsSuccess | UsProviderError | UsCliError | UsCancelled | UsPreflightFailed | UsInternalError

fun UsageStatus_as_str :: "usage_status \<Rightarrow> string" where
  "UsageStatus_as_str UsSuccess = ''success''"
| "UsageStatus_as_str UsProviderError = ''provider_error''"
| "UsageStatus_as_str UsCliError = ''cli_error''"
| "UsageStatus_as_str UsCancelled = ''cancelled''"
| "UsageStatus_as_str UsPreflightFailed = ''preflight_failed''"
| "UsageStatus_as_str UsInternalError = ''internal_error''"

definition counts_as_message :: "usage_status \<Rightarrow> bool" where
  "counts_as_message s \<longleftrightarrow> s = UsSuccess \<or> s = UsProviderError \<or> s = UsCliError"

record 'f usage_record =
  ur_platform :: string
  ur_user_id :: string
  ur_cli_profile :: string
  ur_model :: "string option"
  ur_trace_id :: "string option"
  ur_request_id :: "string option"
  ur_run_id :: "string option"
  ur_session_id :: "string option"
  ur_tokens_prompt :: nat
  ur_tokens_completion :: nat
  ur_cached_input_tokens :: nat
  ur_cache_creation_input_tokens :: nat
  ur_cache_read_input_tokens :: nat
  ur_reasoning_output_tokens :: nat
  ur_total_tokens :: nat
  ur_context_window :: "nat option"
  ur_max_output_tokens :: "nat option"
  ur_cost_usd :: "'f option"
  ur_raw_usage_json :: "string option"
  ur_status :: usage_status
  ur_failure_kind :: "string option"
  ur_tool_calls :: nat
  ur_elapsed_ms :: nat

record 'f usage_summary =
  us_messages :: nat
  us_tokens_prompt :: nat
  us_tokens_completion :: nat
  us_cached_input_tokens :: nat
  us_cache_creation_input_tokens :: nat
  us_cache_read_input_tokens :: nat
  us_reasoning_output_tokens :: nat
  us_total_tokens :: nat
  us_context_window :: "nat option"
  us_max_output_tokens :: "nat option"
  us_cost_usd :: 'f
  us_tool_calls :: nat

record skill_record =
  sk_name :: string
  sk_content :: string
  sk_description :: string
  sk_created_at :: string

text \<open>\<open>as i64\<close> and \<open>as u64\<close>, which keep the bits\<close>

definition to_i64 :: "nat \<Rightarrow> int" where
  "to_i64 n = (if n < 2 ^ 63 then int n else int n - 2 ^ 64)"

definition to_u64 :: "int \<Rightarrow> nat" where
  "to_u64 i = nat (i mod 2 ^ 64)"

lemma to_u64_to_i64: "n < 2 ^ 64 \<Longrightarrow> to_u64 (to_i64 n) = n"
  by (simp add: to_u64_def to_i64_def)

lemma to_i64_small: "n < 2 ^ 63 \<Longrightarrow> to_i64 n = int n"
  by (simp add: to_i64_def)

end
