(* ===== verification/Store_Sqlite.thy ===== *)
theory Store_Sqlite
  imports Store_Types
begin

text \<open>
  \<open>SqliteGatewayStore\<close> (\<open>store/sqlite.rs\<close>): its six tables and one definition per operation of
  the \<open>GatewayStore\<close> trait. Parameters stand for code outside the repository: \<open>fmt\<close> for
  \<open>chrono\<close>'s rendering of a time, \<open>ser\<close> and \<open>de\<close> for \<open>serde_json\<close>, \<open>path_set\<close> and
  \<open>path_get\<close> for the engine's \<open>json_set\<close> and \<open>json_extract\<close> on the path of a key, \<open>fsum\<close> for its
  sum of floating-point values; \<open>tz\<close> is the configured time-zone offset.
\<close>

section \<open>Tables\<close>

record user_row =
  gu_platform :: string
  gu_user_id :: string
  gu_display_name :: string
  gu_preferences :: "json option"
  gu_updated_at :: string

record session_row =
  se_id :: int
  se_platform :: string
  se_chat_id :: string
  se_user_id :: string
  se_cli_profile :: string
  se_session_id :: string
  se_is_current :: bool
  se_created_at :: string
  se_last_active :: string

record job_row =
  jo_job_id :: string
  jo_platform :: string
  jo_chat_id :: string
  jo_user_id :: string
  jo_cron_expr :: string
  jo_message :: string
  jo_description :: string
  jo_enabled :: bool
  jo_last_run :: "string option"
  jo_next_run :: "string option"
  jo_created_at :: string

record cred_row =
  gc_platform :: string
  gc_user_id :: string
  gc_type :: string
  gc_credentials :: string
  gc_expires_at :: "string option"
  gc_updated_at :: string

record 'f usage_row =
  ug_platform :: string
  ug_user_id :: string
  ug_cli_profile :: string
  ug_model :: "string option"
  ug_trace_id :: "string option"
  ug_request_id :: "string option"
  ug_run_id :: "string option"
  ug_session_id :: "string option"
  ug_prompt :: int
  ug_completion :: int
  ug_cached :: int
  ug_cache_create :: int
  ug_cache_read :: int
  ug_reasoning :: int
  ug_total :: int
  ug_context_window :: "int option"
  ug_max_output :: "int option"
  ug_cost :: "'f option"
  ug_raw :: "string option"
  ug_status :: string
  ug_failure_kind :: "string option"
  ug_tool_calls :: int
  ug_elapsed_ms :: int
  ug_created_at :: string

record skill_row =
  sl_platform :: string
  sl_chat_id :: string
  sl_name :: string
  sl_content :: string
  sl_description :: string
  sl_created_at :: string

record 'f gw_db =
  gw_users :: "user_row list"
  gw_sessions :: "session_row list"
  gw_next_session :: int
  gw_jobs :: "job_row list"
  gw_creds :: "cred_row list"
  gw_usage :: "'f usage_row list"
  gw_skills :: "skill_row list"

type_synonym ('f, 'a) store_op = "('f gw_db, store_error, 'a) op"

text \<open>Statements on one table, given by its selector and its update function.\<close>

definition query :: "('s env \<Rightarrow> 's \<Rightarrow> 'a) \<Rightarrow> ('s, 'a) sql" where
  "query q e s = (Inr (q e s), s)"

definition update_table ::
  "('s \<Rightarrow> 'r list) \<Rightarrow> (('r list \<Rightarrow> 'r list) \<Rightarrow> 's \<Rightarrow> 's) \<Rightarrow> ('r \<Rightarrow> bool) \<Rightarrow> (string \<Rightarrow> 'r \<Rightarrow> 'r) \<Rightarrow>
   ('s, nat) sql" where
  "update_table get put p f e s =
     (Inr (affected p (get s)), put (update_where p (f (env_now e))) s)"

definition delete_table ::
  "('s \<Rightarrow> 'r list) \<Rightarrow> (('r list \<Rightarrow> 'r list) \<Rightarrow> 's \<Rightarrow> 's) \<Rightarrow> ('r \<Rightarrow> bool) \<Rightarrow> ('s, nat) sql" where
  "delete_table get put p e s = (Inr (affected p (get s)), put (delete_where p) s)"

text \<open>\<open>INSERT \<dots> ON CONFLICT(key) DO UPDATE\<close>: insert the row, or change the one with its key.\<close>

definition upsert_table ::
  "('s \<Rightarrow> 'r list) \<Rightarrow> (('r list \<Rightarrow> 'r list) \<Rightarrow> 's \<Rightarrow> 's) \<Rightarrow> ('r \<Rightarrow> 'k) \<Rightarrow> (string \<Rightarrow> 'r) \<Rightarrow>
   ('r \<Rightarrow> 'r \<Rightarrow> 'r) \<Rightarrow> ('s, unit) sql" where
  "upsert_table get put key r f e s =
     (let new = r (env_now e) in
      (Inr (), put (\<lambda>rows. if key new \<in> set (map key rows)
                           then update_where (\<lambda>x. key x = key new) (f new) rows
                           else rows @ [new]) s))"

section \<open>Users\<close>

definition user_key_of :: "user_row \<Rightarrow> string \<times> string" where
  "user_key_of r = (gu_platform r, gu_user_id r)"

definition sqlite_is_first_message :: "string \<Rightarrow> string \<Rightarrow> ('f, bool) store_op" where
  "sqlite_is_first_message platform user_id =
     and_then (db (stmt (query (\<lambda>e s. affected (\<lambda>r. user_key_of r = (platform, user_id)) (gw_users s)))))
       (\<lambda>count. ret (count = 0))"

definition sqlite_upsert_user :: "string \<Rightarrow> string \<Rightarrow> string \<Rightarrow> ('f, unit) store_op" where
  "sqlite_upsert_user platform user_id display_name =
     db (stmt (upsert_table gw_users gw_users_update user_key_of
       (\<lambda>now. \<lparr>gu_platform = platform, gu_user_id = user_id, gu_display_name = display_name,
               gu_preferences = None, gu_updated_at = now\<rparr>)
       (\<lambda>new r. r\<lparr>gu_updated_at := gu_updated_at new\<rparr>)))"

definition sqlite_set_user_preference ::
  "(string \<Rightarrow> json \<Rightarrow> string \<Rightarrow> json) \<Rightarrow> string \<Rightarrow> string \<Rightarrow> string \<Rightarrow> string \<Rightarrow> ('f, unit) store_op" where
  "sqlite_set_user_preference path_set platform user_id key value =
     and_then (db (stmt (update_table gw_users gw_users_update
        (\<lambda>r. user_key_of r = (platform, user_id) \<and> gu_preferences r = None)
        (\<lambda>now r. r\<lparr>gu_preferences := Some (JObj [(key, JStr value)]), gu_updated_at := now\<rparr>)))) (\<lambda>initialized.
     and_then (db (stmt (update_table gw_users gw_users_update
        (\<lambda>r. user_key_of r = (platform, user_id) \<and> gu_preferences r \<noteq> None)
        (\<lambda>now r. r\<lparr>gu_preferences := map_option (\<lambda>j. path_set key j value) (gu_preferences r),
                   gu_updated_at := now\<rparr>)))) (\<lambda>merged.
     if initialized + merged = 0
     then fail (NotFound (''user not found: '' @ platform @ '':'' @ user_id))
     else ret ()))"

definition sqlite_get_user_preference ::
  "(string \<Rightarrow> json \<Rightarrow> string option) \<Rightarrow> string \<Rightarrow> string \<Rightarrow> string \<Rightarrow> ('f, string option) store_op" where
  "sqlite_get_user_preference path_get platform user_id key =
     and_then (db (stmt (query (\<lambda>e s.
         map_option (\<lambda>r. Option.bind (gu_preferences r) (path_get key))
           (first_row (filter (\<lambda>r. user_key_of r = (platform, user_id)) (gw_users s)))))))
       (\<lambda>row. ret (Option.bind row (\<lambda>x. x)))"

section \<open>Sessions\<close>

definition in_chat :: "string \<Rightarrow> string \<Rightarrow> string \<Rightarrow> session_row \<Rightarrow> bool" where
  "in_chat platform chat_id cli_profile r \<longleftrightarrow>
     se_platform r = platform \<and> se_chat_id r = chat_id \<and> se_cli_profile r = cli_profile"

definition current_sessions :: "string \<Rightarrow> string \<Rightarrow> string \<Rightarrow> 'f gw_db \<Rightarrow> session_row list" where
  "current_sessions platform chat_id cli_profile s =
     order_desc se_last_active
       (filter (\<lambda>r. in_chat platform chat_id cli_profile r \<and> se_is_current r) (gw_sessions s))"

definition sqlite_get_current_session ::
  "string \<Rightarrow> string \<Rightarrow> string \<Rightarrow> ('f, string option) store_op" where
  "sqlite_get_current_session platform chat_id cli_profile =
     db (stmt (query (\<lambda>e s.
       map_option se_session_id (first_row (current_sessions platform chat_id cli_profile s)))))"

definition sqlite_get_session_last_active ::
  "string \<Rightarrow> string \<Rightarrow> string \<Rightarrow> ('f, string option) store_op" where
  "sqlite_get_session_last_active platform chat_id cli_profile =
     db (stmt (query (\<lambda>e s.
       map_option se_last_active (first_row (current_sessions platform chat_id cli_profile s)))))"

definition find_session ::
  "string \<Rightarrow> string \<Rightarrow> string \<Rightarrow> string \<Rightarrow> 'f gw_db \<Rightarrow> session_row option" where
  "find_session platform chat_id cli_profile sid s =
     first_row (filter (\<lambda>r. in_chat platform chat_id cli_profile r \<and> se_session_id r = sid)
       (gw_sessions s))"

definition insert_session ::
  "string \<Rightarrow> string \<Rightarrow> string \<Rightarrow> string \<Rightarrow> string \<Rightarrow> ('f gw_db, unit) sql" where
  "insert_session platform chat_id user_id cli_profile sid e s =
     (Inr (), s\<lparr>gw_sessions := gw_sessions s @
        [\<lparr>se_id = gw_next_session s, se_platform = platform, se_chat_id = chat_id,
          se_user_id = user_id, se_cli_profile = cli_profile, se_session_id = sid,
          se_is_current = True, se_created_at = env_now e, se_last_active = env_now e\<rparr>],
        gw_next_session := gw_next_session s + 1\<rparr>)"

definition set_current_body ::
  "string \<Rightarrow> string \<Rightarrow> string \<Rightarrow> string \<Rightarrow> string \<Rightarrow> ('f, unit tx_end) store_op" where
  "set_current_body platform chat_id user_id astra_session_id cli_profile =
     and_then (db (stmt (update_table gw_sessions gw_sessions_update
        (\<lambda>r. in_chat platform chat_id cli_profile r \<and> se_is_current r)
        (\<lambda>now r. r\<lparr>se_is_current := False\<rparr>)))) (\<lambda>_.
     and_then (db (stmt (query (\<lambda>e s.
        map_option se_id (find_session platform chat_id cli_profile astra_session_id s))))) (\<lambda>existing.
     and_then (case existing of
         Some i \<Rightarrow> and_then (db (stmt (update_table gw_sessions gw_sessions_update
             (\<lambda>r. se_id r = i) (\<lambda>now r. r\<lparr>se_is_current := True, se_last_active := now\<rparr>))))
             (\<lambda>_. ret ())
       | None \<Rightarrow> db (stmt (insert_session platform chat_id user_id cli_profile astra_session_id)))
       (\<lambda>_. ret (Commit ()))))"

definition sqlite_set_current_session ::
  "string \<Rightarrow> string \<Rightarrow> string \<Rightarrow> string \<Rightarrow> string \<Rightarrow> ('f, unit) store_op" where
  "sqlite_set_current_session platform chat_id user_id astra_session_id cli_profile =
     transaction Database
       (set_current_body platform chat_id user_id astra_session_id cli_profile)"

definition sqlite_touch_session :: "string \<Rightarrow> string \<Rightarrow> string \<Rightarrow> ('f, unit) store_op" where
  "sqlite_touch_session platform chat_id cli_profile =
     and_then (db (stmt (update_table gw_sessions gw_sessions_update
        (\<lambda>r. in_chat platform chat_id cli_profile r \<and> se_is_current r)
        (\<lambda>now r. r\<lparr>se_last_active := now\<rparr>)))) (\<lambda>_. ret ())"

definition session_of_row :: "session_row \<Rightarrow> session_record" where
  "session_of_row r =
     \<lparr>sr_session_id = se_session_id r, sr_is_current = se_is_current r, sr_created_at = se_created_at r\<rparr>"

definition sqlite_list_sessions ::
  "string \<Rightarrow> string \<Rightarrow> string \<Rightarrow> ('f, session_record list) store_op" where
  "sqlite_list_sessions platform chat_id cli_profile =
     and_then (db (stmt (query (\<lambda>e s. take 20 (order_desc se_last_active
                 (filter (in_chat platform chat_id cli_profile) (gw_sessions s)))))))
       (\<lambda>rows. ret (map session_of_row rows))"

definition switch_body ::
  "string \<Rightarrow> string \<Rightarrow> string \<Rightarrow> string \<Rightarrow> ('f, bool tx_end) store_op" where
  "switch_body platform chat_id cli_profile target_session_id =
     and_then (db (stmt (query (\<lambda>e s.
        map_option se_id (find_session platform chat_id cli_profile target_session_id s))))) (\<lambda>exists.
     if exists = None then ret (Rollback False)
     else
       and_then (db (stmt (update_table gw_sessions gw_sessions_update
          (in_chat platform chat_id cli_profile) (\<lambda>now r. r\<lparr>se_is_current := False\<rparr>)))) (\<lambda>_.
       and_then (db (stmt (update_table gw_sessions gw_sessions_update
          (\<lambda>r. in_chat platform chat_id cli_profile r \<and> se_session_id r = target_session_id)
          (\<lambda>now r. r\<lparr>se_is_current := True, se_last_active := now\<rparr>)))) (\<lambda>_.
       ret (Commit True))))"

definition sqlite_switch_session ::
  "string \<Rightarrow> string \<Rightarrow> string \<Rightarrow> string \<Rightarrow> ('f, bool) store_op" where
  "sqlite_switch_session platform chat_id cli_profile target_session_id =
     transaction Database (switch_body platform chat_id cli_profile target_session_id)"

text \<open>\<open>substr(astra_session_id, 1, length(?)) = ?\<close>\<close>

definition sqlite_find_sessions_by_prefix ::
  "string \<Rightarrow> string \<Rightarrow> string \<Rightarrow> string \<Rightarrow> ('f, string list) store_op" where
  "sqlite_find_sessions_by_prefix platform chat_id cli_profile pre =
     db (stmt (query (\<lambda>e s. map se_session_id (take 2 (order_desc se_last_active
       (filter (\<lambda>r. in_chat platform chat_id cli_profile r \<and>
                    take_chars (char_count pre) (se_session_id r) = pre) (gw_sessions s)))))))"

definition sqlite_reset_session :: "string \<Rightarrow> string \<Rightarrow> string \<Rightarrow> ('f, unit) store_op" where
  "sqlite_reset_session platform chat_id cli_profile =
     and_then (db (stmt (update_table gw_sessions gw_sessions_update
        (\<lambda>r. in_chat platform chat_id cli_profile r \<and> se_is_current r)
        (\<lambda>now r. r\<lparr>se_is_current := False\<rparr>)))) (\<lambda>_. ret ())"

section \<open>Cron jobs\<close>

definition insert_job :: "(string \<Rightarrow> job_row) \<Rightarrow> ('f gw_db, unit) sql" where
  "insert_job r e s =
     (case insert_row jo_job_id (r (env_now e)) (gw_jobs s) of
        None \<Rightarrow> (Inl (env_conflict e), s)
      | Some rows \<Rightarrow> (Inr (), s\<lparr>gw_jobs := rows\<rparr>))"

definition sqlite_create_cron_job ::
  "(int \<Rightarrow> string) \<Rightarrow> int \<Rightarrow> cron_job_spec \<Rightarrow> ('f, unit) store_op" where
  "sqlite_create_cron_job fmt tz spec =
     and_then utc_now (\<lambda>now_utc.
     let nxt = fmt (next_cron_run now_utc (cj_cron_expr spec) tz) in
     db (stmt (insert_job (\<lambda>now.
       \<lparr>jo_job_id = cj_job_id spec, jo_platform = cj_platform spec, jo_chat_id = cj_chat_id spec,
        jo_user_id = cj_user_id spec, jo_cron_expr = cj_cron_expr spec, jo_message = cj_message spec,
        jo_description = cj_description spec, jo_enabled = True, jo_last_run = None,
        jo_next_run = Some nxt, jo_created_at = now\<rparr>))))"

definition sqlite_list_cron_jobs :: "string \<Rightarrow> string \<Rightarrow> ('f, cron_job_record list) store_op" where
  "sqlite_list_cron_jobs platform chat_id =
     db (stmt (query (\<lambda>e s. map (\<lambda>r. \<lparr>cr_job_id = jo_job_id r, cr_cron_expr = jo_cron_expr r,
         cr_description = jo_description r, cr_enabled = jo_enabled r\<rparr>)
       (order_asc jo_created_at
          (filter (\<lambda>r. jo_platform r = platform \<and> jo_chat_id r = chat_id) (gw_jobs s))))))"

definition sqlite_delete_cron_job :: "string \<Rightarrow> ('f, bool) store_op" where
  "sqlite_delete_cron_job job_id =
     and_then (db (stmt (delete_table gw_jobs gw_jobs_update (\<lambda>r. jo_job_id r = job_id))))
       (\<lambda>n. ret (0 < n))"

definition job_due :: "string \<Rightarrow> job_row \<Rightarrow> bool" where
  "job_due now r \<longleftrightarrow> jo_enabled r \<and> (case jo_next_run r of None \<Rightarrow> True | Some t \<Rightarrow> t \<le> now)"

definition due_of_row :: "job_row \<Rightarrow> due_job" where
  "due_of_row r =
     \<lparr>dj_job_id = jo_job_id r, dj_platform = jo_platform r, dj_chat_id = jo_chat_id r,
      dj_message = jo_message r, dj_cron_expr = jo_cron_expr r\<rparr>"

definition sqlite_get_due_jobs :: "('f, due_job list) store_op" where
  "sqlite_get_due_jobs =
     db (stmt (query (\<lambda>e s. map due_of_row (filter (job_due (env_now e)) (gw_jobs s)))))"

definition sqlite_mark_job_run ::
  "(int \<Rightarrow> string) \<Rightarrow> int \<Rightarrow> string \<Rightarrow> string \<Rightarrow> ('f, unit) store_op" where
  "sqlite_mark_job_run fmt tz job_id cron_expr =
     and_then utc_now (\<lambda>now_utc.
     let nxt = fmt (next_cron_run now_utc cron_expr tz) in
     and_then (db (stmt (update_table gw_jobs gw_jobs_update (\<lambda>r. jo_job_id r = job_id)
        (\<lambda>now r. r\<lparr>jo_last_run := Some now, jo_next_run := Some nxt\<rparr>)))) (\<lambda>_. ret ()))"

definition sqlite_update_cron_next_run :: "string \<Rightarrow> string \<Rightarrow> ('f, unit) store_op" where
  "sqlite_update_cron_next_run job_id next_run =
     and_then (db (stmt (update_table gw_jobs gw_jobs_update (\<lambda>r. jo_job_id r = job_id)
        (\<lambda>now r. r\<lparr>jo_next_run := Some next_run\<rparr>)))) (\<lambda>_. ret ())"

definition sqlite_get_cron_job_user_id :: "string \<Rightarrow> ('f, string option) store_op" where
  "sqlite_get_cron_job_user_id job_id =
     db (stmt (query (\<lambda>e s.
       map_option jo_user_id (first_row (filter (\<lambda>r. jo_job_id r = job_id) (gw_jobs s))))))"

section \<open>Platform credentials\<close>

definition cred_key_of :: "cred_row \<Rightarrow> string \<times> string \<times> string" where
  "cred_key_of r = (gc_platform r, gc_user_id r, gc_type r)"

definition sqlite_save_credential ::
  "(json \<Rightarrow> string) \<Rightarrow> string \<Rightarrow> string \<Rightarrow> string \<Rightarrow> json \<Rightarrow> string option \<Rightarrow> ('f, unit) store_op" where
  "sqlite_save_credential ser platform user_id credential_type credentials expires_at =
     db (stmt (upsert_table gw_creds gw_creds_update cred_key_of
       (\<lambda>now. \<lparr>gc_platform = platform, gc_user_id = user_id, gc_type = credential_type,
               gc_credentials = ser credentials, gc_expires_at = expires_at, gc_updated_at = now\<rparr>)
       (\<lambda>new r. r\<lparr>gc_credentials := gc_credentials new, gc_expires_at := gc_expires_at new,
                   gc_updated_at := gc_updated_at new\<rparr>)))"

definition credential_of_row :: "(string \<Rightarrow> json option) \<Rightarrow> cred_row \<Rightarrow> platform_credential" where
  "credential_of_row de r =
     \<lparr>pc_platform = gc_platform r, pc_user_id = gc_user_id r, pc_credential_type = gc_type r,
      pc_credentials = (case de (gc_credentials r) of Some j \<Rightarrow> j | None \<Rightarrow> JNull),
      pc_expires_at = gc_expires_at r\<rparr>"

definition sqlite_get_credential ::
  "(string \<Rightarrow> json option) \<Rightarrow> string \<Rightarrow> string \<Rightarrow> string \<Rightarrow> ('f, platform_credential option) store_op" where
  "sqlite_get_credential de platform user_id credential_type =
     and_then (db (stmt (query (\<lambda>e s.
         first_row (filter (\<lambda>r. cred_key_of r = (platform, user_id, credential_type)) (gw_creds s))))))
       (\<lambda>row. ret (map_option (credential_of_row de) row))"

definition sqlite_list_credentials ::
  "(string \<Rightarrow> json option) \<Rightarrow> string \<Rightarrow> ('f, platform_credential list) store_op" where
  "sqlite_list_credentials de platform =
     and_then (db (stmt (query (\<lambda>e s.
         order_desc gc_updated_at (filter (\<lambda>r. gc_platform r = platform) (gw_creds s))))))
       (\<lambda>rows. ret (map (credential_of_row de) rows))"

definition sqlite_delete_credential :: "string \<Rightarrow> string \<Rightarrow> string \<Rightarrow> ('f, bool) store_op" where
  "sqlite_delete_credential platform user_id credential_type =
     and_then (db (stmt (delete_table gw_creds gw_creds_update
        (\<lambda>r. cred_key_of r = (platform, user_id, credential_type)))))
       (\<lambda>n. ret (0 < n))"

section \<open>Usage\<close>

definition to_i32 :: "nat \<Rightarrow> int" where
  "to_i32 n = (if n < 2 ^ 31 then int n else int n - 2 ^ 32)"

definition usage_row_of :: "'f usage_record \<Rightarrow> string \<Rightarrow> 'f usage_row" where
  "usage_row_of r now =
     \<lparr>ug_platform = ur_platform r, ug_user_id = ur_user_id r, ug_cli_profile = ur_cli_profile r,
      ug_model = ur_model r, ug_trace_id = ur_trace_id r, ug_request_id = ur_request_id r,
      ug_run_id = ur_run_id r, ug_session_id = ur_session_id r,
      ug_prompt = to_i64 (ur_tokens_prompt r), ug_completion = to_i64 (ur_tokens_completion r),
      ug_cached = to_i64 (ur_cached_input_tokens r),
      ug_cache_create = to_i64 (ur_cache_creation_input_tokens r),
      ug_cache_read = to_i64 (ur_cache_read_input_tokens r),
      ug_reasoning = to_i64 (ur_reasoning_output_tokens r),
      ug_total = to_i64 (ur_total_tokens r),
      ug_context_window = map_option to_i64 (ur_context_window r),
      ug_max_output = map_option to_i64 (ur_max_output_tokens r),
      ug_cost = ur_cost_usd r, ug_raw = ur_raw_usage_json r,
      ug_status = UsageStatus_as_str (ur_status r), ug_failure_kind = ur_failure_kind r,
      ug_tool_calls = to_i32 (ur_tool_calls r), ug_elapsed_ms = to_i64 (ur_elapsed_ms r),
      ug_created_at = now\<rparr>"

definition sqlite_record_usage :: "'f usage_record \<Rightarrow> ('f, unit) store_op" where
  "sqlite_record_usage r =
     db (stmt (\<lambda>e s. (Inr (), s\<lparr>gw_usage := gw_usage s @ [usage_row_of r (env_now e)]\<rparr>)))"

text \<open>\<open>SUM\<close> over integers, an error where it leaves 64 bits; \<open>MAX\<close>, which skips nulls.\<close>

definition sum_i64 :: "int list \<Rightarrow> int option" where
  "sum_i64 xs =
     foldl (\<lambda>acc x. Option.bind acc (\<lambda>a.
       if - (2 ^ 63) \<le> a + x \<and> a + x < 2 ^ 63 then Some (a + x) else None)) (Some 0) xs"

definition max_opt :: "'a::linorder option list \<Rightarrow> 'a option" where
  "max_opt xs = foldl (\<lambda>m x. case (m, x) of
      (_, None) \<Rightarrow> m | (None, Some v) \<Rightarrow> Some v | (Some a, Some v) \<Rightarrow> Some (max a v)) None xs"

text \<open>\<open>CASE WHEN total_tokens > 0 THEN total_tokens ELSE \<dots>\<close>\<close>

definition row_total :: "'f usage_row \<Rightarrow> int" where
  "row_total r =
     (if 0 < ug_total r then ug_total r
      else ug_prompt r + ug_completion r + ug_cache_create r + ug_cache_read r + ug_reasoning r)"

definition counted :: "'f usage_row \<Rightarrow> bool" where
  "counted r \<longleftrightarrow>
     ug_status r = ''success'' \<or> ug_status r = ''provider_error'' \<or> ug_status r = ''cli_error''"

definition usage_sums :: "'f usage_row list \<Rightarrow> int option list" where
  "usage_sums rows = map (\<lambda>col. sum_i64 (map col rows))
     [ug_prompt, ug_completion, ug_cached, ug_cache_create, ug_cache_read, ug_reasoning, row_total,
      ug_tool_calls]"

definition summarize :: "('f list \<Rightarrow> 'f) \<Rightarrow> 'f usage_row list \<Rightarrow> string + 'f usage_summary" where
  "summarize fsum rows =
     (case usage_sums rows of
        [Some p, Some c, Some cached, Some create, Some rd, Some reasoning, Some tot, Some t] \<Rightarrow>
          Inr \<lparr>us_messages = length (filter counted rows),
               us_tokens_prompt = to_u64 p,
               us_tokens_completion = to_u64 c,
               us_cached_input_tokens = to_u64 cached,
               us_cache_creation_input_tokens = to_u64 create,
               us_cache_read_input_tokens = to_u64 rd,
               us_reasoning_output_tokens = to_u64 reasoning,
               us_total_tokens = to_u64 tot,
               us_context_window = map_option to_u64 (max_opt (map ug_context_window rows)),
               us_max_output_tokens = map_option to_u64 (max_opt (map ug_max_output rows)),
               us_cost_usd = fsum (List.map_filter ug_cost rows),
               us_tool_calls = to_u64 t\<rparr>
      | _ \<Rightarrow> Inl ''integer overflow'')"

definition usage_query ::
  "('f list \<Rightarrow> 'f) \<Rightarrow> (string \<Rightarrow> 'f usage_row \<Rightarrow> bool) \<Rightarrow> ('f gw_db, 'f usage_summary) sql" where
  "usage_query fsum p e s = (summarize fsum (filter (p (env_now e)) (gw_usage s)), s)"

text \<open>\<open>date('now')\<close> is the date part of the engine's clock.\<close>

definition sqlite_get_usage_today ::
  "('f list \<Rightarrow> 'f) \<Rightarrow> string \<Rightarrow> string \<Rightarrow> ('f, 'f usage_summary) store_op" where
  "sqlite_get_usage_today fsum platform user_id =
     db (stmt (usage_query fsum (\<lambda>now r. ug_platform r = platform \<and> ug_user_id r = user_id \<and>
       take 10 now \<le> ug_created_at r)))"

definition sqlite_get_usage_total ::
  "('f list \<Rightarrow> 'f) \<Rightarrow> string \<Rightarrow> string \<Rightarrow> ('f, 'f usage_summary) store_op" where
  "sqlite_get_usage_total fsum platform user_id =
     db (stmt (usage_query fsum (\<lambda>now r. ug_platform r = platform \<and> ug_user_id r = user_id)))"

definition sqlite_get_usage_session ::
  "('f list \<Rightarrow> 'f) \<Rightarrow> string \<Rightarrow> string \<Rightarrow> string \<Rightarrow> string \<Rightarrow> ('f, 'f usage_summary) store_op" where
  "sqlite_get_usage_session fsum platform user_id cli_profile session_id =
     db (stmt (usage_query fsum (\<lambda>now r. ug_platform r = platform \<and> ug_user_id r = user_id \<and>
       ug_cli_profile r = cli_profile \<and> ug_session_id r = Some session_id)))"

section \<open>Skills\<close>

definition skill_key_of :: "skill_row \<Rightarrow> string \<times> string \<times> string" where
  "skill_key_of r = (sl_platform r, sl_chat_id r, sl_name r)"

definition skill_of_row :: "skill_row \<Rightarrow> skill_record" where
  "skill_of_row r =
     \<lparr>sk_name = sl_name r, sk_content = sl_content r, sk_description = sl_description r,
      sk_created_at = sl_created_at r\<rparr>"

definition sqlite_list_skills :: "string \<Rightarrow> string \<Rightarrow> ('f, skill_record list) store_op" where
  "sqlite_list_skills platform chat_id =
     and_then (db (stmt (query (\<lambda>e s. order_asc sl_name
         (filter (\<lambda>r. sl_platform r = platform \<and> sl_chat_id r = chat_id) (gw_skills s))))))
       (\<lambda>rows. ret (map skill_of_row rows))"

definition sqlite_get_skill :: "string \<Rightarrow> string \<Rightarrow> string \<Rightarrow> ('f, skill_record option) store_op" where
  "sqlite_get_skill platform chat_id name =
     and_then (db (stmt (query (\<lambda>e s.
         first_row (filter (\<lambda>r. skill_key_of r = (platform, chat_id, name)) (gw_skills s))))))
       (\<lambda>row. ret (map_option skill_of_row row))"

text \<open>The default of \<open>created_at\<close> has no fraction of a second: 19 characters.\<close>

definition sqlite_upsert_skill ::
  "string \<Rightarrow> string \<Rightarrow> string \<Rightarrow> string \<Rightarrow> string \<Rightarrow> ('f, unit) store_op" where
  "sqlite_upsert_skill platform chat_id name content description =
     db (stmt (upsert_table gw_skills gw_skills_update skill_key_of
       (\<lambda>now. \<lparr>sl_platform = platform, sl_chat_id = chat_id, sl_name = name, sl_content = content,
               sl_description = description, sl_created_at = take 19 now\<rparr>)
       (\<lambda>new r. r\<lparr>sl_content := sl_content new, sl_description := sl_description new\<rparr>)))"

definition sqlite_delete_skill :: "string \<Rightarrow> string \<Rightarrow> string \<Rightarrow> ('f, bool) store_op" where
  "sqlite_delete_skill platform chat_id name =
     and_then (db (stmt (delete_table gw_skills gw_skills_update
        (\<lambda>r. skill_key_of r = (platform, chat_id, name)))))
       (\<lambda>n. ret (0 < n))"

end
