(* ===== verification/Store_Inv.thy ===== *)
theory Store_Inv
  imports Store_Sqlite
begin

text \<open>
  What \<open>SqliteGatewayStore\<close> keeps: keys are unique, a conversation lists a session once and has at
  most one current session, and neither users, nor sessions, nor usage records are ever lost.
\<close>

definition chat_of :: "session_row \<Rightarrow> string \<times> string \<times> string" where
  "chat_of r = (se_platform r, se_chat_id r, se_cli_profile r)"

definition one_current :: "session_row list \<Rightarrow> bool" where
  "one_current rows \<longleftrightarrow>
     (\<forall>r \<in> set rows. \<forall>r' \<in> set rows.
        se_is_current r \<longrightarrow> se_is_current r' \<longrightarrow> chat_of r = chat_of r' \<longrightarrow> se_id r = se_id r')"

definition sessions_ok :: "session_row list \<Rightarrow> int \<Rightarrow> bool" where
  "sessions_ok rows next_id \<longleftrightarrow>
     distinct (map se_id rows) \<and> (\<forall>i \<in> set (map se_id rows). i < next_id) \<and>
     distinct (map (\<lambda>r. (chat_of r, se_session_id r)) rows) \<and> one_current rows"

definition gw_ok :: "'f gw_db \<Rightarrow> bool" where
  "gw_ok s \<longleftrightarrow>
     sessions_ok (gw_sessions s) (gw_next_session s) \<and>
     distinct (map user_key_of (gw_users s)) \<and>
     distinct (map jo_job_id (gw_jobs s)) \<and>
     distinct (map cred_key_of (gw_creds s)) \<and>
     distinct (map skill_key_of (gw_skills s))"

definition session_row_step :: "session_row \<Rightarrow> session_row \<Rightarrow> bool" where
  "session_row_step r r' \<longleftrightarrow>
     se_id r' = se_id r \<and> chat_of r' = chat_of r \<and> se_session_id r' = se_session_id r \<and>
     se_user_id r' = se_user_id r \<and> se_created_at r' = se_created_at r"

definition user_row_step :: "user_row \<Rightarrow> user_row \<Rightarrow> bool" where
  "user_row_step r r' \<longleftrightarrow>
     user_key_of r' = user_key_of r \<and> gu_display_name r' = gu_display_name r \<and>
     (gu_preferences r \<noteq> None \<longrightarrow> gu_preferences r' \<noteq> None)"

definition gw_step :: "'f gw_db \<Rightarrow> 'f gw_db \<Rightarrow> bool" where
  "gw_step s s' \<longleftrightarrow>
     grows session_row_step (gw_sessions s) (gw_sessions s') \<and>
     grows user_row_step (gw_users s) (gw_users s') \<and>
     prefix (gw_usage s) (gw_usage s')"

section \<open>The operations keep it\<close>

lemma chat_of_update [simp]:
  "chat_of (r\<lparr>se_is_current := b\<rparr>) = chat_of r" "chat_of (r\<lparr>se_last_active := t\<rparr>) = chat_of r"
  by (simp_all add: chat_of_def)

lemma session_row_step_refl [simp]: "session_row_step r r"
  and user_row_step_refl [simp]: "user_row_step u u"
  by (simp_all add: session_row_step_def user_row_step_def)

lemma gw_step_refl: "gw_step s s"
  by (simp add: gw_step_def grows_refl)

lemma gw_step_trans: "gw_step s t \<Longrightarrow> gw_step t u \<Longrightarrow> gw_step s u"
proof -
  have "session_row_step a b \<Longrightarrow> session_row_step b c \<Longrightarrow> session_row_step a c" for a b c
    by (simp add: session_row_step_def)
  moreover have "user_row_step a b \<Longrightarrow> user_row_step b c \<Longrightarrow> user_row_step a c" for a b c
    by (auto simp: user_row_step_def)
  moreover assume "gw_step s t" "gw_step t u"
  ultimately show ?thesis
    unfolding gw_step_def by (meson grows_trans prefix_order.trans)
qed

interpretation gw: protocol gw_ok gw_step
  by unfold_locales (auto intro: gw_step_refl gw_step_trans)

lemma db_obeys: "obeys gw_ok gw_step m \<Longrightarrow> obeys gw_ok gw_step (db m)"
  by (simp add: db_def gw.map_err_obeys)

lemma query_obeys: "obeys gw_ok gw_step (stmt (query q))"
  by (rule gw.read_obeys) (simp add: query_def)

text \<open>Changing rows without touching their keys, and removing rows.\<close>

lemma distinct_delete_where: "distinct (map key rows) \<Longrightarrow> distinct (map key (delete_where p rows))"
  by (simp add: delete_where_def distinct_map_filter)

lemma map_key_upsert:
  assumes "\<And>x. key x = key new \<Longrightarrow> key (f x) = key x"
  shows "map key (if key new \<in> set (map key rows) then update_where (\<lambda>x. key x = key new) f rows
      else rows @ [new]) = (if key new \<in> set (map key rows) then map key rows else map key rows @ [key new])"
proof -
  have "map key (update_where (\<lambda>x. key x = key new) f rows) = map key rows"
    using assms by (induction rows) (auto simp: update_where_def)
  then show ?thesis by simp
qed

lemma update_users_obeys:
  assumes "\<And>t r. p r \<Longrightarrow> user_row_step r (f t r)"
  shows "obeys gw_ok gw_step (stmt (update_table gw_users gw_users_update p f))"
proof (rule gw.stmt_obeys)
  fix e :: "'a gw_db env" and s :: "'a gw_db" assume ok: "gw_ok s"
  let ?us = "update_where p (f (env_now e)) (gw_users s)"
  have "grows user_row_step (gw_users s) ?us" using assms by (intro grows_update_where) auto
  moreover have "map user_key_of ?us = map user_key_of (gw_users s)"
    using assms by (auto simp: update_where_def user_row_step_def)
  ultimately show "gw_ok (snd (update_table gw_users gw_users_update p f e s)) \<and>
      gw_step s (snd (update_table gw_users gw_users_update p f e s))"
    using ok by (simp add: update_table_def gw_ok_def gw_step_def grows_refl)
qed

lemma upsert_user_obeys: "obeys gw_ok gw_step (sqlite_upsert_user p u d)"
  unfolding sqlite_upsert_user_def
proof (intro db_obeys gw.stmt_obeys)
  fix e :: "'a gw_db env" and s :: "'a gw_db" assume ok: "gw_ok s"
  let ?new = "\<lparr>gu_platform = p, gu_user_id = u, gu_display_name = d, gu_preferences = None,
    gu_updated_at = env_now e\<rparr>"
  let ?f = "\<lambda>r. r\<lparr>gu_updated_at := env_now e\<rparr>"
  have "grows user_row_step (gw_users s)
      (update_where (\<lambda>x. user_key_of x = user_key_of ?new) ?f (gw_users s))"
    by (intro grows_update_where) (simp_all add: user_row_step_def user_key_of_def)
  moreover have "grows user_row_step (gw_users s) (gw_users s @ [?new])" by (rule grows_append) simp
  ultimately show "gw_ok (snd (upsert_table gw_users gw_users_update user_key_of
        (\<lambda>now. \<lparr>gu_platform = p, gu_user_id = u, gu_display_name = d, gu_preferences = None,
          gu_updated_at = now\<rparr>) (\<lambda>new r. r\<lparr>gu_updated_at := gu_updated_at new\<rparr>) e s)) \<and>
      gw_step s (snd (upsert_table gw_users gw_users_update user_key_of
        (\<lambda>now. \<lparr>gu_platform = p, gu_user_id = u, gu_display_name = d, gu_preferences = None,
          gu_updated_at = now\<rparr>) (\<lambda>new r. r\<lparr>gu_updated_at := gu_updated_at new\<rparr>) e s))"
    using ok map_key_upsert [of user_key_of ?new ?f "gw_users s"]
    by (auto simp: upsert_table_def gw_ok_def gw_step_def grows_refl Let_def user_key_of_def)
qed

lemma update_jobs_obeys:
  "(\<And>t r. jo_job_id (f t r) = jo_job_id r) \<Longrightarrow>
   obeys gw_ok gw_step (stmt (update_table gw_jobs gw_jobs_update p f))"
  by (rule gw.stmt_obeys)
     (simp add: update_table_def gw_ok_def gw_step_def grows_refl map_key_update_where)

lemma delete_obeys:
  "obeys gw_ok gw_step (stmt (delete_table gw_jobs gw_jobs_update p))"
  "obeys gw_ok gw_step (stmt (delete_table gw_creds gw_creds_update q))"
  "obeys gw_ok gw_step (stmt (delete_table gw_skills gw_skills_update r))"
  by (rule gw.stmt_obeys,
      simp add: delete_table_def gw_ok_def gw_step_def grows_refl distinct_delete_where)+

lemma insert_job_obeys: "obeys gw_ok gw_step (stmt (insert_job r))"
  by (rule gw.stmt_obeys)
     (auto simp: insert_job_def gw_ok_def gw_step_def grows_refl insert_row_Some split: option.split)

lemma upsert_creds_obeys:
  "(\<And>n r. cred_key_of (f n r) = cred_key_of r) \<Longrightarrow>
   obeys gw_ok gw_step (stmt (upsert_table gw_creds gw_creds_update cred_key_of r f))"
  by (rule gw.stmt_obeys)
     (auto simp: upsert_table_def gw_ok_def gw_step_def grows_refl Let_def map_key_update_where)

lemma upsert_skills_obeys:
  "(\<And>n r. skill_key_of (f n r) = skill_key_of r) \<Longrightarrow>
   obeys gw_ok gw_step (stmt (upsert_table gw_skills gw_skills_update skill_key_of r f))"
  by (rule gw.stmt_obeys)
     (auto simp: upsert_table_def gw_ok_def gw_step_def grows_refl Let_def map_key_update_where)

text \<open>Sessions: marking rows no longer current, or changing their last activity.\<close>

definition session_same :: "session_row \<Rightarrow> session_row \<Rightarrow> bool" where
  "session_same r r' \<longleftrightarrow> session_row_step r r' \<and> (se_is_current r' \<longrightarrow> se_is_current r)"

lemma session_keys_update:
  assumes "\<And>r. p r \<Longrightarrow> session_row_step r (f r)"
  shows "map se_id (update_where p f rows) = map se_id rows"
    and "map (\<lambda>r. (chat_of r, se_session_id r)) (update_where p f rows) =
      map (\<lambda>r. (chat_of r, se_session_id r)) rows"
  using assms by (simp_all add: update_where_def session_row_step_def)

lemma sessions_okI:
  "sessions_ok rows n \<Longrightarrow> map se_id rows' = map se_id rows \<Longrightarrow>
   map (\<lambda>r. (chat_of r, se_session_id r)) rows' = map (\<lambda>r. (chat_of r, se_session_id r)) rows \<Longrightarrow>
   one_current rows' \<Longrightarrow> sessions_ok rows' n"
  unfolding sessions_ok_def by metis

lemma one_currentD:
  "one_current rows \<Longrightarrow> a \<in> set rows \<Longrightarrow> b \<in> set rows \<Longrightarrow> se_is_current a \<Longrightarrow> se_is_current b \<Longrightarrow>
   chat_of a = chat_of b \<Longrightarrow> se_id a = se_id b"
  unfolding one_current_def by blast

lemma one_currentI:
  assumes "one_current rows"
    and "\<And>r'. r' \<in> set rows' \<Longrightarrow> se_is_current r' \<Longrightarrow>
      \<exists>r \<in> set rows. se_is_current r \<and> se_id r = se_id r' \<and> chat_of r = chat_of r'"
  shows "one_current rows'"
  unfolding one_current_def
proof (intro ballI impI)
  fix a b
  assume "a \<in> set rows'" "b \<in> set rows'" "se_is_current a" "se_is_current b" "chat_of a = chat_of b"
  with assms(2) [of a] assms(2) [of b] obtain x y where "x \<in> set rows" "y \<in> set rows"
    "se_is_current x" "se_is_current y" "chat_of x = chat_of y" "se_id x = se_id a" "se_id y = se_id b"
    by metis
  with assms(1) show "se_id a = se_id b" unfolding one_current_def by metis
qed

lemma sessions_ok_update:
  assumes "sessions_ok rows n" and "\<And>r. p r \<Longrightarrow> session_same r (f r)"
  shows "sessions_ok (update_where p f rows) n"
proof -
  have "one_current (update_where p f rows)"
  proof (rule one_currentI)
    show "one_current rows" using assms(1) by (simp add: sessions_ok_def)
    fix r' assume "r' \<in> set (update_where p f rows)" "se_is_current r'"
    then obtain r where "r \<in> set rows" "r' = (if p r then f r else r)" "se_is_current r'"
      by (auto simp: set_update_where)
    with assms(2) [of r] show "\<exists>r \<in> set rows. se_is_current r \<and> se_id r = se_id r' \<and> chat_of r = chat_of r'"
      by (intro bexI [of _ r]) (auto simp: session_same_def session_row_step_def split: if_splits)
  qed
  moreover have "p r \<Longrightarrow> session_row_step r (f r)" for r
    using assms(2) [of r] by (simp add: session_same_def)
  ultimately show ?thesis
    by (intro sessions_okI [OF assms(1)] session_keys_update) simp_all
qed

lemma sessions_grow_update:
  "(\<And>r. p r \<Longrightarrow> session_row_step r (f r)) \<Longrightarrow> grows session_row_step rows (update_where p f rows)"
  by (intro grows_update_where) simp_all

lemma update_sessions_obeys:
  assumes "\<And>t r. p r \<Longrightarrow> session_same r (f t r)"
  shows "obeys gw_ok gw_step (stmt (update_table gw_sessions gw_sessions_update p f))"
  using assms
  by (intro gw.stmt_obeys)
     (simp add: update_table_def gw_ok_def gw_step_def grows_refl sessions_ok_update
        sessions_grow_update session_same_def)

text \<open>Making one session current, when its conversation has none.\<close>

lemma sessions_ok_make_current:
  assumes ok: "sessions_ok rows n"
    and none: "\<And>r. r \<in> set rows \<Longrightarrow> chat_of r = k \<Longrightarrow> \<not> se_is_current r"
    and p: "\<And>r. r \<in> set rows \<Longrightarrow> p r \<Longrightarrow> chat_of r = k \<and> se_id r = i"
    and f: "\<And>r. session_row_step r (f r)"
  shows "sessions_ok (update_where p f rows) n"
proof -
  have "one_current (update_where p f rows)"
    unfolding one_current_def
  proof (intro ballI impI)
    fix a b
    assume ab: "a \<in> set (update_where p f rows)" "b \<in> set (update_where p f rows)"
      "se_is_current a" "se_is_current b" "chat_of a = chat_of b"
    then obtain x y where x: "x \<in> set rows" "a = (if p x then f x else x)"
      and y: "y \<in> set rows" "b = (if p y then f y else y)"
      by (auto simp: set_update_where)
    have ids: "se_id a = se_id x" "se_id b = se_id y" "chat_of a = chat_of x" "chat_of b = chat_of y"
      using x y f [of x] f [of y] by (simp_all add: session_row_step_def)
    show "se_id a = se_id b"
    proof (cases "chat_of x = k")
      case True
      then have "p x" "p y" using none x y ab ids by (auto split: if_splits)
      with p [OF x(1)] p [OF y(1)] ids show ?thesis by simp
    next
      case False
      then have "\<not> p x" "\<not> p y" using p x(1) y(1) ab(5) ids by auto
      with x y have "a = x" "b = y" by simp_all
      with x y ab ok show ?thesis by (auto simp: sessions_ok_def intro: one_currentD)
    qed
  qed
  then show ?thesis
    using f by (intro sessions_okI [OF ok] session_keys_update) simp_all
qed

lemma sessions_ok_insert:
  assumes ok: "sessions_ok rows n" and i: "se_id new = n"
    and none: "\<And>r. r \<in> set rows \<Longrightarrow> chat_of r = chat_of new \<Longrightarrow>
      \<not> se_is_current r \<and> se_session_id r \<noteq> se_session_id new"
  shows "sessions_ok (rows @ [new]) (n + 1)"
proof -
  have "one_current (rows @ [new])"
    unfolding one_current_def
  proof (intro ballI impI)
    fix a b
    assume ab: "a \<in> set (rows @ [new])" "b \<in> set (rows @ [new])"
      "se_is_current a" "se_is_current b" "chat_of a = chat_of b"
    show "se_id a = se_id b"
    proof (cases "a = new \<or> b = new")
      case True
      with ab none [of a] none [of b] show ?thesis by auto
    next
      case False
      with ab ok one_currentD [of rows a b] show ?thesis by (simp add: sessions_ok_def)
    qed
  qed
  moreover have "(chat_of new, se_session_id new) \<notin> set (map (\<lambda>r. (chat_of r, se_session_id r)) rows)"
  proof
    assume "(chat_of new, se_session_id new) \<in> set (map (\<lambda>r. (chat_of r, se_session_id r)) rows)"
    then obtain r where "r \<in> set rows" "chat_of r = chat_of new" "se_session_id r = se_session_id new"
      by auto
    with none show False by blast
  qed
  moreover have "n \<notin> set (map se_id rows)" "\<And>i. i \<in> set (map se_id rows) \<Longrightarrow> i < n + 1"
    using ok by (auto simp: sessions_ok_def)
  ultimately show ?thesis
    using ok i by (auto simp: sessions_ok_def)
qed

lemma chat_of_in_chat: "in_chat p ch c r \<longleftrightarrow> chat_of r = (p, ch, c)"
  by (auto simp: in_chat_def chat_of_def)

lemma find_session_SomeD:
  "find_session p ch c sid s = Some r \<Longrightarrow>
   r \<in> set (gw_sessions s) \<and> chat_of r = (p, ch, c) \<and> se_session_id r = sid"
  by (auto simp: find_session_def chat_of_in_chat dest: first_row_in)

lemma find_session_None:
  "find_session p ch c sid s = None \<longleftrightarrow>
   (\<forall>r \<in> set (gw_sessions s). chat_of r = (p, ch, c) \<longrightarrow> se_session_id r \<noteq> sid)"
  by (auto simp: find_session_def chat_of_in_chat first_row_filter_None)

text \<open>The two steps of \<open>set_current_session\<close> on the rows: clear, then make current or add.\<close>

definition cleared :: "string \<times> string \<times> string \<Rightarrow> session_row list \<Rightarrow> session_row list" where
  "cleared k rows = update_where (\<lambda>r. chat_of r = k \<and> se_is_current r) (\<lambda>r. r\<lparr>se_is_current := False\<rparr>) rows"

lemma cleared_ok:
  assumes "sessions_ok rows n"
  shows "sessions_ok (cleared k rows) n" and "grows session_row_step rows (cleared k rows)"
    and "r \<in> set (cleared k rows) \<Longrightarrow> chat_of r = k \<Longrightarrow> \<not> se_is_current r"
proof -
  have step: "session_row_step r (r\<lparr>se_is_current := False\<rparr>)" for r
    by (simp add: session_row_step_def)
  then have same: "session_same r (r\<lparr>se_is_current := False\<rparr>)" for r
    by (simp add: session_same_def)
  show "sessions_ok (cleared k rows) n"
    unfolding cleared_def by (rule sessions_ok_update [OF assms same])
  show "grows session_row_step rows (cleared k rows)"
    unfolding cleared_def by (rule sessions_grow_update) (rule step)
  assume r: "r \<in> set (cleared k rows)" "chat_of r = k"
  then obtain x where x: "r = (if chat_of x = k \<and> se_is_current x then x\<lparr>se_is_current := False\<rparr> else x)"
    unfolding cleared_def set_update_where by blast
  show "\<not> se_is_current r"
  proof (cases "chat_of x = k \<and> se_is_current x")
    case True
    with x show ?thesis by simp
  next
    case False
    with x have "r = x" by simp
    with False r(2) show ?thesis by simp
  qed
qed

definition activated :: "(session_row \<Rightarrow> bool) \<Rightarrow> string \<Rightarrow> session_row list \<Rightarrow> session_row list" where
  "activated p now rows = update_where p (\<lambda>r. r\<lparr>se_is_current := True, se_last_active := now\<rparr>) rows"

lemma activated_ok:
  assumes "sessions_ok rows n" and "\<And>r. r \<in> set rows \<Longrightarrow> chat_of r = k \<Longrightarrow> \<not> se_is_current r"
    and "\<And>r. r \<in> set rows \<Longrightarrow> p r \<Longrightarrow> chat_of r = k \<and> se_id r = i"
  shows "sessions_ok (activated p now rows) n" and "grows session_row_step rows (activated p now rows)"
proof -
  have step: "session_row_step r (r\<lparr>se_is_current := True, se_last_active := now\<rparr>)" for r
    by (simp add: session_row_step_def)
  show "sessions_ok (activated p now rows) n"
    unfolding activated_def by (rule sessions_ok_make_current [OF assms step])
  show "grows session_row_step rows (activated p now rows)"
    unfolding activated_def by (rule sessions_grow_update) (rule step)
qed

lemma session_grows_trans:
  "grows session_row_step a b \<Longrightarrow> grows session_row_step b c \<Longrightarrow> grows session_row_step a c"
  by (erule (1) grows_trans [rotated]) (simp add: session_row_step_def)

text \<open>What the body of \<open>set_current_session\<close> has done when it ends without an error.\<close>

definition new_session ::
  "string \<times> string \<times> string \<Rightarrow> string \<Rightarrow> string \<Rightarrow> int \<Rightarrow> string \<Rightarrow> session_row" where
  "new_session k user_id sid i now =
     \<lparr>se_id = i, se_platform = fst k, se_chat_id = fst (snd k), se_user_id = user_id,
      se_cli_profile = snd (snd k), se_session_id = sid, se_is_current = True,
      se_created_at = now, se_last_active = now\<rparr>"

definition set_current_rows ::
  "string \<times> string \<times> string \<Rightarrow> string \<Rightarrow> string \<Rightarrow> string \<Rightarrow> 'f gw_db \<Rightarrow> 'f gw_db" where
  "set_current_rows k user_id sid now s =
     (let rows = cleared k (gw_sessions s) in
      case first_row (filter (\<lambda>r. chat_of r = k \<and> se_session_id r = sid) rows) of
        Some r \<Rightarrow> s\<lparr>gw_sessions := activated (\<lambda>x. se_id x = se_id r) now rows\<rparr>
      | None \<Rightarrow> s\<lparr>gw_sessions := rows @ [new_session k user_id sid (gw_next_session s) now],
                  gw_next_session := gw_next_session s + 1\<rparr>)"

lemma set_current_rows_ok:
  assumes "gw_ok s"
  shows "gw_ok (set_current_rows k u sid now s) \<and> gw_step s (set_current_rows k u sid now s)"
proof -
  let ?rows = "cleared k (gw_sessions s)"
  have ok: "sessions_ok (gw_sessions s) (gw_next_session s)" using assms by (simp add: gw_ok_def)
  note c = cleared_ok [OF ok, where k = k]
  show ?thesis
  proof (cases "first_row (filter (\<lambda>r. chat_of r = k \<and> se_session_id r = sid) ?rows)")
    case None
    let ?new = "new_session k u sid (gw_next_session s) now"
    have "sessions_ok (?rows @ [?new]) (gw_next_session s + 1)"
      using c None by (intro sessions_ok_insert)
        (auto simp: first_row_filter_None new_session_def chat_of_def)
    moreover have "grows session_row_step (gw_sessions s) (?rows @ [?new])"
      using c(2) by (rule session_grows_trans) (rule grows_append, simp)
    ultimately show ?thesis
      using assms None by (simp add: set_current_rows_def gw_ok_def gw_step_def grows_refl)
  next
    case (Some r)
    then have r: "r \<in> set ?rows" "chat_of r = k" by (auto dest: first_row_in)
    have inj: "x \<in> set ?rows \<Longrightarrow> se_id x = se_id r \<Longrightarrow> x = r" for x
      using c(1) r(1) by (auto simp: sessions_ok_def distinct_map inj_on_def)
    have p: "x \<in> set ?rows \<Longrightarrow> se_id x = se_id r \<Longrightarrow> chat_of x = k \<and> se_id x = se_id r" for x
      using inj [of x] r(2) by blast
    have a: "sessions_ok (activated (\<lambda>x. se_id x = se_id r) now ?rows) (gw_next_session s)"
        "grows session_row_step ?rows (activated (\<lambda>x. se_id x = se_id r) now ?rows)"
      by (rule activated_ok [where k = k and i = "se_id r", OF c(1)]; use c(3) p in blast)+
    have "grows session_row_step (gw_sessions s) (activated (\<lambda>x. se_id x = se_id r) now ?rows)"
      using c(2) a(2) by (rule session_grows_trans)
    with a(1) show ?thesis
      using assms Some by (simp add: set_current_rows_def gw_ok_def gw_step_def grows_refl)
  qed
qed

lemma set_current_body_rows:
  assumes "undisturbed c" and "set_current_body p ch u sid cl c = (Inr r, c')"
  shows "r = Commit () \<and>
    tables c' = set_current_rows (p, ch, cl) u sid (env_now (world c (tick c + 2))) (tables c)"
proof -
  let ?k = "(p, ch, cl)" and ?s = "tables c"
  let ?rows = "cleared ?k (gw_sessions ?s)"
  have cl: "update_where (\<lambda>r. chat_of r = ?k \<and> se_is_current r) (se_is_current_update (\<lambda>_. False))
      (gw_sessions ?s) = ?rows"
    by (simp add: cleared_def)
  show ?thesis
  proof (cases "find_session p ch cl sid (?s\<lparr>gw_sessions := ?rows\<rparr>)")
    case None
    with assms show ?thesis
      by (auto simp: set_current_body_def db_def success update_table_def query_def cl
          insert_session_def set_current_rows_def find_session_def chat_of_in_chat new_session_def Let_def)
  next
    case (Some x)
    obtain us ss n js cs ug sk where "?s = \<lparr>gw_users = us, gw_sessions = ss, gw_next_session = n,
      gw_jobs = js, gw_creds = cs, gw_usage = ug, gw_skills = sk\<rparr>" by (cases ?s) blast
    with Some assms show ?thesis
      by (auto simp: set_current_body_def db_def success update_table_def query_def cl
          set_current_rows_def find_session_def chat_of_in_chat activated_def Let_def cleared_def)
  qed
qed

lemma sqlite_set_current_session_obeys:
  "obeys gw_ok gw_step (sqlite_set_current_session p ch u sid cl)"
  unfolding sqlite_set_current_session_def
  by (rule gw.transaction_alone_obeys) (auto dest!: set_current_body_rows simp: set_current_rows_ok)

text \<open>Switching: every session of the conversation is cleared, then the wanted one activated.\<close>

definition switch_rows ::
  "string \<times> string \<times> string \<Rightarrow> string \<Rightarrow> string \<Rightarrow> 'f gw_db \<Rightarrow> 'f gw_db" where
  "switch_rows k sid now s =
     s\<lparr>gw_sessions := activated (\<lambda>r. chat_of r = k \<and> se_session_id r = sid) now
         (update_where (\<lambda>r. chat_of r = k) (\<lambda>r. r\<lparr>se_is_current := False\<rparr>) (gw_sessions s))\<rparr>"

lemma update_where_cleared:
  "update_where (\<lambda>r. chat_of r = k) (\<lambda>r. r\<lparr>se_is_current := False\<rparr>) rows = cleared k rows"
  by (auto simp: update_where_def cleared_def)

lemma switch_rows_ok:
  assumes "gw_ok s"
  shows "gw_ok (switch_rows k sid now s) \<and> gw_step s (switch_rows k sid now s)"
proof -
  let ?rows = "cleared k (gw_sessions s)"
  let ?p = "\<lambda>r. chat_of r = k \<and> se_session_id r = sid"
  have ok: "sessions_ok (gw_sessions s) (gw_next_session s)" using assms by (simp add: gw_ok_def)
  note c = cleared_ok [OF ok, where k = k]
  have "\<exists>i. \<forall>r \<in> set ?rows. ?p r \<longrightarrow> se_id r = i"
  proof (cases "\<exists>r \<in> set ?rows. ?p r")
    case True
    then obtain r where r: "r \<in> set ?rows" "?p r" by blast
    have "x = r" if "x \<in> set ?rows" "?p x" for x
      using c(1) r that by (auto simp: sessions_ok_def distinct_map inj_on_def)
    then show ?thesis by (intro exI [of _ "se_id r"]) blast
  qed blast
  then obtain i where i: "\<And>r. r \<in> set ?rows \<Longrightarrow> ?p r \<Longrightarrow> se_id r = i" by blast
  have a: "sessions_ok (activated ?p now ?rows) (gw_next_session s)"
      "grows session_row_step ?rows (activated ?p now ?rows)"
    by (rule activated_ok [where k = k and i = i, OF c(1)]; use c(3) i in blast)+
  have "grows session_row_step (gw_sessions s) (activated ?p now ?rows)"
    using c(2) a(2) by (rule session_grows_trans)
  with a(1) show ?thesis
    using assms by (simp add: switch_rows_def gw_ok_def gw_step_def grows_refl update_where_cleared)
qed

lemma switch_body_rows:
  assumes "undisturbed c" and "switch_body p ch cl sid c = (Inr r, c')"
  shows "if find_session p ch cl sid (tables c) = None then r = Rollback False \<and> tables c' = tables c
    else r = Commit True \<and>
      tables c' = switch_rows (p, ch, cl) sid (env_now (world c (tick c + 2))) (tables c)"
proof -
  obtain us ss n js cs ug sk where "tables c = \<lparr>gw_users = us, gw_sessions = ss, gw_next_session = n,
    gw_jobs = js, gw_creds = cs, gw_usage = ug, gw_skills = sk\<rparr>" by (cases "tables c") blast
  moreover have "in_chat p ch cl = (\<lambda>r. chat_of r = (p, ch, cl))"
    by (simp add: fun_eq_iff chat_of_in_chat)
  ultimately show ?thesis using assms
    by (auto simp: switch_body_def db_def success update_table_def query_def switch_rows_def
        activated_def split: if_splits)
qed

lemma sqlite_switch_session_obeys: "obeys gw_ok gw_step (sqlite_switch_session p ch cl sid)"
  unfolding sqlite_switch_session_def
  by (rule gw.transaction_alone_obeys)
     (auto dest!: switch_body_rows simp: switch_rows_ok gw_step_refl split: if_splits)

lemmas gw_stmt_obeys = db_obeys query_obeys gw.obeys_rules

lemma sqlite_user_obeys:
  "obeys gw_ok gw_step (sqlite_is_first_message p u)"
  "obeys gw_ok gw_step (sqlite_set_user_preference path_set p u key v)"
  "obeys gw_ok gw_step (sqlite_get_user_preference path_get p u key)"
  unfolding sqlite_is_first_message_def sqlite_set_user_preference_def sqlite_get_user_preference_def
  by (intro gw_stmt_obeys update_users_obeys; simp add: user_row_step_def user_key_of_def)+

lemma sqlite_session_obeys:
  "obeys gw_ok gw_step (sqlite_get_current_session p ch cl)"
  "obeys gw_ok gw_step (sqlite_get_session_last_active p ch cl)"
  "obeys gw_ok gw_step (sqlite_touch_session p ch cl)"
  "obeys gw_ok gw_step (sqlite_list_sessions p ch cl)"
  "obeys gw_ok gw_step (sqlite_find_sessions_by_prefix p ch cl pre)"
  "obeys gw_ok gw_step (sqlite_reset_session p ch cl)"
  unfolding sqlite_get_current_session_def sqlite_get_session_last_active_def
    sqlite_touch_session_def sqlite_list_sessions_def sqlite_find_sessions_by_prefix_def
    sqlite_reset_session_def
  by (intro gw_stmt_obeys update_sessions_obeys;
      simp add: session_same_def session_row_step_def)+

lemma sqlite_job_obeys:
  "obeys gw_ok gw_step (sqlite_create_cron_job fmt tz spec)"
  "obeys gw_ok gw_step (sqlite_list_cron_jobs p ch)"
  "obeys gw_ok gw_step (sqlite_delete_cron_job j)"
  "obeys gw_ok gw_step sqlite_get_due_jobs"
  "obeys gw_ok gw_step (sqlite_mark_job_run fmt tz j x)"
  "obeys gw_ok gw_step (sqlite_update_cron_next_run j n)"
  "obeys gw_ok gw_step (sqlite_get_cron_job_user_id j)"
  unfolding sqlite_create_cron_job_def sqlite_list_cron_jobs_def sqlite_delete_cron_job_def
    sqlite_get_due_jobs_def sqlite_mark_job_run_def sqlite_update_cron_next_run_def
    sqlite_get_cron_job_user_id_def Let_def
  by (intro gw_stmt_obeys update_jobs_obeys insert_job_obeys delete_obeys; simp)+

lemma sqlite_credential_obeys:
  "obeys gw_ok gw_step (sqlite_save_credential ser p u t j x)"
  "obeys gw_ok gw_step (sqlite_get_credential de p u t)"
  "obeys gw_ok gw_step (sqlite_list_credentials de p)"
  "obeys gw_ok gw_step (sqlite_delete_credential p u t)"
  unfolding sqlite_save_credential_def sqlite_get_credential_def sqlite_list_credentials_def
    sqlite_delete_credential_def
  by (intro gw_stmt_obeys upsert_creds_obeys delete_obeys; simp add: cred_key_of_def)+

lemma usage_query_obeys: "obeys gw_ok gw_step (stmt (usage_query fsum p))"
  by (rule gw.read_obeys) (simp add: usage_query_def)

lemma sqlite_usage_obeys:
  "obeys gw_ok gw_step (sqlite_record_usage r)"
  "obeys gw_ok gw_step (sqlite_get_usage_today fsum p u)"
  "obeys gw_ok gw_step (sqlite_get_usage_total fsum p u)"
  "obeys gw_ok gw_step (sqlite_get_usage_session fsum p u cl sid)"
proof -
  show "obeys gw_ok gw_step (sqlite_record_usage r)"
    unfolding sqlite_record_usage_def
    by (intro db_obeys gw.stmt_obeys) (simp add: gw_ok_def gw_step_def grows_refl)
qed (simp_all add: sqlite_get_usage_today_def sqlite_get_usage_total_def
      sqlite_get_usage_session_def db_obeys usage_query_obeys)

lemma sqlite_skill_obeys:
  "obeys gw_ok gw_step (sqlite_list_skills p ch)"
  "obeys gw_ok gw_step (sqlite_get_skill p ch n)"
  "obeys gw_ok gw_step (sqlite_upsert_skill p ch n x d)"
  "obeys gw_ok gw_step (sqlite_delete_skill p ch n)"
  unfolding sqlite_list_skills_def sqlite_get_skill_def sqlite_upsert_skill_def
    sqlite_delete_skill_def
  by (intro gw_stmt_obeys upsert_skills_obeys delete_obeys; simp add: skill_key_of_def)+

end
