(* ===== verification/Session_Spec.thy ===== *)
theory Session_Spec
  imports Store_Types
begin

text \<open>
  What the gateway relies on for its sessions, whatever the backend: a conversation knows a set of
  sessions, of which one may be current. The specification of each session operation of the
  \<open>GatewayStore\<close> trait is a function on this view; \<open>key\<close> is how the backend identifies a
  conversation. The locale's lemmas are what the runner and the commands use.
\<close>

record session_view =
  sv_current :: "string option"
  sv_known :: "string set"

definition spec_get_current :: "'k \<Rightarrow> ('k \<Rightarrow> session_view) \<Rightarrow> string option option \<times> ('k \<Rightarrow> session_view)" where
  "spec_get_current k v = (Some (sv_current (v k)), v)"

definition spec_set_current ::
  "'k \<Rightarrow> string \<Rightarrow> ('k \<Rightarrow> session_view) \<Rightarrow> unit option \<times> ('k \<Rightarrow> session_view)" where
  "spec_set_current k sid v =
     (Some (), v(k := \<lparr>sv_current = Some sid, sv_known = insert sid (sv_known (v k))\<rparr>))"

definition spec_switch ::
  "'k \<Rightarrow> string \<Rightarrow> ('k \<Rightarrow> session_view) \<Rightarrow> bool option \<times> ('k \<Rightarrow> session_view)" where
  "spec_switch k sid v =
     (if sid \<in> sv_known (v k) then (Some True, v(k := (v k)\<lparr>sv_current := Some sid\<rparr>))
      else (Some False, v))"

definition spec_reset :: "'k \<Rightarrow> ('k \<Rightarrow> session_view) \<Rightarrow> unit option \<times> ('k \<Rightarrow> session_view)" where
  "spec_reset k v = (Some (), v(k := (v k)\<lparr>sv_current := None\<rparr>))"

definition spec_touch :: "'k \<Rightarrow> ('k \<Rightarrow> session_view) \<Rightarrow> unit option \<times> ('k \<Rightarrow> session_view)" where
  "spec_touch k v = (Some (), v)"

locale session_store =
  fixes I :: "'s \<Rightarrow> bool" and view :: "'s \<Rightarrow> 'k \<Rightarrow> session_view"
    and key :: "string \<Rightarrow> string \<Rightarrow> string \<Rightarrow> 'k"
    and get_current :: "string \<Rightarrow> string \<Rightarrow> string \<Rightarrow> ('s, store_error, string option) op"
    and set_current :: "string \<Rightarrow> string \<Rightarrow> string \<Rightarrow> string \<Rightarrow> string \<Rightarrow> ('s, store_error, unit) op"
    and switch :: "string \<Rightarrow> string \<Rightarrow> string \<Rightarrow> string \<Rightarrow> ('s, store_error, bool) op"
    and reset :: "string \<Rightarrow> string \<Rightarrow> string \<Rightarrow> ('s, store_error, unit) op"
    and touch :: "string \<Rightarrow> string \<Rightarrow> string \<Rightarrow> ('s, store_error, unit) op"
  assumes get_current_refines: "\<And>p ch cl.
      refines I view (get_current p ch cl) (spec_get_current (key p ch cl))"
    and set_current_refines: "\<And>p ch u sid cl.
      refines I view (set_current p ch u sid cl) (spec_set_current (key p ch cl) sid)"
    and switch_refines: "\<And>p ch cl sid.
      refines I view (switch p ch cl sid) (spec_switch (key p ch cl) sid)"
    and reset_refines: "\<And>p ch cl. refines I view (reset p ch cl) (spec_reset (key p ch cl))"
    and touch_refines: "\<And>p ch cl. refines I view (touch p ch cl) (spec_touch (key p ch cl))"
begin

lemma get_after:
  assumes "refines I view m f" and "quiet c" and "I (tables c)" and "m c = (r, c1)"
  shows "fst (get_current p ch cl c1) = Inr (sv_current (snd (f (view (tables c))) (key p ch cl)))"
proof -
  note 1 = refinesD [OF assms]
  obtain r2 c2 where 2: "get_current p ch cl c1 = (r2, c2)" by fastforce
  from refinesD(3) [OF get_current_refines 1(1,2) 2] 1(3) show ?thesis
    by (cases r2) (auto simp: spec_get_current_def 2)
qed

lemma get_after_set:
  assumes "quiet c" and "I (tables c)" and "set_current p ch u sid cl c = (r, c1)"
  shows "r = Inr ()" and "fst (get_current p ch cl c1) = Inr (Some sid)"
    and "key p' ch' cl' \<noteq> key p ch cl \<Longrightarrow>
      fst (get_current p' ch' cl' c1) = fst (get_current p' ch' cl' c)"
proof -
  note 1 = refinesD [OF set_current_refines assms]
  from 1(3) show "r = Inr ()" by (cases r) (auto simp: spec_set_current_def)
  show "fst (get_current p ch cl c1) = Inr (Some sid)"
    by (simp add: get_after [OF set_current_refines assms] spec_set_current_def)
  assume "key p' ch' cl' \<noteq> key p ch cl"
  moreover obtain r2 c2 where 2: "get_current p' ch' cl' c = (r2, c2)" by fastforce
  moreover from refinesD(3) [OF get_current_refines assms(1,2) 2]
  have "r2 = Inr (sv_current (view (tables c) (key p' ch' cl')))"
    by (cases r2) (auto simp: spec_get_current_def)
  ultimately show "fst (get_current p' ch' cl' c1) = fst (get_current p' ch' cl' c)"
    by (simp add: get_after [OF set_current_refines assms] spec_set_current_def)
qed

lemma get_after_switch:
  assumes "quiet c" and "I (tables c)" and "switch p ch cl sid c = (r, c1)"
  shows "r = Inr (sid \<in> sv_known (view (tables c) (key p ch cl)))"
    and "r = Inr True \<Longrightarrow> fst (get_current p ch cl c1) = Inr (Some sid)"
    and "r = Inr False \<Longrightarrow> view (tables c1) = view (tables c)"
proof -
  note 1 = refinesD [OF switch_refines assms]
  from 1(3) show r: "r = Inr (sid \<in> sv_known (view (tables c) (key p ch cl)))"
    by (cases r) (auto simp: spec_switch_def split: if_splits)
  show "r = Inr True \<Longrightarrow> fst (get_current p ch cl c1) = Inr (Some sid)"
    using r by (simp add: get_after [OF switch_refines assms] spec_switch_def)
  show "r = Inr False \<Longrightarrow> view (tables c1) = view (tables c)"
    using r 1(3) by (auto simp: spec_switch_def)
qed

lemma get_after_reset:
  assumes "quiet c" and "I (tables c)" and "reset p ch cl c = (r, c1)"
  shows "fst (get_current p ch cl c1) = Inr None"
    and "sv_known (view (tables c1) k) = sv_known (view (tables c) k)"
proof -
  show "fst (get_current p ch cl c1) = Inr None"
    by (simp add: get_after [OF reset_refines assms] spec_reset_def)
  have "view (tables c1) = snd (spec_reset (key p ch cl) (view (tables c)))"
    using refinesD(3) [OF reset_refines assms] by simp
  then show "sv_known (view (tables c1) k) = sv_known (view (tables c) k)"
    by (simp add: spec_reset_def)
qed

end

end
