(* ===== verification/Store_Sessions.thy ===== *)
theory Store_Sessions
  imports Store_Inv Session_Spec
begin

text \<open>\<open>SqliteGatewayStore\<close> meets the session contract; a conversation is identified by the three
  columns platform, chat and CLI profile.\<close>

definition cur_of :: "session_row list \<Rightarrow> string \<times> string \<times> string \<Rightarrow> string \<Rightarrow> bool" where
  "cur_of rows k sid \<longleftrightarrow> (\<exists>r \<in> set rows. chat_of r = k \<and> se_is_current r \<and> se_session_id r = sid)"

definition known_of :: "session_row list \<Rightarrow> string \<times> string \<times> string \<Rightarrow> string set" where
  "known_of rows k = se_session_id ` {r \<in> set rows. chat_of r = k}"

definition sqlite_session_view :: "'f gw_db \<Rightarrow> string \<times> string \<times> string \<Rightarrow> session_view" where
  "sqlite_session_view s k =
     \<lparr>sv_current = map_option se_session_id
        (first_row (current_sessions (fst k) (fst (snd k)) (snd (snd k)) s)),
      sv_known = known_of (gw_sessions s) k\<rparr>"

lemma view_current:
  assumes "gw_ok s"
  shows "sv_current (sqlite_session_view s k) = Some sid \<longleftrightarrow> cur_of (gw_sessions s) k sid"
proof -
  let ?rows = "current_sessions (fst k) (fst (snd k)) (snd (snd k)) s"
  have mem: "r \<in> set ?rows \<longleftrightarrow> r \<in> set (gw_sessions s) \<and> chat_of r = k \<and> se_is_current r" for r
    by (auto simp: current_sessions_def chat_of_in_chat)
  have one: "r = r'" if "r \<in> set ?rows" "r' \<in> set ?rows" for r r'
  proof -
    have ok: "sessions_ok (gw_sessions s) (gw_next_session s)" using assms by (simp add: gw_ok_def)
    with that have "se_id r = se_id r'"
      unfolding mem sessions_ok_def by (intro one_currentD [of "gw_sessions s"]) auto
    with ok that show ?thesis
      unfolding mem sessions_ok_def by (auto simp: distinct_map inj_on_def)
  qed
  have "first_row ?rows = Some r \<longleftrightarrow> r \<in> set ?rows" for r
    using one by (cases ?rows) auto
  then show ?thesis
    by (auto simp: sqlite_session_view_def cur_of_def mem)
qed

lemma view_known: "sv_known (sqlite_session_view s k) = known_of (gw_sessions s) k"
  by (simp add: sqlite_session_view_def)

lemma view_eqI:
  assumes "gw_ok s" and "\<And>k sid. cur_of (gw_sessions s) k sid \<longleftrightarrow> sv_current (v k) = Some sid"
    and "\<And>k. known_of (gw_sessions s) k = sv_known (v k)"
  shows "sqlite_session_view s = v"
proof
  fix k
  have "sv_current (sqlite_session_view s k) = sv_current (v k)"
    using view_current [OF assms(1), of k] assms(2) [of k]
    by (metis option.exhaust)
  then show "sqlite_session_view s k = v k"
    using assms(3) [of k] by (simp add: view_known)
qed

lemma cur_of_cleared: "cur_of (cleared k rows) k' sid \<longleftrightarrow> k' \<noteq> k \<and> cur_of rows k' sid"
  unfolding cur_of_def cleared_def bex_update_where by (auto split: if_splits)

lemma known_of_iff: "sid \<in> known_of rows k \<longleftrightarrow> (\<exists>r \<in> set rows. chat_of r = k \<and> se_session_id r = sid)"
  by (auto simp: known_of_def)

lemma known_of_cleared [simp]: "known_of (cleared k rows) k' = known_of rows k'"
  unfolding set_eq_iff known_of_iff cleared_def bex_update_where by (auto split: if_splits)

lemma known_of_activated [simp]: "known_of (activated p now rows) k = known_of rows k"
  unfolding set_eq_iff known_of_iff activated_def bex_update_where by simp

lemma cur_of_activated:
  "cur_of (activated p now rows) k sid \<longleftrightarrow>
   (\<exists>r \<in> set rows. chat_of r = k \<and> se_session_id r = sid \<and> (p r \<or> se_is_current r))"
  unfolding cur_of_def activated_def bex_update_where by auto

lemma cur_of_append: "cur_of (rows @ [r]) k sid \<longleftrightarrow>
    cur_of rows k sid \<or> chat_of r = k \<and> se_is_current r \<and> se_session_id r = sid"
  and known_of_append: "known_of (rows @ [r]) k =
    (if chat_of r = k then insert (se_session_id r) (known_of rows k) else known_of rows k)"
  by (auto simp: cur_of_def known_of_def)

text \<open>Activating the one known session of a cleared conversation.\<close>

lemma cur_of_activated_cleared:
  assumes "\<And>r. r \<in> set (cleared k rows) \<Longrightarrow> p r \<longleftrightarrow> chat_of r = k \<and> se_session_id r = sid"
    and "sid \<in> known_of rows k"
  shows "cur_of (activated p now (cleared k rows)) k' sid' \<longleftrightarrow>
    (if k' = k then sid' = sid else cur_of rows k' sid')"
proof -
  have "cur_of (activated p now (cleared k rows)) k' sid' \<longleftrightarrow>
      (k' = k \<and> sid' = sid \<and> sid \<in> known_of (cleared k rows) k) \<or> cur_of (cleared k rows) k' sid'"
    unfolding cur_of_activated known_of_iff cur_of_def [of "cleared k rows"] using assms(1) by blast
  then show ?thesis using assms(2) by (auto simp: cur_of_cleared)
qed

lemma set_current_rows_view:
  assumes "gw_ok s"
  shows "sqlite_session_view (set_current_rows k u sid now s) =
    snd (spec_set_current k sid (sqlite_session_view s))"
proof (rule view_eqI)
  let ?rows = "cleared k (gw_sessions s)" and ?t = "set_current_rows k u sid now s"
  let ?found = "first_row (filter (\<lambda>r. chat_of r = k \<and> se_session_id r = sid) ?rows)"
  show "gw_ok ?t" using set_current_rows_ok [OF assms] by blast
  have sok: "sessions_ok (gw_sessions s) (gw_next_session s)" using assms by (simp add: gw_ok_def)
  note rok = cleared_ok(1) [OF sok, where k = k]
  have cur: "cur_of (gw_sessions ?t) k' sid' \<longleftrightarrow>
      (if k' = k then sid' = sid else cur_of (gw_sessions s) k' sid')" for k' sid'
  proof (cases ?found)
    case None
    then show ?thesis
      by (auto simp: set_current_rows_def cur_of_append cur_of_cleared new_session_def chat_of_def)
  next
    case (Some r)
    then have r: "r \<in> set ?rows" "chat_of r = k" "se_session_id r = sid"
      by (auto dest: first_row_in)
    have p: "x \<in> set ?rows \<Longrightarrow> se_id x = se_id r \<longleftrightarrow> chat_of x = k \<and> se_session_id x = sid" for x
      using r rok by (auto simp: sessions_ok_def distinct_map inj_on_def)
    have "sid \<in> known_of (gw_sessions s) k"
      using r known_of_iff [of sid ?rows k] by auto
    with Some cur_of_activated_cleared [OF p] show ?thesis by (simp add: set_current_rows_def)
  qed
  show "cur_of (gw_sessions ?t) k' sid' \<longleftrightarrow>
      sv_current (snd (spec_set_current k sid (sqlite_session_view s)) k') = Some sid'" for k' sid'
    using cur view_current [OF assms] by (auto simp: spec_set_current_def)
  show "known_of (gw_sessions ?t) k' =
      sv_known (snd (spec_set_current k sid (sqlite_session_view s)) k')" for k'
  proof (cases ?found)
    case None
    then show ?thesis
      by (auto simp: set_current_rows_def known_of_append new_session_def chat_of_def
          spec_set_current_def view_known)
  next
    case (Some r)
    then have "\<exists>r \<in> set ?rows. chat_of r = k \<and> se_session_id r = sid"
      by (auto dest!: first_row_in)
    then have "sid \<in> known_of ?rows k" by (simp only: known_of_iff)
    with Some show ?thesis
      by (auto simp: set_current_rows_def spec_set_current_def view_known)
  qed
qed

lemma switch_rows_view:
  assumes "gw_ok s" and "sid \<in> known_of (gw_sessions s) k"
  shows "sqlite_session_view (switch_rows k sid now s) =
    (sqlite_session_view s)(k := (sqlite_session_view s k)\<lparr>sv_current := Some sid\<rparr>)"
proof (rule view_eqI)
  let ?t = "switch_rows k sid now s"
  show "gw_ok ?t" using switch_rows_ok [OF assms(1)] by blast
  show "cur_of (gw_sessions ?t) k' sid' \<longleftrightarrow>
      sv_current (((sqlite_session_view s)(k := (sqlite_session_view s k)\<lparr>sv_current := Some sid\<rparr>)) k') =
      Some sid'" for k' sid'
    using cur_of_activated_cleared [OF _ assms(2)] view_current [OF assms(1)]
    by (auto simp: switch_rows_def update_where_cleared)
  show "known_of (gw_sessions ?t) k' =
      sv_known (((sqlite_session_view s)(k := (sqlite_session_view s k)\<lparr>sv_current := Some sid\<rparr>)) k')"
    for k'
    by (simp add: switch_rows_def update_where_cleared view_known)
qed

lemma sqlite_session_view_frame [simp]:
  "sqlite_session_view (s\<lparr>gw_users := u\<rparr>) = sqlite_session_view s"
  by (simp add: fun_eq_iff sqlite_session_view_def current_sessions_def)

lemma sqlite_get_current_session_refines:
  "refines gw_ok sqlite_session_view (sqlite_get_current_session p ch cl) (spec_get_current (p, ch, cl))"
  by (rule gw.refinesI [OF sqlite_session_obeys(1)])
     (simp add: sqlite_get_current_session_def db_def map_err_def stmt_quiet query_def
        spec_get_current_def sqlite_session_view_def)

lemma sqlite_reset_session_refines:
  "refines gw_ok sqlite_session_view (sqlite_reset_session p ch cl) (spec_reset (p, ch, cl))"
proof (rule gw.refinesI [OF sqlite_session_obeys(6)])
  fix c :: "'a gw_db conn"
  assume c: "quiet c" "gw_ok (tables c)"
  let ?s = "tables c" and ?k = "(p, ch, cl)"
  let ?t = "gw_sessions_update (cleared ?k) ?s"
  have run: "sqlite_reset_session p ch cl c = (Inr (), c\<lparr>tick := Suc (tick c), tables := ?t\<rparr>)"
    using c by (simp add: sqlite_reset_session_def db_def map_err_def and_then_def stmt_quiet
        update_table_def ret_def chat_of_in_chat cleared_def [abs_def])
  have "gw_ok ?t"
    using c(2) sqlite_session_obeys(6) [of p ch cl] gw.quiet_polite [OF c(1)] run
    by (auto simp: obeys_def)
  then have "sqlite_session_view ?t =
      (sqlite_session_view ?s)(?k := (sqlite_session_view ?s ?k)\<lparr>sv_current := None\<rparr>)"
    using view_current [OF c(2)]
    by (intro view_eqI) (auto simp: cur_of_cleared view_known)
  then show "spec_reset ?k (sqlite_session_view ?s) =
      (ok_of (fst (sqlite_reset_session p ch cl c)),
       sqlite_session_view (tables (snd (sqlite_reset_session p ch cl c))))"
    by (simp add: run spec_reset_def)
qed

lemma sqlite_touch_session_refines:
  "refines gw_ok sqlite_session_view (sqlite_touch_session p ch cl) (spec_touch (p, ch, cl))"
proof (rule gw.refinesI [OF sqlite_session_obeys(3)])
  fix c :: "'a gw_db conn"
  assume c: "quiet c" "gw_ok (tables c)"
  let ?s = "tables c"
  let ?t = "gw_sessions_update (update_where (\<lambda>r. in_chat p ch cl r \<and> se_is_current r)
      (\<lambda>r. r\<lparr>se_last_active := env_now (here c)\<rparr>)) ?s"
  have run: "sqlite_touch_session p ch cl c = (Inr (), c\<lparr>tick := Suc (tick c), tables := ?t\<rparr>)"
    using c by (simp add: sqlite_touch_session_def db_def map_err_def and_then_def stmt_quiet
        update_table_def ret_def)
  have "gw_ok ?t"
    using c(2) sqlite_session_obeys(3) [of p ch cl] gw.quiet_polite [OF c(1)] run
    by (auto simp: obeys_def)
  then have "sqlite_session_view ?t = sqlite_session_view ?s"
  proof (rule view_eqI)
    show "cur_of (gw_sessions ?t) k sid \<longleftrightarrow> sv_current (sqlite_session_view ?s k) = Some sid" for k sid
      unfolding view_current [OF c(2)]
      unfolding cur_of_def by (auto simp: bex_update_where split: if_splits)
    show "known_of (gw_sessions ?t) k = sv_known (sqlite_session_view ?s k)" for k
      by (auto simp: set_eq_iff known_of_iff view_known bex_update_where split: if_splits)
  qed
  then show "spec_touch (p, ch, cl) (sqlite_session_view ?s) =
      (ok_of (fst (sqlite_touch_session p ch cl c)),
       sqlite_session_view (tables (snd (sqlite_touch_session p ch cl c))))"
    by (simp add: run spec_touch_def)
qed

lemma quiet_alone [simp]: "quiet c \<Longrightarrow> quiet (c\<lparr>tick := n, world := (\<lambda>n. alone (world c n))\<rparr>)"
  by (simp add: quiet_def alone_def)

lemma set_current_body_ends: "quiet c \<Longrightarrow> \<exists>r c'. set_current_body p ch u sid cl c = (Inr r, c')"
  by (auto simp: set_current_body_def db_def map_err_def and_then_def stmt_quiet update_table_def
      query_def ret_def insert_session_def split: option.split)

lemma switch_body_ends: "quiet c \<Longrightarrow> \<exists>r c'. switch_body p ch cl sid c = (Inr r, c')"
  by (auto simp: switch_body_def db_def map_err_def and_then_def stmt_quiet update_table_def
      query_def ret_def)

lemma sqlite_set_current_session_refines:
  "refines gw_ok sqlite_session_view (sqlite_set_current_session p ch u sid cl)
     (spec_set_current (p, ch, cl) sid)"
proof (rule gw.refinesI [OF sqlite_set_current_session_obeys])
  fix c :: "'a gw_db conn"
  assume c: "quiet c" "gw_ok (tables c)"
  let ?c = "c\<lparr>tick := Suc (tick c), world := (\<lambda>n. alone (world c n))\<rparr>"
  have qc: "quiet ?c" using c(1) by simp
  obtain r c2 where b: "set_current_body p ch u sid cl ?c = (Inr r, c2)"
    using set_current_body_ends [OF qc] by blast
  from set_current_body_rows [OF quiet_undisturbed [OF qc] b] obtain now where
    "r = Commit ()" "tables c2 = set_current_rows (p, ch, cl) u sid now (tables c)" by auto
  then show "spec_set_current (p, ch, cl) sid (sqlite_session_view (tables c)) =
      (ok_of (fst (sqlite_set_current_session p ch u sid cl c)),
       sqlite_session_view (tables (snd (sqlite_set_current_session p ch u sid cl c))))"
    using transaction_quiet [where conv = Database and body = "set_current_body p ch u sid cl", OF c(1) b]
      set_current_rows_view [OF c(2)]
    by (simp add: sqlite_set_current_session_def spec_set_current_def)
qed

lemma sqlite_switch_session_refines:
  "refines gw_ok sqlite_session_view (sqlite_switch_session p ch cl sid) (spec_switch (p, ch, cl) sid)"
proof (rule gw.refinesI [OF sqlite_switch_session_obeys])
  fix c :: "'a gw_db conn"
  assume c: "quiet c" "gw_ok (tables c)"
  let ?c = "c\<lparr>tick := Suc (tick c), world := (\<lambda>n. alone (world c n))\<rparr>"
  have qc: "quiet ?c" using c(1) by simp
  obtain r c2 where b: "switch_body p ch cl sid ?c = (Inr r, c2)"
    using switch_body_ends [OF qc] by blast
  have k: "find_session p ch cl sid (tables c) = None \<longleftrightarrow>
      sid \<notin> known_of (gw_sessions (tables c)) (p, ch, cl)"
    by (auto simp: find_session_None known_of_iff)
  from switch_body_rows [OF quiet_undisturbed [OF qc] b]
  show "spec_switch (p, ch, cl) sid (sqlite_session_view (tables c)) =
      (ok_of (fst (sqlite_switch_session p ch cl sid c)),
       sqlite_session_view (tables (snd (sqlite_switch_session p ch cl sid c))))"
    using transaction_quiet [where conv = Database and body = "switch_body p ch cl sid", OF c(1) b]
      switch_rows_view [OF c(2)]
    by (simp add: sqlite_switch_session_def spec_switch_def view_known k split: if_splits)
qed

interpretation sqlite_sessions: session_store gw_ok sqlite_session_view "\<lambda>p ch cl. (p, ch, cl)"
  sqlite_get_current_session sqlite_set_current_session sqlite_switch_session
  sqlite_reset_session sqlite_touch_session
  by unfold_locales
     (simp_all add: sqlite_get_current_session_refines sqlite_set_current_session_refines
        sqlite_switch_session_refines sqlite_reset_session_refines sqlite_touch_session_refines)

end
