(* ===== verification/Store_File.thy ===== *)
theory Store_File
  imports Session_Spec
begin

text \<open>
  \<open>FileGatewayStore\<close> (\<open>store/file.rs\<close>): four maps kept in memory behind locks and saved whole
  after each change, usage files of one line per record, and one skills file per chat.

  Each critical section is one atomic step (\<open>locked\<close>), each save another (\<open>flush\<close>), which may
  fail; other tasks may run between them. A saved map reads back as itself (\<open>serde_json\<close>).
  Parameters: \<open>fmt\<close> and \<open>fmt_day\<close> render a time, \<open>iter\<close> lists the keys of a \<open>HashMap\<close> or the
  files of a directory in the order of the runtime, \<open>fadd\<close> and \<open>fzero\<close> are \<open>f64\<close> addition and
  zero. A loop that stamps several entries reads the clock once here.
\<close>

section \<open>Entries and state\<close>

record user_entry =
  fu_platform :: string
  fu_user_id :: string
  fu_display_name :: string
  fu_preferences :: "string \<Rightarrow> string option"
  fu_created_at :: string

record session_entry =
  fe_session_id :: string
  fe_platform :: string
  fe_chat_id :: string
  fe_user_id :: string
  fe_cli_profile :: string
  fe_is_current :: bool
  fe_created_at :: string
  fe_last_active :: string

record cron_entry =
  fc_job_id :: string
  fc_platform :: string
  fc_chat_id :: string
  fc_user_id :: string
  fc_cron_expr :: string
  fc_message :: string
  fc_description :: string
  fc_enabled :: bool
  fc_last_run :: "string option"
  fc_next_run :: "string option"
  fc_created_at :: string

record cred_entry =
  fd_platform :: string
  fd_user_id :: string
  fd_type :: string
  fd_credentials :: json
  fd_expires_at :: "string option"
  fd_updated_at :: string

record 'f usage_entry = "'f usage_record" +
  ue_created_at :: string

record 'f file_db =
  fs_users :: "string \<Rightarrow> user_entry option"
  fs_sessions :: "string \<Rightarrow> session_entry list option"
  fs_jobs :: "string \<Rightarrow> cron_entry option"
  fs_creds :: "string \<Rightarrow> cred_entry option"
  fs_disk_users :: "string \<Rightarrow> user_entry option"
  fs_disk_sessions :: "string \<Rightarrow> session_entry list option"
  fs_disk_jobs :: "string \<Rightarrow> cron_entry option"
  fs_disk_creds :: "string \<Rightarrow> cred_entry option"
  fs_usage :: "string \<Rightarrow> 'f usage_entry list option"
  fs_skills :: "string \<Rightarrow> skill_record list option"

type_synonym ('f, 'a) file_op = "('f file_db, store_error, 'a) op"

text \<open>A section under a lock, and an access to the disk.\<close>

definition locked :: "('s \<Rightarrow> ('e + 'a) \<times> 's) \<Rightarrow> ('s, 'e, 'a) op" where
  "locked f c =
     (let s = env_others (world c (tick c)) (tables c)
      in (fst (f s), c\<lparr>tick := Suc (tick c), tables := snd (f s)\<rparr>))"

definition disk :: "('s \<Rightarrow> 'a \<times> 's) \<Rightarrow> ('s, store_error, 'a) op" where
  "disk f = map_err Io (stmt (\<lambda>e s. (Inr (fst (f s)), snd (f s))))"

definition reading :: "('s \<Rightarrow> 'a) \<Rightarrow> ('s, 'e, 'a) op" where
  "reading q = locked (\<lambda>s. (Inr (q s), s))"

definition now_str :: "(int \<Rightarrow> string) \<Rightarrow> ('s, 'e, string) op" where
  "now_str fmt = and_then utc_now (\<lambda>t. ret (fmt t))"

definition user_key :: "string \<Rightarrow> string \<Rightarrow> string" where
  "user_key platform user_id = platform @ '':'' @ user_id"

definition session_key :: "string \<Rightarrow> string \<Rightarrow> string \<Rightarrow> string" where
  "session_key platform chat_id cli_profile = platform @ '':'' @ chat_id @ '':'' @ cli_profile"

definition cred_key :: "string \<Rightarrow> string \<Rightarrow> string \<Rightarrow> string" where
  "cred_key platform user_id credential_type = platform @ '':'' @ user_id @ '':'' @ credential_type"

text \<open>\<open>HashMap::values\<close>\<close>

definition values_of :: "(string set \<Rightarrow> string list) \<Rightarrow> (string \<Rightarrow> 'v option) \<Rightarrow> 'v list" where
  "values_of iter m = List.map_filter m (iter (dom m))"

definition flush_users :: "('f, unit) file_op" where
  "flush_users = disk (\<lambda>s. ((), s\<lparr>fs_disk_users := fs_users s\<rparr>))"

definition flush_sessions :: "('f, unit) file_op" where
  "flush_sessions = disk (\<lambda>s. ((), s\<lparr>fs_disk_sessions := fs_sessions s\<rparr>))"

definition flush_cron_jobs :: "('f, unit) file_op" where
  "flush_cron_jobs = disk (\<lambda>s. ((), s\<lparr>fs_disk_jobs := fs_jobs s\<rparr>))"

definition flush_credentials :: "('f, unit) file_op" where
  "flush_credentials = disk (\<lambda>s. ((), s\<lparr>fs_disk_creds := fs_creds s\<rparr>))"

text \<open>\<open>open\<close>: a new process starts from the saved maps.\<close>

definition file_open :: "'f file_db \<Rightarrow> 'f file_db" where
  "file_open s = s\<lparr>fs_users := fs_disk_users s, fs_sessions := fs_disk_sessions s,
                   fs_jobs := fs_disk_jobs s, fs_creds := fs_disk_creds s\<rparr>"

section \<open>Users\<close>

definition file_upsert_user ::
  "(int \<Rightarrow> string) \<Rightarrow> string \<Rightarrow> string \<Rightarrow> string \<Rightarrow> ('f, unit) file_op" where
  "file_upsert_user fmt platform user_id display_name =
     and_then (now_str fmt) (\<lambda>now.
     and_then (locked (\<lambda>s. (Inr (),
         case fs_users s (user_key platform user_id) of
           Some _ \<Rightarrow> s
         | None \<Rightarrow> s\<lparr>fs_users := (fs_users s)(user_key platform user_id \<mapsto>
             \<lparr>fu_platform = platform, fu_user_id = user_id, fu_display_name = display_name,
              fu_preferences = Map.empty, fu_created_at = now\<rparr>)\<rparr>))) (\<lambda>_.
     flush_users))"

definition file_set_user_preference ::
  "string \<Rightarrow> string \<Rightarrow> string \<Rightarrow> string \<Rightarrow> ('f, unit) file_op" where
  "file_set_user_preference platform user_id key value =
     and_then (locked (\<lambda>s.
         case fs_users s (user_key platform user_id) of
           None \<Rightarrow> (Inl (NotFound (''user not found: '' @ platform @ '':'' @ user_id)), s)
         | Some entry \<Rightarrow> (Inr (), s\<lparr>fs_users := (fs_users s)(user_key platform user_id \<mapsto>
             entry\<lparr>fu_preferences := (fu_preferences entry)(key \<mapsto> value)\<rparr>)\<rparr>))) (\<lambda>_.
     flush_users)"

definition file_get_user_preference ::
  "string \<Rightarrow> string \<Rightarrow> string \<Rightarrow> ('f, string option) file_op" where
  "file_get_user_preference platform user_id key =
     reading (\<lambda>s. Option.bind (fs_users s (user_key platform user_id)) (\<lambda>e. fu_preferences e key))"

definition file_is_first_message :: "string \<Rightarrow> string \<Rightarrow> ('f, bool) file_op" where
  "file_is_first_message platform user_id =
     reading (\<lambda>s. fs_users s (user_key platform user_id) = None)"

section \<open>Sessions\<close>

text \<open>\<open>max_by\<close> on the last activity: of equal entries the later one.\<close>

fun latest :: "session_entry list \<Rightarrow> session_entry option" where
  "latest [] = None"
| "latest (e # es) =
     (case latest es of
        None \<Rightarrow> Some e
      | Some m \<Rightarrow> if fe_last_active m < fe_last_active e then Some e else Some m)"

definition file_current :: "string \<Rightarrow> 'f file_db \<Rightarrow> session_entry option" where
  "file_current key s = Option.bind (fs_sessions s key) (\<lambda>es. latest (filter fe_is_current es))"

definition file_get_current_session ::
  "string \<Rightarrow> string \<Rightarrow> string \<Rightarrow> ('f, string option) file_op" where
  "file_get_current_session platform chat_id cli_profile =
     reading (\<lambda>s. map_option fe_session_id (file_current (session_key platform chat_id cli_profile) s))"

definition file_get_session_last_active ::
  "string \<Rightarrow> string \<Rightarrow> string \<Rightarrow> ('f, string option) file_op" where
  "file_get_session_last_active platform chat_id cli_profile =
     reading (\<lambda>s. map_option fe_last_active (file_current (session_key platform chat_id cli_profile) s))"

fun update_first :: "('a \<Rightarrow> bool) \<Rightarrow> ('a \<Rightarrow> 'a) \<Rightarrow> 'a list \<Rightarrow> 'a list" where
  "update_first p f [] = []"
| "update_first p f (x # xs) = (if p x then f x # xs else x # update_first p f xs)"

definition set_current_entries ::
  "session_entry \<Rightarrow> string \<Rightarrow> session_entry list \<Rightarrow> session_entry list" where
  "set_current_entries new now entries =
     (let cleared = map (\<lambda>e. e\<lparr>fe_is_current := False\<rparr>) entries in
      if list_ex (\<lambda>e. fe_session_id e = fe_session_id new) cleared
      then update_first (\<lambda>e. fe_session_id e = fe_session_id new)
             (\<lambda>e. e\<lparr>fe_is_current := True, fe_last_active := now\<rparr>) cleared
      else cleared @ [new])"

definition file_set_current_session ::
  "(int \<Rightarrow> string) \<Rightarrow> string \<Rightarrow> string \<Rightarrow> string \<Rightarrow> string \<Rightarrow> string \<Rightarrow> ('f, unit) file_op" where
  "file_set_current_session fmt platform chat_id user_id session_id cli_profile =
     and_then (now_str fmt) (\<lambda>created.
     and_then (now_str fmt) (\<lambda>active.
     and_then (locked (\<lambda>s.
         let key = session_key platform chat_id cli_profile;
             entries = (case fs_sessions s key of Some es \<Rightarrow> es | None \<Rightarrow> []);
             new = \<lparr>fe_session_id = session_id, fe_platform = platform, fe_chat_id = chat_id,
                    fe_user_id = user_id, fe_cli_profile = cli_profile, fe_is_current = True,
                    fe_created_at = created, fe_last_active = active\<rparr>
         in (Inr (), s\<lparr>fs_sessions := (fs_sessions s)(key \<mapsto> set_current_entries new active entries)\<rparr>)))
     (\<lambda>_. flush_sessions)))"

definition file_touch_session ::
  "(int \<Rightarrow> string) \<Rightarrow> string \<Rightarrow> string \<Rightarrow> string \<Rightarrow> ('f, unit) file_op" where
  "file_touch_session fmt platform chat_id cli_profile =
     and_then (now_str fmt) (\<lambda>now.
     and_then (locked (\<lambda>s.
         let key = session_key platform chat_id cli_profile in
         (Inr (), case fs_sessions s key of
            None \<Rightarrow> s
          | Some es \<Rightarrow> s\<lparr>fs_sessions := (fs_sessions s)(key \<mapsto>
              map (\<lambda>e. if fe_is_current e then e\<lparr>fe_last_active := now\<rparr> else e) es)\<rparr>))) (\<lambda>_.
     flush_sessions))"

text \<open>\<open>sort_by\<close> on the last activity, latest first, stable\<close>

definition sort_latest :: "session_entry list \<Rightarrow> session_entry list" where
  "sort_latest es = rev (sort_key fe_last_active (rev es))"

definition file_list_sessions ::
  "string \<Rightarrow> string \<Rightarrow> string \<Rightarrow> ('f, session_record list) file_op" where
  "file_list_sessions platform chat_id cli_profile =
     reading (\<lambda>s. case fs_sessions s (session_key platform chat_id cli_profile) of
         None \<Rightarrow> []
       | Some es \<Rightarrow> map (\<lambda>e. \<lparr>sr_session_id = fe_session_id e, sr_is_current = fe_is_current e,
                            sr_created_at = fe_created_at e\<rparr>) (take 20 (sort_latest es)))"

definition switch_entries :: "string \<Rightarrow> string \<Rightarrow> session_entry list \<Rightarrow> session_entry list" where
  "switch_entries target now es =
     map (\<lambda>e. if fe_session_id e = target then e\<lparr>fe_is_current := True, fe_last_active := now\<rparr>
              else e\<lparr>fe_is_current := False\<rparr>) es"

definition file_switch_session ::
  "(int \<Rightarrow> string) \<Rightarrow> string \<Rightarrow> string \<Rightarrow> string \<Rightarrow> string \<Rightarrow> ('f, bool) file_op" where
  "file_switch_session fmt platform chat_id cli_profile target_session_id =
     and_then (now_str fmt) (\<lambda>now.
     and_then (locked (\<lambda>s.
         let key = session_key platform chat_id cli_profile in
         case fs_sessions s key of
           None \<Rightarrow> (Inr False, s)
         | Some es \<Rightarrow>
             if \<not> list_ex (\<lambda>e. fe_session_id e = target_session_id) es then (Inr False, s)
             else (Inr True, s\<lparr>fs_sessions := (fs_sessions s)(key \<mapsto>
                     switch_entries target_session_id now es)\<rparr>))) (\<lambda>found.
     if \<not> found then ret False
     else and_then flush_sessions (\<lambda>_. ret True)))"

definition file_find_sessions_by_prefix ::
  "string \<Rightarrow> string \<Rightarrow> string \<Rightarrow> string \<Rightarrow> ('f, string list) file_op" where
  "file_find_sessions_by_prefix platform chat_id cli_profile pre =
     reading (\<lambda>s. case fs_sessions s (session_key platform chat_id cli_profile) of
         None \<Rightarrow> []
       | Some es \<Rightarrow> map fe_session_id (take 2 (filter (\<lambda>e. starts_with (fe_session_id e) pre) es)))"

definition file_reset_session :: "string \<Rightarrow> string \<Rightarrow> string \<Rightarrow> ('f, unit) file_op" where
  "file_reset_session platform chat_id cli_profile =
     and_then (locked (\<lambda>s.
         let key = session_key platform chat_id cli_profile in
         (Inr (), case fs_sessions s key of
            None \<Rightarrow> s
          | Some es \<Rightarrow> s\<lparr>fs_sessions := (fs_sessions s)(key \<mapsto>
              map (\<lambda>e. if fe_is_current e then e\<lparr>fe_is_current := False\<rparr> else e) es)\<rparr>))) (\<lambda>_.
     flush_sessions)"

section \<open>Cron jobs\<close>

definition file_create_cron_job ::
  "(int \<Rightarrow> string) \<Rightarrow> int \<Rightarrow> cron_job_spec \<Rightarrow> ('f, unit) file_op" where
  "file_create_cron_job fmt tz spec =
     and_then utc_now (\<lambda>now_utc.
     and_then (now_str fmt) (\<lambda>created.
     let entry = \<lparr>fc_job_id = cj_job_id spec, fc_platform = cj_platform spec,
           fc_chat_id = cj_chat_id spec, fc_user_id = cj_user_id spec,
           fc_cron_expr = cj_cron_expr spec, fc_message = cj_message spec,
           fc_description = cj_description spec, fc_enabled = True, fc_last_run = None,
           fc_next_run = Some (fmt (next_cron_run now_utc (cj_cron_expr spec) tz)),
           fc_created_at = created\<rparr> in
     and_then (locked (\<lambda>s. (Inr (), s\<lparr>fs_jobs := (fs_jobs s)(cj_job_id spec \<mapsto> entry)\<rparr>))) (\<lambda>_.
     flush_cron_jobs)))"

definition file_list_cron_jobs ::
  "(string set \<Rightarrow> string list) \<Rightarrow> string \<Rightarrow> string \<Rightarrow> ('f, cron_job_record list) file_op" where
  "file_list_cron_jobs iter platform chat_id =
     reading (\<lambda>s. map (\<lambda>j. \<lparr>cr_job_id = fc_job_id j, cr_cron_expr = fc_cron_expr j,
                          cr_description = fc_description j, cr_enabled = fc_enabled j\<rparr>)
       (filter (\<lambda>j. fc_platform j = platform \<and> fc_chat_id j = chat_id) (values_of iter (fs_jobs s))))"

definition file_delete_cron_job :: "string \<Rightarrow> ('f, bool) file_op" where
  "file_delete_cron_job job_id =
     and_then (locked (\<lambda>s. (Inr (fs_jobs s job_id \<noteq> None),
                             s\<lparr>fs_jobs := (fs_jobs s)(job_id := None)\<rparr>))) (\<lambda>removed.
     if removed then and_then flush_cron_jobs (\<lambda>_. ret removed) else ret removed)"

definition entry_due :: "string \<Rightarrow> cron_entry \<Rightarrow> bool" where
  "entry_due now j \<longleftrightarrow> fc_enabled j \<and> (case fc_next_run j of None \<Rightarrow> True | Some nr \<Rightarrow> nr \<le> now)"

definition due_of_entry :: "cron_entry \<Rightarrow> due_job" where
  "due_of_entry j =
     \<lparr>dj_job_id = fc_job_id j, dj_platform = fc_platform j, dj_chat_id = fc_chat_id j,
      dj_message = fc_message j, dj_cron_expr = fc_cron_expr j\<rparr>"

definition file_get_due_jobs ::
  "(int \<Rightarrow> string) \<Rightarrow> (string set \<Rightarrow> string list) \<Rightarrow> ('f, due_job list) file_op" where
  "file_get_due_jobs fmt iter =
     and_then (now_str fmt) (\<lambda>now.
     reading (\<lambda>s. map due_of_entry (filter (entry_due now) (values_of iter (fs_jobs s)))))"

definition file_mark_job_run ::
  "(int \<Rightarrow> string) \<Rightarrow> int \<Rightarrow> string \<Rightarrow> string \<Rightarrow> ('f, unit) file_op" where
  "file_mark_job_run fmt tz job_id cron_expr =
     and_then utc_now (\<lambda>now_utc.
     let nxt = fmt (next_cron_run now_utc cron_expr tz) in
     and_then (now_str fmt) (\<lambda>now.
     and_then (locked (\<lambda>s. (Inr (), case fs_jobs s job_id of
            None \<Rightarrow> s
          | Some j \<Rightarrow> s\<lparr>fs_jobs := (fs_jobs s)(job_id \<mapsto>
              j\<lparr>fc_last_run := Some now, fc_next_run := Some nxt\<rparr>)\<rparr>))) (\<lambda>_.
     flush_cron_jobs)))"

definition file_update_cron_next_run :: "string \<Rightarrow> string \<Rightarrow> ('f, unit) file_op" where
  "file_update_cron_next_run job_id next_run =
     and_then (locked (\<lambda>s. (Inr (), case fs_jobs s job_id of
            None \<Rightarrow> s
          | Some j \<Rightarrow> s\<lparr>fs_jobs := (fs_jobs s)(job_id \<mapsto> j\<lparr>fc_next_run := Some next_run\<rparr>)\<rparr>))) (\<lambda>_.
     flush_cron_jobs)"

definition file_get_cron_job_user_id :: "string \<Rightarrow> ('f, string option) file_op" where
  "file_get_cron_job_user_id job_id = reading (\<lambda>s. map_option fc_user_id (fs_jobs s job_id))"

section \<open>Platform credentials\<close>

definition file_save_credential ::
  "(int \<Rightarrow> string) \<Rightarrow> string \<Rightarrow> string \<Rightarrow> string \<Rightarrow> json \<Rightarrow> string option \<Rightarrow> ('f, unit) file_op" where
  "file_save_credential fmt platform user_id credential_type credentials expires_at =
     and_then (now_str fmt) (\<lambda>now.
     let entry = \<lparr>fd_platform = platform, fd_user_id = user_id, fd_type = credential_type,
                  fd_credentials = credentials, fd_expires_at = expires_at, fd_updated_at = now\<rparr> in
     and_then (locked (\<lambda>s. (Inr (), s\<lparr>fs_creds :=
         (fs_creds s)(cred_key platform user_id credential_type \<mapsto> entry)\<rparr>))) (\<lambda>_.
     flush_credentials))"

definition credential_of_entry :: "cred_entry \<Rightarrow> platform_credential" where
  "credential_of_entry e =
     \<lparr>pc_platform = fd_platform e, pc_user_id = fd_user_id e, pc_credential_type = fd_type e,
      pc_credentials = fd_credentials e, pc_expires_at = fd_expires_at e\<rparr>"

definition file_get_credential ::
  "string \<Rightarrow> string \<Rightarrow> string \<Rightarrow> ('f, platform_credential option) file_op" where
  "file_get_credential platform user_id credential_type =
     reading (\<lambda>s. map_option credential_of_entry (fs_creds s (cred_key platform user_id credential_type)))"

definition file_list_credentials ::
  "(string set \<Rightarrow> string list) \<Rightarrow> string \<Rightarrow> ('f, platform_credential list) file_op" where
  "file_list_credentials iter platform =
     reading (\<lambda>s. map credential_of_entry
       (filter (\<lambda>e. fd_platform e = platform) (values_of iter (fs_creds s))))"

definition file_delete_credential :: "string \<Rightarrow> string \<Rightarrow> string \<Rightarrow> ('f, bool) file_op" where
  "file_delete_credential platform user_id credential_type =
     (let key = cred_key platform user_id credential_type in
      and_then (locked (\<lambda>s. (Inr (fs_creds s key \<noteq> None),
                              s\<lparr>fs_creds := (fs_creds s)(key := None)\<rparr>))) (\<lambda>removed.
      if removed then and_then flush_credentials (\<lambda>_. ret removed) else ret removed))"

section \<open>Usage\<close>

text \<open>One line is appended to the file of the day, and reads back as the record it holds. A file
  is read whole; a counter wraps at 64 bits, as it does in a release build.\<close>

definition file_record_usage ::
  "(int \<Rightarrow> string) \<Rightarrow> (int \<Rightarrow> string) \<Rightarrow> 'f usage_record \<Rightarrow> ('f, unit) file_op" where
  "file_record_usage fmt fmt_day r =
     and_then (now_str fmt_day) (\<lambda>day.
     and_then (now_str fmt) (\<lambda>now.
     let entry = usage_record.extend r (usage_entry.fields now) in
     disk (\<lambda>s. ((), s\<lparr>fs_usage := (fs_usage s)(day \<mapsto>
        (case fs_usage s day of None \<Rightarrow> [] | Some es \<Rightarrow> es) @ [entry])\<rparr>))))"

definition add64 :: "nat \<Rightarrow> nat \<Rightarrow> nat" where
  "add64 a b = (a + b) mod 2 ^ 64"

text \<open>\<open>Option<u64>::max\<close>, where \<open>None\<close> is least\<close>

fun later :: "nat option \<Rightarrow> nat option \<Rightarrow> nat option" where
  "later None b = b"
| "later a None = a"
| "later (Some a) (Some b) = Some (max a b)"

definition no_usage :: "'f \<Rightarrow> 'f usage_summary" where
  "no_usage fzero =
     \<lparr>us_messages = 0, us_tokens_prompt = 0, us_tokens_completion = 0, us_cached_input_tokens = 0,
      us_cache_creation_input_tokens = 0, us_cache_read_input_tokens = 0,
      us_reasoning_output_tokens = 0, us_total_tokens = 0, us_context_window = None,
      us_max_output_tokens = None, us_cost_usd = fzero, us_tool_calls = 0\<rparr>"

definition entry_total :: "('f, 'z) usage_record_scheme \<Rightarrow> nat" where
  "entry_total e =
     (if 0 < ur_total_tokens e then ur_total_tokens e
      else add64 (add64 (add64 (add64 (ur_tokens_prompt e) (ur_tokens_completion e))
             (ur_cache_creation_input_tokens e)) (ur_cache_read_input_tokens e))
             (ur_reasoning_output_tokens e))"

definition add_entry ::
  "('f \<Rightarrow> 'f \<Rightarrow> 'f) \<Rightarrow> 'f \<Rightarrow> 'f usage_summary \<Rightarrow> ('f, 'z) usage_record_scheme \<Rightarrow> 'f usage_summary" where
  "add_entry fadd fzero u e =
     \<lparr>us_messages = (if counts_as_message (ur_status e) then add64 (us_messages u) 1
                     else us_messages u),
      us_tokens_prompt = add64 (us_tokens_prompt u) (ur_tokens_prompt e),
      us_tokens_completion = add64 (us_tokens_completion u) (ur_tokens_completion e),
      us_cached_input_tokens = add64 (us_cached_input_tokens u) (ur_cached_input_tokens e),
      us_cache_creation_input_tokens =
        add64 (us_cache_creation_input_tokens u) (ur_cache_creation_input_tokens e),
      us_cache_read_input_tokens =
        add64 (us_cache_read_input_tokens u) (ur_cache_read_input_tokens e),
      us_reasoning_output_tokens =
        add64 (us_reasoning_output_tokens u) (ur_reasoning_output_tokens e),
      us_total_tokens = add64 (us_total_tokens u) (entry_total e),
      us_context_window = later (us_context_window u) (ur_context_window e),
      us_max_output_tokens = later (us_max_output_tokens u) (ur_max_output_tokens e),
      us_cost_usd = fadd (us_cost_usd u) (case ur_cost_usd e of None \<Rightarrow> fzero | Some x \<Rightarrow> x),
      us_tool_calls = add64 (us_tool_calls u) (ur_tool_calls e)\<rparr>"

definition load_usage_summary_filtered ::
  "('f \<Rightarrow> 'f \<Rightarrow> 'f) \<Rightarrow> 'f \<Rightarrow> string \<Rightarrow> string \<Rightarrow> string \<Rightarrow> string option \<Rightarrow> string option \<Rightarrow>
   ('f, 'f usage_summary) file_op" where
  "load_usage_summary_filtered fadd fzero day platform user_id cli_profile session_id =
     disk (\<lambda>s. (foldl (add_entry fadd fzero) (no_usage fzero)
       (filter (\<lambda>e. ur_platform e = platform \<and> ur_user_id e = user_id \<and>
                    (case cli_profile of None \<Rightarrow> True | Some p \<Rightarrow> ur_cli_profile e = p) \<and>
                    (case session_id of None \<Rightarrow> True | Some sid \<Rightarrow> ur_session_id e = Some sid))
          (case fs_usage s day of None \<Rightarrow> [] | Some es \<Rightarrow> es)), s))"

definition add_summary ::
  "('f \<Rightarrow> 'f \<Rightarrow> 'f) \<Rightarrow> 'f usage_summary \<Rightarrow> 'f usage_summary \<Rightarrow> 'f usage_summary" where
  "add_summary fadd t d =
     \<lparr>us_messages = add64 (us_messages t) (us_messages d),
      us_tokens_prompt = add64 (us_tokens_prompt t) (us_tokens_prompt d),
      us_tokens_completion = add64 (us_tokens_completion t) (us_tokens_completion d),
      us_cached_input_tokens = add64 (us_cached_input_tokens t) (us_cached_input_tokens d),
      us_cache_creation_input_tokens =
        add64 (us_cache_creation_input_tokens t) (us_cache_creation_input_tokens d),
      us_cache_read_input_tokens =
        add64 (us_cache_read_input_tokens t) (us_cache_read_input_tokens d),
      us_reasoning_output_tokens =
        add64 (us_reasoning_output_tokens t) (us_reasoning_output_tokens d),
      us_total_tokens = add64 (us_total_tokens t) (us_total_tokens d),
      us_context_window = later (us_context_window t) (us_context_window d),
      us_max_output_tokens = later (us_max_output_tokens t) (us_max_output_tokens d),
      us_cost_usd = fadd (us_cost_usd t) (us_cost_usd d),
      us_tool_calls = add64 (us_tool_calls t) (us_tool_calls d)\<rparr>"

definition file_get_usage_today ::
  "(int \<Rightarrow> string) \<Rightarrow> ('f \<Rightarrow> 'f \<Rightarrow> 'f) \<Rightarrow> 'f \<Rightarrow> string \<Rightarrow> string \<Rightarrow> ('f, 'f usage_summary) file_op" where
  "file_get_usage_today fmt_day fadd fzero platform user_id =
     and_then (now_str fmt_day) (\<lambda>day.
     load_usage_summary_filtered fadd fzero day platform user_id None None)"

fun sum_days ::
  "('f \<Rightarrow> 'f \<Rightarrow> 'f) \<Rightarrow> (string \<Rightarrow> ('f, 'f usage_summary) file_op) \<Rightarrow> string list \<Rightarrow>
   'f usage_summary \<Rightarrow> ('f, 'f usage_summary) file_op" where
  "sum_days fadd load [] summed = ret summed"
| "sum_days fadd load (day # days) summed =
     and_then (load day) (\<lambda>u. sum_days fadd load days (add_summary fadd summed u))"

text \<open>Where the directory cannot be read the sum is empty.\<close>

definition usage_days :: "(string set \<Rightarrow> string list) \<Rightarrow> ('f, store_error + string list) file_op" where
  "usage_days iter = attempt (disk (\<lambda>s. (iter (dom (fs_usage s)), s)) :: ('f, string list) file_op)"

definition file_get_usage_total ::
  "(string set \<Rightarrow> string list) \<Rightarrow> ('f \<Rightarrow> 'f \<Rightarrow> 'f) \<Rightarrow> 'f \<Rightarrow> string \<Rightarrow> string \<Rightarrow>
   ('f, 'f usage_summary) file_op" where
  "file_get_usage_total iter fadd fzero platform user_id =
     and_then (usage_days iter) (\<lambda>days. case days of
         Inl _ \<Rightarrow> ret (no_usage fzero)
       | Inr ds \<Rightarrow> sum_days fadd (\<lambda>day. load_usage_summary_filtered fadd fzero day platform user_id None None)
                     ds (no_usage fzero))"

definition file_get_usage_session ::
  "(string set \<Rightarrow> string list) \<Rightarrow> ('f \<Rightarrow> 'f \<Rightarrow> 'f) \<Rightarrow> 'f \<Rightarrow> string \<Rightarrow> string \<Rightarrow> string \<Rightarrow> string \<Rightarrow>
   ('f, 'f usage_summary) file_op" where
  "file_get_usage_session iter fadd fzero platform user_id cli_profile session_id =
     and_then (usage_days iter) (\<lambda>days. case days of
         Inl _ \<Rightarrow> ret (no_usage fzero)
       | Inr ds \<Rightarrow> sum_days fadd
           (\<lambda>day. load_usage_summary_filtered fadd fzero day platform user_id
                    (Some cli_profile) (Some session_id))
           ds (no_usage fzero))"

section \<open>Skills\<close>

definition skills_path :: "string \<Rightarrow> string \<Rightarrow> string" where
  "skills_path platform chat_id = ''skills_'' @ platform @ ''_'' @ chat_id @ ''.json''"

definition load_skills :: "string \<Rightarrow> 'f file_db \<Rightarrow> skill_record list" where
  "load_skills path s = (case fs_skills s path of None \<Rightarrow> [] | Some l \<Rightarrow> l)"

definition file_list_skills :: "string \<Rightarrow> string \<Rightarrow> ('f, skill_record list) file_op" where
  "file_list_skills platform chat_id = disk (\<lambda>s. (load_skills (skills_path platform chat_id) s, s))"

definition file_get_skill :: "string \<Rightarrow> string \<Rightarrow> string \<Rightarrow> ('f, skill_record option) file_op" where
  "file_get_skill platform chat_id name =
     and_then (disk (\<lambda>s. (load_skills (skills_path platform chat_id) s, s))) (\<lambda>skills.
     ret (find (\<lambda>s. sk_name s = name) skills))"

text \<open>The write lock is held from the read to the save, so that no other save of this process
  comes between them.\<close>

definition upsert_skills ::
  "string \<Rightarrow> string \<Rightarrow> string \<Rightarrow> string \<Rightarrow> skill_record list \<Rightarrow> skill_record list" where
  "upsert_skills name content description now skills =
     (if list_ex (\<lambda>s. sk_name s = name) skills
      then update_first (\<lambda>s. sk_name s = name)
             (\<lambda>s. s\<lparr>sk_content := content, sk_description := description\<rparr>) skills
      else skills @ [\<lparr>sk_name = name, sk_content = content, sk_description = description,
                      sk_created_at = now\<rparr>])"

definition file_upsert_skill ::
  "(int \<Rightarrow> string) \<Rightarrow> string \<Rightarrow> string \<Rightarrow> string \<Rightarrow> string \<Rightarrow> string \<Rightarrow> ('f, unit) file_op" where
  "file_upsert_skill fmt platform chat_id name content description =
     and_then (now_str fmt) (\<lambda>now.
     disk (\<lambda>s. let path = skills_path platform chat_id in
       ((), s\<lparr>fs_skills := (fs_skills s)(path \<mapsto>
               upsert_skills name content description now (load_skills path s))\<rparr>)))"

definition file_delete_skill :: "string \<Rightarrow> string \<Rightarrow> string \<Rightarrow> ('f, bool) file_op" where
  "file_delete_skill platform chat_id name =
     disk (\<lambda>s. let path = skills_path platform chat_id; skills = load_skills path s;
                    kept = filter (\<lambda>s. sk_name s \<noteq> name) skills in
       if length kept = length skills then (False, s)
       else (True, s\<lparr>fs_skills := (fs_skills s)(path \<mapsto> kept)\<rparr>))"

end
