(* ===== verification/File_Inv.thy ===== *)
theory File_Inv
  imports Store_File
begin

text \<open>
  What \<open>FileGatewayStore\<close> keeps: each conversation lists a session once and has at most one
  current session, and the saved maps are an earlier state of the ones in memory. No user, session
  or usage record is ever lost, in memory or on disk.
\<close>

definition entries_ok :: "session_entry list \<Rightarrow> bool" where
  "entries_ok es \<longleftrightarrow> distinct (map fe_session_id es) \<and> length (filter fe_is_current es) \<le> 1"

definition entry_step :: "session_entry \<Rightarrow> session_entry \<Rightarrow> bool" where
  "entry_step e e' \<longleftrightarrow>
     fe_session_id e' = fe_session_id e \<and> fe_platform e' = fe_platform e \<and>
     fe_chat_id e' = fe_chat_id e \<and> fe_user_id e' = fe_user_id e \<and>
     fe_cli_profile e' = fe_cli_profile e \<and> fe_created_at e' = fe_created_at e"

definition user_entry_step :: "user_entry \<Rightarrow> user_entry \<Rightarrow> bool" where
  "user_entry_step u u' \<longleftrightarrow>
     fu_platform u' = fu_platform u \<and> fu_user_id u' = fu_user_id u \<and>
     fu_display_name u' = fu_display_name u \<and> fu_created_at u' = fu_created_at u \<and>
     dom (fu_preferences u) \<subseteq> dom (fu_preferences u')"

text \<open>Every entry of the one map is still in the other, changed by steps only.\<close>

definition map_grows :: "('v \<Rightarrow> 'v \<Rightarrow> bool) \<Rightarrow> ('k \<Rightarrow> 'v option) \<Rightarrow> ('k \<Rightarrow> 'v option) \<Rightarrow> bool" where
  "map_grows step m m' \<longleftrightarrow> (\<forall>k v. m k = Some v \<longrightarrow> (\<exists>v'. m' k = Some v' \<and> step v v'))"

definition every :: "('v \<Rightarrow> bool) \<Rightarrow> ('k \<Rightarrow> 'v option) \<Rightarrow> bool" where
  "every p m \<longleftrightarrow> (\<forall>k v. m k = Some v \<longrightarrow> p v)"

definition file_ok :: "'f file_db \<Rightarrow> bool" where
  "file_ok s \<longleftrightarrow>
     every entries_ok (fs_sessions s) \<and> every entries_ok (fs_disk_sessions s) \<and>
     every (\<lambda>l. distinct (map sk_name l)) (fs_skills s) \<and>
     map_grows (grows entry_step) (fs_disk_sessions s) (fs_sessions s) \<and>
     map_grows user_entry_step (fs_disk_users s) (fs_users s)"

definition file_step :: "'f file_db \<Rightarrow> 'f file_db \<Rightarrow> bool" where
  "file_step s s' \<longleftrightarrow>
     map_grows (grows entry_step) (fs_sessions s) (fs_sessions s') \<and>
     map_grows (grows entry_step) (fs_disk_sessions s) (fs_disk_sessions s') \<and>
     map_grows user_entry_step (fs_users s) (fs_users s') \<and>
     map_grows user_entry_step (fs_disk_users s) (fs_disk_users s') \<and>
     map_grows prefix (fs_usage s) (fs_usage s')"

section \<open>Growing maps\<close>

lemma map_grows_refl: "(\<And>v. step v v) \<Longrightarrow> map_grows step m m"
  by (simp add: map_grows_def)

lemma map_grows_trans:
  assumes "\<And>a b c. step a b \<Longrightarrow> step b c \<Longrightarrow> step a c" and "map_grows step m1 m2" and "map_grows step m2 m3"
  shows "map_grows step m1 m3"
  using assms unfolding map_grows_def by metis

lemma map_grows_update:
  "(\<And>v. step v v) \<Longrightarrow> (\<And>v. m k = Some v \<Longrightarrow> step v x) \<Longrightarrow> map_grows step m (m(k \<mapsto> x))"
  by (simp add: map_grows_def)

lemma every_update: "every p m \<Longrightarrow> p x \<Longrightarrow> every p (m(k \<mapsto> x))"
  by (simp add: every_def)

lemma entry_step_refl [simp]: "entry_step e e" and user_entry_step_refl [simp]: "user_entry_step u u"
  by (simp_all add: entry_step_def user_entry_step_def)

lemma entry_step_trans: "entry_step a b \<Longrightarrow> entry_step b c \<Longrightarrow> entry_step a c"
  by (simp add: entry_step_def)

lemma user_entry_step_trans: "user_entry_step a b \<Longrightarrow> user_entry_step b c \<Longrightarrow> user_entry_step a c"
  by (auto simp: user_entry_step_def)

lemma grows_entries_refl [simp]: "grows entry_step es es"
  by (simp add: grows_refl)

lemma grows_entries_trans: "grows entry_step xs ys \<Longrightarrow> grows entry_step ys zs \<Longrightarrow> grows entry_step xs zs"
  by (rule grows_trans) (auto intro: entry_step_trans)

lemma session_map_trans:
  "map_grows (grows entry_step) a b \<Longrightarrow> map_grows (grows entry_step) b c \<Longrightarrow> map_grows (grows entry_step) a c"
  by (rule map_grows_trans) (auto intro: grows_entries_trans)

lemma user_map_trans:
  "map_grows user_entry_step a b \<Longrightarrow> map_grows user_entry_step b c \<Longrightarrow> map_grows user_entry_step a c"
  by (rule map_grows_trans) (auto intro: user_entry_step_trans)

lemma prefix_map_trans: "map_grows prefix a b \<Longrightarrow> map_grows prefix b c \<Longrightarrow> map_grows prefix a c"
  by (rule map_grows_trans) auto

lemmas map_refl [simp] =
  map_grows_refl [where step = "grows entry_step", OF grows_entries_refl]
  map_grows_refl [where step = user_entry_step, OF user_entry_step_refl]
  map_grows_refl [where step = prefix, OF prefix_order.refl]

lemma file_step_refl: "file_step s s"
  by (simp add: file_step_def)

lemma file_step_trans: "file_step s t \<Longrightarrow> file_step t u \<Longrightarrow> file_step s u"
  unfolding file_step_def
  by (elim conjE, intro conjI)
     (erule (1) session_map_trans | erule (1) user_map_trans | erule (1) prefix_map_trans)+

interpretation fstore: protocol file_ok file_step
  by unfold_locales (auto intro: file_step_refl file_step_trans)

section \<open>Steps of the store\<close>

lemma locked_obeys:
  assumes "\<And>s. file_ok s \<Longrightarrow> file_ok (snd (f s)) \<and> file_step s (snd (f s))"
  shows "obeys file_ok file_step (locked f)"
  unfolding obeys_def
proof (intro allI impI)
  fix c :: "'a file_db conn"
  assume p: "polite file_ok file_step (world c)" and i: "file_ok (tables c)"
  let ?s = "env_others (world c (tick c)) (tables c)"
  from p i have "file_ok ?s" "file_step (tables c) ?s" by (auto simp: polite_def)
  with assms [of ?s] show "file_ok (tables (snd (locked f c))) \<and>
      file_step (tables c) (tables (snd (locked f c))) \<and> world (snd (locked f c)) = world c"
    by (auto simp: locked_def Let_def intro: file_step_trans)
qed

lemma disk_obeys:
  "(\<And>s. file_ok s \<Longrightarrow> file_ok (snd (f s)) \<and> file_step s (snd (f s))) \<Longrightarrow>
   obeys file_ok file_step (disk f)"
  unfolding disk_def by (intro fstore.map_err_obeys fstore.stmt_obeys) simp

lemma reading_obeys: "obeys file_ok file_step (reading q)"
  unfolding reading_def by (rule locked_obeys) (simp add: file_step_refl)

lemma disk_read_obeys: "obeys file_ok file_step (disk (\<lambda>s. (q s, s)))"
  by (rule disk_obeys) (simp add: file_step_refl)

lemma now_str_obeys: "obeys file_ok file_step (now_str fmt)"
  unfolding now_str_def by (intro fstore.obeys_rules)

lemma flush_obeys:
  "obeys file_ok file_step flush_users" "obeys file_ok file_step flush_sessions"
  "obeys file_ok file_step flush_cron_jobs" "obeys file_ok file_step flush_credentials"
  unfolding flush_users_def flush_sessions_def flush_cron_jobs_def flush_credentials_def
  by (rule disk_obeys, simp add: file_ok_def file_step_def)+

lemmas file_obeys = flush_obeys reading_obeys disk_read_obeys now_str_obeys fstore.obeys_rules

text \<open>Replacing the sessions of a conversation, and the entry of a user.\<close>

lemma put_sessions:
  assumes "file_ok s" and "entries_ok es'" and "\<And>es. fs_sessions s k = Some es \<Longrightarrow> grows entry_step es es'"
  shows "file_ok (s\<lparr>fs_sessions := (fs_sessions s)(k \<mapsto> es')\<rparr>)"
    and "file_step s (s\<lparr>fs_sessions := (fs_sessions s)(k \<mapsto> es')\<rparr>)"
proof -
  have g: "map_grows (grows entry_step) (fs_sessions s) ((fs_sessions s)(k \<mapsto> es'))"
    using assms(3) by (intro map_grows_update) auto
  with assms(1,2) show "file_ok (s\<lparr>fs_sessions := (fs_sessions s)(k \<mapsto> es')\<rparr>)"
    by (auto simp: file_ok_def every_update intro: session_map_trans)
  from g show "file_step s (s\<lparr>fs_sessions := (fs_sessions s)(k \<mapsto> es')\<rparr>)"
    by (simp add: file_step_def)
qed

lemma put_user:
  assumes "file_ok s" and "\<And>u. fs_users s k = Some u \<Longrightarrow> user_entry_step u u'"
  shows "file_ok (s\<lparr>fs_users := (fs_users s)(k \<mapsto> u')\<rparr>)"
    and "file_step s (s\<lparr>fs_users := (fs_users s)(k \<mapsto> u')\<rparr>)"
proof -
  have g: "map_grows user_entry_step (fs_users s) ((fs_users s)(k \<mapsto> u'))"
    using assms(2) by (intro map_grows_update) auto
  with assms(1) show "file_ok (s\<lparr>fs_users := (fs_users s)(k \<mapsto> u')\<rparr>)"
    by (auto simp: file_ok_def intro: user_map_trans)
  from g show "file_step s (s\<lparr>fs_users := (fs_users s)(k \<mapsto> u')\<rparr>)"
    by (simp add: file_step_def)
qed

lemma put_skills:
  assumes "file_ok s" and "distinct (map sk_name l)"
  shows "file_ok (s\<lparr>fs_skills := (fs_skills s)(k \<mapsto> l)\<rparr>)"
  using assms by (simp add: file_ok_def every_update)

lemma others_frame [simp]:
  "file_ok (s\<lparr>fs_jobs := j\<rparr>) = file_ok s" "file_step s (s\<lparr>fs_jobs := j\<rparr>)"
  "file_ok (s\<lparr>fs_creds := c\<rparr>) = file_ok s" "file_step s (s\<lparr>fs_creds := c\<rparr>)"
  "file_ok (s\<lparr>fs_usage := u\<rparr>) = file_ok s" "file_step s (s\<lparr>fs_skills := m\<rparr>)"
  by (simp_all add: file_ok_def file_step_def)

section \<open>The lists of a conversation\<close>

lemma map_update_first:
  "(\<And>x. p x \<Longrightarrow> k (f x) = k x) \<Longrightarrow> map k (update_first p f xs) = map k xs"
  by (induction xs) auto

lemma length_update_first [simp]: "length (update_first p f xs) = length xs"
  by (induction xs) auto

lemma update_first_distinct:
  "distinct (map k xs) \<Longrightarrow>
   update_first (\<lambda>x. k x = v) f xs = map (\<lambda>x. if k x = v then f x else x) xs"
proof (induction xs)
  case (Cons x xs)
  have "map (\<lambda>y. if k y = k x then f y else y) xs = xs" if "k x \<notin> k ` set xs"
    using that by (induction xs) auto
  with Cons show ?case by auto
qed simp

lemma filter_key_distinct: "distinct (map k xs) \<Longrightarrow> length (filter (\<lambda>x. k x = v) xs) \<le> 1"
  by (induction xs) (auto simp: filter_empty_conv image_iff)

lemma map_entries_ok:
  assumes "distinct (map fe_session_id es)" and "\<And>e. entry_step e (f e)"
    and "\<And>e. fe_is_current (f e) \<Longrightarrow> fe_session_id e = sid"
  shows "entries_ok (map f es)"
proof -
  have id: "fe_session_id (f e) = fe_session_id e" for e using assms(2) by (simp add: entry_step_def)
  have "length (filter fe_is_current (map f es)) \<le> length (filter (\<lambda>e. fe_session_id e = sid) es)"
    using assms(3) by (induction es) auto
  also have "\<dots> \<le> 1" by (rule filter_key_distinct [OF assms(1)])
  finally show ?thesis using assms(1) id by (simp add: entries_ok_def comp_def)
qed

lemma map_entries_grow: "(\<And>e. entry_step e (f e)) \<Longrightarrow> grows entry_step es (map f es)"
  by (simp add: grows_def)

lemma map_entries_same:
  assumes "entries_ok es" and "\<And>e. entry_step e (f e)" and "\<And>e. fe_is_current (f e) \<Longrightarrow> fe_is_current e"
  shows "entries_ok (map f es)"
proof -
  have id: "fe_session_id (f e) = fe_session_id e" for e using assms(2) by (simp add: entry_step_def)
  have "length (filter fe_is_current (map f es)) \<le> length (filter fe_is_current es)"
    using assms(3) by (induction es) auto
  with assms(1) id show ?thesis by (simp add: entries_ok_def comp_def)
qed

lemma switch_entries_ok:
  assumes "entries_ok es"
  shows "entries_ok (switch_entries target now es)" and "grows entry_step es (switch_entries target now es)"
proof -
  have d: "distinct (map fe_session_id es)" using assms by (simp add: entries_ok_def)
  show "entries_ok (switch_entries target now es)"
    unfolding switch_entries_def
    by (rule map_entries_ok [OF d, where sid = target]) (auto simp: entry_step_def split: if_splits)
  show "grows entry_step es (switch_entries target now es)"
    unfolding switch_entries_def by (rule map_entries_grow) (simp add: entry_step_def)
qed

lemma set_current_entries_ok:
  assumes "entries_ok es" and "fe_is_current new"
  shows "entries_ok (set_current_entries new now es)"
    and "grows entry_step es (set_current_entries new now es)"
proof -
  let ?c = "\<lambda>e. e\<lparr>fe_is_current := False\<rparr>"
  let ?f = "\<lambda>e. if fe_session_id e = fe_session_id new
    then e\<lparr>fe_is_current := True, fe_last_active := now\<rparr> else e\<lparr>fe_is_current := False\<rparr>"
  have d: "distinct (map fe_session_id (map ?c es))" using assms by (simp add: entries_ok_def comp_def)
  have eq: "set_current_entries new now es =
      (if list_ex (\<lambda>e. fe_session_id e = fe_session_id new) es then map ?f es else map ?c es @ [new])"
    unfolding set_current_entries_def Let_def update_first_distinct [OF d]
    by (auto simp: list_ex_iff intro!: map_cong)
  have g: "grows entry_step es (map ?f es)" "grows entry_step es (map ?c es)"
    by (auto intro!: map_entries_grow simp: entry_step_def)
  have a: "grows entry_step (map ?c es) (map ?c es @ [new])" by (simp add: grows_append)
  from g a grows_entries_trans show "grows entry_step es (set_current_entries new now es)"
    unfolding eq by auto
  have "entries_ok (map ?f es)"
    using assms by (intro map_entries_ok [where sid = "fe_session_id new"])
      (auto simp: entries_ok_def entry_step_def split: if_splits)
  moreover have "entries_ok (map ?c es @ [new])" if "\<not> list_ex (\<lambda>e. fe_session_id e = fe_session_id new) es"
    using d that assms(2) by (auto simp: entries_ok_def list_ex_iff comp_def filter_map)
  ultimately show "entries_ok (set_current_entries new now es)" unfolding eq by simp
qed

lemma upsert_skills_ok:
  "distinct (map sk_name l) \<Longrightarrow> distinct (map sk_name (upsert_skills name content description now l))"
  by (auto simp: upsert_skills_def map_update_first list_ex_iff)

section \<open>The operations keep it\<close>

lemma entries_of_ok:
  "file_ok s \<Longrightarrow> entries_ok (case fs_sessions s k of None \<Rightarrow> [] | Some es \<Rightarrow> es)"
  by (auto simp: file_ok_def every_def entries_ok_def split: option.split)

lemma skills_of_ok: "file_ok s \<Longrightarrow> distinct (map sk_name (load_skills path s))"
  by (auto simp: file_ok_def every_def load_skills_def split: option.split)

lemma file_user_obeys:
  "obeys file_ok file_step (file_upsert_user fmt p u d)"
  "obeys file_ok file_step (file_set_user_preference p u key v)"
  "obeys file_ok file_step (file_get_user_preference p u key)"
  "obeys file_ok file_step (file_is_first_message p u)"
  unfolding file_upsert_user_def file_set_user_preference_def file_get_user_preference_def
    file_is_first_message_def
  by (intro file_obeys locked_obeys;
      force simp: file_step_refl user_entry_step_def intro!: put_user split: option.split)+

lemma file_session_read_obeys:
  "obeys file_ok file_step (file_get_current_session p ch cl)"
  "obeys file_ok file_step (file_get_session_last_active p ch cl)"
  "obeys file_ok file_step (file_list_sessions p ch cl)"
  "obeys file_ok file_step (file_find_sessions_by_prefix p ch cl pre)"
  unfolding file_get_current_session_def file_get_session_last_active_def file_list_sessions_def
    file_find_sessions_by_prefix_def
  by (intro file_obeys)+

lemma update_entries_obeys:
  assumes "\<And>e. entry_step e (f e)" and "\<And>e. fe_is_current (f e) \<Longrightarrow> fe_is_current e"
  shows "obeys file_ok file_step (locked (\<lambda>s. (Inr (), case fs_sessions s k of
      None \<Rightarrow> s | Some es \<Rightarrow> s\<lparr>fs_sessions := (fs_sessions s)(k \<mapsto> map f es)\<rparr>)))"
proof (rule locked_obeys)
  fix s :: "'a file_db" assume ok: "file_ok s"
  show "file_ok (snd (Inr (), case fs_sessions s k of
      None \<Rightarrow> s | Some es \<Rightarrow> s\<lparr>fs_sessions := (fs_sessions s)(k \<mapsto> map f es)\<rparr>)) \<and>
    file_step s (snd (Inr (), case fs_sessions s k of
      None \<Rightarrow> s | Some es \<Rightarrow> s\<lparr>fs_sessions := (fs_sessions s)(k \<mapsto> map f es)\<rparr>))"
  proof (cases "fs_sessions s k")
    case (Some es)
    then have "entries_ok es" using ok by (auto simp: file_ok_def every_def)
    with assms have "entries_ok (map f es)" "grows entry_step es (map f es)"
      by (auto intro: map_entries_same map_entries_grow)
    with Some show ?thesis by (auto intro!: put_sessions [OF ok])
  qed (simp add: ok file_step_refl)
qed

lemma put_set_current:
  assumes "file_ok s" and "fe_is_current new"
  shows "file_ok (s\<lparr>fs_sessions := (fs_sessions s)(k \<mapsto> set_current_entries new now
        (case fs_sessions s k of None \<Rightarrow> [] | Some es \<Rightarrow> es))\<rparr>)"
    and "file_step s (s\<lparr>fs_sessions := (fs_sessions s)(k \<mapsto> set_current_entries new now
        (case fs_sessions s k of None \<Rightarrow> [] | Some es \<Rightarrow> es))\<rparr>)"
  using entries_of_ok [OF assms(1), of k] set_current_entries_ok assms(2)
  by (auto intro!: put_sessions [OF assms(1)])

lemma put_switch:
  assumes "file_ok s" and "fs_sessions s k = Some es"
  shows "file_ok (s\<lparr>fs_sessions := (fs_sessions s)(k \<mapsto> switch_entries sid now es)\<rparr>)"
    and "file_step s (s\<lparr>fs_sessions := (fs_sessions s)(k \<mapsto> switch_entries sid now es)\<rparr>)"
  using switch_entries_ok entries_of_ok [OF assms(1), of k] assms(2)
  by (auto intro!: put_sessions [OF assms(1)])

lemma file_session_obeys:
  "obeys file_ok file_step (file_set_current_session fmt p ch u sid cl)"
  "obeys file_ok file_step (file_touch_session fmt p ch cl)"
  "obeys file_ok file_step (file_switch_session fmt p ch cl sid)"
  "obeys file_ok file_step (file_reset_session p ch cl)"
proof -
  show "obeys file_ok file_step (file_touch_session fmt p ch cl)"
    "obeys file_ok file_step (file_reset_session p ch cl)"
    unfolding file_touch_session_def file_reset_session_def Let_def
    by (intro file_obeys update_entries_obeys; simp add: entry_step_def split: if_splits)+
  show "obeys file_ok file_step (file_set_current_session fmt p ch u sid cl)"
    unfolding file_set_current_session_def Let_def
    by (intro file_obeys locked_obeys) (simp add: put_set_current)
  show "obeys file_ok file_step (file_switch_session fmt p ch cl sid)"
    unfolding file_switch_session_def Let_def
    by (intro file_obeys locked_obeys)
       (auto simp: file_step_refl put_switch split: option.split)
qed

lemma file_job_obeys:
  "obeys file_ok file_step (file_create_cron_job fmt tz spec)"
  "obeys file_ok file_step (file_list_cron_jobs iter p ch)"
  "obeys file_ok file_step (file_delete_cron_job j)"
  "obeys file_ok file_step (file_get_due_jobs fmt iter)"
  "obeys file_ok file_step (file_mark_job_run fmt tz j x)"
  "obeys file_ok file_step (file_update_cron_next_run j n)"
  "obeys file_ok file_step (file_get_cron_job_user_id j)"
  unfolding file_create_cron_job_def file_list_cron_jobs_def file_delete_cron_job_def
    file_get_due_jobs_def file_mark_job_run_def file_update_cron_next_run_def
    file_get_cron_job_user_id_def Let_def
  by (intro file_obeys locked_obeys; simp add: file_step_refl split: option.split)+

lemma file_credential_obeys:
  "obeys file_ok file_step (file_save_credential fmt p u t j x)"
  "obeys file_ok file_step (file_get_credential p u t)"
  "obeys file_ok file_step (file_list_credentials iter p)"
  "obeys file_ok file_step (file_delete_credential p u t)"
  unfolding file_save_credential_def file_get_credential_def file_list_credentials_def
    file_delete_credential_def Let_def
  by (intro file_obeys locked_obeys; simp)+

lemma load_usage_obeys:
  "obeys file_ok file_step (load_usage_summary_filtered fadd fzero day p u cl sid)"
  unfolding load_usage_summary_filtered_def by (rule disk_read_obeys)

lemma sum_days_obeys:
  "(\<And>d. obeys file_ok file_step (load d)) \<Longrightarrow> obeys file_ok file_step (sum_days fadd load ds u)"
  by (induction ds arbitrary: u) (auto intro: fstore.obeys_rules)

lemma file_usage_obeys:
  "obeys file_ok file_step (file_record_usage fmt fmt_day r)"
  "obeys file_ok file_step (file_get_usage_today fmt_day fadd fzero p u)"
  "obeys file_ok file_step (file_get_usage_total iter fadd fzero p u)"
  "obeys file_ok file_step (file_get_usage_session iter fadd fzero p u cl sid)"
proof -
  show "obeys file_ok file_step (file_record_usage fmt fmt_day r)"
    unfolding file_record_usage_def Let_def
    by (intro file_obeys disk_obeys)
       (auto simp: file_step_def intro!: map_grows_update split: option.split)
qed (unfold file_get_usage_today_def file_get_usage_total_def file_get_usage_session_def
      usage_days_def, (intro file_obeys load_usage_obeys;
      simp add: sum_days_obeys load_usage_obeys fstore.ret_obeys split: sum.split)+)

lemma file_skill_obeys:
  "obeys file_ok file_step (file_list_skills p ch)"
  "obeys file_ok file_step (file_get_skill p ch n)"
  "obeys file_ok file_step (file_upsert_skill fmt p ch n x d)"
  "obeys file_ok file_step (file_delete_skill p ch n)"
  unfolding file_list_skills_def file_get_skill_def file_upsert_skill_def file_delete_skill_def Let_def
  by (intro file_obeys disk_obeys;
      auto simp: file_step_refl put_skills upsert_skills_ok skills_of_ok distinct_map_filter)+

lemma file_open_ok: "file_ok s \<Longrightarrow> file_ok (file_open s)"
  by (simp add: file_ok_def file_open_def)

end
