(* ===== verification/File_Sessions.thy ===== *)
theory File_Sessions
  imports File_Inv Session_Spec
begin

text \<open>
  \<open>FileGatewayStore\<close> meets the session contract, with the text \<open>session_key\<close> for the conversation.
  Conversations whose keys are the same text are one conversation to it.
\<close>

definition entries_view :: "session_entry list \<Rightarrow> session_view" where
  "entries_view es =
     \<lparr>sv_current = map_option fe_session_id (latest (filter fe_is_current es)),
      sv_known = fe_session_id ` set es\<rparr>"

definition file_session_view :: "'f file_db \<Rightarrow> string \<Rightarrow> session_view" where
  "file_session_view s k = entries_view (case fs_sessions s k of None \<Rightarrow> [] | Some es \<Rightarrow> es)"

lemma image_map_same: "(\<And>x. k (f x) = k x) \<Longrightarrow> k ` set (map f xs) = k ` set xs"
  by (simp add: image_image)

lemma entries_view_known [simp]: "sv_known (entries_view es) = fe_session_id ` set es"
  by (simp add: entries_view_def)

lemma entries_view_none:
  "sv_current (entries_view es) = None \<longleftrightarrow> (\<forall>e \<in> set es. \<not> fe_is_current e)"
proof -
  have "latest xs = None \<longleftrightarrow> xs = []" for xs
    by (cases xs) (auto split: option.split)
  then show ?thesis by (simp add: entries_view_def filter_empty_conv)
qed

lemma entries_view_current:
  assumes "entries_ok es" and "e \<in> set es" and "fe_is_current e"
  shows "sv_current (entries_view es) = Some (fe_session_id e)"
proof -
  from assms have "e \<in> set (filter fe_is_current es)" "length (filter fe_is_current es) \<le> 1"
    by (auto simp: entries_ok_def)
  then have "filter fe_is_current es = [e]"
    by (cases "filter fe_is_current es") auto
  then show ?thesis by (simp add: entries_view_def)
qed

lemma entries_view_eqI:
  assumes "entries_ok es" and "e \<in> set es" and "fe_is_current e" and "fe_session_id e = sid"
    and "fe_session_id ` set es = known"
  shows "entries_view es = \<lparr>sv_current = Some sid, sv_known = known\<rparr>"
  using entries_view_current [OF assms(1-3)] assms(4,5) by simp

lemma entries_view_set_current:
  assumes "entries_ok es" and "fe_is_current new"
  shows "entries_view (set_current_entries new now es) =
    \<lparr>sv_current = Some (fe_session_id new), sv_known = insert (fe_session_id new) (fe_session_id ` set es)\<rparr>"
proof -
  let ?es = "set_current_entries new now es"
  have ids: "fe_session_id ` set ?es = insert (fe_session_id new) (fe_session_id ` set es)"
  proof -
    have "map fe_session_id ?es =
        (if fe_session_id new \<in> fe_session_id ` set es then map fe_session_id es
         else map fe_session_id es @ [fe_session_id new])"
      by (auto simp: set_current_entries_def Let_def map_update_first list_ex_iff comp_def
          simp flip: image_iff intro: rev_image_eqI)
    then have "set (map fe_session_id ?es) = insert (fe_session_id new) (set (map fe_session_id es))"
      by (auto split: if_splits)
    then show ?thesis by simp
  qed
  have cur: "\<exists>e \<in> set ?es. fe_session_id e = fe_session_id new \<and> fe_is_current e"
  proof -
    have "\<exists>y \<in> set (update_first p f xs). p' y" if "\<exists>x \<in> set xs. p x" "\<And>x. p x \<Longrightarrow> p' (f x)"
      for p p' and f :: "session_entry \<Rightarrow> session_entry" and xs
      using that by (induction xs) auto
    then show ?thesis
      using assms(2) by (auto simp: set_current_entries_def Let_def list_ex_iff)
  qed
  then show ?thesis
    using set_current_entries_ok(1) [OF assms] ids by (auto intro: entries_view_eqI)
qed

lemma entries_view_switch:
  assumes "entries_ok es" and "sid \<in> fe_session_id ` set es"
  shows "entries_view (switch_entries sid now es) =
    \<lparr>sv_current = Some sid, sv_known = fe_session_id ` set es\<rparr>"
proof -
  from assms(2) obtain e where "e \<in> set es" "fe_session_id e = sid" by auto
  then have "e\<lparr>fe_is_current := True, fe_last_active := now\<rparr> \<in> set (switch_entries sid now es)"
    by (force simp: switch_entries_def)
  moreover have "fe_session_id ` set (switch_entries sid now es) = fe_session_id ` set es"
    unfolding switch_entries_def by (rule image_map_same) simp
  ultimately show ?thesis
    using \<open>fe_session_id e = sid\<close>
    by (intro entries_view_eqI [OF switch_entries_ok(1) [OF assms(1)],
        of "e\<lparr>fe_is_current := True, fe_last_active := now\<rparr>"]) auto
qed

lemma entries_view_reset:
  "entries_view (map (\<lambda>e. if fe_is_current e then e\<lparr>fe_is_current := False\<rparr> else e) es) =
   (entries_view es)\<lparr>sv_current := None\<rparr>"
proof -
  let ?es = "map (\<lambda>e. if fe_is_current e then e\<lparr>fe_is_current := False\<rparr> else e) es"
  have "sv_current (entries_view ?es) = None" by (auto simp: entries_view_none)
  moreover have "fe_session_id ` set ?es = fe_session_id ` set es"
    by (rule image_map_same) simp
  ultimately show ?thesis by simp
qed

lemma entries_view_touch:
  assumes "entries_ok es"
  shows "entries_view (map (\<lambda>e. if fe_is_current e then e\<lparr>fe_last_active := now\<rparr> else e) es) = entries_view es"
proof -
  let ?f = "\<lambda>e. if fe_is_current e then e\<lparr>fe_last_active := now\<rparr> else e"
  have ok: "entries_ok (map ?f es)"
    using assms by (rule map_entries_same) (auto simp: entry_step_def split: if_splits)
  have "sv_current (entries_view (map ?f es)) = sv_current (entries_view es)"
  proof (cases "\<exists>e \<in> set es. fe_is_current e")
    case True
    then obtain e where e: "e \<in> set es" "fe_is_current e" by auto
    then have "?f e \<in> set (map ?f es)" by force
    with e entries_view_current [OF assms e] entries_view_current [OF ok this] show ?thesis by simp
  next
    case False
    then have "sv_current (entries_view (map ?f es)) = None" "sv_current (entries_view es) = None"
      by (auto simp: entries_view_none)
    then show ?thesis by simp
  qed
  moreover have "fe_session_id ` set (map ?f es) = fe_session_id ` set es"
    by (rule image_map_same) simp
  ultimately show ?thesis by simp
qed

section \<open>The operations seen through the view\<close>

lemma file_session_view_update:
  "file_session_view (s\<lparr>fs_sessions := (fs_sessions s)(k \<mapsto> es)\<rparr>) =
   (file_session_view s)(k := entries_view es)"
  by (simp add: fun_eq_iff file_session_view_def)

lemma file_session_view_disk [simp]:
  "file_session_view (s\<lparr>fs_disk_sessions := d\<rparr>) = file_session_view s"
  by (simp add: fun_eq_iff file_session_view_def)

lemma file_view_known: "sv_known (file_session_view s k) =
    fe_session_id ` set (case fs_sessions s k of None \<Rightarrow> [] | Some es \<Rightarrow> es)"
  by (simp add: file_session_view_def)

lemma locked_quiet [quiet_simps]:
  "quiet c \<Longrightarrow> locked f c = (fst (f (tables c)), c\<lparr>tick := Suc (tick c), tables := snd (f (tables c))\<rparr>)"
  by (simp add: locked_def Let_def quiet_def)

lemma disk_quiet [quiet_simps]:
  "quiet c \<Longrightarrow> disk f c = (Inr (fst (f (tables c))), c\<lparr>tick := Suc (tick c), tables := snd (f (tables c))\<rparr>)"
  by (simp add: disk_def map_err_def stmt_quiet)

lemma now_str_run [quiet_simps]:
  "now_str fmt c = (Inr (fmt (env_utc (here c))), c\<lparr>tick := Suc (tick c)\<rparr>)"
  by (simp add: now_str_def and_then_def utc_now_def ret_def)

lemma file_get_current_session_refines:
  "refines file_ok file_session_view (file_get_current_session p ch cl)
     (spec_get_current (session_key p ch cl))"
  by (rule fstore.refinesI [OF file_session_read_obeys(1)])
     (simp add: file_get_current_session_def reading_def locked_quiet spec_get_current_def
        file_session_view_def entries_view_def file_current_def split: option.split)

lemma file_set_current_session_refines:
  "refines file_ok file_session_view (file_set_current_session fmt p ch u sid cl)
     (spec_set_current (session_key p ch cl) sid)"
proof (rule fstore.refinesI [OF file_session_obeys(1)])
  fix c :: "'a file_db conn" assume c: "quiet c" "file_ok (tables c)"
  show "spec_set_current (session_key p ch cl) sid (file_session_view (tables c)) =
      (ok_of (fst (file_set_current_session fmt p ch u sid cl c)),
       file_session_view (tables (snd (file_set_current_session fmt p ch u sid cl c))))"
    using c(1) entries_view_set_current [OF entries_of_ok [OF c(2)]]
    by (simp add: file_set_current_session_def Let_def and_then_def now_str_run locked_quiet
        flush_sessions_def disk_quiet spec_set_current_def file_session_view_update file_view_known)
qed

lemma file_switch_session_refines:
  "refines file_ok file_session_view (file_switch_session fmt p ch cl sid)
     (spec_switch (session_key p ch cl) sid)"
proof (rule fstore.refinesI [OF file_session_obeys(3)])
  fix c :: "'a file_db conn" assume c: "quiet c" "file_ok (tables c)"
  let ?k = "session_key p ch cl"
  show "spec_switch ?k sid (file_session_view (tables c)) =
      (ok_of (fst (file_switch_session fmt p ch cl sid c)),
       file_session_view (tables (snd (file_switch_session fmt p ch cl sid c))))"
  proof (cases "sid \<in> sv_known (file_session_view (tables c) ?k)")
    case True
    then obtain es where es: "fs_sessions (tables c) ?k = Some es" "sid \<in> fe_session_id ` set es"
      by (cases "fs_sessions (tables c) ?k") (auto simp: file_view_known)
    moreover from es have "list_ex (\<lambda>e. fe_session_id e = sid) es" by (auto simp: list_ex_iff)
    moreover have "entries_ok es" using entries_of_ok [OF c(2), of ?k] es by simp
    ultimately show ?thesis
      using c(1) True entries_view_switch [of es sid]
      by (simp add: file_switch_session_def Let_def and_then_def now_str_run locked_quiet ret_def
          flush_sessions_def disk_quiet spec_switch_def file_session_view_update file_view_known)
         (simp add: file_session_view_def entries_view_def)
  next
    case False
    then show ?thesis
      using c(1)
      by (auto simp: file_switch_session_def Let_def and_then_def now_str_run locked_quiet ret_def
          spec_switch_def file_view_known list_ex_iff split: option.split)
  qed
qed

lemma file_reset_session_refines:
  "refines file_ok file_session_view (file_reset_session p ch cl) (spec_reset (session_key p ch cl))"
proof (rule fstore.refinesI [OF file_session_obeys(4)])
  fix c :: "'a file_db conn" assume c: "quiet c" "file_ok (tables c)"
  show "spec_reset (session_key p ch cl) (file_session_view (tables c)) =
      (ok_of (fst (file_reset_session p ch cl c)),
       file_session_view (tables (snd (file_reset_session p ch cl c))))"
    using c(1) entries_view_none [of "[]"]
    by (auto simp: file_reset_session_def Let_def and_then_def locked_quiet flush_sessions_def
        disk_quiet spec_reset_def file_session_view_update entries_view_reset fun_eq_iff
        file_session_view_def split: option.split)
qed

lemma file_touch_session_refines:
  "refines file_ok file_session_view (file_touch_session fmt p ch cl) (spec_touch (session_key p ch cl))"
proof (rule fstore.refinesI [OF file_session_obeys(2)])
  fix c :: "'a file_db conn" assume c: "quiet c" "file_ok (tables c)"
  show "spec_touch (session_key p ch cl) (file_session_view (tables c)) =
      (ok_of (fst (file_touch_session fmt p ch cl c)),
       file_session_view (tables (snd (file_touch_session fmt p ch cl c))))"
    using c(1) entries_of_ok [OF c(2), of "session_key p ch cl"]
    by (auto simp: file_touch_session_def Let_def and_then_def now_str_run locked_quiet
        flush_sessions_def disk_quiet spec_touch_def file_session_view_update entries_view_touch
        fun_eq_iff file_session_view_def split: option.split)
qed

interpretation file_sessions: session_store file_ok file_session_view session_key
  file_get_current_session "file_set_current_session fmt" "file_switch_session fmt"
  file_reset_session "file_touch_session fmt" for fmt
  by unfold_locales
     (simp_all add: file_get_current_session_refines file_set_current_session_refines
        file_switch_session_refines file_reset_session_refines file_touch_session_refines)

end
