(* ===== verification/Store_Calls.thy ===== *)
theory Store_Calls
  imports Store_Sessions File_Sessions
begin

text \<open>
  The \<open>GatewayStore\<close> trait as a vocabulary of calls, which both backends understand, and what any
  sequence of calls keeps. A call's value is dropped here; the caller goes on whether it was an
  error or not.
\<close>

datatype 'f store_call =
    IsFirstMessage string string
  | UpsertUser string string string
  | SetUserPreference string string string string
  | GetUserPreference string string string
  | GetCurrentSession string string string
  | GetSessionLastActive string string string
  | SetCurrentSession string string string string string
  | TouchSession string string string
  | ListSessions string string string
  | FindSessionsByPrefix string string string string
  | SwitchSession string string string string
  | ResetSession string string string
  | CreateCronJob cron_job_spec
  | ListCronJobs string string
  | DeleteCronJob string
  | GetDueJobs
  | MarkJobRun string string
  | UpdateCronNextRun string string
  | GetCronJobUserId string
  | SaveCredential string string string json "string option"
  | GetCredential string string string
  | ListCredentials string
  | DeleteCredential string string string
  | RecordUsage "'f usage_record"
  | GetUsageToday string string
  | GetUsageTotal string string
  | GetUsageSession string string string string
  | ListSkills string string
  | GetSkill string string string
  | UpsertSkill string string string string string
  | DeleteSkill string string string

text \<open>What the backends take from outside the repository.\<close>

record 'f runtime =
  rt_fmt :: "int \<Rightarrow> string"
  rt_fmt_day :: "int \<Rightarrow> string"
  rt_tz :: int
  rt_ser :: "json \<Rightarrow> string"
  rt_de :: "string \<Rightarrow> json option"
  rt_path_set :: "string \<Rightarrow> json \<Rightarrow> string \<Rightarrow> json"
  rt_path_get :: "string \<Rightarrow> json \<Rightarrow> string option"
  rt_fsum :: "'f list \<Rightarrow> 'f"
  rt_fadd :: "'f \<Rightarrow> 'f \<Rightarrow> 'f"
  rt_fzero :: 'f
  rt_iter :: "string set \<Rightarrow> string list"

definition quietly :: "('s, 'e, 'a) op \<Rightarrow> ('s, 'e, unit) op" where
  "quietly m = and_then (attempt m) (\<lambda>_ :: 'e + 'a. ret ())"

fun sqlite_call :: "'f runtime \<Rightarrow> 'f store_call \<Rightarrow> ('f, unit) store_op" where
  "sqlite_call rt (IsFirstMessage p u) = quietly (sqlite_is_first_message p u)"
| "sqlite_call rt (UpsertUser p u d) = quietly (sqlite_upsert_user p u d)"
| "sqlite_call rt (SetUserPreference p u k v) =
     quietly (sqlite_set_user_preference (rt_path_set rt) p u k v)"
| "sqlite_call rt (GetUserPreference p u k) =
     quietly (sqlite_get_user_preference (rt_path_get rt) p u k)"
| "sqlite_call rt (GetCurrentSession p ch cl) = quietly (sqlite_get_current_session p ch cl)"
| "sqlite_call rt (GetSessionLastActive p ch cl) = quietly (sqlite_get_session_last_active p ch cl)"
| "sqlite_call rt (SetCurrentSession p ch u sid cl) =
     quietly (sqlite_set_current_session p ch u sid cl)"
| "sqlite_call rt (TouchSession p ch cl) = quietly (sqlite_touch_session p ch cl)"
| "sqlite_call rt (ListSessions p ch cl) = quietly (sqlite_list_sessions p ch cl)"
| "sqlite_call rt (FindSessionsByPrefix p ch cl x) = quietly (sqlite_find_sessions_by_prefix p ch cl x)"
| "sqlite_call rt (SwitchSession p ch cl sid) = quietly (sqlite_switch_session p ch cl sid)"
| "sqlite_call rt (ResetSession p ch cl) = quietly (sqlite_reset_session p ch cl)"
| "sqlite_call rt (CreateCronJob spec) = quietly (sqlite_create_cron_job (rt_fmt rt) (rt_tz rt) spec)"
| "sqlite_call rt (ListCronJobs p ch) = quietly (sqlite_list_cron_jobs p ch)"
| "sqlite_call rt (DeleteCronJob j) = quietly (sqlite_delete_cron_job j)"
| "sqlite_call rt GetDueJobs = quietly sqlite_get_due_jobs"
| "sqlite_call rt (MarkJobRun j x) = quietly (sqlite_mark_job_run (rt_fmt rt) (rt_tz rt) j x)"
| "sqlite_call rt (UpdateCronNextRun j n) = quietly (sqlite_update_cron_next_run j n)"
| "sqlite_call rt (GetCronJobUserId j) = quietly (sqlite_get_cron_job_user_id j)"
| "sqlite_call rt (SaveCredential p u t j x) = quietly (sqlite_save_credential (rt_ser rt) p u t j x)"
| "sqlite_call rt (GetCredential p u t) = quietly (sqlite_get_credential (rt_de rt) p u t)"
| "sqlite_call rt (ListCredentials p) = quietly (sqlite_list_credentials (rt_de rt) p)"
| "sqlite_call rt (DeleteCredential p u t) = quietly (sqlite_delete_credential p u t)"
| "sqlite_call rt (RecordUsage r) = quietly (sqlite_record_usage r)"
| "sqlite_call rt (GetUsageToday p u) = quietly (sqlite_get_usage_today (rt_fsum rt) p u)"
| "sqlite_call rt (GetUsageTotal p u) = quietly (sqlite_get_usage_total (rt_fsum rt) p u)"
| "sqlite_call rt (GetUsageSession p u cl sid) =
     quietly (sqlite_get_usage_session (rt_fsum rt) p u cl sid)"
| "sqlite_call rt (ListSkills p ch) = quietly (sqlite_list_skills p ch)"
| "sqlite_call rt (GetSkill p ch n) = quietly (sqlite_get_skill p ch n)"
| "sqlite_call rt (UpsertSkill p ch n x d) = quietly (sqlite_upsert_skill p ch n x d)"
| "sqlite_call rt (DeleteSkill p ch n) = quietly (sqlite_delete_skill p ch n)"

fun file_call :: "'f runtime \<Rightarrow> 'f store_call \<Rightarrow> ('f, unit) file_op" where
  "file_call rt (IsFirstMessage p u) = quietly (file_is_first_message p u)"
| "file_call rt (UpsertUser p u d) = quietly (file_upsert_user (rt_fmt rt) p u d)"
| "file_call rt (SetUserPreference p u k v) = quietly (file_set_user_preference p u k v)"
| "file_call rt (GetUserPreference p u k) = quietly (file_get_user_preference p u k)"
| "file_call rt (GetCurrentSession p ch cl) = quietly (file_get_current_session p ch cl)"
| "file_call rt (GetSessionLastActive p ch cl) = quietly (file_get_session_last_active p ch cl)"
| "file_call rt (SetCurrentSession p ch u sid cl) =
     quietly (file_set_current_session (rt_fmt rt) p ch u sid cl)"
| "file_call rt (TouchSession p ch cl) = quietly (file_touch_session (rt_fmt rt) p ch cl)"
| "file_call rt (ListSessions p ch cl) = quietly (file_list_sessions p ch cl)"
| "file_call rt (FindSessionsByPrefix p ch cl x) = quietly (file_find_sessions_by_prefix p ch cl x)"
| "file_call rt (SwitchSession p ch cl sid) = quietly (file_switch_session (rt_fmt rt) p ch cl sid)"
| "file_call rt (ResetSession p ch cl) = quietly (file_reset_session p ch cl)"
| "file_call rt (CreateCronJob spec) = quietly (file_create_cron_job (rt_fmt rt) (rt_tz rt) spec)"
| "file_call rt (ListCronJobs p ch) = quietly (file_list_cron_jobs (rt_iter rt) p ch)"
| "file_call rt (DeleteCronJob j) = quietly (file_delete_cron_job j)"
| "file_call rt GetDueJobs = quietly (file_get_due_jobs (rt_fmt rt) (rt_iter rt))"
| "file_call rt (MarkJobRun j x) = quietly (file_mark_job_run (rt_fmt rt) (rt_tz rt) j x)"
| "file_call rt (UpdateCronNextRun j n) = quietly (file_update_cron_next_run j n)"
| "file_call rt (GetCronJobUserId j) = quietly (file_get_cron_job_user_id j)"
| "file_call rt (SaveCredential p u t j x) = quietly (file_save_credential (rt_fmt rt) p u t j x)"
| "file_call rt (GetCredential p u t) = quietly (file_get_credential p u t)"
| "file_call rt (ListCredentials p) = quietly (file_list_credentials (rt_iter rt) p)"
| "file_call rt (DeleteCredential p u t) = quietly (file_delete_credential p u t)"
| "file_call rt (RecordUsage r) = quietly (file_record_usage (rt_fmt rt) (rt_fmt_day rt) r)"
| "file_call rt (GetUsageToday p u) =
     quietly (file_get_usage_today (rt_fmt_day rt) (rt_fadd rt) (rt_fzero rt) p u)"
| "file_call rt (GetUsageTotal p u) =
     quietly (file_get_usage_total (rt_iter rt) (rt_fadd rt) (rt_fzero rt) p u)"
| "file_call rt (GetUsageSession p u cl sid) =
     quietly (file_get_usage_session (rt_iter rt) (rt_fadd rt) (rt_fzero rt) p u cl sid)"
| "file_call rt (ListSkills p ch) = quietly (file_list_skills p ch)"
| "file_call rt (GetSkill p ch n) = quietly (file_get_skill p ch n)"
| "file_call rt (UpsertSkill p ch n x d) = quietly (file_upsert_skill (rt_fmt rt) p ch n x d)"
| "file_call rt (DeleteSkill p ch n) = quietly (file_delete_skill p ch n)"

definition run_store :: "('c \<Rightarrow> ('s, 'e, unit) op) \<Rightarrow> 'c list \<Rightarrow> 's conn \<Rightarrow> 's conn" where
  "run_store call calls c = fold (\<lambda>k c. snd (call k c)) calls c"

text \<open>A backend every call of which obeys the protocol.\<close>

locale gateway_store = protocol I R for I :: "'s \<Rightarrow> bool" and R +
  fixes call :: "'c \<Rightarrow> ('s, 'e, unit) op"
  assumes call_obeys: "obeys I R (call k)"
begin

lemma run_obeys:
  assumes "polite I R (world c)" and "I (tables c)"
  shows "I (tables (run_store call calls c)) \<and> R (tables c) (tables (run_store call calls c)) \<and>
    world (run_store call calls c) = world c"
  using assms
proof (induction calls arbitrary: c)
  case Nil
  then show ?case by (simp add: run_store_def refl)
next
  case (Cons k calls)
  let ?c = "snd (call k c)"
  from Cons.prems call_obeys [of k] have 1: "I (tables ?c)" "R (tables c) (tables ?c)" "world ?c = world c"
    by (auto simp: obeys_def)
  with Cons.IH [of ?c] Cons.prems have
    "I (tables (run_store call calls ?c)) \<and> R (tables ?c) (tables (run_store call calls ?c)) \<and>
     world (run_store call calls ?c) = world c" by simp
  with 1 trans show ?case by (fastforce simp: run_store_def)
qed

end

lemma sqlite_quietly: "obeys gw_ok gw_step m \<Longrightarrow> obeys gw_ok gw_step (quietly m)"
  unfolding quietly_def by (intro gw.obeys_rules)

lemma file_quietly: "obeys file_ok file_step m \<Longrightarrow> obeys file_ok file_step (quietly m)"
  unfolding quietly_def by (intro fstore.obeys_rules)

interpretation sqlite_calls: gateway_store gw_ok gw_step "sqlite_call rt" for rt
proof unfold_locales
  show "obeys gw_ok gw_step (sqlite_call rt k)" for k
    by (cases k)
       (simp_all add: sqlite_quietly upsert_user_obeys sqlite_user_obeys sqlite_session_obeys
          sqlite_set_current_session_obeys sqlite_switch_session_obeys sqlite_job_obeys
          sqlite_credential_obeys sqlite_usage_obeys sqlite_skill_obeys)
qed

interpretation file_calls: gateway_store file_ok file_step "file_call rt" for rt
proof unfold_locales
  show "obeys file_ok file_step (file_call rt k)" for k
    by (cases k)
       (simp_all add: file_quietly file_user_obeys file_session_read_obeys file_session_obeys
          file_job_obeys file_credential_obeys file_usage_obeys file_skill_obeys)
qed

end
