(* ===== verification/Store_Props.thy ===== *)
theory Store_Props
  imports Store_Calls
begin

text \<open>
  What the gateway's stores guarantee: what stays true of the SQLite and the file backend under any
  sequence of calls, interference and failures included, and what a caller reads back.
\<close>

section \<open>Example stores\<close>

definition demo_session :: "int \<Rightarrow> string \<Rightarrow> bool \<Rightarrow> session_row" where
  "demo_session i sid cur =
     \<lparr>se_id = i, se_platform = ''p'', se_chat_id = ''c'', se_user_id = ''u'', se_cli_profile = ''k'',
      se_session_id = sid, se_is_current = cur, se_created_at = ''0'', se_last_active = ''0''\<rparr>"

definition demo_job :: "string \<Rightarrow> string option \<Rightarrow> job_row" where
  "demo_job j t =
     \<lparr>jo_job_id = j, jo_platform = ''p'', jo_chat_id = ''c'', jo_user_id = ''u'',
      jo_cron_expr = ''*/5 * * * *'', jo_message = ''hi'', jo_description = [], jo_enabled = True,
      jo_last_run = None, jo_next_run = t, jo_created_at = ''0''\<rparr>"

definition demo_gw :: "int gw_db" where
  "demo_gw =
     \<lparr>gw_users = [\<lparr>gu_platform = ''p'', gu_user_id = ''u'', gu_display_name = ''n'',
                   gu_preferences = None, gu_updated_at = ''0''\<rparr>],
      gw_sessions = [demo_session 0 ''s1'' False, demo_session 1 ''s2'' True],
      gw_next_session = 2, gw_jobs = [demo_job ''j'' None, demo_job ''l'' (Some ''m'')],
      gw_creds = [], gw_usage = [], gw_skills = []\<rparr>"

definition demo_entry :: "string \<Rightarrow> bool \<Rightarrow> session_entry" where
  "demo_entry sid cur =
     \<lparr>fe_session_id = sid, fe_platform = ''p'', fe_chat_id = ''c'', fe_user_id = ''u'',
      fe_cli_profile = ''k'', fe_is_current = cur, fe_created_at = ''0'', fe_last_active = ''0''\<rparr>"

definition demo_files :: "int file_db" where
  "demo_files =
     \<lparr>fs_users = Map.empty, fs_sessions = [''p:c:k'' \<mapsto> [demo_entry ''s1'' True]],
      fs_jobs = Map.empty, fs_creds = Map.empty,
      fs_disk_users = Map.empty, fs_disk_sessions = Map.empty,
      fs_disk_jobs = Map.empty, fs_disk_creds = Map.empty,
      fs_usage = Map.empty, fs_skills = Map.empty\<rparr>"

definition demo_runtime :: "int runtime" where
  "demo_runtime =
     \<lparr>rt_fmt = show_int, rt_fmt_day = show_int, rt_tz = 8, rt_ser = (\<lambda>_. []), rt_de = (\<lambda>_. None),
      rt_path_set = (\<lambda>_ j _. j), rt_path_get = (\<lambda>_ _. None), rt_fsum = sum_list, rt_fadd = (+),
      rt_fzero = 0, rt_iter = (\<lambda>_. [])\<rparr>"

lemma demo_gw_ok: "gw_ok demo_gw"
  by (simp add: gw_ok_def demo_gw_def demo_session_def demo_job_def sessions_ok_def one_current_def
      chat_of_def)

lemma demo_files_ok: "file_ok demo_files"
  by (simp add: file_ok_def demo_files_def every_def entries_ok_def map_grows_def demo_entry_def)

lemma calm_gw [simp]: "polite gw_ok gw_step calm_env"
  by (simp add: polite_def calm_env_def gw_step_refl)

lemma calm_files [simp]: "polite file_ok file_step calm_env"
  by (simp add: polite_def calm_env_def file_step_refl)

section \<open>Whatever happens\<close>

text \<open>
  Property C33: on well-formed tables, any sequence of calls of the SQLite store leaves well-formed
  tables (unique keys, one current session per conversation), and never loses a user, a session
  or a usage record, whichever statements fail and whatever well-behaved writers do in between.
\<close>

theorem sqlite_store_keeps:
  assumes "gw_ok (tables c)" and "polite gw_ok gw_step (world c)"
  shows "gw_ok (tables (run_store (sqlite_call rt) calls c)) \<and>
         gw_step (tables c) (tables (run_store (sqlite_call rt) calls c))"
  using sqlite_calls.run_obeys [OF assms(2,1)] by blast

lemma sqlite_store_keeps_witness:
  "gw_ok (tables (run_store (sqlite_call demo_runtime) [SwitchSession ''p'' ''c'' ''k'' ''s1''] (calm demo_gw)))"
  using sqlite_store_keeps [of "calm demo_gw"] demo_gw_ok by simp

text \<open>
  Whatever calls were made of the SQLite store, a conversation has at most one current
  session.
\<close>

theorem one_current_session:
  assumes "gw_ok (tables c)" and "polite gw_ok gw_step (world c)"
  shows "length (filter (\<lambda>r. in_chat p ch cl r \<and> se_is_current r)
           (gw_sessions (tables (run_store (sqlite_call rt) calls c)))) \<le> 1"
proof -
  let ?rows = "gw_sessions (tables (run_store (sqlite_call rt) calls c))"
  let ?q = "\<lambda>r. in_chat p ch cl r \<and> se_is_current r"
  have ok: "distinct (map se_id ?rows)" "one_current ?rows"
    using sqlite_calls.run_obeys [OF assms(2,1), of rt calls] by (auto simp: gw_ok_def sessions_ok_def)
  show ?thesis
  proof (cases "\<exists>r \<in> set ?rows. ?q r")
    case True
    then obtain r where r: "r \<in> set ?rows" "?q r" by blast
    have "se_id x = se_id r" if "x \<in> set ?rows" "?q x" for x
      using ok(2) r that unfolding one_current_def chat_of_in_chat by metis
    then have "filter ?q ?rows = filter (\<lambda>x. ?q x \<and> se_id x = se_id r) ?rows"
      by (intro filter_cong) (simp_all, blast)
    also have "length \<dots> \<le> 1"
      using affected_distinct [OF ok(1), of "\<lambda>x. ?q x \<and> se_id x = se_id r" "se_id r"]
      by (simp add: affected_def)
    finally show ?thesis .
  next
    case False
    then have "filter ?q ?rows = []" by (simp add: filter_empty_conv)
    then show ?thesis by simp
  qed
qed

lemma one_current_session_witness:
  "length (filter (\<lambda>r. in_chat ''p'' ''c'' ''k'' r \<and> se_is_current r)
     (gw_sessions (tables (run_store (sqlite_call demo_runtime)
        [SetCurrentSession ''p'' ''c'' ''u'' ''s3'' ''k''] (calm demo_gw))))) \<le> 1"
  using one_current_session [of "calm demo_gw"] demo_gw_ok by simp

definition knows :: "(string \<Rightarrow> session_entry list option) \<Rightarrow> string \<Rightarrow> string \<Rightarrow> bool" where
  "knows m k sid \<longleftrightarrow> (\<exists>es. m k = Some es \<and> sid \<in> fe_session_id ` set es)"

lemma knows_grows: "map_grows (grows entry_step) m m' \<Longrightarrow> knows m k sid \<Longrightarrow> knows m' k sid"
proof -
  assume "map_grows (grows entry_step) m m'" and "knows m k sid"
  then obtain es es' e where e: "m' k = Some es'" "grows entry_step es es'" "e \<in> set es"
      "fe_session_id e = sid"
    unfolding knows_def map_grows_def by blast
  from grows_member [OF e(2,3)] obtain e' where "e' \<in> set es'" "entry_step e e'" by blast
  with e show ?thesis by (auto simp: knows_def entry_step_def intro!: rev_image_eqI)
qed

lemma set_current_saved:
  assumes "file_ok (tables c)" and "polite file_ok file_step (world c)"
    and "file_set_current_session fmt p ch u sid cl c = (Inr (), c')"
  shows "knows (fs_disk_sessions (tables c')) (session_key p ch cl) sid"
    and "file_ok (tables c')" and "world c' = world c"
proof -
  let ?k = "session_key p ch cl"
  show "file_ok (tables c')" "world c' = world c"
    using file_session_obeys(1) [of fmt p ch u sid cl] assms by (force simp: obeys_def)+
  define t0 where "t0 = env_others (world c (Suc (Suc (tick c)))) (tables c)"
  define now where "now = fmt (env_utc (world c (Suc (tick c))))"
  define new where "new = \<lparr>fe_session_id = sid, fe_platform = p, fe_chat_id = ch, fe_user_id = u,
      fe_cli_profile = cl, fe_is_current = True, fe_created_at = fmt (env_utc (here c)),
      fe_last_active = now\<rparr>"
  define es where "es = (case fs_sessions t0 ?k of None \<Rightarrow> [] | Some es \<Rightarrow> es)"
  define t1 where "t1 = t0\<lparr>fs_sessions := (fs_sessions t0)(?k \<mapsto> set_current_entries new now es)\<rparr>"
  define c1 where "c1 = c\<lparr>tick := Suc (Suc (Suc (tick c))), tables := t1\<rparr>"
  have flush: "flush_sessions c1 = (Inr (), c')"
    using assms(3) unfolding file_set_current_session_def Let_def and_then_def now_str_run locked_def
      c1_def t1_def es_def new_def now_def t0_def
    by simp
  have "file_ok t0" using assms(1,2) by (simp add: t0_def polite_def)
  moreover have new: "fe_is_current new" "fe_session_id new = sid" by (simp_all add: new_def)
  ultimately have "sid \<in> sv_known (entries_view (set_current_entries new now es))" "file_ok t1"
    unfolding es_def t1_def
    by (simp_all add: entries_view_set_current [OF entries_of_ok] put_set_current(1) del: entries_view_known)
  then have "knows (fs_sessions t1) ?k sid" "file_ok t1" by (simp_all add: knows_def t1_def)
  moreover have "file_step t1 (env_others (world c (tick c1)) t1)"
    using assms(2) \<open>file_ok t1\<close> by (simp add: polite_def)
  ultimately have "knows (fs_sessions (env_others (world c (tick c1)) t1)) ?k sid"
    by (auto simp: file_step_def intro: knows_grows)
  then show "knows (fs_disk_sessions (tables c')) ?k sid"
    using flush
    by (auto simp: flush_sessions_def disk_def map_err_Inr stmt_def Let_def c1_def split: fate.splits)
qed

text \<open>
  In the file store, a session whose creation was reported as done is still known
  after any further calls and a restart, even if later saves fail.
\<close>

theorem session_survives_restart:
  assumes "file_ok (tables c)" and "polite file_ok file_step (world c)"
    and "file_set_current_session fmt p ch u sid cl c = (Inr (), c')"
  shows "sid \<in> sv_known (file_session_view (file_open (tables (run_store (file_call rt) calls c')))
           (session_key p ch cl))"
proof -
  let ?t = "tables (run_store (file_call rt) calls c')"
  note saved = set_current_saved [OF assms]
  then have "file_step (tables c') ?t"
    using file_calls.run_obeys [of c' rt calls] assms(2) by simp
  then have "knows (fs_disk_sessions ?t) (session_key p ch cl) sid"
    using saved(1) by (auto simp: file_step_def intro: knows_grows)
  then show ?thesis by (auto simp: knows_def file_view_known file_open_def)
qed

lemma file_set_runs:
  "quiet c \<Longrightarrow> file_ok (tables c) \<Longrightarrow>
   file_set_current_session fmt p ch u sid cl c = (Inr (), snd (file_set_current_session fmt p ch u sid cl c))"
  by (metis file_sessions.get_after_set(1) prod.collapse)

lemma session_survives_restart_witness:
  "''s3'' \<in> sv_known (file_session_view (file_open (tables (run_store (file_call demo_runtime)
     [ResetSession ''p'' ''c'' ''k'']
     (snd (file_set_current_session show_int ''p'' ''c'' ''u'' ''s3'' ''k'' (calm demo_files))))))
     (session_key ''p'' ''c'' ''k''))"
  by (rule session_survives_restart [OF _ _ file_set_runs]; simp add: demo_files_ok)

section \<open>Sessions\<close>

text \<open>
  Property C34: in an undisturbed run, the session made current in the SQLite store is the one read
  back, other conversations keep theirs, a reset leaves none, and switching succeeds exactly for
  a session the conversation knows, and otherwise changes nothing.
\<close>

theorem sqlite_session_contract:
  assumes "quiet c" and "gw_ok (tables c)"
  shows "fst (sqlite_set_current_session p ch u sid cl c) = Inr () \<and>
    fst (sqlite_get_current_session p ch cl (snd (sqlite_set_current_session p ch u sid cl c))) =
      Inr (Some sid) \<and>
    ((p', ch', cl') \<noteq> (p, ch, cl) \<longrightarrow>
      fst (sqlite_get_current_session p' ch' cl' (snd (sqlite_set_current_session p ch u sid cl c))) =
      fst (sqlite_get_current_session p' ch' cl' c)) \<and>
    fst (sqlite_get_current_session p ch cl (snd (sqlite_reset_session p ch cl c))) = Inr None \<and>
    fst (sqlite_switch_session p ch cl sid c) =
      Inr (\<exists>r \<in> set (gw_sessions (tables c)). in_chat p ch cl r \<and> se_session_id r = sid) \<and>
    (fst (sqlite_switch_session p ch cl sid c) = Inr True \<longrightarrow>
      fst (sqlite_get_current_session p ch cl (snd (sqlite_switch_session p ch cl sid c))) =
      Inr (Some sid)) \<and>
    (fst (sqlite_switch_session p ch cl sid c) = Inr False \<longrightarrow>
      sqlite_session_view (tables (snd (sqlite_switch_session p ch cl sid c))) =
      sqlite_session_view (tables c))"
proof -
  have known: "sid \<in> sv_known (sqlite_session_view (tables c) (p, ch, cl)) \<longleftrightarrow>
      (\<exists>r \<in> set (gw_sessions (tables c)). in_chat p ch cl r \<and> se_session_id r = sid)"
    by (simp add: view_known known_of_iff chat_of_in_chat)
  note s = sqlite_sessions.get_after_set [OF assms prod.collapse [symmetric]]
  note w = sqlite_sessions.get_after_switch [OF assms prod.collapse [symmetric]]
  note r = sqlite_sessions.get_after_reset(1) [OF assms prod.collapse [symmetric]]
  show ?thesis
    using s(1,2) s(3) [of p' ch' cl' p ch cl] w(1) [of p ch cl sid] w(2,3) r
    unfolding known by simp
qed

lemma sqlite_session_contract_witness:
  "fst (sqlite_get_current_session ''p'' ''c'' ''k''
     (snd (sqlite_set_current_session ''p'' ''c'' ''u'' ''s3'' ''k'' (calm demo_gw)))) = Inr (Some ''s3'')
   \<and> fst (sqlite_switch_session ''p'' ''c'' ''k'' ''s1'' (calm demo_gw)) = Inr True"
  using sqlite_session_contract [of "calm demo_gw" "''p''" "''c''" "''u''" "''s3''" "''k''"]
    sqlite_session_contract [of "calm demo_gw" "''p''" "''c''" "''u''" "''s1''" "''k''"] demo_gw_ok
  by (simp add: demo_gw_def demo_session_def in_chat_def)

text \<open>Keys are told apart when platforms and profiles contain no colon; a chat id may.\<close>

lemma session_key_inj:
  assumes "CHR '':'' \<notin> set p \<union> set p'" and "CHR '':'' \<notin> set cl \<union> set cl'"
  shows "session_key p ch cl = session_key p' ch' cl' \<longleftrightarrow> (p, ch, cl) = (p', ch', cl')"
  using assms by (auto simp: session_key_def first_colon last_colon)

lemma session_keys_collide: "session_key ''p'' ''c:x'' ''k'' = session_key ''p'' ''c'' ''x:k''"
  by (simp add: session_key_def)

text \<open>
  Property C35: the file store meets the same contract, for platforms and profiles whose names have
  no colon.
\<close>

theorem file_session_contract:
  assumes "quiet c" and "file_ok (tables c)"
    and "CHR '':'' \<notin> set p \<union> set p'" and "CHR '':'' \<notin> set cl \<union> set cl'"
  shows "fst (file_set_current_session fmt p ch u sid cl c) = Inr () \<and>
    fst (file_get_current_session p ch cl (snd (file_set_current_session fmt p ch u sid cl c))) =
      Inr (Some sid) \<and>
    ((p', ch', cl') \<noteq> (p, ch, cl) \<longrightarrow>
      fst (file_get_current_session p' ch' cl' (snd (file_set_current_session fmt p ch u sid cl c))) =
      fst (file_get_current_session p' ch' cl' c)) \<and>
    fst (file_get_current_session p ch cl (snd (file_reset_session p ch cl c))) = Inr None \<and>
    fst (file_switch_session fmt p ch cl sid c) =
      Inr (sid \<in> sv_known (file_session_view (tables c) (session_key p ch cl))) \<and>
    (fst (file_switch_session fmt p ch cl sid c) = Inr True \<longrightarrow>
      fst (file_get_current_session p ch cl (snd (file_switch_session fmt p ch cl sid c))) =
      Inr (Some sid)) \<and>
    (fst (file_switch_session fmt p ch cl sid c) = Inr False \<longrightarrow>
      file_session_view (tables (snd (file_switch_session fmt p ch cl sid c))) =
      file_session_view (tables c))"
proof -
  note s = file_sessions.get_after_set [OF assms(1,2) prod.collapse [symmetric]]
  note w = file_sessions.get_after_switch [OF assms(1,2) prod.collapse [symmetric]]
  note r = file_sessions.get_after_reset(1) [OF assms(1,2) prod.collapse [symmetric]]
  have key: "(p', ch', cl') \<noteq> (p, ch, cl) \<Longrightarrow> session_key p' ch' cl' \<noteq> session_key p ch cl"
    using session_key_inj [OF assms(3,4), of ch ch'] by (auto simp: eq_commute)
  show ?thesis
    using s(1,2) s(3) [of p' ch' cl' p ch cl] w(1) [of fmt p ch cl sid] w(2,3) r key by simp
qed

lemma file_session_contract_witness:
  "fst (file_get_current_session ''p'' ''c'' ''k''
     (snd (file_set_current_session show_int ''p'' ''c'' ''u'' ''s3'' ''k'' (calm demo_files)))) =
   Inr (Some ''s3'')"
  using file_session_contract [of "calm demo_files" "''p''" "''q''" "''k''" "''k''"] demo_files_ok
  by simp

end
