(* ===== verification/Store_Values.thy ===== *)
theory Store_Values
  imports Store_Props
begin

text \<open>
  What is read back from the SQLite store: due jobs, credentials, preferences and skills.
\<close>

lemmas sqlite_run = db_def map_err_def and_then_def stmt_quiet query_def update_table_def
  upsert_table_def delete_table_def ret_def fail_def

section \<open>Jobs\<close>

lemma due_jobs_run:
  "quiet c \<Longrightarrow> fst (sqlite_get_due_jobs c) =
     Inr (map due_of_row (filter (job_due (env_now (here c))) (gw_jobs (tables c))))"
  by (simp add: sqlite_get_due_jobs_def sqlite_run)

lemma mark_job_run_run:
  "quiet c \<Longrightarrow> sqlite_mark_job_run fmt tz j x c =
     (Inr (), c\<lparr>tick := Suc (Suc (tick c)), tables := gw_jobs_update
        (update_where (\<lambda>r. jo_job_id r = j)
          (\<lambda>r. r\<lparr>jo_last_run := Some (env_now (world c (Suc (tick c)))),
                 jo_next_run := Some (fmt (next_cron_run (env_utc (here c)) x tz))\<rparr>)) (tables c)\<rparr>)"
  by (simp add: sqlite_mark_job_run_def utc_now_def Let_def sqlite_run)

text \<open>
  In an undisturbed run, a job that was marked as run is due again exactly when it is
  enabled and the computed next run has come, and no other job is affected by the mark.
\<close>

theorem marked_job_waits:
  assumes "quiet c"
    and "sqlite_mark_job_run fmt tz j x c = (res, c1)"
    and "fst (sqlite_get_due_jobs c1) = Inr due"
  shows "res = Inr () \<and>
    (j \<in> dj_job_id ` set due \<longleftrightarrow>
      (\<exists>r \<in> set (gw_jobs (tables c)). jo_job_id r = j \<and> jo_enabled r \<and>
         fmt (next_cron_run (env_utc (here c)) x tz) \<le> env_now (here c1))) \<and>
    (\<forall>i. i \<noteq> j \<longrightarrow> (i \<in> dj_job_id ` set due \<longleftrightarrow>
      (\<exists>r \<in> set (gw_jobs (tables c)). jo_job_id r = i \<and> job_due (env_now (here c1)) r)))"
proof -
  let ?p = "\<lambda>r. jo_job_id r = j"
  let ?f = "\<lambda>r. r\<lparr>jo_last_run := Some (env_now (world c (Suc (tick c)))),
      jo_next_run := Some (fmt (next_cron_run (env_utc (here c)) x tz))\<rparr>"
  let ?now = "env_now (here c1)"
  from assms(1,2) have 1: "res = Inr ()" "quiet c1" "gw_jobs (tables c1) = update_where ?p ?f (gw_jobs (tables c))"
    by (auto simp: mark_job_run_run)
  have "dj_job_id ` set due = jo_job_id ` {r \<in> set (gw_jobs (tables c1)). job_due ?now r}"
    using assms(3) due_jobs_run [OF 1(2)] by (force simp: due_of_row_def)
  then have "i \<in> dj_job_id ` set due \<longleftrightarrow>
      (\<exists>r \<in> set (update_where ?p ?f (gw_jobs (tables c))). jo_job_id r = i \<and> job_due ?now r)" for i
    unfolding 1(3) by auto
  then have due: "i \<in> dj_job_id ` set due \<longleftrightarrow>
      (\<exists>r \<in> set (gw_jobs (tables c)). if ?p r then i = j \<and> job_due ?now (?f r)
        else jo_job_id r = i \<and> job_due ?now r)" for i
    unfolding bex_update_where by (auto split: if_splits intro!: bex_cong)
  have marked: "job_due ?now (?f r) \<longleftrightarrow>
      jo_enabled r \<and> fmt (next_cron_run (env_utc (here c)) x tz) \<le> ?now" for r
    by (simp add: job_due_def)
  show ?thesis
    unfolding due marked using 1(1) by (auto split: if_splits)
qed

lemma marked_job_waits_witness:
  "\<exists>due. fst (sqlite_get_due_jobs (snd (sqlite_mark_job_run (\<lambda>_. ''z'') 8 ''j'' ''*/5 * * * *'' (calm demo_gw)))) = Inr due
     \<and> ''j'' \<notin> dj_job_id ` set due \<and> ''l'' \<in> dj_job_id ` set due"
proof -
  let ?m = "sqlite_mark_job_run (\<lambda>_. ''z'') 8 ''j'' ''*/5 * * * *'' (calm demo_gw)"
  have q: "quiet (snd ?m)" and now: "env_now (here (snd ?m)) = ''now''"
    by (simp_all add: mark_job_run_run) (simp add: calm_env_def)
  have due: "fst (sqlite_get_due_jobs (snd ?m)) =
      Inr (map due_of_row (filter (job_due (env_now (here (snd ?m)))) (gw_jobs (tables (snd ?m)))))"
    using q by (rule due_jobs_run)
  have "\<not> ''z'' \<le> ''now''" "''m'' \<le> ''now''" by (simp_all add: less_eq_char_def)
  with marked_job_waits [OF _ prod.collapse [symmetric] due] show ?thesis
    unfolding due now by (simp add: demo_gw_def demo_job_def job_due_def)
qed

section \<open>Credentials\<close>

lemma upsert_lookup:
  assumes "\<And>r. key (f r) = key r"
  shows "first_row (filter (\<lambda>r. key r = k)
      (if key new \<in> set (map key rows) then update_where (\<lambda>r. key r = key new) f rows else rows @ [new])) =
    (if k = key new
     then Some (case first_row (filter (\<lambda>r. key r = k) rows) of None \<Rightarrow> new | Some r \<Rightarrow> f r)
     else first_row (filter (\<lambda>r. key r = k) rows))"
proof (cases "key new \<in> set (map key rows)")
  case True
  let ?x = "first_row (filter (\<lambda>r. key r = k) rows)"
  have up: "first_row (filter (\<lambda>r. key r = k) (update_where (\<lambda>r. key r = key new) f rows)) =
      map_option (\<lambda>r. if key r = key new then f r else r) ?x"
    by (rule lookup_update_where) (rule assms)
  show ?thesis
  proof (cases ?x)
    case None
    with True have "k \<noteq> key new" by (auto simp: lookup_None)
    then show ?thesis unfolding if_P [OF True] up None by simp
  next
    case (Some r)
    then have "key r = k" using lookup_SomeD by fastforce
    then show ?thesis unfolding if_P [OF True] up Some by simp
  qed
next
  case False
  then have "first_row (filter (\<lambda>r. key r = key new) rows) = None" by (simp only: lookup_None not_False_eq_True)
  then show ?thesis
    unfolding if_not_P [OF False] by (auto simp: first_row_append split: option.split)
qed

lemma deleted_lookup:
  "first_row (filter (\<lambda>r. key r = k) (delete_where (\<lambda>r. key r = k') rows)) =
   (if k = k' then None else first_row (filter (\<lambda>r. key r = k) rows))"
  by (induction rows) (auto simp: delete_where_def)

lemma get_credential_run:
  "quiet c \<Longrightarrow> fst (sqlite_get_credential de p u t c) =
     Inr (map_option (credential_of_row de)
       (first_row (filter (\<lambda>r. cred_key_of r = (p, u, t)) (gw_creds (tables c)))))"
  by (simp add: sqlite_get_credential_def sqlite_run)

lemma save_credential_run:
  assumes "quiet c"
  shows "fst (sqlite_save_credential ser p u t j x c) = Inr ()"
    and "quiet (snd (sqlite_save_credential ser p u t j x c))"
    and "first_row (filter (\<lambda>r. cred_key_of r = k) (gw_creds (tables (snd (sqlite_save_credential ser p u t j x c))))) =
      (if k = (p, u, t)
       then Some (case first_row (filter (\<lambda>r. cred_key_of r = k) (gw_creds (tables c))) of
           None \<Rightarrow> \<lparr>gc_platform = p, gc_user_id = u, gc_type = t, gc_credentials = ser j,
                    gc_expires_at = x, gc_updated_at = env_now (here c)\<rparr>
         | Some r \<Rightarrow> r\<lparr>gc_credentials := ser j, gc_expires_at := x, gc_updated_at := env_now (here c)\<rparr>)
       else first_row (filter (\<lambda>r. cred_key_of r = k) (gw_creds (tables c))))"
proof -
  let ?new = "\<lparr>gc_platform = p, gc_user_id = u, gc_type = t, gc_credentials = ser j,
      gc_expires_at = x, gc_updated_at = env_now (here c)\<rparr>"
  let ?f = "\<lambda>r. r\<lparr>gc_credentials := ser j, gc_expires_at := x, gc_updated_at := env_now (here c)\<rparr>"
  have run: "sqlite_save_credential ser p u t j x c =
      (Inr (), c\<lparr>tick := Suc (tick c), tables := gw_creds_update
        (\<lambda>rows. if cred_key_of ?new \<in> set (map cred_key_of rows)
                then update_where (\<lambda>r. cred_key_of r = cred_key_of ?new) ?f rows
                else rows @ [?new]) (tables c)\<rparr>)"
    using assms by (simp add: sqlite_save_credential_def sqlite_run Let_def)
  then show "fst (sqlite_save_credential ser p u t j x c) = Inr ()"
    "quiet (snd (sqlite_save_credential ser p u t j x c))"
    using assms by simp_all
  have keys: "cred_key_of (?f r) = cred_key_of r" for r by (simp add: cred_key_of_def)
  show "first_row (filter (\<lambda>r. cred_key_of r = k) (gw_creds (tables (snd (sqlite_save_credential ser p u t j x c))))) =
      (if k = (p, u, t)
       then Some (case first_row (filter (\<lambda>r. cred_key_of r = k) (gw_creds (tables c))) of
           None \<Rightarrow> ?new | Some r \<Rightarrow> ?f r)
       else first_row (filter (\<lambda>r. cred_key_of r = k) (gw_creds (tables c))))"
    using upsert_lookup [of cred_key_of ?f k ?new "gw_creds (tables c)", OF keys]
    unfolding run by (simp add: cred_key_of_def)
qed

text \<open>
  In an undisturbed run, a saved credential is read back with its value and expiry,
  where the value survives its rendering as text; the credentials of other users and types stay as
  they were; and a deleted one is gone, the call telling whether there was one.
\<close>

theorem credential_roundtrip:
  assumes "quiet c" and "de (ser j) = Some j"
  shows "fst (sqlite_get_credential de p u t (snd (sqlite_save_credential ser p u t j x c))) =
      Inr (Some \<lparr>pc_platform = p, pc_user_id = u, pc_credential_type = t, pc_credentials = j,
                 pc_expires_at = x\<rparr>) \<and>
    ((p', u', t') \<noteq> (p, u, t) \<longrightarrow>
      fst (sqlite_get_credential de p' u' t' (snd (sqlite_save_credential ser p u t j x c))) =
      fst (sqlite_get_credential de p' u' t' c)) \<and>
    fst (sqlite_delete_credential p u t c) =
      Inr (fst (sqlite_get_credential de p u t c) \<noteq> Inr None) \<and>
    fst (sqlite_get_credential de p u t (snd (sqlite_delete_credential p u t c))) = Inr None"
proof -
  have del: "sqlite_delete_credential p u t c =
      (Inr (0 < affected (\<lambda>r. cred_key_of r = (p, u, t)) (gw_creds (tables c))),
       c\<lparr>tick := Suc (tick c), tables :=
          gw_creds_update (delete_where (\<lambda>r. cred_key_of r = (p, u, t))) (tables c)\<rparr>)"
    using assms(1) by (simp add: sqlite_delete_credential_def sqlite_run)
  have "0 < affected (\<lambda>r. cred_key_of r = (p, u, t)) (gw_creds (tables c)) \<longleftrightarrow>
      first_row (filter (\<lambda>r. cred_key_of r = (p, u, t)) (gw_creds (tables c))) \<noteq> None"
    by (auto simp: affected_pos first_row_filter_None)
  moreover have "credential_of_row de (case first_row (filter (\<lambda>r. cred_key_of r = (p, u, t)) (gw_creds (tables c))) of
      None \<Rightarrow> \<lparr>gc_platform = p, gc_user_id = u, gc_type = t, gc_credentials = ser j,
               gc_expires_at = x, gc_updated_at = env_now (here c)\<rparr>
    | Some r \<Rightarrow> r\<lparr>gc_credentials := ser j, gc_expires_at := x, gc_updated_at := env_now (here c)\<rparr>) =
      \<lparr>pc_platform = p, pc_user_id = u, pc_credential_type = t, pc_credentials = j, pc_expires_at = x\<rparr>"
  proof (cases "first_row (filter (\<lambda>r. cred_key_of r = (p, u, t)) (gw_creds (tables c)))")
    case (Some r)
    then have "cred_key_of r = (p, u, t)" using lookup_SomeD by fastforce
    with Some assms(2) show ?thesis by (simp add: credential_of_row_def cred_key_of_def)
  qed (use assms(2) in \<open>simp add: credential_of_row_def\<close>)
  ultimately show ?thesis
    using assms by (simp add: get_credential_run save_credential_run del deleted_lookup)
qed

lemma credential_roundtrip_witness:
  "fst (sqlite_get_credential (\<lambda>s. Some (JStr s)) ''p'' ''u'' ''t''
     (snd (sqlite_save_credential (\<lambda>j. case j of JStr s \<Rightarrow> s) ''p'' ''u'' ''t'' (JStr ''x'') None (calm demo_gw)))) =
   Inr (Some \<lparr>pc_platform = ''p'', pc_user_id = ''u'', pc_credential_type = ''t'',
              pc_credentials = JStr ''x'', pc_expires_at = None\<rparr>)"
  using credential_roundtrip [of "calm demo_gw" "\<lambda>s. Some (JStr s)" "\<lambda>j. case j of JStr s \<Rightarrow> s" "JStr ''x''"]
  by simp

end
