(* ===== verification/Stream_Filter.thy ===== *)
theory Stream_Filter
  imports Prelude
begin

text \<open>
  The filters through which the model's output reaches the user (\<open>runner.rs\<close>): thinking blocks
  are suppressed, and so are the action tags meant for the gateway. The text arrives in chunks
  that may end anywhere, also inside a tag.
\<close>

section \<open>Finding tags\<close>

text \<open>\<open>iter().filter_map(find).min_by_key(position)\<close>: of equal positions the first tag.\<close>

fun find_first :: "string list \<Rightarrow> string \<Rightarrow> (nat \<times> string) option" where
  "find_first [] s = None"
| "find_first (t # ts) s =
     (case (find_sub t s, find_first ts s) of
        (None, r) \<Rightarrow> r
      | (Some i, None) \<Rightarrow> Some (i, t)
      | (Some i, Some (j, u)) \<Rightarrow> if j < i then Some (j, u) else Some (i, t))"

text \<open>The longest proper prefix of \<open>tag\<close> that \<open>text\<close> ends with.\<close>

fun suffix_len_from :: "string \<Rightarrow> string \<Rightarrow> nat \<Rightarrow> nat" where
  "suffix_len_from text tag 0 = 0"
| "suffix_len_from text tag (Suc n) =
     (if is_char_boundary text (length text - Suc n) \<and>
         starts_with tag (drop (length text - Suc n) text)
      then Suc n else suffix_len_from text tag n)"

definition tag_suffix_prefix_len :: "string \<Rightarrow> string \<Rightarrow> nat" where
  "tag_suffix_prefix_len text tag = suffix_len_from text tag (min (length text) (length tag - 1))"

section \<open>Thinking blocks\<close>

definition THINK_TAGS :: "(string \<times> string) list" where
  "THINK_TAGS = [(''<think>'', ''</think>''), (''<thinking>'', ''</thinking>'')]"

definition think_opens :: "string list" where
  "think_opens = map fst THINK_TAGS"

definition think_closes :: "string list" where
  "think_closes = map snd THINK_TAGS"

definition find_next_think_open :: "string \<Rightarrow> (nat \<times> string) option" where
  "find_next_think_open text = find_first think_opens text"

definition find_next_think_close :: "string \<Rightarrow> (nat \<times> string) option" where
  "find_next_think_close text = find_first think_closes text"

definition open_think_prefix_len :: "string \<Rightarrow> nat" where
  "open_think_prefix_len text = fold max (map (tag_suffix_prefix_len text) think_opens) 0"

record think_filter =
  th_pending :: string
  th_in_think :: bool

definition no_think :: think_filter where
  "no_think = \<lparr>th_pending = [], th_in_think = False\<rparr>"

lemma find_first_SomeD:
  "find_first ts s = Some (i, t) \<Longrightarrow> t \<in> set ts \<and> find_sub t s = Some i"
  by (induction ts arbitrary: i t) (fastforce split: option.splits if_splits)+

lemma think_tags_nonempty:
  "find_next_think_open s = Some (i, t) \<Longrightarrow> 0 < length t \<and> i + length t \<le> length s"
  "find_next_think_close s = Some (i, t) \<Longrightarrow> 0 < length t \<and> i + length t \<le> length s"
proof -
  show "0 < length t \<and> i + length t \<le> length s" if "find_next_think_open s = Some (i, t)"
    using find_first_SomeD [of think_opens s i t] that find_sub_bound [of t s i]
    by (auto simp: find_next_think_open_def think_opens_def THINK_TAGS_def)
  show "0 < length t \<and> i + length t \<le> length s" if "find_next_think_close s = Some (i, t)"
    using find_first_SomeD [of think_closes s i t] that find_sub_bound [of t s i]
    by (auto simp: find_next_think_close_def think_closes_def THINK_TAGS_def)
qed

lemma think_tags_shorten:
  "find_next_think_open s = Some (i, t) \<Longrightarrow> length s - (i + length t) < length s"
  "find_next_think_close s = Some (i, t) \<Longrightarrow> length s - (i + length t) < length s"
  using think_tags_nonempty [of s i t] by (cases t; auto)+

text \<open>The loop of \<open>push\<close>, on what is pending and what was put out.\<close>

function think_loop :: "string \<Rightarrow> bool \<Rightarrow> string \<Rightarrow> string \<times> think_filter" where
  "think_loop pending in_think out =
     (if in_think
      then (case find_next_think_close pending of
              Some (e, close) \<Rightarrow> think_loop (drop (e + length close) pending) False out
            | None \<Rightarrow> (out, \<lparr>th_pending = pending, th_in_think = True\<rparr>))
      else (case find_next_think_open pending of
              Some (start, tag) \<Rightarrow>
                think_loop (drop (start + length tag) pending) True (out @ take start pending)
            | None \<Rightarrow>
                (let emit_len = length pending - open_think_prefix_len pending in
                 (out @ take emit_len pending,
                  \<lparr>th_pending = drop emit_len pending, th_in_think = False\<rparr>))))"
  by pat_completeness auto
termination
  by (relation "measure (\<lambda>(pending, in_think, out). length pending)")
     (auto simp: think_tags_shorten)

declare think_loop.simps [simp del]

definition think_push :: "string \<Rightarrow> think_filter \<Rightarrow> string \<times> think_filter" where
  "think_push text f = think_loop (th_pending f @ text) (th_in_think f) []"

definition think_finish :: "think_filter \<Rightarrow> string \<times> think_filter" where
  "think_finish f =
     (if th_in_think f then (th_pending f, f\<lparr>th_pending := [], th_in_think := False\<rparr>)
      else (th_pending f, f\<lparr>th_pending := []\<rparr>))"

text \<open>A whole answer: each chunk is pushed, then the filter is finished.\<close>

fun think_stream :: "string list \<Rightarrow> think_filter \<Rightarrow> string" where
  "think_stream [] f = fst (think_finish f)"
| "think_stream (c # cs) f = (case think_push c f of (out, f') \<Rightarrow> out @ think_stream cs f')"

text \<open>The filter for complete text, with the flag it leaves and the text it did not reach.\<close>

function filter_loop :: "string \<Rightarrow> string \<Rightarrow> bool \<Rightarrow> string \<times> bool \<times> string" where
  "filter_loop result remaining in_think =
     (if remaining = [] then (result, in_think, remaining)
      else if in_think
      then (case find_next_think_close remaining of
              Some (e, close) \<Rightarrow> filter_loop result (drop (e + length close) remaining) False
            | None \<Rightarrow> (result, in_think, remaining))
      else (case find_next_think_open remaining of
              Some (start, tag) \<Rightarrow>
                filter_loop (result @ take start remaining) (drop (start + length tag) remaining) True
            | None \<Rightarrow> (result @ remaining, in_think, [])))"
  by pat_completeness auto
termination
  by (relation "measure (\<lambda>(result, remaining, in_think). length remaining)")
     (auto simp: think_tags_shorten)

declare filter_loop.simps [simp del]

definition filter_think_tags :: "string \<Rightarrow> bool \<Rightarrow> string \<times> bool" where
  "filter_think_tags text in_think =
     (case filter_loop [] text in_think of (result, flag, _) \<Rightarrow> (result, flag))"

text \<open>\<open>max_by_key\<close>: of equal positions the last tag.\<close>

fun find_last :: "string list \<Rightarrow> string \<Rightarrow> (nat \<times> string) option" where
  "find_last [] s = None"
| "find_last (t # ts) s =
     (case (rfind_sub t s, find_last ts s) of
        (None, r) \<Rightarrow> r
      | (Some i, None) \<Rightarrow> Some (i, t)
      | (Some i, Some (j, u)) \<Rightarrow> if i \<le> j then Some (j, u) else Some (i, t))"

definition strip_think_blocks :: "string \<Rightarrow> string" where
  "strip_think_blocks text =
     (case filter_think_tags text False of (result, in_think) \<Rightarrow>
        if in_think
        then (case find_last think_opens text of
                None \<Rightarrow> result
              | Some (pos, tag) \<Rightarrow>
                  let after = drop (pos + length tag) text in
                  if after = [] then result
                  else (if result = [] then result else result @ [CHR 0x0A]) @ after)
        else result)"

section \<open>Gateway actions\<close>

definition TAG_START :: string where
  "TAG_START = ''[[GATEWAY:''"

definition gateway_tag_prefix_suffix_len :: "string \<Rightarrow> nat" where
  "gateway_tag_prefix_suffix_len text =
     suffix_len_from text TAG_START (min (length text) (length TAG_START - 1))"

record action_filter =
  ac_pending :: string
  ac_in_tag :: bool

definition no_action :: action_filter where
  "no_action = \<lparr>ac_pending = [], ac_in_tag = False\<rparr>"

function action_loop :: "string \<Rightarrow> bool \<Rightarrow> string \<Rightarrow> string \<times> action_filter" where
  "action_loop pending in_tag out =
     (if in_tag
      then (case find_sub '']]'' pending of
              Some e \<Rightarrow> action_loop (drop (e + 2) pending) False out
            | None \<Rightarrow> (out, \<lparr>ac_pending = [], ac_in_tag = True\<rparr>))
      else (case find_sub TAG_START pending of
              Some start \<Rightarrow>
                action_loop (drop (start + length TAG_START) pending) True (out @ take start pending)
            | None \<Rightarrow>
                (let emit_len = length pending - gateway_tag_prefix_suffix_len pending in
                 (out @ take emit_len pending,
                  \<lparr>ac_pending = drop emit_len pending, ac_in_tag = False\<rparr>))))"
  by pat_completeness auto
termination
proof (relation "measure (\<lambda>(pending, in_tag, out). length pending)", simp_all)
  show "find_sub '']]'' p = Some e \<Longrightarrow> length p - Suc (Suc e) < length p" for p e
    using find_sub_bound [of "'']]''" p e] by simp
  show "find_sub TAG_START p = Some i \<Longrightarrow> length p - (i + length TAG_START) < length p" for p i
    using find_sub_bound [of TAG_START p i] by (simp add: TAG_START_def)
qed

declare action_loop.simps [simp del]

definition action_push :: "string \<Rightarrow> action_filter \<Rightarrow> string \<times> action_filter" where
  "action_push text f = action_loop (ac_pending f @ text) (ac_in_tag f) []"

definition action_finish :: "action_filter \<Rightarrow> string \<times> action_filter" where
  "action_finish f =
     (if ac_in_tag f then ([], f\<lparr>ac_pending := [], ac_in_tag := False\<rparr>)
      else (ac_pending f, f\<lparr>ac_pending := []\<rparr>))"

fun action_stream :: "string list \<Rightarrow> action_filter \<Rightarrow> string" where
  "action_stream [] f = fst (action_finish f)"
| "action_stream (c # cs) f = (case action_push c f of (out, f') \<Rightarrow> out @ action_stream cs f')"

end
