(* ===== verification/Stream_Props.thy ===== *)
theory Stream_Props
  imports Stream_Filter
begin

text \<open>
  The stream filters against the filter for complete text: the thinking filter does not depend on
  where the chunks end, the action filter does where a chunk ends in a closing bracket.
\<close>

section \<open>Tags in a growing text\<close>

text \<open>An occurrence at a position, and the first of them. In a set of tags none of which occurs in
  another, the first occurrence does not move when the text grows.\<close>

definition occurs :: "string list \<Rightarrow> string \<Rightarrow> nat \<Rightarrow> string \<Rightarrow> bool" where
  "occurs ts s i t \<longleftrightarrow> t \<in> set ts \<and> i \<le> length s \<and> prefix t (drop i s)"

definition tag_code :: "string list \<Rightarrow> bool" where
  "tag_code ts \<longleftrightarrow> (\<forall>t \<in> set ts. \<forall>t' \<in> set ts. t \<noteq> [] \<and> (sublist t t' \<longrightarrow> t = t'))"

lemma find_sub_iff:
  "find_sub t s = Some i \<longleftrightarrow> i \<le> length s \<and> prefix t (drop i s) \<and> (\<forall>j < i. \<not> prefix t (drop j s))"
proof (induction s arbitrary: i)
  case Nil
  then show ?case by (auto simp: find_sub.simps [of t "[]"])
next
  case (Cons c s)
  show ?case
  proof (cases i)
    case 0
    then show ?thesis by (auto simp: find_sub.simps [of t "c # s"])
  next
    case (Suc k)
    have "(\<forall>j < Suc k. \<not> prefix t (drop j (c # s))) \<longleftrightarrow>
        \<not> prefix t (c # s) \<and> (\<forall>j < k. \<not> prefix t (drop j s))"
      by (subst All_less_Suc2) simp
    then show ?thesis using Suc Cons.IH [of k] by (auto simp: find_sub.simps [of t "c # s"])
  qed
qed

lemma find_sub_None_iff: "find_sub t s = None \<longleftrightarrow> (\<forall>i \<le> length s. \<not> prefix t (drop i s))"
proof -
  have "sublist t s \<longleftrightarrow> (\<exists>i \<le> length s. prefix t (drop i s))"
  proof
    assume "sublist t s"
    then obtain u v where "s = u @ t @ v" by (auto simp: sublist_def)
    then show "\<exists>i \<le> length s. prefix t (drop i s)" by (intro exI [of _ "length u"]) simp
  next
    assume "\<exists>i \<le> length s. prefix t (drop i s)"
    then show "sublist t s" by (meson prefix_imp_sublist sublist_drop sublist_order.order_trans)
  qed
  then show ?thesis by (auto simp: find_sub_None)
qed

lemma find_first_None_iff: "find_first ts s = None \<longleftrightarrow> (\<forall>t \<in> set ts. find_sub t s = None)"
  by (induction ts) (auto split: option.split)

lemma find_first_None: "find_first ts s = None \<longleftrightarrow> (\<forall>i t. \<not> occurs ts s i t)"
  unfolding find_first_None_iff find_sub_None_iff occurs_def by blast

lemma occurs_Cons:
  "occurs (u # ts) s j t \<longleftrightarrow> (t = u \<and> j \<le> length s \<and> prefix u (drop j s)) \<or> occurs ts s j t"
  by (auto simp: occurs_def)

lemma find_first_SomeI:
  "find_first ts s = Some (i, t) \<Longrightarrow> occurs ts s i t \<and> (\<forall>j t'. occurs ts s j t' \<longrightarrow> i \<le> j)"
proof (induction ts arbitrary: i t)
  case (Cons u ts)
  have hit: "k \<le> length s" "prefix u (drop k s)" "\<And>j. prefix u (drop j s) \<Longrightarrow> k \<le> j"
    if "find_sub u s = Some k" for k
    using that by (auto simp: find_sub_iff not_less [symmetric])
  have miss: "find_sub u s = None \<Longrightarrow> j \<le> length s \<Longrightarrow> \<not> prefix u (drop j s)" for j
    by (simp add: find_sub_None_iff)
  show ?case
  proof (cases "find_first ts s")
    case None
    with Cons.prems have "find_sub u s = Some i" "t = u" by (auto split: option.splits)
    moreover have "\<not> occurs ts s j t'" for j t' using None by (simp add: find_first_None)
    ultimately show ?thesis using hit [of i] by (simp add: occurs_Cons)
  next
    case (Some r)
    obtain j v where "r = (j, v)" by (cases r)
    with Some Cons.IH have j: "occurs ts s j v" "\<And>j' t'. occurs ts s j' t' \<Longrightarrow> j \<le> j'" by auto
    show ?thesis
    proof (cases "find_sub u s")
      case None
      with Some \<open>r = (j, v)\<close> Cons.prems have "i = j" "t = v" by auto
      with j miss [OF None] show ?thesis by (auto simp: occurs_Cons)
    next
      case k: (Some k)
      show ?thesis
      proof (cases "j < k")
        case True
        with k Some \<open>r = (j, v)\<close> Cons.prems have "i = j" "t = v" by auto
        moreover have "j \<le> j'" if "prefix u (drop j' s)" for j' using hit(3) [OF k that] True by simp
        ultimately show ?thesis using j by (auto simp: occurs_Cons)
      next
        case False
        with k Some \<open>r = (j, v)\<close> Cons.prems have "i = k" "t = u" by auto
        moreover have "k \<le> j'" if "occurs ts s j' t'" for j' t' using j(2) [OF that] False by simp
        ultimately show ?thesis using hit [OF k] by (auto simp: occurs_Cons)
      qed
    qed
  qed
qed simp

lemma tag_codeD: "tag_code ts \<Longrightarrow> t \<in> set ts \<Longrightarrow> t' \<in> set ts \<Longrightarrow> sublist t t' \<Longrightarrow> t = t'"
  by (simp add: tag_code_def)

lemma occurs_unique:
  assumes "tag_code ts" and "occurs ts s i t" and "occurs ts s i t'"
  shows "t = t'"
proof -
  from assms(2,3) prefix_same_cases [of t "drop i s" t'] have "prefix t t' \<or> prefix t' t"
    by (auto simp: occurs_def)
  then have "sublist t t' \<or> sublist t' t" by (auto intro: prefix_imp_sublist)
  with assms tag_codeD [OF assms(1), of t t'] tag_codeD [OF assms(1), of t' t] show ?thesis
    by (auto simp: occurs_def)
qed

lemma find_first_iff:
  assumes "tag_code ts"
  shows "find_first ts s = Some (i, t) \<longleftrightarrow> occurs ts s i t \<and> (\<forall>j t'. occurs ts s j t' \<longrightarrow> i \<le> j)"
proof
  assume r: "occurs ts s i t \<and> (\<forall>j t'. occurs ts s j t' \<longrightarrow> i \<le> j)"
  then obtain j u where f: "find_first ts s = Some (j, u)"
    using find_first_None [of ts s] by (cases "find_first ts s") auto
  with r find_first_SomeI [OF f] have "j = i" by (auto intro: le_antisym)
  with r find_first_SomeI [OF f] occurs_unique [OF assms] f show "find_first ts s = Some (i, t)" by blast
qed (rule find_first_SomeI)

lemma occurs_append: "occurs ts s i t \<Longrightarrow> occurs ts (s @ u) i t"
  by (auto simp: occurs_def prefix_def)

text \<open>An occurrence in the longer text lies in the shorter one, or begins with a proper part of a
  tag at its end, or comes after it.\<close>

lemma occurs_append_cases:
  assumes "occurs ts (s @ u) j t"
  obtains "occurs ts s j t"
    | "j < length s" and "strict_prefix (drop j s) t" and "length s < j + length t"
    | "length s \<le> j"
proof -
  from assms have p: "prefix t (drop j s @ drop (j - length s) u)" and t: "t \<in> set ts"
    by (auto simp: occurs_def)
  show thesis
  proof (cases "length s \<le> j")
    case False
    show thesis
    proof (cases "length t \<le> length (drop j s)")
      case True
      with p have "prefix t (drop j s)" by (metis prefix_append prefix_length_prefix prefix_order.refl)
      with t False that(1) show thesis by (auto simp: occurs_def)
    next
      case False
      with p have "strict_prefix (drop j s) t"
        by (metis less_le_not_le nle_le prefixI prefix_length_prefix strict_prefix_def)
      with False \<open>\<not> length s \<le> j\<close> that(2) show thesis by simp
    qed
  qed (use that(3) in simp)
qed

lemma find_first_append:
  assumes "tag_code ts" and "find_first ts s = Some (i, t)"
  shows "find_first ts (s @ u) = Some (i, t)"
proof -
  from assms have o: "occurs ts s i t" "\<And>j t'. occurs ts s j t' \<Longrightarrow> i \<le> j"
    by (auto simp: find_first_iff)
  have "i \<le> j" if "occurs ts (s @ u) j t'" for j t'
    using that
  proof (cases rule: occurs_append_cases)
    case 2
    show ?thesis
    proof (rule ccontr)
      assume "\<not> i \<le> j"
      then have "drop i s = drop (i - j) (drop j s)" by simp
      then have "sublist (drop i s) t'"
        using 2(2) by (metis sublist_drop sublist_order.order_trans prefix_imp_sublist strict_prefix_def)
      then have "sublist t t'" using o(1) unfolding occurs_def
        by (meson prefix_imp_sublist sublist_order.order_trans)
      moreover have "t' \<in> set ts" using that by (simp add: occurs_def)
      ultimately have "t = t'" using assms(1) o(1) by (auto simp: tag_code_def occurs_def)
      moreover have "length t \<le> length (drop i s)" using o(1) prefix_length_le by (fastforce simp: occurs_def)
      ultimately show False using 2 \<open>\<not> i \<le> j\<close> by simp
    qed
  next
    case 3
    then show ?thesis using o(1) by (simp add: occurs_def)
  qed (use o(2) in blast)
  with o(1) show ?thesis by (auto simp: find_first_iff [OF assms(1)] intro: occurs_append)
qed

text \<open>With no tag in the text, what is put out ends before any tag of the longer text begins.\<close>

lemma suffix_len_from_max:
  assumes "k \<le> n" and "k \<le> length text" and "0 < k" and "prefix (drop (length text - k) text) tag"
    and "is_char_boundary text (length text - k)"
  shows "k \<le> suffix_len_from text tag n"
  using assms(1)
proof (induction n)
  case (Suc n)
  then show ?case using assms(3-5) by (cases "k = Suc n") (auto simp: starts_with_def)
qed (use assms(3) in simp)

lemma suffix_len_from_le: "suffix_len_from text tag n \<le> n"
  by (induction n) auto

lemma fold_max_ge: "a \<le> fold max xs (a::nat)" "x \<in> set xs \<Longrightarrow> x \<le> fold max xs (a::nat)"
proof -
  have ge: "a \<le> fold max xs (a::nat)" for a xs
  proof (induction xs arbitrary: a)
    case (Cons y xs) from Cons.IH [of "max y a"] show ?case by simp
  qed simp
  then show "a \<le> fold max xs a" .
  show "x \<in> set xs \<Longrightarrow> x \<le> fold max xs a"
  proof (induction xs arbitrary: a)
    case (Cons y xs) then show ?case using ge [of "max y a" xs] by auto
  qed simp
qed

lemma fold_max_le: "(\<And>x. x \<in> set xs \<Longrightarrow> x \<le> b) \<Longrightarrow> a \<le> b \<Longrightarrow> fold max xs a \<le> (b::nat)"
  by (induction xs arbitrary: a) auto

definition kept_len :: "string list \<Rightarrow> string \<Rightarrow> nat" where
  "kept_len ts s = fold max (map (tag_suffix_prefix_len s) ts) 0"

lemma kept_len_le: "kept_len ts s \<le> length s"
  unfolding kept_len_def tag_suffix_prefix_len_def
  by (rule fold_max_le) (auto intro: order.trans [OF suffix_len_from_le])

lemma partial_tag_kept:
  assumes "t \<in> set ts" and "j < length s" and "strict_prefix (drop j s) t" and "\<not> is_cont (hd t)"
  shows "length s - j \<le> kept_len ts s"
proof -
  let ?n = "length s - j"
  have len: "?n < length t" using assms(3) by (metis length_drop prefix_length_less)
  obtain v where "t = drop j s @ v" using assms(3) by (auto simp: strict_prefix_def prefix_def)
  then have "s ! j = hd t" using assms(2) by (simp add: hd_drop_conv_nth)
  then have "is_char_boundary s (length s - ?n)" using assms(2,4) by (simp add: is_char_boundary_def)
  moreover have "prefix (drop (length s - ?n) s) t" using assms(2,3) by (simp add: strict_prefix_def)
  ultimately have "?n \<le> tag_suffix_prefix_len s t"
    unfolding tag_suffix_prefix_len_def using assms(2) len by (intro suffix_len_from_max) simp_all
  also have "\<dots> \<le> kept_len ts s"
    unfolding kept_len_def using assms(1) by (intro fold_max_ge(2)) simp
  finally show ?thesis .
qed

lemma find_first_held_back:
  assumes "tag_code ts" and "\<forall>t \<in> set ts. \<not> is_cont (hd t)" and "find_first ts s = None"
  defines "m \<equiv> length s - kept_len ts s"
  shows "find_first ts (s @ u) = map_option (\<lambda>(i, t). (i + m, t)) (find_first ts (drop m s @ u))"
    and "find_first ts (drop m s) = None"
proof -
  have m: "m \<le> length s" by (simp add: m_def)
  have shift: "occurs ts (s @ u) (j + m) t \<longleftrightarrow> occurs ts (drop m s @ u) j t" for j t u
  proof -
    have "drop (j + m) (s @ u) = drop j (drop m s @ u)" using m by (simp add: add.commute flip: drop_drop)
    then show ?thesis using m by (auto simp: occurs_def)
  qed
  have late: "m \<le> j" if "occurs ts (s @ u) j t" for j t u
    using that
  proof (cases rule: occurs_append_cases)
    case 1 then show ?thesis using assms(3) by (simp add: find_first_None)
  next
    case 2
    have t: "t \<in> set ts" using that by (simp add: occurs_def)
    then have "length s - j \<le> kept_len ts s" using partial_tag_kept [OF t 2(1,2)] assms(2) by blast
    then show ?thesis using 2(1) by (simp add: m_def)
  next
    case 3 then show ?thesis using m by simp
  qed
  have earlier: "occurs ts (s @ u) j t \<Longrightarrow> occurs ts (drop m s @ u) (j - m) t" for j t u
    using late [of u j t] shift [where j = "j - m" and u = u and t = t] by simp
  have "\<not> occurs ts (drop m s) j t" for j t
    using shift [of "[]" j t] assms(3) by (simp add: find_first_None)
  then show "find_first ts (drop m s) = None" by (simp add: find_first_None)
  show "find_first ts (s @ u) = map_option (\<lambda>(i, t). (i + m, t)) (find_first ts (drop m s @ u))"
  proof (cases "find_first ts (drop m s @ u)")
    case None
    then have "find_first ts (s @ u) = None" using earlier [of u] unfolding find_first_None by blast
    with None show ?thesis by simp
  next
    case (Some r)
    obtain i t where r: "r = (i, t)" by (cases r)
    with Some have o: "occurs ts (drop m s @ u) i t" "\<And>j t'. occurs ts (drop m s @ u) j t' \<Longrightarrow> i \<le> j"
      by (auto simp: find_first_iff [OF assms(1)])
    have "i + m \<le> j" if "occurs ts (s @ u) j t'" for j t'
      using o(2) [OF earlier [OF that]] late [OF that] by simp
    with o(1) have "find_first ts (s @ u) = Some (i + m, t)"
      by (simp add: find_first_iff [OF assms(1)] shift)
    with Some r show ?thesis by simp
  qed
qed

section \<open>The thinking filter\<close>

lemma think_codes: "tag_code think_opens" "tag_code think_closes"
    "\<forall>t \<in> set think_opens. \<not> is_cont (hd t)"
  by (simp_all add: tag_code_def think_opens_def think_closes_def THINK_TAGS_def is_cont_def
      sublist_code)

text \<open>What is to be put out for a text, and the rest that an unclosed block leaves.\<close>

definition think_out :: "string \<Rightarrow> bool \<Rightarrow> string" where
  "think_out s b = (case filter_loop [] s b of (r, _, rest) \<Rightarrow> r @ rest)"

lemma filter_loop_acc:
  "filter_loop (acc @ r0) s b = (case filter_loop r0 s b of (r, f, rest) \<Rightarrow> (acc @ r, f, rest))"
proof (induction r0 s b rule: filter_loop.induct)
  case (1 r0 s b)
  then show ?case
    by (simp add: filter_loop.simps [of "acc @ r0" s b] filter_loop.simps [of r0 s b]
        split: option.split)
qed

lemma think_out_step:
  "think_out s True = (case find_next_think_close s of
      Some (e, c) \<Rightarrow> think_out (drop (e + length c) s) False | None \<Rightarrow> s)"
  "think_out s False = (case find_next_think_open s of
      Some (i, t) \<Rightarrow> take i s @ think_out (drop (i + length t) s) True | None \<Rightarrow> s)"
proof -
  have empty: "find_next_think_close [] = None" "find_next_think_open [] = None"
    using think_tags_nonempty [of "[]"]
    by (cases "find_next_think_close []", auto) (cases "find_next_think_open []", auto)
  show "think_out s True = (case find_next_think_close s of
      Some (e, c) \<Rightarrow> think_out (drop (e + length c) s) False | None \<Rightarrow> s)"
    by (cases "s = []") (auto simp: think_out_def filter_loop.simps [of "[]" s True] empty
        filter_loop.simps [of "[]" "[]" True] split: option.split)
  have acc: "filter_loop (take i s) r True = (case filter_loop [] r True of
      (r, f, rest) \<Rightarrow> (take i s @ r, f, rest))" for i r
    using filter_loop_acc [of "take i s" "[]" r True] by simp
  show "think_out s False = (case find_next_think_open s of
      Some (i, t) \<Rightarrow> take i s @ think_out (drop (i + length t) s) True | None \<Rightarrow> s)"
    by (cases "s = []") (auto simp: think_out_def filter_loop.simps [of "[]" s False] empty acc
        filter_loop.simps [of "[]" "[]" False] split: option.split prod.split)
qed

lemma open_kept: "open_think_prefix_len s = kept_len think_opens s"
  by (simp add: open_think_prefix_len_def kept_len_def)

definition settled :: "think_filter \<Rightarrow> bool" where
  "settled f \<longleftrightarrow> (if th_in_think f then find_next_think_close (th_pending f) = None
                   else find_next_think_open (th_pending f) = None)"

lemma think_loop_out:
  "think_loop s b out = (out', f) \<Longrightarrow>
   settled f \<and> out @ think_out (s @ u) b = out' @ think_out (th_pending f @ u) (th_in_think f)"
proof (induction s b out rule: think_loop.induct)
  case (1 s b out)
  show ?case
  proof (cases b)
    case True
    show ?thesis
    proof (cases "find_next_think_close s")
      case None
      with 1(3) True show ?thesis by (auto simp: think_loop.simps [of s True out] settled_def)
    next
      case (Some r)
      obtain e c where r: "r = (e, c)" by (cases r)
      have grown: "find_next_think_close (s @ u) = Some (e, c)"
        using Some r unfolding find_next_think_close_def
        by (intro find_first_append think_codes) simp
      have "drop (e + length c) (s @ u) = drop (e + length c) s @ u"
        using think_tags_nonempty(2) [of s e c] Some r by simp
      then have "think_out (s @ u) b = think_out (drop (e + length c) s @ u) False"
        using True grown by (simp add: think_out_step(1) [of "s @ u"])
      moreover have "think_loop (drop (e + length c) s) False out = (out', f)"
        using 1(3) True Some r by (simp add: think_loop.simps [of s True out])
      ultimately show ?thesis using 1(1) [OF True Some r [symmetric]] by simp
    qed
  next
    case False
    show ?thesis
    proof (cases "find_next_think_open s")
      case None
      let ?m = "length s - kept_len think_opens s"
      have none: "find_first think_opens s = None" using None by (simp add: find_next_think_open_def)
      note held = find_first_held_back [OF think_codes(1,3) none]
      from 1(3) False None have f: "out' = out @ take ?m s" "f = \<lparr>th_pending = drop ?m s, th_in_think = False\<rparr>"
        by (auto simp: think_loop.simps [of s False out] open_kept Let_def)
      have "think_out (s @ u) False = take ?m s @ think_out (drop ?m s @ u) False"
      proof (cases "find_first think_opens (drop ?m s @ u)")
        case None
        then show ?thesis
          using held(1) [of u] by (simp add: think_out_step(2) find_next_think_open_def flip: append_assoc)
      next
        case (Some r)
        obtain i t where r: "r = (i, t)" by (cases r)
        have "take (i + ?m) (s @ u) = take ?m (s @ u) @ take i (drop ?m (s @ u))"
          by (simp only: take_add add.commute [of i])
        then have "take (i + ?m) (s @ u) = take ?m s @ take i (drop ?m s @ u)" by simp
        moreover have "i + ?m + length t = i + length t + ?m" by simp
        then have "drop (i + ?m + length t) (s @ u) = drop (i + length t) (drop ?m s @ u)"
          by (simp only: drop_drop [symmetric] drop_append) simp
        ultimately show ?thesis
          using held(1) [of u] Some r
          by (simp add: think_out_step(2) find_next_think_open_def add.assoc)
      qed
      then show ?thesis using f False held(2) by (simp add: settled_def find_next_think_open_def)
    next
      case (Some r)
      obtain i t where r: "r = (i, t)" by (cases r)
      have grown: "find_next_think_open (s @ u) = Some (i, t)"
        using Some r unfolding find_next_think_open_def
        by (intro find_first_append think_codes) simp
      have len: "i + length t \<le> length s" using think_tags_nonempty(1) [of s i t] Some r by simp
      then have "drop (i + length t) (s @ u) = drop (i + length t) s @ u" "take i (s @ u) = take i s"
        by simp_all
      then have "think_out (s @ u) b = take i s @ think_out (drop (i + length t) s @ u) True"
        using False grown by (simp add: think_out_step(2) [of "s @ u"])
      moreover have "think_loop (drop (i + length t) s) True (out @ take i s) = (out', f)"
        using 1(3) False Some r by (simp add: think_loop.simps [of s False out])
      ultimately show ?thesis using 1(2) [OF False Some r [symmetric]] by simp
    qed
  qed
qed

lemma think_stream_out: "settled f \<Longrightarrow> think_stream cs f = think_out (th_pending f @ concat cs) (th_in_think f)"
proof (induction cs arbitrary: f)
  case Nil
  then show ?case
    by (cases "th_in_think f") (simp_all add: think_finish_def think_out_step settled_def)
next
  case (Cons c cs)
  obtain out f' where p: "think_push c f = (out, f')" by (cases "think_push c f")
  with think_loop_out [of "th_pending f @ c" "th_in_think f" "[]" out f' "concat cs"]
  have "settled f'" "think_out (th_pending f @ c @ concat cs) (th_in_think f) =
      out @ think_out (th_pending f' @ concat cs) (th_in_think f')"
    by (simp_all add: think_push_def)
  with p Cons.IH [of f'] show ?case by simp
qed

lemma settled_no_think: "settled no_think"
  using think_tags_nonempty(1) [of "[]"]
  by (cases "find_next_think_open []") (auto simp: settled_def no_think_def)

lemma filter_loop_rest: "filter_loop r s b = (r', False, rest) \<Longrightarrow> rest = []"
proof (induction r s b rule: filter_loop.induct)
  case (1 r s b)
  then show ?case
    by (cases b) (auto simp: filter_loop.simps [of r s True] filter_loop.simps [of r s False]
        split: if_splits option.splits)
qed

text \<open>
  Property C36: wherever the chunks of an answer end, the user sees what the filter gives on the
  whole text: the text outside thinking blocks, and after it what follows an opening tag that is
  never closed. Where every block is closed this is also what is stripped from the final text.
\<close>

theorem think_stream_chunks:
  "think_stream cs no_think = think_stream [concat cs] no_think \<and>
   (case filter_loop [] (concat cs) False of (result, unclosed, rest) \<Rightarrow>
      think_stream cs no_think = result @ rest \<and>
      filter_think_tags (concat cs) False = (result, unclosed) \<and>
      (unclosed \<or> strip_think_blocks (concat cs) = think_stream cs no_think))"
proof -
  have out: "think_stream ds no_think = think_out (concat ds) False" for ds
    using think_stream_out [OF settled_no_think] by (simp add: no_think_def)
  show ?thesis
    using filter_loop_rest [of "[]" "concat cs" False]
    by (auto simp: out think_out_def filter_think_tags_def strip_think_blocks_def split: prod.split)
qed

section \<open>The action filter\<close>

text \<open>The text outside action tags, which begin with \<open>TAG_START\<close> and end with two brackets.\<close>

function action_out :: "string \<Rightarrow> bool \<Rightarrow> string" where
  "action_out s True =
     (case find_sub '']]'' s of Some e \<Rightarrow> action_out (drop (e + 2) s) False | None \<Rightarrow> [])"
| "action_out s False =
     (case find_sub TAG_START s of
        Some i \<Rightarrow> take i s @ action_out (drop (i + length TAG_START) s) True
      | None \<Rightarrow> s)"
  by pat_completeness auto
termination
proof (relation "measure (\<lambda>(s, b). length s)", simp_all)
  show "find_sub '']]'' p = Some e \<Longrightarrow> length p - Suc (Suc e) < length p" for p e
    using find_sub_bound [of "'']]''" p e] by simp
  show "find_sub TAG_START p = Some i \<Longrightarrow> length p - (i + length TAG_START) < length p" for p i
    using find_sub_bound [of TAG_START p i] by (simp add: TAG_START_def)
qed

declare action_out.simps [simp del]

lemma find_sub_first: "find_sub t s = map_option fst (find_first [t] s)"
  by (simp split: option.split)

lemma action_codes: "tag_code [TAG_START]" "\<forall>t \<in> set [TAG_START]. \<not> is_cont (hd t)"
    "tag_code ['']]'']"
  by (simp_all add: tag_code_def TAG_START_def is_cont_def)

text \<open>A closing pair cannot lie across the end of a text that does not end in a bracket.\<close>

lemma close_after:
  assumes "find_sub '']]'' s = None" and "s = [] \<or> last s \<noteq> CHR '']''"
  shows "find_sub '']]'' (s @ u) = map_option (\<lambda>i. i + length s) (find_sub '']]'' u)"
  using assms
proof (induction s)
  case Nil
  then show ?case by (simp add: option.map_ident)
next
  case (Cons c s)
  have "\<not> prefix '']]'' (c # s)"
    using Cons.prems(1) by (auto simp: find_sub.simps [of "'']]''" "c # s"] split: if_splits)
  then have "\<not> prefix '']]'' (c # s @ u)" using Cons.prems(2) by (cases s) auto
  moreover have "find_sub '']]'' s = None"
    using Cons.prems(1) by (auto simp: find_sub.simps [of "'']]''" "c # s"] split: if_splits)
  moreover have "s = [] \<or> last s \<noteq> CHR '']''" using Cons.prems(2) by auto
  ultimately show ?case
    using Cons.IH
    by (subst append_Cons, subst find_sub.simps)
       (simp only: if_False list.case option.map_comp comp_def list.size add_Suc_right add_0_right)
qed

definition calm_end :: "string \<Rightarrow> bool" where
  "calm_end c \<longleftrightarrow> c = [] \<or> last c \<noteq> CHR '']''"

lemma calm_end_drop: "calm_end s \<Longrightarrow> calm_end (drop n s)"
  by (auto simp: calm_end_def)

definition action_settled :: "action_filter \<Rightarrow> bool" where
  "action_settled f \<longleftrightarrow> calm_end (ac_pending f) \<and>
     (if ac_in_tag f then ac_pending f = [] else find_sub TAG_START (ac_pending f) = None)"

lemma suffix_len_from_prefix: "prefix (drop (length s - suffix_len_from s tag n) s) tag"
  by (induction n) (auto simp: starts_with_def)

lemma kept_calm: "calm_end (drop (length s - gateway_tag_prefix_suffix_len s) s)"
proof -
  let ?d = "drop (length s - gateway_tag_prefix_suffix_len s) s"
  have "prefix ?d TAG_START" by (simp add: gateway_tag_prefix_suffix_len_def suffix_len_from_prefix)
  then have "set ?d \<subseteq> set TAG_START" by (rule set_mono_prefix)
  then have "?d \<noteq> [] \<Longrightarrow> last ?d \<in> set TAG_START" using last_in_set by blast
  then show ?thesis by (auto simp: calm_end_def TAG_START_def)
qed

lemma action_loop_out:
  "action_loop s b out = (out', f) \<Longrightarrow> calm_end s \<or> u = [] \<Longrightarrow>
   action_settled f \<and> out @ action_out (s @ u) b = out' @ action_out (ac_pending f @ u) (ac_in_tag f)"
proof (induction s b out rule: action_loop.induct)
  case (1 s b out)
  show ?case
  proof (cases b)
    case True
    show ?thesis
    proof (cases "find_sub '']]'' s")
      case None
      have "action_out (s @ u) True = action_out u True"
      proof (cases "u = []")
        case False
        with 1(4) have "s = [] \<or> last s \<noteq> CHR '']''" by (simp add: calm_end_def)
        with close_after [OF None this, of u] show ?thesis
          by (simp add: action_out.simps(1) split: option.split)
      next
        case u: True
        have "find_sub '']]'' [] = None" by (simp add: find_sub.simps [of "'']]''" "[]"])
        with None u show ?thesis by (simp add: action_out.simps(1))
      qed
      with 1(3) True None show ?thesis
        by (auto simp: action_loop.simps [of s True out] action_settled_def calm_end_def)
    next
      case (Some e)
      have "e + 2 \<le> length s" using find_sub_bound [OF Some] by simp
      then have "action_out (s @ u) b = action_out (drop (e + 2) s @ u) False"
        using True find_sub_append [OF Some, of u] by (simp add: action_out.simps(1) [of "s @ u"])
      moreover have "action_loop (drop (e + 2) s) False out = (out', f)"
        using 1(3) True Some by (simp add: action_loop.simps [of s True out])
      moreover have "calm_end (drop (e + 2) s) \<or> u = []" using 1(4) calm_end_drop by blast
      ultimately show ?thesis using 1(1) [OF True Some] by simp
    qed
  next
    case False
    show ?thesis
    proof (cases "find_sub TAG_START s")
      case None
      let ?m = "length s - kept_len [TAG_START] s"
      have kept: "kept_len [TAG_START] s = gateway_tag_prefix_suffix_len s"
        by (simp add: kept_len_def tag_suffix_prefix_len_def gateway_tag_prefix_suffix_len_def)
      have none: "find_first [TAG_START] s = None" using None by simp
      note held = find_first_held_back [OF action_codes(1,2) none]
      have find: "find_sub TAG_START (s @ u) = map_option (\<lambda>i. i + ?m) (find_sub TAG_START (drop ?m s @ u))"
        unfolding find_sub_first held(1) by (simp add: option.map_comp comp_def case_prod_unfold)
      from 1(3) False None have f: "out' = out @ take ?m s" "f = \<lparr>ac_pending = drop ?m s, ac_in_tag = False\<rparr>"
        by (auto simp: action_loop.simps [of s False out] kept Let_def)
      have "action_out (s @ u) False = take ?m s @ action_out (drop ?m s @ u) False"
      proof (cases "find_sub TAG_START (drop ?m s @ u)")
        case None
        then show ?thesis using find by (simp add: action_out.simps(2) flip: append_assoc)
      next
        case (Some i)
        have "take (i + ?m) (s @ u) = take ?m (s @ u) @ take i (drop ?m (s @ u))"
          by (simp only: take_add add.commute [of i])
        then have "take (i + ?m) (s @ u) = take ?m s @ take i (drop ?m s @ u)" by simp
        moreover have "i + ?m + length TAG_START = i + length TAG_START + ?m" by simp
        then have "drop (i + ?m + length TAG_START) (s @ u) = drop (i + length TAG_START) (drop ?m s @ u)"
          by (simp only: drop_drop [symmetric] drop_append) simp
        ultimately show ?thesis using find Some by (simp add: action_out.simps(2) add.assoc)
      qed
      moreover have "find_sub TAG_START (drop ?m s) = None"
        using held(2) by (auto split: option.splits)
      ultimately show ?thesis using f False kept_calm [of s] by (simp add: action_settled_def kept)
    next
      case (Some i)
      have len: "i + length TAG_START \<le> length s" by (rule find_sub_bound [OF Some])
      moreover have "find_sub TAG_START (s @ u) = Some i"
        by (rule find_sub_append [OF Some])
      ultimately have "action_out (s @ u) b =
          take i s @ action_out (drop (i + length TAG_START) s @ u) True"
        using False by (simp add: action_out.simps(2) [of "s @ u"])
      moreover have "action_loop (drop (i + length TAG_START) s) True (out @ take i s) = (out', f)"
        using 1(3) False Some by (simp add: action_loop.simps [of s False out])
      moreover have "calm_end (drop (i + length TAG_START) s) \<or> u = []" using 1(4) calm_end_drop by blast
      ultimately show ?thesis using 1(2) [OF False Some] by simp
    qed
  qed
qed

lemma action_stream_out:
  "action_settled f \<Longrightarrow> \<forall>c \<in> set (butlast cs). calm_end c \<Longrightarrow>
   action_stream cs f = action_out (ac_pending f @ concat cs) (ac_in_tag f)"
proof (induction cs arbitrary: f)
  case Nil
  have "find_sub '']]'' [] = None" by (simp add: find_sub.simps [of "'']]''" "[]"])
  with Nil show ?case
    by (cases "ac_in_tag f") (simp_all add: action_finish_def action_out.simps action_settled_def)
next
  case (Cons c cs)
  obtain out f' where p: "action_push c f = (out, f')" by (cases "action_push c f")
  have calm: "calm_end (ac_pending f @ c) \<or> concat cs = []"
  proof (cases "cs = []")
    case False
    with Cons.prems have "calm_end c" "calm_end (ac_pending f)" by (auto simp: action_settled_def)
    then show ?thesis by (cases "c = []") (auto simp: calm_end_def last_append)
  qed simp
  from p action_loop_out [OF _ calm, of "ac_in_tag f" "[]" out f']
  have "action_settled f'" "action_out (ac_pending f @ c @ concat cs) (ac_in_tag f) =
      out @ action_out (ac_pending f' @ concat cs) (ac_in_tag f')"
    by (simp_all add: action_push_def)
  moreover have "\<forall>c \<in> set (butlast cs). calm_end c" using Cons.prems(2) by (auto split: if_splits)
  ultimately show ?case using p Cons.IH [of f'] by simp
qed

lemma settled_no_action: "action_settled no_action"
proof -
  have "find_sub TAG_START [] = None" by (subst find_sub.simps) (simp add: TAG_START_def)
  then show ?thesis by (simp add: action_settled_def no_action_def calm_end_def)
qed

text \<open>
  The action filter puts out exactly the text outside action tags, wherever the chunks
  end, as long as no chunk but the last ends in a closing bracket.
\<close>

theorem action_stream_chunks:
  assumes "\<forall>c \<in> set (butlast cs). calm_end c"
  shows "action_stream cs no_action = action_out (concat cs) False"
  using action_stream_out [OF settled_no_action assms] by (simp add: no_action_def)

lemma action_stream_chunks_witness:
  "action_stream [''a [[GATE'', ''WAY:x'', '']] b''] no_action =
   action_out ''a [[GATEWAY:x]] b'' False"
  using action_stream_chunks [of "[''a [[GATE'', ''WAY:x'', '']] b'']"]
  by (simp add: calm_end_def)

lemma find_sub_skip: "c \<noteq> hd pat \<Longrightarrow> pat \<noteq> [] \<Longrightarrow> find_sub pat (c # s) = map_option Suc (find_sub pat s)"
  by (subst find_sub.simps) (cases pat; simp)

lemma find_sub_fresh:
  assumes "c \<in> set pat" and "c \<notin> set s"
  shows "find_sub pat s = None"
  using assms by (auto simp: find_sub_None sublist_def)

text \<open>
  Where the two closing brackets of an action tag come in different chunks, the tag is
  not seen to end, and the text after it is lost; in one chunk that text is put out.
\<close>

theorem action_close_split:
  assumes "CHR ''['' \<notin> set x \<union> set y" and "CHR '']'' \<notin> set x \<union> set y"
  shows "action_stream [TAG_START @ x @ '']'', '']'' @ y] no_action = [] \<and>
         action_stream [TAG_START @ x @ '']]'' @ y] no_action = y"
proof -
  have open0: "find_sub TAG_START (TAG_START @ s) = Some 0" for s
    by (simp add: find_sub.simps [of TAG_START "TAG_START @ s"])
  have lone: "find_sub '']]'' (z @ '']'') = None" "find_sub '']]'' ('']'' @ z) = None"
      "find_sub '']]'' (z @ '']]'' @ w) = Some (length z)"
    if "CHR '']'' \<notin> set z" for z w
  proof -
    show "find_sub '']]'' (z @ '']'') = None" "find_sub '']]'' (z @ '']]'' @ w) = Some (length z)"
      using that by (induction z)
        (auto simp: find_sub_skip find_sub.simps [of "'']]''" "'']''"] find_sub.simps [of "'']]''" "[]"]
           find_sub.simps [of "'']]''" "CHR '']'' # CHR '']'' # w"])
    show "find_sub '']]'' ('']'' @ z) = None"
      using that find_sub_fresh [of "CHR '']''" "'']]''" z]
      by (subst append_Cons, subst append_Nil, subst find_sub.simps) (cases z; auto)
  qed
  have y: "find_sub TAG_START y = None"
    by (rule find_sub_fresh [of "CHR ''[''"]) (use assms in \<open>auto simp: TAG_START_def\<close>)
  have step: "action_loop (TAG_START @ s) False [] = action_loop s True []" for s
    by (simp add: action_loop.simps [of "TAG_START @ s" False] open0)
  have "action_stream [TAG_START @ x @ '']'', '']'' @ y] no_action = []"
    using lone(1) [of x] lone(2) [of y] assms
    by (simp add: action_push_def no_action_def step action_loop.simps [of "x @ '']''" True]
        action_loop.simps [of "CHR '']'' # y" True] action_finish_def)
  moreover have "action_stream [TAG_START @ x @ '']]'' @ y] no_action = y"
    using action_stream_chunks [of "[TAG_START @ x @ '']]'' @ y]"] lone(3) [of x y] assms y
    by (simp add: action_out.simps open0)
  ultimately show ?thesis ..
qed

lemma action_close_split_witness:
  "action_stream [TAG_START @ ''x]'', ''] done''] no_action = [] \<and>
   action_stream [TAG_START @ ''x]] done''] no_action = '' done''"
  using action_close_split [of "''x''" "'' done''"] by simp

end
