(* ===== verification/Breaker.thy ===== *)
theory Breaker
  imports Prelude
begin

text \<open>
  The two circuit breakers of \<open>runner.rs\<close>: \<open>SendCircuitBreaker\<close>, which counts failed sends per
  conversation, and the counter of failed logins per CLI. An \<open>Instant\<close> is a number of
  nanoseconds; \<open>saturating_duration_since\<close> is subtraction of natural numbers. A counter wraps at
  32 bits, as it does in a release build.
\<close>

definition secs :: "nat \<Rightarrow> nat" where
  "secs n = n * 1000000000"

section \<open>Failed sends\<close>

definition SEND_FAILURE_THRESHOLD :: nat where
  "SEND_FAILURE_THRESHOLD = 3"

definition SEND_FAILURE_COOLDOWN :: nat where
  "SEND_FAILURE_COOLDOWN = secs 60"

definition SEND_FAILURE_EVICTION_AGE :: nat where
  "SEND_FAILURE_EVICTION_AGE = secs (10 * 60)"

definition SEND_FAILURE_EVICTION_SWEEP_INTERVAL :: nat where
  "SEND_FAILURE_EVICTION_SWEEP_INTERVAL = secs 60"

record breaker =
  br_state :: "string \<Rightarrow> (nat \<times> nat) option"
  br_last_sweep_at :: "nat option"

definition closed_breaker :: breaker where
  "closed_breaker = \<lparr>br_state = Map.empty, br_last_sweep_at = None\<rparr>"

definition retain_recent :: "nat \<Rightarrow> (string \<Rightarrow> (nat \<times> nat) option) \<Rightarrow> string \<Rightarrow> (nat \<times> nat) option" where
  "retain_recent now m k =
     (case m k of
        None \<Rightarrow> None
      | Some (count, last_at) \<Rightarrow>
          if now - last_at < SEND_FAILURE_EVICTION_AGE then Some (count, last_at) else None)"

definition maybe_evict :: "nat \<Rightarrow> breaker \<Rightarrow> breaker" where
  "maybe_evict now b =
     (case br_last_sweep_at b of
        Some prev \<Rightarrow>
          if now - prev < SEND_FAILURE_EVICTION_SWEEP_INTERVAL then b
          else b\<lparr>br_state := retain_recent now (br_state b), br_last_sweep_at := Some now\<rparr>
      | None \<Rightarrow> b\<lparr>br_state := retain_recent now (br_state b), br_last_sweep_at := Some now\<rparr>)"

definition record_success :: "string \<Rightarrow> breaker \<Rightarrow> breaker" where
  "record_success key b = b\<lparr>br_state := (br_state b)(key := None)\<rparr>"

definition record_failure :: "nat \<Rightarrow> string \<Rightarrow> breaker \<Rightarrow> breaker" where
  "record_failure now key b =
     (let b' = maybe_evict now b;
          count = (case br_state b' key of None \<Rightarrow> 0 | Some (n, _) \<Rightarrow> n)
      in b'\<lparr>br_state := (br_state b')(key \<mapsto> ((count + 1) mod 2 ^ 32, now))\<rparr>)"

definition is_open :: "nat \<Rightarrow> string \<Rightarrow> breaker \<Rightarrow> bool" where
  "is_open now key b =
     (case br_state b key of
        None \<Rightarrow> False
      | Some (count, last_at) \<Rightarrow>
          if count < SEND_FAILURE_THRESHOLD then False else now - last_at < SEND_FAILURE_COOLDOWN)"

definition reset_breaker :: "string \<Rightarrow> breaker \<Rightarrow> breaker" where
  "reset_breaker key b = b\<lparr>br_state := (br_state b)(key := None)\<rparr>"

text \<open>What happens to the breaker: sends and starts of requests, each at a time.\<close>

datatype send_event = SendOk string | SendFailed string | RequestStarts string

fun breaker_step :: "breaker \<Rightarrow> nat \<times> send_event \<Rightarrow> breaker" where
  "breaker_step b (t, SendOk k) = record_success k b"
| "breaker_step b (t, SendFailed k) = record_failure t k b"
| "breaker_step b (t, RequestStarts k) = reset_breaker k b"

definition run_breaker :: "(nat \<times> send_event) list \<Rightarrow> breaker" where
  "run_breaker evs = foldl breaker_step closed_breaker evs"

text \<open>The failures of a conversation since its last success or request, and the time of the last.\<close>

fun streak_step :: "string \<Rightarrow> nat \<times> nat option \<Rightarrow> nat \<times> send_event \<Rightarrow> nat \<times> nat option" where
  "streak_step k (n, l) (t, SendOk k') = (if k' = k then (0, None) else (n, l))"
| "streak_step k (n, l) (t, SendFailed k') = (if k' = k then (Suc n, Some t) else (n, l))"
| "streak_step k (n, l) (t, RequestStarts k') = (if k' = k then (0, None) else (n, l))"

definition streak :: "string \<Rightarrow> (nat \<times> send_event) list \<Rightarrow> nat \<times> nat option" where
  "streak k evs = foldl (streak_step k) (0, None) evs"

text \<open>No failure is recorded ten minutes or more after the last one of this conversation, so that
  it is never forgotten in between.\<close>

definition kept_fresh :: "string \<Rightarrow> (nat \<times> send_event) list \<Rightarrow> bool" where
  "kept_fresh k evs \<longleftrightarrow>
     (\<forall>us t k' vs l. evs = us @ (t, SendFailed k') # vs \<longrightarrow> snd (streak k us) = Some l \<longrightarrow>
        t - l < SEND_FAILURE_EVICTION_AGE)"

lemma streak_snoc [simp]: "streak k (evs @ [e]) = streak_step k (streak k evs) e"
  and run_breaker_snoc [simp]: "run_breaker (evs @ [e]) = breaker_step (run_breaker evs) e"
  by (simp_all add: streak_def run_breaker_def)

lemma run_breaker_Nil [simp]: "run_breaker [] = closed_breaker" "streak k [] = (0, None)"
  by (simp_all add: run_breaker_def streak_def)

text \<open>A sweep drops entries and changes none.\<close>

lemma br_state_evict:
  "br_state (maybe_evict now b) k = br_state b k \<or>
   (br_state (maybe_evict now b) k = None \<and>
    (\<exists>n l. br_state b k = Some (n, l) \<and> SEND_FAILURE_EVICTION_AGE \<le> now - l))"
  by (auto simp: maybe_evict_def retain_recent_def split: option.splits)

lemma breaker_counts:
  "br_state (run_breaker evs) k = Some (n, l) \<Longrightarrow>
   n \<le> fst (streak k evs) \<and> snd (streak k evs) = Some l"
proof (induction evs arbitrary: n l rule: rev_induct)
  case (snoc e evs)
  obtain t ev where e: "e = (t, ev)" by (cases e)
  obtain m o' where s: "streak k evs = (m, o')" by (cases "streak k evs")
  show ?case
  proof (cases ev)
    case (SendFailed k')
    let ?b = "run_breaker evs"
    show ?thesis
    proof (cases "k' = k")
      case True
      let ?c = "case br_state (maybe_evict t ?b) k of None \<Rightarrow> 0 | Some (n, _) \<Rightarrow> n"
      have "?c \<le> m"
        using br_state_evict [of t ?b k] snoc.IH s by (auto split: option.splits)
      moreover have "n = (?c + 1) mod 2 ^ 32" "l = t"
        using snoc.prems e SendFailed True by (auto simp: record_failure_def Let_def)
      moreover have "(?c + 1) mod 2 ^ 32 \<le> ?c + 1" by (rule mod_less_eq_dividend)
      ultimately show ?thesis using e SendFailed True s by simp
    next
      case False
      then have "br_state ?b k = Some (n, l)"
        using snoc.prems e SendFailed br_state_evict [of t ?b k]
        by (auto simp: record_failure_def Let_def)
      with snoc.IH s False e SendFailed show ?thesis by simp
    qed
  qed (use snoc.prems snoc.IH e s in \<open>auto simp: record_success_def reset_breaker_def split: if_splits\<close>)
qed (simp add: closed_breaker_def)

lemma kept_fresh_butlast: "kept_fresh k (evs @ [e]) \<Longrightarrow> kept_fresh k evs"
  unfolding kept_fresh_def by (metis append.assoc append_Cons)

lemma breaker_counts_all:
  assumes "kept_fresh k evs" and "fst (streak k evs) < 2 ^ 32"
  shows "br_state (run_breaker evs) k =
    (case snd (streak k evs) of None \<Rightarrow> None | Some l \<Rightarrow> Some (fst (streak k evs), l)) \<and>
    (snd (streak k evs) = None \<longleftrightarrow> fst (streak k evs) = 0)"
  using assms
proof (induction evs rule: rev_induct)
  case (snoc e evs)
  obtain t ev where e: "e = (t, ev)" by (cases e)
  obtain m o' where s: "streak k evs = (m, o')" by (cases "streak k evs")
  have fresh: "kept_fresh k evs" using snoc.prems(1) by (rule kept_fresh_butlast)
  show ?case
  proof (cases ev)
    case (SendFailed k')
    let ?b = "run_breaker evs"
    have bound: "m < 2 ^ 32" using snoc.prems(2) e SendFailed s by (simp split: if_splits)
    with snoc.IH fresh s have ih: "br_state ?b k = (case o' of None \<Rightarrow> None | Some l \<Rightarrow> Some (m, l))"
        "o' = None \<longleftrightarrow> m = 0" by auto
    have "t - l < SEND_FAILURE_EVICTION_AGE" if "o' = Some l" for l
      using snoc.prems(1) that s e SendFailed unfolding kept_fresh_def by fastforce
    then have kept: "br_state (maybe_evict t ?b) k = br_state ?b k"
      using br_state_evict [of t ?b k] ih(1) by (auto simp: not_less [symmetric] split: option.splits)
    show ?thesis
    proof (cases "k' = k")
      case True
      then have "Suc m < 2 ^ 32" using snoc.prems(2) e SendFailed s by simp
      then show ?thesis
        using True ih kept e SendFailed s
        by (auto simp: record_failure_def Let_def split: option.splits)
    next
      case False
      then show ?thesis using ih kept e SendFailed s
        by (auto simp: record_failure_def Let_def split: option.split)
    qed
  qed (use snoc fresh e s in \<open>auto simp: record_success_def reset_breaker_def split: if_splits option.splits\<close>)
qed (simp add: closed_breaker_def)

text \<open>
  The breaker of a conversation is open only after three failed sends since its last
  success or request, the last of them less than a minute ago; and where no failure falls ten
  minutes or more after the conversation's last one, it is open exactly then.
\<close>

theorem breaker_opens:
  "(is_open now k (run_breaker evs) \<longrightarrow>
     (\<exists>l. 3 \<le> fst (streak k evs) \<and> snd (streak k evs) = Some l \<and> now - l < secs 60)) \<and>
   (kept_fresh k evs \<and> fst (streak k evs) < 2 ^ 32 \<longrightarrow>
     is_open now k (run_breaker evs) =
     (\<exists>l. 3 \<le> fst (streak k evs) \<and> snd (streak k evs) = Some l \<and> now - l < secs 60))"
proof (intro conjI impI)
  assume "is_open now k (run_breaker evs)"
  then obtain n l where "br_state (run_breaker evs) k = Some (n, l)" "3 \<le> n" "now - l < secs 60"
    by (auto simp: is_open_def SEND_FAILURE_THRESHOLD_def SEND_FAILURE_COOLDOWN_def
        split: option.splits if_splits)
  with breaker_counts [of evs k n l]
  show "\<exists>l. 3 \<le> fst (streak k evs) \<and> snd (streak k evs) = Some l \<and> now - l < secs 60" by auto
next
  assume "kept_fresh k evs \<and> fst (streak k evs) < 2 ^ 32"
  with breaker_counts_all [of k evs] show "is_open now k (run_breaker evs) =
      (\<exists>l. 3 \<le> fst (streak k evs) \<and> snd (streak k evs) = Some l \<and> now - l < secs 60)"
    by (auto simp: is_open_def SEND_FAILURE_THRESHOLD_def SEND_FAILURE_COOLDOWN_def
        split: option.splits)
qed

lemma breaker_opens_witness:
  "is_open (secs 62) ''w'' (run_breaker
     [(secs 1, SendFailed ''w''), (secs 2, SendFailed ''w''), (secs 3, SendFailed ''w'')])"
proof -
  let ?evs = "[(secs 1, SendFailed ''w''), (secs 2, SendFailed ''w''), (secs 3, SendFailed ''w'')]"
  have "streak ''w'' ?evs = (3, Some (secs 3))" by (simp add: streak_def)
  moreover have "kept_fresh ''w'' ?evs"
    by (auto simp: kept_fresh_def Cons_eq_append_conv streak_def SEND_FAILURE_EVICTION_AGE_def secs_def)
  ultimately show ?thesis using breaker_opens [of "secs 62" "''w''" ?evs] by (simp add: secs_def)
qed

section \<open>Failed logins\<close>

definition AUTH_FAILURE_THRESHOLD :: nat where
  "AUTH_FAILURE_THRESHOLD = 2"

definition AUTH_FAILURE_COOLDOWN :: nat where
  "AUTH_FAILURE_COOLDOWN = secs 300"

type_synonym auth_failures = "string \<Rightarrow> (nat \<times> nat) option"

text \<open>The message is given by its variable parts: the number of failures and the seconds left.\<close>

definition seconds_left :: "nat \<Rightarrow> nat \<Rightarrow> nat" where
  "seconds_left now last_at = (AUTH_FAILURE_COOLDOWN - (now - last_at)) div 1000000000"

definition check_auth_circuit ::
  "nat \<Rightarrow> string \<Rightarrow> auth_failures \<Rightarrow> (nat \<times> nat) option \<times> auth_failures" where
  "check_auth_circuit now cli_name m =
     (case m cli_name of
        None \<Rightarrow> (None, m)
      | Some (count, last_at) \<Rightarrow>
          if AUTH_FAILURE_THRESHOLD < count \<and> now - last_at < AUTH_FAILURE_COOLDOWN
          then (Some (count, seconds_left now last_at), m)
          else if AUTH_FAILURE_COOLDOWN \<le> now - last_at then (None, m(cli_name := None))
          else (None, m))"

text \<open>Paused with the count and the seconds left, or healthy with the count.\<close>

datatype auth_status = AuthPaused nat nat | AuthHealthy nat

definition auth_status_line ::
  "nat \<Rightarrow> string \<Rightarrow> auth_failures \<Rightarrow> auth_status option \<times> auth_failures" where
  "auth_status_line now cli_name m =
     (case m cli_name of
        None \<Rightarrow> (None, m)
      | Some (count, last_at) \<Rightarrow>
          if AUTH_FAILURE_COOLDOWN \<le> now - last_at then (None, m(cli_name := None))
          else if AUTH_FAILURE_THRESHOLD < count
          then (Some (AuthPaused count (seconds_left now last_at)), m)
          else (Some (AuthHealthy count), m))"

definition record_auth_failure :: "nat \<Rightarrow> string \<Rightarrow> auth_failures \<Rightarrow> auth_failures" where
  "record_auth_failure now cli_name m =
     m(cli_name \<mapsto> (((case m cli_name of None \<Rightarrow> 0 | Some (n, _) \<Rightarrow> n) + 1) mod 2 ^ 32, now))"

definition clear_auth_failure :: "string \<Rightarrow> auth_failures \<Rightarrow> auth_failures" where
  "clear_auth_failure cli_name m = m(cli_name := None)"

lemma auth_failures_count:
  assumes "length ts < 2 ^ 32"
  shows "fold (\<lambda>t. record_auth_failure t cli) ts (clear_auth_failure cli m) cli =
    (if ts = [] then None else Some (length ts, last ts))"
  using assms
proof (induction ts rule: rev_induct)
  case (snoc t ts)
  then show ?case by (cases "ts = []") (simp_all add: record_auth_failure_def)
qed (simp add: clear_auth_failure_def)

lemma ceil_remaining:
  assumes "0 < (c::nat)"
  shows "(k * c - d) div c = k - (d + (c - 1)) div c"
proof -
  define q where "q = (d + (c - 1)) div c"
  define r where "r = (d + (c - 1)) mod c"
  have eq: "q * c + r = d + (c - 1)" and r: "r < c" using assms by (simp_all add: q_def r_def)
  show ?thesis
  proof (cases "q \<le> k")
    case True
    then obtain e where e: "k = q + e" using le_Suc_ex by blast
    have "k * c - d = e * c + (c - 1 - r)" using eq r assms unfolding e by (simp add: add_mult_distrib)
    moreover have "(e * c + (c - 1 - r)) div c = e" using assms by simp
    ultimately show ?thesis using e by (simp add: q_def)
  next
    case False
    then have "(k + 1) * c \<le> q * c" by (intro mult_right_mono) simp_all
    then have "k * c \<le> d" using eq r by simp
    with False show ?thesis by (simp add: q_def)
  qed
qed

text \<open>
  After failed logins of a CLI with no success between them, its requests are refused
  exactly when there were more than two and the last is less than five minutes old, with the
  seconds that remain; once the five minutes are over the count is forgotten; other CLIs are not
  affected.
\<close>

theorem auth_circuit_trips:
  fixes m :: auth_failures and cli :: string
  assumes "length ts < 2 ^ 32" and "ts \<noteq> []"
  defines "m' \<equiv> fold (\<lambda>t. record_auth_failure t cli) ts (clear_auth_failure cli m)"
  shows "check_auth_circuit now cli m' =
    (if 2 < length ts \<and> now - last ts < secs 300
     then (Some (length ts, 300 - ((now - last ts) + 999999999) div 1000000000), m')
     else (None, if secs 300 \<le> now - last ts then m'(cli := None) else m')) \<and>
    m'(cli := None) = m(cli := None)"
proof
  have "m' cli = Some (length ts, last ts)"
    using auth_failures_count [OF assms(1)] assms(2) by (simp add: m'_def)
  moreover have "(300 * 1000000000 - d) div 1000000000 = 300 - (d + 999999999) div 1000000000" for d :: nat
    using ceil_remaining [of 1000000000 300 d] by simp
  ultimately show "check_auth_circuit now cli m' =
      (if 2 < length ts \<and> now - last ts < secs 300
       then (Some (length ts, 300 - ((now - last ts) + 999999999) div 1000000000), m')
       else (None, if secs 300 \<le> now - last ts then m'(cli := None) else m'))"
    by (auto simp: check_auth_circuit_def AUTH_FAILURE_THRESHOLD_def AUTH_FAILURE_COOLDOWN_def
        seconds_left_def secs_def)
  have "fold (\<lambda>t. record_auth_failure t cli) us n other = n other" if "other \<noteq> cli" for us n other
    using that by (induction us arbitrary: n) (simp_all add: record_auth_failure_def)
  then show "m'(cli := None) = m(cli := None)"
    by (simp add: m'_def fun_eq_iff clear_auth_failure_def)
qed

lemma auth_circuit_trips_witness:
  "fst (check_auth_circuit (secs 103) ''astra''
     (fold (\<lambda>t. record_auth_failure t ''astra'') [secs 1, secs 2, secs 3]
       (clear_auth_failure ''astra'' Map.empty))) = Some (3, 200)"
  using auth_circuit_trips [of "[secs 1, secs 2, secs 3]" "secs 103" "''astra''" Map.empty]
  by (simp add: secs_def)

end
