(* ===== verification/Delivery.thy ===== *)
theory Delivery
  imports Text Breaker Trace_Writer
begin

text \<open>
  How a reply leaves the gateway (\<open>runner.rs\<close>): it is split for the platform, its pieces are handed
  to the adapter one by one, and the outcome is recorded in the circuit breaker and the outbox.
  At start-up the replies that were not delivered are sent again.

  An adapter is code outside this component: it is a \<open>network\<close>, which logs the frames handed to it
  and answers each with success or an error. The clock of the breaker is read as a function of
  the number of frames sent. \<open>None\<close> stands for a delivery that does not return, since
  \<open>split_message\<close> may not.
\<close>

section \<open>Messages and frames\<close>

record outbox_delivery =
  od_outbox_id :: string
  od_trace_id :: string
  od_request_id :: string

record outbound_message =
  om_platform :: string
  om_chat_id :: string
  om_text :: string
  om_reply_token :: "string option"
  om_stream_id :: "string option"
  om_feedback_id :: "string option"
  om_stream_finish :: bool
  om_outbox :: "outbox_delivery option"

definition plain :: "string \<Rightarrow> string \<Rightarrow> string \<Rightarrow> outbound_message" where
  "plain platform chat_id text =
     \<lparr>om_platform = platform, om_chat_id = chat_id, om_text = text, om_reply_token = None,
      om_stream_id = None, om_feedback_id = None, om_stream_finish = True, om_outbox = None\<rparr>"

definition plain_with_feedback ::
  "string \<Rightarrow> string \<Rightarrow> string \<Rightarrow> string option \<Rightarrow> outbound_message" where
  "plain_with_feedback platform chat_id text feedback_id =
     \<lparr>om_platform = platform, om_chat_id = chat_id, om_text = text, om_reply_token = None,
      om_stream_id = None, om_feedback_id = feedback_id, om_stream_finish = True, om_outbox = None\<rparr>"

definition stream_chunk ::
  "string \<Rightarrow> string \<Rightarrow> string \<Rightarrow> string option \<Rightarrow> string option \<Rightarrow> string option \<Rightarrow> bool \<Rightarrow>
   outbound_message" where
  "stream_chunk platform chat_id text reply_token stream_id feedback_id finish =
     \<lparr>om_platform = platform, om_chat_id = chat_id, om_text = text, om_reply_token = reply_token,
      om_stream_id = stream_id, om_feedback_id = feedback_id, om_stream_finish = finish,
      om_outbox = None\<rparr>"

definition with_outbox ::
  "string \<Rightarrow> string \<Rightarrow> string \<Rightarrow> string option \<Rightarrow> string option \<Rightarrow> outbox_delivery \<Rightarrow>
   outbound_message" where
  "with_outbox platform chat_id text reply_token feedback_id outbox =
     \<lparr>om_platform = platform, om_chat_id = chat_id, om_text = text, om_reply_token = reply_token,
      om_stream_id = None, om_feedback_id = feedback_id, om_stream_finish = True,
      om_outbox = Some outbox\<rparr>"

text \<open>What an adapter is handed: \<open>send_text\<close> or \<open>send_stream_chunk\<close>. Adapters are known by name.\<close>

datatype frame =
    TextFrame string string string "string option"
  | StreamFrame string string string "string option" "string option" "string option" bool

record network =
  nw_frames :: "frame list"
  nw_answers :: "nat \<Rightarrow> string option"

definition send_frame :: "frame \<Rightarrow> network \<Rightarrow> (string + unit) \<times> network" where
  "send_frame fr nw =
     ((case nw_answers nw (length (nw_frames nw)) of None \<Rightarrow> Inr () | Some e \<Rightarrow> Inl e),
      nw\<lparr>nw_frames := nw_frames nw @ [fr]\<rparr>)"

section \<open>Sending\<close>

text \<open>The pieces of a message, numbered from \<open>i\<close>: the number of the piece that failed, or none.\<close>

fun send_chunks :: "(string \<Rightarrow> frame) \<Rightarrow> nat \<Rightarrow> string list \<Rightarrow> network \<Rightarrow> (nat \<times> string) option \<times> network" where
  "send_chunks fr i [] nw = (None, nw)"
| "send_chunks fr i (chunk # chunks) nw =
     (case send_frame (fr chunk) nw of
        (Inl e, nw') \<Rightarrow> (Some (i, e), nw')
      | (Inr _, nw') \<Rightarrow> send_chunks fr (Suc i) chunks nw')"

definition send_text_to_platform ::
  "string list \<Rightarrow> (string \<Rightarrow> nat option) \<Rightarrow> string \<Rightarrow> string \<Rightarrow> string \<Rightarrow> string option \<Rightarrow> string option \<Rightarrow>
   string option \<Rightarrow> bool \<Rightarrow> network \<Rightarrow> (((nat \<times> string) + nat) \<times> network) option" where
  "send_text_to_platform adapters indices platform chat_id text reply_token stream_id feedback_id
     stream_finish nw =
     (case indices platform of
        None \<Rightarrow> Some (Inl (0, ''no adapter for outbound message''), nw)
      | Some idx \<Rightarrow>
          if length adapters \<le> idx then Some (Inl (0, ''adapter index missing for outbound message''), nw)
          else
            (let adapter = adapters ! idx in
             if stream_id \<noteq> None then
               (case send_frame (StreamFrame adapter chat_id text reply_token stream_id feedback_id
                                   stream_finish) nw of
                  (Inl e, nw') \<Rightarrow> Some (Inl (0, e), nw')
                | (Inr _, nw') \<Rightarrow> Some (Inr 1, nw'))
             else
               (case split_message text of
                  None \<Rightarrow> None
                | Some chunks \<Rightarrow>
                    (case send_chunks
                        (if feedback_id \<noteq> None
                         then (\<lambda>chunk. StreamFrame adapter chat_id chunk reply_token None feedback_id True)
                         else (\<lambda>chunk. TextFrame adapter chat_id chunk reply_token)) 0 chunks nw of
                       (Some err, nw') \<Rightarrow> Some (Inl err, nw')
                     | (None, nw') \<Rightarrow> Some (Inr (length chunks), nw')))))"

section \<open>Delivering\<close>

record 's gateway =
  gr_network :: network
  gr_health :: breaker
  gr_clock :: "nat \<Rightarrow> nat"
  gr_conn :: "'s conn"

definition health_key :: "outbound_message \<Rightarrow> string" where
  "health_key m = om_platform m @ '':'' @ om_chat_id m"

definition deliver_outbound ::
  "string list \<Rightarrow> (string \<Rightarrow> nat option) \<Rightarrow> 's trace_repo option \<Rightarrow> outbound_message \<Rightarrow> 's gateway \<Rightarrow>
   's gateway option" where
  "deliver_outbound adapters indices trace_repo m g =
     (case send_text_to_platform adapters indices (om_platform m) (om_chat_id m) (om_text m)
             (om_reply_token m) (om_stream_id m) (om_feedback_id m) (om_stream_finish m)
             (gr_network g) of
        None \<Rightarrow> None
      | Some (res, nw) \<Rightarrow>
          (let health = (case res of
               Inr _ \<Rightarrow> record_success (health_key m) (gr_health g)
             | Inl _ \<Rightarrow> record_failure (gr_clock g (length (nw_frames nw))) (health_key m) (gr_health g));
               g' = g\<lparr>gr_network := nw, gr_health := health\<rparr> in
           case (om_outbox m, trace_repo) of
             (Some outbox, Some repo) \<Rightarrow>
               (let w = \<lparr>tw_trace_id = od_trace_id outbox, tw_request_id = od_request_id outbox\<rparr> in
                Some (g'\<lparr>gr_conn := snd ((case res of
                    Inr chunk_count \<Rightarrow> mark_outbox_sent repo w (od_outbox_id outbox) chunk_count
                  | Inl (failed_chunk, e) \<Rightarrow>
                      mark_outbox_failed repo w (od_outbox_id outbox) e failed_chunk) (gr_conn g))\<rparr>))
           | _ \<Rightarrow> Some g'))"

definition is_transient_db_error :: "string \<Rightarrow> bool" where
  "is_transient_db_error msg =
     (let lower = to_ascii_lowercase msg in
      contains lower ''expected to read'' \<or> contains lower ''got 0 bytes at eof'' \<or>
      contains lower ''broken pipe'' \<or> contains lower ''connection reset'' \<or>
      contains lower ''connection closed'' \<or> contains lower ''connection refused'')"

definition retry_once_on_transient :: "('s, string, 'a) op \<Rightarrow> ('s, string, 'a) op" where
  "retry_once_on_transient m c =
     (case m c of
        (Inr v, c') \<Rightarrow> (Inr v, c')
      | (Inl e, c') \<Rightarrow> if is_transient_db_error e then m c' else (Inl e, c'))"

definition outbound_of_row :: "outbox_record \<Rightarrow> outbound_message" where
  "outbound_of_row row =
     with_outbox (ob_platform row) (ob_chat_id row) (ob_body row) (ob_reply_token row)
       (Some (ob_request_id row))
       \<lparr>od_outbox_id = ob_outbox_id row, od_trace_id = ob_trace_id row, od_request_id = ob_request_id row\<rparr>"

fun deliver_all ::
  "string list \<Rightarrow> (string \<Rightarrow> nat option) \<Rightarrow> 's trace_repo option \<Rightarrow> outbound_message list \<Rightarrow>
   's gateway \<Rightarrow> 's gateway option" where
  "deliver_all adapters indices trace_repo [] g = Some g"
| "deliver_all adapters indices trace_repo (m # ms) g =
     Option.bind (deliver_outbound adapters indices trace_repo m g)
       (deliver_all adapters indices trace_repo ms)"

definition replay_retryable_outbox ::
  "string list \<Rightarrow> (string \<Rightarrow> nat option) \<Rightarrow> 's trace_repo option \<Rightarrow> 's gateway \<Rightarrow> 's gateway option" where
  "replay_retryable_outbox adapters indices trace_repo g =
     (case trace_repo of
        None \<Rightarrow> Some g
      | Some repo \<Rightarrow>
          (case retry_once_on_transient (tr_list_retryable_outbox repo None 100) (gr_conn g) of
             (Inl _, c) \<Rightarrow> Some (g\<lparr>gr_conn := c\<rparr>)
           | (Inr rows, c) \<Rightarrow>
               deliver_all adapters indices trace_repo (map outbound_of_row rows) (g\<lparr>gr_conn := c\<rparr>)))"

definition sweep_stale_traces :: "'s trace_repo option \<Rightarrow> 's conn \<Rightarrow> 's conn" where
  "sweep_stale_traces trace_repo c =
     (case trace_repo of
        None \<Rightarrow> c
      | Some repo \<Rightarrow>
          snd (retry_once_on_transient (tr_sweep_stale_requests repo ''gateway restarted'') c))"

text \<open>The adapters' names in order, and the map \<open>run\<close> builds from them: of equal names the last.\<close>

definition index_adapters :: "string list \<Rightarrow> string \<Rightarrow> nat option" where
  "index_adapters adapters = map_of (rev (zip adapters [0..<length adapters]))"

section \<open>The reply of a request\<close>

definition outbound_response ::
  "'s trace_repo option \<Rightarrow> trace_writer option \<Rightarrow> string \<Rightarrow> string \<Rightarrow> string option \<Rightarrow> string \<Rightarrow>
   's conn \<Rightarrow> outbound_message \<times> 's conn" where
  "outbound_response trace_repo trace platform chat_id reply_token text c =
     (let direct = (\<lambda>feedback_id. (plain platform chat_id text)
            \<lparr>om_reply_token := reply_token, om_feedback_id := feedback_id\<rparr>) in
      case trace of
        None \<Rightarrow> (direct None, c)
      | Some w \<Rightarrow>
          (case trace_repo of
             None \<Rightarrow> (direct (Some (tw_request_id w)), c)
           | Some repo \<Rightarrow>
               (case tw_enqueue_outbox repo w platform chat_id reply_token text c of
                  (Inr outbox_id, c') \<Rightarrow>
                    (with_outbox platform chat_id text reply_token (Some (tw_request_id w))
                       \<lparr>od_outbox_id = outbox_id, od_trace_id = tw_trace_id w,
                        od_request_id = tw_request_id w\<rparr>, c')
                | (Inl _, c') \<Rightarrow> (direct (Some (tw_request_id w)), c'))))"

text \<open>The key of a conversation's process in the pools: lengths first, so that nothing in the parts
  can move the borders.\<close>

definition persistent_pool_key :: "string \<Rightarrow> string \<Rightarrow> string \<Rightarrow> string" where
  "persistent_pool_key platform effective_chat_id cli_profile =
     ''p'' @ show_nat (length platform) @ '':'' @ platform @ ''|c'' @ show_nat (length cli_profile) @
     '':'' @ cli_profile @ ''|'' @ effective_chat_id"

section \<open>Facts\<close>

lemma send_frame_run:
  "send_frame fr nw = (r, nw') \<Longrightarrow>
   nw_frames nw' = nw_frames nw @ [fr] \<and> nw_answers nw' = nw_answers nw \<and>
   r = (case nw_answers nw (length (nw_frames nw)) of None \<Rightarrow> Inr () | Some e \<Rightarrow> Inl e)"
  by (auto simp: send_frame_def)

lemma find_map_eq: "find P (map f xs) = map_option f (find (P \<circ> f) xs)"
  by (induction xs) auto

text \<open>The first failing piece ends the message.\<close>

lemma send_chunks_run:
  "send_chunks fr i chunks nw =
    (let n = length (nw_frames nw) in
     case find (\<lambda>j. nw_answers nw (n + j) \<noteq> None) [0..<length chunks] of
       None \<Rightarrow> (None, nw\<lparr>nw_frames := nw_frames nw @ map fr chunks\<rparr>)
     | Some j \<Rightarrow> (Some (i + j, the (nw_answers nw (n + j))),
                 nw\<lparr>nw_frames := nw_frames nw @ map fr (take (Suc j) chunks)\<rparr>))"
proof (induction chunks arbitrary: i nw)
  case (Cons c cs)
  let ?n = "length (nw_frames nw)"
  have shift: "find P [1..<Suc (length cs)] = map_option Suc (find (P \<circ> Suc) [0..<length cs])" for P
    by (simp only: One_nat_def map_Suc_upt [symmetric] find_map_eq)
  have up: "[0..<length (c # cs)] = 0 # [1..<Suc (length cs)]"
    by (simp add: upt_conv_Cons del: upt_Suc)
  show ?case
  proof (cases "nw_answers nw ?n")
    case None
    let ?nw = "nw\<lparr>nw_frames := nw_frames nw @ [fr c]\<rparr>"
    have "send_chunks fr i (c # cs) nw = send_chunks fr (Suc i) cs ?nw"
      using None by (simp add: send_frame_def)
    moreover have "find (\<lambda>j. nw_answers nw (?n + j) \<noteq> None) [0..<length (c # cs)] =
        map_option Suc (find (\<lambda>j. nw_answers nw (Suc ?n + j) \<noteq> None) [0..<length cs])"
      unfolding up find.simps using None shift [of "\<lambda>j. nw_answers nw (?n + j) \<noteq> None"]
      by (simp add: comp_def del: upt_Suc)
    ultimately show ?thesis
      using Cons.IH [of "Suc i" ?nw] by (simp add: Let_def split: option.split)
  next
    case (Some e)
    then show ?thesis unfolding up by (simp add: send_frame_def Let_def)
  qed
qed (simp add: Let_def)

end
