(* ===== verification/Delivery_Props.thy ===== *)
theory Delivery_Props
  imports Delivery Trace_Props
begin

text \<open>
  What is proved of the delivery of replies: a delivery hands the adapter the pieces of the reply
  in order up to the first refused one and records the outcome in the breaker and the outbox; the
  replay at start-up delivers the waiting replies once.
\<close>

section \<open>Keys of processes\<close>

fun read_digits :: "nat \<Rightarrow> string \<Rightarrow> nat" where
  "read_digits a [] = a"
| "read_digits a (c # s) = read_digits (10 * a + (of_char c - 48)) s"

lemma read_digits_append: "read_digits a (s @ t) = read_digits (read_digits a s) t"
  by (induction s arbitrary: a) simp_all

lemma read_show_nat: "read_digits 0 (show_nat n) = n"
  by (induction n rule: show_nat.induct) (subst show_nat.simps, auto simp: read_digits_append)

lemma show_nat_inj: "show_nat n = show_nat m \<longleftrightarrow> n = m"
  by (metis read_show_nat)

lemma show_nat_no_colon: "CHR '':'' \<notin> set (show_nat n)"
proof (induction n rule: show_nat.induct)
  case (1 n)
  have colon: "CHR '':'' \<noteq> char_of (48 + k)" if "k < 10" for k :: nat
  proof
    assume "CHR '':'' = char_of (48 + k)"
    then have "of_char (char_of (48 + k) :: char) = (of_char (CHR '':'') :: nat)" by metis
    with that show False by simp
  qed
  show ?case using 1 colon [of n] colon [of "n mod 10"] by (subst show_nat.simps) auto
qed

lemma sized_eq:
  "show_nat (length a) @ '':'' @ a @ c = show_nat (length b) @ '':'' @ b @ d \<longleftrightarrow> a = b \<and> c = d"
  using show_nat_no_colon by (auto simp: first_colon show_nat_inj)

text \<open>
  The key under which a conversation's process is kept tells the platform, the
  profile and the chat apart, whatever bytes they hold.
\<close>

theorem pool_keys_distinct:
  "persistent_pool_key p ch cl = persistent_pool_key p' ch' cl' \<longleftrightarrow> p = p' \<and> ch = ch' \<and> cl = cl'"
proof -
  have "persistent_pool_key p ch cl = ''p'' @ show_nat (length p) @ '':'' @ p @ ''|c'' @
      show_nat (length cl) @ '':'' @ cl @ ''|'' @ ch" for p ch cl
    by (simp add: persistent_pool_key_def)
  then show ?thesis by (simp only: same_append_eq sized_eq) auto
qed

section \<open>One delivery\<close>

definition piece_frame :: "string \<Rightarrow> outbound_message \<Rightarrow> string \<Rightarrow> frame" where
  "piece_frame adapter m chunk =
     (if om_feedback_id m \<noteq> None
      then StreamFrame adapter (om_chat_id m) chunk (om_reply_token m) None (om_feedback_id m) True
      else TextFrame adapter (om_chat_id m) chunk (om_reply_token m))"

text \<open>The number of the first frame, of \<open>k\<close> to come, that the adapters will refuse.\<close>

definition refused :: "network \<Rightarrow> nat \<Rightarrow> nat option" where
  "refused nw k = find (\<lambda>j. nw_answers nw (length (nw_frames nw) + j) \<noteq> None) [0..<k]"

definition writer_of :: "outbox_delivery \<Rightarrow> trace_writer" where
  "writer_of d = \<lparr>tw_trace_id = od_trace_id d, tw_request_id = od_request_id d\<rparr>"

lemma deliver_outbound_run:
  assumes "indices (om_platform m) = Some idx" and "idx < length adapters"
    and "om_stream_id m = None" and "split_message (om_text m) = Some chunks"
    and "om_outbox m = Some d"
  shows "deliver_outbound adapters indices (Some repo) m g =
    (let nw = gr_network g; fr = piece_frame (adapters ! idx) m in
     case refused nw (length chunks) of
       None \<Rightarrow> Some (g\<lparr>gr_network := nw\<lparr>nw_frames := nw_frames nw @ map fr chunks\<rparr>,
                gr_health := record_success (health_key m) (gr_health g),
                gr_conn := snd (mark_outbox_sent repo (writer_of d) (od_outbox_id d) (length chunks)
                  (gr_conn g))\<rparr>)
     | Some j \<Rightarrow> Some (g\<lparr>gr_network := nw\<lparr>nw_frames := nw_frames nw @ map fr (take (Suc j) chunks)\<rparr>,
                gr_health := record_failure (gr_clock g (length (nw_frames nw) + min (length chunks) (Suc j)))
                  (health_key m) (gr_health g),
                gr_conn := snd (mark_outbox_failed repo (writer_of d) (od_outbox_id d)
                  (the (nw_answers nw (length (nw_frames nw) + j))) j (gr_conn g))\<rparr>))"
proof -
  have fr: "(if om_feedback_id m \<noteq> None
      then (\<lambda>chunk. StreamFrame (adapters ! idx) (om_chat_id m) chunk (om_reply_token m) None (om_feedback_id m) True)
      else (\<lambda>chunk. TextFrame (adapters ! idx) (om_chat_id m) chunk (om_reply_token m))) =
      piece_frame (adapters ! idx) m"
    by (auto simp: piece_frame_def)
  show ?thesis
    unfolding deliver_outbound_def send_text_to_platform_def assms option.case Let_def fr
      send_chunks_run refused_def [symmetric] writer_of_def
    using assms(2)
    by (cases "refused (gr_network g) (length chunks)") (simp_all add: refused_def [symmetric])
qed

lemma refused_None: "refused nw k = None \<longleftrightarrow> (\<forall>j<k. nw_answers nw (length (nw_frames nw) + j) = None)"
  by (auto simp: refused_def find_None_iff)

lemma refused_Some:
  "refused nw k = Some j \<longleftrightarrow> j < k \<and> nw_answers nw (length (nw_frames nw) + j) \<noteq> None \<and>
     (\<forall>i<j. nw_answers nw (length (nw_frames nw) + i) = None)"
  by (fastforce simp: refused_def find_Some_iff)

lemma mark_sent_outbox:
  assumes "quiet c" and "trace_ok (tables c)"
    and "mark_outbox_sent (sqlite_repo (\<lambda>j. Inr (ser j)) de) w oid n c = (r, c')"
  shows "quiet c'" and "trace_ok (tables c')"
    and "ab_outbox (trace_view (tables c')) =
      (case ab_outbox (trace_view (tables c)) oid of None \<Rightarrow> ab_outbox (trace_view (tables c))
       | Some (cur, k) \<Rightarrow> (ab_outbox (trace_view (tables c)))(oid \<mapsto> (ObSent, k)))"
proof -
  note 1 = refinesD [OF sqlite_store.mark_outbox_sent_refines assms]
  show "quiet c'" "trace_ok (tables c')" by (fact 1(1), fact 1(2))
  show "ab_outbox (trace_view (tables c')) =
      (case ab_outbox (trace_view (tables c)) oid of None \<Rightarrow> ab_outbox (trace_view (tables c))
       | Some (cur, k) \<Rightarrow> (ab_outbox (trace_view (tables c)))(oid \<mapsto> (ObSent, k)))"
    using 1(3) by (auto simp: spec_mark_outbox_sent_eq Let_def split: option.splits if_splits
        dest!: sym [where t = "trace_view (tables c')"])
qed

lemma mark_failed_outbox:
  assumes "quiet c" and "trace_ok (tables c)"
    and "mark_outbox_failed (sqlite_repo (\<lambda>j. Inr (ser j)) de) w oid e n c = (r, c')"
  shows "quiet c'" and "trace_ok (tables c')"
    and "ab_outbox (trace_view (tables c')) =
      (case ab_outbox (trace_view (tables c)) oid of None \<Rightarrow> ab_outbox (trace_view (tables c))
       | Some (cur, k) \<Rightarrow>
           if cur = ObSent \<or> OUTBOX_MAX_RETRIES \<le> k then ab_outbox (trace_view (tables c))
           else (ab_outbox (trace_view (tables c)))(oid \<mapsto> (ObFailed, k + 1)))"
proof -
  note 1 = refinesD [OF sqlite_store.mark_outbox_failed_refines assms]
  have q: "OutboxStatus_can_transition_to st ObFailed \<longleftrightarrow> st \<noteq> ObSent" for st
    by (cases st) (simp_all add: OutboxStatus_can_transition_to_def)
  show "quiet c'" "trace_ok (tables c')" by (fact 1(1), fact 1(2))
  show "ab_outbox (trace_view (tables c')) =
      (case ab_outbox (trace_view (tables c)) oid of None \<Rightarrow> ab_outbox (trace_view (tables c))
       | Some (cur, k) \<Rightarrow>
           if cur = ObSent \<or> OUTBOX_MAX_RETRIES \<le> k then ab_outbox (trace_view (tables c))
           else (ab_outbox (trace_view (tables c)))(oid \<mapsto> (ObFailed, k + 1)))"
    using 1(3) by (auto simp: spec_mark_outbox_failed_def spec_update_outbox_status_def
        spec_append_def abs_then_def Let_def q split: option.splits if_splits
        dest!: sym [where t = "trace_view (tables c')"])
qed

text \<open>
  Property C8: delivering a reply kept in the outbox. The adapter gets its pieces in order, up to
  the first it refuses. When none is refused the entry becomes sent and the breaker is closed;
  otherwise the entry becomes failed with one attempt more, unless it was sent before or has no
  attempt left, and the breaker counts a failure. No other entry changes.
\<close>

theorem delivery_recorded:
  assumes "quiet (gr_conn g)" and "trace_ok (tables (gr_conn g))"
    and "indices (om_platform m) = Some idx" and "idx < length adapters"
    and "om_stream_id m = None" and "split_message (om_text m) = Some chunks"
    and "om_outbox m = Some d"
    and "ab_outbox (trace_view (tables (gr_conn g))) (od_outbox_id d) = Some (cur, k)"
  shows "\<exists>g'. deliver_outbound adapters indices (Some (sqlite_repo (\<lambda>j. Inr (ser j)) de)) m g = Some g' \<and>
    (let nw = gr_network g; n = length (nw_frames nw); fr = piece_frame (adapters ! idx) m;
         a = ab_outbox (trace_view (tables (gr_conn g)));
         a' = ab_outbox (trace_view (tables (gr_conn g'))) in
     if \<forall>j<length chunks. nw_answers nw (n + j) = None
     then nw_frames (gr_network g') = nw_frames nw @ map fr chunks \<and>
       a' = a(od_outbox_id d \<mapsto> (ObSent, k)) \<and>
       gr_health g' = record_success (health_key m) (gr_health g)
     else \<exists>j<length chunks. nw_answers nw (n + j) \<noteq> None \<and> (\<forall>i<j. nw_answers nw (n + i) = None) \<and>
       nw_frames (gr_network g') = nw_frames nw @ map fr (take (Suc j) chunks) \<and>
       a' = (if cur = ObSent \<or> 3 \<le> k then a else a(od_outbox_id d \<mapsto> (ObFailed, k + 1))) \<and>
       gr_health g' = record_failure (gr_clock g (n + Suc j)) (health_key m) (gr_health g))"
proof -
  let ?repo = "sqlite_repo (\<lambda>j. Inr (ser j)) de" and ?c = "gr_conn g"
  note run = deliver_outbound_run [where indices = indices and m = m and adapters = adapters and
      repo = ?repo and g = g, OF assms(3-7)]
  show ?thesis
  proof (cases "refused (gr_network g) (length chunks)")
    case None
    obtain r c' where m: "mark_outbox_sent ?repo (writer_of d) (od_outbox_id d) (length chunks) ?c = (r, c')"
      by fastforce
    from run None m mark_sent_outbox(3) [OF assms(1,2) m] assms(8) show ?thesis
      by (simp add: Let_def refused_None)
  next
    case (Some j)
    obtain r c' where m: "mark_outbox_failed ?repo (writer_of d) (od_outbox_id d)
        (the (nw_answers (gr_network g) (length (nw_frames (gr_network g)) + j))) j ?c = (r, c')"
      by fastforce
    from Some have j: "j < length chunks" by (simp add: refused_Some)
    then have "min (length chunks) (Suc j) = Suc j" by simp
    with run Some m mark_failed_outbox(3) [OF assms(1,2) m] assms(8) j show ?thesis
      by (auto simp: Let_def refused_Some OUTBOX_MAX_RETRIES_def intro!: exI [of _ j])
  qed
qed

lemma delivery_recorded_witness:
  "\<exists>g'. deliver_outbound [''p''] (index_adapters [''p'']) (Some (sqlite_repo (\<lambda>_. Inr ''{}'') (\<lambda>_. None)))
      (with_outbox ''p'' ''c'' ''hi'' None None \<lparr>od_outbox_id = ''q'', od_trace_id = ''tr'', od_request_id = ''r''\<rparr>)
      \<lparr>gr_network = \<lparr>nw_frames = [], nw_answers = \<lambda>_. Some ''down''\<rparr>, gr_health = closed_breaker,
       gr_clock = id, gr_conn = calm demo_db\<rparr> = Some g' \<and>
    ab_outbox (trace_view (tables (gr_conn g'))) ''q'' = Some (ObFailed, 1)"
proof -
  let ?m = "with_outbox ''p'' ''c'' ''hi'' None None
      \<lparr>od_outbox_id = ''q'', od_trace_id = ''tr'', od_request_id = ''r''\<rparr>"
  let ?g = "\<lparr>gr_network = \<lparr>nw_frames = [], nw_answers = \<lambda>_. Some ''down''\<rparr>, gr_health = closed_breaker,
       gr_clock = id, gr_conn = calm demo_db\<rparr>"
  have v: "ab_outbox (trace_view (tables (gr_conn ?g))) ''q'' = Some (ObPending, 0)"
    by (simp add: trace_view_def find_outbox_def demo_db_def demo_outbox_def OutboxStatus_parse_def)
  have split: "split_message ''hi'' = Some [''hi'']"
    by (simp add: split_message_def split_message_at_def MAX_CHUNK_LEN_def)
  from delivery_recorded [where g = ?g and m = ?m and adapters = "[''p'']" and idx = 0 and
      indices = "index_adapters [''p'']" and chunks = "[''hi'']" and cur = ObPending and k = 0 and
      d = "\<lparr>od_outbox_id = ''q'', od_trace_id = ''tr'', od_request_id = ''r''\<rparr>" and
      ser = "\<lambda>_. ''{}''" and de = "\<lambda>_. None"] v split demo_ok
  show ?thesis by (auto simp: with_outbox_def index_adapters_def Let_def)
qed

section \<open>The replay at start-up\<close>

definition waiting_rows :: "trace_db \<Rightarrow> outbox_row list" where
  "waiting_rows s = take 100 (order_asc qo_created_at (candidates None s))"

definition row_frames :: "string list \<Rightarrow> (string \<Rightarrow> nat option) \<Rightarrow> outbox_row \<Rightarrow> frame list" where
  "row_frames adapters indices b =
     map (piece_frame (adapters ! the (indices (qo_platform b))) (outbound_of_row (outbox_of_row b)))
       (the (split_message (qo_body b)))"

definition deliverable :: "string list \<Rightarrow> (string \<Rightarrow> nat option) \<Rightarrow> outbox_row \<Rightarrow> bool" where
  "deliverable adapters indices b \<longleftrightarrow>
     (case indices (qo_platform b) of None \<Rightarrow> False | Some idx \<Rightarrow> idx < length adapters) \<and>
     split_message (qo_body b) \<noteq> None"

lemma outbound_of_row_simps [simp]:
  "om_platform (outbound_of_row (outbox_of_row b)) = qo_platform b"
  "om_text (outbound_of_row (outbox_of_row b)) = qo_body b"
  "om_stream_id (outbound_of_row (outbox_of_row b)) = None"
  "om_outbox (outbound_of_row (outbox_of_row b)) =
     Some \<lparr>od_outbox_id = qo_outbox_id b, od_trace_id = qo_trace_id b, od_request_id = qo_request_id b\<rparr>"
  by (simp_all add: outbound_of_row_def outbox_of_row_def with_outbox_def)

definition sent_ids :: "string set \<Rightarrow> (string \<Rightarrow> (outbox_status \<times> int) option) \<Rightarrow>
    string \<Rightarrow> (outbox_status \<times> int) option" where
  "sent_ids ids ob oid = (if oid \<in> ids then map_option (\<lambda>p. (ObSent, snd p)) (ob oid) else ob oid)"

lemma deliver_row_run:
  assumes "quiet (gr_conn g)" and "trace_ok (tables (gr_conn g))" and "deliverable adapters indices b"
    and "\<And>j. nw_answers (gr_network g) j = None"
  shows "\<exists>g'. deliver_outbound adapters indices (Some (sqlite_repo (\<lambda>j. Inr (ser j)) de))
      (outbound_of_row (outbox_of_row b)) g = Some g' \<and> quiet (gr_conn g') \<and>
    trace_ok (tables (gr_conn g')) \<and>
    gr_network g' = (gr_network g)\<lparr>nw_frames := nw_frames (gr_network g) @ row_frames adapters indices b\<rparr> \<and>
    ab_outbox (trace_view (tables (gr_conn g'))) =
      sent_ids {qo_outbox_id b} (ab_outbox (trace_view (tables (gr_conn g))))"
proof -
  let ?repo = "sqlite_repo (\<lambda>j. Inr (ser j)) de" and ?m = "outbound_of_row (outbox_of_row b)"
  let ?d = "\<lparr>od_outbox_id = qo_outbox_id b, od_trace_id = qo_trace_id b, od_request_id = qo_request_id b\<rparr>"
  obtain idx chunks where idx: "indices (qo_platform b) = Some idx" "idx < length adapters"
    and chunks: "split_message (qo_body b) = Some chunks"
    using assms(3) by (auto simp: deliverable_def split: option.splits)
  obtain r c' where m: "mark_outbox_sent ?repo (writer_of ?d) (qo_outbox_id b) (length chunks) (gr_conn g) = (r, c')"
    by fastforce
  have refused: "refused (gr_network g) n = None" for n by (simp add: refused_None assms(4))
  have "deliver_outbound adapters indices (Some ?repo) ?m g =
      Some (g\<lparr>gr_network := (gr_network g)\<lparr>nw_frames := nw_frames (gr_network g) @ row_frames adapters indices b\<rparr>,
              gr_health := record_success (health_key ?m) (gr_health g), gr_conn := c'\<rparr>)"
    using deliver_outbound_run [where indices = indices and m = ?m and adapters = adapters and
        repo = ?repo and g = g and idx = idx and chunks = chunks and d = ?d] idx chunks m
    by (simp add: refused row_frames_def Let_def)
  moreover note mark_sent_outbox [OF assms(1,2) m]
  moreover have "sent_ids {qo_outbox_id b} ob =
      (case ob (qo_outbox_id b) of None \<Rightarrow> ob | Some (cur, k) \<Rightarrow> ob(qo_outbox_id b \<mapsto> (ObSent, k)))" for ob
    by (auto simp: sent_ids_def fun_eq_iff split: option.split)
  ultimately show ?thesis by simp
qed

lemma sent_ids_twice: "sent_ids ids (sent_ids ids' ob) = sent_ids (ids' \<union> ids) ob"
  by (auto simp: sent_ids_def fun_eq_iff option.map_comp comp_def case_prod_beta)

lemma deliver_rows_run:
  assumes "quiet (gr_conn g)" and "trace_ok (tables (gr_conn g))"
    and "\<forall>b \<in> set rows. deliverable adapters indices b"
    and "\<And>j. nw_answers (gr_network g) j = None"
  shows "\<exists>g'. deliver_all adapters indices (Some (sqlite_repo (\<lambda>j. Inr (ser j)) de))
      (map (outbound_of_row \<circ> outbox_of_row) rows) g = Some g' \<and> quiet (gr_conn g') \<and>
    trace_ok (tables (gr_conn g')) \<and>
    gr_network g' = (gr_network g)\<lparr>nw_frames := nw_frames (gr_network g) @
       concat (map (row_frames adapters indices) rows)\<rparr> \<and>
    ab_outbox (trace_view (tables (gr_conn g'))) =
      sent_ids (qo_outbox_id ` set rows) (ab_outbox (trace_view (tables (gr_conn g))))"
  using assms
proof (induction rows arbitrary: g)
  case Nil
  then show ?case by (simp add: sent_ids_def fun_eq_iff)
next
  case (Cons b rows)
  obtain g1 where 1: "deliver_outbound adapters indices (Some (sqlite_repo (\<lambda>j. Inr (ser j)) de))
      (outbound_of_row (outbox_of_row b)) g = Some g1" "quiet (gr_conn g1)"
    "trace_ok (tables (gr_conn g1))"
    "gr_network g1 = (gr_network g)\<lparr>nw_frames := nw_frames (gr_network g) @ row_frames adapters indices b\<rparr>"
    "ab_outbox (trace_view (tables (gr_conn g1))) =
      sent_ids {qo_outbox_id b} (ab_outbox (trace_view (tables (gr_conn g))))"
    using deliver_row_run [of g adapters indices b ser de] Cons.prems by auto
  from Cons.IH [of g1] 1 Cons.prems(3,4) show ?case
    by (auto simp: sent_ids_twice)
qed

lemma replay_run:
  assumes "quiet (gr_conn g)" and "trace_ok (tables (gr_conn g))"
    and "\<forall>b \<in> set (waiting_rows (tables (gr_conn g))). deliverable adapters indices b"
    and "\<And>j. nw_answers (gr_network g) j = None"
  shows "\<exists>g'. replay_retryable_outbox adapters indices (Some (sqlite_repo (\<lambda>j. Inr (ser j)) de)) g = Some g' \<and>
    quiet (gr_conn g') \<and> trace_ok (tables (gr_conn g')) \<and>
    gr_network g' = (gr_network g)\<lparr>nw_frames := nw_frames (gr_network g) @
       concat (map (row_frames adapters indices) (waiting_rows (tables (gr_conn g))))\<rparr> \<and>
    ab_outbox (trace_view (tables (gr_conn g'))) =
      sent_ids (qo_outbox_id ` set (waiting_rows (tables (gr_conn g))))
        (ab_outbox (trace_view (tables (gr_conn g))))"
proof -
  let ?repo = "sqlite_repo (\<lambda>j. Inr (ser j)) de" and ?c = "gr_conn g"
  have list: "tr_list_retryable_outbox ?repo None 100 ?c =
      (Inr (map outbox_of_row (waiting_rows (tables ?c))), ?c\<lparr>tick := Suc (tick ?c)\<rparr>)"
    using assms(1) by (simp add: sqlite_repo_def sqlite_list_retryable_outbox_def and_then_def
        map_err_def stmt_select_quiet ret_def waiting_rows_def candidates_retryable)
  from deliver_rows_run [of "g\<lparr>gr_conn := ?c\<lparr>tick := Suc (tick ?c)\<rparr>\<rparr>" "waiting_rows (tables ?c)"
      adapters indices ser de] assms list
  show ?thesis by (simp add: replay_retryable_outbox_def retry_once_on_transient_def)
qed

text \<open>An entry that is waiting can be told from the abstract outbox.\<close>

lemma waiting_in_view:
  assumes "trace_ok s" and "b \<in> set (candidates None s)"
  shows "\<exists>st k. ab_outbox (trace_view s) (qo_outbox_id b) = Some (st, k) \<and> st \<noteq> ObSent"
proof -
  from assms(2) have b: "b \<in> set (tb_outbox s)" "qo_status b = ''pending'' \<or> qo_status b = ''failed''"
    by (auto simp: candidates_def)
  with assms(1) have "find_outbox (qo_outbox_id b) s = Some b"
    by (simp add: find_outbox_def trace_ok_def lookup_mem)
  with b(2) show ?thesis by (auto simp: trace_view_def OutboxStatus_parse_def)
qed

lemma view_candidate:
  assumes "trace_ok s" and "ab_outbox (trace_view s) oid = Some (st, k)" and "st \<noteq> ObSent" and "k < 3"
  shows "\<exists>b \<in> set (candidates None s). qo_outbox_id b = oid"
proof -
  from assms(2) obtain b where b: "find_outbox oid s = Some b" "OutboxStatus_parse (qo_status b) = Some st"
    "qo_retry_count b = k"
    by (auto simp: trace_view_def bind_eq_Some_conv)
  from b(1) have "b \<in> set (tb_outbox s)" "qo_outbox_id b = oid"
    by (auto simp: find_outbox_def dest: lookup_SomeD)
  with b assms(3,4) show ?thesis
    by (auto simp: candidates_def OutboxStatus_parse_def split: if_splits)
qed

lemma candidates_cleared:
  assumes "trace_ok s" and "trace_ok s'" and "length (candidates None s) \<le> 100"
    and "ab_outbox (trace_view s') = sent_ids (qo_outbox_id ` set (waiting_rows s)) (ab_outbox (trace_view s))"
  shows "candidates None s' = []"
proof (rule ccontr)
  assume "candidates None s' \<noteq> []"
  then obtain b where b: "b \<in> set (candidates None s')" by (cases "candidates None s'") auto
  have all: "set (waiting_rows s) = set (candidates None s)"
    using assms(3) by (simp add: waiting_rows_def take_order_asc)
  from b have low: "qo_retry_count b < 3" and mem: "b \<in> set (tb_outbox s')" by (auto simp: candidates_def)
  from waiting_in_view [OF assms(2) b] obtain st k
    where v: "ab_outbox (trace_view s') (qo_outbox_id b) = Some (st, k)" "st \<noteq> ObSent" by blast
  have "find_outbox (qo_outbox_id b) s' = Some b"
    using assms(2) mem by (simp add: find_outbox_def trace_ok_def lookup_mem)
  with v(1) low have "k < 3" by (auto simp: trace_view_def bind_eq_Some_conv)
  have fresh: "qo_outbox_id b \<notin> qo_outbox_id ` set (waiting_rows s)"
    using v assms(4) by (auto simp: sent_ids_def)
  then have "ab_outbox (trace_view s) (qo_outbox_id b) = Some (st, k)"
    using v(1) assms(4) by (simp add: sent_ids_def)
  from view_candidate [OF assms(1) this v(2) \<open>k < 3\<close>] have "qo_outbox_id b \<in> qo_outbox_id ` set (waiting_rows s)"
    unfolding all image_iff by metis
  with fresh show False ..
qed

text \<open>
  Property C7: what the replay at start-up sends, under these conditions: the store's statements run and
  nobody else writes, and of the waiting replies (pending or failed, with fewer than three retries)
  the hundred oldest, all that one replay reads, are each for a configured platform and have a text
  that the splitter returns on, and the adapters accept every piece. Then exactly the pieces of these at most
  a hundred replies are handed over, oldest reply first and each reply's pieces in order, and exactly their
  entries are made sent; later ones wait for the next replay.
\<close>

theorem replay_delivers:
  assumes "quiet (gr_conn g)" and "trace_ok (tables (gr_conn g))"
    and "\<forall>b \<in> set (waiting_rows (tables (gr_conn g))). deliverable adapters indices b"
    and "\<forall>j. nw_answers (gr_network g) j = None"
  shows "\<exists>g'. replay_retryable_outbox adapters indices (Some (sqlite_repo (\<lambda>j. Inr (ser j)) de)) g = Some g' \<and>
    nw_frames (gr_network g') = nw_frames (gr_network g) @
      concat (map (row_frames adapters indices) (waiting_rows (tables (gr_conn g)))) \<and>
    (\<forall>oid. ab_outbox (trace_view (tables (gr_conn g'))) oid =
       (let old = ab_outbox (trace_view (tables (gr_conn g))) oid in
        if oid \<in> qo_outbox_id ` set (waiting_rows (tables (gr_conn g)))
        then map_option (\<lambda>p. (ObSent, snd p)) old else old))"
  using replay_run [of g adapters indices ser de] assms by (auto simp: sent_ids_def Let_def)

definition demo_gateway :: "trace_db gateway" where
  "demo_gateway =
     \<lparr>gr_network = \<lparr>nw_frames = [], nw_answers = \<lambda>_. None\<rparr>, gr_health = closed_breaker,
      gr_clock = id, gr_conn = calm demo_db\<rparr>"

lemma demo_waiting: "waiting_rows demo_db = [demo_outbox ''q'' ''r'' ''pending'' 0]"
  by (simp add: waiting_rows_def candidates_def demo_db_def demo_outbox_def order_asc_def)

lemma demo_deliverable:
  "\<forall>b \<in> set (waiting_rows (tables (gr_conn demo_gateway))). deliverable [''p''] (index_adapters [''p'']) b"
  by (simp add: demo_gateway_def demo_waiting demo_outbox_def deliverable_def index_adapters_def
      split_message_def split_message_at_def MAX_CHUNK_LEN_def)

lemma replay_delivers_witness:
  "\<exists>g'. replay_retryable_outbox [''p''] (index_adapters [''p''])
      (Some (sqlite_repo (\<lambda>_. Inr ''{}'') (\<lambda>_. None))) demo_gateway = Some g' \<and>
    nw_frames (gr_network g') = [StreamFrame ''p'' ''c'' ''hi'' None None (Some ''r'') True]"
proof -
  have "concat (map (row_frames [''p''] (index_adapters [''p''])) (waiting_rows demo_db)) =
      [StreamFrame ''p'' ''c'' ''hi'' None None (Some ''r'') True]"
    by (simp add: demo_waiting row_frames_def demo_outbox_def index_adapters_def split_message_def
        split_message_at_def MAX_CHUNK_LEN_def piece_frame_def outbound_of_row_def with_outbox_def
        outbox_of_row_def)
  with replay_delivers [of demo_gateway "[''p'']" "index_adapters [''p'']" "\<lambda>_. ''{}''" "\<lambda>_. None"]
    demo_deliverable demo_ok
  show ?thesis by (auto simp: demo_gateway_def)
qed

text \<open>
  Property C15: if at most a hundred replies wait, each for a configured platform and with a text that the
  splitter returns on, the adapters accept every piece, and the store's statements run undisturbed,
  a replay leaves none waiting: a second one sends nothing and changes nothing. With more than a hundred,
  or with one refusal, a second replay does send.
\<close>

theorem replay_once:
  assumes "quiet (gr_conn g)" and "trace_ok (tables (gr_conn g))"
    and "\<forall>b \<in> set (waiting_rows (tables (gr_conn g))). deliverable adapters indices b"
    and "\<forall>j. nw_answers (gr_network g) j = None"
    and "length (candidates None (tables (gr_conn g))) \<le> 100"
  shows "\<exists>g' g''. replay_retryable_outbox adapters indices (Some (sqlite_repo (\<lambda>j. Inr (ser j)) de)) g = Some g' \<and>
    replay_retryable_outbox adapters indices (Some (sqlite_repo (\<lambda>j. Inr (ser j)) de)) g' = Some g'' \<and>
    nw_frames (gr_network g'') = nw_frames (gr_network g') \<and>
    trace_view (tables (gr_conn g'')) = trace_view (tables (gr_conn g'))"
proof -
  let ?repo = "sqlite_repo (\<lambda>j. Inr (ser j)) de"
  obtain g' where 1: "replay_retryable_outbox adapters indices (Some ?repo) g = Some g'"
    "quiet (gr_conn g')" "trace_ok (tables (gr_conn g'))"
    "ab_outbox (trace_view (tables (gr_conn g'))) =
      sent_ids (qo_outbox_id ` set (waiting_rows (tables (gr_conn g))))
        (ab_outbox (trace_view (tables (gr_conn g))))"
    using replay_run [of g adapters indices ser de] assms by auto
  from candidates_cleared [OF assms(2) 1(3) assms(5) 1(4)]
  have "candidates None (tables (gr_conn g')) = []" .
  then have "tr_list_retryable_outbox ?repo None 100 (gr_conn g') =
      (Inr [], (gr_conn g')\<lparr>tick := Suc (tick (gr_conn g'))\<rparr>)"
    using 1(2) by (simp add: sqlite_repo_def sqlite_list_retryable_outbox_def and_then_def
        map_err_def stmt_select_quiet ret_def candidates_retryable order_asc_def)
  with 1(1) show ?thesis
    by (simp add: replay_retryable_outbox_def retry_once_on_transient_def)
qed

lemma replay_once_witness:
  "\<exists>g' g''. replay_retryable_outbox [''p''] (index_adapters [''p''])
      (Some (sqlite_repo (\<lambda>_. Inr ''{}'') (\<lambda>_. None))) demo_gateway = Some g' \<and>
    replay_retryable_outbox [''p''] (index_adapters [''p''])
      (Some (sqlite_repo (\<lambda>_. Inr ''{}'') (\<lambda>_. None))) g' = Some g'' \<and>
    nw_frames (gr_network g'') = nw_frames (gr_network g')"
proof -
  have "length (candidates None (tables (gr_conn demo_gateway))) \<le> 100"
    by (simp add: demo_gateway_def candidates_def demo_db_def demo_outbox_def)
  with replay_once [of demo_gateway "[''p'']" "index_adapters [''p'']" "\<lambda>_. ''{}''" "\<lambda>_. None"]
    demo_deliverable demo_ok
  show ?thesis by (auto simp: demo_gateway_def)
qed

end
