(* ===== verification/Messages.thy ===== *)
theory Messages
  imports Trace_Writer
begin

text \<open>
  Messages as they come in from the platforms (\<open>platforms/mod.rs\<close>) and as they are queued for a
  conversation (\<open>runner.rs\<close>). The sender of a scheduled turn's answer is given by a number.
\<close>

datatype chat_type = DirectMessage | Group

datatype attachment_kind = AkImage | AkFile | AkVideo | AkAudio | AkUnknown

record inbound_attachment =
  ia_kind :: attachment_kind
  ia_name :: "string option"
  ia_media_id :: "string option"
  ia_url :: "string option"
  ia_local_path :: "string option"
  ia_mime_type :: "string option"
  ia_size_bytes :: "nat option"
  ia_raw :: json

record outbound_attachment =
  oa_kind :: attachment_kind
  oa_name :: "string option"
  oa_media_id :: "string option"
  oa_local_path :: "string option"
  oa_mime_type :: "string option"

record feedback_event =
  fe_feedback_id :: string
  fe_feedback_type :: int
  fe_content :: "string option"
  fe_inaccurate_reason_list :: "int list"
  fe_raw :: json

record inbound_message =
  im_platform :: string
  im_chat_id :: string
  im_user_id :: string
  im_text :: string
  im_attachments :: "inbound_attachment list"
  im_msg_id :: string
  im_chat_type :: chat_type
  im_reply_token :: "string option"
  im_route_override :: "string option"
  im_feedback :: "feedback_event option"

datatype steering_backend = SteerClaude | SteerCodex

record delivery_trace =
  dt_trace_id :: string
  dt_request_id :: string

record queued_request =
  qd_msg :: inbound_message
  qd_conversation :: conversation_key
  qd_trace :: "delivery_trace option"
  qd_background :: bool
  qd_steering_backend :: "steering_backend option"
  qd_scheduled_response_tx :: "nat option"

definition writer_for :: "delivery_trace \<Rightarrow> trace_writer" where
  "writer_for t = from_existing (dt_trace_id t) (dt_request_id t)"

end
