(* ===== verification/Lanes.thy ===== *)
theory Lanes
  imports Messages "HOL-Library.Multiset"
begin

text \<open>
  The execution lane of the gateway (\<open>runner.rs\<close>): every conversation has at most one registered
  channel, whose worker runs its requests one after another and ends when it has been idle; tasks
  that enqueue a request run beside it. A step is what one of them does while it holds a lock.

  The channels are the runtime's: what is used of them is that what is received was sent before,
  in order and once, that sending waits while 128 messages are queued and fails when the
  receiver is gone, and that the senders of a channel can be counted.
\<close>

section \<open>The counters of a conversation\<close>

record lane_state =
  el_active :: bool
  el_waiting :: nat

definition idle_lane :: lane_state where
  "idle_lane = \<lparr>el_active = False, el_waiting = 0\<rparr>"

definition can_steer :: "lane_state \<Rightarrow> bool" where
  "can_steer st \<longleftrightarrow> el_active st \<and> el_waiting st = 0"

type_synonym lane_states = "conversation_key \<Rightarrow> lane_state option"

definition lane_of :: "lane_states \<Rightarrow> conversation_key \<Rightarrow> lane_state" where
  "lane_of m k = (case m k of None \<Rightarrow> idle_lane | Some st \<Rightarrow> st)"

definition execution_announced :: "conversation_key \<Rightarrow> lane_states \<Rightarrow> lane_states" where
  "execution_announced k m = m(k \<mapsto> (lane_of m k)\<lparr>el_waiting := el_waiting (lane_of m k) + 1\<rparr>)"

definition execution_can_steer :: "conversation_key \<Rightarrow> lane_states \<Rightarrow> bool" where
  "execution_can_steer k m = (case m k of None \<Rightarrow> False | Some st \<Rightarrow> can_steer st)"

definition execution_dequeued :: "conversation_key \<Rightarrow> lane_states \<Rightarrow> lane_states" where
  "execution_dequeued k m =
     (case m k of None \<Rightarrow> m | Some st \<Rightarrow> m(k \<mapsto> st\<lparr>el_waiting := el_waiting st - 1\<rparr>))"

definition execution_started :: "conversation_key \<Rightarrow> lane_states \<Rightarrow> lane_states" where
  "execution_started k m = m(k \<mapsto> (lane_of m k)\<lparr>el_active := True\<rparr>)"

definition execution_finished :: "conversation_key \<Rightarrow> lane_states \<Rightarrow> lane_states" where
  "execution_finished k m =
     (case m k of None \<Rightarrow> m
      | Some st \<Rightarrow> if el_waiting st = 0 then m(k := None) else m(k \<mapsto> st\<lparr>el_active := False\<rparr>))"

definition execution_cleanup_if_idle :: "conversation_key \<Rightarrow> lane_states \<Rightarrow> lane_states" where
  "execution_cleanup_if_idle k m =
     (case m k of None \<Rightarrow> m
      | Some st \<Rightarrow> if \<not> el_active st \<and> el_waiting st = 0 then m(k := None) else m)"

section \<open>Tasks, workers, channels\<close>

text \<open>A task that enqueues: about to look the channel up (with the number of attempts made),
  holding a sender, holding one that failed, done but still holding it, or giving up.\<close>

datatype task =
    LooksUp queued_request nat
  | Sends queued_request nat nat
  | SendFailed queued_request nat nat
  | HasSent nat
  | GivesUp queued_request

text \<open>A worker: not started, waiting for a message, having received one, deciding whether to run it,
  having skipped it, running it, leaving its loop, deregistered, ended; or its task panicked.\<close>

datatype worker =
    Absent | Waits | Received queued_request | Checks queued_request | Skipped
  | Runs queued_request | Leaves | Deregistered | Ended | Crashed

definition receiving :: "worker \<Rightarrow> bool" where
  "receiving w \<longleftrightarrow> w \<noteq> Absent \<and> w \<noteq> Ended \<and> w \<noteq> Crashed"

definition serving :: "worker \<Rightarrow> bool" where
  "serving w \<longleftrightarrow> receiving w \<and> w \<noteq> Leaves \<and> w \<noteq> Deregistered"

definition running :: "worker \<Rightarrow> bool" where
  "running w = (case w of Runs _ \<Rightarrow> True | _ \<Rightarrow> False)"

text \<open>The senders map gives the generation of the registered channel. The last three fields are
  the history: what was put into a channel, taken from one, and refused.\<close>

record lanes =
  ln_senders :: "conversation_key \<Rightarrow> nat option"
  ln_next_generation :: nat
  ln_key :: "nat \<Rightarrow> conversation_key"
  ln_queue :: "nat \<Rightarrow> queued_request list"
  ln_worker :: "nat \<Rightarrow> worker"
  ln_states :: lane_states
  ln_tasks :: "task multiset"
  ln_put :: "queued_request list"
  ln_taken :: "queued_request list"
  ln_refused :: "queued_request list"

definition no_lanes :: lanes where
  "no_lanes = \<lparr>ln_senders = (\<lambda>_. None), ln_next_generation = 0, ln_key = (\<lambda>_. undefined),
     ln_queue = (\<lambda>_. []), ln_worker = (\<lambda>_. Absent), ln_states = (\<lambda>_. None), ln_tasks = {#},
     ln_put = [], ln_taken = [], ln_refused = []\<rparr>"

definition remove_sender_if_generation ::
  "conversation_key \<Rightarrow> nat \<Rightarrow> (conversation_key \<Rightarrow> nat option) \<Rightarrow> conversation_key \<Rightarrow> nat option" where
  "remove_sender_if_generation k g m = (if m k = Some g then m(k := None) else m)"

primrec holds :: "nat \<Rightarrow> task \<Rightarrow> bool" where
  "holds g (LooksUp q a) = False"
| "holds g (Sends q a g') = (g' = g)"
| "holds g (SendFailed q a g') = (g' = g)"
| "holds g (HasSent g') = (g' = g)"
| "holds g (GivesUp q) = False"

text \<open>The senders of a channel beside the one in the map.\<close>

definition clones :: "lanes \<Rightarrow> nat \<Rightarrow> nat" where
  "clones s g = size (filter_mset (holds g) (ln_tasks s))"

definition swap_task :: "task \<Rightarrow> task \<Rightarrow> lanes \<Rightarrow> lanes" where
  "swap_task t t' s = s\<lparr>ln_tasks := add_mset t' (ln_tasks s - {#t#})\<rparr>"

definition drop_task :: "task \<Rightarrow> lanes \<Rightarrow> lanes" where
  "drop_task t s = s\<lparr>ln_tasks := ln_tasks s - {#t#}\<rparr>"

definition set_worker :: "nat \<Rightarrow> worker \<Rightarrow> lanes \<Rightarrow> lanes" where
  "set_worker g w s = s\<lparr>ln_worker := (ln_worker s)(g := w)\<rparr>"

definition change_states :: "(lane_states \<Rightarrow> lane_states) \<Rightarrow> lanes \<Rightarrow> lanes" where
  "change_states f s = s\<lparr>ln_states := f (ln_states s)\<rparr>"

text \<open>The new channel and worker of a conversation that has none registered.\<close>

definition open_channel :: "conversation_key \<Rightarrow> lanes \<Rightarrow> lanes" where
  "open_channel k s =
     (let g = ln_next_generation s in
      s\<lparr>ln_senders := (ln_senders s)(k \<mapsto> g), ln_next_generation := g + 1,
        ln_key := (ln_key s)(g := k), ln_worker := (ln_worker s)(g := Waits)\<rparr>)"

section \<open>Steps\<close>

text \<open>
  The rules \<open>announce\<close> to \<open>refused\<close> are \<open>enqueue_queued_request\<close> and \<open>enqueue_lane\<close>; the rules
  \<open>receive\<close> to \<open>leave\<close> are \<open>receive_from_lane\<close> (a receive after a timeout does what a receive does,
  a timeout that finds other senders does nothing); the rest is \<open>run_conversation_worker\<close>.
\<close>

inductive lane_step :: "lanes \<Rightarrow> lanes \<Rightarrow> bool" where
  announce: "lane_step s (change_states (execution_announced (qd_conversation q))
      (s\<lparr>ln_tasks := add_mset (LooksUp q 0) (ln_tasks s)\<rparr>))"
| look_up: "LooksUp q a \<in># ln_tasks s \<Longrightarrow> a < 2 \<Longrightarrow> ln_senders s (qd_conversation q) = Some g \<Longrightarrow>
    lane_step s (swap_task (LooksUp q a) (Sends q a g) s)"
| open_new: "LooksUp q a \<in># ln_tasks s \<Longrightarrow> a < 2 \<Longrightarrow> ln_senders s (qd_conversation q) = None \<Longrightarrow>
    lane_step s (swap_task (LooksUp q a) (Sends q a (ln_next_generation s))
      (open_channel (qd_conversation q) s))"
| put: "Sends q a g \<in># ln_tasks s \<Longrightarrow> receiving (ln_worker s g) \<Longrightarrow> length (ln_queue s g) < 128 \<Longrightarrow>
    lane_step s (swap_task (Sends q a g) (HasSent g)
      (s\<lparr>ln_queue := (ln_queue s)(g := ln_queue s g @ [q]), ln_put := ln_put s @ [q]\<rparr>))"
| put_fails: "Sends q a g \<in># ln_tasks s \<Longrightarrow> \<not> receiving (ln_worker s g) \<Longrightarrow>
    lane_step s (swap_task (Sends q a g) (SendFailed q a g) s)"
| try_again: "SendFailed q a g \<in># ln_tasks s \<Longrightarrow>
    lane_step s (swap_task (SendFailed q a g) (LooksUp q (a + 1))
      (s\<lparr>ln_senders := remove_sender_if_generation (qd_conversation q) g (ln_senders s)\<rparr>))"
| sent: "HasSent g \<in># ln_tasks s \<Longrightarrow> lane_step s (drop_task (HasSent g) s)"
| give_up: "LooksUp q a \<in># ln_tasks s \<Longrightarrow> \<not> a < 2 \<Longrightarrow>
    lane_step s (change_states (execution_dequeued (qd_conversation q))
      (swap_task (LooksUp q a) (GivesUp q) s))"
| refused: "GivesUp q \<in># ln_tasks s \<Longrightarrow>
    lane_step s (change_states (execution_cleanup_if_idle (qd_conversation q))
      (drop_task (GivesUp q) (s\<lparr>ln_refused := ln_refused s @ [q]\<rparr>)))"
| receive: "ln_worker s g = Waits \<Longrightarrow> ln_queue s g = q # qs \<Longrightarrow>
    lane_step s (set_worker g (Received q)
      (s\<lparr>ln_queue := (ln_queue s)(g := qs), ln_taken := ln_taken s @ [q]\<rparr>))"
| closed: "ln_worker s g = Waits \<Longrightarrow> ln_queue s g = [] \<Longrightarrow> clones s g = 0 \<Longrightarrow>
    ln_senders s (ln_key s g) \<noteq> Some g \<Longrightarrow> lane_step s (set_worker g Leaves s)"
| replaced: "ln_worker s g = Waits \<Longrightarrow> ln_senders s (ln_key s g) \<noteq> Some g \<Longrightarrow>
    lane_step s (set_worker g Leaves s)"
| leave: "ln_worker s g = Waits \<Longrightarrow> ln_senders s (ln_key s g) = Some g \<Longrightarrow> clones s g = 0 \<Longrightarrow>
    ln_queue s g = [] \<Longrightarrow>
    lane_step s (set_worker g Leaves (s\<lparr>ln_senders := (ln_senders s)(ln_key s g := None)\<rparr>))"
| dequeue: "ln_worker s g = Received q \<Longrightarrow>
    lane_step s (change_states (execution_dequeued (ln_key s g)) (set_worker g (Checks q) s))"
| skip: "ln_worker s g = Checks q \<Longrightarrow> lane_step s (set_worker g Skipped s)"
| skipped: "ln_worker s g = Skipped \<Longrightarrow>
    lane_step s (change_states (execution_cleanup_if_idle (ln_key s g)) (set_worker g Waits s))"
| start: "ln_worker s g = Checks q \<Longrightarrow>
    lane_step s (change_states (execution_started (ln_key s g)) (set_worker g (Runs q) s))"
| finish: "ln_worker s g = Runs q \<Longrightarrow>
    lane_step s (change_states (execution_finished (ln_key s g)) (set_worker g Waits s))"
| crash: "ln_worker s g = Runs q \<Longrightarrow> lane_step s (set_worker g Crashed s)"
| deregister: "ln_worker s g = Leaves \<Longrightarrow>
    lane_step s (set_worker g Deregistered
      (s\<lparr>ln_senders := remove_sender_if_generation (ln_key s g) g (ln_senders s)\<rparr>))"
| worker_ends: "ln_worker s g = Deregistered \<Longrightarrow>
    lane_step s (change_states (execution_cleanup_if_idle (ln_key s g)) (set_worker g Ended s))"

inductive lanes_reachable :: "lanes \<Rightarrow> bool" where
  reach_start: "lanes_reachable no_lanes"
| reach_step: "lanes_reachable s \<Longrightarrow> lane_step s s' \<Longrightarrow> lanes_reachable s'"

lemmas lane_defs = swap_task_def drop_task_def set_worker_def change_states_def open_channel_def Let_def

end
