(* ===== verification/Lanes_Props.thy ===== *)
theory Lanes_Props
  imports Lanes
begin

text \<open>
  What is proved of the execution lane for every interleaving of its tasks and workers: one worker
  at a time serves a conversation, no request put into a channel is lost, requests run in the order
  in which they were put, and the counters say what is waiting and running.
\<close>

section \<open>Channels and workers\<close>

definition task_key :: "task \<Rightarrow> conversation_key option" where
  "task_key t = (case t of Sends q a g \<Rightarrow> Some (qd_conversation q)
     | SendFailed q a g \<Rightarrow> Some (qd_conversation q) | _ \<Rightarrow> None)"

definition live_or_crashed :: "worker \<Rightarrow> bool" where
  "live_or_crashed w \<longleftrightarrow> serving w \<or> w = Crashed"

primrec worker_request :: "worker \<Rightarrow> queued_request option" where
  "worker_request Absent = None" | "worker_request Waits = None"
| "worker_request (Received q) = Some q" | "worker_request (Checks q) = Some q"
| "worker_request Skipped = None" | "worker_request (Runs q) = Some q"
| "worker_request Leaves = None" | "worker_request Deregistered = None"
| "worker_request Ended = None" | "worker_request Crashed = None"

lemma worker_simps [simp]:
  "serving Waits" "serving (Received q)" "serving (Checks q)" "serving Skipped" "serving (Runs q)"
  "\<not> serving Absent" "\<not> serving Leaves" "\<not> serving Deregistered" "\<not> serving Ended" "\<not> serving Crashed"
  by (simp_all add: serving_def receiving_def)

lemma live_simps [simp]:
  "live_or_crashed Waits" "live_or_crashed (Received q)" "live_or_crashed (Checks q)"
  "live_or_crashed Skipped" "live_or_crashed (Runs q)" "live_or_crashed Crashed"
  "\<not> live_or_crashed Absent" "\<not> live_or_crashed Leaves" "\<not> live_or_crashed Deregistered"
  "\<not> live_or_crashed Ended"
  by (simp_all add: live_or_crashed_def)

lemma running_simps [simp]:
  "running (Runs q)" "\<not> running Waits" "\<not> running (Received q)" "\<not> running (Checks q)"
  "\<not> running Skipped" "\<not> running Absent" "\<not> running Leaves" "\<not> running Deregistered"
  "\<not> running Ended" "\<not> running Crashed"
  by (simp_all add: running_def)

lemma running_serving: "running w \<Longrightarrow> serving w"
  by (cases w) simp_all

text \<open>
  A registered channel belongs to the conversation and its worker has not left; a worker that
  serves is registered; whoever holds a sender holds one of a channel that is not left; and what
  is queued is queued for the channel's conversation.
\<close>

definition registry_ok :: "lanes \<Rightarrow> bool" where
  "registry_ok s \<longleftrightarrow>
     (\<forall>k g. ln_senders s k = Some g \<longrightarrow>
        g < ln_next_generation s \<and> ln_key s g = k \<and> live_or_crashed (ln_worker s g)) \<and>
     (\<forall>g. serving (ln_worker s g) \<longrightarrow> ln_senders s (ln_key s g) = Some g) \<and>
     (\<forall>g. ln_next_generation s \<le> g \<longrightarrow> ln_worker s g = Absent \<and> ln_queue s g = []) \<and>
     (\<forall>g. ln_queue s g \<noteq> [] \<longrightarrow> live_or_crashed (ln_worker s g)) \<and>
     (\<forall>t \<in># ln_tasks s. \<forall>g. holds g t \<longrightarrow> live_or_crashed (ln_worker s g) \<and>
        (\<forall>k. task_key t = Some k \<longrightarrow> ln_key s g = k)) \<and>
     (\<forall>g. \<forall>q \<in> set (ln_queue s g). qd_conversation q = ln_key s g) \<and>
     (\<forall>g q. worker_request (ln_worker s g) = Some q \<longrightarrow> qd_conversation q = ln_key s g) \<and>
     (\<forall>q a g. SendFailed q a g \<in># ln_tasks s \<longrightarrow> ln_worker s g = Crashed)"

lemma clones_0: "clones s g = 0 \<longleftrightarrow> (\<forall>t \<in># ln_tasks s. \<not> holds g t)"
  by (auto simp: clones_def filter_mset_eq_conv)

lemma registry_okD:
  assumes "registry_ok s"
  shows "ln_senders s k = Some g \<Longrightarrow> g < ln_next_generation s"
    and "ln_senders s k = Some g \<Longrightarrow> ln_key s g = k"
    and "ln_senders s k = Some g \<Longrightarrow> live_or_crashed (ln_worker s g)"
    and "serving (ln_worker s g) \<Longrightarrow> ln_senders s (ln_key s g) = Some g"
    and "ln_next_generation s \<le> g \<Longrightarrow> ln_worker s g = Absent"
    and "ln_next_generation s \<le> g \<Longrightarrow> ln_queue s g = []"
    and "ln_queue s g \<noteq> [] \<Longrightarrow> live_or_crashed (ln_worker s g)"
    and "t \<in># ln_tasks s \<Longrightarrow> holds g t \<Longrightarrow> live_or_crashed (ln_worker s g)"
    and "t \<in># ln_tasks s \<Longrightarrow> holds g t \<Longrightarrow> task_key t = Some k \<Longrightarrow> ln_key s g = k"
    and "q \<in> set (ln_queue s g) \<Longrightarrow> qd_conversation q = ln_key s g"
    and "worker_request (ln_worker s g) = Some q \<Longrightarrow> qd_conversation q = ln_key s g"
    and "SendFailed q a g \<in># ln_tasks s \<Longrightarrow> ln_worker s g = Crashed"
  using assms unfolding registry_ok_def by blast+

lemma registry_okI:
  assumes "\<And>k g. ln_senders s k = Some g \<Longrightarrow>
        g < ln_next_generation s \<and> ln_key s g = k \<and> live_or_crashed (ln_worker s g)"
    and "\<And>g. serving (ln_worker s g) \<Longrightarrow> ln_senders s (ln_key s g) = Some g"
    and "\<And>g. ln_next_generation s \<le> g \<Longrightarrow> ln_worker s g = Absent \<and> ln_queue s g = []"
    and "\<And>g. ln_queue s g \<noteq> [] \<Longrightarrow> live_or_crashed (ln_worker s g)"
    and "\<And>t g. t \<in># ln_tasks s \<Longrightarrow> holds g t \<Longrightarrow> live_or_crashed (ln_worker s g) \<and>
        (\<forall>k. task_key t = Some k \<longrightarrow> ln_key s g = k)"
    and "\<And>g q. q \<in> set (ln_queue s g) \<Longrightarrow> qd_conversation q = ln_key s g"
    and "\<And>g q. worker_request (ln_worker s g) = Some q \<Longrightarrow> qd_conversation q = ln_key s g"
    and "\<And>q a g. SendFailed q a g \<in># ln_tasks s \<Longrightarrow> ln_worker s g = Crashed"
  shows "registry_ok s"
  using assms unfolding registry_ok_def by blast

lemma registry_start: "registry_ok no_lanes"
  by (simp add: registry_ok_def no_lanes_def)

lemma in_swap: "t \<in># add_mset t' (M - {#u#}) \<Longrightarrow> t = t' \<or> t \<in># M"
  by (auto dest: in_diffD)

text \<open>A change of tasks only, and a change of one worker.\<close>

lemma registry_tasks:
  assumes "registry_ok s"
    and "\<And>t g. t \<in># M \<Longrightarrow> holds g t \<Longrightarrow> t \<in># ln_tasks s \<or>
      live_or_crashed (ln_worker s g) \<and> (\<forall>k. task_key t = Some k \<longrightarrow> ln_key s g = k)"
    and "\<And>q a g. SendFailed q a g \<in># M \<Longrightarrow> ln_worker s g = Crashed"
  shows "registry_ok (s\<lparr>ln_tasks := M\<rparr>)"
proof (rule registry_okI, goal_cases)
  case (1 k g) then show ?case using registry_okD(1-3) [OF assms(1)] by simp
next
  case (2 g) then show ?case using registry_okD(4) [OF assms(1)] by simp
next
  case (3 g) then show ?case using registry_okD(5,6) [OF assms(1)] by simp
next
  case (4 g) then show ?case using registry_okD(7) [OF assms(1)] by simp
next
  case (5 t g) then show ?case using assms(2) [of t g] registry_okD(8,9) [OF assms(1)] by fastforce
next
  case (6 g q) then show ?case using registry_okD(10) [OF assms(1)] by simp
next
  case (7 g q) then show ?case using registry_okD(11) [OF assms(1)] by simp
next
  case (8 q a g) then show ?case using assms(3) by simp
qed

lemma registry_frame [simp]:
  "registry_ok (s\<lparr>ln_states := m\<rparr>) = registry_ok s"
  "registry_ok (s\<lparr>ln_put := xs\<rparr>) = registry_ok s"
  "registry_ok (s\<lparr>ln_taken := xs\<rparr>) = registry_ok s"
  "registry_ok (s\<lparr>ln_refused := xs\<rparr>) = registry_ok s"
  by (simp_all add: registry_ok_def)

lemma registry_worker:
  assumes "registry_ok s" and "serving (ln_worker s g)" and "serving w \<or> w = Crashed"
    and "\<And>q. worker_request w = Some q \<Longrightarrow> qd_conversation q = ln_key s g"
  shows "registry_ok (s\<lparr>ln_worker := (ln_worker s)(g := w)\<rparr>)"
proof -
  note r = registry_okD [OF assms(1)]
  have "live_or_crashed w" using assms(3) by (simp add: live_or_crashed_def)
  moreover have "ln_senders s (ln_key s g) = Some g" by (rule r(4)) (rule assms(2))
  moreover have "g < ln_next_generation s" by (rule r(1)) fact
  ultimately show ?thesis
  proof (intro registry_okI, goal_cases)
    case (1 k g') then show ?case using r(1-3) by (cases "g' = g") fastforce+
  next
    case (2 g') then show ?case using r(4) by (cases "g' = g") simp_all
  next
    case (3 g') then show ?case using r(5,6) by (cases "g' = g") simp_all
  next
    case (4 g') then show ?case using r(7) by (cases "g' = g") simp_all
  next
    case (5 t g') then show ?case using r(8,9) by (cases "g' = g") fastforce+
  next
    case (6 g' q) then show ?case using r(10) by simp
  next
    case (7 g' q) then show ?case using r(11) assms(4) by (cases "g' = g") simp_all
  next
    case (8 q a g') then show ?case using r(12) assms(2) by (cases "g' = g") fastforce+
  qed
qed

lemma registry_gone:
  assumes "registry_ok s" and "\<not> live_or_crashed (ln_worker s g)" and "ln_worker s g \<noteq> Absent"
    and "w = Deregistered \<or> w = Ended"
  shows "registry_ok (s\<lparr>ln_worker := (ln_worker s)(g := w)\<rparr>)"
proof -
  note r = registry_okD [OF assms(1)]
  have w: "\<not> live_or_crashed w" "worker_request w = None" using assms(4) by auto
  show ?thesis
  proof (intro registry_okI, goal_cases)
    case (1 k g') then show ?case using r(1-3) assms(2) by (cases "g' = g") fastforce+
  next
    case (2 g') then show ?case using r(4) w assms(4) by (cases "g' = g") auto
  next
    case (3 g') then show ?case using r(5,6) assms(3) by (cases "g' = g") fastforce+
  next
    case (4 g') then show ?case using r(7) assms(2) by (cases "g' = g") fastforce+
  next
    case (5 t g') then show ?case using r(8,9) assms(2) by (cases "g' = g") fastforce+
  next
    case (6 g' q) then show ?case using r(10) by simp
  next
    case (7 g' q) then show ?case using r(11) w by (cases "g' = g") simp_all
  next
    case (8 q a g') then show ?case using r(12) assms(2) by (cases "g' = g") fastforce+
  qed
qed

lemma registry_queue:
  assumes "registry_ok s" and "qs \<noteq> [] \<Longrightarrow> live_or_crashed (ln_worker s g)"
    and "\<forall>q \<in> set qs. qd_conversation q = ln_key s g"
  shows "registry_ok (s\<lparr>ln_queue := (ln_queue s)(g := qs)\<rparr>)"
proof -
  note r = registry_okD [OF assms(1)]
  show ?thesis
  proof (intro registry_okI, goal_cases)
    case (1 k g') then show ?case using r(1-3) by simp
  next
    case (2 g') then show ?case using r(4) by simp
  next
    case (3 g')
    then show ?case using r(5,6) assms(2) by (cases "g' = g") fastforce+
  next
    case (4 g') then show ?case using r(7) assms(2) by (cases "g' = g") fastforce+
  next
    case (5 t g') then show ?case using r(8,9) by simp
  next
    case (6 g' q) then show ?case using r(10) assms(3) by (cases "g' = g") simp_all
  next
    case (7 g' q) then show ?case using r(11) by simp
  next
    case (8 q a g') then show ?case using r(12) by simp
  qed
qed

lemma registry_unregister:
  assumes "registry_ok s" and "ln_senders s k = Some g" and "\<not> serving (ln_worker s g)"
  shows "registry_ok (s\<lparr>ln_senders := (ln_senders s)(k := None)\<rparr>)"
proof -
  note r = registry_okD [OF assms(1)]
  show ?thesis
  proof (intro registry_okI, goal_cases)
    case (1 k' g') then show ?case using r(1-3) by (cases "k' = k") fastforce+
  next
    case (2 g') then show ?case using r(4) assms(2,3) by (cases "ln_key s g' = k") fastforce+
  next
    case (3 g') then show ?case using r(5,6) by simp
  next
    case (4 g') then show ?case using r(7) by simp
  next
    case (5 t g') then show ?case using r(8,9) by simp
  next
    case (6 g' q) then show ?case using r(10) by simp
  next
    case (7 g' q) then show ?case using r(11) by simp
  next
    case (8 q a g') then show ?case using r(12) by simp
  qed
qed

lemma registry_leave:
  assumes "registry_ok s" and "ln_worker s g = Waits" and "clones s g = 0" and "ln_queue s g = []"
  shows "registry_ok (s\<lparr>ln_senders := (ln_senders s)(ln_key s g := None),
    ln_worker := (ln_worker s)(g := Leaves)\<rparr>)"
proof -
  note r = registry_okD [OF assms(1)]
  have reg: "ln_senders s (ln_key s g) = Some g" using r(4) assms(2) by simp
  show ?thesis
  proof (intro registry_okI, goal_cases)
    case (1 k' g')
    then have "ln_senders s k' = Some g'" "k' \<noteq> ln_key s g" by (auto split: if_splits)
    with r(1-3) [of k' g'] show ?case by auto
  next
    case (2 g')
    then have "g' \<noteq> g" "serving (ln_worker s g')" by (auto split: if_splits)
    with r(4) [of g'] reg show ?case by auto
  next
    case (3 g')
    with r(1) [OF reg] have "g' \<noteq> g" by auto
    with 3 r(5,6) show ?case by simp
  next
    case (4 g') then show ?case using r(7) assms(4) by (cases "g' = g") simp_all
  next
    case (5 t g')
    then have "g' \<noteq> g" using assms(3) by (auto simp: clones_0)
    with 5 r(8,9) show ?case by simp
  next
    case (6 g' q) then show ?case using r(10) by simp
  next
    case (7 g' q) then show ?case using r(11) by (cases "g' = g") simp_all
  next
    case (8 q a g') then show ?case using r(12) assms(2) by (cases "g' = g") fastforce+
  qed
qed

lemma registry_open:
  assumes "registry_ok s" and "ln_senders s k = None"
  shows "registry_ok (open_channel k s)"
proof -
  let ?g = "ln_next_generation s"
  note r = registry_okD [OF assms(1)]
  have fresh: "ln_worker s ?g = Absent" "ln_queue s ?g = []" using r(5,6) by simp_all
  then have no: "t \<in># ln_tasks s \<Longrightarrow> \<not> holds ?g t" for t using r(8) [of t ?g] by auto
  show ?thesis
    unfolding open_channel_def Let_def
  proof (intro registry_okI, goal_cases)
    case (1 k' g') then show ?case using r(1-3) [of k' g'] by (cases "k' = k") auto
  next
    case (2 g') then show ?case using r(4) [of g'] assms(2) by (cases "g' = ?g") auto
  next
    case (3 g') then show ?case using r(5,6) [of g'] by simp
  next
    case (4 g') then show ?case using r(7) [of g'] by (cases "g' = ?g") simp_all
  next
    case (5 t g') then show ?case using r(8,9) [of t g'] no [of t] by (cases "g' = ?g") simp_all
  next
    case (6 g' q) then show ?case using r(10) [of q g'] fresh by (cases "g' = ?g") simp_all
  next
    case (7 g' q) then show ?case using r(11) [of g' q] by (cases "g' = ?g") simp_all
  next
    case (8 q a g') then show ?case using r(12) [of q a g'] fresh by (cases "g' = ?g") auto
  qed
qed

lemma registry_swap:
  assumes "registry_ok s"
    and "\<And>g. holds g t' \<Longrightarrow>
      live_or_crashed (ln_worker s g) \<and> (\<forall>k. task_key t' = Some k \<longrightarrow> ln_key s g = k)"
    and "\<And>q a g. t' = SendFailed q a g \<Longrightarrow> ln_worker s g = Crashed"
  shows "registry_ok (swap_task t t' s)"
  unfolding swap_task_def
proof (rule registry_tasks [OF assms(1)])
  fix u g assume "u \<in># add_mset t' (ln_tasks s - {#t#})" "holds g u"
  then show "u \<in># ln_tasks s \<or>
      live_or_crashed (ln_worker s g) \<and> (\<forall>k. task_key u = Some k \<longrightarrow> ln_key s g = k)"
    using assms(2) [of g] by (cases "u = t'") (auto dest: in_diffD)
next
  fix q a g assume "SendFailed q a g \<in># add_mset t' (ln_tasks s - {#t#})"
  then show "ln_worker s g = Crashed"
    using assms(3) [of q a g] registry_okD(12) [OF assms(1), of q a g]
    by (cases "SendFailed q a g = t'") (auto dest: in_diffD)
qed

lemma registry_drop: "registry_ok s \<Longrightarrow> registry_ok (drop_task t s)"
  unfolding drop_task_def
  by (rule registry_tasks) (auto dest: in_diffD registry_okD(12))

lemma registry_states [simp]: "registry_ok (change_states f s) = registry_ok s"
  by (simp add: change_states_def)

lemma not_receiving_crashed: "live_or_crashed w \<Longrightarrow> \<not> receiving w \<Longrightarrow> w = Crashed"
  by (auto simp: live_or_crashed_def serving_def)

lemma registry_step: "lane_step s s' \<Longrightarrow> registry_ok s \<Longrightarrow> registry_ok s'"
proof (induction rule: lane_step.induct)
  case (announce s q)
  have "registry_ok (s\<lparr>ln_tasks := add_mset (LooksUp q 0) (ln_tasks s)\<rparr>)"
    by (rule registry_tasks [OF announce]) (auto dest: registry_okD(12) [OF announce])
  then show ?case by simp
next
  case (look_up q a s g)
  then show ?case
    by (intro registry_swap) (auto simp: task_key_def dest: registry_okD(2,3))
next
  case (open_new q a s)
  from registry_open [OF open_new(4,3)] show ?case
    by (rule registry_swap) (auto simp: task_key_def open_channel_def Let_def)
next
  case (put q a g s)
  note r = registry_okD [OF put(4)]
  have live: "live_or_crashed (ln_worker s g)" "ln_key s g = qd_conversation q"
    using r(8,9) [OF put(1), of g] by (auto simp: task_key_def)
  have "registry_ok (s\<lparr>ln_queue := (ln_queue s)(g := ln_queue s g @ [q])\<rparr>)"
    using registry_queue [OF put(4), of "ln_queue s g @ [q]" g] live r(10) [of _ g] by auto
  then have "registry_ok ((s\<lparr>ln_queue := (ln_queue s)(g := ln_queue s g @ [q])\<rparr>)
      \<lparr>ln_put := ln_put s @ [q]\<rparr>)" by simp
  then show ?case
    by (intro registry_swap) (use live in \<open>auto simp: task_key_def\<close>)
next
  case (put_fails q a g s)
  note r = registry_okD [OF put_fails(3)]
  have "live_or_crashed (ln_worker s g)" "ln_key s g = qd_conversation q"
    using r(8,9) [OF put_fails(1), of g] by (auto simp: task_key_def)
  with put_fails(2,3) show ?case
    by (intro registry_swap) (auto simp: task_key_def dest: not_receiving_crashed)
next
  case (try_again q a g s)
  have c: "ln_worker s g = Crashed" by (rule registry_okD(12)) fact+
  have "registry_ok (s\<lparr>ln_senders := remove_sender_if_generation (qd_conversation q) g (ln_senders s)\<rparr>)"
    using try_again(2) registry_unregister [OF try_again(2), of "qd_conversation q" g] c
    by (simp add: remove_sender_if_generation_def)
  then show ?case by (rule registry_swap) simp_all
next
  case (sent g s)
  then show ?case by (intro registry_drop)
next
  case (give_up q a s)
  then show ?case by (auto intro!: registry_swap)
next
  case (refused q s)
  then show ?case by (auto intro!: registry_drop)
next
  case (receive s g q qs)
  note r = registry_okD [OF receive(3)]
  have "registry_ok ((s\<lparr>ln_queue := (ln_queue s)(g := qs)\<rparr>)\<lparr>ln_taken := ln_taken s @ [q]\<rparr>)"
    using registry_queue [OF receive(3), of qs g] receive r(10) [of _ g] by simp
  from registry_worker [OF this, of g "Received q"] receive r(10) [of q g] show ?case
    by (simp add: set_worker_def)
next
  case (closed s g)
  then show ?case using registry_okD(4) [OF closed(5), of g] by simp
next
  case (replaced s g)
  then show ?case using registry_okD(4) [OF replaced(3), of g] by simp
next
  case (leave s g)
  then show ?case using registry_leave [OF leave(5)] by (simp add: set_worker_def)
next
  case (dequeue s g q)
  then show ?case using registry_worker [OF dequeue(2), of g "Checks q"] registry_okD(11) [OF dequeue(2), of g]
    by (simp add: set_worker_def)
next
  case (skip s g q)
  then show ?case using registry_worker [OF skip(2), of g Skipped] by (simp add: set_worker_def)
next
  case (skipped s g)
  then show ?case using registry_worker [OF skipped(2), of g Waits] by (simp add: set_worker_def)
next
  case (start s g q)
  then show ?case using registry_worker [OF start(2), of g "Runs q"] registry_okD(11) [OF start(2), of g]
    by (simp add: set_worker_def)
next
  case (finish s g q)
  then show ?case using registry_worker [OF finish(2), of g Waits] by (simp add: set_worker_def)
next
  case (crash s g q)
  then show ?case using registry_worker [OF crash(2), of g Crashed] by (simp add: set_worker_def)
next
  case (deregister s g)
  then have "ln_senders s (ln_key s g) \<noteq> Some g" using registry_okD(3) [OF deregister(2)] by fastforce
  then show ?case using registry_gone [OF deregister(2), of g Deregistered] deregister(1)
    by (simp add: set_worker_def remove_sender_if_generation_def)
next
  case (worker_ends s g)
  then show ?case using registry_gone [OF worker_ends(2), of g Ended] by (simp add: set_worker_def)
qed

lemma reachable_registry: "lanes_reachable s \<Longrightarrow> registry_ok s"
  by (induction rule: lanes_reachable.induct) (auto intro: registry_start registry_step)

section \<open>The counters\<close>

lemma lane_of_announced [simp]:
  "lane_of (execution_announced k m) k' =
     (if k' = k then (lane_of m k)\<lparr>el_waiting := el_waiting (lane_of m k) + 1\<rparr> else lane_of m k')"
  by (simp add: execution_announced_def lane_of_def)

lemma lane_of_dequeued [simp]:
  "lane_of (execution_dequeued k m) k' =
     (if k' = k then (lane_of m k)\<lparr>el_waiting := el_waiting (lane_of m k) - 1\<rparr> else lane_of m k')"
  by (auto simp: execution_dequeued_def lane_of_def idle_lane_def split: option.split)

lemma lane_of_started [simp]:
  "lane_of (execution_started k m) k' =
     (if k' = k then (lane_of m k)\<lparr>el_active := True\<rparr> else lane_of m k')"
  by (simp add: execution_started_def lane_of_def)

lemma lane_of_finished [simp]:
  "lane_of (execution_finished k m) k' =
     (if k' = k then (lane_of m k)\<lparr>el_active := False\<rparr> else lane_of m k')"
  by (auto simp: execution_finished_def lane_of_def idle_lane_def split: option.split)

lemma lane_of_cleanup [simp]: "lane_of (execution_cleanup_if_idle k m) k' = lane_of m k'"
  by (auto simp: execution_cleanup_if_idle_def lane_of_def idle_lane_def split: option.split)

primrec awaits :: "conversation_key \<Rightarrow> task \<Rightarrow> bool" where
  "awaits k (LooksUp q a) = (qd_conversation q = k)"
| "awaits k (Sends q a g) = (qd_conversation q = k)"
| "awaits k (SendFailed q a g) = (qd_conversation q = k)"
| "awaits k (HasSent g) = False"
| "awaits k (GivesUp q) = False"

definition received :: "worker \<Rightarrow> nat" where
  "received w = (case w of Received _ \<Rightarrow> 1 | _ \<Rightarrow> 0)"

definition share :: "lanes \<Rightarrow> conversation_key \<Rightarrow> nat \<Rightarrow> nat" where
  "share s k g = (if ln_key s g = k then length (ln_queue s g) + received (ln_worker s g) else 0)"

text \<open>The requests of a conversation that are announced and not yet dequeued.\<close>

definition load :: "lanes \<Rightarrow> conversation_key \<Rightarrow> nat" where
  "load s k = size (filter_mset (awaits k) (ln_tasks s)) + (\<Sum>g<ln_next_generation s. share s k g)"

definition crash_free :: "lanes \<Rightarrow> bool" where
  "crash_free s \<longleftrightarrow> (\<forall>g. ln_worker s g \<noteq> Crashed)"

definition counters_ok :: "lanes \<Rightarrow> bool" where
  "counters_ok s \<longleftrightarrow> (\<forall>k. el_waiting (lane_of (ln_states s) k) = load s k)"

definition activity_ok :: "lanes \<Rightarrow> bool" where
  "activity_ok s \<longleftrightarrow> (\<forall>k. el_active (lane_of (ln_states s) k) \<longleftrightarrow>
     (\<exists>g. ln_key s g = k \<and> running (ln_worker s g)))"

lemma received_simps [simp]:
  "received (Received q) = 1" "received Waits = 0" "received (Checks q) = 0" "received Skipped = 0"
  "received (Runs q) = 0" "received Absent = 0" "received Leaves = 0" "received Deregistered = 0"
  "received Ended = 0" "received Crashed = 0"
  by (simp_all add: received_def)

lemma size_swap:
  "t \<in># M \<Longrightarrow> size (filter_mset P (add_mset t' (M - {#t#}))) + of_bool (P t) =
     size (filter_mset P M) + of_bool (P t')"
  by (auto dest!: multi_member_split)

lemma sum_change:
  fixes F F' :: "nat \<Rightarrow> nat"
  assumes "g < n" and "\<And>i. i \<noteq> g \<Longrightarrow> F' i = F i"
  shows "sum F' {..<n} + F g = sum F {..<n} + F' g"
proof -
  have "sum F' ({..<n} - {g}) = sum F ({..<n} - {g})" using assms(2) by (intro sum.cong) auto
  with assms(1) show ?thesis by (simp add: sum.remove [of "{..<n}" g])
qed

lemma load_swap:
  "t \<in># ln_tasks s \<Longrightarrow> load (swap_task t t' s) k + of_bool (awaits k t) = load s k + of_bool (awaits k t')"
  using size_swap [of t "ln_tasks s" "awaits k" t']
  by (simp add: load_def swap_task_def share_def cong: if_cong)

lemma load_drop: "t \<in># ln_tasks s \<Longrightarrow> \<not> awaits k t \<Longrightarrow> load (drop_task t s) k = load s k"
  by (auto simp: load_def drop_task_def share_def cong: if_cong dest!: multi_member_split)

lemma load_frame [simp]:
  "load (change_states f s) k = load s k"
  "load (s\<lparr>ln_senders := m\<rparr>) k = load s k"
  "load (s\<lparr>ln_refused := xs\<rparr>) k = load s k"
  by (simp_all add: load_def share_def change_states_def cong: if_cong)

lemma load_worker:
  assumes "g < ln_next_generation s"
  shows "load (set_worker g w s) k + (if ln_key s g = k then received (ln_worker s g) else 0) =
    load s k + (if ln_key s g = k then received w else 0)"
proof -
  let ?s' = "set_worker g w s"
  have same: "ln_tasks ?s' = ln_tasks s" "ln_next_generation ?s' = ln_next_generation s"
    by (simp_all add: set_worker_def)
  have "sum (share ?s' k) {..<ln_next_generation s} + share s k g =
      sum (share s k) {..<ln_next_generation s} + share ?s' k g"
    by (rule sum_change [OF assms]) (simp add: share_def set_worker_def)
  moreover have "share ?s' k g = (if ln_key s g = k then length (ln_queue s g) + received w else 0)"
    by (simp add: share_def set_worker_def)
  moreover have "share s k g =
      (if ln_key s g = k then length (ln_queue s g) + received (ln_worker s g) else 0)"
    by (simp add: share_def)
  ultimately show ?thesis unfolding load_def same by auto
qed

lemma load_queue:
  assumes "g < ln_next_generation s"
  shows "load (s\<lparr>ln_queue := (ln_queue s)(g := qs), ln_put := u, ln_taken := v\<rparr>) k +
      (if ln_key s g = k then length (ln_queue s g) else 0) =
    load s k + (if ln_key s g = k then length qs else 0)"
proof -
  let ?s' = "s\<lparr>ln_queue := (ln_queue s)(g := qs), ln_put := u, ln_taken := v\<rparr>"
  have same: "ln_tasks ?s' = ln_tasks s" "ln_next_generation ?s' = ln_next_generation s"
    by simp_all
  have "sum (share ?s' k) {..<ln_next_generation s} + share s k g =
      sum (share s k) {..<ln_next_generation s} + share ?s' k g"
    by (rule sum_change [OF assms]) (simp add: share_def)
  moreover have "share ?s' k g = (if ln_key s g = k then length qs + received (ln_worker s g) else 0)"
    by (simp add: share_def)
  moreover have "share s k g =
      (if ln_key s g = k then length (ln_queue s g) + received (ln_worker s g) else 0)"
    by (simp add: share_def)
  ultimately show ?thesis unfolding load_def same by auto
qed

lemma load_open:
  assumes "registry_ok s"
  shows "load (open_channel k' s) k = load s k"
proof -
  let ?g = "ln_next_generation s"
  have "ln_queue s ?g = []" using registry_okD(6) [OF assms] by simp
  then have "share (open_channel k' s) k ?g = 0" by (simp add: share_def open_channel_def Let_def)
  moreover have "(\<Sum>g<?g. share (open_channel k' s) k g) = (\<Sum>g<?g. share s k g)"
    by (intro sum.cong) (simp_all add: share_def open_channel_def Let_def)
  ultimately show ?thesis by (simp add: load_def open_channel_def Let_def)
qed

lemma started_worker: "registry_ok s \<Longrightarrow> ln_worker s g \<noteq> Absent \<Longrightarrow> g < ln_next_generation s"
  using registry_okD(5) [of s g] by fastforce

lemma states_frame [simp]:
  "ln_states (swap_task t t' s) = ln_states s" "ln_states (drop_task t s) = ln_states s"
  "ln_states (set_worker g w s) = ln_states s" "ln_states (open_channel k s) = ln_states s"
  "ln_states (change_states f s) = f (ln_states s)"
  by (simp_all add: lane_defs)

text \<open>A worker's step that moves no received message leaves the load alone.\<close>

lemma load_worker_same:
  "registry_ok s \<Longrightarrow> ln_worker s g \<noteq> Absent \<Longrightarrow> received w = received (ln_worker s g) \<Longrightarrow>
   load (set_worker g w s) k = load s k"
  using load_worker [OF started_worker, of s g w k] by (simp split: if_splits)

lemma counters_step:
  "lane_step s s' \<Longrightarrow> registry_ok s \<Longrightarrow> counters_ok s \<Longrightarrow> counters_ok s'"
proof (induction rule: lane_step.induct)
  case (announce s q)
  have "load (s\<lparr>ln_tasks := add_mset (LooksUp q 0) (ln_tasks s)\<rparr>) k =
      load s k + of_bool (qd_conversation q = k)" for k
    by (simp add: load_def share_def cong: if_cong)
  with announce show ?case by (simp add: counters_ok_def)
next
  case (look_up q a s g)
  then have "load (swap_task (LooksUp q a) (Sends q a g) s) k = load s k" for k
    using load_swap [of "LooksUp q a" s "Sends q a g" k] by simp
  with look_up show ?case by (simp add: counters_ok_def)
next
  case (open_new q a s)
  let ?o = "open_channel (qd_conversation q) s"
  have "LooksUp q a \<in># ln_tasks ?o" using open_new by (simp add: open_channel_def Let_def)
  then have "load (swap_task (LooksUp q a) (Sends q a (ln_next_generation s)) ?o) k = load s k" for k
    using load_swap [of "LooksUp q a" ?o "Sends q a (ln_next_generation s)" k]
      load_open [OF open_new(4), of "qd_conversation q" k] by simp
  with open_new show ?case by (simp add: counters_ok_def)
next
  case (put q a g s)
  let ?q = "s\<lparr>ln_queue := (ln_queue s)(g := ln_queue s g @ [q]), ln_put := ln_put s @ [q]\<rparr>"
  note r = registry_okD(8,9) [OF put(4,1), of g]
  have "ln_worker s g \<noteq> Absent" using r(1) by auto
  then have "load ?q k = load s k + of_bool (ln_key s g = k)" for k
    using load_queue [OF started_worker [OF put(4)], where g = g and qs = "ln_queue s g @ [q]" and v = "ln_taken s" and
        u = "ln_put s @ [q]" and k = k]
    by (simp split: if_splits)
  moreover have "load (swap_task (Sends q a g) (HasSent g) ?q) k + of_bool (qd_conversation q = k) = load ?q k" for k
    using load_swap [of "Sends q a g" ?q "HasSent g" k] put(1) by simp
  moreover have "ln_key s g = qd_conversation q" using r(2) by (simp add: task_key_def)
  ultimately have "load (swap_task (Sends q a g) (HasSent g) ?q) k = load s k" for k
    by (metis add_right_cancel)
  with put(5) show ?case by (simp add: counters_ok_def)
next
  case (put_fails q a g s)
  then have "load (swap_task (Sends q a g) (SendFailed q a g) s) k = load s k" for k
    using load_swap [of "Sends q a g" s "SendFailed q a g" k] by simp
  with put_fails show ?case by (simp add: counters_ok_def)
next
  case (try_again q a g s)
  let ?u = "s\<lparr>ln_senders := remove_sender_if_generation (qd_conversation q) g (ln_senders s)\<rparr>"
  have "load (swap_task (SendFailed q a g) (LooksUp q (a + 1)) ?u) k = load s k" for k
    using load_swap [of "SendFailed q a g" ?u "LooksUp q (a + 1)" k] try_again(1) by simp
  with try_again show ?case by (simp add: counters_ok_def)
next
  case (sent g s)
  then show ?case by (simp add: counters_ok_def load_drop)
next
  case (give_up q a s)
  then have "load (swap_task (LooksUp q a) (GivesUp q) s) k + of_bool (qd_conversation q = k) = load s k" for k
    using load_swap [of "LooksUp q a" s "GivesUp q" k] by simp
  then have "load (swap_task (LooksUp q a) (GivesUp q) s) k = load s k - of_bool (qd_conversation q = k)" for k
    by (metis add_diff_cancel_right')
  with give_up(4) show ?case by (auto simp: counters_ok_def)
next
  case (refused q s)
  then show ?case by (simp add: counters_ok_def load_drop)
next
  case (receive s g q qs)
  let ?q = "s\<lparr>ln_queue := (ln_queue s)(g := qs), ln_taken := ln_taken s @ [q]\<rparr>"
  have g: "g < ln_next_generation s" by (rule started_worker [OF receive(3)]) (simp add: receive(1))
  have "load ?q k + of_bool (ln_key s g = k) = load s k" for k
    using load_queue [OF g, where qs = qs and u = "ln_put s" and v = "ln_taken s @ [q]" and k = k] receive(2) by (simp split: if_splits)
  moreover have "load (set_worker g (Received q) ?q) k = load ?q k + of_bool (ln_key s g = k)" for k
    using load_worker [of g ?q "Received q" k] g receive(1) by (simp split: if_splits)
  ultimately show ?case using receive(4) by (simp add: counters_ok_def)
next
  case (leave s g)
  let ?u = "s\<lparr>ln_senders := (ln_senders s)(ln_key s g := None)\<rparr>"
  have "load (set_worker g Leaves ?u) k = load s k" for k
    using load_worker [of g ?u Leaves k] started_worker [OF leave(5), of g] leave(1)
    by (simp split: if_splits)
  with leave(6) show ?case by (simp add: counters_ok_def)
next
  case (dequeue s g q)
  then have "load (set_worker g (Checks q) s) k + of_bool (ln_key s g = k) = load s k" for k
    using load_worker [OF started_worker, of s g "Checks q" k] by (simp split: if_splits)
  then have "load (set_worker g (Checks q) s) k = load s k - of_bool (ln_key s g = k)" for k
    by (metis add_diff_cancel_right')
  with dequeue(3) show ?case by (auto simp: counters_ok_def)
next
  case (deregister s g)
  let ?u = "s\<lparr>ln_senders := remove_sender_if_generation (ln_key s g) g (ln_senders s)\<rparr>"
  have "load (set_worker g Deregistered ?u) k = load s k" for k
    using load_worker [of g ?u Deregistered k] started_worker [OF deregister(2), of g] deregister(1)
    by (simp split: if_splits)
  with deregister(3) show ?case by (simp add: counters_ok_def)
qed (auto simp: counters_ok_def load_worker_same)

lemma crashed_stays: "lane_step s s' \<Longrightarrow> ln_worker s g = Crashed \<Longrightarrow> registry_ok s \<Longrightarrow> ln_worker s' g = Crashed"
proof (induction rule: lane_step.induct)
  case (open_new q a s)
  then have "g \<noteq> ln_next_generation s" using registry_okD(5) [of s g] by auto
  with open_new show ?case by (simp add: lane_defs)
qed (auto simp: lane_defs)

lemma crash_free_before: "lane_step s s' \<Longrightarrow> registry_ok s \<Longrightarrow> crash_free s' \<Longrightarrow> crash_free s"
  by (auto simp: crash_free_def dest: crashed_stays)

text \<open>The worker of a conversation that serves is the only one.\<close>

lemma serving_unique:
  "registry_ok s \<Longrightarrow> serving (ln_worker s g) \<Longrightarrow> serving (ln_worker s g') \<Longrightarrow>
   ln_key s g = ln_key s g' \<Longrightarrow> g = g'"
  by (metis registry_okD(4) option.inject)

lemma activity_frame:
  assumes "activity_ok s" and "\<And>k. el_active (lane_of (ln_states s') k) = el_active (lane_of (ln_states s) k)"
    and "\<And>g. running (ln_worker s' g) = running (ln_worker s g)"
    and "\<And>g. running (ln_worker s g) \<Longrightarrow> ln_key s' g = ln_key s g"
  shows "activity_ok s'"
  unfolding activity_ok_def
proof
  fix k
  have "(\<exists>g. ln_key s' g = k \<and> running (ln_worker s' g)) = (\<exists>g. ln_key s g = k \<and> running (ln_worker s g))"
    using assms(3,4) by auto
  with assms(1,2) show "el_active (lane_of (ln_states s') k) =
      (\<exists>g. ln_key s' g = k \<and> running (ln_worker s' g))"
    by (simp add: activity_ok_def)
qed

lemma activity_set:
  "(\<exists>g'. ln_key (set_worker g w s) g' = k \<and> running (ln_worker (set_worker g w s) g')) \<longleftrightarrow>
     ln_key s g = k \<and> running w \<or> (\<exists>g'. g' \<noteq> g \<and> ln_key s g' = k \<and> running (ln_worker s g'))"
  by (auto simp: set_worker_def)

lemma activity_step:
  "lane_step s s' \<Longrightarrow> registry_ok s \<Longrightarrow> crash_free s' \<Longrightarrow> activity_ok s \<Longrightarrow> activity_ok s'"
proof (induction rule: lane_step.induct)
  case (open_new q a s)
  have "ln_worker s (ln_next_generation s) = Absent" using registry_okD(5) [OF open_new(4)] by simp
  then show ?case by (intro activity_frame [OF open_new(6)]) (auto simp: lane_defs)
next
  case (start s g q)
  then show ?case unfolding activity_ok_def
    by (auto simp: activity_set change_states_def)
next
  case (finish s g q)
  have "\<not> running (ln_worker s g')" if "ln_key s g' = ln_key s g" "g' \<noteq> g" for g'
    using serving_unique [OF finish(2), of g' g] that finish(1) running_serving by auto
  with finish(4) show ?case unfolding activity_ok_def
    by (auto simp: activity_set change_states_def) metis
next
  case (crash s g q)
  then have "ln_worker (set_worker g Crashed s) g \<noteq> Crashed" unfolding crash_free_def by blast
  then show ?case by (simp add: set_worker_def)
qed (erule activity_frame; auto simp: lane_defs)+

section \<open>Order\<close>

definition of_conversation :: "conversation_key \<Rightarrow> queued_request list \<Rightarrow> queued_request list" where
  "of_conversation k = filter (\<lambda>q. qd_conversation q = k)"

definition queued_for :: "lanes \<Rightarrow> conversation_key \<Rightarrow> queued_request list" where
  "queued_for s k = (case ln_senders s k of None \<Rightarrow> [] | Some g \<Rightarrow> ln_queue s g)"

text \<open>Nothing is refused, and what was put is what was taken and then what is queued.\<close>

definition order_ok :: "lanes \<Rightarrow> bool" where
  "order_ok s \<longleftrightarrow>
     (\<forall>k. of_conversation k (ln_put s) = of_conversation k (ln_taken s) @ queued_for s k) \<and>
     (\<forall>q a. LooksUp q a \<in># ln_tasks s \<longrightarrow> a = 0) \<and>
     (\<forall>q. GivesUp q \<notin># ln_tasks s) \<and> ln_refused s = []"

lemma of_conversation_simps [simp]:
  "of_conversation k [] = []"
  "of_conversation k (xs @ ys) = of_conversation k xs @ of_conversation k ys"
  "of_conversation k (q # xs) = (if qd_conversation q = k then [q] else []) @ of_conversation k xs"
  by (simp_all add: of_conversation_def)

lemma order_frame:
  assumes "order_ok s" and "ln_put s' = ln_put s" and "ln_taken s' = ln_taken s"
    and "\<And>k. queued_for s' k = queued_for s k" and "ln_refused s' = ln_refused s"
    and "\<And>q a. LooksUp q a \<in># ln_tasks s' \<Longrightarrow> a = 0 \<or> LooksUp q a \<in># ln_tasks s"
    and "\<And>q. GivesUp q \<in># ln_tasks s' \<Longrightarrow> GivesUp q \<in># ln_tasks s"
  shows "order_ok s'"
  using assms unfolding order_ok_def by simp blast

lemma queued_for_frame [simp]:
  "queued_for (swap_task t t' s) k = queued_for s k" "queued_for (set_worker g w s) k = queued_for s k"
  "queued_for (s\<lparr>ln_put := xs\<rparr>) k = queued_for s k" "queued_for (s\<lparr>ln_taken := xs\<rparr>) k = queued_for s k"
  by (simp_all add: queued_for_def lane_defs split: option.split)

lemma swap_fields:
  "ln_put (swap_task t t' s) = ln_put s" "ln_taken (swap_task t t' s) = ln_taken s"
  "ln_refused (swap_task t t' s) = ln_refused s"
  "ln_tasks (swap_task t t' s) = add_mset t' (ln_tasks s - {#t#})"
  by (simp_all add: swap_task_def)

lemma queued_for_change:
  assumes "registry_ok s" and "ln_senders s (ln_key s g) = Some g"
  shows "queued_for (s\<lparr>ln_queue := (ln_queue s)(g := qs)\<rparr>) k =
    (if k = ln_key s g then qs else queued_for s k)"
proof (cases "ln_senders s k = Some g")
  case True
  then have "k = ln_key s g" using registry_okD(2) [OF assms(1)] by simp
  with True show ?thesis by (simp add: queued_for_def)
next
  case False
  with assms(2) have "k \<noteq> ln_key s g" by auto
  with False show ?thesis by (auto simp: queued_for_def split: option.split)
qed

lemma order_step:
  "lane_step s s' \<Longrightarrow> registry_ok s \<Longrightarrow> crash_free s' \<Longrightarrow> order_ok s \<Longrightarrow> order_ok s'"
proof (induction rule: lane_step.induct)
  case (open_new q a s)
  have "ln_queue s (ln_next_generation s) = []" using registry_okD(6) [OF open_new(4)] by simp
  with open_new show ?case
    by (intro order_frame [OF open_new(6)])
       (auto simp: lane_defs queued_for_def dest: in_diffD split: option.split)
next
  case (put q a g s)
  have key: "ln_key s g = qd_conversation q" and "live_or_crashed (ln_worker s g)"
    using registry_okD(8,9) [OF put(4,1), of g] by (auto simp: task_key_def)
  moreover have "ln_worker s g \<noteq> Crashed" using put(2) by (auto simp: receiving_def)
  ultimately have g: "ln_senders s (qd_conversation q) = Some g"
    using registry_okD(4) [OF put(4), of g] by (auto simp: live_or_crashed_def)
  have "queued_for (s\<lparr>ln_queue := (ln_queue s)(g := ln_queue s g @ [q]), ln_put := ln_put s @ [q]\<rparr>) k =
      queued_for s k @ (if k = qd_conversation q then [q] else [])" for k
    using queued_for_change [OF put(4), of g "ln_queue s g @ [q]" k] g
      queued_for_frame(3) [where s = "s\<lparr>ln_queue := (ln_queue s)(g := ln_queue s g @ [q])\<rparr>"
        and xs = "ln_put s @ [q]" and k = k] key
    by (simp add: queued_for_def)
  with put(6) show ?case unfolding order_ok_def
    by (auto simp: swap_fields dest: in_diffD)
next
  case (try_again q a g s)
  then have "ln_worker s g = Crashed" using registry_okD(12) [OF try_again(2)] by blast
  with try_again(3) show ?case by (simp add: crash_free_def lane_defs)
next
  case (receive s g q qs)
  have g: "ln_senders s (ln_key s g) = Some g" using registry_okD(4) [OF receive(3)] receive(1) by simp
  have q: "qd_conversation q = ln_key s g" using registry_okD(10) [OF receive(3)] receive(2) by simp
  have "queued_for (set_worker g (Received q)
        (s\<lparr>ln_queue := (ln_queue s)(g := qs), ln_taken := ln_taken s @ [q]\<rparr>)) k =
      (if k = ln_key s g then qs else queued_for s k)" for k
    using queued_for_change [OF receive(3) g, of qs k]
      queued_for_frame(4) [where s = "s\<lparr>ln_queue := (ln_queue s)(g := qs)\<rparr>"
        and xs = "ln_taken s @ [q]" and k = k] by simp
  moreover have "queued_for s (ln_key s g) = q # qs" using g receive(2) by (simp add: queued_for_def)
  ultimately show ?case using receive(5) q unfolding order_ok_def
    by (auto simp: set_worker_def)
next
  case (leave s g)
  then show ?case by (intro order_frame [OF leave(7)]) (auto simp: lane_defs queued_for_def split: option.split)
next
  case (deregister s g)
  then have "ln_senders s (ln_key s g) \<noteq> Some g" using registry_okD(3) [OF deregister(2)] by fastforce
  then show ?case
    by (intro order_frame [OF deregister(4)])
       (auto simp: lane_defs queued_for_def remove_sender_if_generation_def split: option.split)
next
  case (give_up q a s)
  then have "a = 0" unfolding order_ok_def by blast
  with give_up(2) show ?case by simp
next
  case (refused q s)
  then have False unfolding order_ok_def by blast
  then show ?case ..
qed (erule order_frame; auto simp: lane_defs queued_for_def dest: in_diffD split: option.split)+

lemma reachable_ok:
  assumes "lanes_reachable s"
  shows "registry_ok s \<and> counters_ok s \<and> (crash_free s \<longrightarrow> activity_ok s \<and> order_ok s)"
  using assms
proof (induction rule: lanes_reachable.induct)
  case reach_start
  then show ?case
    by (simp add: registry_start counters_ok_def activity_ok_def order_ok_def)
       (simp add: no_lanes_def lane_of_def idle_lane_def load_def queued_for_def)
next
  case (reach_step s s')
  then show ?case
    using registry_step counters_step activity_step order_step crash_free_before by meson
qed

section \<open>Getting on\<close>

lemma reach_steps: "lane_step\<^sup>*\<^sup>* s s' \<Longrightarrow> lanes_reachable s \<Longrightarrow> lanes_reachable s'"
  by (induction rule: rtranclp_induct) (auto intro: reach_step)

text \<open>A worker that serves can come back to its channel, with the channel untouched.\<close>

lemma worker_returns:
  assumes "serving (ln_worker s g)"
  shows "\<exists>s'. lane_step\<^sup>*\<^sup>* s s' \<and> ln_worker s' g = Waits \<and> ln_queue s' = ln_queue s \<and>
    ln_taken s' = ln_taken s"
proof -
  have skipped: "lane_step s (change_states (execution_cleanup_if_idle (ln_key s g)) (set_worker g Waits s))"
    if "ln_worker s g = Skipped" for s using that by (rule lane_step.skipped)
  have checks: "\<exists>s'. lane_step\<^sup>*\<^sup>* s s' \<and> ln_worker s' g = Waits \<and> ln_queue s' = ln_queue s \<and> ln_taken s' = ln_taken s"
    if "ln_worker s g = Checks q" for s q
  proof -
    let ?a = "set_worker g Skipped s"
    let ?b = "change_states (execution_cleanup_if_idle (ln_key ?a g)) (set_worker g Waits ?a)"
    have "lane_step ?a ?b" by (rule skipped) (simp add: set_worker_def)
    with lane_step.skip [OF that] have "lane_step\<^sup>*\<^sup>* s ?b" by simp
    then show ?thesis by (intro exI [of _ ?b]) (simp add: lane_defs)
  qed
  show ?thesis
  proof (cases "ln_worker s g")
    case (Received q)
    let ?s = "change_states (execution_dequeued (ln_key s g)) (set_worker g (Checks q) s)"
    have "ln_worker ?s g = Checks q" by (simp add: lane_defs)
    from checks [OF this] obtain s' where "lane_step\<^sup>*\<^sup>* ?s s'" "ln_worker s' g = Waits"
      "ln_queue s' = ln_queue ?s" "ln_taken s' = ln_taken ?s" by blast
    moreover have "ln_queue ?s = ln_queue s" "ln_taken ?s = ln_taken s" by (simp_all add: lane_defs)
    ultimately show ?thesis
      using converse_rtranclp_into_rtranclp [where r = lane_step, OF lane_step.dequeue [OF Received]] by metis
  next
    case (Checks q)
    then show ?thesis by (rule checks)
  next
    case Skipped
    let ?b = "change_states (execution_cleanup_if_idle (ln_key s g)) (set_worker g Waits s)"
    have "lane_step\<^sup>*\<^sup>* s ?b" using skipped [OF Skipped] by simp
    then show ?thesis by (intro exI [of _ ?b]) (simp add: lane_defs)
  next
    case (Runs q)
    let ?b = "change_states (execution_finished (ln_key s g)) (set_worker g Waits s)"
    have "lane_step\<^sup>*\<^sup>* s ?b" using lane_step.finish [OF Runs] by simp
    then show ?thesis by (intro exI [of _ ?b]) (simp add: lane_defs)
  next
    case Waits
    then show ?thesis by (intro exI [of _ s]) simp
  qed (use assms in auto)
qed

lemma queue_drains:
  assumes "serving (ln_worker s g)" and "q \<in> set (ln_queue s g)"
  shows "\<exists>s'. lane_step\<^sup>*\<^sup>* s s' \<and> q \<in> set (ln_taken s')"
  using assms
proof (induction "length (ln_queue s g)" arbitrary: s)
  case (Suc n)
  obtain s1 where 1: "lane_step\<^sup>*\<^sup>* s s1" "ln_worker s1 g = Waits" "ln_queue s1 = ln_queue s"
    using worker_returns [OF Suc.prems(1)] by blast
  obtain q' qs where q: "ln_queue s1 g = q' # qs" using Suc.prems(2) 1(3) by (cases "ln_queue s1 g") auto
  let ?s2 = "set_worker g (Received q')
      (s1\<lparr>ln_queue := (ln_queue s1)(g := qs), ln_taken := ln_taken s1 @ [q']\<rparr>)"
  have 2: "lane_step\<^sup>*\<^sup>* s ?s2" using 1(1) lane_step.receive [OF 1(2) q] by (rule rtranclp.rtrancl_into_rtrancl)
  show ?case
  proof (cases "q = q'")
    case True
    with 2 show ?thesis by (intro exI [of _ ?s2]) (simp add: set_worker_def)
  next
    case False
    have "q \<in> set (ln_queue ?s2 g)" "serving (ln_worker ?s2 g)" "n = length (ln_queue ?s2 g)"
      using Suc.prems(2) Suc.hyps(2) 1(3) q False by (auto simp: set_worker_def)
    then obtain s3 where "lane_step\<^sup>*\<^sup>* ?s2 s3" "q \<in> set (ln_taken s3)" using Suc.hyps(1) by blast
    with 2 show ?thesis by (blast intro: rtranclp_trans)
  qed
qed simp

text \<open>A request that is announced is queued in three steps, and runs after four more.\<close>

lemma demo_queued:
  "\<exists>s. lanes_reachable s \<and> q \<in> set (ln_queue s 0) \<and> (\<forall>g. ln_worker s g \<noteq> Crashed)"
proof -
  let ?k = "qd_conversation q"
  let ?s1 = "change_states (execution_announced ?k)
      (no_lanes\<lparr>ln_tasks := add_mset (LooksUp q 0) (ln_tasks no_lanes)\<rparr>)"
  let ?s2 = "swap_task (LooksUp q 0) (Sends q 0 (ln_next_generation ?s1)) (open_channel ?k ?s1)"
  let ?s3 = "swap_task (Sends q 0 0) (HasSent 0)
      (?s2\<lparr>ln_queue := (ln_queue ?s2)(0 := ln_queue ?s2 0 @ [q]), ln_put := ln_put ?s2 @ [q]\<rparr>)"
  have "lanes_reachable ?s1" by (rule reach_step [OF reach_start lane_step.announce])
  then have "lanes_reachable ?s2"
    by (rule reach_step) (rule lane_step.open_new, auto simp: lane_defs no_lanes_def)
  then have "lanes_reachable ?s3"
    by (rule reach_step) (rule lane_step.put, auto simp: lane_defs no_lanes_def receiving_def)
  then show ?thesis by (intro exI [of _ ?s3] conjI) (simp_all add: lane_defs no_lanes_def)
qed

lemma demo_lane:
  "\<exists>s. lanes_reachable s \<and> ln_worker s 0 = Runs q \<and> ln_key s 0 = qd_conversation q \<and>
     (\<forall>g. ln_worker s g \<noteq> Crashed) \<and> ln_tasks s = {#} \<and> (\<forall>g. ln_queue s g = []) \<and>
     (\<forall>g. g \<noteq> 0 \<longrightarrow> ln_worker s g = Absent)"
proof -
  let ?k = "qd_conversation q"
  let ?s1 = "change_states (execution_announced ?k)
      (no_lanes\<lparr>ln_tasks := add_mset (LooksUp q 0) (ln_tasks no_lanes)\<rparr>)"
  let ?s2 = "swap_task (LooksUp q 0) (Sends q 0 (ln_next_generation ?s1)) (open_channel ?k ?s1)"
  let ?s3 = "swap_task (Sends q 0 0) (HasSent 0)
      (?s2\<lparr>ln_queue := (ln_queue ?s2)(0 := ln_queue ?s2 0 @ [q]), ln_put := ln_put ?s2 @ [q]\<rparr>)"
  let ?s4 = "drop_task (HasSent 0) ?s3"
  let ?s5 = "set_worker 0 (Received q)
      (?s4\<lparr>ln_queue := (ln_queue ?s4)(0 := []), ln_taken := ln_taken ?s4 @ [q]\<rparr>)"
  let ?s6 = "change_states (execution_dequeued (ln_key ?s5 0)) (set_worker 0 (Checks q) ?s5)"
  let ?s7 = "change_states (execution_started (ln_key ?s6 0)) (set_worker 0 (Runs q) ?s6)"
  have "lanes_reachable ?s1" by (rule reach_step [OF reach_start lane_step.announce])
  then have "lanes_reachable ?s2"
    by (rule reach_step) (rule lane_step.open_new, auto simp: lane_defs no_lanes_def)
  then have "lanes_reachable ?s3"
    by (rule reach_step) (rule lane_step.put, auto simp: lane_defs no_lanes_def receiving_def)
  then have "lanes_reachable ?s4"
    by (rule reach_step) (rule lane_step.sent, auto simp: lane_defs no_lanes_def)
  then have "lanes_reachable ?s5"
    by (rule reach_step) (rule lane_step.receive, auto simp: lane_defs no_lanes_def)
  then have "lanes_reachable ?s6"
    by (rule reach_step) (rule lane_step.dequeue, simp add: set_worker_def)
  then have "lanes_reachable ?s7"
    by (rule reach_step) (rule lane_step.start, simp add: set_worker_def change_states_def)
  then show ?thesis
    by (intro exI [of _ ?s7] conjI) (simp_all add: set_worker_def change_states_def drop_task_def
        swap_task_def open_channel_def no_lanes_def)
qed

section \<open>Properties\<close>

definition demo_request :: "string \<Rightarrow> queued_request" where
  "demo_request text =
     \<lparr>qd_msg = \<lparr>im_platform = ''p'', im_chat_id = ''c'', im_user_id = ''u'', im_text = text,
        im_attachments = [], im_msg_id = ''m'', im_chat_type = DirectMessage,
        im_reply_token = None, im_route_override = None, im_feedback = None\<rparr>,
      qd_conversation = ConversationKey_new ''p'' ''c'' ''k'', qd_trace = None,
      qd_background = False, qd_steering_backend = None, qd_scheduled_response_tx = None\<rparr>"

text \<open>
  Property C5: a conversation has one worker at a time. Two workers that serve the same conversation
  are the same, so its requests never run at the same time, even after a worker's task has panicked.
\<close>

theorem one_at_a_time:
  assumes "lanes_reachable s" and "ln_worker s g = Runs q" and "ln_worker s g' = Runs q'"
    and "qd_conversation q = qd_conversation q'"
  shows "g = g' \<and> q = q' \<and> ln_senders s (qd_conversation q) = Some g"
proof -
  note r = registry_okD [OF reachable_registry [OF assms(1)]]
  have "ln_key s g = qd_conversation q" "ln_key s g' = qd_conversation q'"
    using r(11) [of g q] r(11) [of g' q'] assms(2,3) by simp_all
  then show ?thesis
    using serving_unique [OF reachable_registry [OF assms(1)], of g g'] r(4) [of g] assms(2-4) by simp
qed

lemma one_at_a_time_witness:
  "\<exists>s::lanes. ln_worker s 0 = Runs (demo_request ''hi'') \<and>
     ln_senders s (qd_conversation (demo_request ''hi'')) = Some 0"
proof -
  obtain s where s: "lanes_reachable s" "ln_worker s 0 = Runs (demo_request ''hi'')"
    using demo_lane by blast
  from one_at_a_time [OF s s(2) refl] s(2) show ?thesis by blast
qed

text \<open>
  Property C6: as long as no worker's task panics, no request is lost or refused and none overtakes
  another: the requests of a conversation that were put into its channels are those taken, in the
  same order, followed by those queued in the channel that is registered, whose worker serves.
\<close>

theorem requests_kept_in_order:
  assumes "lanes_reachable s" and "\<forall>g. ln_worker s g \<noteq> Crashed"
  shows "ln_refused s = [] \<and>
    filter (\<lambda>q. qd_conversation q = k) (ln_put s) =
      filter (\<lambda>q. qd_conversation q = k) (ln_taken s) @
      (case ln_senders s k of None \<Rightarrow> [] | Some g \<Rightarrow> ln_queue s g) \<and>
    (\<forall>g. ln_queue s g \<noteq> [] \<longrightarrow> ln_senders s (ln_key s g) = Some g \<and> serving (ln_worker s g))"
proof -
  have "crash_free s" using assms(2) by (simp add: crash_free_def)
  then have ok: "registry_ok s" "order_ok s" using reachable_ok [OF assms(1)] by simp_all
  have "ln_senders s (ln_key s g) = Some g \<and> serving (ln_worker s g)" if "ln_queue s g \<noteq> []" for g
    using registry_okD(4,7) [OF ok(1), of g] that assms(2) by (auto simp: live_or_crashed_def)
  with ok(2) show ?thesis by (simp add: order_ok_def of_conversation_def queued_for_def)
qed

lemma requests_kept_in_order_witness:
  "\<exists>s::lanes. ln_worker s 0 = Runs (demo_request ''hi'') \<and> ln_refused s = []"
proof -
  obtain s where s: "lanes_reachable s" "ln_worker s 0 = Runs (demo_request ''hi'')"
    "\<forall>g. ln_worker s g \<noteq> Crashed" using demo_lane by blast
  from requests_kept_in_order [OF s(1,3)] s(2) show ?thesis by blast
qed

text \<open>
  Property C14: as long as no worker's task panics, the gateway offers to steer a conversation exactly
  when a request of it is running and none is announced, queued or received.
\<close>

theorem steering_gate:
  assumes "lanes_reachable s" and "\<forall>g. ln_worker s g \<noteq> Crashed"
  shows "execution_can_steer k (ln_states s) \<longleftrightarrow>
    (\<exists>g. ln_key s g = k \<and> running (ln_worker s g)) \<and>
    (\<forall>t \<in># ln_tasks s. \<not> awaits k t) \<and>
    (\<forall>g. ln_key s g = k \<longrightarrow> ln_queue s g = [] \<and> (\<forall>q. ln_worker s g \<noteq> Received q))"
proof -
  have "crash_free s" using assms(2) by (simp add: crash_free_def)
  with reachable_ok [OF assms(1)]
  have ok: "registry_ok s" "counters_ok s" "activity_ok s" by simp_all
  have "execution_can_steer k (ln_states s) \<longleftrightarrow>
      el_active (lane_of (ln_states s) k) \<and> el_waiting (lane_of (ln_states s) k) = 0"
    by (auto simp: execution_can_steer_def can_steer_def lane_of_def idle_lane_def split: option.split)
  also have "\<dots> \<longleftrightarrow> (\<exists>g. ln_key s g = k \<and> running (ln_worker s g)) \<and> load s k = 0"
    using ok(2,3) by (simp add: counters_ok_def activity_ok_def)
  also have "load s k = 0 \<longleftrightarrow> (\<forall>t \<in># ln_tasks s. \<not> awaits k t) \<and> (\<forall>g. share s k g = 0)"
  proof -
    have "share s k g = 0" if "ln_next_generation s \<le> g" for g
      using registry_okD(5,6) [OF ok(1) that] by (simp add: share_def)
    then have "(\<forall>g. share s k g = 0) \<longleftrightarrow> (\<forall>g < ln_next_generation s. share s k g = 0)"
      by (meson not_less)
    then show ?thesis by (auto simp: load_def filter_mset_eq_conv)
  qed
  also have "(\<forall>g. share s k g = 0) \<longleftrightarrow>
      (\<forall>g. ln_key s g = k \<longrightarrow> ln_queue s g = [] \<and> (\<forall>q. ln_worker s g \<noteq> Received q))"
  proof -
    have "received w = 0 \<longleftrightarrow> (\<forall>q. w \<noteq> Received q)" for w by (cases w) simp_all
    then show ?thesis by (auto simp: share_def)
  qed
  finally show ?thesis .
qed

lemma steering_gate_witness:
  "\<exists>s::lanes. lanes_reachable s \<and> execution_can_steer (qd_conversation (demo_request ''hi'')) (ln_states s)"
proof -
  obtain s where s: "lanes_reachable s" "ln_worker s 0 = Runs (demo_request ''hi'')"
    "ln_key s 0 = qd_conversation (demo_request ''hi'')"
    "\<forall>g. ln_worker s g \<noteq> Crashed" "ln_tasks s = {#}" "\<forall>g. ln_queue s g = []"
    "\<forall>g. g \<noteq> 0 \<longrightarrow> ln_worker s g = Absent"
    using demo_lane by blast
  have "ln_worker s g \<noteq> Received q" for g q using s(2,7) by (cases "g = 0") auto
  with steering_gate [OF s(1,4), of "qd_conversation (demo_request ''hi'')"] s
  show ?thesis by (metis empty_not_add_mset multi_member_split running_simps(1))
qed

text \<open>
  A queued request does get its turn. As long as no worker's task has panicked, every
  request queued in a channel can be taken from it by further steps.
\<close>

theorem queued_gets_taken:
  assumes "lanes_reachable s" and "\<forall>g. ln_worker s g \<noteq> Crashed" and "q \<in> set (ln_queue s g)"
  shows "\<exists>s'. lane_step\<^sup>*\<^sup>* s s' \<and> lanes_reachable s' \<and> q \<in> set (ln_taken s')"
proof -
  have "serving (ln_worker s g)"
    using registry_okD(7) [OF reachable_registry [OF assms(1)], of g] assms(2,3)
    by (cases "ln_queue s g") (auto simp: live_or_crashed_def)
  from queue_drains [OF this assms(3)] show ?thesis using reach_steps assms(1) by blast
qed

lemma queued_gets_taken_witness:
  "\<exists>(s::lanes) s'. demo_request ''hi'' \<in> set (ln_queue s 0) \<and> lane_step\<^sup>*\<^sup>* s s' \<and>
     demo_request ''hi'' \<in> set (ln_taken s')"
proof -
  obtain s where s: "lanes_reachable s" "demo_request ''hi'' \<in> set (ln_queue s 0)"
    "\<forall>g. ln_worker s g \<noteq> Crashed" using demo_queued by blast
  from queued_gets_taken [OF s(1,3,2)] s(2) show ?thesis by blast
qed

end
