(* ===== verification/Dispatch.thy ===== *)
theory Dispatch
  imports Messages Lanes Delivery
begin

text \<open>
  What the gateway does with a request between its arrival and its execution (\<open>runner.rs\<close>): the
  check before it runs, the attempt to hand it to the turn that is running (steering), the fall
  back to the queue, and what the worker does with the answer.

  The pools of processes are code outside this component: interrupting a Claude process and
  steering a Codex turn are given as functions, and so is the redaction of secrets in their
  error messages. What the replies say to the user is written as its UTF-8 bytes.
\<close>

section \<open>Before a request runs\<close>

definition fail_dispatch :: "'s trace_repo option \<Rightarrow> queued_request \<Rightarrow> string \<Rightarrow> 's conn \<Rightarrow> 's conn" where
  "fail_dispatch trace_repo q err c =
     (case (qd_trace q, trace_repo) of
        (Some t, Some repo) \<Rightarrow> snd (fail_request repo (writer_for t) err c)
      | _ \<Rightarrow> c)"

definition should_execute_queued ::
  "'s trace_repo option \<Rightarrow> queued_request \<Rightarrow> 's conn \<Rightarrow> bool \<times> 's conn" where
  "should_execute_queued trace_repo q c =
     (case qd_trace q of
        None \<Rightarrow> (True, c)
      | Some t \<Rightarrow>
          (case trace_repo of
             None \<Rightarrow> (True, c)
           | Some repo \<Rightarrow>
               (case tr_get_request repo (dt_request_id t) c of
                  (Inr (Some r), c') \<Rightarrow>
                    if rq_status r = RqAccepted then (True, c')
                    else if RequestStatus_is_terminal (rq_status r) then (False, c')
                    else (False, snd (fail_request repo (writer_for t)
                           (''queued request had unexpected status: '' @ RequestStatus_as_str (rq_status r)) c'))
                | (Inr None, c') \<Rightarrow> (False, c')
                | (Inl _, c') \<Rightarrow> (True, c'))))"

section \<open>Steering\<close>

definition STEER_LOST_TEXT :: string where
  "STEER_LOST_TEXT =
     [CHR 0xE2, CHR 0x9A, CHR 0xA0, CHR 0xEF, CHR 0xB8, CHR 0x8F, CHR 0x20, CHR 0xE6, CHR 0x8F, CHR
     0x92, CHR 0xE8, CHR 0xAF, CHR 0x9D, CHR 0xE6, CHR 0x9C, CHR 0xAA, CHR 0xE7, CHR 0x94, CHR
     0x9F, CHR 0xE6, CHR 0x95, CHR 0x88, CHR 0xEF, CHR 0xBC, CHR 0x8C, CHR 0xE4, CHR 0xBD, CHR
     0x86, CHR 0xE6, CHR 0x81, CHR 0xA2, CHR 0xE5, CHR 0xA4, CHR 0x8D, CHR 0xE6, CHR 0x8E, CHR
     0x92, CHR 0xE9, CHR 0x98, CHR 0x9F, CHR 0xE7, CHR 0x8A, CHR 0xB6, CHR 0xE6, CHR 0x80, CHR
     0x81, CHR 0xE5, CHR 0xA4, CHR 0xB1, CHR 0xE8, CHR 0xB4, CHR 0xA5, CHR 0xEF, CHR 0xBC, CHR
     0x9B, CHR 0xE8, CHR 0xAF, CHR 0xB7, CHR 0xE9, CHR 0x87, CHR 0x8D, CHR 0xE6, CHR 0x96, CHR
     0xB0, CHR 0xE5, CHR 0x8F, CHR 0x91, CHR 0xE9, CHR 0x80, CHR 0x81, CHR 0xE8, CHR 0xBF, CHR
     0x99, CHR 0xE6, CHR 0x9D, CHR 0xA1, CHR 0xE6, CHR 0xB6, CHR 0x88, CHR 0xE6, CHR 0x81, CHR
     0xAF, CHR 0xE3, CHR 0x80, CHR 0x82]"

definition STEER_UNKNOWN_TEXT :: string where
  "STEER_UNKNOWN_TEXT =
     [CHR 0xE2, CHR 0x9A, CHR 0xA0, CHR 0xEF, CHR 0xB8, CHR 0x8F, CHR 0x20, CHR 0xE6, CHR 0x8F, CHR
     0x92, CHR 0xE8, CHR 0xAF, CHR 0x9D, CHR 0xE8, CHR 0xAF, CHR 0xB7, CHR 0xE6, CHR 0xB1, CHR
     0x82, CHR 0xE7, CHR 0x9A, CHR 0x84, CHR 0xE6, CHR 0x8A, CHR 0x95, CHR 0xE9, CHR 0x80, CHR
     0x92, CHR 0xE7, CHR 0x8A, CHR 0xB6, CHR 0xE6, CHR 0x80, CHR 0x81, CHR 0xE6, CHR 0x97, CHR
     0xA0, CHR 0xE6, CHR 0xB3, CHR 0x95, CHR 0xE7, CHR 0xA1, CHR 0xAE, CHR 0xE8, CHR 0xAE, CHR
     0xA4, CHR 0xE3, CHR 0x80, CHR 0x82, CHR 0xE4, CHR 0xB8, CHR 0xBA, CHR 0xE9, CHR 0x81, CHR
     0xBF, CHR 0xE5, CHR 0x85, CHR 0x8D, CHR 0xE9, CHR 0x87, CHR 0x8D, CHR 0xE5, CHR 0xA4, CHR
     0x8D, CHR 0xE6, CHR 0x89, CHR 0xA7, CHR 0xE8, CHR 0xA1, CHR 0x8C, CHR 0xEF, CHR 0xBC, CHR
     0x8C, CHR 0xE6, CHR 0x88, CHR 0x91, CHR 0xE6, CHR 0xB2, CHR 0xA1, CHR 0xE6, CHR 0x9C, CHR
     0x89, CHR 0xE8, CHR 0x87, CHR 0xAA, CHR 0xE5, CHR 0x8A, CHR 0xA8, CHR 0xE6, CHR 0x8E, CHR
     0x92, CHR 0xE9, CHR 0x98, CHR 0x9F, CHR 0xEF, CHR 0xBC, CHR 0x9B, CHR 0xE8, CHR 0xAF, CHR
     0xB7, CHR 0xE5, CHR 0x85, CHR 0x88, CHR 0xE6, CHR 0x9F, CHR 0xA5, CHR 0xE7, CHR 0x9C, CHR
     0x8B, CHR 0xE5, CHR 0xBD, CHR 0x93, CHR 0xE5, CHR 0x89, CHR 0x8D, CHR 0xE4, CHR 0xBB, CHR
     0xBB, CHR 0xE5, CHR 0x8A, CHR 0xA1, CHR 0xE8, CHR 0xBE, CHR 0x93, CHR 0xE5, CHR 0x87, CHR
     0xBA, CHR 0xEF, CHR 0xBC, CHR 0x8C, CHR 0xE5, CHR 0xA6, CHR 0x82, CHR 0xE6, CHR 0x9C, CHR
     0xAA, CHR 0xE7, CHR 0x94, CHR 0x9F, CHR 0xE6, CHR 0x95, CHR 0x88, CHR 0xE5, CHR 0x86, CHR
     0x8D, CHR 0xE9, CHR 0x87, CHR 0x8D, CHR 0xE6, CHR 0x96, CHR 0xB0, CHR 0xE5, CHR 0x8F, CHR
     0x91, CHR 0xE9, CHR 0x80, CHR 0x81, CHR 0xE3, CHR 0x80, CHR 0x82]"

datatype codex_steer_outcome =
    SteerAccepted string | NoActiveTurn | SteerRejected string | OutcomeUnknown string

text \<open>What became of a request: whether it was put into the execution lane, and the replies sent.\<close>

record 's handled =
  hd_enqueued :: bool
  hd_replies :: "outbound_message list"
  hd_conn :: "'s conn"

definition reply_to ::
  "'s trace_repo \<Rightarrow> queued_request \<Rightarrow> string \<Rightarrow> 's conn \<Rightarrow> outbound_message \<times> 's conn" where
  "reply_to repo q text =
     outbound_response (Some repo) (map_option writer_for (qd_trace q)) (im_platform (qd_msg q))
       (im_chat_id (qd_msg q)) (im_reply_token (qd_msg q)) text"

text \<open>The claim is released, in at most two attempts; the replies are those sent when it is not.\<close>

definition release_steer_claim_for_fallback ::
  "'s trace_repo \<Rightarrow> trace_writer \<Rightarrow> queued_request \<Rightarrow> 's conn \<Rightarrow>
   bool \<times> outbound_message list \<times> 's conn" where
  "release_steer_claim_for_fallback repo w q c =
     (case tw_release_steer_claim repo w c of
        (Inr released, c1) \<Rightarrow> (released, [], c1)
      | (Inl _, c1) \<Rightarrow>
          (case tw_release_steer_claim repo w c1 of
             (Inr released, c2) \<Rightarrow> (released, [], c2)
           | (Inl e, c2) \<Rightarrow>
               (let c3 = snd (fail_request repo w (''failed to release steering claim: '' @ e) c2);
                    (m, c4) = reply_to repo q STEER_LOST_TEXT c3 in
                (False, [m], c4))))"

definition fallback_after_steer ::
  "'s trace_repo \<Rightarrow> trace_writer \<Rightarrow> queued_request \<Rightarrow> string \<Rightarrow> string option \<Rightarrow> 's conn \<Rightarrow> 's handled" where
  "fallback_after_steer repo w q reason err c =
     (case release_steer_claim_for_fallback repo w q c of
        (False, replies, c1) \<Rightarrow> \<lparr>hd_enqueued = False, hd_replies = replies, hd_conn = c1\<rparr>
      | (True, replies, c1) \<Rightarrow>
          \<lparr>hd_enqueued = True, hd_replies = replies,
           hd_conn = snd (tw_append repo w TurnSteerFallback
             (JObj ((''reason'', JStr reason) # (case err of None \<Rightarrow> [] | Some e \<Rightarrow> [(''error'', JStr e)]))) c1)\<rparr>)"

definition steer_claude ::
  "(string \<Rightarrow> string) \<Rightarrow> 's trace_repo \<Rightarrow> trace_writer \<Rightarrow> queued_request \<Rightarrow> string + unit \<Rightarrow> 's conn \<Rightarrow>
   's handled" where
  "steer_claude redact repo w q interrupt_result c =
     (case interrupt_result of
        Inr _ \<Rightarrow>
          (case release_steer_claim_for_fallback repo w q c of
             (False, replies, c1) \<Rightarrow> \<lparr>hd_enqueued = False, hd_replies = replies, hd_conn = c1\<rparr>
           | (True, replies, c1) \<Rightarrow>
               \<lparr>hd_enqueued = True, hd_replies = replies,
                hd_conn = snd (tw_append repo w TurnSteerAccepted
                  (JObj [(''backend'', JStr ''claude''), (''mode'', JStr ''interrupt_then_queue''),
                         (''platform_msg_id'', JStr (im_msg_id (qd_msg q)))]) c1)\<rparr>)
      | Inl e \<Rightarrow> fallback_after_steer repo w q ''claude_interrupt_rejected'' (Some (redact e)) c)"

definition steer_codex ::
  "(string \<Rightarrow> string) \<Rightarrow> 's trace_repo \<Rightarrow> trace_writer \<Rightarrow> queued_request \<Rightarrow> codex_steer_outcome \<Rightarrow>
   's conn \<Rightarrow> 's handled" where
  "steer_codex redact repo w q outcome c =
     (case outcome of
        SteerAccepted turn_id \<Rightarrow>
          (let c1 = snd (tw_append repo w TurnSteerAccepted
                 (JObj [(''backend'', JStr ''codex''), (''thread_turn_id'', JStr turn_id),
                        (''platform_msg_id'', JStr (im_msg_id (qd_msg q)))]) c) in
           \<lparr>hd_enqueued = False, hd_replies = [], hd_conn = snd (complete_request repo w c1)\<rparr>)
      | NoActiveTurn \<Rightarrow> fallback_after_steer repo w q ''no_active_turn'' None c
      | SteerRejected e \<Rightarrow> fallback_after_steer repo w q ''rejected'' (Some (redact e)) c
      | OutcomeUnknown e \<Rightarrow>
          (let c1 = snd (tw_append repo w TurnSteerOutcomeUnknown
                 (JObj [(''error'', JStr (redact e)), (''requeued'', JBool False)]) c);
               c2 = snd (fail_request repo w (''Codex turn steering outcome unknown: '' @ redact e) c1);
               (m, c3) = reply_to repo q STEER_UNKNOWN_TEXT c2 in
           \<lparr>hd_enqueued = False, hd_replies = [m], hd_conn = c3\<rparr>))"

text \<open>The process a conversation's turns run in.\<close>

definition pool_key_of :: "queued_request \<Rightarrow> string" where
  "pool_key_of q =
     persistent_pool_key (ck_platform (qd_conversation q)) (ck_chat_id (qd_conversation q))
       (ck_cli_profile (qd_conversation q))"

text \<open>One round of the ingress worker. The lane states are those it sees when it looks.\<close>

definition ingress_round ::
  "(string \<Rightarrow> string) \<Rightarrow> (string \<Rightarrow> string + unit) \<Rightarrow> (string \<Rightarrow> string \<Rightarrow> string \<Rightarrow> codex_steer_outcome) \<Rightarrow>
   's trace_repo option \<Rightarrow> lane_states \<Rightarrow> queued_request \<Rightarrow> 's conn \<Rightarrow> 's handled" where
  "ingress_round redact interrupt steer trace_repo states q c =
     (let enqueue = (\<lambda>c. \<lparr>hd_enqueued = True, hd_replies = [], hd_conn = c\<rparr>);
          stop = (\<lambda>c. \<lparr>hd_enqueued = False, hd_replies = [], hd_conn = c\<rparr>) in
      case should_execute_queued trace_repo q c of
        (False, c1) \<Rightarrow> stop c1
      | (True, c1) \<Rightarrow>
          (case qd_steering_backend q of
             None \<Rightarrow> enqueue c1
           | Some backend \<Rightarrow>
               if \<not> execution_can_steer (qd_conversation q) states then enqueue c1
               else
                 (case (qd_trace q, trace_repo) of
                    (Some t, Some repo) \<Rightarrow>
                      (let w = writer_for t in
                       case claim_for_steer repo w c1 of
                         (Inr False, c2) \<Rightarrow> stop c2
                       | (Inl _, c2) \<Rightarrow>
                           stop (fail_dispatch trace_repo q ''failed to claim request for live steering'' c2)
                       | (Inr True, c2) \<Rightarrow>
                           (case backend of
                              SteerClaude \<Rightarrow> steer_claude redact repo w q (interrupt (pool_key_of q)) c2
                            | SteerCodex \<Rightarrow>
                                steer_codex redact repo w q
                                  (steer (pool_key_of q) (im_text (qd_msg q)) (im_msg_id (qd_msg q))) c2))
                  | _ \<Rightarrow> enqueue c1)))"

section \<open>The round of a conversation worker\<close>

text \<open>
  \<open>handle\<close> is \<open>handle_message_inner\<close>. The result: what is sent to the platforms, what is handed to
  the scheduler.
\<close>

record 's turn =
  tn_sent :: "outbound_message option"
  tn_scheduled :: "(nat \<times> outbound_message option) option"
  tn_conn :: "'s conn"

definition conversation_turn ::
  "'s trace_repo option \<Rightarrow> (queued_request \<Rightarrow> 's conn \<Rightarrow> outbound_message option \<times> 's conn) \<Rightarrow>
   queued_request \<Rightarrow> 's conn \<Rightarrow> 's turn" where
  "conversation_turn trace_repo handle q c =
     (case should_execute_queued trace_repo q c of
        (False, c1) \<Rightarrow> \<lparr>tn_sent = None, tn_scheduled = None, tn_conn = c1\<rparr>
      | (True, c1) \<Rightarrow>
          (case handle q c1 of
             (response, c2) \<Rightarrow>
               (case qd_scheduled_response_tx q of
                  Some tx \<Rightarrow> \<lparr>tn_sent = None, tn_scheduled = Some (tx, response), tn_conn = c2\<rparr>
                | None \<Rightarrow>
                    (case response of
                       Some outbound \<Rightarrow> \<lparr>tn_sent = Some outbound, tn_scheduled = None, tn_conn = c2\<rparr>
                     | None \<Rightarrow>
                         \<lparr>tn_sent = None, tn_scheduled = None,
                          tn_conn = (case (qd_trace q, trace_repo) of
                             (Some t, Some repo) \<Rightarrow>
                               snd (fail_request_if_active repo (writer_for t)
                                 ''request produced no response'' c2)
                           | _ \<Rightarrow> c2)\<rparr>))))"

end
