(* ===== verification/Dispatch_Props.thy ===== *)
theory Dispatch_Props
  imports Dispatch Trace_Props
begin

text \<open>
  What is proved of the way of a request to its execution, on the SQLite trace store: which requests
  reach the execution lane, and in which status every request ends that does not.
\<close>

section \<open>Statuses along the way\<close>

definition status_of :: "trace_db conn \<Rightarrow> string \<Rightarrow> request_status option" where
  "status_of c rid = ab_status (trace_view (tables c)) rid"

definition fine :: "trace_db conn \<Rightarrow> bool" where
  "fine c \<longleftrightarrow> quiet c \<and> trace_ok (tables c)"

lemma writer_for_id [simp]: "tw_request_id (writer_for t) = dt_request_id t"
    "tw_trace_id (writer_for t) = dt_trace_id t"
  by (simp_all add: writer_for_def from_existing_def)

lemma get_request_status:
  assumes "fine c" and "status_of c rid = Some st"
  shows "\<exists>r c'. sqlite_get_request rid c = (Inr (Some r), c') \<and> rq_status r = st \<and> fine c' \<and>
    trace_view (tables c') = trace_view (tables c)"
proof -
  obtain r where r: "find_request rid (tables c) = Some r" "RequestStatus_parse (qr_status r) = Some st"
    using assms(2) by (auto simp: status_of_def trace_view_def bind_eq_Some_conv)
  then show ?thesis using assms(1)
    by (auto simp: sqlite_get_request_def and_then_def map_err_def stmt_select_quiet ret_def fine_def
        request_of_row_def utc_now_def)
qed

text \<open>The writer's operations on the SQLite store, as changes of one status.\<close>

lemma refined_run:
  assumes "refines trace_ok trace_view m f" and "fine c"
  shows "fine (snd (m c))" and "f (trace_view (tables c)) = (ok_of (fst (m c)), trace_view (tables (snd (m c))))"
  using refinesD [OF assms(1), of c "fst (m c)" "snd (m c)"] assms(2) by (simp_all add: fine_def)

abbreviation traces :: "(json \<Rightarrow> string) \<Rightarrow> (string \<Rightarrow> json option) \<Rightarrow> trace_db trace_repo" where
  "traces ser de \<equiv> sqlite_repo (\<lambda>j. Inr (ser j)) de"

lemma append_status:
  assumes "fine c"
  shows "fine (snd (tw_append (traces ser de) w k p c))"
    and "status_of (snd (tw_append (traces ser de) w k p c)) = status_of c"
  using refined_run [OF sqlite_store.tw_append_refines assms]
  by (simp_all add: status_of_def fun_eq_iff spec_append_def)

lemma update_status_to:
  assumes "fine c" and "status_of c (tw_request_id w) = Some st"
    and "RequestStatus_can_transition_to st st'" and "refines trace_ok trace_view m
      (abs_then (spec_update_request_status (tw_request_id w) st') (\<lambda>_. spec_append tid k))"
  shows "fine (snd (m c))" and "status_of (snd (m c)) (tw_request_id w) = Some st'"
proof -
  note 1 = refined_run [OF assms(4,1)]
  show "fine (snd (m c))" by (fact 1(1))
  show "status_of (snd (m c)) (tw_request_id w) = Some st'"
    using 1(2) assms(2,3) by (auto simp: status_of_def abs_then_def spec_update_request_status_def
        spec_append_def dest: sym)
qed

lemma fail_status:
  assumes "fine c" and "status_of c (tw_request_id w) = Some st" and "st \<noteq> RqCompleted"
  shows "fine (snd (fail_request (traces ser de) w e c))"
    and "status_of (snd (fail_request (traces ser de) w e c)) (tw_request_id w) = Some RqFailed"
proof -
  have "RequestStatus_can_transition_to st RqFailed"
    using assms(3) by (cases st) (simp_all add: RequestStatus_can_transition_to_def)
  note update_status_to [OF assms(1,2) this, where tid = "tw_trace_id w" and k = RequestFailed
      and m = "fail_request (traces ser de) w e"]
  moreover have "refines trace_ok trace_view (fail_request (traces ser de) w e)
      (abs_then (spec_update_request_status (tw_request_id w) RqFailed)
        (\<lambda>_. spec_append (tw_trace_id w) RequestFailed))"
    using sqlite_store.fail_request_refines by (simp add: spec_fail_request_def)
  ultimately show "fine (snd (fail_request (traces ser de) w e c))"
    "status_of (snd (fail_request (traces ser de) w e c)) (tw_request_id w) = Some RqFailed"
    by simp_all
qed

lemma complete_status:
  assumes "fine c" and "status_of c (tw_request_id w) = Some st" and "st \<noteq> RqFailed"
  shows "fine (snd (complete_request (traces ser de) w c))"
    and "status_of (snd (complete_request (traces ser de) w c)) (tw_request_id w) = Some RqCompleted"
proof -
  have "RequestStatus_can_transition_to st RqCompleted"
    using assms(3) by (cases st) (simp_all add: RequestStatus_can_transition_to_def)
  note update_status_to [OF assms(1,2) this, where tid = "tw_trace_id w" and k = RequestCompleted
      and m = "complete_request (traces ser de) w"]
  moreover have "refines trace_ok trace_view (complete_request (traces ser de) w)
      (abs_then (spec_update_request_status (tw_request_id w) RqCompleted)
        (\<lambda>_. spec_append (tw_trace_id w) RequestCompleted))"
    using sqlite_store.complete_refines by (simp add: spec_complete_request_def)
  ultimately show "fine (snd (complete_request (traces ser de) w c))"
    "status_of (snd (complete_request (traces ser de) w c)) (tw_request_id w) = Some RqCompleted"
    by simp_all
qed

lemma ok_of_Some: "Some a = ok_of x \<longleftrightarrow> x = Inr a" for x :: "'e + 'a"
  by (cases x) auto

lemma claim_status:
  assumes "fine c" and "status_of c (tw_request_id w) = Some RqAccepted"
  shows "\<exists>c'. claim_for_steer (traces ser de) w c = (Inr True, c') \<and> fine c' \<and>
    status_of c' (tw_request_id w) = Some RqRunning"
proof -
  obtain r c' where m: "claim_for_steer (traces ser de) w c = (r, c')" by fastforce
  note 1 = refined_run [OF sqlite_store.claim_for_steer_refines [of ser de w] assms(1)]
  have "spec_claim_for_steer w (trace_view (tables c)) = (ok_of r, trace_view (tables c'))"
    using 1(2) m by simp
  then have "r = Inr True" "status_of c' (tw_request_id w) = Some RqRunning"
    using assms(2) by (auto simp: spec_claim_for_steer_eq status_of_def ok_of_Some
        dest!: sym [where t = "trace_view (tables c')"])
  with m 1(1) show ?thesis by simp
qed

lemma release_status:
  assumes "fine c" and "status_of c (tw_request_id w) = Some RqRunning"
  shows "\<exists>c'. tw_release_steer_claim (traces ser de) w c = (Inr True, c') \<and> fine c' \<and>
    status_of c' (tw_request_id w) = Some RqAccepted"
proof -
  obtain r c' where m: "tw_release_steer_claim (traces ser de) w c = (r, c')" by fastforce
  have "refines trace_ok trace_view (tw_release_steer_claim (traces ser de) w)
      (spec_transition_request_if (tw_request_id w) RqRunning RqAccepted)"
    unfolding tw_release_steer_claim_def release_steer_claim_def
    by (rule sqlite_store.transition_refines) simp
  note 1 = refined_run [OF this assms(1)]
  have "r = Inr True" "status_of c' (tw_request_id w) = Some RqAccepted"
    using 1(2) m assms(2) by (auto simp: spec_transition_request_if_def status_of_def ok_of_Some
        dest!: sym [where t = "trace_view (tables c')"])
  with m 1(1) show ?thesis by simp
qed

lemma reply_status:
  assumes "fine c"
  shows "fine (snd (reply_to (traces ser de) q text c))"
    and "status_of (snd (reply_to (traces ser de) q text c)) = status_of c"
proof -
  have "fine (snd (tw_enqueue_outbox (traces ser de) w p ch tok b c)) \<and>
      status_of (snd (tw_enqueue_outbox (traces ser de) w p ch tok b c)) = status_of c" for w p ch tok b
  proof -
    obtain oid c1 where u: "new_uuid c = (Inr oid :: string + string, c1)" "fine c1" "tables c1 = tables c"
      using assms by (auto simp: new_uuid_def fine_def)
    let ?b = "OutboxRecord_pending oid (tw_request_id w) (tw_trace_id w) p ch tok b"
    have "refines trace_ok trace_view (tr_enqueue_outbox (traces ser de) ?b)
        (spec_enqueue_outbox (ob_outbox_id ?b))"
      by (rule sqlite_store.enqueue_refines) (simp_all add: OutboxRecord_pending_def)
    note 1 = refined_run [OF this u(2)]
    obtain r c2 where 2: "tr_enqueue_outbox (traces ser de) ?b c1 = (r, c2)" by fastforce
    have "fine c2" "status_of c2 = status_of c"
      using 1 2 u(3) by (auto simp: spec_enqueue_outbox_def status_of_def fun_eq_iff
          split: if_splits dest: sym)
    then show ?thesis
    proof (cases r)
      case (Inl e)
      with 2 u(1) \<open>fine c2\<close> \<open>status_of c2 = status_of c\<close> show ?thesis
        by (simp add: tw_enqueue_outbox_def and_then_def Let_def)
    next
      case (Inr x)
      let ?p = "JObj [(''outbox_id'', JStr (ob_outbox_id ?b)), (''platform'', JStr (ob_platform ?b)),
          (''chat_id'', JStr (ob_chat_id ?b)), (''body_len'', JNum (int (length (ob_body ?b))))]"
      obtain ra c3 where 3: "tw_append (traces ser de) w OutboxQueued ?p c2 = (ra, c3)" by fastforce
      have "fine c3" "status_of c3 = status_of c"
        using append_status [OF \<open>fine c2\<close>, of ser de w OutboxQueued ?p] 3 \<open>status_of c2 = status_of c\<close>
        by simp_all
      with Inr 2 3 u(1) show ?thesis
        by (cases ra) (simp_all add: tw_enqueue_outbox_def and_then_def Let_def ret_def)
    qed
  qed
  note enqueued = this
  have "fine (snd (reply_to (traces ser de) q text c)) \<and>
      status_of (snd (reply_to (traces ser de) q text c)) = status_of c"
  proof (cases "qd_trace q")
    case None
    with assms show ?thesis by (simp add: reply_to_def outbound_response_def)
  next
    case (Some t)
    obtain r c1 where e: "tw_enqueue_outbox (traces ser de) (writer_for t) (im_platform (qd_msg q))
        (im_chat_id (qd_msg q)) (im_reply_token (qd_msg q)) text c = (r, c1)" by fastforce
    with enqueued [of "writer_for t" "im_platform (qd_msg q)" "im_chat_id (qd_msg q)"
        "im_reply_token (qd_msg q)" "text"] Some show ?thesis
      by (cases r) (simp_all add: reply_to_def outbound_response_def)
  qed
  then show "fine (snd (reply_to (traces ser de) q text c))"
    "status_of (snd (reply_to (traces ser de) q text c)) = status_of c" by simp_all
qed

section \<open>The ways of a request\<close>

lemma fallback_status:
  assumes "fine c" and "status_of c (tw_request_id w) = Some RqRunning"
  shows "hd_enqueued (fallback_after_steer (traces ser de) w q reason err c)"
    and "hd_replies (fallback_after_steer (traces ser de) w q reason err c) = []"
    and "status_of (hd_conn (fallback_after_steer (traces ser de) w q reason err c)) (tw_request_id w) =
      Some RqAccepted"
proof -
  obtain c1 where "tw_release_steer_claim (traces ser de) w c = (Inr True, c1)" "fine c1"
    "status_of c1 (tw_request_id w) = Some RqAccepted"
    using release_status [OF assms] by blast
  then show "hd_enqueued (fallback_after_steer (traces ser de) w q reason err c)"
    "hd_replies (fallback_after_steer (traces ser de) w q reason err c) = []"
    "status_of (hd_conn (fallback_after_steer (traces ser de) w q reason err c)) (tw_request_id w) =
      Some RqAccepted"
    by (simp_all add: fallback_after_steer_def release_steer_claim_for_fallback_def append_status)
qed

lemma claude_status:
  assumes "fine c" and "status_of c (tw_request_id w) = Some RqRunning"
  shows "hd_enqueued (steer_claude redact (traces ser de) w q r c) \<and>
    status_of (hd_conn (steer_claude redact (traces ser de) w q r c)) (tw_request_id w) = Some RqAccepted"
proof (cases r)
  case (Inl e)
  with fallback_status [OF assms] show ?thesis by (simp add: steer_claude_def)
next
  case (Inr x)
  obtain c1 where "tw_release_steer_claim (traces ser de) w c = (Inr True, c1)" "fine c1"
    "status_of c1 (tw_request_id w) = Some RqAccepted"
    using release_status [OF assms] by blast
  with Inr show ?thesis
    by (simp add: steer_claude_def release_steer_claim_for_fallback_def append_status)
qed

text \<open>What became of a request handed to a Codex turn, by what the turn said.\<close>

fun codex_end :: "codex_steer_outcome \<Rightarrow> bool \<times> request_status \<times> nat" where
  "codex_end (SteerAccepted _) = (False, RqCompleted, 0)"
| "codex_end NoActiveTurn = (True, RqAccepted, 0)"
| "codex_end (SteerRejected _) = (True, RqAccepted, 0)"
| "codex_end (OutcomeUnknown _) = (False, RqFailed, 1)"

lemma codex_status:
  assumes "fine c" and "status_of c (tw_request_id w) = Some RqRunning"
  shows "(let h = steer_codex redact (traces ser de) w q outcome c in
    (hd_enqueued h, status_of (hd_conn h) (tw_request_id w), length (hd_replies h)) =
    (case codex_end outcome of (b, st, n) \<Rightarrow> (b, Some st, n)))"
proof (cases outcome)
  case (SteerAccepted turn)
  let ?c1 = "snd (tw_append (traces ser de) w TurnSteerAccepted
    (JObj [(''backend'', JStr ''codex''), (''thread_turn_id'', JStr turn),
           (''platform_msg_id'', JStr (im_msg_id (qd_msg q)))]) c)"
  have "fine ?c1" "status_of ?c1 (tw_request_id w) = Some RqRunning"
    using append_status [OF assms(1)] assms(2) by simp_all
  with SteerAccepted show ?thesis by (simp add: steer_codex_def complete_status)
next
  case (OutcomeUnknown e)
  let ?c1 = "snd (tw_append (traces ser de) w TurnSteerOutcomeUnknown
    (JObj [(''error'', JStr (redact e)), (''requeued'', JBool False)]) c)"
  let ?c2 = "snd (fail_request (traces ser de) w
    (''Codex turn steering outcome unknown: '' @ redact e) ?c1)"
  have 1: "fine ?c1" "status_of ?c1 (tw_request_id w) = Some RqRunning"
    using append_status [OF assms(1)] assms(2) by simp_all
  then have 2: "fine ?c2" "status_of ?c2 (tw_request_id w) = Some RqFailed"
    by (simp_all add: fail_status)
  obtain m c3 where 3: "reply_to (traces ser de) q STEER_UNKNOWN_TEXT ?c2 = (m, c3)" by fastforce
  with reply_status [OF 2(1), of ser de q STEER_UNKNOWN_TEXT] 2(2)
  have "status_of c3 (tw_request_id w) = Some RqFailed" by simp
  with OutcomeUnknown 3 show ?thesis by (simp add: steer_codex_def)
qed (use fallback_status [OF assms] in \<open>simp_all add: steer_codex_def\<close>)

text \<open>Whether a queued request still is to run, on the SQLite store.\<close>

lemma should_execute_status:
  assumes "fine c" and "qd_trace q = Some t" and "status_of c (dt_request_id t) = Some st"
  shows "\<exists>c'. should_execute_queued (Some (traces ser de)) q c = (st = RqAccepted, c') \<and> fine c' \<and>
    status_of c' (dt_request_id t) = Some (if st = RqRunning then RqFailed else st)"
proof -
  obtain r c1 where 1: "tr_get_request (traces ser de) (dt_request_id t) c = (Inr (Some r), c1)"
    "rq_status r = st" "fine c1" "trace_view (tables c1) = trace_view (tables c)"
    using get_request_status [OF assms(1,3)] by (auto simp: sqlite_repo_def)
  have st1: "status_of c1 (tw_request_id (writer_for t)) = Some st"
    using assms(3) 1(4) by (simp add: status_of_def)
  show ?thesis
  proof (cases st)
    case RqRunning
    let ?e = "''queued request had unexpected status: '' @ RequestStatus_as_str st"
    from fail_status [OF 1(3) st1, of ser de ?e] RqRunning 1 assms(2) show ?thesis
      by (simp add: should_execute_queued_def)
  qed (use 1 st1 assms(2) in \<open>simp_all add: should_execute_queued_def\<close>)
qed


definition demo_queued_request :: "string \<Rightarrow> queued_request" where
  "demo_queued_request rid =
     \<lparr>qd_msg = \<lparr>im_platform = ''p'', im_chat_id = ''c'', im_user_id = ''u'', im_text = ''more'',
        im_attachments = [], im_msg_id = ''m'', im_chat_type = DirectMessage,
        im_reply_token = None, im_route_override = None, im_feedback = None\<rparr>,
      qd_conversation = ConversationKey_new ''p'' ''c'' ''k'',
      qd_trace = Some \<lparr>dt_trace_id = ''t'' @ rid, dt_request_id = rid\<rparr>,
      qd_background = False, qd_steering_backend = Some SteerCodex, qd_scheduled_response_tx = None\<rparr>"


lemma fail_if_active_status:
  "ab_status (snd (spec_fail_request_if_active w a)) rid =
     (if active_in a (tw_trace_id w) rid then Some RqFailed else ab_status a rid)"
  by (simp add: spec_fail_request_if_active_def abs_then_def spec_force_fail_def spec_append_def)

text \<open>
  A request whose run gave no answer is settled. Unless it was run for the scheduler,
  its trace is failed if the run left it open; run for the scheduler it stays as the run left it.
\<close>

theorem no_answer_settled:
  assumes "quiet c" and "trace_ok (tables c)"
    and "qd_trace q = Some t"
    and "ab_status (trace_view (tables c)) (dt_request_id t) = Some RqAccepted"
    and "\<And>c1. handle q c1 = (None, after_run c1)"
    and "\<And>c1. quiet c1 \<Longrightarrow> trace_ok (tables c1) \<Longrightarrow> quiet (after_run c1) \<and> trace_ok (tables (after_run c1)) \<and>
      ab_status (trace_view (tables (after_run c1))) (dt_request_id t) = Some st \<and>
      ab_trace_of (trace_view (tables (after_run c1))) (dt_request_id t) = Some (dt_trace_id t)"
  shows "ab_status (trace_view (tables (tn_conn (conversation_turn
      (Some (sqlite_repo (\<lambda>j. Inr (ser j)) de)) handle q c)))) (dt_request_id t) =
    (if qd_scheduled_response_tx q = None \<and> st \<in> {RqAccepted, RqRunning} then Some RqFailed else Some st)"
proof -
  let ?repo = "traces ser de"
  have f: "fine c" "status_of c (dt_request_id t) = Some RqAccepted"
    using assms(1,2,4) by (simp_all add: fine_def status_of_def)
  obtain c1 where 1: "should_execute_queued (Some ?repo) q c = (True, c1)" "fine c1"
    using should_execute_status [OF f(1) assms(3) f(2)] by auto
  have 2: "fine (after_run c1)" "status_of (after_run c1) (dt_request_id t) = Some st"
    "ab_trace_of (trace_view (tables (after_run c1))) (dt_request_id t) = Some (dt_trace_id t)"
    using assms(6) [of c1] 1(2) by (simp_all add: fine_def status_of_def)
  obtain r c2 where 3: "fail_request_if_active ?repo (writer_for t) ''request produced no response''
      (after_run c1) = (r, c2)" by fastforce
  have "status_of c2 (dt_request_id t) =
      (if st \<in> {RqAccepted, RqRunning} then Some RqFailed else Some st)"
    using refined_run(2) [OF sqlite_store.fail_request_if_active_refines
        [of ser de "writer_for t" "''request produced no response''"] 2(1)] 2(2,3) 3
      fail_if_active_status [of "writer_for t" "trace_view (tables (after_run c1))" "dt_request_id t"]
    by (auto simp: status_of_def active_in_def)
  with 1 2 3 assms(3,5) show ?thesis
    by (cases "qd_scheduled_response_tx q") (simp_all add: conversation_turn_def status_of_def)
qed

lemma no_answer_settled_witness:
  "ab_status (trace_view (tables (tn_conn (conversation_turn
      (Some (sqlite_repo (\<lambda>_. Inr ''{}'') (\<lambda>_. None))) (\<lambda>_ _. (None, calm demo_db))
      (demo_queued_request ''a'') (calm demo_db))))) ''a'' = Some RqFailed"
proof -
  have "ab_status (trace_view demo_db) ''a'' = Some RqAccepted"
    "ab_trace_of (trace_view demo_db) ''a'' = Some ''ta''"
    by (simp_all add: trace_view_def find_request_def first_row_def demo_db_def demo_request_def
        RequestStatus_parse_def)
  with no_answer_settled [where c = "calm demo_db" and q = "demo_queued_request ''a''" and
      t = "\<lparr>dt_trace_id = ''ta'', dt_request_id = ''a''\<rparr>" and st = RqAccepted and
      handle = "\<lambda>_ _. (None, calm demo_db)" and after_run = "\<lambda>_. calm demo_db" and
      ser = "\<lambda>_. ''{}''" and de = "\<lambda>_. None"] demo_ok
  show ?thesis by (simp add: demo_queued_request_def)
qed

end
