(* ===== verification/Scheduler.thy ===== *)
theory Scheduler
  imports Messages Delivery Store_Sqlite
begin

text \<open>
  The scheduler of recurring and one-shot jobs (\<open>scheduler.rs\<close>): every minute it takes the due jobs
  and runs each, a reminder by sending its text, the others by a turn of the agent whose answer it
  sends. The turn itself is a parameter \<open>agent\<close>, which may change both stores. Texts for the user
  are written as their UTF-8 bytes.
\<close>

definition POLL_UNTIL_RESULT_MARKER :: string where
  "POLL_UNTIL_RESULT_MARKER = ''[[ASTRA_POLL_UNTIL_RESULT]]''"

definition SILENT_MARKER :: string where
  "SILENT_MARKER = ''[[ASTRA_SILENT]]''"

definition parse_poll_result :: "string \<Rightarrow> string \<times> bool" where
  "parse_poll_result response =
     (trim (replace POLL_UNTIL_RESULT_MARKER [] (replace SILENT_MARKER [] response)),
      contains response SILENT_MARKER)"

definition platform_name :: "string \<Rightarrow> string option" where
  "platform_name n =
     (if n = ''wecom'' then Some ''wecom'' else if n = ''weixin'' then Some ''weixin''
      else if n = ''whatsapp'' then Some ''whatsapp''
      else if n = ''whatsapp_web'' then Some ''whatsapp_web'' else None)"

definition REMINDER_PREFIX :: string where
  "REMINDER_PREFIX =
     [CHR 0xE2, CHR 0x8F, CHR 0xB0, CHR 0x20, CHR 0xE6, CHR 0x8F, CHR 0x90, CHR 0xE9, CHR 0x86,
     CHR 0x92, CHR 0x3A, CHR 0x20]"

definition TASK_PREFIX :: string where
  "TASK_PREFIX =
     [CHR 0xE2, CHR 0x8F, CHR 0xB0, CHR 0x20, CHR 0x2A, CHR 0x2A, CHR 0xE5, CHR 0xAE, CHR 0x9A,
     CHR 0xE6, CHR 0x97, CHR 0xB6, CHR 0xE4, CHR 0xBB, CHR 0xBB, CHR 0xE5, CHR 0x8A, CHR 0xA1,
     CHR 0x20, CHR 0x60]"

section \<open>State\<close>

text \<open>The store operations the scheduler uses, and those of the SQLite store.\<close>

record 's cron_store =
  cn_get_due_jobs :: "('s, store_error, due_job list) op"
  cn_get_user_id :: "string \<Rightarrow> ('s, store_error, string option) op"
  cn_delete_job :: "string \<Rightarrow> ('s, store_error, bool) op"
  cn_mark_run :: "string \<Rightarrow> string \<Rightarrow> ('s, store_error, unit) op"

definition sqlite_cron_store :: "(int \<Rightarrow> string) \<Rightarrow> int \<Rightarrow> 'f gw_db cron_store" where
  "sqlite_cron_store fmt tz =
     \<lparr>cn_get_due_jobs = sqlite_get_due_jobs, cn_get_user_id = sqlite_get_cron_job_user_id,
      cn_delete_job = sqlite_delete_cron_job, cn_mark_run = sqlite_mark_job_run fmt tz\<rparr>"

text \<open>The channel to the delivery loop takes messages as long as the loop runs.\<close>

record ('s, 't) scheduler =
  sd_store :: "'s conn"
  sd_trace :: "'t conn"
  sd_outbound :: "outbound_message list"
  sd_outbound_open :: bool

datatype turn_answer = TurnNotQueued | TurnAnswer "outbound_message option" | TurnDropped

section \<open>A job\<close>

definition resolve_job_user_id ::
  "'s cron_store \<Rightarrow> string \<Rightarrow> ('s, 't) scheduler \<Rightarrow> string \<times> ('s, 't) scheduler" where
  "resolve_job_user_id st job_id s =
     (case cn_get_user_id st job_id (sd_store s) of
        (r, c) \<Rightarrow> (case r of Inr (Some u) \<Rightarrow> u | _ \<Rightarrow> [], s\<lparr>sd_store := c\<rparr>))"

definition begin_scheduler_trace ::
  "'t trace_repo \<Rightarrow> string \<Rightarrow> string \<Rightarrow> string \<Rightarrow> string \<Rightarrow> string \<Rightarrow> ('t, string, trace_writer) op" where
  "begin_scheduler_trace repo job_id platform chat_id cli_name message =
     and_then new_uuid (\<lambda>rid. and_then new_uuid (\<lambda>tid. and_then utc_now (\<lambda>now.
       tw_begin repo (GatewayRequest_new rid tid now (ConversationKey_new platform chat_id cli_name)
         (''cron-'' @ job_id) [] message))))"

definition enqueue_scheduler_outbox ::
  "'t trace_repo \<Rightarrow> string \<Rightarrow> string \<Rightarrow> string \<Rightarrow> string \<Rightarrow> string \<Rightarrow> string option \<Rightarrow>
   ('t, string, outbound_message) op" where
  "enqueue_scheduler_outbox repo job_id platform chat_id cli_name body reply_token =
     and_then (begin_scheduler_trace repo job_id platform chat_id cli_name body) (\<lambda>w.
     and_then (tw_enqueue_outbox repo w platform chat_id reply_token body) (\<lambda>outbox_id.
     ret (with_outbox platform chat_id body reply_token (Some (tw_request_id w))
       \<lparr>od_outbox_id = outbox_id, od_trace_id = tw_trace_id w, od_request_id = tw_request_id w\<rparr>)))"

text \<open>The message goes out with an outbox entry, or plain when none can be made.\<close>

definition send_scheduled ::
  "'t trace_repo \<Rightarrow> due_job \<Rightarrow> string \<Rightarrow> string \<Rightarrow> ('s, 't) scheduler \<Rightarrow> ('s, 't) scheduler" where
  "send_scheduled repo job cli_name body s =
     (case enqueue_scheduler_outbox repo (dj_job_id job) (dj_platform job) (dj_chat_id job) cli_name
             body None (sd_trace s) of
        (r, c) \<Rightarrow>
          (let m = (case r of Inr m \<Rightarrow> m | Inl _ \<Rightarrow> plain (dj_platform job) (dj_chat_id job) body) in
           s\<lparr>sd_trace := c,
             sd_outbound := (if sd_outbound_open s then sd_outbound s @ [m] else sd_outbound s)\<rparr>))"

definition delete_job :: "'s cron_store \<Rightarrow> due_job \<Rightarrow> ('s, 't) scheduler \<Rightarrow> ('s, 't) scheduler" where
  "delete_job st job s = s\<lparr>sd_store := snd (cn_delete_job st (dj_job_id job) (sd_store s))\<rparr>"

definition mark_run :: "'s cron_store \<Rightarrow> due_job \<Rightarrow> ('s, 't) scheduler \<Rightarrow> ('s, 't) scheduler" where
  "mark_run st job s =
     s\<lparr>sd_store := snd (cn_mark_run st (dj_job_id job) (dj_cron_expr job) (sd_store s))\<rparr>"

definition turn_message :: "due_job \<Rightarrow> string \<Rightarrow> string \<Rightarrow> string \<Rightarrow> inbound_message" where
  "turn_message job platform user_id uuid =
     \<lparr>im_platform = platform, im_chat_id = dj_chat_id job, im_user_id = user_id,
      im_text = dj_message job, im_attachments = [],
      im_msg_id = ''cron-'' @ dj_job_id job @ ''-'' @ uuid, im_chat_type = DirectMessage,
      im_reply_token = None, im_route_override = None, im_feedback = None\<rparr>"

definition answer_job ::
  "'s cron_store \<Rightarrow> 't trace_repo \<Rightarrow> due_job \<Rightarrow> string \<Rightarrow> ('s, 't) scheduler \<Rightarrow> ('s, 't) scheduler" where
  "answer_job st repo job answer s =
     (let polling = contains (dj_message job) POLL_UNTIL_RESULT_MARKER;
          (response, silent) = parse_poll_result answer;
          completed = dj_cron_expr job = ''once'' \<or> dj_cron_expr job = ''once_exec'' \<or> polling \<and> \<not> silent;
          s' = (if silent then s
                else send_scheduled repo job ''scheduled''
                  (TASK_PREFIX @ take 8 (dj_job_id job) @ ''`**'' @ [CHR 0x0A, CHR 0x0A] @ response) s) in
      if completed then delete_job st job s' else mark_run st job s')"

definition run_job ::
  "'s cron_store \<Rightarrow> 't trace_repo \<Rightarrow>
   (inbound_message \<Rightarrow> ('s, 't) scheduler \<Rightarrow> turn_answer \<times> ('s, 't) scheduler) \<Rightarrow>
   due_job \<Rightarrow> ('s, 't) scheduler \<Rightarrow> ('s, 't) scheduler" where
  "run_job st repo agent job s =
     (case resolve_job_user_id st (dj_job_id job) s of
        (user_id, s1) \<Rightarrow>
          if dj_cron_expr job = ''once'' then
            delete_job st job (send_scheduled repo job ''reminder'' (REMINDER_PREFIX @ dj_message job) s1)
          else
            (case platform_name (dj_platform job) of
               None \<Rightarrow> s1
             | Some platform \<Rightarrow>
                 (case (new_uuid :: ('t, string, string) op) (sd_trace s1) of
                    (Inl _, c) \<Rightarrow> s1
                  | (Inr uuid, c) \<Rightarrow>
                      (case agent (turn_message job platform user_id uuid) (s1\<lparr>sd_trace := c\<rparr>) of
                         (TurnAnswer (Some response), s2) \<Rightarrow> answer_job st repo job (om_text response) s2
                       | (_, s2) \<Rightarrow> s2))))"

text \<open>A tick: the due jobs, one after the other.\<close>

definition scheduler_tick ::
  "'s cron_store \<Rightarrow> 't trace_repo \<Rightarrow>
   (inbound_message \<Rightarrow> ('s, 't) scheduler \<Rightarrow> turn_answer \<times> ('s, 't) scheduler) \<Rightarrow>
   ('s, 't) scheduler \<Rightarrow> ('s, 't) scheduler" where
  "scheduler_tick st repo agent s =
     (case cn_get_due_jobs st (sd_store s) of
        (Inl _, c) \<Rightarrow> s\<lparr>sd_store := c\<rparr>
      | (Inr jobs, c) \<Rightarrow> fold (run_job st repo agent) jobs (s\<lparr>sd_store := c\<rparr>))"

end
