(* ===== verification/Scheduler_Props.thy ===== *)
theory Scheduler_Props
  imports Scheduler Dispatch_Props Store_Values
begin

text \<open>
  What is proved of the scheduler on the SQLite stores: what a round of a job sends and what becomes
  of the job, and what it leaves behind when a turn answers through the outbox.
\<close>

section \<open>The stores under the scheduler\<close>

lemma user_id_run:
  "quiet (sd_store s) \<Longrightarrow> \<exists>u. resolve_job_user_id (sqlite_cron_store fmt tz) j s =
     (u, s\<lparr>sd_store := (sd_store s)\<lparr>tick := Suc (tick (sd_store s))\<rparr>\<rparr>)"
  by (simp add: resolve_job_user_id_def sqlite_cron_store_def sqlite_get_cron_job_user_id_def sqlite_run)

lemma send_scheduled_run:
  "sd_outbound_open s \<Longrightarrow>
   sd_store (send_scheduled repo job cli body s) = sd_store s \<and>
   map om_text (sd_outbound (send_scheduled repo job cli body s)) = map om_text (sd_outbound s) @ [body] \<and>
   sd_outbound_open (send_scheduled repo job cli body s)"
  by (auto simp: send_scheduled_def enqueue_scheduler_outbox_def and_then_def ret_def plain_def
      with_outbox_def Let_def split: prod.split sum.split)

lemma delete_job_run:
  "quiet (sd_store s) \<Longrightarrow>
   gw_jobs (tables (sd_store (delete_job (sqlite_cron_store fmt tz) job s))) =
     filter (\<lambda>r. jo_job_id r \<noteq> dj_job_id job) (gw_jobs (tables (sd_store s))) \<and>
   sd_outbound (delete_job (sqlite_cron_store fmt tz) job s) = sd_outbound s"
  by (simp add: delete_job_def sqlite_cron_store_def sqlite_delete_cron_job_def sqlite_run delete_where_def)

lemma mark_run_run:
  "quiet (sd_store s) \<Longrightarrow>
   (\<exists>stamp now. gw_jobs (tables (sd_store (mark_run (sqlite_cron_store fmt tz) job s))) =
     update_where (\<lambda>r. jo_job_id r = dj_job_id job)
       (\<lambda>r. r\<lparr>jo_last_run := Some stamp,
              jo_next_run := Some (fmt (next_cron_run now (dj_cron_expr job) tz))\<rparr>)
       (gw_jobs (tables (sd_store s)))) \<and>
   sd_outbound (mark_run (sqlite_cron_store fmt tz) job s) = sd_outbound s"
  by (auto simp: mark_run_def sqlite_cron_store_def mark_job_run_run)

lemma answer_job_run:
  assumes "quiet (sd_store s)" and "sd_outbound_open s"
    and "parse_poll_result answer = (response, silent)"
    and "completed = (dj_cron_expr job = ''once'' \<or> dj_cron_expr job = ''once_exec'' \<or>
      contains (dj_message job) POLL_UNTIL_RESULT_MARKER \<and> \<not> silent)"
  shows "let s' = answer_job (sqlite_cron_store fmt tz) repo job answer s in
    map om_text (sd_outbound s') = map om_text (sd_outbound s) @ (if silent then [] else
      [TASK_PREFIX @ take 8 (dj_job_id job) @ ''`**'' @ [CHR 0x0A, CHR 0x0A] @ response]) \<and>
    (if completed
     then gw_jobs (tables (sd_store s')) = filter (\<lambda>r. jo_job_id r \<noteq> dj_job_id job) (gw_jobs (tables (sd_store s)))
     else \<exists>stamp now. gw_jobs (tables (sd_store s')) =
       update_where (\<lambda>r. jo_job_id r = dj_job_id job)
         (\<lambda>r. r\<lparr>jo_last_run := Some stamp,
                jo_next_run := Some (fmt (next_cron_run now (dj_cron_expr job) tz))\<rparr>)
         (gw_jobs (tables (sd_store s))))"
proof -
  let ?st = "sqlite_cron_store fmt tz"
  let ?s1 = "if silent then s else send_scheduled repo job ''scheduled''
      (TASK_PREFIX @ take 8 (dj_job_id job) @ ''`**'' @ [CHR 0x0A, CHR 0x0A] @ response) s"
  have 1: "sd_store ?s1 = sd_store s" "map om_text (sd_outbound ?s1) = map om_text (sd_outbound s) @
      (if silent then [] else
        [TASK_PREFIX @ take 8 (dj_job_id job) @ ''`**'' @ [CHR 0x0A, CHR 0x0A] @ response])"
    using send_scheduled_run [OF assms(2)] by simp_all
  have run: "answer_job ?st repo job answer s = (if completed then delete_job ?st job ?s1 else mark_run ?st job ?s1)"
    using assms(3,4) by (simp add: answer_job_def Let_def)
  have "quiet (sd_store ?s1)" using 1(1) assms(1) by simp
  note 2 = delete_job_run [OF this, of fmt tz job] mark_run_run [OF this, of fmt tz job]
  show ?thesis unfolding run Let_def using 1 2 by (cases completed) simp_all
qed

section \<open>A round of a job\<close>

text \<open>
  A round of a job that is no mere reminder. When the turn answers, exactly its answer
  goes out under the job's heading, unless it says to stay silent, and the job is deleted when it
  was to run once or polled and got a result, and otherwise is due at the next run of its
  expression. When the turn gives no answer nothing is sent and the job stays as it was, so it is
  due again at the next tick. Other jobs are not touched.
\<close>

theorem job_round:
  assumes "quiet (sd_store s)" and "sd_outbound_open s"
    and "dj_cron_expr job \<noteq> ''once''" and "platform_name (dj_platform job) \<noteq> None"
    and "\<And>m s0. agent m s0 = (ans, after_turn s0)"
    and "\<And>s0. quiet (sd_store s0) \<Longrightarrow> quiet (sd_store (after_turn s0)) \<and>
      gw_jobs (tables (sd_store (after_turn s0))) = gw_jobs (tables (sd_store s0)) \<and>
      sd_outbound (after_turn s0) = sd_outbound s0 \<and> sd_outbound_open (after_turn s0) = sd_outbound_open s0"
  shows "let s' = run_job (sqlite_cron_store fmt tz) repo agent job s;
      sent = map om_text (sd_outbound s'); jobs = gw_jobs (tables (sd_store s')) in
    case ans of
      TurnAnswer (Some m) \<Rightarrow>
        (let (response, silent) = parse_poll_result (om_text m) in
         sent = map om_text (sd_outbound s) @ (if silent then [] else
           [TASK_PREFIX @ take 8 (dj_job_id job) @ ''`**'' @ [CHR 0x0A, CHR 0x0A] @ response]) \<and>
         (if dj_cron_expr job = ''once_exec'' \<or> contains (dj_message job) POLL_UNTIL_RESULT_MARKER \<and> \<not> silent
          then jobs = filter (\<lambda>r. jo_job_id r \<noteq> dj_job_id job) (gw_jobs (tables (sd_store s)))
          else \<exists>stamp now. jobs = update_where (\<lambda>r. jo_job_id r = dj_job_id job)
            (\<lambda>r. r\<lparr>jo_last_run := Some stamp,
                   jo_next_run := Some (fmt (next_cron_run now (dj_cron_expr job) tz))\<rparr>)
            (gw_jobs (tables (sd_store s)))))
    | _ \<Rightarrow> sent = map om_text (sd_outbound s) \<and> jobs = gw_jobs (tables (sd_store s))"
proof -
  obtain u where u: "resolve_job_user_id (sqlite_cron_store fmt tz) (dj_job_id job) s =
      (u, s\<lparr>sd_store := (sd_store s)\<lparr>tick := Suc (tick (sd_store s))\<rparr>\<rparr>)"
    using user_id_run [OF assms(1)] by blast
  obtain p where p: "platform_name (dj_platform job) = Some p" using assms(4) by auto
  obtain uuid c where c: "(new_uuid :: ('b, string, string) op) (sd_trace s) = (Inr uuid, c)"
    by (simp add: new_uuid_def)
  define s1 where "s1 = s\<lparr>sd_store := (sd_store s)\<lparr>tick := Suc (tick (sd_store s))\<rparr>, sd_trace := c\<rparr>"
  define s2 where "s2 = after_turn s1"
  have s1: "quiet (sd_store s1)" "gw_jobs (tables (sd_store s1)) = gw_jobs (tables (sd_store s))"
    "sd_outbound s1 = sd_outbound s" "sd_outbound_open s1"
    using assms(1,2) by (simp_all add: s1_def)
  have s2: "quiet (sd_store s2)" "gw_jobs (tables (sd_store s2)) = gw_jobs (tables (sd_store s))"
    "sd_outbound s2 = sd_outbound s" "sd_outbound_open s2"
    using assms(6) [OF s1(1)] s1 by (simp_all add: s2_def)
  have run: "run_job (sqlite_cron_store fmt tz) repo agent job s =
      (case ans of TurnAnswer (Some m) \<Rightarrow> answer_job (sqlite_cron_store fmt tz) repo job (om_text m) s2 | _ \<Rightarrow> s2)"
    using u p c assms(3,5)
    by (simp add: run_job_def s2_def s1_def split: turn_answer.split option.split)
  show ?thesis
  proof (cases "\<exists>m. ans = TurnAnswer (Some m)")
    case True
    then obtain m where m: "ans = TurnAnswer (Some m)" by blast
    obtain response silent where r: "parse_poll_result (om_text m) = (response, silent)" by fastforce
    from answer_job_run [where fmt = fmt and tz = tz and repo = repo and job = job, OF s2(1,4) r refl] assms(3) run m r s2(2,3) show ?thesis
      by (auto simp: Let_def split: if_splits)
  next
    case False
    with run s2 show ?thesis by (auto simp: Let_def split: turn_answer.split option.split)
  qed
qed

definition demo_due :: due_job where
  "demo_due = \<lparr>dj_job_id = ''j'', dj_platform = ''wecom'', dj_chat_id = ''c'', dj_message = ''check'',
     dj_cron_expr = ''*/5 * * * *''\<rparr>"

definition demo_scheduler :: "(int gw_db, trace_db) scheduler" where
  "demo_scheduler = \<lparr>sd_store = calm demo_gw, sd_trace = calm demo_db, sd_outbound = [],
     sd_outbound_open = True\<rparr>"

lemma job_round_witness:
  "map om_text (sd_outbound (run_job (sqlite_cron_store (\<lambda>_. ''z'') 8) (sqlite_repo (\<lambda>_. Inr ''{}'') (\<lambda>_. None))
      (\<lambda>_ s. (TurnAnswer None, s)) demo_due demo_scheduler)) = []"
  using job_round [where s = demo_scheduler and job = demo_due and ans = "TurnAnswer None" and
      agent = "\<lambda>_ s. (TurnAnswer None, s)" and after_turn = "\<lambda>s. s" and fmt = "\<lambda>_. ''z''" and tz = 8 and
      repo = "sqlite_repo (\<lambda>_. Inr ''{}'') (\<lambda>_. None)"]
  by (simp add: demo_scheduler_def demo_due_def platform_name_def Let_def)

section \<open>What a failed turn leaves\<close>

text \<open>Entries once made keep their state when another is added, and a new one has an identifier of
  its own.\<close>

lemma enqueue_outbox_run:
  assumes "fine c" and "tw_enqueue_outbox (traces ser de) w p ch tok body c = (r, c')"
  shows "fine c' \<and>
    (\<forall>oid v. ab_outbox (trace_view (tables c)) oid = Some v \<longrightarrow> ab_outbox (trace_view (tables c')) oid = Some v) \<and>
    (\<forall>oid. r = Inr oid \<longrightarrow> ab_outbox (trace_view (tables c)) oid = None \<and>
       ab_outbox (trace_view (tables c')) oid = Some (ObPending, 0))"
proof -
  obtain oid c1 where u: "new_uuid c = (Inr oid :: string + string, c1)" "fine c1" "tables c1 = tables c"
    using assms(1) by (auto simp: new_uuid_def fine_def)
  let ?b = "OutboxRecord_pending oid (tw_request_id w) (tw_trace_id w) p ch tok body"
  have id: "ob_outbox_id ?b = oid" by (simp add: OutboxRecord_pending_def)
  have "refines trace_ok trace_view (tr_enqueue_outbox (traces ser de) ?b) (spec_enqueue_outbox oid)"
    using sqlite_store.enqueue_refines [of ?b ser de] by (simp add: OutboxRecord_pending_def)
  note 1 = refined_run [OF this u(2)]
  obtain r2 c2 where 2: "tr_enqueue_outbox (traces ser de) ?b c1 = (r2, c2)" by fastforce
  have f2: "fine c2" using 1(1) 2 by simp
  have spec: "spec_enqueue_outbox oid (trace_view (tables c)) = (ok_of r2, trace_view (tables c2))"
    using 1(2) 2 u(3) by simp
  let ?p = "JObj [(''outbox_id'', JStr oid), (''platform'', JStr (ob_platform ?b)),
      (''chat_id'', JStr (ob_chat_id ?b)), (''body_len'', JNum (int (length (ob_body ?b))))]"
  obtain r3 c3 where 3: "tw_append (traces ser de) w OutboxQueued ?p c2 = (r3, c3)" by fastforce
  have f3: "fine c3" "ab_outbox (trace_view (tables c3)) = ab_outbox (trace_view (tables c2))"
    using append_status(1) [OF f2, of ser de w OutboxQueued ?p] 3
      refined_run(2) [OF sqlite_store.tw_append_refines [of ser de w OutboxQueued ?p] f2]
    by (auto simp: spec_append_def dest: sym)
  have res: "(r, c') = (case r2 of Inl e \<Rightarrow> (Inl e, c2)
      | Inr _ \<Rightarrow> (case r3 of Inl e \<Rightarrow> (Inl e, c3) | Inr _ \<Rightarrow> (Inr oid, c3)))"
    using assms(2) u(1) 2 3 id
    by (cases r2; cases r3) (simp_all add: tw_enqueue_outbox_def and_then_def Let_def ret_def)
  show ?thesis
  proof (cases r2)
    case (Inl e)
    with res spec f2 show ?thesis by (auto simp: spec_enqueue_outbox_def split: if_splits dest: sym)
  next
    case (Inr x)
    with spec have "ab_outbox (trace_view (tables c)) oid = None"
      by (cases "ab_outbox (trace_view (tables c)) oid") (auto simp: spec_enqueue_outbox_def)
    moreover from spec Inr have "ab_outbox (trace_view (tables c2)) =
        (ab_outbox (trace_view (tables c)))(oid \<mapsto> (ObPending, 0))"
      by (auto simp: spec_enqueue_outbox_def split: if_splits dest!: sym [where t = "trace_view (tables c2)"])
    ultimately show ?thesis using res Inr f3 by (cases r3) auto
  qed
qed

lemma begin_trace_run:
  assumes "fine c" and "begin_scheduler_trace (traces ser de) job p ch cli body c = (r, c')"
  shows "fine c' \<and> ab_outbox (trace_view (tables c')) = ab_outbox (trace_view (tables c))"
proof -
  let ?c = "c\<lparr>tick := Suc (Suc (Suc (tick c)))\<rparr>"
  have f: "fine ?c" using assms(1) by (simp add: fine_def)
  obtain q where "tw_begin (traces ser de) q ?c = (r, c')"
    using assms(2) by (auto simp: begin_scheduler_trace_def and_then_def new_uuid_def utc_now_def)
  with refined_run [OF sqlite_store.tw_begin_refines [of ser de q] f] show ?thesis
    by (auto simp: spec_begin_def abs_then_def spec_create_request_def spec_append_def split: if_splits
        dest!: sym [where t = "trace_view (tables c')"])
qed

lemma send_scheduled_entries:
  assumes "fine (sd_trace s)"
    and "ab_outbox (trace_view (tables (sd_trace s))) oid = Some v"
    and "s' = send_scheduled (traces ser de) job cli body s"
  shows "ab_outbox (trace_view (tables (sd_trace s'))) oid = Some v \<and>
    (\<exists>ms. sd_outbound s' = sd_outbound s @ ms \<and>
       (\<forall>m \<in> set ms. \<forall>d. om_outbox m = Some d \<longrightarrow> od_outbox_id d \<noteq> oid))"
proof -
  obtain r1 c1 where 1: "begin_scheduler_trace (traces ser de) (dj_job_id job) (dj_platform job)
      (dj_chat_id job) cli body (sd_trace s) = (r1, c1)" by fastforce
  note b = begin_trace_run [OF assms(1) 1]
  show ?thesis
  proof (cases r1)
    case (Inl e)
    with 1 b assms(2,3) show ?thesis
      by (auto simp: send_scheduled_def enqueue_scheduler_outbox_def and_then_def plain_def)
  next
    case (Inr w)
    obtain r2 c2 where 2: "tw_enqueue_outbox (traces ser de) w (dj_platform job) (dj_chat_id job) None body c1 = (r2, c2)"
      by fastforce
    have e: "ab_outbox (trace_view (tables c2)) oid = Some v"
      "\<And>oid2. r2 = Inr oid2 \<Longrightarrow> oid2 \<noteq> oid"
      using enqueue_outbox_run [OF _ 2] b assms(2) by ((cases v; auto)+)
    with 1 2 Inr assms(3) show ?thesis
      by (cases r2) (auto simp: send_scheduled_def enqueue_scheduler_outbox_def and_then_def plain_def
          ret_def with_outbox_def)
  qed
qed

text \<open>
  A scheduled turn that fails answers through the outbox like any other, but the
  scheduler takes only the text of the answer and sends it in a message of its own. The first
  entry is not among what is sent and stays pending, so the next start-up replays it and the user
  gets the text a second time.
\<close>

theorem failed_turn_entry_left:
  assumes "quiet (sd_trace s)" and "trace_ok (tables (sd_trace s))"
    and "dj_cron_expr job \<noteq> ''once''" and "platform_name (dj_platform job) \<noteq> None"
    and "repo = sqlite_repo (\<lambda>j. Inr (ser j)) de"
    and "\<And>m s0. agent m s0 = (case outbound_response (Some repo) (Some w) p ch tok err (sd_trace s0) of
      (answer, c) \<Rightarrow> (TurnAnswer (Some answer), s0\<lparr>sd_trace := c\<rparr>))"
    and "tw_enqueue_outbox repo w p ch tok err ((sd_trace s)\<lparr>tick := Suc (tick (sd_trace s))\<rparr>) = (Inr oid, c')"
  shows "let s' = run_job st repo agent job s in
    ab_outbox (trace_view (tables (sd_trace s'))) oid = Some (ObPending, 0) \<and>
    (\<exists>ms. sd_outbound s' = sd_outbound s @ ms \<and>
       (\<forall>m \<in> set ms. \<forall>d. om_outbox m = Some d \<longrightarrow> od_outbox_id d \<noteq> oid))"
proof -
  let ?c = "(sd_trace s)\<lparr>tick := Suc (tick (sd_trace s))\<rparr>"
  have f: "fine ?c" using assms(1,2) by (simp add: fine_def)
  have e: "fine c'" "ab_outbox (trace_view (tables c')) oid = Some (ObPending, 0)"
    using enqueue_outbox_run [OF f, of ser de w p ch tok err "Inr oid" c'] assms(5,7) by simp_all
  obtain u s1 where s1: "resolve_job_user_id st (dj_job_id job) s = (u, s1)" by fastforce
  then have u: "resolve_job_user_id st (dj_job_id job) s = (u, s1)"
    "sd_trace s1 = sd_trace s" "sd_outbound s1 = sd_outbound s"
    by (auto simp: resolve_job_user_id_def split: prod.splits)
  obtain pl where pl: "platform_name (dj_platform job) = Some pl" using assms(4) by auto
  let ?s2 = "s1\<lparr>sd_trace := c'\<rparr>"
  have run: "run_job st repo agent job s = answer_job st repo job err ?s2"
    using u pl assms(3,6,7)
    by (simp add: run_job_def new_uuid_def outbound_response_def with_outbox_def)
  obtain response silent where r: "parse_poll_result err = (response, silent)" by fastforce
  define s3 where "s3 = (if silent then ?s2 else send_scheduled repo job ''scheduled''
      (TASK_PREFIX @ take 8 (dj_job_id job) @ ''`**'' @ [CHR 0x0A, CHR 0x0A] @ response) ?s2)"
  have s3: "ab_outbox (trace_view (tables (sd_trace s3))) oid = Some (ObPending, 0)"
    "\<exists>ms. sd_outbound s3 = sd_outbound s @ ms \<and>
       (\<forall>m \<in> set ms. \<forall>d. om_outbox m = Some d \<longrightarrow> od_outbox_id d \<noteq> oid)"
    using send_scheduled_entries [of ?s2 oid "(ObPending, 0)" s3 ser de job "''scheduled''"
        "TASK_PREFIX @ take 8 (dj_job_id job) @ ''`**'' @ [CHR 0x0A, CHR 0x0A] @ response"] e u(3) assms(5)
    by (auto simp: s3_def)
  have "sd_trace (answer_job st repo job err ?s2) = sd_trace s3 \<and>
      sd_outbound (answer_job st repo job err ?s2) = sd_outbound s3"
    using r by (simp add: answer_job_def s3_def Let_def delete_job_def mark_run_def)
  with s3 show ?thesis unfolding run Let_def by simp
qed

lemma demo_enqueue:
  "\<exists>oid c1. tw_enqueue_outbox (sqlite_repo (\<lambda>_. Inr ''{}'') (\<lambda>_. None))
      \<lparr>tw_trace_id = ''ta'', tw_request_id = ''a''\<rparr> ''wecom'' ''c'' None ''down''
      (calm demo_db\<lparr>tick := Suc 0\<rparr>) = (Inr oid, c1)"
  by (simp add: tw_enqueue_outbox_def tw_append_def sqlite_repo_def sqlite_enqueue_outbox_def
      sqlite_append_event_def and_then_def map_err_def stmt_quiet ret_def new_uuid_def Let_def
      insert_outbox_def insert_row_def insert_event_def OutboxRecord_pending_def calm_env_def
      demo_db_def demo_outbox_def)

lemma failed_turn_entry_left_witness:
  "\<exists>oid. ab_outbox (trace_view (tables (sd_trace (run_job (sqlite_cron_store (\<lambda>_. ''z'') 8)
      (sqlite_repo (\<lambda>_. Inr ''{}'') (\<lambda>_. None))
      (\<lambda>m s0. case outbound_response (Some (sqlite_repo (\<lambda>_. Inr ''{}'') (\<lambda>_. None)))
           (Some \<lparr>tw_trace_id = ''ta'', tw_request_id = ''a''\<rparr>) ''wecom'' ''c'' None ''down'' (sd_trace s0) of
         (answer, c) \<Rightarrow> (TurnAnswer (Some answer), s0\<lparr>sd_trace := c\<rparr>))
      demo_due demo_scheduler)))) oid = Some (ObPending, 0)"
proof -
  obtain oid c1 where e: "tw_enqueue_outbox (sqlite_repo (\<lambda>_. Inr ''{}'') (\<lambda>_. None))
      \<lparr>tw_trace_id = ''ta'', tw_request_id = ''a''\<rparr> ''wecom'' ''c'' None ''down''
      (calm demo_db\<lparr>tick := Suc 0\<rparr>) = (Inr oid, c1)" using demo_enqueue by blast
  show ?thesis
    using failed_turn_entry_left [where s = demo_scheduler and job = demo_due and
      repo = "sqlite_repo (\<lambda>_. Inr ''{}'') (\<lambda>_. None)" and ser = "\<lambda>_. ''{}''" and de = "\<lambda>_. None" and
      w = "\<lparr>tw_trace_id = ''ta'', tw_request_id = ''a''\<rparr>" and p = "''wecom''" and ch = "''c''" and
      tok = None and err = "''down''" and oid = oid and c' = c1 and
      st = "sqlite_cron_store (\<lambda>_. ''z'') 8" and
      agent = "\<lambda>m s0. case outbound_response (Some (sqlite_repo (\<lambda>_. Inr ''{}'') (\<lambda>_. None)))
           (Some \<lparr>tw_trace_id = ''ta'', tw_request_id = ''a''\<rparr>) ''wecom'' ''c'' None ''down'' (sd_trace s0) of
         (answer, c) \<Rightarrow> (TurnAnswer (Some answer), s0\<lparr>sd_trace := c\<rparr>)"] e demo_ok
    by (auto simp: demo_scheduler_def demo_due_def platform_name_def Let_def)
qed

end
