(* ===== verification/Json.thy ===== *)
theory Json
  imports Trace_Types
begin

text \<open>
  Reading and building JSON values the way \<open>serde_json::Value\<close> does: indexing with a missing key or
  a value that is no object gives null, the accessors give nothing on another kind of value, and
  an object keeps its entries sorted by key. Also the two shapes of a \<open>Result\<close> computation
  the parsers of the CLI's output use.
\<close>

section \<open>Values\<close>

definition jget :: "json \<Rightarrow> string \<Rightarrow> json option" where
  "jget v k = (case v of JObj kvs \<Rightarrow> map_of kvs k | _ \<Rightarrow> None)"

definition jfield :: "json \<Rightarrow> string \<Rightarrow> json" where
  "jfield v k = (case jget v k of Some x \<Rightarrow> x | None \<Rightarrow> JNull)"

fun as_str :: "json \<Rightarrow> string option" where
  "as_str (JStr s) = Some s"
| "as_str _ = None"

fun as_bool :: "json \<Rightarrow> bool option" where
  "as_bool (JBool b) = Some b"
| "as_bool _ = None"

fun as_array :: "json \<Rightarrow> json list option" where
  "as_array (JArr vs) = Some vs"
| "as_array _ = None"

fun as_object :: "json \<Rightarrow> (string \<times> json) list option" where
  "as_object (JObj kvs) = Some kvs"
| "as_object _ = None"

fun as_u64 :: "json \<Rightarrow> nat option" where
  "as_u64 (JNum n) = (if 0 \<le> n \<and> n < 2 ^ 64 then Some (nat n) else None)"
| "as_u64 _ = None"

fun as_i64 :: "json \<Rightarrow> int option" where
  "as_i64 (JNum n) = (if - (2 ^ 63) \<le> n \<and> n < 2 ^ 63 then Some n else None)"
| "as_i64 _ = None"

definition is_number :: "json \<Rightarrow> bool" where
  "is_number v = (case v of JNum _ \<Rightarrow> True | JFloat _ \<Rightarrow> True | _ \<Rightarrow> False)"

definition is_scalar :: "json \<Rightarrow> bool" where
  "is_scalar v = (case v of JBool _ \<Rightarrow> True | JNum _ \<Rightarrow> True | JFloat _ \<Rightarrow> True | JStr _ \<Rightarrow> True | _ \<Rightarrow> False)"

fun obj_insert :: "string \<Rightarrow> json \<Rightarrow> (string \<times> json) list \<Rightarrow> (string \<times> json) list" where
  "obj_insert k v [] = [(k, v)]"
| "obj_insert k v ((k', v') # kvs) =
     (if k = k' then (k, v) # kvs
      else if k < k' then (k, v) # (k', v') # kvs
      else (k', v') # obj_insert k v kvs)"

definition obj_of :: "(string \<times> json) list \<Rightarrow> json" where
  "obj_of kvs = JObj (fold (\<lambda>(k, v). obj_insert k v) kvs [])"

lemma map_of_obj_insert: "map_of (obj_insert k v kvs) = (map_of kvs)(k \<mapsto> v)"
  by (induction k v kvs rule: obj_insert.induct) (auto simp: fun_eq_iff)

lemma jget_obj_insert: "jget (JObj (obj_insert k v kvs)) k' = (if k' = k then Some v else jget (JObj kvs) k')"
  by (simp add: jget_def map_of_obj_insert)

text \<open>The entries of \<open>v\<close> under the names \<open>names\<close> that satisfy \<open>keep\<close>, inserted one by one.\<close>

definition keep_fields ::
  "(json \<Rightarrow> bool) \<Rightarrow> string list \<Rightarrow> json \<Rightarrow> (string \<times> json) list \<Rightarrow> (string \<times> json) list" where
  "keep_fields keep names v =
     fold (\<lambda>f acc. case jget v f of
        Some x \<Rightarrow> if keep x then obj_insert f x acc else acc
      | None \<Rightarrow> acc) names"

lemma map_of_keep_fields:
  "map_of (keep_fields keep names v acc) f =
     (if f \<in> set names \<and> (\<exists>x. jget v f = Some x \<and> keep x) then jget v f else map_of acc f)"
  unfolding keep_fields_def
  by (induction names arbitrary: acc) (auto simp: map_of_obj_insert split: option.split)

section \<open>Results\<close>

definition bind_ok :: "'e + 'a \<Rightarrow> ('a \<Rightarrow> 'e + 'b) \<Rightarrow> 'e + 'b" where
  "bind_ok m k = (case m of Inl e \<Rightarrow> Inl e | Inr a \<Rightarrow> k a)"

definition ok_or :: "'e \<Rightarrow> 'a option \<Rightarrow> 'e + 'a" where
  "ok_or e x = (case x of Some a \<Rightarrow> Inr a | None \<Rightarrow> Inl e)"

fun all_ok :: "('e + 'a) list \<Rightarrow> 'e + 'a list" where
  "all_ok [] = Inr []"
| "all_ok (m # ms) = bind_ok m (\<lambda>a. bind_ok (all_ok ms) (\<lambda>as. Inr (a # as)))"

fun first_some :: "('a \<Rightarrow> 'b option) \<Rightarrow> 'a list \<Rightarrow> 'b option" where
  "first_some f [] = None"
| "first_some f (x # xs) = (case f x of Some y \<Rightarrow> Some y | None \<Rightarrow> first_some f xs)"

lemma bind_ok_simps [simp]: "bind_ok (Inl e) k = Inl e" "bind_ok (Inr a) k = k a"
  by (simp_all add: bind_ok_def)

lemma bind_ok_Inr: "bind_ok m k = Inr b \<longleftrightarrow> (\<exists>a. m = Inr a \<and> k a = Inr b)"
  by (cases m) auto

lemma ok_or_Inr: "ok_or e x = Inr a \<longleftrightarrow> x = Some a"
  by (cases x) (auto simp: ok_or_def)

lemma first_some_in: "first_some f xs = Some y \<Longrightarrow> \<exists>x \<in> set xs. f x = Some y"
  by (induction xs) (auto split: option.splits)

end
