(* ===== verification/Cli_Result.thy ===== *)
theory Cli_Result
  imports Json
begin

text \<open>
  What a CLI printed, read as the result of a turn (\<open>cli_bridge.rs\<close>): the envelope of astra, the
  result frame of Claude, the event lines of Copilot and Codex, and plain text.

  \<open>ser\<close> and \<open>de\<close> are \<open>serde_json\<close>'s \<open>to_string\<close> and \<open>from_str\<close>. An \<open>f64\<close> is a value of a type
  \<open>'f\<close> with the operations the code uses, a record of its own. Counters wrap at their width as
  in a release build.
\<close>

section \<open>Results\<close>

record 'f float_ops =
  fl_of :: "json \<Rightarrow> 'f option"
  fl_sum :: "'f list \<Rightarrow> 'f"
  fl_le :: "'f \<Rightarrow> 'f \<Rightarrow> bool"
  fl_sub :: "'f \<Rightarrow> 'f \<Rightarrow> 'f"
  fl_zero :: 'f

record provider_error =
  pe_kind :: string
  pe_status :: "nat option"
  pe_code :: "string option"
  pe_message :: string
  pe_request_id :: "string option"

record 'f cli_result =
  cr_stdout :: string
  cr_stderr :: string
  cr_exit_code :: int
  cr_success :: bool
  cr_error_kind :: "string option"
  cr_provider_error :: "provider_error option"
  cr_trace_id :: "string option"
  cr_request_id :: "string option"
  cr_run_id :: "string option"
  cr_session_id :: "string option"
  cr_text :: "string option"
  cr_tool_calls_count :: "nat option"
  cr_tools_used :: "string list"
  cr_tokens_prompt :: "nat option"
  cr_tokens_completion :: "nat option"
  cr_cached_input_tokens :: "nat option"
  cr_cache_creation_input_tokens :: "nat option"
  cr_cache_read_input_tokens :: "nat option"
  cr_reasoning_output_tokens :: "nat option"
  cr_total_tokens :: "nat option"
  cr_context_window :: "nat option"
  cr_max_output_tokens :: "nat option"
  cr_cost_usd :: "'f option"
  cr_raw_usage_json :: "string option"

definition default_error_kind :: "int \<Rightarrow> string option" where
  "default_error_kind exit_code = (if exit_code \<noteq> 0 then Some ''process_exit'' else None)"

text \<open>The part all readers of an exit code share: the rest of a result is empty.\<close>

definition exit_result :: "int \<Rightarrow> 'f cli_result" where
  "exit_result exit_code =
     \<lparr>cr_stdout = [], cr_stderr = [], cr_exit_code = exit_code, cr_success = (exit_code = 0),
      cr_error_kind = default_error_kind exit_code, cr_provider_error = None, cr_trace_id = None,
      cr_request_id = None, cr_run_id = None, cr_session_id = None, cr_text = None,
      cr_tool_calls_count = None, cr_tools_used = [], cr_tokens_prompt = None,
      cr_tokens_completion = None, cr_cached_input_tokens = None,
      cr_cache_creation_input_tokens = None, cr_cache_read_input_tokens = None,
      cr_reasoning_output_tokens = None, cr_total_tokens = None, cr_context_window = None,
      cr_max_output_tokens = None, cr_cost_usd = None, cr_raw_usage_json = None\<rparr>"

definition plain_result :: "string \<Rightarrow> int \<Rightarrow> 'f cli_result" where
  "plain_result out exit_code =
     (exit_result exit_code)\<lparr>cr_text := (if trim out = [] then None else Some (trim out))\<rparr>"

definition parse_generic_json ::
  "(string \<Rightarrow> json option) \<Rightarrow> string \<Rightarrow> int \<Rightarrow> string \<Rightarrow> string \<Rightarrow> 'f cli_result" where
  "parse_generic_json de out exit_code text_field session_field =
     (case de out of
        Some v \<Rightarrow> (exit_result exit_code)
          \<lparr>cr_session_id := as_str (jfield v session_field), cr_text := as_str (jfield v text_field)\<rparr>
      | None \<Rightarrow> plain_result out exit_code)"

text \<open>\<open>saturating_add\<close> over the counters that are there.\<close>

definition sat_add64 :: "nat \<Rightarrow> nat \<Rightarrow> nat" where
  "sat_add64 a b = min (a + b) (2 ^ 64 - 1)"

definition sum_tokens :: "nat option list \<Rightarrow> nat option" where
  "sum_tokens parts =
     (let vs = List.map_filter id parts in if vs = [] then None else Some (foldl sat_add64 0 vs))"

section \<open>The envelope of astra\<close>

definition ASTRA_REQUIRED_FIELDS :: "string list" where
  "ASTRA_REQUIRED_FIELDS =
     [''trace_id'', ''request_id'', ''run_id'', ''session_id'', ''text'', ''prompt_tokens'',
      ''completion_tokens'', ''tool_calls_count'', ''tools_used'', ''exit_code'', ''success'',
      ''error_kind'']"

definition quoted :: "string \<Rightarrow> string" where
  "quoted f = [CHR 0x60] @ f @ [CHR 0x60]"

definition required_nullable_string :: "json \<Rightarrow> string \<Rightarrow> string + string option" where
  "required_nullable_string v f =
     (case jfield v f of
        JNull \<Rightarrow> Inr None
      | JStr s \<Rightarrow> Inr (Some s)
      | _ \<Rightarrow> Inl (quoted f @ '' must be a string or null''))"

definition required_string :: "json \<Rightarrow> string \<Rightarrow> string + string" where
  "required_string v f = ok_or (quoted f @ '' must be a string'') (as_str (jfield v f))"

definition required_bool :: "json \<Rightarrow> string \<Rightarrow> string + bool" where
  "required_bool v f = ok_or (quoted f @ '' must be a boolean'') (as_bool (jfield v f))"

definition required_i32 :: "json \<Rightarrow> string \<Rightarrow> string + int option" where
  "required_i32 v f =
     bind_ok (ok_or (quoted f @ '' must be an integer'') (as_i64 (jfield v f))) (\<lambda>raw.
       if - (2 ^ 31) \<le> raw \<and> raw < 2 ^ 31 then Inr (Some raw)
       else Inl (quoted f @ '' is outside i32 range''))"

definition required_u64 :: "json \<Rightarrow> string \<Rightarrow> string + nat" where
  "required_u64 v f = ok_or (quoted f @ '' must be an unsigned integer'') (as_u64 (jfield v f))"

definition required_u32 :: "json \<Rightarrow> string \<Rightarrow> string + nat" where
  "required_u32 v f =
     bind_ok (required_u64 v f) (\<lambda>raw.
       if raw < 2 ^ 32 then Inr raw else Inl (quoted f @ '' is outside u32 range''))"

definition tool_names :: "json \<Rightarrow> string + string list" where
  "tool_names v =
     bind_ok (ok_or (quoted ''tools_used'' @ '' must be an array'') (as_array (jfield v ''tools_used'')))
       (\<lambda>tools. all_ok (map (\<lambda>t. ok_or (quoted ''tools_used'' @ '' entries must be strings'') (as_str t)) tools))"

definition envelope_verdict :: "bool \<Rightarrow> string option \<Rightarrow> int \<Rightarrow> string + unit" where
  "envelope_verdict ok error_kind exit_code =
     (if ok \<and> error_kind \<noteq> None
      then Inl (quoted ''error_kind'' @ '' must be null when '' @ quoted ''success'' @ '' is true'')
      else if \<not> ok \<and> error_kind = None
      then Inl (quoted ''error_kind'' @ '' must be a string when '' @ quoted ''success'' @ '' is false'')
      else if ok \<noteq> (exit_code = 0)
      then Inl (quoted ''success'' @ '' must match whether '' @ quoted ''exit_code'' @ '' is zero'')
      else Inr ())"

definition parse_strict_astra_envelope ::
  "(json \<Rightarrow> string) \<Rightarrow> 'f float_ops \<Rightarrow> json \<Rightarrow> int \<Rightarrow> string + 'f cli_result" where
  "parse_strict_astra_envelope ser fl v fallback_exit_code =
     bind_ok (ok_or ''envelope must be a JSON object'' (as_object v)) (\<lambda>obj.
     case find (\<lambda>f. map_of obj f = None) ASTRA_REQUIRED_FIELDS of
       Some f \<Rightarrow> Inl (''missing required field '' @ quoted f)
     | None \<Rightarrow>
     bind_ok (required_i32 v ''exit_code'') (\<lambda>code.
     let exit_code = (case code of Some c \<Rightarrow> c | None \<Rightarrow> fallback_exit_code) in
     bind_ok (tool_names v) (\<lambda>tools_used.
     bind_ok (required_bool v ''success'') (\<lambda>ok.
     bind_ok (required_nullable_string v ''error_kind'') (\<lambda>error_kind.
     bind_ok (envelope_verdict ok error_kind exit_code) (\<lambda>_.
     bind_ok (required_nullable_string v ''trace_id'') (\<lambda>trace_id.
     bind_ok (required_nullable_string v ''request_id'') (\<lambda>request_id.
     bind_ok (required_nullable_string v ''run_id'') (\<lambda>run_id.
     bind_ok (required_nullable_string v ''session_id'') (\<lambda>session_id.
     bind_ok (required_string v ''text'') (\<lambda>body.
     bind_ok (required_u32 v ''tool_calls_count'') (\<lambda>calls.
     bind_ok (required_u64 v ''prompt_tokens'') (\<lambda>prompt.
     bind_ok (required_u64 v ''completion_tokens'') (\<lambda>completion.
     Inr \<lparr>cr_stdout = [], cr_stderr = [], cr_exit_code = exit_code, cr_success = ok,
          cr_error_kind = error_kind, cr_provider_error = None, cr_trace_id = trace_id,
          cr_request_id = request_id, cr_run_id = run_id, cr_session_id = session_id,
          cr_text = Some body, cr_tool_calls_count = Some calls, cr_tools_used = tools_used,
          cr_tokens_prompt = Some prompt, cr_tokens_completion = Some completion,
          cr_cached_input_tokens = as_u64 (jfield v ''cached_input_tokens''),
          cr_cache_creation_input_tokens = as_u64 (jfield v ''cache_creation_input_tokens''),
          cr_cache_read_input_tokens = as_u64 (jfield v ''cache_read_input_tokens''),
          cr_reasoning_output_tokens = as_u64 (jfield v ''reasoning_output_tokens''),
          cr_total_tokens = as_u64 (jfield v ''total_tokens''),
          cr_context_window = as_u64 (jfield v ''context_window''),
          cr_max_output_tokens = as_u64 (jfield v ''max_output_tokens''),
          cr_cost_usd = fl_of fl (jfield v ''cost_usd''),
          cr_raw_usage_json = map_option ser (jget v ''usage'')\<rparr>))))))))))))))"

definition malformed_astra_result :: "int \<Rightarrow> string \<Rightarrow> 'f cli_result" where
  "malformed_astra_result exit_code reason =
     (exit_result (if exit_code = 0 then 1 else exit_code))
       \<lparr>cr_success := False, cr_error_kind := Some ''malformed_envelope'',
        cr_text := Some (''malformed Astra JSON envelope: '' @ reason)\<rparr>"

text \<open>\<open>from_str\<close> gives the reason of a syntax error, here \<open>de_err\<close>.\<close>

definition parse_astra_json ::
  "(json \<Rightarrow> string) \<Rightarrow> (string \<Rightarrow> json option) \<Rightarrow> (string \<Rightarrow> string) \<Rightarrow> 'f float_ops \<Rightarrow>
   string \<Rightarrow> int \<Rightarrow> 'f cli_result" where
  "parse_astra_json ser de de_err fl out exit_code =
     (case de out of
        Some v \<Rightarrow>
          (case parse_strict_astra_envelope ser fl v exit_code of
             Inr r \<Rightarrow> r
           | Inl reason \<Rightarrow> malformed_astra_result exit_code reason)
      | None \<Rightarrow> malformed_astra_result exit_code (''invalid JSON: '' @ de_err out))"

section \<open>The result frame of Claude\<close>

definition parse_api_error_payload :: "(string \<Rightarrow> json option) \<Rightarrow> string \<Rightarrow> json option" where
  "parse_api_error_payload de body =
     Option.bind (first_some (\<lambda>l. strip_prefix ''data:'' (trim l)) (lines_of body)) (\<lambda>d. de (trim d))"

definition api_error_status :: "json \<Rightarrow> string option \<Rightarrow> nat option" where
  "api_error_status v body =
     or_else (Option.bind (as_u64 (jfield v ''api_error_status'')) (\<lambda>n. if n < 2 ^ 16 then Some n else None))
    (or_else (Option.bind (as_str (jfield v ''api_error_status'')) parse_u16)
       (Option.bind body (\<lambda>t. Option.bind (strip_prefix ''API Error:'' t) (\<lambda>r.
          case split_whitespace r of [] \<Rightarrow> None | w # _ \<Rightarrow> parse_u16 w))))"

definition payload_str :: "json option \<Rightarrow> string \<Rightarrow> string option" where
  "payload_str payload f = Option.bind payload (\<lambda>p. as_str (jfield p f))"

definition detect_claude_provider_error ::
  "(string \<Rightarrow> json option) \<Rightarrow> json \<Rightarrow> string option \<Rightarrow> provider_error option" where
  "detect_claude_provider_error de v body =
     (let payload = Option.bind body (parse_api_error_payload de);
          status = api_error_status v body;
          code = or_else (payload_str payload ''code'') (as_str (jfield (jfield v ''error'') ''code''));
          payload_message =
            or_else (payload_str payload ''message'') (as_str (jfield (jfield v ''error'') ''message''));
          request_id = or_else (payload_str payload ''request_id'') (as_str (jfield v ''request_id''));
          subtype_is_error = (case as_str (jfield v ''subtype'') of Some s \<Rightarrow> contains s ''error'' | None \<Rightarrow> False);
          text_is_error = (case body of Some t \<Rightarrow> starts_with (trim_start t) ''API Error:'' | None \<Rightarrow> False);
          is_error = (as_bool (jfield v ''is_error'') = Some True \<or> status \<noteq> None \<or> subtype_is_error \<or> text_is_error)
      in if \<not> is_error then None
         else
           (let message =
                  (case or_else payload_message
                          (Option.bind (map_option trim body) (\<lambda>t. if t \<noteq> [] then Some t else None)) of
                     Some m \<Rightarrow> m | None \<Rightarrow> ''provider API request failed'');
                context_overflow = (code = Some ''InvalidParameter'' \<and> contains message ''Range of input length'')
            in Some \<lparr>pe_kind = (if context_overflow then ''context_overflow'' else ''provider_api_error''),
                     pe_status = status, pe_code = code, pe_message = message,
                     pe_request_id = request_id\<rparr>))"

text \<open>What of the frame is kept for the usage table: scalars of the envelope, numbers of the usage.\<close>

definition model_audit :: "(string \<times> json) list \<Rightarrow> (string \<times> json) list" where
  "model_audit models =
     fold (\<lambda>(model, usage) acc.
       case as_object usage of
         None \<Rightarrow> acc
       | Some _ \<Rightarrow>
           (let safe = keep_fields is_number
                  [''inputTokens'', ''outputTokens'', ''cacheCreationInputTokens'', ''cacheReadInputTokens'',
                   ''webSearchRequests'', ''costUSD'', ''contextWindow'', ''maxOutputTokens''] usage []
            in if safe = [] then acc else obj_insert model (JObj safe) acc)) models []"

definition claude_audit_usage_json :: "(json \<Rightarrow> string) \<Rightarrow> json \<Rightarrow> provider_error option \<Rightarrow> string option" where
  "claude_audit_usage_json ser v provider_error =
     (let audit0 = keep_fields is_scalar
            [''type'', ''subtype'', ''is_error'', ''api_error_status'', ''duration_ms'', ''duration_api_ms'',
             ''num_turns'', ''stop_reason'', ''session_id'', ''request_id'', ''total_cost_usd'',
             ''terminal_reason'', ''fast_mode_state'', ''uuid''] v [];
          audit1 = (case as_object (jfield v ''usage'') of
             None \<Rightarrow> audit0
           | Some _ \<Rightarrow>
               (let safe = keep_fields is_number
                      [''input_tokens'', ''output_tokens'', ''cache_creation_input_tokens'',
                       ''cache_read_input_tokens''] (jfield v ''usage'') []
                in if safe = [] then audit0 else obj_insert ''usage'' (JObj safe) audit0));
          audit2 = (case as_object (jfield v ''modelUsage'') of
             None \<Rightarrow> audit1
           | Some models \<Rightarrow>
               (let safe = model_audit models
                in if safe = [] then audit1 else obj_insert ''modelUsage'' (JObj safe) audit1));
          audit3 = (case provider_error of
             None \<Rightarrow> audit2
           | Some e \<Rightarrow> obj_insert ''provider_error''
               (obj_of [(''kind'', JStr (pe_kind e)), (''status'', opt_json (JNum \<circ> int) (pe_status e)),
                        (''code'', opt_json JStr (pe_code e)),
                        (''request_id'', opt_json JStr (pe_request_id e))]) audit2)
      in Some (ser (JObj audit3)))"

definition first_model_usage :: "json \<Rightarrow> json option" where
  "first_model_usage v =
     Option.bind (as_object (jfield v ''modelUsage'')) (\<lambda>kvs. case kvs of [] \<Rightarrow> None | (_, u) # _ \<Rightarrow> Some u)"

definition parse_claude_result_value ::
  "(json \<Rightarrow> string) \<Rightarrow> (string \<Rightarrow> json option) \<Rightarrow> 'f float_ops \<Rightarrow> json \<Rightarrow> int \<Rightarrow> 'f cli_result" where
  "parse_claude_result_value ser de fl v exit_code =
     (let usage = jfield v ''usage'';
          model_usage = first_model_usage v;
          prompt = as_u64 (jfield usage ''input_tokens'');
          completion = as_u64 (jfield usage ''output_tokens'');
          creation = as_u64 (jfield usage ''cache_creation_input_tokens'');
          readn = as_u64 (jfield usage ''cache_read_input_tokens'');
          body = as_str (jfield v ''result'');
          provider_error = detect_claude_provider_error de v body
      in \<lparr>cr_stdout = [], cr_stderr = [], cr_exit_code = exit_code,
          cr_success = (exit_code = 0 \<and> provider_error = None),
          cr_error_kind = or_else (map_option pe_kind provider_error) (default_error_kind exit_code),
          cr_provider_error = provider_error, cr_trace_id = None, cr_request_id = None,
          cr_run_id = None, cr_session_id = as_str (jfield v ''session_id''), cr_text = body,
          cr_tool_calls_count = map_option (\<lambda>n. n mod 2 ^ 32) (as_u64 (jfield v ''num_turns'')),
          cr_tools_used = [], cr_tokens_prompt = prompt, cr_tokens_completion = completion,
          cr_cached_input_tokens = readn, cr_cache_creation_input_tokens = creation,
          cr_cache_read_input_tokens = readn, cr_reasoning_output_tokens = None,
          cr_total_tokens = sum_tokens [prompt, creation, readn, completion],
          cr_context_window = Option.bind model_usage (\<lambda>m. as_u64 (jfield m ''contextWindow'')),
          cr_max_output_tokens = Option.bind model_usage (\<lambda>m. as_u64 (jfield m ''maxOutputTokens'')),
          cr_cost_usd = or_else (fl_of fl (jfield v ''total_cost_usd''))
            (Option.bind model_usage (\<lambda>m. fl_of fl (jfield m ''costUSD''))),
          cr_raw_usage_json = claude_audit_usage_json ser v provider_error\<rparr>)"

definition claude_system_status_output :: "json \<Rightarrow> string option" where
  "claude_system_status_output v =
     (if as_str (jfield v ''type'') \<noteq> Some ''system'' then None
      else Option.bind (map_option trim (as_str (jfield v ''content''))) (\<lambda>content.
        Option.bind
          (if as_str (jfield v ''subtype'') = Some ''local_command''
           then Some (trim (case Option.bind (strip_prefix ''<local-command-stdout>'' content)
                                   (strip_suffix ''</local-command-stdout>'') of
                              Some x \<Rightarrow> x | None \<Rightarrow> content))
           else if as_str (jfield v ''subtype'') = Some ''compact_boundary'' then Some content
           else None)
          (\<lambda>out. if out \<noteq> [] then Some out else None)))"

definition apply_claude_system_status_output :: "string option \<Rightarrow> 'f cli_result \<Rightarrow> 'f cli_result" where
  "apply_claude_system_status_output out r =
     (if case cr_text r of None \<Rightarrow> True | Some t \<Rightarrow> trim t = []
      then (case out of Some x \<Rightarrow> r\<lparr>cr_text := Some x\<rparr> | None \<Rightarrow> r)
      else r)"

definition parse_claude_plain_result :: "(string \<Rightarrow> json option) \<Rightarrow> string \<Rightarrow> int \<Rightarrow> 'f cli_result" where
  "parse_claude_plain_result de out exit_code =
     (let r = plain_result out exit_code
      in case detect_claude_provider_error de JNull (cr_text r) of
           None \<Rightarrow> r
         | Some e \<Rightarrow> r\<lparr>cr_success := False, cr_error_kind := Some (pe_kind e), cr_provider_error := Some e\<rparr>)"

definition parse_claude_json ::
  "(json \<Rightarrow> string) \<Rightarrow> (string \<Rightarrow> json option) \<Rightarrow> 'f float_ops \<Rightarrow> string \<Rightarrow> int \<Rightarrow> 'f cli_result" where
  "parse_claude_json ser de fl out exit_code =
     (case de out of
        Some v \<Rightarrow> parse_claude_result_value ser de fl v exit_code
      | None \<Rightarrow> parse_claude_plain_result de out exit_code)"

end
