(* ===== verification/Cli_Stream.thy ===== *)
theory Cli_Stream
  imports Cli_Result
begin

text \<open>
  The event lines the CLIs print while they work (\<open>cli_bridge.rs\<close>): each line as a progress event
  for the user, and the lines of a finished run folded into its result. A loop over the lines is a
  fold over a record of the loop's variables.
\<close>

section \<open>Lines\<close>

lemma length_strip_all: "length (strip_all ws s) \<le> length s"
  using strip_all_split [of ws s] by (metis length_append le_add2)

lemma length_trim_start: "length (trim_start s) \<le> length s"
  by (simp add: trim_start_def length_strip_all)

text \<open>Terminal escapes before a line: \<open>ESC ]\<close> up to the bell.\<close>

function strip_leading_osc :: "string \<Rightarrow> string" where
  "strip_leading_osc s =
     (case strip_prefix [CHR 0x1B, CHR 0x5D] s of
        None \<Rightarrow> s
      | Some rest \<Rightarrow>
          (case find_sub [CHR 0x07] rest of
             None \<Rightarrow> s
           | Some i \<Rightarrow> strip_leading_osc (trim_start (drop (Suc i) rest))))"
  by pat_completeness auto

termination
proof (relation "measure length")
  fix s rest i
  assume "strip_prefix [CHR 0x1B, CHR 0x5D] s = Some rest" "find_sub [CHR 0x07] rest = Some i"
  then have "length (drop (Suc i) rest) < length s"
    by (auto simp: strip_prefix_def split: if_splits dest: find_sub_bound prefix_length_le)
  with length_trim_start [of "drop (Suc i) rest"]
  show "(trim_start (drop (Suc i) rest), s) \<in> measure length" by simp
qed simp

declare strip_leading_osc.simps [simp del]

definition event_line :: "string \<Rightarrow> string" where
  "event_line l = trim (strip_leading_osc (trim l))"

text \<open>The entry appended when it is not there (\<open>if !xs.iter().any(..) { xs.push(..) }\<close>).\<close>

definition push_new :: "'a \<Rightarrow> 'a list \<Rightarrow> 'a list" where
  "push_new x xs = (if x \<in> set xs then xs else xs @ [x])"

definition inc32 :: "nat \<Rightarrow> nat" where
  "inc32 n = Suc n mod 2 ^ 32"

definition counted_calls :: "nat \<Rightarrow> nat option" where
  "counted_calls n = (if n = 0 then None else Some n)"

lemma distinct_push_new: "distinct xs \<Longrightarrow> distinct (push_new x xs)"
  by (simp add: push_new_def)

section \<open>A finished run of Claude\<close>

record claude_run =
  cl_result :: "json option"
  cl_status :: "string option"
  cl_tools :: "string list"
  cl_calls :: nat

definition claude_block :: "json \<Rightarrow> claude_run \<Rightarrow> claude_run" where
  "claude_block block st =
     (if as_str (jfield block ''type'') = Some ''tool_use''
      then st\<lparr>cl_calls := inc32 (cl_calls st),
              cl_tools := (case as_str (jfield block ''name'') of
                 Some name \<Rightarrow> push_new name (cl_tools st) | None \<Rightarrow> cl_tools st)\<rparr>
      else st)"

definition claude_line :: "(string \<Rightarrow> json option) \<Rightarrow> string \<Rightarrow> claude_run \<Rightarrow> claude_run" where
  "claude_line de line st =
     (let l = event_line line in
      if l = [] then st
      else case de l of
        None \<Rightarrow> st
      | Some v \<Rightarrow>
          (case as_str (jfield v ''type'') of
             None \<Rightarrow> st
           | Some t \<Rightarrow>
               if t = ''assistant'' then
                 (case as_array (jfield (jfield v ''message'') ''content'') of
                    Some content \<Rightarrow> fold claude_block content st | None \<Rightarrow> st)
               else if t = ''result'' then st\<lparr>cl_result := Some v\<rparr>
               else if t = ''system'' then
                 (case claude_system_status_output v of
                    Some out \<Rightarrow> st\<lparr>cl_status := Some out\<rparr> | None \<Rightarrow> st)
               else st))"

definition parse_claude_stream_json_stdout ::
  "(json \<Rightarrow> string) \<Rightarrow> (string \<Rightarrow> json option) \<Rightarrow> 'f float_ops \<Rightarrow> string \<Rightarrow> int \<Rightarrow> 'f cli_result" where
  "parse_claude_stream_json_stdout ser de fl out exit_code =
     (let st = fold (claude_line de) (lines_of out)
                 \<lparr>cl_result = None, cl_status = None, cl_tools = [], cl_calls = 0\<rparr>
      in case cl_result st of
           Some v \<Rightarrow>
             (apply_claude_system_status_output (cl_status st)
                (parse_claude_result_value ser de fl v exit_code))
               \<lparr>cr_tool_calls_count := counted_calls (cl_calls st), cr_tools_used := cl_tools st\<rparr>
         | None \<Rightarrow> parse_claude_plain_result de out exit_code)"

section \<open>A finished run of Copilot\<close>

record copilot_run =
  cp_session :: "string option"
  cp_final :: "string option"
  cp_delta :: string
  cp_error :: "string option"
  cp_prompt :: "nat option"
  cp_completion :: "nat option"
  cp_message_output :: "nat option"
  cp_tools :: "string list"
  cp_seen :: "string list"
  cp_calls :: nat
  cp_plain :: "string list"

definition record_copilot_tool :: "string option \<Rightarrow> string option \<Rightarrow> copilot_run \<Rightarrow> copilot_run" where
  "record_copilot_tool call_id name st =
     (let st' = (case name of
            Some n \<Rightarrow> if n \<noteq> [] then st\<lparr>cp_tools := push_new n (cp_tools st)\<rparr> else st
          | None \<Rightarrow> st)
      in case call_id of
           Some c \<Rightarrow>
             if c \<noteq> [] then
               (if c \<in> set (cp_seen st') then st'
                else st'\<lparr>cp_seen := cp_seen st' @ [c], cp_calls := inc32 (cp_calls st')\<rparr>)
             else st'\<lparr>cp_calls := inc32 (cp_calls st')\<rparr>
         | None \<Rightarrow> st'\<lparr>cp_calls := inc32 (cp_calls st')\<rparr>)"

definition plus64 :: "nat option \<Rightarrow> nat option \<Rightarrow> nat option" where
  "plus64 acc n =
     (case n of Some k \<Rightarrow> Some ((case acc of Some t \<Rightarrow> t + k | None \<Rightarrow> k) mod 2 ^ 64) | None \<Rightarrow> acc)"

text \<open>The string \<open>s\<close> when it is more than spaces.\<close>

definition spoken :: "string option \<Rightarrow> string option" where
  "spoken s = Option.bind s (\<lambda>t. if trim t \<noteq> [] then Some t else None)"

definition copilot_event :: "json \<Rightarrow> copilot_run \<Rightarrow> copilot_run" where
  "copilot_event v st =
     (let data = jfield v ''data''; t = as_str (jfield v ''type'') in
      if t = Some ''session.start'' then st\<lparr>cp_session := as_str (jfield data ''sessionId'')\<rparr>
      else if t = Some ''session.resume'' \<and> cp_session st = None
        then st\<lparr>cp_session := as_str (jfield data ''sessionId'')\<rparr>
      else if t = Some ''session.error'' then st\<lparr>cp_error := as_str (jfield data ''message'')\<rparr>
      else if t = Some ''assistant.message_delta'' then
        (case as_str (jfield data ''deltaContent'') of
           Some d \<Rightarrow> st\<lparr>cp_delta := cp_delta st @ d\<rparr> | None \<Rightarrow> st)
      else if t = Some ''assistant.message'' then
        (let st1 = (case spoken (as_str (jfield data ''content'')) of
               Some c \<Rightarrow> st\<lparr>cp_final := Some c\<rparr> | None \<Rightarrow> st);
             st2 = (case as_array (jfield data ''toolRequests'') of
               Some rs \<Rightarrow> fold (\<lambda>r. record_copilot_tool (as_str (jfield r ''toolCallId'')) (as_str (jfield r ''name''))) rs st1
             | None \<Rightarrow> st1)
         in st2\<lparr>cp_message_output := plus64 (cp_message_output st2) (as_u64 (jfield data ''outputTokens''))\<rparr>)
      else if t = Some ''assistant.usage'' then
        st\<lparr>cp_prompt := plus64 (cp_prompt st) (as_u64 (jfield data ''inputTokens'')),
           cp_completion := plus64 (cp_completion st) (as_u64 (jfield data ''outputTokens''))\<rparr>
      else if t = Some ''tool.execution_start'' then
        record_copilot_tool (as_str (jfield data ''toolCallId'')) (as_str (jfield data ''toolName'')) st
      else if t = Some ''session.task_complete'' then
        (case spoken (as_str (jfield data ''summary'')) of
           Some x \<Rightarrow> if cp_final st = None then st\<lparr>cp_final := Some x\<rparr> else st
         | None \<Rightarrow> st)
      else if t = Some ''result'' \<and> cp_session st = None
        then st\<lparr>cp_session := as_str (jfield v ''sessionId'')\<rparr>
      else st)"

definition copilot_line :: "(string \<Rightarrow> json option) \<Rightarrow> string \<Rightarrow> copilot_run \<Rightarrow> copilot_run" where
  "copilot_line de line st =
     (let l = event_line line in
      if l = [] then st
      else case de l of
        None \<Rightarrow> st\<lparr>cp_plain := cp_plain st @ [l]\<rparr>
      | Some v \<Rightarrow> copilot_event v st)"

definition parse_copilot_jsonl :: "(string \<Rightarrow> json option) \<Rightarrow> string \<Rightarrow> int \<Rightarrow> 'f cli_result" where
  "parse_copilot_jsonl de out exit_code =
     (let st = fold (copilot_line de) (lines_of out)
            \<lparr>cp_session = None, cp_final = None, cp_delta = [], cp_error = None, cp_prompt = None,
             cp_completion = None, cp_message_output = None, cp_tools = [], cp_seen = [], cp_calls = 0,
             cp_plain = []\<rparr>;
          body = or_else (cp_final st)
             (or_else (if trim (cp_delta st) \<noteq> [] then Some (trim (cp_delta st)) else None)
             (or_else (cp_error st)
               (if cp_plain st \<noteq> [] then Some (join [CHR 0x0A] (cp_plain st)) else None)));
          completion = or_else (cp_completion st) (cp_message_output st)
      in if body \<noteq> None \<or> cp_session st \<noteq> None \<or> cp_prompt st \<noteq> None \<or> completion \<noteq> None
         then (exit_result exit_code)
           \<lparr>cr_session_id := cp_session st, cr_text := body,
            cr_tool_calls_count := counted_calls (cp_calls st), cr_tools_used := cp_tools st,
            cr_tokens_prompt := cp_prompt st, cr_tokens_completion := completion,
            cr_total_tokens := sum_tokens [cp_prompt st, completion]\<rparr>
         else plain_result out exit_code)"

section \<open>A finished run of Codex\<close>

record codex_run =
  cx_session :: "string option"
  cx_text :: string
  cx_prompt :: "nat option"
  cx_completion :: "nat option"
  cx_cached :: "nat option"
  cx_reasoning :: "nat option"
  cx_total :: "nat option"
  cx_raw :: "string option"
  cx_tools :: "string list"
  cx_calls :: nat

definition codex_tool :: "string \<Rightarrow> codex_run \<Rightarrow> codex_run" where
  "codex_tool name st = st\<lparr>cx_calls := inc32 (cx_calls st), cx_tools := push_new name (cx_tools st)\<rparr>"

definition codex_event :: "(json \<Rightarrow> string) \<Rightarrow> json \<Rightarrow> codex_run \<Rightarrow> codex_run" where
  "codex_event ser v st =
     (let t = as_str (jfield v ''type'') in
      if t = Some ''thread.started'' then st\<lparr>cx_session := as_str (jfield v ''thread_id'')\<rparr>
      else if t = Some ''turn.completed'' then
        (let usage = jfield v ''usage'';
             prompt = as_u64 (jfield usage ''input_tokens'');
             completion = as_u64 (jfield usage ''output_tokens'');
             reasoning = as_u64 (jfield usage ''reasoning_output_tokens'')
         in st\<lparr>cx_prompt := prompt, cx_cached := as_u64 (jfield usage ''cached_input_tokens''),
               cx_completion := completion, cx_reasoning := reasoning,
               cx_total := or_else (as_u64 (jfield usage ''total_tokens''))
                 (sum_tokens [prompt, completion, reasoning]),
               cx_raw := Some (ser usage)\<rparr>)
      else if t = Some ''item.completed'' then
        (let item = jfield v ''item''; k = as_str (jfield item ''type'') in
         if k = Some ''agent_message'' then
           (case as_str (jfield item ''text'') of
              Some x \<Rightarrow> st\<lparr>cx_text := (if cx_text st \<noteq> [] then cx_text st @ [CHR 0x0A] else []) @ x\<rparr>
            | None \<Rightarrow> st)
         else if k = Some ''command_execution'' then codex_tool ''command_execution'' st
         else if k = Some ''file_change'' then codex_tool ''file_change'' st
         else if k = Some ''mcp_tool_call'' then
           codex_tool (case as_str (jfield item ''tool'') of Some x \<Rightarrow> x | None \<Rightarrow> ''mcp_tool'') st
         else st)
      else st)"

definition codex_line :: "(json \<Rightarrow> string) \<Rightarrow> (string \<Rightarrow> json option) \<Rightarrow> string \<Rightarrow> codex_run \<Rightarrow> codex_run" where
  "codex_line ser de line st =
     (if trim line = [] then st
      else case de (trim line) of None \<Rightarrow> st | Some v \<Rightarrow> codex_event ser v st)"

definition parse_codex_stream_json_stdout ::
  "(json \<Rightarrow> string) \<Rightarrow> (string \<Rightarrow> json option) \<Rightarrow> string \<Rightarrow> int \<Rightarrow> 'f cli_result" where
  "parse_codex_stream_json_stdout ser de out exit_code =
     (let st = fold (codex_line ser de) (lines_of out)
            \<lparr>cx_session = None, cx_text = [], cx_prompt = None, cx_completion = None, cx_cached = None,
             cx_reasoning = None, cx_total = None, cx_raw = None, cx_tools = [], cx_calls = 0\<rparr>
      in if cx_text st \<noteq> [] \<or> cx_session st \<noteq> None
         then (exit_result exit_code)
           \<lparr>cr_session_id := cx_session st,
            cr_text := (if cx_text st = [] then None else Some (cx_text st)),
            cr_tool_calls_count := counted_calls (cx_calls st), cr_tools_used := cx_tools st,
            cr_tokens_prompt := cx_prompt st, cr_tokens_completion := cx_completion st,
            cr_cached_input_tokens := cx_cached st, cr_reasoning_output_tokens := cx_reasoning st,
            cr_total_tokens := cx_total st, cr_raw_usage_json := cx_raw st\<rparr>
         else plain_result out exit_code)"

section \<open>Profiles\<close>

datatype cli_launcher = Script (script_path: string) (script_args: "string list")

datatype cli_profile =
    Astra (astra_bin: string) (astra_model: "string option") (permission_mode: string)
      (app_server_url_of: "string option")
  | Claude (claude_bin: string) (claude_model: "string option") (claude_stream_json: bool)
      (claude_extra_args: "string list") (claude_env: "(string \<times> string) list")
      (claude_env_file: "string option")
  | Copilot (copilot_bin: string) (copilot_model: "string option")
      (copilot_env: "(string \<times> string) list") (copilot_env_file: "string option")
      (launcher: "cli_launcher option") (copilot_stream_json: bool) (allow_all_tools: bool)
      (copilot_extra_args: "string list")
  | Codex (codex_bin: string) (codex_model: "string option")
      (codex_reasoning_effort: "string option") (sandbox: string) (codex_stream_json: bool)
      (codex_extra_args: "string list") (skip_git_repo_check: bool) (ephemeral: bool)
  | Custom (custom_bin: string) (args_template: "string list") (json_output: bool)
      (session_id_field: "string option") (text_field: "string option")

fun CliProfile_name :: "cli_profile \<Rightarrow> string" where
  "CliProfile_name (Astra _ _ _ _) = ''astra''"
| "CliProfile_name (Claude _ _ _ _ _ _) = ''claude''"
| "CliProfile_name (Copilot _ _ _ _ _ _ _ _) = ''copilot''"
| "CliProfile_name (Codex _ _ _ _ _ _ _ _) = ''codex''"
| "CliProfile_name (Custom bin _ _ _ _) = bin"

fun is_stale_session_error :: "cli_profile \<Rightarrow> string \<Rightarrow> bool" where
  "is_stale_session_error (Claude _ _ _ _ _ _) err =
     (contains err ''No conversation found with session ID'' \<or> contains err ''No conversation found''
      \<or> contains err ''session not found'')"
| "is_stale_session_error (Codex _ _ _ _ _ _ _ _) err = contains err ''no rollout found for thread id''"
| "is_stale_session_error _ err = False"

fun supports_persistent :: "cli_profile \<Rightarrow> bool" where
  "supports_persistent (Claude _ _ stream_json _ _ _) = stream_json"
| "supports_persistent _ = False"

fun parse_output ::
  "(json \<Rightarrow> string) \<Rightarrow> (string \<Rightarrow> json option) \<Rightarrow> (string \<Rightarrow> string) \<Rightarrow> 'f float_ops \<Rightarrow>
   cli_profile \<Rightarrow> string \<Rightarrow> int \<Rightarrow> 'f cli_result" where
  "parse_output ser de de_err fl (Astra _ _ _ _) out exit_code =
     parse_astra_json ser de de_err fl out exit_code"
| "parse_output ser de de_err fl (Claude _ _ stream_json _ _ _) out exit_code =
     (if stream_json then parse_claude_stream_json_stdout ser de fl out exit_code
      else parse_claude_json ser de fl out exit_code)"
| "parse_output ser de de_err fl (Copilot _ _ _ _ _ stream_json _ _) out exit_code =
     (if stream_json then parse_copilot_jsonl de out exit_code else plain_result out exit_code)"
| "parse_output ser de de_err fl (Codex _ _ _ _ stream_json _ _ _) out exit_code =
     (if stream_json then parse_codex_stream_json_stdout ser de out exit_code
      else parse_generic_json de out exit_code ''result'' ''session_id'')"
| "parse_output ser de de_err fl (Custom _ _ json session_id text) out exit_code =
     (if json then parse_generic_json de out exit_code
        (case text of Some f \<Rightarrow> f | None \<Rightarrow> ''text'')
        (case session_id of Some f \<Rightarrow> f | None \<Rightarrow> ''session_id'')
      else (exit_result exit_code)\<lparr>cr_text := Some out\<rparr>)"

section \<open>Progress\<close>

datatype reasoning_kind = Raw | Summary

datatype cli_progress =
    Status string
  | ToolCall string
  | Stderr string
  | Token string
  | ToolStarted string "string option"
  | ToolDone string "nat option"
  | Thinking bool
  | ReasoningBlock reasoning_kind string
  | ApprovalRequested string string string "string option" string

definition truncate_unicode :: "string \<Rightarrow> nat \<Rightarrow> string" where
  "truncate_unicode s max_chars =
     (if char_count s \<le> max_chars then s
      else take_chars max_chars s @ [CHR 0xE2, CHR 0x80, CHR 0xA6])"

definition or_str :: "string option \<Rightarrow> string \<Rightarrow> string" where
  "or_str x d = (case x of Some s \<Rightarrow> s | None \<Rightarrow> d)"

text \<open>The string of a field when there is one and it is not empty.\<close>

definition filled :: "string option \<Rightarrow> string option" where
  "filled s = Option.bind s (\<lambda>t. if t \<noteq> [] then Some t else None)"

definition tool_params :: "json \<Rightarrow> string option" where
  "tool_params input =
     (let description = or_str (as_str (jfield input ''description'')) [];
          arg = or_str (or_else (as_str (jfield input ''command''))
                  (or_else (as_str (jfield input ''file_path'')) (as_str (jfield input ''query'')))) []
      in if description = [] \<and> arg = [] then None
         else if arg = [] then Some description
         else if description = [] then Some (truncate_unicode arg 40)
         else Some (description @ '' ('' @ truncate_unicode arg 30 @ '')''))"

definition claude_delta :: "json \<Rightarrow> cli_progress option" where
  "claude_delta delta =
     (let k = as_str (jfield delta ''type'') in
      if k = Some ''text_delta'' then map_option Token (filled (as_str (jfield delta ''text'')))
      else if k = Some ''thinking_delta''
      then map_option (ReasoningBlock Raw) (filled (as_str (jfield delta ''thinking'')))
      else None)"

definition claude_progress :: "json \<Rightarrow> cli_progress option" where
  "claude_progress v =
     (let t = as_str (jfield v ''type'') in
      if t = Some ''assistant'' then
        Option.bind (as_array (jfield (jfield v ''message'') ''content''))
          (first_some (\<lambda>b. if as_str (jfield b ''type'') = Some ''tool_use''
             then Some (ToolStarted (or_str (as_str (jfield b ''name'')) ''tool'') (tool_params (jfield b ''input'')))
             else None))
      else if t = Some ''stream_event'' then
        (if as_str (jfield (jfield v ''event'') ''type'') = Some ''content_block_delta''
         then claude_delta (jfield (jfield v ''event'') ''delta'') else None)
      else if t = Some ''hook'' then
        Some (Status (''[hook:'' @ or_str (as_str (jfield v ''hook_event_name'')) ''hook'' @ '']''))
      else None)"

definition copilot_progress :: "json \<Rightarrow> cli_progress option" where
  "copilot_progress v =
     (let t = as_str (jfield v ''type''); data = jfield v ''data'' in
      if t = Some ''assistant.message_delta'' then map_option Token (filled (as_str (jfield data ''deltaContent'')))
      else if t = Some ''assistant.intent'' then map_option Status (filled (as_str (jfield data ''intent'')))
      else if t = Some ''assistant.reasoning_delta''
      then map_option (ReasoningBlock Raw) (filled (as_str (jfield data ''deltaContent'')))
      else if t = Some ''assistant.reasoning_summary''
      then map_option (ReasoningBlock Summary)
        (filled (or_else (as_str (jfield data ''summary'')) (as_str (jfield data ''content''))))
      else if t = Some ''session.warning'' \<or> t = Some ''session.info''
      then map_option Status (filled (as_str (jfield data ''message'')))
      else if t = Some ''tool.execution_start''
      then Some (ToolStarted (or_str (as_str (jfield data ''toolName'')) ''tool'') None)
      else if t = Some ''tool.execution_complete''
      then Some (ToolDone (or_str (as_str (jfield data ''toolName'')) ''tool'') None)
      else None)"

definition codex_started :: "json \<Rightarrow> cli_progress option" where
  "codex_started item =
     (let k = as_str (jfield item ''type'') in
      if k = Some ''agent_message'' then map_option Token (filled (as_str (jfield item ''text'')))
      else if k = Some ''reasoning'' then Some (Thinking True)
      else if k = Some ''command_execution''
      then Some (ToolStarted (or_str (as_str (jfield item ''command'')) ''shell'') None)
      else if k = Some ''file_change'' then Some (ToolStarted ''file_change'' None)
      else if k = Some ''mcp_tool_call''
      then Some (ToolStarted (or_str (as_str (jfield item ''tool'')) ''mcp_tool'') None)
      else None)"

definition codex_completed :: "json \<Rightarrow> cli_progress option" where
  "codex_completed item =
     (let k = as_str (jfield item ''type'') in
      if k = Some ''command_execution''
      then Some (ToolDone (or_str (as_str (jfield item ''command'')) ''shell'') None)
      else if k = Some ''file_change'' then Some (ToolDone ''file_change'' None)
      else if k = Some ''mcp_tool_call''
      then Some (ToolDone (or_str (as_str (jfield item ''tool'')) ''mcp_tool'') None)
      else if k = Some ''reasoning'' then Some (Thinking False)
      else None)"

definition codex_progress :: "json \<Rightarrow> cli_progress option" where
  "codex_progress v =
     (let t = as_str (jfield v ''type'') in
      if t = Some ''item.started'' \<or> t = Some ''item.updated'' then codex_started (jfield v ''item'')
      else if t = Some ''item.completed'' then codex_completed (jfield v ''item'')
      else if t = Some ''turn.started'' then Some (Status ''codex turn started'')
      else if t = Some ''error''
      then Some (Status (''[error] '' @ or_str (as_str (jfield v ''message'')) ''unknown error''))
      else None)"

definition parse_stdout_jsonl_line :: "(string \<Rightarrow> json option) \<Rightarrow> string \<Rightarrow> string \<Rightarrow> cli_progress option" where
  "parse_stdout_jsonl_line de line cli_name =
     (let l = event_line line in
      if cli_name = ''codex'' then Option.bind (de l) codex_progress
      else or_else (Option.bind (de l) claude_progress) (Option.bind (de l) copilot_progress))"

definition event_of_stderr :: "json \<Rightarrow> string \<Rightarrow> cli_progress option" where
  "event_of_stderr v line =
     (let t = Option.bind (jget v ''type'') as_str; s = (\<lambda>f. or_str (as_str (jfield v f)) []) in
      if t = Some ''token'' then Some (Token (s ''text''))
      else if t = Some ''thinking'' then Some (Thinking (as_bool (jfield v ''active'') = Some True))
      else if t = Some ''thinking_chunk'' then Some (ReasoningBlock Raw (s ''text''))
      else if t = Some ''tool_started'' then Some (ToolStarted (s ''name'') None)
      else if t = Some ''tool_completed''
      then Some (ToolDone (s ''name'') (as_u64 (jfield v ''duration_ms'')))
      else if t = Some ''status'' then Some (Status (s ''text''))
      else if t = Some ''waiting_for_model'' \<or> t = Some ''model_responding'' then Some (Status line)
      else None)"

definition parse_stderr_line :: "(string \<Rightarrow> json option) \<Rightarrow> string \<Rightarrow> cli_progress" where
  "parse_stderr_line de line =
     (case Option.bind (de line) (\<lambda>v. event_of_stderr v line) of
        Some p \<Rightarrow> p
      | None \<Rightarrow>
          if contains line [CHR 0xE2, CHR 0x9A, CHR 0xA1] \<or> contains line ''tool''
          then ToolCall line else Status line)"

section \<open>Every reading is consistent\<close>

text \<open>What the runner relies on when it looks at \<open>success\<close>, \<open>error_kind\<close> and \<open>exit_code\<close> separately.\<close>

definition consistent :: "'f cli_result \<Rightarrow> bool" where
  "consistent r \<longleftrightarrow>
     (cr_success r \<longleftrightarrow> cr_error_kind r = None) \<and>
     (cr_success r \<longrightarrow> cr_exit_code r = 0 \<and> cr_provider_error r = None) \<and>
     (cr_exit_code r = 0 \<and> cr_provider_error r = None \<longrightarrow> cr_success r)"

lemma exit_result_verdict:
  "cr_success (exit_result e) \<longleftrightarrow> e = 0"
  "cr_error_kind (exit_result e) = (if e = 0 then None else Some ''process_exit'')"
  "cr_exit_code (exit_result e) = e" "cr_provider_error (exit_result e) = None"
  by (simp_all add: exit_result_def default_error_kind_def)

lemma consistent_exit_result: "consistent (exit_result e)"
  by (simp add: consistent_def exit_result_def default_error_kind_def)

lemma consistent_plain_result: "consistent (plain_result out e)"
  by (simp add: consistent_def plain_result_def exit_result_def default_error_kind_def)

lemma consistent_generic: "consistent (parse_generic_json de out e tf sf)"
  by (auto simp: parse_generic_json_def consistent_def exit_result_def default_error_kind_def
    plain_result_def split: option.split)

lemma consistent_text: "consistent ((exit_result e)\<lparr>cr_text := t\<rparr>)"
  by (simp add: consistent_def exit_result_verdict)

lemma consistent_malformed: "consistent (malformed_astra_result e reason)"
  by (simp add: consistent_def malformed_astra_result_def exit_result_def)

lemma consistent_claude_value: "consistent (parse_claude_result_value ser de fl v e)"
  by (auto simp: parse_claude_result_value_def consistent_def default_error_kind_def or_else_def Let_def
    split: option.split)

lemma consistent_claude_plain: "consistent (parse_claude_plain_result de out e)"
  by (auto simp: parse_claude_plain_result_def consistent_def plain_result_def exit_result_def
    default_error_kind_def Let_def split: option.split)

lemma envelope_verdict_Inr:
  "envelope_verdict ok k e = Inr () \<longleftrightarrow> (ok \<longleftrightarrow> k = None) \<and> (ok \<longleftrightarrow> e = 0)"
  by (auto simp: envelope_verdict_def)

lemma envelope_fields:
  assumes "parse_strict_astra_envelope ser fl v e = Inr r"
  shows "\<exists>ok k code. envelope_verdict ok k code = Inr () \<and> cr_success r = ok \<and> cr_error_kind r = k \<and>
    cr_exit_code r = code \<and> cr_provider_error r = None"
proof -
  have none: "find (\<lambda>f. map_of (the (as_object v)) f = None) ASTRA_REQUIRED_FIELDS = None"
    using assms by (auto simp: parse_strict_astra_envelope_def bind_ok_Inr ok_or_Inr split: option.splits)
  from assms show ?thesis
    unfolding parse_strict_astra_envelope_def bind_ok_Inr ok_or_Inr Let_def
    using none by (elim exE conjE) (simp add: bind_ok_Inr, elim exE conjE, auto)
qed

lemma consistent_envelope:
  assumes "parse_strict_astra_envelope ser fl v e = Inr r"
  shows "consistent r"
  using envelope_fields [OF assms] by (auto simp: envelope_verdict_Inr consistent_def)

lemma consistent_apply_status: "consistent r \<Longrightarrow> consistent (apply_claude_system_status_output out r)"
  by (auto simp: apply_claude_system_status_output_def consistent_def split: option.split)

lemma consistent_update_tools:
  "consistent (r\<lparr>cr_tool_calls_count := n, cr_tools_used := ts\<rparr>) \<longleftrightarrow> consistent r"
  by (simp add: consistent_def)

lemma consistent_claude_stream: "consistent (parse_claude_stream_json_stdout ser de fl out e)"
  by (simp add: parse_claude_stream_json_stdout_def Let_def consistent_update_tools consistent_apply_status
    consistent_claude_value consistent_claude_plain split: option.split)

lemma consistent_copilot: "consistent (parse_copilot_jsonl de out e)"
  by (simp add: parse_copilot_jsonl_def Let_def consistent_def plain_result_def exit_result_verdict)

lemma consistent_codex: "consistent (parse_codex_stream_json_stdout ser de out e)"
  by (simp add: parse_codex_stream_json_stdout_def Let_def consistent_def plain_result_def
    exit_result_verdict)

lemma consistent_astra: "consistent (parse_astra_json ser de de_err fl out e)"
  by (auto simp: parse_astra_json_def consistent_malformed consistent_envelope split: option.split sum.split)

text \<open>
  Property C38: whatever a CLI prints and whichever profile reads it, success, the error kind and the
  exit code of the result agree: a result is a success exactly when it has no error kind, and
  then its exit code is zero and no provider error is recorded.
\<close>

theorem parsed_result_consistent: "consistent (parse_output ser de de_err fl profile out e)"
  by (cases profile)
    (simp_all add: consistent_astra consistent_claude_stream consistent_copilot consistent_codex
      consistent_plain_result consistent_generic parse_claude_json_def consistent_claude_value
      consistent_claude_plain consistent_text split: option.split)

end
