(* ===== verification/Claude_Usage.thy ===== *)
theory Claude_Usage
  imports Cli_Stream
begin

text \<open>
  Usage of a persistent Claude process (\<open>cli_bridge.rs\<close>): its frames carry totals since the process
  started, and each turn is charged the difference to the totals of the turn before.
\<close>

record 'f usage_snapshot =
  us_prompt :: "nat option"
  us_completion :: "nat option"
  us_creation :: "nat option"
  us_read :: "nat option"
  us_cost :: "'f option"

definition cumulative_model_usage :: "'f float_ops \<Rightarrow> json \<Rightarrow> 'f usage_snapshot option" where
  "cumulative_model_usage fl v =
     Option.bind (as_object (jfield v ''modelUsage'')) (\<lambda>models.
       if models = [] then None
       else
         (let sum = (\<lambda>f. sum_tokens (map (\<lambda>(_, u). as_u64 (jfield u f)) models));
              costs = List.map_filter (\<lambda>(_, u). fl_of fl (jfield u ''costUSD'')) models
          in Some \<lparr>us_prompt = sum ''inputTokens'', us_completion = sum ''outputTokens'',
                   us_creation = sum ''cacheCreationInputTokens'', us_read = sum ''cacheReadInputTokens'',
                   us_cost = or_else (fl_of fl (jfield v ''total_cost_usd''))
                     (if costs \<noteq> [] then Some (fl_sum fl costs) else None)\<rparr>))"

definition usage_delta :: "nat option \<Rightarrow> nat option \<Rightarrow> nat option" where
  "usage_delta cur prev =
     map_option (\<lambda>n. case prev of Some old \<Rightarrow> if old \<le> n then n - old else n | None \<Rightarrow> n) cur"

definition cost_delta :: "'f float_ops \<Rightarrow> 'f option \<Rightarrow> 'f option \<Rightarrow> 'f option" where
  "cost_delta fl cur prev =
     map_option (\<lambda>n. case prev of
       Some old \<Rightarrow> if fl_le fl old n then fl_sub fl n old else n | None \<Rightarrow> n) cur"

definition reported_usage :: "(string \<Rightarrow> json option) \<Rightarrow> 'f float_ops \<Rightarrow> 'f cli_result \<Rightarrow> 'f usage_snapshot" where
  "reported_usage de fl r =
     (case Option.bind (Option.bind (cr_raw_usage_json r) de) (cumulative_model_usage fl) of
        Some s \<Rightarrow> s
      | None \<Rightarrow> \<lparr>us_prompt = cr_tokens_prompt r, us_completion = cr_tokens_completion r,
                 us_creation = cr_cache_creation_input_tokens r,
                 us_read = cr_cache_read_input_tokens r, us_cost = cr_cost_usd r\<rparr>)"

definition failed_without_usage :: "'f cli_result \<Rightarrow> bool" where
  "failed_without_usage r \<longleftrightarrow>
     cr_provider_error r \<noteq> None \<and>
     (case sum_tokens [cr_tokens_prompt r, cr_tokens_completion r, cr_cache_creation_input_tokens r,
                       cr_cache_read_input_tokens r] of Some n \<Rightarrow> n | None \<Rightarrow> 0) = 0"

definition charge ::
  "nat option \<Rightarrow> nat option \<Rightarrow> nat option \<Rightarrow> nat option \<Rightarrow> 'f option \<Rightarrow> 'f cli_result \<Rightarrow> 'f cli_result" where
  "charge prompt completion creation readn cost r =
     r\<lparr>cr_tokens_prompt := prompt, cr_tokens_completion := completion,
       cr_cache_creation_input_tokens := creation, cr_cache_read_input_tokens := readn,
       cr_cached_input_tokens := readn, cr_cost_usd := cost,
       cr_total_tokens := sum_tokens [prompt, creation, readn, completion]\<rparr>"

definition keep_known :: "'a option \<Rightarrow> 'a option \<Rightarrow> 'a option" where
  "keep_known new old = (if new \<noteq> None then new else old)"

definition normalize_claude_pool_usage ::
  "(string \<Rightarrow> json option) \<Rightarrow> 'f float_ops \<Rightarrow> 'f cli_result \<Rightarrow> 'f usage_snapshot option \<Rightarrow>
   'f cli_result \<times> 'f usage_snapshot option" where
  "normalize_claude_pool_usage de fl r previous =
     (let cur = reported_usage de fl r; failed = failed_without_usage r;
          charged =
            (if failed then
               charge (Some 0) (Some 0) (Some 0) (Some 0) (map_option (\<lambda>_. fl_zero fl) (us_cost cur)) r
             else case previous of
               Some old \<Rightarrow>
                 charge (usage_delta (us_prompt cur) (us_prompt old))
                   (usage_delta (us_completion cur) (us_completion old))
                   (usage_delta (us_creation cur) (us_creation old))
                   (usage_delta (us_read cur) (us_read old)) (cost_delta fl (us_cost cur) (us_cost old)) r
             | None \<Rightarrow> charge (us_prompt cur) (us_completion cur) (us_creation cur) (us_read cur) (us_cost cur) r)
      in (charged,
          case previous of
            Some old \<Rightarrow>
              if failed then Some old
              else Some \<lparr>us_prompt = keep_known (us_prompt cur) (us_prompt old),
                         us_completion = keep_known (us_completion cur) (us_completion old),
                         us_creation = keep_known (us_creation cur) (us_creation old),
                         us_read = keep_known (us_read cur) (us_read old),
                         us_cost = keep_known (us_cost cur) (us_cost old)\<rparr>
          | None \<Rightarrow> Some cur))"

text \<open>The results of a process, turn by turn, as \<open>take_last_result\<close> hands them out.\<close>

fun normalize_all ::
  "(string \<Rightarrow> json option) \<Rightarrow> 'f float_ops \<Rightarrow> 'f cli_result list \<Rightarrow> 'f usage_snapshot option \<Rightarrow>
   'f cli_result list \<times> 'f usage_snapshot option" where
  "normalize_all de fl [] s = ([], s)"
| "normalize_all de fl (r # rs) s =
     (let (r', s') = normalize_claude_pool_usage de fl r s; (rs', s'') = normalize_all de fl rs s'
      in (r' # rs', s''))"

section \<open>A total is charged once\<close>

datatype counter = Prompt | Completion | CacheCreation | CacheRead

fun reading_of :: "counter \<Rightarrow> 'f usage_snapshot \<Rightarrow> nat option" where
  "reading_of Prompt s = us_prompt s"
| "reading_of Completion s = us_completion s"
| "reading_of CacheCreation s = us_creation s"
| "reading_of CacheRead s = us_read s"

definition or_zero :: "nat option \<Rightarrow> nat" where
  "or_zero x = (case x of Some n \<Rightarrow> n | None \<Rightarrow> 0)"

fun charge_of :: "counter \<Rightarrow> 'f cli_result \<Rightarrow> nat" where
  "charge_of Prompt r = or_zero (cr_tokens_prompt r)"
| "charge_of Completion r = or_zero (cr_tokens_completion r)"
| "charge_of CacheCreation r = or_zero (cr_cache_creation_input_tokens r)"
| "charge_of CacheRead r = or_zero (cr_cache_read_input_tokens r)"

text \<open>The totals of the turns that are accounted for.\<close>

definition totals ::
  "counter \<Rightarrow> (string \<Rightarrow> json option) \<Rightarrow> 'f float_ops \<Rightarrow> 'f cli_result list \<Rightarrow> nat option list" where
  "totals c de fl rs =
     map (\<lambda>r. reading_of c (reported_usage de fl r)) (filter (\<lambda>r. \<not> failed_without_usage r) rs)"

lemma charge_of_charge:
  "charge_of c (charge p q cr rd cost r) =
     or_zero (case c of Prompt \<Rightarrow> p | Completion \<Rightarrow> q | CacheCreation \<Rightarrow> cr | CacheRead \<Rightarrow> rd)"
  by (cases c) (simp_all add: charge_def)

lemma turn_failed:
  assumes "failed_without_usage r"
  shows "charge_of c (fst (normalize_claude_pool_usage de fl r (Some s))) = 0"
    and "snd (normalize_claude_pool_usage de fl r (Some s)) = Some s"
  using assms
  by (cases c; simp add: normalize_claude_pool_usage_def Let_def charge_of_charge or_zero_def)
     (simp add: assms normalize_claude_pool_usage_def Let_def)

lemma turn_charged:
  assumes "\<not> failed_without_usage r" "reading_of c (reported_usage de fl r) = Some n"
    "reading_of c s = Some a" "a \<le> n"
  shows "charge_of c (fst (normalize_claude_pool_usage de fl r (Some s))) = n - a"
    and "\<exists>s'. snd (normalize_claude_pool_usage de fl r (Some s)) = Some s' \<and> reading_of c s' = Some n"
  using assms
  by (cases c; simp add: normalize_claude_pool_usage_def Let_def charge_of_charge or_zero_def
        usage_delta_def keep_known_def)+

lemma first_charged:
  assumes "\<not> failed_without_usage r" "reading_of c (reported_usage de fl r) = Some n"
  shows "charge_of c (fst (normalize_claude_pool_usage de fl r None)) = n"
    and "\<exists>s'. snd (normalize_claude_pool_usage de fl r None) = Some s' \<and> reading_of c s' = Some n"
  using assms
  by (cases c; simp add: normalize_claude_pool_usage_def Let_def charge_of_charge or_zero_def)+

lemma normalize_all_Cons:
  "sum_list (map (charge_of c) (fst (normalize_all de fl (r # rs) s))) =
     charge_of c (fst (normalize_claude_pool_usage de fl r s)) +
     sum_list (map (charge_of c) (fst (normalize_all de fl rs (snd (normalize_claude_pool_usage de fl r s)))))"
  by (simp split: prod.split)

lemma charges_telescope:
  assumes "totals c de fl rs = map Some ns" "sorted (a # ns)" "reading_of c s = Some a"
  shows "sum_list (map (charge_of c) (fst (normalize_all de fl rs (Some s)))) = last (a # ns) - a"
  using assms
proof (induction rs arbitrary: ns a s)
  case (Cons r rs)
  show ?case
  proof (cases "failed_without_usage r")
    case True
    with Cons.prems have "totals c de fl rs = map Some ns" by (simp add: totals_def)
    from Cons.IH [OF this Cons.prems(2,3)] show ?thesis
      unfolding normalize_all_Cons by (simp add: turn_failed [OF True])
  next
    case False
    with Cons.prems(1) obtain n ns' where n: "ns = n # ns'" "reading_of c (reported_usage de fl r) = Some n"
      "totals c de fl rs = map Some ns'" by (cases ns) (auto simp: totals_def)
    with Cons.prems(2) have le: "a \<le> n" "sorted (n # ns')" by auto
    from turn_charged(2) [OF False n(2) Cons.prems(3) le(1)] obtain s' where
      s': "snd (normalize_claude_pool_usage de fl r (Some s)) = Some s'" "reading_of c s' = Some n" by blast
    have "n \<le> last (n # ns')" using le(2) by (cases ns' rule: rev_cases) auto
    with le(1) show ?thesis
      unfolding normalize_all_Cons s'(1) turn_charged(1) [OF False n(2) Cons.prems(3) le(1)]
        Cons.IH [OF n(3) le(2) s'(2)] by (simp add: n(1))
  qed
qed (simp add: totals_def)

lemma charges_from_start:
  assumes "totals c de fl (r # rs) = map Some ns" "sorted ns" "\<not> failed_without_usage r"
  shows "sum_list (map (charge_of c) (fst (normalize_all de fl (r # rs) None))) = last ns"
proof -
  from assms obtain n ns' where n: "ns = n # ns'" "reading_of c (reported_usage de fl r) = Some n"
    "totals c de fl rs = map Some ns'" by (cases ns) (auto simp: totals_def)
  from first_charged(2) [OF assms(3) n(2)] obtain s' where
    s': "snd (normalize_claude_pool_usage de fl r None) = Some s'" "reading_of c s' = Some n" by blast
  have srt: "sorted (n # ns')" using assms(2) n(1) by simp
  have "n \<le> last (n # ns')" using srt by (cases ns' rule: rev_cases) auto
  then show ?thesis
    unfolding normalize_all_Cons s'(1) first_charged(1) [OF assms(3) n(2)]
      charges_telescope [OF n(3) srt s'(2)] by (simp add: n(1))
qed

text \<open>
  Property C32: what the turns of one persistent process are charged for a counter, when every turn but
  those that failed without usage reports a total for it, these totals never shrink, and the first
  turn is not one that failed: the charges add up to the last total, so no token is charged twice and
  none is lost; the failed turns in between are charged nothing. A total is what the code takes for
  one, the sum over \<open>modelUsage\<close> or, in a frame without it, the frame's own counter, although that
  is the usage of one turn (see the last theorem of this theory).
\<close>

theorem usage_charged_once:
  assumes "totals c de fl (r # rs) = map Some ns" "sorted ns" "\<not> failed_without_usage r"
  shows "sum_list (map (charge_of c) (fst (normalize_all de fl (r # rs) None))) = last ns"
  using assms by (rule charges_from_start)

text \<open>Three frames, the second an error that repeats the total.\<close>

definition sample_frame :: "string \<Rightarrow> nat \<Rightarrow> provider_error option \<Rightarrow> nat cli_result" where
  "sample_frame raw prompt e =
     (exit_result 0)\<lparr>cr_raw_usage_json := Some raw, cr_tokens_prompt := Some prompt,
                     cr_provider_error := e\<rparr>"

definition sample_de :: "string \<Rightarrow> json option" where
  "sample_de raw =
     Some (JObj [(''modelUsage'', JObj [(''m'', JObj [(''inputTokens'',
       JNum (if raw = ''a'' then 100 else 160))])])])"

definition no_floats :: "nat float_ops" where
  "no_floats = \<lparr>fl_of = (\<lambda>_. None), fl_sum = sum_list, fl_le = (\<le>), fl_sub = (-), fl_zero = 0\<rparr>"

definition sample_error :: provider_error where
  "sample_error = \<lparr>pe_kind = ''provider_api_error'', pe_status = Some 400, pe_code = None,
     pe_message = ''e'', pe_request_id = None\<rparr>"

lemmas sample_defs = sample_frame_def sample_de_def no_floats_def sample_error_def totals_def
  reported_usage_def failed_without_usage_def cumulative_model_usage_def exit_result_def jfield_def
  jget_def sum_tokens_def sat_add64_def or_else_def List.map_filter_def

lemma sample_totals:
  "totals Prompt sample_de no_floats
     [sample_frame ''a'' 100 None, sample_frame ''a'' 0 (Some sample_error), sample_frame ''b'' 60 None] =
   map Some [100, 160]"
  by (simp add: sample_defs)

lemma usage_charged_once_witness:
  "sum_list (map (charge_of Prompt) (fst (normalize_all sample_de no_floats
     [sample_frame ''a'' 100 None, sample_frame ''a'' 0 (Some sample_error), sample_frame ''b'' 60 None] None))) = 160"
  by (subst usage_charged_once [OF sample_totals])
     (simp_all add: failed_without_usage_def sample_frame_def exit_result_def)

text \<open>
  A process whose frames name no model usage reports each turn's own usage. That is
  still taken for a total, so of turns that use ever more tokens only the last is charged in full,
  and all of them together are charged no more than it.
\<close>

theorem per_turn_usage_lost:
  assumes "\<forall>f \<in> set (r # rs). Option.bind (Option.bind (cr_raw_usage_json f) de) (cumulative_model_usage fl) = None \<and>
      cr_provider_error f = None"
    and "map cr_tokens_prompt (r # rs) = map Some ns" "sorted ns"
  shows "sum_list (map (charge_of Prompt) (fst (normalize_all de fl (r # rs) None))) = last ns"
proof (rule charges_from_start)
  have own: "reading_of Prompt (reported_usage de fl f) = cr_tokens_prompt f \<and> \<not> failed_without_usage f"
    if "f \<in> set (r # rs)" for f
  proof -
    from assms(1) that have "Option.bind (Option.bind (cr_raw_usage_json f) de) (cumulative_model_usage fl) = None"
      "cr_provider_error f = None" by blast+
    then show ?thesis by (simp only: reported_usage_def failed_without_usage_def) simp
  qed
  then show "\<not> failed_without_usage r" by simp
  have "filter (\<lambda>f. \<not> failed_without_usage f) (r # rs) = r # rs"
    using own by (simp add: filter_id_conv)
  moreover have "map (\<lambda>f. reading_of Prompt (reported_usage de fl f)) (r # rs) = map cr_tokens_prompt (r # rs)"
    by (rule map_cong) (use own in simp_all)
  ultimately show "totals Prompt de fl (r # rs) = map Some ns"
    by (simp only: totals_def assms(2))
qed (rule assms(3))

lemma per_turn_usage_lost_witness:
  "sum_list (map (charge_of Prompt) (fst (normalize_all (\<lambda>_. None) no_floats
     [sample_frame ''a'' 100 None, sample_frame ''b'' 120 None] None))) = 120"
  by (subst per_turn_usage_lost [where ns = "[100, 120]"]) (simp_all add: sample_frame_def exit_result_def)

end
