(* ===== verification/Claude_Pool.thy ===== *)
theory Claude_Pool
  imports Claude_Usage
begin

text \<open>
  The pool of persistent Claude processes (\<open>cli_pool.rs\<close>): one process per conversation, to which
  each turn sends a message and whose output lines a reader task sorts into events of the running
  turn, its result, and answers to interrupts.

  The operations of the pool run under its mutex; the reader and the writer run beside them. One
  operation, or the reader's handling of one line, is one event here. The generation of a turn is
  a natural number, since \<open>2 ^ 64\<close> turns are not reached. A channel for progress is named by the turn
  that opened it, and what is sent to it is logged. Starting the process is a parameter.
\<close>

definition CLAUDE_INTERRUPTED_ERROR_KIND :: string where
  "CLAUDE_INTERRUPTED_ERROR_KIND = ''claude_interrupted''"

datatype stdin_command = UserMessage string | Interrupt string

record 'f claude_proc =
  pr_stdin :: "stdin_command list"
  pr_stdin_open :: bool
  pr_slot :: "nat \<times> nat option"
  pr_cancelled :: bool
  pr_reading :: bool
  pr_session_id :: "string option"
  pr_last_result :: "json option"
  pr_status_output :: "string option"
  pr_usage :: "'f usage_snapshot option"
  pr_generation :: nat
  pr_active :: nat
  pr_interrupted :: nat
  pr_next_request :: nat
  pr_waiters :: "string \<Rightarrow> nat option"
  pr_stderr_hint :: "string option"
  pr_sent :: "(nat \<times> cli_progress) list"
  pr_answers :: "(string \<times> (string + unit)) list"

definition fresh_proc :: "'f claude_proc" where
  "fresh_proc =
     \<lparr>pr_stdin = [], pr_stdin_open = True, pr_slot = (0, None), pr_cancelled = False,
      pr_reading = True, pr_session_id = None, pr_last_result = None, pr_status_output = None,
      pr_usage = None, pr_generation = 0, pr_active = 0, pr_interrupted = 0, pr_next_request = 1,
      pr_waiters = Map.empty, pr_stderr_hint = None, pr_sent = [], pr_answers = []\<rparr>"

section \<open>A turn\<close>

text \<open>\<open>compare_exchange(expected, new)\<close> on the generation that is active.\<close>

definition cas_active :: "nat \<Rightarrow> nat \<Rightarrow> 'f claude_proc \<Rightarrow> 'f claude_proc" where
  "cas_active expected new p = (if pr_active p = expected then p\<lparr>pr_active := new\<rparr> else p)"

definition close_slot_of :: "nat \<Rightarrow> 'f claude_proc \<Rightarrow> 'f claude_proc" where
  "close_slot_of g p = (if fst (pr_slot p) = g then p\<lparr>pr_slot := (g, None)\<rparr> else p)"

definition user_line :: "(json \<Rightarrow> string) \<Rightarrow> string \<Rightarrow> string" where
  "user_line ser message =
     ser (obj_of [(''type'', JStr ''user''),
       (''message'', obj_of [(''role'', JStr ''user''),
          (''content'', JArr [obj_of [(''type'', JStr ''text''), (''text'', JStr message)]])])]) @ [CHR 0x0A]"

definition begin_turn_on :: "(json \<Rightarrow> string) \<Rightarrow> string \<Rightarrow> 'f claude_proc \<Rightarrow> (string + nat) \<times> 'f claude_proc" where
  "begin_turn_on ser message p =
     (let p1 = p\<lparr>pr_last_result := None, pr_status_output := None\<rparr>;
          turn = Suc (pr_generation p1);
          p2 = p1\<lparr>pr_generation := turn\<rparr>
      in if pr_active p2 \<noteq> 0
         then (Inl (''Claude turn '' @ show_nat (pr_active p2) @ '' is still active''), p2)
         else
           (let p3 = p2\<lparr>pr_active := turn, pr_slot := (turn, Some turn)\<rparr> in
            if pr_stdin_open p3
            then (Inr turn, p3\<lparr>pr_stdin := pr_stdin p3 @ [UserMessage (user_line ser message)]\<rparr>)
            else (Inl ''process stdin closed (process may have died)'',
                  close_slot_of turn (cas_active turn 0 p3))))"

section \<open>Interrupts\<close>

definition interrupt_id :: "nat \<Rightarrow> string" where
  "interrupt_id n = ''astra_interrupt_'' @ show_nat n"

text \<open>The first half of \<open>interrupt\<close>, up to the wait for the answer.\<close>

definition interrupt_send :: "'f claude_proc \<Rightarrow> (string + string) \<times> 'f claude_proc" where
  "interrupt_send p =
     (if pr_active p = 0 then (Inl ''no active Claude turn'', p)
      else
        (let rid = interrupt_id (pr_next_request p);
             p1 = p\<lparr>pr_next_request := Suc (pr_next_request p),
                    pr_waiters := (pr_waiters p)(rid \<mapsto> pr_active p)\<rparr>
         in if pr_stdin_open p1
            then (Inr rid, p1\<lparr>pr_stdin := pr_stdin p1 @ [Interrupt rid]\<rparr>)
            else (Inl ''stdin closed'', p1\<lparr>pr_waiters := (pr_waiters p1)(rid := None)\<rparr>)))"

datatype interrupt_end = Answered "string + unit" | ChannelClosed | TimedOut

definition interrupt_finish :: "string \<Rightarrow> interrupt_end \<Rightarrow> 'f claude_proc \<Rightarrow> (string + unit) \<times> 'f claude_proc" where
  "interrupt_finish rid e p =
     (case e of
        Answered r \<Rightarrow> (r, p)
      | ChannelClosed \<Rightarrow>
          (Inl ''Claude interrupt response channel closed'', p\<lparr>pr_waiters := (pr_waiters p)(rid := None)\<rparr>)
      | TimedOut \<Rightarrow> (Inl ''Claude interrupt response timed out'', p))"

definition claude_interrupt_control_request :: "(json \<Rightarrow> string) \<Rightarrow> string \<Rightarrow> string" where
  "claude_interrupt_control_request ser rid =
     ser (obj_of [(''type'', JStr ''control_request''), (''request_id'', JStr rid),
                  (''request'', obj_of [(''subtype'', JStr ''interrupt'')])]) @ [CHR 0x0A]"

definition claude_control_response :: "json \<Rightarrow> (string \<times> (string + unit)) option" where
  "claude_control_response v =
     (if as_str (jfield v ''type'') \<noteq> Some ''control_response'' then None
      else
        (let response = jfield v ''response'' in
         map_option (\<lambda>rid.
           (rid, if as_str (jfield response ''subtype'') = Some ''success'' then Inr ()
                 else Inl (or_str (as_str (jfield response ''error'')) ''Claude rejected the control request'')))
           (as_str (jfield response ''request_id''))))"

definition acknowledge_interrupt ::
  "string + unit \<Rightarrow> nat \<Rightarrow> 'f claude_proc \<Rightarrow> (string + unit) \<times> 'f claude_proc" where
  "acknowledge_interrupt result turn p =
     (case result of
        Inl e \<Rightarrow> (Inl e, p)
      | Inr _ \<Rightarrow>
          if pr_active p = turn then (Inr (), p\<lparr>pr_active := 0, pr_interrupted := turn\<rparr>)
          else (Inl ''no matching active Claude turn'', p))"

section \<open>The reader of the process's output\<close>

definition answer_waiter :: "string \<Rightarrow> string + unit \<Rightarrow> 'f claude_proc \<Rightarrow> 'f claude_proc" where
  "answer_waiter rid result p =
     (case pr_waiters p rid of
        None \<Rightarrow> p
      | Some turn \<Rightarrow>
          (let p1 = p\<lparr>pr_waiters := (pr_waiters p)(rid := None)\<rparr>;
               (result', p2) = acknowledge_interrupt result turn p1
           in p2\<lparr>pr_answers := pr_answers p2 @ [(rid, result')]\<rparr>))"

definition is_result_frame :: "json \<Rightarrow> bool" where
  "is_result_frame v \<longleftrightarrow> as_str (jfield v ''type'') = Some ''result''"

definition result_frame :: "json \<Rightarrow> 'f claude_proc \<Rightarrow> 'f claude_proc" where
  "result_frame v p =
     (let cur = pr_generation p;
          p1 = cas_active cur 0 p;
          p2 = (case as_str (jfield v ''session_id'') of
                  Some sid \<Rightarrow> p1\<lparr>pr_session_id := Some sid\<rparr> | None \<Rightarrow> p1);
          p3 = p2\<lparr>pr_last_result := Some v\<rparr>
      in close_slot_of cur p3)"

definition forward_progress :: "(string \<Rightarrow> json option) \<Rightarrow> string \<Rightarrow> 'f claude_proc \<Rightarrow> 'f claude_proc" where
  "forward_progress de line p =
     (case parse_stdout_jsonl_line de line ''claude'' of
        None \<Rightarrow> p
      | Some ev \<Rightarrow>
          (case snd (pr_slot p) of
             None \<Rightarrow> p
           | Some ch \<Rightarrow> p\<lparr>pr_sent := pr_sent p @ [(ch, ev)]\<rparr>))"

definition reader_line :: "(string \<Rightarrow> json option) \<Rightarrow> string \<Rightarrow> 'f claude_proc \<Rightarrow> 'f claude_proc" where
  "reader_line de line p =
     (let l = trim line in
      if l = [] then p
      else case de l of
        None \<Rightarrow> forward_progress de l p
      | Some v \<Rightarrow>
          (case claude_control_response v of
             Some (rid, result) \<Rightarrow> answer_waiter rid result p
           | None \<Rightarrow>
               if is_result_frame v then result_frame v p
               else (case claude_system_status_output v of
                       Some out \<Rightarrow> p\<lparr>pr_status_output := Some out\<rparr>
                     | None \<Rightarrow> forward_progress de l p)))"

text \<open>
  The reader stops at the end of the output, at a read error or when the process is cancelled. It
  then answers whoever waits; \<open>order\<close> lists the waiters as the runtime's map yields them.
\<close>

datatype reader_stop = Eof | ReadError | Cancelled

definition reader_ends :: "string list \<Rightarrow> reader_stop \<Rightarrow> 'f claude_proc \<Rightarrow> 'f claude_proc" where
  "reader_ends order stop p =
     (let p1 = (case stop of
            Eof \<Rightarrow> p\<lparr>pr_slot := (fst (pr_slot p), None), pr_cancelled := True\<rparr>
          | ReadError \<Rightarrow> p\<lparr>pr_cancelled := True\<rparr>
          | Cancelled \<Rightarrow> p)
      in p1\<lparr>pr_reading := False, pr_waiters := Map.empty,
            pr_answers := pr_answers p1 @ map (\<lambda>rid. (rid, Inl ''Claude process closed'')) order\<rparr>)"

definition stderr_line :: "string \<Rightarrow> 'f claude_proc \<Rightarrow> 'f claude_proc" where
  "stderr_line line p =
     (if trim line \<noteq> [] \<and> (contains line ''No conversation found'' \<or> contains line ''session not found'')
      then p\<lparr>pr_stderr_hint := Some line\<rparr> else p)"

section \<open>The result of a turn\<close>

definition mark_result_interrupted :: "'f cli_result \<Rightarrow> 'f cli_result" where
  "mark_result_interrupted r =
     r\<lparr>cr_provider_error := None, cr_success := False, cr_error_kind := Some CLAUDE_INTERRUPTED_ERROR_KIND\<rparr>"

definition apply_acknowledged_interrupt ::
  "'f cli_result \<Rightarrow> nat \<Rightarrow> 'f claude_proc \<Rightarrow> 'f cli_result \<times> 'f claude_proc" where
  "apply_acknowledged_interrupt r turn p =
     (if pr_interrupted p = turn
      then (if \<not> cr_success r then mark_result_interrupted r else r, p\<lparr>pr_interrupted := 0\<rparr>)
      else (r, p))"

definition take_last_result ::
  "(json \<Rightarrow> string) \<Rightarrow> (string \<Rightarrow> json option) \<Rightarrow> 'f float_ops \<Rightarrow> 'f claude_proc \<Rightarrow>
   'f cli_result option \<times> 'f claude_proc" where
  "take_last_result ser de fl p =
     (case pr_last_result p of
        None \<Rightarrow> (None, p)
      | Some v \<Rightarrow>
          (let p1 = p\<lparr>pr_last_result := None\<rparr>;
               (r1, p2) = apply_acknowledged_interrupt (parse_claude_result_value ser de fl v 0)
                            (pr_generation p1) p1;
               r2 = apply_claude_system_status_output (pr_status_output p2) r1;
               p3 = p2\<lparr>pr_status_output := None\<rparr>;
               r3 = (if cr_tool_calls_count r2 = Some 1 then r2\<lparr>cr_tool_calls_count := None\<rparr> else r2);
               (r4, usage) = normalize_claude_pool_usage de fl r3 (pr_usage p3)
           in (Some r4, p3\<lparr>pr_usage := usage\<rparr>)))"

definition take_stderr_hint :: "'f claude_proc \<Rightarrow> string option \<times> 'f claude_proc" where
  "take_stderr_hint p = (pr_stderr_hint p, p\<lparr>pr_stderr_hint := None\<rparr>)"

section \<open>The pool\<close>

type_synonym 'f pool = "string \<Rightarrow> 'f claude_proc option"

definition is_alive :: "string \<Rightarrow> 'f pool \<Rightarrow> bool" where
  "is_alive key pool = (case pool key of Some p \<Rightarrow> \<not> pr_cancelled p | None \<Rightarrow> False)"

text \<open>\<open>spawn\<close> is the error of starting the process, when it could not be started.\<close>

definition begin_turn ::
  "(json \<Rightarrow> string) \<Rightarrow> string option \<Rightarrow> string \<Rightarrow> string \<Rightarrow> 'f pool \<Rightarrow> (string + nat) \<times> 'f pool" where
  "begin_turn ser spawn key message pool =
     (case (if is_alive key pool then pool key
            else (case spawn of None \<Rightarrow> Some fresh_proc | Some _ \<Rightarrow> None)) of
        None \<Rightarrow> (Inl (or_str spawn []), pool(key := None))
      | Some p \<Rightarrow> (let (r, p') = begin_turn_on ser message p in (r, pool(key \<mapsto> p'))))"

definition kill :: "string \<Rightarrow> 'f pool \<Rightarrow> 'f pool" where
  "kill key pool = pool(key := None)"

section \<open>What can happen to a process\<close>

datatype proc_event =
    Begin string
  | SendInterrupt
  | EndInterrupt string interrupt_end
  | OutLine string
  | ErrLine string
  | StdinBreaks
  | TakeResult

definition proc_step ::
  "(json \<Rightarrow> string) \<Rightarrow> (string \<Rightarrow> json option) \<Rightarrow> 'f float_ops \<Rightarrow> proc_event \<Rightarrow> 'f claude_proc \<Rightarrow> 'f claude_proc" where
  "proc_step ser de fl e p =
     (case e of
        Begin message \<Rightarrow> snd (begin_turn_on ser message p)
      | SendInterrupt \<Rightarrow> snd (interrupt_send p)
      | EndInterrupt rid r \<Rightarrow> snd (interrupt_finish rid r p)
      | OutLine line \<Rightarrow> reader_line de line p
      | ErrLine line \<Rightarrow> stderr_line line p
      | StdinBreaks \<Rightarrow> p\<lparr>pr_stdin_open := False\<rparr>
      | TakeResult \<Rightarrow> snd (take_last_result ser de fl p))"

definition run_proc ::
  "(json \<Rightarrow> string) \<Rightarrow> (string \<Rightarrow> json option) \<Rightarrow> 'f float_ops \<Rightarrow> proc_event list \<Rightarrow> 'f claude_proc \<Rightarrow> 'f claude_proc" where
  "run_proc ser de fl es p = fold (proc_step ser de fl) es p"

lemma run_proc_simps [simp]:
  "run_proc ser de fl [] p = p"
  "run_proc ser de fl (e # es) p = run_proc ser de fl es (proc_step ser de fl e p)"
  by (simp_all add: run_proc_def)

lemma run_proc_append: "run_proc ser de fl (es @ es') p = run_proc ser de fl es' (run_proc ser de fl es p)"
  by (simp add: run_proc_def)

end
