(* ===== verification/Claude_Props.thy ===== *)
theory Claude_Props
  imports Claude_Pool
begin

text \<open>
  What holds of a persistent Claude process through any sequence of events: its generations are in
  order, the channel of a turn gets what is read up to the next result line, an acknowledged interrupt
  marks the failed result that is read next; and two orders of events in which a turn is lost or gets
  the result of another.
\<close>

lemmas claude_ops = begin_turn_on_def cas_active_def close_slot_of_def interrupt_send_def
  interrupt_finish_def acknowledge_interrupt_def result_frame_def forward_progress_def
  stderr_line_def apply_acknowledged_interrupt_def

section \<open>Generations\<close>

definition proc_ok :: "'f claude_proc \<Rightarrow> bool" where
  "proc_ok p \<longleftrightarrow>
     pr_active p \<le> pr_generation p \<and> pr_interrupted p \<le> pr_generation p \<and>
     fst (pr_slot p) \<le> pr_generation p \<and>
     (\<forall>rid t. pr_waiters p rid = Some t \<longrightarrow> 0 < t \<and> t \<le> pr_generation p)"

lemma proc_ok_fresh: "proc_ok fresh_proc"
  by (simp add: proc_ok_def fresh_proc_def)

lemma proc_ok_begin: "proc_ok p \<Longrightarrow> proc_ok (snd (begin_turn_on ser m p))"
  by (auto simp: proc_ok_def begin_turn_on_def Let_def close_slot_of_def cas_active_def dest: le_SucI)

lemma proc_ok_interrupt: "proc_ok p \<Longrightarrow> proc_ok (snd (interrupt_send p))"
  by (auto simp: proc_ok_def interrupt_send_def Let_def)

lemma proc_ok_finish: "proc_ok p \<Longrightarrow> proc_ok (snd (interrupt_finish rid r p))"
  by (auto simp: proc_ok_def interrupt_finish_def split: interrupt_end.split)

lemma proc_ok_answer: "proc_ok p \<Longrightarrow> proc_ok (answer_waiter rid r p)"
  by (auto simp: proc_ok_def answer_waiter_def acknowledge_interrupt_def Let_def
    split: option.split sum.split)

lemma proc_ok_result: "proc_ok p \<Longrightarrow> proc_ok (result_frame v p)"
  by (auto simp: proc_ok_def result_frame_def Let_def cas_active_def close_slot_of_def split: option.split)

lemma proc_ok_forward: "proc_ok p \<Longrightarrow> proc_ok (forward_progress de l p)"
  by (auto simp: proc_ok_def forward_progress_def split: option.split)

lemma proc_ok_line: "proc_ok p \<Longrightarrow> proc_ok (reader_line de l p)"
  by (auto simp: reader_line_def Let_def proc_ok_answer proc_ok_result proc_ok_forward
    split: option.split) (simp add: proc_ok_def)

lemma proc_ok_take: "proc_ok p \<Longrightarrow> proc_ok (snd (take_last_result ser de fl p))"
  by (auto simp: proc_ok_def take_last_result_def apply_acknowledged_interrupt_def Let_def
    split: option.split prod.split)

lemma proc_ok_step: "proc_ok p \<Longrightarrow> proc_ok (proc_step ser de fl e p)"
  by (cases e) (simp_all add: proc_step_def proc_ok_begin proc_ok_interrupt proc_ok_finish proc_ok_line
    proc_ok_take, simp_all add: proc_ok_def stderr_line_def)

lemma proc_ok_run: "proc_ok p \<Longrightarrow> proc_ok (run_proc ser de fl es p)"
  by (induction es arbitrary: p) (simp_all add: proc_ok_step)

section \<open>A refused turn\<close>

definition wedged :: "nat \<Rightarrow> 'f claude_proc \<Rightarrow> bool" where
  "wedged n p \<longleftrightarrow> pr_active p = n \<and> n \<noteq> 0 \<and> n < pr_generation p \<and> pr_waiters p = Map.empty"

lemma wedged_refuses:
  "wedged n p \<Longrightarrow> fst (begin_turn_on ser m p) = Inl (''Claude turn '' @ show_nat n @ '' is still active'')"
  by (simp add: wedged_def begin_turn_on_def Let_def)

lemma wedged_line: "wedged n p \<Longrightarrow> wedged n (reader_line de l p)"
  by (auto simp: wedged_def reader_line_def Let_def answer_waiter_def result_frame_def cas_active_def
    close_slot_of_def forward_progress_def split: option.split)

lemma wedged_take: "wedged n p \<Longrightarrow> wedged n (snd (take_last_result ser de fl p))"
  by (auto simp: wedged_def take_last_result_def apply_acknowledged_interrupt_def Let_def
    split: option.split prod.split)

lemma wedged_step: "wedged n p \<Longrightarrow> e \<noteq> SendInterrupt \<Longrightarrow> wedged n (proc_step ser de fl e p)"
  by (cases e) (simp_all add: proc_step_def wedged_line wedged_take, auto simp: wedged_def begin_turn_on_def
    Let_def interrupt_finish_def stderr_line_def split: interrupt_end.split)

lemma wedged_run:
  "wedged n p \<Longrightarrow> SendInterrupt \<notin> set es \<Longrightarrow> wedged n (run_proc ser de fl es p)"
  by (induction es arbitrary: p) (auto simp: wedged_step)

text \<open>
  A turn that is refused because another is running makes the process unusable: the
  refusal has raised the generation, the result of the running turn clears only the newest
  generation, and so whatever the process prints, every later turn is refused too, until the
  process is interrupted or killed.
\<close>

theorem refused_turn_wedges:
  assumes "p = run_proc ser de fl es0 fresh_proc" "pr_active p \<noteq> 0" "pr_waiters p = Map.empty"
    and "SendInterrupt \<notin> set es"
  shows "fst (begin_turn_on ser m' (run_proc ser de fl (Begin m # es) p)) =
     Inl (''Claude turn '' @ show_nat (pr_active p) @ '' is still active'')"
proof -
  have "proc_ok p" unfolding assms(1) by (rule proc_ok_run [OF proc_ok_fresh])
  then have "wedged (pr_active p) (proc_step ser de fl (Begin m) p)"
    using assms(2,3) by (simp add: wedged_def proc_ok_def proc_step_def begin_turn_on_def Let_def)
  then show ?thesis using wedged_run [OF _ assms(4)] wedged_refuses by fastforce
qed

text \<open>One turn runs, a second is refused, the first one's result is printed and read.\<close>

definition sample_result :: json where
  "sample_result = JObj [(''result'', JStr ''ok''), (''type'', JStr ''result'')]"

lemma refused_turn_wedges_witness:
  "fst (begin_turn_on (\<lambda>_. []) ''c''
     (run_proc (\<lambda>_. []) (\<lambda>_. Some sample_result) no_floats [Begin ''b'', OutLine ''r'', TakeResult]
       (run_proc (\<lambda>_. []) (\<lambda>_. Some sample_result) no_floats [Begin ''a''] fresh_proc))) =
   Inl (''Claude turn '' @ show_nat 1 @ '' is still active'')"
  by (subst refused_turn_wedges [OF refl])
     (simp_all add: proc_step_def begin_turn_on_def Let_def fresh_proc_def)

section \<open>The events of a turn\<close>

text \<open>What may happen between the message of a turn and its result.\<close>

definition is_result_line :: "(string \<Rightarrow> json option) \<Rightarrow> string \<Rightarrow> bool" where
  "is_result_line de line \<longleftrightarrow>
     trim line \<noteq> [] \<and>
     (case de (trim line) of Some v \<Rightarrow> claude_control_response v = None \<and> is_result_frame v | None \<Rightarrow> False)"

definition within_turn :: "(string \<Rightarrow> json option) \<Rightarrow> proc_event \<Rightarrow> bool" where
  "within_turn de e \<longleftrightarrow>
     (case e of
        Begin _ \<Rightarrow> False
      | TakeResult \<Rightarrow> False
      | OutLine line \<Rightarrow> \<not> is_result_line de line
      | _ \<Rightarrow> True)"

text \<open>The events a line shows to the user.\<close>

definition shown_line :: "(string \<Rightarrow> json option) \<Rightarrow> string \<Rightarrow> cli_progress list" where
  "shown_line de line =
     (let l = trim line;
          quiet = (l = [] \<or> (case de l of
             Some v \<Rightarrow> claude_control_response v \<noteq> None \<or> is_result_frame v \<or> claude_system_status_output v \<noteq> None
           | None \<Rightarrow> False))
      in if quiet then [] else (case parse_stdout_jsonl_line de l ''claude'' of Some ev \<Rightarrow> [ev] | None \<Rightarrow> []))"

definition shown :: "(string \<Rightarrow> json option) \<Rightarrow> proc_event \<Rightarrow> cli_progress list" where
  "shown de e = (case e of OutLine line \<Rightarrow> shown_line de line | _ \<Rightarrow> [])"

text \<open>In the middle of turn \<open>g\<close>, of which \<open>out\<close> was shown since the log \<open>sent\<close> and the answers \<open>told\<close>.\<close>

definition in_turn ::
  "nat \<Rightarrow> (nat \<times> cli_progress) list \<Rightarrow> (string \<times> (string + unit)) list \<Rightarrow> cli_progress list \<Rightarrow>
   'f claude_proc \<Rightarrow> bool" where
  "in_turn g sent told out p \<longleftrightarrow>
     0 < g \<and> pr_generation p = g \<and> pr_slot p = (g, Some g) \<and> pr_last_result p = None \<and>
     (pr_active p = g \<or> pr_active p = 0) \<and> pr_interrupted p \<le> g \<and>
     (\<forall>rid t. pr_waiters p rid = Some t \<longrightarrow> 0 < t) \<and>
     pr_sent p = sent @ map (Pair g) out \<and>
     (\<exists>new. pr_answers p = told @ new \<and> (pr_interrupted p = g \<longleftrightarrow> (\<exists>rid. (rid, Inr ()) \<in> set new)))"

lemma in_turn_begin:
  assumes "proc_ok p" "begin_turn_on ser m p = (Inr g, q)"
  shows "in_turn g (pr_sent p) (pr_answers p) [] q"
  using assms
  by (auto simp: begin_turn_on_def Let_def in_turn_def proc_ok_def split: if_splits)

lemma in_turn_answer:
  assumes "in_turn g sent told out p"
  shows "in_turn g sent told out (answer_waiter rid r p)"
proof (cases "pr_waiters p rid")
  case None
  with assms show ?thesis by (simp add: answer_waiter_def)
next
  case (Some t)
  from assms obtain new where new: "pr_answers p = told @ new"
    "pr_interrupted p = g \<longleftrightarrow> (\<exists>rid. (rid, Inr ()) \<in> set new)" by (auto simp: in_turn_def)
  have t: "0 < t" using assms Some by (simp add: in_turn_def)
  show ?thesis
  proof (cases "r = Inr () \<and> pr_active p = t")
    case True
    with assms t have g: "t = g" by (auto simp: in_turn_def)
    from True have r: "r = Inr ()" "pr_active p = t" by simp_all
    show ?thesis
      using assms new g Some
      by (simp add: answer_waiter_def acknowledge_interrupt_def r Let_def in_turn_def) blast
  next
    case False
    then obtain e where e: "acknowledge_interrupt r t (p\<lparr>pr_waiters := (pr_waiters p)(rid := None)\<rparr>) =
        (Inl e, p\<lparr>pr_waiters := (pr_waiters p)(rid := None)\<rparr>)"
      by (cases r) (auto simp: acknowledge_interrupt_def)
    show ?thesis
      using assms new by (auto simp: answer_waiter_def Some e in_turn_def)
  qed
qed

lemma in_turn_forward:
  assumes "in_turn g sent told out p"
  shows "in_turn g sent told
    (out @ (case parse_stdout_jsonl_line de l ''claude'' of Some ev \<Rightarrow> [ev] | None \<Rightarrow> [])) (forward_progress de l p)"
  using assms by (auto simp: in_turn_def forward_progress_def split: option.split)

lemma in_turn_line:
  assumes "in_turn g sent told out p" "\<not> is_result_line de line"
  shows "in_turn g sent told (out @ shown_line de line) (reader_line de line p)"
proof (cases "trim line = []")
  case True
  with assms show ?thesis by (simp add: reader_line_def shown_line_def)
next
  case nonempty: False
  show ?thesis
  proof (cases "de (trim line)")
    case None
    with nonempty show ?thesis
      using in_turn_forward [OF assms(1)] by (simp add: reader_line_def shown_line_def)
  next
    case (Some v)
    show ?thesis
    proof (cases "claude_control_response v")
      case None
      with assms(2) nonempty Some have "\<not> is_result_frame v" by (simp add: is_result_line_def)
      then show ?thesis
        using nonempty Some None assms(1) in_turn_forward [OF assms(1)]
        by (cases "claude_system_status_output v") (auto simp: reader_line_def shown_line_def in_turn_def)
    next
      case (Some a)
      with nonempty \<open>de (trim line) = Some v\<close> show ?thesis
        using in_turn_answer [OF assms(1)] by (cases a) (simp add: reader_line_def shown_line_def)
    qed
  qed
qed

lemma in_turn_step:
  assumes "in_turn g sent told out p" "within_turn de e"
  shows "in_turn g sent told (out @ shown de e) (proc_step ser de fl e p)"
proof (cases e)
  case (OutLine line)
  with assms show ?thesis by (simp add: proc_step_def within_turn_def shown_def in_turn_line)
next
  case SendInterrupt
  with assms show ?thesis
    by (auto simp: proc_step_def shown_def in_turn_def interrupt_send_def Let_def)
qed (use assms in \<open>auto simp: proc_step_def shown_def within_turn_def in_turn_def interrupt_finish_def
       stderr_line_def split: interrupt_end.split\<close>)

lemma in_turn_run:
  assumes "in_turn g sent told out p" "\<forall>e \<in> set es. within_turn de e"
  shows "in_turn g sent told (out @ concat (map (shown de) es)) (run_proc ser de fl es p)"
  using assms
proof (induction es arbitrary: p out)
  case (Cons e es)
  from Cons.IH [OF in_turn_step [OF Cons.prems(1)]] Cons.prems(2) show ?case by force
qed simp

lemma reader_result:
  "trim line \<noteq> [] \<Longrightarrow> de (trim line) = Some v \<Longrightarrow> is_result_frame v \<Longrightarrow> reader_line de line p = result_frame v p"
  by (simp add: reader_line_def Let_def is_result_frame_def claude_control_response_def)

lemma result_frame_ends:
  assumes "in_turn g sent told out p"
  shows "pr_active (result_frame v p) = 0" "pr_slot (result_frame v p) = (g, None)"
    "pr_last_result (result_frame v p) = Some v" "pr_sent (result_frame v p) = pr_sent p"
    "pr_generation (result_frame v p) = g" "pr_interrupted (result_frame v p) = pr_interrupted p"
    "pr_answers (result_frame v p) = pr_answers p"
  using assms
  by (auto simp: in_turn_def result_frame_def Let_def cas_active_def close_slot_of_def split: option.split)

lemma turn_end:
  assumes "begin_turn_on ser m (run_proc ser de fl es0 fresh_proc) = (Inr g, q)"
    and "\<forall>e \<in> set es. within_turn de e"
    and "trim line \<noteq> []" "de (trim line) = Some v" "is_result_frame v"
  defines "p \<equiv> run_proc ser de fl es0 fresh_proc" and "mid \<equiv> run_proc ser de fl es q"
  shows "in_turn g (pr_sent p) (pr_answers p) (concat (map (shown de) es)) mid"
    and "run_proc ser de fl (es @ [OutLine line]) q = result_frame v mid"
    and "pr_last_result (run_proc ser de fl (es @ [OutLine line]) q) = Some v"
proof -
  have "proc_ok p" unfolding p_def by (rule proc_ok_run [OF proc_ok_fresh])
  from in_turn_run [OF in_turn_begin [OF this assms(1) [folded p_def]] assms(2), of ser fl]
  show mid: "in_turn g (pr_sent p) (pr_answers p) (concat (map (shown de) es)) mid" by (simp add: mid_def)
  show "run_proc ser de fl (es @ [OutLine line]) q = result_frame v mid"
    using assms(3-5) by (simp add: run_proc_append proc_step_def reader_result mid_def)
  with result_frame_ends(3) [OF mid]
  show "pr_last_result (run_proc ser de fl (es @ [OutLine line]) q) = Some v" by simp
qed

text \<open>Whose result a line is: how many messages were written to the process, and how many result
  lines were read from it.\<close>

definition messages_written :: "'f claude_proc \<Rightarrow> nat" where
  "messages_written p = length (filter (\<lambda>c. case c of UserMessage _ \<Rightarrow> True | Interrupt _ \<Rightarrow> False) (pr_stdin p))"

definition results_read :: "(string \<Rightarrow> json option) \<Rightarrow> proc_event list \<Rightarrow> nat" where
  "results_read de es = length (filter (\<lambda>e. case e of OutLine line \<Rightarrow> is_result_line de line | _ \<Rightarrow> False) es)"

lemma written_line: "pr_stdin (reader_line de line p) = pr_stdin p"
  by (auto simp: reader_line_def Let_def claude_ops answer_waiter_def split: option.split sum.split)

lemma written_take: "pr_stdin (snd (take_last_result ser de fl p)) = pr_stdin p"
  by (auto simp: take_last_result_def apply_acknowledged_interrupt_def Let_def split: option.split prod.split)

lemma written_step:
  "(\<forall>m. e \<noteq> Begin m) \<Longrightarrow> messages_written (proc_step ser de fl e p) = messages_written p"
  by (cases e) (auto simp: proc_step_def messages_written_def written_line written_take interrupt_send_def
    interrupt_finish_def stderr_line_def Let_def split: interrupt_end.split)

lemma written_within:
  "\<forall>e \<in> set es. within_turn de e \<Longrightarrow> messages_written (run_proc ser de fl es p) = messages_written p"
proof (induction es arbitrary: p)
  case (Cons e es)
  then have "\<forall>m. e \<noteq> Begin m" by (auto simp: within_turn_def)
  from written_step [OF this, of ser de fl p] Cons show ?case by simp
qed simp

lemma written_begin:
  "begin_turn_on ser m p = (Inr g, q) \<Longrightarrow> messages_written q = Suc (messages_written p)"
  by (auto simp: begin_turn_on_def Let_def messages_written_def split: if_splits)

lemma none_read_within: "\<forall>e \<in> set es. within_turn de e \<Longrightarrow> results_read de es = 0"
  by (induction es) (auto simp: results_read_def within_turn_def split: proc_event.splits)

lemma results_read_append: "results_read de (es @ es') = results_read de es + results_read de es'"
  by (simp add: results_read_def)

lemma one_more_read:
  "trim line \<noteq> [] \<Longrightarrow> de (trim line) = Some v \<Longrightarrow> is_result_frame v \<Longrightarrow> results_read de [OutLine line] = 1"
  by (simp add: results_read_def is_result_line_def is_result_frame_def claude_control_response_def)


definition sample_output :: "string \<Rightarrow> json option" where
  "sample_output l =
     (if l = ''e'' then Some (JObj [(''event'', JObj [(''delta'', JObj [(''text'', JStr ''hi''),
          (''type'', JStr ''text_delta'')]), (''type'', JStr ''content_block_delta'')]),
          (''type'', JStr ''stream_event'')])
      else if l = ''r'' then Some sample_result
      else if l = ''x'' then Some (JObj [(''is_error'', JBool True), (''type'', JStr ''result'')])
      else if l = ''k'' then Some (JObj [(''response'', JObj [(''request_id'', JStr (interrupt_id 1)),
          (''subtype'', JStr ''success'')]), (''type'', JStr ''control_response'')])
      else None)"

lemma sample_lines:
  "trim ''r'' = ''r''" "trim ''x'' = ''x''" "trim ''k'' = ''k''"
  "shown_line sample_output ''e'' = [Token ''hi'']"
  "is_result_line sample_output ''e'' = False"
  by code_simp+


section \<open>Interrupted turns\<close>

lemma error_kind_kept:
  "cr_error_kind (apply_claude_system_status_output out r) = cr_error_kind r"
  "cr_error_kind (fst (normalize_claude_pool_usage de fl r s)) = cr_error_kind r"
  by (simp_all add: apply_claude_system_status_output_def normalize_claude_pool_usage_def Let_def charge_def
    split: option.split)

lemma take_error_kind:
  assumes "pr_last_result p = Some v" "take_last_result ser de fl p = (Some r, p')"
  shows "cr_error_kind r =
    (if pr_interrupted p = pr_generation p \<and> \<not> cr_success (parse_claude_result_value ser de fl v 0)
     then Some CLAUDE_INTERRUPTED_ERROR_KIND else cr_error_kind (parse_claude_result_value ser de fl v 0))"
proof -
  define r1 where "r1 = fst (apply_acknowledged_interrupt (parse_claude_result_value ser de fl v 0)
      (pr_generation p) (p\<lparr>pr_last_result := None\<rparr>))"
  define r2 where "r2 = apply_claude_system_status_output (pr_status_output p) r1"
  have "r = fst (normalize_claude_pool_usage de fl
      (if cr_tool_calls_count r2 = Some 1 then r2\<lparr>cr_tool_calls_count := None\<rparr> else r2) (pr_usage p))"
    using assms
    by (simp add: take_last_result_def Let_def case_prod_beta r2_def r1_def apply_acknowledged_interrupt_def
      split: if_splits)
  then have "cr_error_kind r = cr_error_kind r1"
    by (simp add: error_kind_kept r2_def)
  then show ?thesis
    by (simp add: r1_def apply_acknowledged_interrupt_def mark_result_interrupted_def)
qed

lemma claude_kinds:
  "cr_error_kind (parse_claude_result_value ser de fl v e) \<noteq> Some CLAUDE_INTERRUPTED_ERROR_KIND"
  by (auto simp: parse_claude_result_value_def Let_def or_else_def default_error_kind_def
    detect_claude_provider_error_def CLAUDE_INTERRUPTED_ERROR_KIND_def split: option.split)


text \<open>The frame is an error, and the interrupt of the turn was acknowledged before it.\<close>

definition failing_frame :: json where
  "failing_frame = JObj [(''is_error'', JBool True), (''type'', JStr ''result'')]"

definition interrupted_turn :: "proc_event list" where
  "interrupted_turn = [SendInterrupt, OutLine ''k'']"

definition begun :: "nat claude_proc" where
  "begun = snd (begin_turn_on (\<lambda>_. []) ''a'' fresh_proc)"

lemma interrupted_answers:
  "pr_answers (run_proc (\<lambda>_. []) sample_output no_floats interrupted_turn begun) = [(interrupt_id 1, Inr ())]"
  by (simp add: interrupted_turn_def begun_def begin_turn_on_def Let_def fresh_proc_def proc_step_def
    interrupt_send_def reader_line_def sample_lines sample_output_def claude_control_response_def jfield_def
    jget_def answer_waiter_def acknowledge_interrupt_def)

lemma failing_frame_fails: "\<not> cr_success (parse_claude_result_value (\<lambda>_. []) sample_output no_floats failing_frame 0)"
  by (simp add: parse_claude_result_value_def Let_def detect_claude_provider_error_def failing_frame_def
    jfield_def jget_def)


section \<open>A result that comes late\<close>

text \<open>
  A turn whose interrupt was acknowledged frees the process before its result is
  printed. When the next turn is begun in between, that result is taken for the next turn's: its
  channel is closed, the process counts as idle while it still works on the second message, and the
  failure is reported as a provider error and not as an interrupt.
\<close>

theorem late_result_taken:
  assumes "p = run_proc ser de fl es0 fresh_proc" "pr_active p = 0" "pr_stdin_open p"
    and "trim line \<noteq> []" "de (trim line) = Some v" "is_result_frame v"
    and q_def: "q = run_proc ser de fl [Begin m, OutLine line] p"
  shows "pr_active q = 0 \<and> snd (pr_slot q) = None \<and> pr_last_result q = Some v \<and>
    (\<forall>r q'. take_last_result ser de fl q = (Some r, q') \<longrightarrow>
       cr_error_kind r = cr_error_kind (parse_claude_result_value ser de fl v 0))"
proof -
  have ok: "proc_ok p" unfolding assms(1) by (rule proc_ok_run [OF proc_ok_fresh])
  obtain b where b: "begin_turn_on ser m p = (Inr (Suc (pr_generation p)), b)"
    "pr_interrupted b = pr_interrupted p"
    using assms(2,3) by (simp add: begin_turn_on_def Let_def)
  have q: "q = result_frame v b"
    using assms(4-6) b(1) by (simp add: q_def proc_step_def reader_result)
  note ends = result_frame_ends [OF in_turn_begin [OF ok b(1)], of v]
  have "pr_interrupted q \<noteq> pr_generation q"
    using ok by (simp add: q ends b(2) proc_ok_def)
  then show ?thesis using take_error_kind [of q v] by (auto simp: q ends)
qed

lemma late_result_taken_witness:
  "pr_active (run_proc (\<lambda>_. []) sample_output no_floats [Begin ''b'', OutLine ''x'']
     (run_proc (\<lambda>_. []) sample_output no_floats ([Begin ''a''] @ interrupted_turn) fresh_proc)) = 0"
proof -
  have x: "sample_output ''x'' = Some failing_frame" by (simp add: sample_output_def failing_frame_def)
  have frame: "is_result_frame failing_frame" by (simp add: is_result_frame_def failing_frame_def jfield_def jget_def)
  have free: "pr_active (run_proc (\<lambda>_. []) sample_output no_floats ([Begin ''a''] @ interrupted_turn) fresh_proc) = 0"
    "pr_stdin_open (run_proc (\<lambda>_. []) sample_output no_floats ([Begin ''a''] @ interrupted_turn) fresh_proc)"
    by (simp_all add: interrupted_turn_def begin_turn_on_def Let_def fresh_proc_def proc_step_def
      interrupt_send_def reader_line_def sample_lines sample_output_def claude_control_response_def
      jfield_def jget_def answer_waiter_def acknowledge_interrupt_def)
  show ?thesis
    using late_result_taken [OF refl free, where line = "''x''" and v = failing_frame, OF _ _ frame refl] x
    by (simp add: sample_lines)
qed

end
