(* ===== verification/Astra_Stream.thy ===== *)
theory Astra_Stream
  imports Json
begin

text \<open>
  The stream of events of the astra server, as the thin client reads it (\<open>astra/src/sse.rs\<close>,
  \<open>protocol.rs\<close> and \<open>client.rs\<close>): bytes arrive in chunks, a blank line ends an event, the
  \<open>data:\<close> lines of an event are one JSON object, and the object's \<open>type\<close> names the event.

  \<open>de\<close> and \<open>de_err\<close> are \<open>serde_json\<close>'s \<open>from_str\<close> and the text of its error, \<open>utf_err\<close> the text
  of the error of \<open>from_utf8\<close>. A transport error carries whether it may succeed on retry.
\<close>

datatype client_error =
    InvalidBaseUrl string
  | InvalidAuthHeader
  | Http bool string
  | Api nat string
  | SseParse string
  | InvalidInput string
  | InvalidSseJson json
  | JsonError string

definition is_transport :: "client_error \<Rightarrow> bool" where
  "is_transport e = (case e of Http retry _ \<Rightarrow> retry | _ \<Rightarrow> False)"

section \<open>Events\<close>

datatype approval_kind = Standard | Explicit

datatype stream_event =
    SessionInfo string "string option"
  | TextDelta json
  | TextDone json
  | ReasoningMessageContent json
  | ReasoningDelta json
  | ThinkingDelta json
  | ThinkingDone
  | ReasoningDone
  | ToolCallStart json json "json option"
  | ToolCallEnd json json
  | ToolRequest string string json
  | PlanCreated json
  | PlanStepStart json
  | PlanStepDone json json
  | PlanRevised json
  | PlanUpdate json
  | AgentDelegated json json
  | AgentSpawned string string string string string "nat option" json
  | AgentProgress string "string option" json
  | AgentCompleted string "string option" json
  | RunStarted "string option" "string option"
  | RunPaused "string option"
  | RunResumed "string option"
  | RunCancelled "string option"
  | RunFinished "string option" "string option" "string option"
  | Usage "nat option" "nat option" "nat option" "nat option" "nat option" "nat option" json
  | TurnComplete "string option" "string option" json
  | Warning string "nat option" json
  | Explain string json
  | Ping
  | Done "nat option" json
  | ApprovalRequired string string approval_kind "string option" "string option" json
  | ErrorEvent string "string option" bool json
  | Other string json

definition get_str :: "json \<Rightarrow> string \<Rightarrow> string" where
  "get_str v k = (case Option.bind (jget v k) as_str of Some s \<Rightarrow> s | None \<Rightarrow> [])"

definition optional_str :: "json \<Rightarrow> string \<Rightarrow> string option" where
  "optional_str v k = Option.bind (jget v k) as_str"

definition get_u64 :: "json \<Rightarrow> string \<Rightarrow> nat option" where
  "get_u64 v k = Option.bind (jget v k) as_u64"

definition value_or :: "json \<Rightarrow> json \<Rightarrow> string \<Rightarrow> json" where
  "value_or d v k = (case jget v k of Some x \<Rightarrow> x | None \<Rightarrow> d)"

text \<open>\<open>from_value\<close> of an enum: its name, or an object of that one name with null.\<close>

definition approval_kind_of :: "json \<Rightarrow> approval_kind option" where
  "approval_kind_of v =
     (let name = (case v of JStr s \<Rightarrow> Some s | JObj [(k, JNull)] \<Rightarrow> Some k | _ \<Rightarrow> None)
      in if name = Some ''standard'' then Some Standard
         else if name = Some ''explicit'' then Some Explicit else None)"

definition tokens_used :: "json \<Rightarrow> nat option" where
  "tokens_used v =
     or_else (get_u64 v ''tokens_used'')
       (map_option (\<lambda>i. nat (i mod 2 ^ 64)) (Option.bind (jget v ''tokens_used'') as_i64))"

definition event_of_object :: "json \<Rightarrow> stream_event" where
  "event_of_object v =
     (let ty = get_str v ''type''; val = value_or JNull v; s = get_str v; os = optional_str v; n = get_u64 v in
      if ty = ''session_info'' then SessionInfo (s ''session_id'') (os ''run_id'')
      else if ty = ''text_delta'' then TextDelta (val ''content'')
      else if ty = ''text_done'' then TextDone (val ''full_text'')
      else if ty = ''reasoning_message_content'' then ReasoningMessageContent (val ''content'')
      else if ty = ''reasoning_delta'' then ReasoningDelta (val ''content'')
      else if ty = ''thinking_delta'' then ThinkingDelta (val ''content'')
      else if ty = ''thinking_done'' then ThinkingDone
      else if ty = ''reasoning_done'' then ReasoningDone
      else if ty = ''tool_call_start'' then
        ToolCallStart (val ''tool'') (val ''call_id'') (jget v ''arguments'')
      else if ty = ''tool_call_end'' \<or> ty = ''tool_result'' then ToolCallEnd (val ''call_id'') (val ''result'')
      else if ty = ''tool_request'' then
        ToolRequest (s ''request_id'') (s ''tool'') (value_or (JObj []) v ''args'')
      else if ty = ''plan_created'' then PlanCreated (value_or (JObj []) v ''plan'')
      else if ty = ''plan_step_start'' then PlanStepStart (val ''step'')
      else if ty = ''plan_step_done'' then PlanStepDone (val ''step'') (val ''result'')
      else if ty = ''plan_revised'' then PlanRevised (value_or (JObj []) v ''plan'')
      else if ty = ''plan_update'' then PlanUpdate v
      else if ty = ''agent_delegated'' then AgentDelegated (val ''agent_id'') (val ''task'')
      else if ty = ''agent_spawned'' then
        AgentSpawned (s ''agent_id'') (s ''run_id'') (s ''parent_run_id'') (s ''agent_type'')
          (s ''description'') (n ''timestamp'') v
      else if ty = ''agent_progress'' then AgentProgress (s ''agent_id'') (os ''status'') v
      else if ty = ''agent_completed'' then AgentCompleted (s ''agent_id'') (os ''status'') v
      else if ty = ''run_started'' then RunStarted (os ''run_id'') (os ''session_id'')
      else if ty = ''run_paused'' then RunPaused (os ''run_id'')
      else if ty = ''run_resumed'' then RunResumed (os ''run_id'')
      else if ty = ''run_cancelled'' then RunCancelled (os ''run_id'')
      else if ty = ''run_finished'' then RunFinished (os ''run_id'') (os ''status'') (os ''error'')
      else if ty = ''usage'' then
        Usage (n ''input_tokens'') (n ''output_tokens'') (n ''cached_input_tokens'')
          (n ''cache_creation_tokens'') (n ''total_tokens'') (n ''tool_call_count'') v
      else if ty = ''turn_complete'' then
        TurnComplete (os ''assistant_text'') (os ''followup_suggestion'') v
      else if ty = ''warning'' then Warning (s ''message'') (n ''claims_failed'') v
      else if ty = ''explain'' then Explain (s ''content'') v
      else if ty = ''ping'' then Ping
      else if ty = ''done'' then Done (tokens_used v) v
      else if ty = ''approval_required'' then
        ApprovalRequired (s ''request_id'') (s ''tool'')
          (case Option.bind (jget v ''approval_kind'') approval_kind_of of Some k \<Rightarrow> k | None \<Rightarrow> Explicit)
          (os ''path'') (or_else (os ''detail'') (os ''path'')) v
      else if ty = ''error'' then
        ErrorEvent (s ''message'') (os ''code'') (Option.bind (jget v ''retryable'') as_bool = Some True) v
      else Other ty v)"

definition classify_stream_event :: "json \<Rightarrow> client_error + stream_event" where
  "classify_stream_event v =
     (case v of JObj _ \<Rightarrow> Inr (event_of_object v) | _ \<Rightarrow> Inl (InvalidSseJson v))"

section \<open>Blocks of lines\<close>

text \<open>\<open>from_utf8\<close> accepts well-formed UTF-8, each sequence in its shortest form and no surrogates.\<close>

definition in_range :: "nat \<Rightarrow> nat \<Rightarrow> char \<Rightarrow> bool" where
  "in_range a b c \<longleftrightarrow> a \<le> byte c \<and> byte c \<le> b"

fun utf8 :: "string \<Rightarrow> bool" where
  "utf8 [] = True"
| "utf8 (a # s) =
     (if byte a < 128 then utf8 s
      else if in_range 0xC2 0xDF a then
        (case s of b # t \<Rightarrow> is_cont b \<and> utf8 t | _ \<Rightarrow> False)
      else if in_range 0xE0 0xEF a then
        (case s of b # c # t \<Rightarrow>
           in_range (if byte a = 0xE0 then 0xA0 else 0x80) (if byte a = 0xED then 0x9F else 0xBF) b \<and>
           is_cont c \<and> utf8 t
         | _ \<Rightarrow> False)
      else if in_range 0xF0 0xF4 a then
        (case s of b # c # d # t \<Rightarrow>
           in_range (if byte a = 0xF0 then 0x90 else 0x80) (if byte a = 0xF4 then 0x8F else 0xBF) b \<and>
           is_cont c \<and> is_cont d \<and> utf8 t
         | _ \<Rightarrow> False)
      else False)"

definition is_line_end :: "char \<Rightarrow> bool" where
  "is_line_end c \<longleftrightarrow> c = CHR 0x0D \<or> c = CHR 0x0A"

definition trim_end_line :: "string \<Rightarrow> string" where
  "trim_end_line l = rev (dropWhile is_line_end (rev l))"

text \<open>\<open>split_inclusive\<close>; the line feed of a line is trimmed in any case, so the pieces are split without it.\<close>

definition data_of_line :: "string \<Rightarrow> string option" where
  "data_of_line line =
     (let l = trim_end_line line in
      if l = [] then None
      else map_option (trim_start_matches (CHR '' '')) (strip_prefix ''data:'' l))"

definition parse_event_block :: "string \<Rightarrow> string option" where
  "parse_event_block block =
     (case List.map_filter data_of_line (split_char (CHR 0x0A) block) of
        [] \<Rightarrow> None
      | ds \<Rightarrow> Some (join [CHR 0x0A] ds))"

section \<open>The parser\<close>

text \<open>Where the first event ends and where the rest begins.\<close>

definition LFLF :: string where
  "LFLF = [CHR 0x0A, CHR 0x0A]"

definition CRLFCRLF :: string where
  "CRLFCRLF = [CHR 0x0D, CHR 0x0A, CHR 0x0D, CHR 0x0A]"

definition find_event_separator :: "string \<Rightarrow> (nat \<times> nat) option" where
  "find_event_separator buf =
     (case find_sub LFLF buf of
        Some i \<Rightarrow> Some (i, i + 2)
      | None \<Rightarrow> map_option (\<lambda>i. (i, i + 4)) (find_sub CRLFCRLF buf))"

text \<open>\<open>from_str\<close> and the classification of its value.\<close>

definition decode_event ::
  "(string \<Rightarrow> json option) \<Rightarrow> (string \<Rightarrow> string) \<Rightarrow> string \<Rightarrow> client_error + stream_event" where
  "decode_event de de_err s =
     (case de s of Some v \<Rightarrow> classify_stream_event v | None \<Rightarrow> Inl (JsonError (de_err s)))"

text \<open>One block: nothing when it has no data, else one event. \<open>bad\<close> says that it is no UTF-8.\<close>

definition block_events ::
  "(string \<Rightarrow> client_error) \<Rightarrow> (string \<Rightarrow> client_error + stream_event) \<Rightarrow> string \<Rightarrow>
   client_error + stream_event list" where
  "block_events bad decode block =
     (if \<not> utf8 block then Inl (bad block)
      else case parse_event_block block of
        None \<Rightarrow> Inr []
      | Some d \<Rightarrow> bind_ok (decode d) (\<lambda>ev. Inr [ev]))"

lemma separator_bound: "find_event_separator buf = Some (i, j) \<Longrightarrow> i < j \<and> j \<le> length buf"
  by (auto simp: find_event_separator_def LFLF_def CRLFCRLF_def dest: find_sub_bound split: option.splits)

text \<open>On an error the buffer keeps the failing block and the events before it are dropped.\<close>

function drain_complete_events ::
  "(string \<Rightarrow> client_error) \<Rightarrow> (string \<Rightarrow> client_error + stream_event) \<Rightarrow> string \<Rightarrow>
   (client_error + stream_event list) \<times> string" where
  "drain_complete_events bad decode buf =
     (case find_event_separator buf of
        None \<Rightarrow> (Inr [], buf)
      | Some (i, j) \<Rightarrow>
          (case block_events bad decode (take i buf) of
             Inl e \<Rightarrow> (Inl e, buf)
           | Inr evs \<Rightarrow>
               (case drain_complete_events bad decode (drop j buf) of
                  (Inl e, rest) \<Rightarrow> (Inl e, rest)
                | (Inr evs', rest) \<Rightarrow> (Inr (evs @ evs'), rest))))"
  by pat_completeness auto
termination
  by (relation "measure (\<lambda>(_, _, buf). length buf)") (auto dest: separator_bound)

declare drain_complete_events.simps [simp del]

definition push_bytes ::
  "(string \<Rightarrow> client_error) \<Rightarrow> (string \<Rightarrow> client_error + stream_event) \<Rightarrow> string \<Rightarrow> string \<Rightarrow>
   (client_error + stream_event list) \<times> string" where
  "push_bytes bad decode chunk buf = drain_complete_events bad decode (buf @ chunk)"

definition sse_finish ::
  "(string \<Rightarrow> client_error) \<Rightarrow> (string \<Rightarrow> client_error + stream_event) \<Rightarrow> string \<Rightarrow>
   client_error + stream_event list" where
  "sse_finish bad decode buf = (if buf = [] then Inr [] else block_events bad decode buf)"

record sse_env =
  se_decode :: "string \<Rightarrow> client_error + stream_event"
  se_bad_block :: "string \<Rightarrow> client_error"
  se_bad_rest :: "string \<Rightarrow> client_error"

definition astra_env ::
  "(string \<Rightarrow> json option) \<Rightarrow> (string \<Rightarrow> string) \<Rightarrow> (string \<Rightarrow> string) \<Rightarrow> sse_env" where
  "astra_env de de_err utf_err =
     \<lparr>se_decode = decode_event de de_err,
      se_bad_block = (\<lambda>b. SseParse (''invalid UTF-8 in SSE: '' @ utf_err b)),
      se_bad_rest = (\<lambda>b. SseParse (''invalid UTF-8 in SSE buffer: '' @ utf_err b))\<rparr>"

definition parse_sse_body :: "sse_env \<Rightarrow> string \<Rightarrow> client_error + stream_event list" where
  "parse_sse_body env body =
     (case push_bytes (se_bad_block env) (se_decode env) body [] of
        (Inl e, _) \<Rightarrow> Inl e
      | (Inr evs, buf) \<Rightarrow>
          bind_ok (sse_finish (se_bad_rest env) (se_decode env) buf) (\<lambda>evs'. Inr (evs @ evs')))"

section \<open>Streams of chunks\<close>

text \<open>
  \<open>chat_stream\<close> and \<open>stream_run\<close>: what is yielded for the chunks of a response, whose
  transport may fail in between, and \<open>chat_stream_collect\<close>, which stops at the first error.
\<close>

fun stream_items :: "sse_env \<Rightarrow> (client_error + string) list \<Rightarrow> string \<Rightarrow> (client_error + stream_event) list" where
  "stream_items env [] buf =
     (case sse_finish (se_bad_rest env) (se_decode env) buf of
        Inl e \<Rightarrow> [Inl e]
      | Inr evs \<Rightarrow> map Inr evs)"
| "stream_items env (Inl e # chunks) buf = [Inl e]"
| "stream_items env (Inr chunk # chunks) buf =
     (case push_bytes (se_bad_block env) (se_decode env) chunk buf of
        (Inl e, _) \<Rightarrow> [Inl e]
      | (Inr evs, buf') \<Rightarrow> map Inr evs @ stream_items env chunks buf')"

definition chat_stream_collect :: "sse_env \<Rightarrow> (client_error + string) list \<Rightarrow> client_error + stream_event list" where
  "chat_stream_collect env chunks = all_ok (stream_items env chunks [])"

section \<open>Retries of a turn\<close>

text \<open>
  \<open>post_chat_turn_retry_429\<close>: the server's answer to the \<open>n\<close>-th attempt is \<open>post n\<close>, a status with
  the seconds of its \<open>Retry-After\<close> header, or an error. Logged are the delays.
\<close>

definition parse_retry_after :: "string option \<Rightarrow> nat option" where
  "parse_retry_after header =
     map_option (\<lambda>s. max 1 (min 120 s))
       (Option.bind header (\<lambda>raw. parse_uint (2 ^ 64 - 1) (trim raw)))"

function post_from ::
  "(nat \<Rightarrow> client_error + (nat \<times> string option)) \<Rightarrow> nat \<Rightarrow> nat \<Rightarrow> client_error option \<Rightarrow>
   (client_error + (nat \<times> string option)) \<times> nat list" where
  "post_from post max_attempts attempt last_err =
     (if attempt < max_attempts then
        (case post attempt of
           Inr (status, header) \<Rightarrow>
             if status = 429 \<and> attempt + 1 < max_attempts then
               (let delay = (case parse_retry_after header of
                      Some d \<Rightarrow> d | None \<Rightarrow> (2 * 2 ^ (attempt mod 64)) mod 2 ^ 64);
                    (r, ds) = post_from post max_attempts (Suc attempt) last_err
                in (r, delay # ds))
             else (Inr (status, header), [])
         | Inl e \<Rightarrow>
             if attempt + 1 < max_attempts \<and> is_transport e then
               (let delay = (2 ^ (attempt mod 64)) mod 2 ^ 64;
                    (r, ds) = post_from post max_attempts (Suc attempt) (Some e)
                in (r, delay # ds))
             else (Inl e, []))
      else (Inl (case last_err of Some e \<Rightarrow> e | None \<Rightarrow> SseParse ''retry exhausted''), []))"
  by pat_completeness auto
termination
  by (relation "measure (\<lambda>(_, m, a, _). m - a)") auto

declare post_from.simps [simp del]

definition post_chat_turn_retry_429 ::
  "(nat \<Rightarrow> client_error + (nat \<times> string option)) \<Rightarrow> nat \<Rightarrow>
   (client_error + (nat \<times> string option)) \<times> nat list" where
  "post_chat_turn_retry_429 post max_attempts = post_from post max_attempts 0 None"

end
