(* ===== verification/Astra_Props.thy ===== *)
theory Astra_Props
  imports Astra_Stream
begin

text \<open>
  How the stream of the astra server is read: the events do not depend on where the chunks end when
  the stream keeps to one kind of line end, but do when it mixes them; events that were
  rendered are read back; and a turn is tried a bounded number of times.
\<close>

section \<open>Separators and chunks\<close>

text \<open>The body has no carriage return, or no two line feeds in a row.\<close>

definition one_ending :: "string \<Rightarrow> bool" where
  "one_ending body \<longleftrightarrow> CHR 0x0D \<notin> set body \<or> \<not> sublist LFLF body"

lemma one_ending_part: "sublist b body \<Longrightarrow> one_ending body \<Longrightarrow> one_ending b"
  unfolding one_ending_def by (meson set_mono_sublist sublist_order.order.trans subsetD)

lemma one_ending_append: "one_ending (b @ c) \<Longrightarrow> one_ending b \<and> one_ending c"
  by (blast intro: one_ending_part sublist_appendI sublist_append_leftI sublist_append_rightI)

lemma separator_append:
  assumes "find_event_separator b = Some p" "one_ending (b @ c)"
  shows "find_event_separator (b @ c) = Some p"
proof (cases "find_sub LFLF b")
  case None
  with assms(1) obtain i where i: "find_sub CRLFCRLF b = Some i" "p = (i, i + 4)"
    by (auto simp: find_event_separator_def)
  then have "sublist CRLFCRLF b" by (metis find_sub_None option.distinct(1))
  then have "CHR 0x0D \<in> set b" using set_mono_sublist [of CRLFCRLF b] by (auto simp: CRLFCRLF_def)
  with assms(2) have "find_sub LFLF (b @ c) = None" by (simp add: one_ending_def find_sub_None)
  with i find_sub_append [OF i(1)] show ?thesis by (simp add: find_event_separator_def)
qed (use assms in \<open>simp add: find_event_separator_def find_sub_append\<close>)

definition after_events :: "'b list \<Rightarrow> ('e + 'b list) \<times> string \<Rightarrow> ('e + 'b list) \<times> string" where
  "after_events evs r = (case r of (Inl e, b) \<Rightarrow> (Inl e, b) | (Inr evs', b) \<Rightarrow> (Inr (evs @ evs'), b))"

lemma after_events_simps [simp]:
  "after_events evs (Inl e, b) = (Inl e, b)" "after_events evs (Inr evs', b) = (Inr (evs @ evs'), b)"
  by (simp_all add: after_events_def)

lemma after_events_append: "after_events xs (after_events ys r) = after_events (xs @ ys) r"
  by (auto simp: after_events_def split: prod.split sum.split)

lemma after_events_Nil: "after_events [] r = r"
  by (auto simp: after_events_def split: prod.split sum.split)

lemma drain_none: "find_event_separator b = None \<Longrightarrow> drain_complete_events bad dec b = (Inr [], b)"
  by (simp add: drain_complete_events.simps)

lemma drain_some:
  "find_event_separator b = Some (i, j) \<Longrightarrow>
   drain_complete_events bad dec b =
     (case block_events bad dec (take i b) of
        Inl e \<Rightarrow> (Inl e, b)
      | Inr evs \<Rightarrow> after_events evs (drain_complete_events bad dec (drop j b)))"
  by (subst drain_complete_events.simps) (simp add: after_events_def split: sum.split)

lemma drain_rest: "drain_complete_events bad dec b = (Inr evs, r) \<Longrightarrow> find_event_separator r = None"
proof (induction bad dec b arbitrary: evs rule: drain_complete_events.induct)
  case (1 bad dec b)
  show ?case
  proof (cases "find_event_separator b")
    case None
    with "1.prems" show ?thesis by (simp add: drain_none)
  next
    case (Some p)
    then obtain i j where p: "find_event_separator b = Some (i, j)" by (cases p) simp
    with "1.prems" obtain evs' where e: "block_events bad dec (take i b) = Inr evs'"
      by (auto simp: drain_some split: sum.splits)
    obtain m r' where d: "drain_complete_events bad dec (drop j b) = (m, r')" by (cases "drain_complete_events bad dec (drop j b)")
    with "1.prems" p e show ?thesis
      using "1.IH" [OF p refl e] by (cases m) (auto simp: drain_some)
  qed
qed

lemma drain_suffix: "drain_complete_events bad dec b = (m, r) \<Longrightarrow> suffix r b"
proof (induction bad dec b arbitrary: m r rule: drain_complete_events.induct)
  case (1 bad dec b)
  show ?case
  proof (cases "find_event_separator b")
    case None
    with "1.prems" show ?thesis by (simp add: drain_none)
  next
    case (Some p)
    then obtain i j where p: "find_event_separator b = Some (i, j)" by (cases p) simp
    show ?thesis
    proof (cases "block_events bad dec (take i b)")
      case (Inl e)
      with "1.prems" p show ?thesis by (simp add: drain_some)
    next
      case (Inr evs)
      obtain n r' where d: "drain_complete_events bad dec (drop j b) = (n, r')"
        by (cases "drain_complete_events bad dec (drop j b)")
      with "1.prems" p Inr have "r' = r" by (cases n) (auto simp: drain_some)
      with "1.IH" [OF p refl Inr d] show ?thesis
        using suffix_drop suffix_order.trans by blast
    qed
  qed
qed

lemma drain_append:
  assumes "one_ending (b @ c)"
  shows "drain_complete_events bad dec (b @ c) =
    (case drain_complete_events bad dec b of
       (Inl e, r) \<Rightarrow> (Inl e, r @ c)
     | (Inr evs, r) \<Rightarrow> after_events evs (drain_complete_events bad dec (r @ c)))"
  using assms
proof (induction bad dec b rule: drain_complete_events.induct)
  case (1 bad dec b)
  show ?case
  proof (cases "find_event_separator b")
    case None
    then show ?thesis by (simp add: drain_none after_events_Nil)
  next
    case (Some p)
    then obtain i j where p: "find_event_separator b = Some (i, j)" by (cases p) simp
    note bound = separator_bound [OF p] and pc = separator_append [OF p "1.prems"]
    have ending: "one_ending (drop j b @ c)"
      using one_ending_append [of "take j b" "drop j b @ c"] "1.prems"
      by (simp only: append_assoc [symmetric] append_take_drop_id)
    show ?thesis
    proof (cases "block_events bad dec (take i b)")
      case (Inl e)
      with bound show ?thesis by (simp add: drain_some [OF pc] drain_some [OF p])
    next
      case (Inr evs)
      from "1.IH" [OF p refl Inr ending] bound Inr
      show ?thesis
        by (auto simp: drain_some [OF pc] drain_some [OF p] after_events_append
          split: prod.split sum.split)
    qed
  qed
qed

lemma all_ok_append: "all_ok (map Inr xs @ ms) = bind_ok (all_ok ms) (\<lambda>ys. Inr (xs @ ys))"
  by (induction xs) (auto simp: bind_ok_def split: sum.split)

lemma all_ok_Inr: "all_ok (map Inr xs) = Inr xs"
  by (induction xs) simp_all

definition closed_stream :: "sse_env \<Rightarrow> (client_error + stream_event list) \<times> string \<Rightarrow> client_error + stream_event list" where
  "closed_stream env r =
     (case r of
        (Inl e, _) \<Rightarrow> Inl e
      | (Inr evs, buf) \<Rightarrow>
          bind_ok (sse_finish (se_bad_rest env) (se_decode env) buf) (\<lambda>evs'. Inr (evs @ evs')))"

lemma closed_after: "closed_stream env (after_events evs r) = bind_ok (closed_stream env r) (\<lambda>es. Inr (evs @ es))"
  by (auto simp: closed_stream_def after_events_def bind_ok_def split: prod.split sum.split)

lemma stream_items_drain:
  assumes "find_event_separator buf = None" "one_ending (buf @ concat chunks)"
  shows "all_ok (stream_items env (map Inr chunks) buf) =
    closed_stream env (drain_complete_events (se_bad_block env) (se_decode env) (buf @ concat chunks))"
  using assms
proof (induction chunks arbitrary: buf)
  case Nil
  then show ?case
    by (cases "sse_finish (se_bad_rest env) (se_decode env) buf")
      (simp_all add: drain_none closed_stream_def all_ok_Inr)
next
  case (Cons chunk chunks)
  let ?d = "drain_complete_events (se_bad_block env) (se_decode env)"
  have split: "?d (buf @ concat (chunk # chunks)) =
      (case ?d (buf @ chunk) of (Inl e, r) \<Rightarrow> (Inl e, r @ concat chunks)
       | (Inr evs, r) \<Rightarrow> after_events evs (?d (r @ concat chunks)))"
    using drain_append [of "buf @ chunk" "concat chunks"] Cons.prems(2) by simp
  obtain m r where d: "?d (buf @ chunk) = (m, r)" by (cases "?d (buf @ chunk)")
  show ?case
  proof (cases m)
    case (Inl e)
    with split d show ?thesis by (simp add: push_bytes_def closed_stream_def)
  next
    case (Inr evs)
    have rest: "find_event_separator r = None" using drain_rest d Inr by blast
    have "suffix r (buf @ chunk)" using drain_suffix d Inr by blast
    then obtain u where "buf @ chunk = u @ r" by (auto simp: suffix_def)
    with Cons.prems(2) have "one_ending (u @ r @ concat chunks)" by (metis append_assoc concat.simps(2))
    then have "one_ending (r @ concat chunks)" using one_ending_append by blast
    from Cons.IH [OF rest this] split d Inr show ?thesis
      by (simp add: push_bytes_def all_ok_append closed_after)
  qed
qed

text \<open>
  Property C31: for a stream that keeps to one kind of line end (no carriage return in it, or no two line
  feeds in a row), collecting a response does not depend on how the transport cut it into chunks:
  the outcome, either all events or the first error, is that of reading the whole body at once. Streams that mix
  line ends do depend on it, and nothing is said of the events handed out before an error.
\<close>

theorem chunks_do_not_matter:
  assumes "one_ending (concat chunks)"
  shows "chat_stream_collect env (map Inr chunks) = parse_sse_body env (concat chunks)"
proof -
  have none: "find_event_separator [] = None"
    by (simp add: find_event_separator_def find_sub.simps LFLF_def CRLFCRLF_def)
  from stream_items_drain [OF none, of chunks env] assms show ?thesis
    by (simp add: chat_stream_collect_def parse_sse_body_def closed_stream_def push_bytes_def)
qed

definition sample_env :: sse_env where
  "sample_env =
     \<lparr>se_decode = (\<lambda>d. if d = ''1'' then Inr Ping else Inr (TextDone (JStr d))),
      se_bad_block = (\<lambda>b. SseParse b), se_bad_rest = (\<lambda>b. SseParse b)\<rparr>"

lemma chunks_do_not_matter_witness:
  "chat_stream_collect sample_env (map Inr [''data: 1'' @ [CHR 0x0A], CHR 0x0A # ''data:'']) =
   parse_sse_body sample_env (''data: 1'' @ LFLF @ ''data:'')"
  by (subst chunks_do_not_matter) (simp_all add: one_ending_def LFLF_def)

text \<open>
  A stream that mixes line ends is read differently depending on the chunks. Two
  events, the first ended by CR LF CR LF and the second by LF LF, are two events when they arrive in
  two chunks; in one chunk the pair of line feeds is found first, and their data are run together
  into one.
\<close>

theorem mixed_endings_depend_on_chunks:
  assumes "se_decode env ''1'' = Inr e1" "se_decode env ''2'' = Inr e2"
    and "se_decode env (''1'' @ [CHR 0x0A] @ ''2'') = Inr e12"
  shows "chat_stream_collect env [Inr (''data: 1'' @ CRLFCRLF), Inr (''data: 2'' @ LFLF)] = Inr [e1, e2] \<and>
    parse_sse_body env ((''data: 1'' @ CRLFCRLF) @ ''data: 2'' @ LFLF) = Inr [e12]"
proof -
  have parts: "utf8 ''data: 1''" "utf8 ''data: 2''" "utf8 (''data: 1'' @ CRLFCRLF @ ''data: 2'')"
    "parse_event_block ''data: 1'' = Some ''1''" "parse_event_block ''data: 2'' = Some ''2''"
    "parse_event_block (''data: 1'' @ CRLFCRLF @ ''data: 2'') = Some (''1'' @ [CHR 0x0A] @ ''2'')"
    by code_simp+
  have blocks: "block_events bad dec ''data: 1'' = bind_ok (dec ''1'') (\<lambda>ev. Inr [ev])"
    "block_events bad dec ''data: 2'' = bind_ok (dec ''2'') (\<lambda>ev. Inr [ev])"
    "block_events bad dec (''data: 1'' @ CRLFCRLF @ ''data: 2'') =
       bind_ok (dec (''1'' @ [CHR 0x0A] @ ''2'')) (\<lambda>ev. Inr [ev])" for bad dec
    by (simp_all only: block_events_def parts not_True_eq_False if_False option.case)
  have seps: "find_event_separator (''data: 1'' @ CRLFCRLF) = Some (7, 11)"
    "find_event_separator (''data: 2'' @ LFLF) = Some (7, 9)"
    "find_event_separator ((''data: 1'' @ CRLFCRLF) @ ''data: 2'' @ LFLF) = Some (18, 20)"
    "find_event_separator [] = None"
    by code_simp+
  have takes: "take 7 (''data: 1'' @ CRLFCRLF) = ''data: 1''" "drop 11 (''data: 1'' @ CRLFCRLF) = []"
    "take 7 (''data: 2'' @ LFLF) = ''data: 2''" "drop 9 (''data: 2'' @ LFLF) = []"
    "take 18 ((''data: 1'' @ CRLFCRLF) @ ''data: 2'' @ LFLF) = ''data: 1'' @ CRLFCRLF @ ''data: 2''"
    "drop 20 ((''data: 1'' @ CRLFCRLF) @ ''data: 2'' @ LFLF) = []"
    by (simp_all add: LFLF_def CRLFCRLF_def)
  have drains: "drain_complete_events bad (se_decode env) (''data: 1'' @ CRLFCRLF) = (Inr [e1], [])"
    "drain_complete_events bad (se_decode env) (''data: 2'' @ LFLF) = (Inr [e2], [])"
    "drain_complete_events bad (se_decode env) ((''data: 1'' @ CRLFCRLF) @ ''data: 2'' @ LFLF) = (Inr [e12], [])"
    for bad
    by (simp_all only: drain_some [OF seps(1)] drain_some [OF seps(2)] drain_some [OF seps(3)]
        drain_none [OF seps(4)] takes blocks assms bind_ok_simps sum.case after_events_simps append_Nil2)
  show ?thesis
    by (simp only: chat_stream_collect_def parse_sse_body_def push_bytes_def stream_items.simps append_Nil
      drains prod.case sum.case) (simp add: sse_finish_def)
qed

lemma mixed_endings_depend_on_chunks_witness:
  "parse_sse_body sample_env ((''data: 1'' @ CRLFCRLF) @ ''data: 2'' @ LFLF) =
   Inr [TextDone (JStr (''1'' @ [CHR 0x0A] @ ''2''))]"
  using mixed_endings_depend_on_chunks [of sample_env Ping "TextDone (JStr ''2'')"
      "TextDone (JStr (''1'' @ [CHR 0x0A] @ ''2''))"]
  by (simp add: sample_env_def)

section \<open>Events that were rendered\<close>

definition render_event :: "string \<Rightarrow> string" where
  "render_event d = ''data: '' @ d @ LFLF"

definition one_line :: "string \<Rightarrow> bool" where
  "one_line d \<longleftrightarrow> utf8 d \<and> (\<forall>c \<in> set d. \<not> is_line_end c) \<and> (d \<noteq> [] \<longrightarrow> hd d \<noteq> CHR '' '')"

lemma split_char_none: "c \<notin> set s \<Longrightarrow> split_char c s = [s]"
  by (induction s) auto

lemma block_of_line:
  assumes "one_line d"
  shows "block_events bad dec (''data: '' @ d) = bind_ok (dec d) (\<lambda>ev. Inr [ev])"
proof -
  have nolf: "CHR 0x0A \<notin> set (''data: '' @ d)"
    using assms by (auto simp: one_line_def is_line_end_def)
  have "\<forall>c \<in> set (''data: '' @ d). \<not> is_line_end c"
    using assms by (auto simp: one_line_def is_line_end_def)
  then have "dropWhile is_line_end (rev (''data: '' @ d)) = rev (''data: '' @ d)"
    by (metis dropWhile_eq_self_iff hd_in_set set_rev)
  then have trimmed: "trim_end_line (''data: '' @ d) = ''data: '' @ d" by (simp add: trim_end_line_def)
  have "trim_start_matches (CHR '' '') d = d"
    using assms by (auto simp: trim_start_matches_def one_line_def dropWhile_eq_self_iff)
  then have "data_of_line (''data: '' @ d) = Some d"
    by (simp only: data_of_line_def trimmed) (simp add: strip_prefix_def trim_start_matches_def)
  moreover have "utf8 (''data: '' @ d)"
    using assms by (simp add: one_line_def byte_def)
  ultimately show ?thesis
    by (simp only: block_events_def parse_event_block_def split_char_none [OF nolf]) (simp add: List.map_filter_def)
qed

lemma find_LFLF: "CHR 0x0A \<notin> set u \<Longrightarrow> find_sub LFLF (u @ LFLF @ r) = Some (length u)"
proof (induction u)
  case Nil
  then show ?case by (simp add: find_sub.simps [of LFLF "LFLF @ r"])
next
  case (Cons c u)
  then have "\<not> prefix LFLF ((c # u) @ LFLF @ r)" by (auto simp: LFLF_def)
  with Cons show ?case by (simp add: find_sub.simps [of LFLF "c # u @ LFLF @ r"])
qed

lemma separator_of_rendered:
  assumes "one_line d"
  shows "find_event_separator (render_event d @ r) = Some (length (''data: '' @ d), length (''data: '' @ d) + 2)"
proof -
  have "CHR 0x0A \<notin> set (''data: '' @ d)" using assms by (auto simp: one_line_def is_line_end_def)
  from find_LFLF [OF this, of r] show ?thesis by (simp add: find_event_separator_def render_event_def)
qed

lemma drain_rendered:
  assumes "one_line d"
  shows "closed_stream env (drain_complete_events (se_bad_block env) (se_decode env) (render_event d @ r)) =
    bind_ok (se_decode env d) (\<lambda>ev. bind_ok
      (closed_stream env (drain_complete_events (se_bad_block env) (se_decode env) r)) (\<lambda>es. Inr (ev # es)))"
proof -
  have parts: "take (length (''data: '' @ d)) (render_event d @ r) = ''data: '' @ d"
    "drop (length (''data: '' @ d) + 2) (render_event d @ r) = r"
    by (simp_all add: render_event_def LFLF_def)
  show ?thesis
    unfolding drain_some [OF separator_of_rendered [OF assms]] parts block_of_line [OF assms]
    by (cases "se_decode env d") (simp_all add: closed_after, simp add: closed_stream_def)
qed

text \<open>
  What a server renders as one \<open>data:\<close> line per event is read back event by event,
  in order, up to the first that does not decode.
\<close>

theorem rendered_events_read_back:
  assumes "\<forall>d \<in> set ds. one_line d"
  shows "parse_sse_body env (concat (map render_event ds)) = all_ok (map (se_decode env) ds)"
proof -
  have "closed_stream env (drain_complete_events (se_bad_block env) (se_decode env) (concat (map render_event ds))) =
      all_ok (map (se_decode env) ds)"
    using assms
  proof (induction ds)
    case Nil
    have "find_event_separator [] = None" by code_simp
    then show ?case by (simp add: drain_none closed_stream_def sse_finish_def)
  qed (simp add: drain_rendered)
  then show ?thesis by (simp add: parse_sse_body_def closed_stream_def push_bytes_def)
qed

lemma rendered_events_read_back_witness:
  "parse_sse_body sample_env (concat (map render_event [''1'', ''x''])) = Inr [Ping, TextDone (JStr ''x'')]"
  by (subst rendered_events_read_back)
    (simp_all add: one_line_def is_line_end_def byte_def sample_env_def)

section \<open>Retries\<close>

definition worth_retrying :: "client_error + (nat \<times> string option) \<Rightarrow> bool" where
  "worth_retrying r = (case r of Inr (status, _) \<Rightarrow> status = 429 | Inl e \<Rightarrow> is_transport e)"

lemma post_from_tries:
  assumes "a < n"
  shows "\<exists>k. a \<le> k \<and> k < n \<and> length (snd (post_from post n a l)) = k - a \<and>
    fst (post_from post n a l) = post k \<and> (\<forall>j. a \<le> j \<and> j < k \<longrightarrow> worth_retrying (post j)) \<and>
    (worth_retrying (post k) \<longrightarrow> k = n - 1)"
  using assms
proof (induction "n - a" arbitrary: a l)
  case (Suc m)
  show ?case
  proof (cases "worth_retrying (post a) \<and> a + 1 < n")
    case False
    then have "post_from post n a l = (post a, [])"
      using Suc.prems
      by (subst post_from.simps) (auto simp: worth_retrying_def split: sum.splits prod.splits)
    then show ?thesis using False Suc.prems by (intro exI [of _ a]) auto
  next
    case True
    define l' where "l' = (case post a of Inl e \<Rightarrow> Some e | Inr _ \<Rightarrow> l)"
    have "\<exists>d. post_from post n a l = (fst (post_from post n (Suc a) l'), d # snd (post_from post n (Suc a) l'))"
      using True Suc.prems
      by (simp add: post_from.simps [of post n a l])
        (auto simp: worth_retrying_def l'_def Let_def case_prod_beta split: sum.splits)
    then obtain d where d: "post_from post n a l = (fst (post_from post n (Suc a) l'), d # snd (post_from post n (Suc a) l'))" ..
    from True Suc.hyps have "m = n - Suc a" "Suc a < n" by auto
    from Suc.hyps(1) [OF this, of l'] obtain k where k: "Suc a \<le> k" "k < n"
      "length (snd (post_from post n (Suc a) l')) = k - Suc a" "fst (post_from post n (Suc a) l') = post k"
      "\<forall>j. Suc a \<le> j \<and> j < k \<longrightarrow> worth_retrying (post j)" "worth_retrying (post k) \<longrightarrow> k = n - 1"
      by blast
    have "\<forall>j. a \<le> j \<and> j < k \<longrightarrow> worth_retrying (post j)"
      using k(5) True by (metis Suc_leI le_neq_implies_less)
    with k d show ?thesis by (intro exI [of _ k]) auto
  qed
qed simp

text \<open>
  A turn is posted at most \<open>max_attempts\<close> times, with a delay between two posts; the
  answer returned is that of the last post, all before it were rate limits or transport errors,
  and such an answer is only returned when the attempts are used up.
\<close>

theorem retries_bounded:
  assumes "0 < max_attempts" and r_def: "r = post_chat_turn_retry_429 post max_attempts"
  shows "length (snd r) < max_attempts \<and> fst r = post (length (snd r)) \<and>
    (\<forall>j < length (snd r). worth_retrying (post j)) \<and>
    (worth_retrying (fst r) \<longrightarrow> Suc (length (snd r)) = max_attempts)"
  using post_from_tries [OF assms(1), of post None] assms(1)
  by (auto simp: r_def post_chat_turn_retry_429_def)

lemma retries_bounded_witness:
  "fst (post_chat_turn_retry_429 (\<lambda>_. Inr (429, None)) 2) = Inr (429, None)"
  using retries_bounded [of 2 _ "\<lambda>_. Inr (429, None)", OF _ refl] by simp

end
