(* ===== verification/Policies.thy ===== *)
theory Policies
  imports Prelude
begin

text \<open>
  Small decisions on the way of a message: who may write and what may be changed
  (\<open>access_control.rs\<close>), which deliveries are duplicates (\<open>dedup.rs\<close>), when a session is reset
  (\<open>session_policy.rs\<close>), whether a model sees images (\<open>model_vision.rs\<close>), whose GitHub token is
  used (\<open>github_tokens.rs\<close>), and the rewriting of markdown for WeChat (\<open>markdown.rs\<close>).

  An \<open>Instant\<close> is a number of nanoseconds, a \<open>DateTime\<close> an integer of nanoseconds since the
  epoch. Texts outside ASCII are their bytes. The file system is a parameter: \<open>canonical\<close> resolves
  a path, \<open>home\<close> is the home directory.
\<close>

section \<open>Access\<close>

datatype access_policy = Open | Allowlist "string list" | Disabled

fun is_allowed :: "access_policy \<Rightarrow> string \<Rightarrow> bool" where
  "is_allowed Open user_id = True"
| "is_allowed Disabled user_id = False"
| "is_allowed (Allowlist users) user_id = list_ex (\<lambda>u. trim u = user_id) users"

datatype action_source = SlashCommand | ModelGenerated

datatype action_capability =
  SessionMutation | CronMutation | SkillMutation | WorkspaceMutation | CliMutation | ModelMutation

fun is_mutation :: "action_capability \<Rightarrow> bool" where
  "is_mutation SessionMutation = True"
| "is_mutation CronMutation = True"
| "is_mutation SkillMutation = True"
| "is_mutation WorkspaceMutation = True"
| "is_mutation CliMutation = True"
| "is_mutation ModelMutation = True"

record action_policy =
  allow_slash_mutations :: bool
  allow_model_generated_mutations :: bool
  workspace_roots :: "string list"

definition default_action_policy :: action_policy where
  "default_action_policy =
     \<lparr>allow_slash_mutations = True, allow_model_generated_mutations = False, workspace_roots = []\<rparr>"

text \<open>The refusals, each with a message of its own for the user.\<close>

datatype refusal = SlashRefused | ModelRefused | Unresolved string | OutsideRoots

definition check_action :: "action_policy \<Rightarrow> action_source \<Rightarrow> action_capability \<Rightarrow> refusal + unit" where
  "check_action p source capability =
     (if source = SlashCommand \<and> \<not> allow_slash_mutations p \<and> is_mutation capability
      then Inl SlashRefused
      else if source = ModelGenerated \<and> \<not> allow_model_generated_mutations p \<and> is_mutation capability
      then Inl ModelRefused
      else Inr ())"

definition expand_home :: "string \<Rightarrow> string \<Rightarrow> string" where
  "expand_home home path = (case path of c # rest \<Rightarrow> if c = CHR ''~'' then home @ rest else path | [] \<Rightarrow> path)"

text \<open>A canonical path is the list of its components, so \<open>starts_with\<close> compares whole components.\<close>

definition workspace_allowed ::
  "(string \<Rightarrow> string + string list) \<Rightarrow> string \<Rightarrow> action_policy \<Rightarrow> string \<Rightarrow> refusal + unit" where
  "workspace_allowed canonical home p path =
     (if workspace_roots p = [] then Inr ()
      else case canonical path of
        Inl e \<Rightarrow> Inl (Unresolved e)
      | Inr target \<Rightarrow>
          if list_ex (\<lambda>root. case canonical (expand_home home root) of
               Inr r \<Rightarrow> prefix r target | Inl _ \<Rightarrow> False) (workspace_roots p)
          then Inr () else Inl OutsideRoots)"

section \<open>Duplicates\<close>

definition DEFAULT_MAX_SIZE :: nat where
  "DEFAULT_MAX_SIZE = 1000"

definition DEFAULT_TTL :: nat where
  "DEFAULT_TTL = 300 * 1000000000"

definition evict_expired :: "nat \<Rightarrow> nat \<Rightarrow> (string \<times> nat) list \<Rightarrow> (string \<times> nat) list" where
  "evict_expired ttl now seen = dropWhile (\<lambda>(_, ts). ttl < now - ts) seen"

text \<open>\<open>check\<close> with the sizes of the deduplicator; the clock is read once.\<close>

definition check_message ::
  "nat \<Rightarrow> nat \<Rightarrow> nat \<Rightarrow> string \<Rightarrow> (string \<times> nat) list \<Rightarrow> bool \<times> (string \<times> nat) list" where
  "check_message max_size ttl now msg_id seen =
     (let s1 = evict_expired ttl now seen in
      if list_ex (\<lambda>(i, _). i = msg_id) s1 then (False, s1)
      else (True, (if max_size \<le> length s1 then tl s1 else s1) @ [(msg_id, now)]))"

section \<open>Session resets\<close>

datatype reset_policy = NoReset | Daily nat | Idle nat | Both nat nat

definition SECOND :: int where
  "SECOND = 1000000000"

definition DAY :: int where
  "DAY = 86400 * SECOND"

definition num_seconds :: "int \<Rightarrow> int" where
  "num_seconds d = (if 0 \<le> d then d div SECOND else - ((- d) div SECOND))"

text \<open>\<open>date_naive().and_hms_opt(hour, 0, 0)\<close>, as an instant; there is none for an hour above 23.\<close>

definition at_hour :: "int \<Rightarrow> nat \<Rightarrow> int option" where
  "at_hour t hour = (if hour < 24 then Some (t div DAY * DAY + int hour * 3600 * SECOND) else None)"

definition crossed_daily_boundary :: "int \<Rightarrow> int \<Rightarrow> nat \<Rightarrow> bool" where
  "crossed_daily_boundary last_active now reset_hour \<longleftrightarrow>
     (if now \<le> last_active then False
      else case (at_hour now reset_hour, at_hour (now - DAY) reset_hour) of
        (Some today, Some yesterday) \<Rightarrow> last_active < (if today \<le> now then today else yesterday)
      | _ \<Rightarrow> False)"

definition idle_too_long :: "int \<Rightarrow> int \<Rightarrow> nat \<Rightarrow> bool" where
  "idle_too_long last_active now hours \<longleftrightarrow> int hours * 3600 < num_seconds (now - last_active)"

fun should_reset :: "reset_policy \<Rightarrow> int \<Rightarrow> int \<Rightarrow> bool" where
  "should_reset NoReset last_active now = False"
| "should_reset (Daily hour) last_active now = crossed_daily_boundary last_active now hour"
| "should_reset (Idle hours) last_active now = idle_too_long last_active now hours"
| "should_reset (Both daily_hour idle_hours) last_active now =
     (crossed_daily_boundary last_active now daily_hour \<or> idle_too_long last_active now idle_hours)"

section \<open>Models and tokens\<close>

datatype vision_capability = Supported | Unsupported | Unknown

definition BUILTIN_SUPPORTED_MODELS :: "string list" where
  "BUILTIN_SUPPORTED_MODELS =
     [''gpt-4o'', ''gpt-4.1'', ''gpt-5'', ''o3'', ''o4'', ''claude-3'', ''claude-fable-5'',
      ''claude-opus-4'', ''claude-sonnet-4'', ''qwen2.5-vl'', ''qwen2-vl'', ''qwen-vl'', ''qvq'',
      ''qwen-omni'', ''glm-4v'', ''glm-v'', ''glm-vision'', ''kimi-vl'']"

definition BUILTIN_UNSUPPORTED_MODELS :: "string list" where
  "BUILTIN_UNSUPPORTED_MODELS =
     [''qwen3'', ''qwen-max'', ''deepseek'', ''glm-5'', ''glm-4.5'', ''kimi-k2'', ''minimax-m'']"

definition vision_capability_with_supported_models :: "string option \<Rightarrow> string list \<Rightarrow> vision_capability" where
  "vision_capability_with_supported_models model supported_models =
     (case Option.bind (map_option trim model) (\<lambda>m. if m \<noteq> [] then Some m else None) of
        None \<Rightarrow> Unknown
      | Some m \<Rightarrow>
          (let normalized = to_ascii_lowercase m in
           if list_ex (\<lambda>p. p \<noteq> [] \<and> contains normalized p)
                (map (\<lambda>p. to_ascii_lowercase (trim p)) supported_models)
              \<or> list_ex (contains normalized) BUILTIN_SUPPORTED_MODELS
           then Supported
           else if list_ex (contains normalized) BUILTIN_UNSUPPORTED_MODELS then Unsupported
           else Unknown))"

record github_token_config =
  gh_token :: string
  gh_remark :: "string option"

definition token_from_entry :: "github_token_config option \<Rightarrow> string option" where
  "token_from_entry entry =
     Option.bind (map_option (\<lambda>e. trim (gh_token e)) entry) (\<lambda>t. if t \<noteq> [] then Some t else None)"

definition resolve_github_token_for_user ::
  "string \<Rightarrow> (string \<Rightarrow> github_token_config option) \<Rightarrow> string option" where
  "resolve_github_token_for_user user_id tokens =
     or_else (token_from_entry (tokens user_id)) (token_from_entry (tokens ''default''))"

section \<open>Markdown for WeChat\<close>

definition rewrite_header :: "string \<Rightarrow> string option" where
  "rewrite_header line =
     (let trimmed = trim_start line;
          level = length (takeWhile (\<lambda>c. c = CHR ''#'') trimmed);
          rest = drop level trimmed;
          title = trim rest
      in if level = 0 \<or> \<not> starts_with rest '' '' \<or> title = [] then None
         else if level = 1
         then Some ([CHR 0xE3, CHR 0x80, CHR 0x90] @ title @ [CHR 0xE3, CHR 0x80, CHR 0x91])
         else Some (''**'' @ title @ ''**''))"

definition is_table_row :: "string \<Rightarrow> bool" where
  "is_table_row line \<longleftrightarrow> (let t = trim line in starts_with t ''|'' \<and> contains t ''|'' \<and> 2 < length t)"

definition is_separator_row :: "string \<Rightarrow> bool" where
  "is_separator_row line \<longleftrightarrow>
     (let t = trim line in starts_with t ''|'' \<and> list_all (\<lambda>c. c \<in> set ''|-: '') t)"

definition split_table_row :: "string \<Rightarrow> string list" where
  "split_table_row line =
     (let row = trim line;
          row1 = (if starts_with row ''|'' then drop 1 row else row);
          row2 = (if ends_with row1 ''|'' then butlast row1 else row1)
      in map trim (split_char (CHR ''|'') row2))"

definition table_row_lines :: "string list \<Rightarrow> string \<Rightarrow> string list" where
  "table_row_lines headers line =
     (if is_separator_row line then []
      else
        (let pairs = filter (\<lambda>(_, v). v \<noteq> []) (zip headers (split_table_row line));
             shown = map (\<lambda>(l, v). l @ '': '' @ v) pairs
         in if pairs = [] then []
            else if length pairs \<le> 2 then map (\<lambda>p. ''- '' @ p) shown
            else [''- '' @ join '' | '' shown]))"

definition rewrite_table :: "string list \<Rightarrow> string" where
  "rewrite_table ls =
     (case ls of
        h # s # rest \<Rightarrow>
          (let formatted = concat (map (table_row_lines (split_table_row h))
                 (if is_separator_row s then rest else s # rest))
           in if formatted = [] then join [CHR 0x0A] ls else join [CHR 0x0A] formatted)
      | _ \<Rightarrow> join [CHR 0x0A] ls)"

definition in_table :: "string \<Rightarrow> bool" where
  "in_table line \<longleftrightarrow> is_table_row line \<or> is_separator_row line"

function rewrite_lines :: "bool \<Rightarrow> string list \<Rightarrow> string list" where
  "rewrite_lines in_code [] = []"
| "rewrite_lines in_code (line # rest) =
     (if starts_with (trim_start line) [CHR 0x60, CHR 0x60, CHR 0x60] then line # rewrite_lines (\<not> in_code) rest
      else if in_code then line # rewrite_lines in_code rest
      else case rewrite_header line of
        Some h \<Rightarrow> h # rewrite_lines in_code rest
      | None \<Rightarrow>
          if is_table_row line
          then rewrite_table (line # takeWhile in_table rest)
               # rewrite_lines in_code (dropWhile in_table rest)
          else line # rewrite_lines in_code rest)"
  by pat_completeness auto
termination
  by (relation "measure (\<lambda>(_, ls). length ls)") (auto simp: le_imp_less_Suc length_dropWhile_le)

definition rewrite_for_weixin :: "string \<Rightarrow> string" where
  "rewrite_for_weixin s = join [CHR 0x0A] (rewrite_lines False (lines_of s))"

end
