(* ===== verification/Policies_Props.thy ===== *)
theory Policies_Props
  imports Policies
begin

text \<open>
  The deduplicator against its specification on the whole history, the daily reset against the
  boundaries it stands for, and what access control never lets through.
\<close>

section \<open>Duplicates\<close>

definition last_n :: "nat \<Rightarrow> 'a list \<Rightarrow> 'a list" where
  "last_n n xs = drop (length xs - n) xs"

definition still_fresh :: "nat \<Rightarrow> nat \<Rightarrow> string \<times> nat \<Rightarrow> bool" where
  "still_fresh ttl now e \<longleftrightarrow> now - snd e \<le> ttl"

text \<open>Deliveries with their times, checked one by one; the accepted ones are logged.\<close>

fun check_all ::
  "nat \<Rightarrow> nat \<Rightarrow> (nat \<times> string) list \<Rightarrow> (string \<times> nat) list \<times> (string \<times> nat) list \<Rightarrow>
   (string \<times> nat) list \<times> (string \<times> nat) list" where
  "check_all mx ttl [] st = st"
| "check_all mx ttl ((now, i) # ds) (log, seen) =
     (let (fresh, seen') = check_message mx ttl now i seen
      in check_all mx ttl ds (if fresh then log @ [(i, now)] else log, seen'))"

definition dedup_inv :: "nat \<Rightarrow> nat \<Rightarrow> nat \<Rightarrow> (string \<times> nat) list \<Rightarrow> (string \<times> nat) list \<Rightarrow> bool" where
  "dedup_inv mx ttl now log seen \<longleftrightarrow>
     sorted (map snd log) \<and> (\<forall>e \<in> set log. snd e \<le> now) \<and>
     seen = filter (still_fresh ttl now) (last_n mx log)"

lemma sorted_last_n: "sorted (map snd log) \<Longrightarrow> sorted (map snd (last_n n log))"
  by (simp add: last_n_def drop_map [symmetric] sorted_wrt_drop)

lemma evict_is_filter:
  "sorted (map snd xs) \<Longrightarrow> evict_expired ttl now xs = filter (still_fresh ttl now) xs"
proof (induction xs)
  case (Cons x xs)
  show ?case
  proof (cases "still_fresh ttl now x")
    case True
    have "still_fresh ttl now y" if "y \<in> set xs" for y
      using Cons.prems True that by (force simp: still_fresh_def)
    with True show ?thesis
      by (simp add: evict_expired_def still_fresh_def case_prod_beta filter_True)
  next
    case False
    with Cons show ?thesis by (simp add: evict_expired_def still_fresh_def case_prod_beta)
  qed
qed (simp add: evict_expired_def)

lemma fresh_before: "now \<le> later \<Longrightarrow> still_fresh ttl later e \<Longrightarrow> still_fresh ttl now e"
  by (simp add: still_fresh_def)

lemma dedup_inv_evict:
  assumes "dedup_inv mx ttl now log seen" "now \<le> later"
  shows "evict_expired ttl later seen = filter (still_fresh ttl later) (last_n mx log)"
proof -
  have srt: "sorted (map snd seen)"
    using assms(1) sorted_last_n [of log mx] by (simp add: dedup_inv_def sorted_filter)
  have "filter (still_fresh ttl later) (filter (still_fresh ttl now) xs) = filter (still_fresh ttl later) xs"
    for xs :: "(string \<times> nat) list"
    by (rule filter_filter [THEN trans], rule filter_cong) (auto simp: fresh_before [OF assms(2)])
  with evict_is_filter [OF srt] assms(1) show ?thesis by (simp add: dedup_inv_def)
qed

lemma last_n_snoc:
  "last_n n (xs @ [x]) = (if n = 0 then [] else if length xs < n then xs @ [x] else tl (last_n n xs) @ [x])"
  by (auto simp: last_n_def Suc_diff_le drop_Suc tl_drop not_less)

lemma length_last_n: "length (last_n n xs) = min n (length xs)"
  by (simp add: last_n_def)

lemma dedup_inv_step:
  assumes "dedup_inv mx ttl now log seen" "now \<le> later" "0 < mx"
    "check_message mx ttl later i seen = (fresh, seen')"
  shows "dedup_inv mx ttl later (if fresh then log @ [(i, later)] else log) seen'"
    and "fresh \<longleftrightarrow> i \<notin> fst ` set (filter (still_fresh ttl later) (last_n mx log))"
proof -
  let ?s = "filter (still_fresh ttl later) (last_n mx log)"
  note evict = dedup_inv_evict [OF assms(1,2)]
  from assms(1,2) have old: "sorted (map snd log)" "\<forall>e \<in> set log. snd e \<le> later"
    by (auto simp: dedup_inv_def)
  show f: "fresh \<longleftrightarrow> i \<notin> fst ` set ?s"
    using assms(4) by (auto simp: check_message_def Let_def evict list_ex_iff image_iff split: if_splits)
  show "dedup_inv mx ttl later (if fresh then log @ [(i, later)] else log) seen'"
  proof (cases fresh)
    case False
    with assms(4) have "seen' = ?s" by (auto simp: check_message_def Let_def evict split: if_splits)
    with False old show ?thesis by (simp add: dedup_inv_def)
  next
    case True
    with assms(4) have seen': "seen' = (if mx \<le> length ?s then tl ?s else ?s) @ [(i, later)]"
      by (auto simp: check_message_def Let_def evict split: if_splits)
    have "(if mx \<le> length ?s then tl ?s else ?s) @ [(i, later)] =
        filter (still_fresh ttl later) (last_n mx (log @ [(i, later)]))"
    proof (cases "length log < mx")
      case True
      then have "length ?s < mx"
        by (metis length_filter_le length_last_n min.strict_coboundedI2 order.strict_trans1)
      with True assms(3) show ?thesis by (simp add: last_n_snoc still_fresh_def) (simp add: last_n_def)
    next
      case False
      then obtain x xs where x: "last_n mx log = x # xs"
        using assms(3) length_last_n [of mx log] by (cases "last_n mx log") auto
      have len: "length (x # xs) = mx" using False length_last_n [of mx log] x by simp
      have srt: "sorted (map snd (x # xs))" using sorted_last_n [OF old(1), of mx] x by simp
      show ?thesis
      proof (cases "still_fresh ttl later x")
        case True
        have "filter (still_fresh ttl later) xs = xs"
          using srt True by (intro filter_True) (force simp: still_fresh_def)
        with True len False assms(3) x show ?thesis by (simp add: last_n_snoc) (simp add: still_fresh_def)
      next
        case nf: False
        then have "length (filter (still_fresh ttl later) (x # xs)) < mx"
          using len length_filter_le [of "still_fresh ttl later" xs] by (simp add: less_Suc_eq_le [symmetric])
        with nf False assms(3) x show ?thesis by (simp add: last_n_snoc still_fresh_def not_le)
      qed
    qed
    with True seen' old show ?thesis
      by (simp add: dedup_inv_def sorted_append)
  qed
qed

lemma dedup_inv_run:
  assumes "dedup_inv mx ttl now log seen" "0 < mx" "sorted (now # map fst ds)"
  shows "dedup_inv mx ttl (last (now # map fst ds)) (fst (check_all mx ttl ds (log, seen)))
    (snd (check_all mx ttl ds (log, seen)))"
  using assms
proof (induction ds arbitrary: now log seen)
  case (Cons d ds)
  obtain later i where d: "d = (later, i)" by (cases d)
  obtain fresh seen' where c: "check_message mx ttl later i seen = (fresh, seen')"
    by (cases "check_message mx ttl later i seen")
  have "now \<le> later" "sorted (later # map fst ds)" using Cons.prems(3) d by auto
  from Cons.IH [OF dedup_inv_step(1) [OF Cons.prems(1) this(1) assms(2) c] assms(2) this(2)]
  show ?case by (simp add: d c)
qed simp

text \<open>
  Property C37: the deduplicator forgets exactly what it is meant to. After any deliveries in the
  order of their times, a message is taken for new if and only if its id is not among those of
  the last \<open>max_size\<close> accepted messages that were accepted no longer than the time to live ago.
\<close>

theorem dedup_exact:
  assumes "0 < max_size" "sorted (map fst ds @ [now])"
    and "check_all max_size ttl ds ([], []) = (log, seen)"
  shows "fst (check_message max_size ttl now i seen) \<longleftrightarrow>
    (\<forall>(j, ts) \<in> set (last_n max_size log). now - ts \<le> ttl \<longrightarrow> j \<noteq> i)"
proof -
  have init: "dedup_inv max_size ttl 0 [] []" by (simp add: dedup_inv_def last_n_def)
  have srt: "sorted (0 # map fst ds)" using assms(2) by (simp add: sorted_append)
  from dedup_inv_run [OF init assms(1) srt] assms(3)
  have inv: "dedup_inv max_size ttl (last (0 # map fst ds)) log seen" by simp
  have "last (0 # map fst ds) \<le> now" using assms(2) by (cases ds rule: rev_cases) (auto simp: sorted_append)
  moreover obtain fresh seen' where c: "check_message max_size ttl now i seen = (fresh, seen')"
    by (cases "check_message max_size ttl now i seen")
  ultimately show ?thesis
    using dedup_inv_step(2) [OF inv _ assms(1) c] by (force simp: still_fresh_def)
qed

lemma dedup_exact_witness:
  "fst (check_message 1 5 9 ''a'' (snd (check_all 1 5 [(0, ''a''), (3, ''b'')] ([], []))))"
  by (subst dedup_exact [OF _ _ prod.collapse [symmetric]])
    (simp_all add: check_message_def evict_expired_def last_n_def)

section \<open>Daily resets\<close>

lemma at_hour_bounds:
  assumes "hour < 24"
  shows "at_hour t hour = Some (t div DAY * DAY + int hour * 3600 * SECOND)"
    "0 \<le> int hour * 3600 * SECOND" "int hour * 3600 * SECOND < DAY"
  using assms by (simp_all add: at_hour_def DAY_def SECOND_def)

lemma day_before: "(now - DAY) div DAY * DAY = now div DAY * DAY - DAY"
proof -
  have "(now - DAY) div DAY = now div DAY - 1"
    using div_mult_self1 [of DAY now "-1"] by (simp add: DAY_def SECOND_def)
  then show ?thesis by (simp add: left_diff_distrib)
qed

text \<open>The last reset time that is not after now.\<close>

definition last_reset :: "int \<Rightarrow> nat \<Rightarrow> int" where
  "last_reset now hour =
     (let h = int hour * 3600 * SECOND; d = now div DAY
      in if d * DAY + h \<le> now then d * DAY + h else (d - 1) * DAY + h)"

lemma last_reset_greatest:
  assumes "hour < 24" "k * DAY + int hour * 3600 * SECOND \<le> now"
  shows "k * DAY + int hour * 3600 * SECOND \<le> last_reset now hour"
proof -
  let ?h = "int hour * 3600 * SECOND" and ?d = "now div DAY"
  have day: "0 < DAY" by (simp add: DAY_def SECOND_def)
  have "now < ?d * DAY + DAY"
    using div_mult_mod_eq [of now DAY] pos_mod_bound [OF day, of now] by linarith
  then have "k * DAY < (?d + 1) * DAY"
    using assms(2) at_hour_bounds(2) [OF assms(1)] by (simp only: distrib_right)
  then have k: "k \<le> ?d" using day by simp
  show ?thesis
  proof (cases "?d * DAY + ?h \<le> now")
    case False
    with assms(2) k have "k \<le> ?d - 1" by (cases "k = ?d") auto
    then have "k * DAY \<le> (?d - 1) * DAY" using day by simp
    with False show ?thesis by (simp add: last_reset_def)
  qed (use k day in \<open>simp add: last_reset_def\<close>)
qed

lemma last_reset_past:
  assumes "hour < 24"
  shows "last_reset now hour \<le> now" "\<exists>k. last_reset now hour = k * DAY + int hour * 3600 * SECOND"
proof -
  have day: "0 < DAY" by (simp add: DAY_def SECOND_def)
  have "now div DAY * DAY \<le> now"
    using div_mult_mod_eq [of now DAY] pos_mod_sign [OF day, of now] by linarith
  then show "last_reset now hour \<le> now"
    using at_hour_bounds(3) [OF assms] by (auto simp: last_reset_def Let_def left_diff_distrib)
  show "\<exists>k. last_reset now hour = k * DAY + int hour * 3600 * SECOND"
    by (auto simp: last_reset_def Let_def)
qed

lemma crossed_last_reset:
  assumes "hour < 24"
  shows "crossed_daily_boundary last_active now hour \<longleftrightarrow> last_active < last_reset now hour"
  using last_reset_past(1) [OF assms, of now]
  by (auto simp: crossed_daily_boundary_def at_hour_bounds(1) [OF assms] last_reset_def Let_def day_before
    left_diff_distrib)

text \<open>
  A daily reset is due exactly when some reset time, a whole number of days and the
  configured hour, lies after the last activity and not after now; an hour above 23 never resets.
\<close>

theorem daily_reset_exact:
  "should_reset (Daily hour) last_active now \<longleftrightarrow>
     hour < 24 \<and> (\<exists>k. last_active < k * DAY + int hour * 3600 * SECOND \<and>
                     k * DAY + int hour * 3600 * SECOND \<le> now)"
proof (cases "hour < 24")
  case True
  with last_reset_past [OF True, of now] show ?thesis
    using last_reset_greatest [OF True, of _ now] by (force simp: crossed_last_reset)
qed (simp add: crossed_daily_boundary_def at_hour_def)

end
