(* ===== verification/Codex_Items.thy ===== *)
theory Codex_Items
  imports Cli_Stream
begin

text \<open>
  What the Codex app server reports about its tools, shortened for the user
  (\<open>codex_app_pool.rs\<close>). \<open>truncate_unicode\<close> is a function of its own here, which ends a shortened
  text with three dots.
\<close>

definition TOOL_PARAM_MAX_CHARS :: nat where
  "TOOL_PARAM_MAX_CHARS = 160"

definition TOOL_NAME_MAX_CHARS :: nat where
  "TOOL_NAME_MAX_CHARS = 80"

definition truncate_dots :: "string \<Rightarrow> nat \<Rightarrow> string" where
  "truncate_dots s max_chars =
     (if char_count s \<le> max_chars then s else take_chars max_chars s @ ''...'')"

definition collapse_whitespace :: "string \<Rightarrow> string" where
  "collapse_whitespace s = join '' '' (split_whitespace s)"

definition summarize_text :: "string \<Rightarrow> string" where
  "summarize_text s = truncate_dots (collapse_whitespace s) TOOL_PARAM_MAX_CHARS"

definition summarize_tool_name :: "string \<Rightarrow> string" where
  "summarize_tool_name s = truncate_dots (collapse_whitespace s) TOOL_NAME_MAX_CHARS"

definition more_suffix :: "nat \<Rightarrow> string" where
  "more_suffix n = (if 3 < n then '' +'' @ show_nat (n - 3) @ '' more'' else [])"

definition SUMMARY_KEYS :: "string list" where
  "SUMMARY_KEYS =
     [''command'', ''cmd'', ''query'', ''q'', ''pattern'', ''path'', ''file_path'', ''filePath'', ''url'', ''uri'']"

text \<open>An object's summary from the summaries of its \<open>n\<close> entries.\<close>

definition summarize_entries :: "(string \<times> string option) list \<Rightarrow> string option" where
  "summarize_entries entries =
     (case first_some (\<lambda>k. case map_of entries k of
          Some (Some s) \<Rightarrow> if s \<noteq> [] then Some (k @ '': '' @ s) else None
        | _ \<Rightarrow> None) SUMMARY_KEYS of
        Some s \<Rightarrow> Some s
      | None \<Rightarrow>
          (let parts = take 3 (List.map_filter (\<lambda>(k, s). map_option (\<lambda>x. k @ '': '' @ x) s) entries)
           in if parts = [] then None
              else Some (truncate_dots (join '', '' parts @ more_suffix (length entries)) TOOL_PARAM_MAX_CHARS)))"

fun summarize_json_value :: "json \<Rightarrow> string option"
and summarize_values :: "json list \<Rightarrow> string option list"
and summarize_fields :: "(string \<times> json) list \<Rightarrow> (string \<times> string option) list" where
  "summarize_json_value JNull = None"
| "summarize_json_value (JStr s) = Some (summarize_text s)"
| "summarize_json_value (JBool b) = Some (if b then ''true'' else ''false'')"
| "summarize_json_value (JNum n) = Some (show_int n)"
| "summarize_json_value (JFloat s) = Some s"
| "summarize_json_value (JArr items) =
     (if items = [] then None
      else Some (truncate_dots
        (''['' @ join '', '' (List.map_filter id (take 3 (summarize_values items))) @ '']'' @
         more_suffix (length items)) TOOL_PARAM_MAX_CHARS))"
| "summarize_json_value (JObj kvs) = summarize_entries (summarize_fields kvs)"
| "summarize_values [] = []"
| "summarize_values (v # vs) = summarize_json_value v # summarize_values vs"
| "summarize_fields [] = []"
| "summarize_fields ((k, v) # kvs) = (k, summarize_json_value v) # summarize_fields kvs"

definition summarize_file_changes :: "json \<Rightarrow> string option" where
  "summarize_file_changes changes =
     (case as_array changes of
        None \<Rightarrow> None
      | Some [] \<Rightarrow> None
      | Some cs \<Rightarrow>
          (let paths = List.map_filter (\<lambda>c. map_option summarize_text
                 (first_some (\<lambda>k. as_str (jfield c k)) [''path'', ''file'', ''filePath'', ''target'']))
               (take 3 cs)
           in if paths = [] then Some (show_nat (length cs) @ '' file change(s)'')
              else Some (truncate_dots (join '', '' paths @ more_suffix (length cs)) TOOL_PARAM_MAX_CHARS)))"

record tool_summary =
  ts_name :: string
  ts_params :: "string option"

definition scoped_name :: "string option \<Rightarrow> string \<Rightarrow> string" where
  "scoped_name scope tool =
     (case filled scope of Some s \<Rightarrow> s @ ''/'' @ tool | None \<Rightarrow> tool)"

definition summarize_codex_tool_item :: "json \<Rightarrow> tool_summary" where
  "summarize_codex_tool_item item =
     (let kind = or_str (as_str (jfield item ''type'')) ''tool'' in
      if kind = ''commandExecution'' then
        \<lparr>ts_name = ''shell'', ts_params = map_option summarize_text (as_str (jfield item ''command''))\<rparr>
      else if kind = ''fileChange'' then
        \<lparr>ts_name = ''file_change'', ts_params = summarize_file_changes (jfield item ''changes'')\<rparr>
      else if kind = ''mcpToolCall'' then
        \<lparr>ts_name = summarize_tool_name (scoped_name (as_str (jfield item ''server''))
            (or_str (as_str (jfield item ''tool'')) ''mcp_tool'')),
         ts_params = summarize_json_value (jfield item ''arguments'')\<rparr>
      else if kind = ''dynamicToolCall'' then
        \<lparr>ts_name = summarize_tool_name (scoped_name (as_str (jfield item ''namespace''))
            (or_str (as_str (jfield item ''tool'')) ''dynamic_tool'')),
         ts_params = summarize_json_value (jfield item ''arguments'')\<rparr>
      else \<lparr>ts_name = summarize_tool_name kind, ts_params = None\<rparr>)"

definition item_started_progress :: "json \<Rightarrow> cli_progress option" where
  "item_started_progress item =
     (let kind = as_str (jfield item ''type'') in
      if kind = Some ''reasoning'' then Some (Thinking True)
      else if kind \<in> Some ` set [''commandExecution'', ''fileChange'', ''mcpToolCall'', ''dynamicToolCall''] then
        Some (ToolStarted (ts_name (summarize_codex_tool_item item)) (ts_params (summarize_codex_tool_item item)))
      else None)"

text \<open>The tool that was completed, and the event that says so.\<close>

definition item_completed_progress :: "json \<Rightarrow> string option \<times> cli_progress option" where
  "item_completed_progress item =
     (let kind = as_str (jfield item ''type'');
          name = ts_name (summarize_codex_tool_item item);
          duration = as_u64 (jfield item ''durationMs'')
      in if kind = Some ''reasoning'' then (None, Some (Thinking False))
         else if kind = Some ''fileChange'' then (Some name, Some (ToolDone name None))
         else if kind \<in> Some ` set [''commandExecution'', ''mcpToolCall'', ''dynamicToolCall''] then
           (Some name, Some (ToolDone name duration))
         else (None, None))"

definition some_text :: "string option \<Rightarrow> string option" where
  "some_text s = Option.bind s (\<lambda>t. if trim t \<noteq> [] then Some (trim t) else None)"

text \<open>The texts for a tool to approve that names no header or reason are \<open>header\<close> and \<open>reason\<close>.\<close>

definition approval_requested_progress ::
  "string \<Rightarrow> string \<Rightarrow> json \<Rightarrow> (string \<times> cli_progress) option" where
  "approval_requested_progress header reason params =
     Option.bind (jget params ''approval'') (\<lambda>approval.
       let s = (\<lambda>f. some_text (Option.bind (jget approval f) as_str)) in
       Option.bind (s ''id'') (\<lambda>i.
         Some (i, ApprovalRequested i (or_str (s ''tool'') ''tool'') (or_str (s ''header'') header)
                    (s ''detail'') (or_str (s ''reason'') reason))))"

end
