(* ===== verification/Codex_Pool.thy ===== *)
theory Codex_Pool
  imports Codex_Items Dispatch
begin

text \<open>
  The pool of Codex and astra app servers (\<open>codex_app_pool.rs\<close>): one process per conversation that
  speaks JSON-RPC. Requests wait for the answer with their number; notifications fill the state
  of the running turn, which the result is read from.

  An operation runs under the pool's mutex up to the wait for an answer, and goes on after it; the
  reader of the process's output runs beside it. Each of these is one event. A channel for
  progress is named by the number of the turn that opened it; what is sent to it, and the answers
  handed to those who wait, are logged. Starting the process is a parameter.
\<close>

section \<open>The process\<close>

datatype request_error = Rejected string | OutcomeUnknownError string

fun error_text :: "request_error \<Rightarrow> string" where
  "error_text (Rejected m) = m"
| "error_text (OutcomeUnknownError m) = m"

record app_proc =
  ap_is_astra :: bool
  ap_requests :: "json list"
  ap_open :: bool
  ap_pending :: "nat list"
  ap_next_id :: nat
  ap_turns :: nat
  ap_slot :: "nat option"
  ap_cancelled :: bool
  ap_reading :: bool
  ap_thread_id :: "string option"
  ap_active_turn_id :: "string option"
  ap_last_text :: string
  ap_tokens_prompt :: "nat option"
  ap_tokens_completion :: "nat option"
  ap_cached_input_tokens :: "nat option"
  ap_reasoning_output_tokens :: "nat option"
  ap_total_tokens :: "nat option"
  ap_context_window :: "nat option"
  ap_raw_usage_json :: "string option"
  ap_tool_calls_count :: nat
  ap_tools_used :: "string list"
  ap_last_error :: "string option"
  ap_turn_failed :: bool
  ap_committed_failure_session_id :: "string option"
  ap_approval_id :: "string option"
  ap_sent :: "(nat \<times> cli_progress) list"
  ap_answers :: "(nat \<times> (request_error + json)) list"

definition fresh_app :: "bool \<Rightarrow> app_proc" where
  "fresh_app is_astra =
     \<lparr>ap_is_astra = is_astra, ap_requests = [], ap_open = True, ap_pending = [], ap_next_id = 1,
      ap_turns = 0, ap_slot = None, ap_cancelled = False, ap_reading = True, ap_thread_id = None,
      ap_active_turn_id = None, ap_last_text = [], ap_tokens_prompt = None,
      ap_tokens_completion = None, ap_cached_input_tokens = None,
      ap_reasoning_output_tokens = None, ap_total_tokens = None, ap_context_window = None,
      ap_raw_usage_json = None, ap_tool_calls_count = 0, ap_tools_used = [], ap_last_error = None,
      ap_turn_failed = False, ap_committed_failure_session_id = None, ap_approval_id = None,
      ap_sent = [], ap_answers = []\<rparr>"

section \<open>Requests\<close>

text \<open>\<open>params[k] = v\<close> on an object\<close>

definition jset :: "string \<Rightarrow> json \<Rightarrow> json \<Rightarrow> json" where
  "jset k v params = (case params of JObj kvs \<Rightarrow> JObj (obj_insert k v kvs) | _ \<Rightarrow> params)"

definition jset_opt :: "string \<Rightarrow> json option \<Rightarrow> json \<Rightarrow> json" where
  "jset_opt k v params = (case v of Some x \<Rightarrow> jset k x params | None \<Rightarrow> params)"

definition request_send :: "string \<Rightarrow> json \<Rightarrow> app_proc \<Rightarrow> (request_error + nat) \<times> app_proc" where
  "request_send method params p =
     (let i = ap_next_id p;
          p1 = p\<lparr>ap_next_id := Suc i, ap_pending := i # ap_pending p\<rparr>;
          msg = obj_of [(''id'', JNum (int i)), (''method'', JStr method), (''params'', params)]
      in if ap_open p1 then (Inr i, p1\<lparr>ap_requests := ap_requests p1 @ [msg]\<rparr>)
         else (Inl (Rejected ''codex app-server stdin closed''), p1\<lparr>ap_pending := remove1 i (ap_pending p1)\<rparr>))"

datatype request_wait = Responded "request_error + json" | ResponseDropped | RequestTimedOut

definition request_finish ::
  "string \<Rightarrow> nat \<Rightarrow> nat \<Rightarrow> request_wait \<Rightarrow> app_proc \<Rightarrow> (request_error + json) \<times> app_proc" where
  "request_finish method timeout_secs i w p =
     (case w of
        Responded r \<Rightarrow> (r, p)
      | ResponseDropped \<Rightarrow> (Inl (OutcomeUnknownError ''codex app-server response channel closed''), p)
      | RequestTimedOut \<Rightarrow>
          (Inl (OutcomeUnknownError (''codex app-server '' @ quoted method @ '' timed out after '' @
             show_nat timeout_secs @ ''s'')),
           p\<lparr>ap_pending := remove1 i (ap_pending p)\<rparr>))"

definition APP_SERVER_RPC_TIMEOUT :: nat where
  "APP_SERVER_RPC_TIMEOUT = 30"

definition APPROVAL_RESPONSE_TIMEOUT :: nat where
  "APPROVAL_RESPONSE_TIMEOUT = 15"

definition text_input :: "string \<Rightarrow> json" where
  "text_input message =
     JArr [obj_of [(''type'', JStr ''text''), (''text'', JStr message), (''text_elements'', JArr [])]]"

definition apply_turn_profile_params :: "cli_profile \<Rightarrow> json \<Rightarrow> json" where
  "apply_turn_profile_params profile params =
     (case profile of
        Codex _ model effort _ _ _ _ _ \<Rightarrow>
          jset_opt ''effort'' (map_option JStr effort) (jset_opt ''model'' (map_option JStr model) params)
      | Astra _ model permission _ \<Rightarrow>
          jset ''permissionMode'' (JStr permission) (jset_opt ''model'' (map_option JStr model) params)
      | _ \<Rightarrow> params)"

definition apply_thread_context_params ::
  "string option \<Rightarrow> string option \<Rightarrow> json option \<Rightarrow> json \<Rightarrow> json" where
  "apply_thread_context_params dir system_prompt mcp params =
     jset_opt ''config'' mcp
       (jset_opt ''developerInstructions''
          (Option.bind system_prompt (\<lambda>s. if trim s \<noteq> [] then Some (JStr s) else None))
          (jset_opt ''cwd'' (map_option JStr dir) params))"

definition thread_start_params ::
  "cli_profile \<Rightarrow> string option \<Rightarrow> string option \<Rightarrow> json option \<Rightarrow> json" where
  "thread_start_params profile dir system_prompt mcp =
     (let params = apply_thread_context_params dir system_prompt mcp
            (obj_of [(''approvalPolicy'', JStr ''never''), (''ephemeral'', JBool False),
                     (''experimentalRawEvents'', JBool False), (''persistExtendedHistory'', JBool False)])
      in case profile of
           Codex _ model _ _ _ _ _ eph \<Rightarrow>
             jset ''ephemeral'' (JBool eph) (jset_opt ''model'' (map_option JStr model) params)
         | Astra _ model permission _ \<Rightarrow>
             jset ''permissionMode'' (JStr permission) (jset_opt ''model'' (map_option JStr model) params)
         | _ \<Rightarrow> params)"

definition thread_resume_params ::
  "string \<Rightarrow> cli_profile \<Rightarrow> string option \<Rightarrow> string option \<Rightarrow> json option \<Rightarrow> json" where
  "thread_resume_params thread_id profile dir system_prompt mcp =
     (let params = apply_thread_context_params dir system_prompt mcp
            (obj_of [(''threadId'', JStr thread_id), (''excludeTurns'', JBool True),
                     (''persistExtendedHistory'', JBool False), (''approvalPolicy'', JStr ''never'')])
      in case profile of
           Codex _ model _ _ _ _ _ _ \<Rightarrow> jset_opt ''model'' (map_option JStr model) params
         | Astra _ model permission _ \<Rightarrow>
             jset ''permissionMode'' (JStr permission) (jset_opt ''model'' (map_option JStr model) params)
         | _ \<Rightarrow> params)"

definition turn_steer_params :: "string \<Rightarrow> string \<Rightarrow> string \<Rightarrow> string option \<Rightarrow> json" where
  "turn_steer_params thread_id turn_id message client_id =
     jset_opt ''clientUserMessageId''
       (Option.bind client_id (\<lambda>c. if trim c \<noteq> [] then Some (JStr c) else None))
       (obj_of [(''threadId'', JStr thread_id), (''input'', text_input message),
                (''expectedTurnId'', JStr turn_id)])"

section \<open>Starting a process\<close>

text \<open>
  \<open>start\<close> is the error of building or starting the command. \<open>rpc\<close> stands for the process: what a
  request comes back with, and the state after it, in which its notifications have been read.
\<close>

type_synonym app_rpc = "string \<Rightarrow> json \<Rightarrow> app_proc \<Rightarrow> (string + json) \<times> app_proc"

definition initialize_params :: "string \<Rightarrow> json" where
  "initialize_params version =
     obj_of [(''clientInfo'', obj_of [(''name'', JStr ''astra-gateway''), (''version'', JStr version)]),
             (''capabilities'', obj_of [(''experimentalApi'', JBool True)])]"

definition is_astra_profile :: "cli_profile \<Rightarrow> bool" where
  "is_astra_profile profile = (case profile of Astra _ _ _ _ \<Rightarrow> True | _ \<Rightarrow> False)"

definition open_thread ::
  "app_rpc \<Rightarrow> cli_profile \<Rightarrow> string option \<Rightarrow> string option \<Rightarrow> string option \<Rightarrow> json option \<Rightarrow>
   app_proc \<Rightarrow> (string + json) \<times> app_proc" where
  "open_thread rpc profile session_id dir system_prompt mcp p =
     (let start = rpc ''thread/start'' (thread_start_params profile dir system_prompt mcp) in
      case Option.bind session_id (\<lambda>s. if trim s \<noteq> [] then Some s else None) of
        None \<Rightarrow> start p
      | Some sid \<Rightarrow>
          (case rpc ''thread/resume'' (thread_resume_params sid profile dir system_prompt mcp) p of
             (Inr thread, p1) \<Rightarrow> (Inr thread, p1)
           | (Inl _, p1) \<Rightarrow> start p1))"

definition spawn ::
  "string option \<Rightarrow> app_rpc \<Rightarrow> string \<Rightarrow> cli_profile \<Rightarrow> string option \<Rightarrow> string option \<Rightarrow>
   string option \<Rightarrow> json option \<Rightarrow> string + app_proc" where
  "spawn start rpc version profile session_id dir system_prompt mcp =
     (case start of
        Some e \<Rightarrow> Inl e
      | None \<Rightarrow>
          (case rpc ''initialize'' (initialize_params version) (fresh_app (is_astra_profile profile)) of
             (Inl e, _) \<Rightarrow> Inl e
           | (Inr _, p1) \<Rightarrow>
               (case open_thread rpc profile session_id dir system_prompt mcp p1 of
                  (Inl e, _) \<Rightarrow> Inl e
                | (Inr thread, p2) \<Rightarrow>
                    (case as_str (jfield (jfield thread ''thread'') ''id'') of
                       None \<Rightarrow> Inl ''codex thread/start response missing thread.id''
                     | Some tid \<Rightarrow> Inr (p2\<lparr>ap_thread_id := Some tid\<rparr>)))))"

section \<open>A turn\<close>

text \<open>\<open>begin_app_turn\<close> on a process, up to the wait for the answer, and after it.\<close>

definition clear_turn :: "app_proc \<Rightarrow> app_proc" where
  "clear_turn p =
     p\<lparr>ap_last_text := [], ap_tokens_prompt := None, ap_tokens_completion := None,
       ap_cached_input_tokens := None, ap_reasoning_output_tokens := None, ap_total_tokens := None,
       ap_context_window := None, ap_raw_usage_json := None, ap_tool_calls_count := 0,
       ap_tools_used := [], ap_last_error := None, ap_turn_failed := False,
       ap_committed_failure_session_id := None, ap_approval_id := None, ap_active_turn_id := None\<rparr>"

definition turn_start_params :: "string \<Rightarrow> string \<Rightarrow> string option \<Rightarrow> cli_profile \<Rightarrow> json" where
  "turn_start_params thread_id message dir profile =
     apply_turn_profile_params profile
       (jset_opt ''cwd'' (map_option JStr dir)
          (obj_of [(''threadId'', JStr thread_id), (''input'', text_input message),
                   (''approvalPolicy'', JStr ''never'')]))"

definition begin_send ::
  "string \<Rightarrow> string option \<Rightarrow> cli_profile \<Rightarrow> app_proc \<Rightarrow> (string + nat) \<times> app_proc" where
  "begin_send message dir profile p =
     (let turn = Suc (ap_turns p);
          p1 = clear_turn (p\<lparr>ap_turns := turn, ap_slot := Some turn\<rparr>)
      in case ap_thread_id p1 of
           None \<Rightarrow> (Inl ''codex app-server has no thread id'', p1)
         | Some tid \<Rightarrow>
             (case request_send ''turn/start'' (turn_start_params tid message dir profile) p1 of
                (Inl e, p2) \<Rightarrow> (Inl (error_text e), p2)
              | (Inr i, p2) \<Rightarrow> (Inr i, p2)))"

definition begin_finish :: "request_error + json \<Rightarrow> app_proc \<Rightarrow> (string + nat) \<times> app_proc" where
  "begin_finish r p =
     (case r of
        Inl e \<Rightarrow> (Inl (error_text e), p)
      | Inr response \<Rightarrow>
          (Inr (ap_turns p),
           (case as_str (jfield (jfield response ''turn'') ''id'') of
              Some turn_id \<Rightarrow> p\<lparr>ap_active_turn_id := Some turn_id\<rparr> | None \<Rightarrow> p)))"

definition app_interrupt_send :: "app_proc \<Rightarrow> (string + nat) \<times> app_proc" where
  "app_interrupt_send p =
     (case ap_thread_id p of
        None \<Rightarrow> (Inl ''no codex thread id'', p)
      | Some tid \<Rightarrow>
          (case ap_active_turn_id p of
             None \<Rightarrow> (Inl ''no active codex turn id'', p)
           | Some turn_id \<Rightarrow>
               (case request_send ''turn/interrupt''
                       (obj_of [(''threadId'', JStr tid), (''turnId'', JStr turn_id)]) p of
                  (Inl e, p1) \<Rightarrow> (Inl (error_text e), p1)
                | (Inr i, p1) \<Rightarrow> (Inr i, p1))))"

definition app_interrupt_finish :: "request_error + json \<Rightarrow> string + unit" where
  "app_interrupt_finish r = (case r of Inl e \<Rightarrow> Inl (error_text e) | Inr _ \<Rightarrow> Inr ())"

section \<open>Steering\<close>

text \<open>A steering request that was sent carries the turn it is meant for and its number.\<close>

definition steer_send ::
  "string \<Rightarrow> string option \<Rightarrow> app_proc \<Rightarrow> (codex_steer_outcome + (string \<times> nat)) \<times> app_proc" where
  "steer_send message client_id p =
     (case (ap_thread_id p, ap_active_turn_id p) of
        (Some tid, Some turn_id) \<Rightarrow>
          (case request_send ''turn/steer'' (turn_steer_params tid turn_id message client_id) p of
             (Inl (Rejected e), p1) \<Rightarrow> (Inl (SteerRejected e), p1)
           | (Inl (OutcomeUnknownError e), p1) \<Rightarrow> (Inl (OutcomeUnknown e), p1)
           | (Inr i, p1) \<Rightarrow> (Inr (turn_id, i), p1))
      | _ \<Rightarrow> (Inl NoActiveTurn, p))"

definition steer_finish :: "string \<Rightarrow> request_error + json \<Rightarrow> codex_steer_outcome" where
  "steer_finish turn_id r =
     (case r of
        Inl (Rejected e) \<Rightarrow> SteerRejected e
      | Inl (OutcomeUnknownError e) \<Rightarrow> OutcomeUnknown e
      | Inr response \<Rightarrow>
          (case as_str (jfield response ''turnId'') of
             None \<Rightarrow> OutcomeUnknown ''codex turn/steer response missing turnId''
           | Some accepted \<Rightarrow>
               if accepted \<noteq> turn_id
               then OutcomeUnknown (''codex turn/steer accepted unexpected turn '' @ quoted accepted @
                      '' (expected '' @ quoted turn_id @ '')'')
               else SteerAccepted accepted))"

section \<open>Approvals\<close>

definition NO_APPROVAL_TEXT :: string where
  "NO_APPROVAL_TEXT =
     [CHR 0xE5, CHR 0xBD, CHR 0x93, CHR 0xE5, CHR 0x89, CHR 0x8D, CHR 0xE6, CHR 0xB2, CHR 0xA1, CHR 0xE6,
     CHR 0x9C, CHR 0x89, CHR 0xE5, CHR 0xBE, CHR 0x85, CHR 0xE7, CHR 0xA1, CHR 0xAE, CHR 0xE8, CHR 0xAE,
     CHR 0xA4, CHR 0xE6, CHR 0x93, CHR 0x8D, CHR 0xE4, CHR 0xBD, CHR 0x9C]"

definition approval_send :: "string \<Rightarrow> app_proc \<Rightarrow> (string + nat) \<times> app_proc" where
  "approval_send decision p =
     (case ap_approval_id p of
        None \<Rightarrow> (Inl NO_APPROVAL_TEXT, p)
      | Some i \<Rightarrow>
          (case request_send ''approval/respond''
                  (obj_of [(''approvalId'', JStr i), (''decision'', JStr decision)]) p of
             (Inl e, p1) \<Rightarrow> (Inl (error_text e), p1)
           | (Inr n, p1) \<Rightarrow> (Inr n, p1)))"

definition approval_finish :: "request_error + json \<Rightarrow> app_proc \<Rightarrow> (string + unit) \<times> app_proc" where
  "approval_finish r p =
     (case r of
        Inl e \<Rightarrow> (Inl (error_text e), p)
      | Inr _ \<Rightarrow> (Inr (), p\<lparr>ap_approval_id := None\<rparr>))"

section \<open>The result of a turn\<close>

definition app_result :: "app_proc \<Rightarrow> 'f cli_result" where
  "app_result p =
     (let failed = ap_turn_failed p in
      (exit_result (if failed then 1 else 0))
        \<lparr>cr_stderr := or_str (ap_last_error p) [], cr_error_kind := None,
         cr_session_id := (if failed \<and> ap_is_astra p then ap_committed_failure_session_id p
                           else ap_thread_id p),
         cr_text := (if failed \<or> ap_last_text p = [] then None else Some (ap_last_text p)),
         cr_tool_calls_count := (if ap_tool_calls_count p = 0 then None else Some (ap_tool_calls_count p)),
         cr_tools_used := ap_tools_used p,
         cr_tokens_prompt := ap_tokens_prompt p, cr_tokens_completion := ap_tokens_completion p,
         cr_cached_input_tokens := ap_cached_input_tokens p,
         cr_reasoning_output_tokens := ap_reasoning_output_tokens p,
         cr_total_tokens := ap_total_tokens p, cr_context_window := ap_context_window p,
         cr_raw_usage_json := ap_raw_usage_json p\<rparr>)"

section \<open>Notifications\<close>

definition send_progress :: "cli_progress \<Rightarrow> app_proc \<Rightarrow> app_proc" where
  "send_progress ev p =
     (case ap_slot p of None \<Rightarrow> p | Some ch \<Rightarrow> p\<lparr>ap_sent := ap_sent p @ [(ch, ev)]\<rparr>)"

definition send_some :: "cli_progress option \<Rightarrow> app_proc \<Rightarrow> app_proc" where
  "send_some ev p = (case ev of Some e \<Rightarrow> send_progress e p | None \<Rightarrow> p)"

definition record_tool :: "string \<Rightarrow> app_proc \<Rightarrow> app_proc" where
  "record_tool name p =
     p\<lparr>ap_tool_calls_count := inc32 (ap_tool_calls_count p), ap_tools_used := push_new name (ap_tools_used p)\<rparr>"

text \<open>A delta that is there and not empty.\<close>

definition delta_of :: "json \<Rightarrow> string option" where
  "delta_of params = filled (as_str (jfield params ''delta''))"

definition set_thread :: "string option \<Rightarrow> app_proc \<Rightarrow> app_proc" where
  "set_thread tid p = (case tid of Some t \<Rightarrow> p\<lparr>ap_thread_id := Some t\<rparr> | None \<Rightarrow> p)"

definition on_turn_started :: "json \<Rightarrow> app_proc \<Rightarrow> app_proc" where
  "on_turn_started params p =
     (case as_str (jfield (jfield params ''turn'') ''id'') of
        Some t \<Rightarrow> p\<lparr>ap_active_turn_id := Some t\<rparr> | None \<Rightarrow> p)"

definition on_message_delta :: "json \<Rightarrow> app_proc \<Rightarrow> app_proc" where
  "on_message_delta params p =
     (case delta_of params of
        None \<Rightarrow> p
      | Some d \<Rightarrow> send_progress (Token d) (p\<lparr>ap_last_text := ap_last_text p @ d\<rparr>))"

definition on_reasoning_delta :: "reasoning_kind \<Rightarrow> json \<Rightarrow> app_proc \<Rightarrow> app_proc" where
  "on_reasoning_delta kind params p =
     send_some (map_option (ReasoningBlock kind) (delta_of params)) p"

definition on_item_completed :: "json \<Rightarrow> app_proc \<Rightarrow> app_proc" where
  "on_item_completed params p =
     (let item = jfield params ''item'' in
      if as_str (jfield item ''type'') = Some ''agentMessage'' then
        (case as_str (jfield item ''text'') of
           Some t \<Rightarrow> if ap_last_text p = [] then p\<lparr>ap_last_text := t\<rparr> else p
         | None \<Rightarrow> p)
      else
        (case item_completed_progress item of
           (tool, ev) \<Rightarrow> send_some ev (case tool of Some n \<Rightarrow> record_tool n p | None \<Rightarrow> p)))"

definition on_token_usage :: "(json \<Rightarrow> string) \<Rightarrow> json \<Rightarrow> app_proc \<Rightarrow> app_proc" where
  "on_token_usage ser params p =
     (let token_usage = jfield params ''tokenUsage'';
          usage = jfield token_usage ''last''
      in p\<lparr>ap_tokens_prompt := as_u64 (jfield usage ''inputTokens''),
           ap_tokens_completion := as_u64 (jfield usage ''outputTokens''),
           ap_cached_input_tokens := as_u64 (jfield usage ''cachedInputTokens''),
           ap_reasoning_output_tokens := as_u64 (jfield usage ''reasoningOutputTokens''),
           ap_total_tokens := as_u64 (jfield usage ''totalTokens''),
           ap_context_window := as_u64 (jfield token_usage ''modelContextWindow''),
           ap_raw_usage_json := Some (ser token_usage)\<rparr>)"

definition COMMIT_UNKNOWN_TEXT :: string where
  "COMMIT_UNKNOWN_TEXT =
     [CHR 0x20, CHR 0x5B, CHR 0xE6, CHR 0x8F, CHR 0x90, CHR 0xE4, CHR 0xBA, CHR 0xA4, CHR 0xE7, CHR 0x8A,
     CHR 0xB6, CHR 0xE6, CHR 0x80, CHR 0x81, CHR 0xE6, CHR 0x9C, CHR 0xAA, CHR 0xE7, CHR 0x9F, CHR 0xA5,
     CHR 0xEF, CHR 0xBC, CHR 0x8C, CHR 0xE8, CHR 0xAF, CHR 0xB7, CHR 0xE5, CHR 0x8B, CHR 0xBF, CHR 0xE7,
     CHR 0x9B, CHR 0xB4, CHR 0xE6, CHR 0x8E, CHR 0xA5, CHR 0xE9, CHR 0x87, CHR 0x8D, CHR 0xE8, CHR 0xAF,
     CHR 0x95, CHR 0xEF, CHR 0xBC, CHR 0x9B, CHR 0xE5, CHR 0x85, CHR 0x88, CHR 0xE6, CHR 0xA0, CHR 0xB8,
     CHR 0xE5, CHR 0xAF, CHR 0xB9, CHR 0xE4, CHR 0xBC, CHR 0x9A, CHR 0xE8, CHR 0xAF, CHR 0x9D, CHR 0xE7,
     CHR 0x8A, CHR 0xB6, CHR 0xE6, CHR 0x80, CHR 0x81, CHR 0x5D]"

definition astra_failure :: "json \<Rightarrow> app_proc \<Rightarrow> app_proc" where
  "astra_failure params p =
     (let p1 = (case filled (as_str (jfield params ''sessionId'')) of
            Some sid \<Rightarrow>
              if as_bool (jfield params ''committed'') = Some True
              then p\<lparr>ap_committed_failure_session_id := Some sid, ap_thread_id := Some sid\<rparr> else p
          | None \<Rightarrow> p)
      in if as_bool (jfield params ''commitUnknown'') = Some True
         then p1\<lparr>ap_last_error := Some (or_str (ap_last_error p1) [] @ COMMIT_UNKNOWN_TEXT)\<rparr>
         else p1)"

definition close_turn :: "app_proc \<Rightarrow> app_proc" where
  "close_turn p = p\<lparr>ap_active_turn_id := None, ap_slot := None, ap_approval_id := None\<rparr>"

definition on_turn_completed :: "json \<Rightarrow> app_proc \<Rightarrow> app_proc" where
  "on_turn_completed params p =
     close_turn
       (if as_str (jfield params ''status'') = Some ''failed''
        then (let p1 = p\<lparr>ap_turn_failed := True\<rparr> in if ap_is_astra p1 then astra_failure params p1 else p1)
        else p)"

definition APPROVAL_HEADER :: string where
  "APPROVAL_HEADER =
     [CHR 0xE5, CHR 0xB7, CHR 0xA5, CHR 0xE5, CHR 0x85, CHR 0xB7, CHR 0xE9, CHR 0x9C, CHR 0x80, CHR 0xE8,
     CHR 0xA6, CHR 0x81, CHR 0xE7, CHR 0xA1, CHR 0xAE, CHR 0xE8, CHR 0xAE, CHR 0xA4]"

definition APPROVAL_REASON :: string where
  "APPROVAL_REASON =
     [CHR 0xE9, CHR 0x9C, CHR 0x80, CHR 0xE8, CHR 0xA6, CHR 0x81, CHR 0xE7, CHR 0x94, CHR 0xA8, CHR 0xE6,
     CHR 0x88, CHR 0xB7, CHR 0xE7, CHR 0xA1, CHR 0xAE, CHR 0xE8, CHR 0xAE, CHR 0xA4]"

definition on_approval_requested :: "json \<Rightarrow> app_proc \<Rightarrow> app_proc" where
  "on_approval_requested params p =
     (case approval_requested_progress APPROVAL_HEADER APPROVAL_REASON params of
        None \<Rightarrow> p
      | Some (i, ev) \<Rightarrow> send_progress ev (p\<lparr>ap_approval_id := Some i\<rparr>))"

definition on_error :: "json \<Rightarrow> app_proc \<Rightarrow> app_proc" where
  "on_error params p =
     (let m = or_str (or_else (as_str (jfield params ''message'')) (as_str (jfield params ''error'')))
                ''codex app-server error''
      in send_progress (Status (''[error] '' @ m)) (p\<lparr>ap_last_error := Some m\<rparr>))"

definition handle_notification :: "(json \<Rightarrow> string) \<Rightarrow> json \<Rightarrow> app_proc \<Rightarrow> app_proc" where
  "handle_notification ser v p =
     (let params = jfield v ''params'' in
      case as_str (jfield v ''method'') of
        None \<Rightarrow> p
      | Some m \<Rightarrow>
          if m = ''thread/started'' then set_thread (as_str (jfield (jfield params ''thread'') ''id'')) p
          else if m = ''turn/started'' then on_turn_started params p
          else if m = ''item/agentMessage/delta'' then on_message_delta params p
          else if m = ''item/reasoning/textDelta'' then on_reasoning_delta Raw params p
          else if m = ''item/reasoning/summaryTextDelta'' then on_reasoning_delta Summary params p
          else if m = ''item/started'' then send_some (item_started_progress (jfield params ''item'')) p
          else if m = ''item/completed'' then on_item_completed params p
          else if m = ''thread/tokenUsage/updated'' then on_token_usage ser params p
          else if m = ''turn/completed'' then on_turn_completed params p
          else if m = ''approval/requested'' then on_approval_requested params p
          else if m = ''error'' then on_error params p
          else p)"

section \<open>The reader of the process's output\<close>

definition unsupported_server_request_response :: "json \<Rightarrow> json option" where
  "unsupported_server_request_response request =
     Option.bind (jget request ''id'') (\<lambda>i.
       Option.bind (Option.bind (jget request ''method'') as_str) (\<lambda>m. Some (
         if m = ''item/tool/call'' then
           (let tool = as_str (jfield (jfield request ''params'') ''tool'');
                name = (case tool of Some t \<Rightarrow> if trim t \<noteq> [] then t else ''unknown'' | None \<Rightarrow> ''unknown'');
                message = ''client tool '' @ quoted name @
                  '' is not supported by astra-gateway; use another available tool''
            in obj_of [(''id'', i),
                 (''result'', obj_of [(''contentItems'',
                     JArr [obj_of [(''type'', JStr ''inputText''), (''text'', JStr message)]]),
                   (''success'', JBool False)])])
         else obj_of [(''id'', i),
                (''error'', obj_of [(''code'', JNum (- 32601)),
                   (''message'', JStr (''server request '' @ quoted m @ '' is not supported by astra-gateway''))])])))"

definition mark_process_failed :: "string \<Rightarrow> app_proc \<Rightarrow> app_proc" where
  "mark_process_failed e p = close_turn (p\<lparr>ap_last_error := Some e, ap_turn_failed := True\<rparr>)"

text \<open>The waiters are answered in the order of the runtime's map, which nobody observes.\<close>

definition fail_pending :: "string \<Rightarrow> app_proc \<Rightarrow> app_proc" where
  "fail_pending e p =
     p\<lparr>ap_pending := [],
       ap_answers := ap_answers p @ map (\<lambda>i. (i, Inl (OutcomeUnknownError e))) (ap_pending p)\<rparr>"

text \<open>The end of the reader; \<open>cancels\<close> when it was not a cancellation that ended it.\<close>

definition app_reader_fails :: "string \<Rightarrow> bool \<Rightarrow> app_proc \<Rightarrow> app_proc" where
  "app_reader_fails e cancels p =
     (let p1 = fail_pending e (mark_process_failed e p) in
      p1\<lparr>ap_reading := False, ap_cancelled := (ap_cancelled p1 \<or> cancels)\<rparr>)"

definition answer_request :: "(json \<Rightarrow> string) \<Rightarrow> nat \<Rightarrow> json \<Rightarrow> app_proc \<Rightarrow> app_proc" where
  "answer_request ser i v p =
     (if i \<in> set (ap_pending p)
      then p\<lparr>ap_pending := remove1 i (ap_pending p),
             ap_answers := ap_answers p @ [(i, case jget v ''error'' of
                 Some err \<Rightarrow> Inl (Rejected (ser err))
               | None \<Rightarrow> Inr (jfield v ''result''))]\<rparr>
      else p)"

definition app_reader_line :: "(json \<Rightarrow> string) \<Rightarrow> (string \<Rightarrow> json option) \<Rightarrow> string \<Rightarrow> app_proc \<Rightarrow> app_proc" where
  "app_reader_line ser de line p =
     (let l = trim line in
      if l = [] then p
      else case de l of
        None \<Rightarrow> p
      | Some v \<Rightarrow>
          (case unsupported_server_request_response v of
             Some response \<Rightarrow>
               if ap_open p then p\<lparr>ap_requests := ap_requests p @ [response]\<rparr>
               else app_reader_fails ''codex app-server stdin closed'' True p
           | None \<Rightarrow>
               (case as_u64 (jfield v ''id'') of
                  Some i \<Rightarrow> answer_request ser i v p
                | None \<Rightarrow> handle_notification ser v p)))"

datatype app_stop = Eof | ReadError string | Cancelled

definition app_reader_ends :: "app_stop \<Rightarrow> app_proc \<Rightarrow> app_proc" where
  "app_reader_ends stop p =
     (case stop of
        Eof \<Rightarrow> app_reader_fails ''codex app-server stdout closed'' True p
      | ReadError e \<Rightarrow> app_reader_fails (''codex app-server stdout error: '' @ e) True p
      | Cancelled \<Rightarrow> app_reader_fails ''codex app-server cancelled'' False p)"

section \<open>The pool\<close>

type_synonym app_pool = "string \<Rightarrow> app_proc option"

definition supports_app_server :: "cli_profile \<Rightarrow> bool" where
  "supports_app_server profile =
     (case profile of Codex _ _ _ _ stream_json _ _ _ \<Rightarrow> stream_json | Astra _ _ _ _ \<Rightarrow> True | _ \<Rightarrow> False)"

definition is_app_alive :: "string \<Rightarrow> app_pool \<Rightarrow> bool" where
  "is_app_alive key pool = (case pool key of Some p \<Rightarrow> \<not> ap_cancelled p | None \<Rightarrow> False)"

text \<open>\<open>begin_app_turn\<close> on the pool, up to the wait; \<open>spawned\<close> is what \<open>spawn\<close> comes back with.\<close>

definition begin_app_turn ::
  "(string + app_proc) \<Rightarrow> string \<Rightarrow> string \<Rightarrow> string option \<Rightarrow> cli_profile \<Rightarrow> app_pool \<Rightarrow> (string + nat) \<times> app_pool" where
  "begin_app_turn spawned key message dir profile pool =
     (case (if is_app_alive key pool then ok_or [] (pool key) else spawned) of
        Inl e \<Rightarrow> (Inl e, pool(key := None))
      | Inr p \<Rightarrow> (case begin_send message dir profile p of (r, p') \<Rightarrow> (r, pool(key \<mapsto> p'))))"

text \<open>What is left of a killed process is its handle, cancelled, which a steering request may hold.\<close>

definition kill_app :: "string \<Rightarrow> app_pool \<Rightarrow> app_proc option \<times> app_pool" where
  "kill_app key pool = (map_option (\<lambda>p. p\<lparr>ap_cancelled := True\<rparr>) (pool key), pool(key := None))"

definition result_of :: "string \<Rightarrow> app_pool \<Rightarrow> 'f cli_result option" where
  "result_of key pool = map_option app_result (pool key)"

end
