(* ===== verification/Codex_Props.thy ===== *)
theory Codex_Props
  imports Codex_Pool
begin

text \<open>
  What holds of an app server's process through any sequence of events: a request is answered once,
  the end of the process frees whoever waits and fails the turn; and the
  orders of events in which state of one turn or approval reaches another.
\<close>

section \<open>What can happen to a process\<close>

datatype app_event =
    BeginSend string "string option" cli_profile
  | BeginFinish "request_error + json"
  | SteerSend string "string option"
  | InterruptSend
  | ApprovalSend string
  | ApprovalFinish "request_error + json"
  | TimesOut nat
  | OutLine string
  | StdinBreaks
  | ReaderEnds app_stop

definition app_step ::
  "(json \<Rightarrow> string) \<Rightarrow> (string \<Rightarrow> json option) \<Rightarrow> app_event \<Rightarrow> app_proc \<Rightarrow> app_proc" where
  "app_step ser de e p =
     (case e of
        BeginSend m dir profile \<Rightarrow> snd (begin_send m dir profile p)
      | BeginFinish r \<Rightarrow> snd (begin_finish r p)
      | SteerSend m c \<Rightarrow> snd (steer_send m c p)
      | InterruptSend \<Rightarrow> snd (app_interrupt_send p)
      | ApprovalSend d \<Rightarrow> snd (approval_send d p)
      | ApprovalFinish r \<Rightarrow> snd (approval_finish r p)
      | TimesOut i \<Rightarrow> snd (request_finish [] 0 i RequestTimedOut p)
      | OutLine line \<Rightarrow> if ap_reading p then app_reader_line ser de line p else p
      | StdinBreaks \<Rightarrow> p\<lparr>ap_open := False\<rparr>
      | ReaderEnds stop \<Rightarrow> if ap_reading p then app_reader_ends stop p else p)"

definition run_app ::
  "(json \<Rightarrow> string) \<Rightarrow> (string \<Rightarrow> json option) \<Rightarrow> app_event list \<Rightarrow> app_proc \<Rightarrow> app_proc" where
  "run_app ser de es p = fold (app_step ser de) es p"

lemma run_app_simps [simp]:
  "run_app ser de [] p = p"
  "run_app ser de (e # es) p = run_app ser de es (app_step ser de e p)"
  by (simp_all add: run_app_def)

section \<open>Answers\<close>

definition answered :: "app_proc \<Rightarrow> nat list" where
  "answered p = map fst (ap_answers p)"

definition requests_ok :: "app_proc \<Rightarrow> bool" where
  "requests_ok p \<longleftrightarrow>
     distinct (ap_pending p @ answered p) \<and> (\<forall>i \<in> set (ap_pending p @ answered p). i < ap_next_id p)"

lemma requests_ok_distinct: "requests_ok p \<Longrightarrow> distinct (ap_pending p)"
  by (simp add: requests_ok_def)

text \<open>What no notification changes.\<close>

definition same_requests :: "app_proc \<Rightarrow> app_proc \<Rightarrow> bool" where
  "same_requests p q \<longleftrightarrow>
     ap_pending q = ap_pending p \<and> ap_answers q = ap_answers p \<and> ap_next_id q = ap_next_id p \<and>
     ap_turns q = ap_turns p \<and> ap_reading q = ap_reading p"

lemma same_requests_refl [simp]: "same_requests p p"
  by (simp add: same_requests_def)

lemma same_requests_trans: "same_requests p q \<Longrightarrow> same_requests q r \<Longrightarrow> same_requests p r"
  by (simp add: same_requests_def)

lemma same_requests_ok: "same_requests p q \<Longrightarrow> requests_ok p \<Longrightarrow> requests_ok q"
  by (simp add: same_requests_def requests_ok_def answered_def)

named_theorems app_frame

lemma same_send_progress [app_frame]: "same_requests p (send_progress ev p)"
  by (simp add: same_requests_def send_progress_def split: option.split)

lemma same_send_some [app_frame]: "same_requests p (send_some ev p)"
  by (simp add: send_some_def same_send_progress split: option.split)

lemma same_set_thread [app_frame]: "same_requests p (set_thread t p)"
  by (simp add: set_thread_def same_requests_def split: option.split)

lemma same_turn_started [app_frame]: "same_requests p (on_turn_started params p)"
  by (simp add: on_turn_started_def same_requests_def split: option.split)

lemma same_message_delta [app_frame]: "same_requests p (on_message_delta params p)"
  by (simp add: on_message_delta_def same_requests_def send_progress_def split: option.split)

lemma same_reasoning_delta [app_frame]: "same_requests p (on_reasoning_delta k params p)"
  by (simp add: on_reasoning_delta_def same_send_some)

lemma same_item_completed [app_frame]: "same_requests p (on_item_completed params p)"
  by (simp add: on_item_completed_def Let_def same_requests_def send_some_def send_progress_def
    record_tool_def split: option.split prod.split)

lemma same_token_usage [app_frame]: "same_requests p (on_token_usage ser params p)"
  by (simp add: on_token_usage_def Let_def same_requests_def)

lemma same_turn_completed [app_frame]: "same_requests p (on_turn_completed params p)"
  by (simp add: on_turn_completed_def Let_def same_requests_def close_turn_def astra_failure_def
    split: option.split)

lemma same_approval_requested [app_frame]: "same_requests p (on_approval_requested params p)"
  by (simp add: on_approval_requested_def same_requests_def send_progress_def split: option.split prod.split)

lemma same_error [app_frame]: "same_requests p (on_error params p)"
  by (simp add: on_error_def Let_def same_requests_def send_progress_def split: option.split)

lemma same_notification: "same_requests p (handle_notification ser v p)"
  by (simp add: handle_notification_def Let_def app_frame split: option.split)

text \<open>What the process said about the requests: the answer of each response among the lines.\<close>

definition response_of :: "(json \<Rightarrow> string) \<Rightarrow> json \<Rightarrow> request_error + json" where
  "response_of ser v =
     (case jget v ''error'' of Some err \<Rightarrow> Inl (Rejected (ser err)) | None \<Rightarrow> Inr (jfield v ''result''))"

definition response_line ::
  "(json \<Rightarrow> string) \<Rightarrow> (string \<Rightarrow> json option) \<Rightarrow> app_event \<Rightarrow> (nat \<times> (request_error + json)) option" where
  "response_line ser de e =
     (case e of
        OutLine line \<Rightarrow>
          Option.bind (de (trim line)) (\<lambda>v.
            if trim line = [] \<or> unsupported_server_request_response v \<noteq> None then None
            else map_option (\<lambda>i. (i, response_of ser v)) (as_u64 (jfield v ''id'')))
      | _ \<Rightarrow> None)"

definition is_unknown :: "request_error + json \<Rightarrow> bool" where
  "is_unknown r = (case r of Inl (OutcomeUnknownError _) \<Rightarrow> True | _ \<Rightarrow> False)"

text \<open>
  One event: numbers go up, an answer goes to a request that waits for it, and it is what the
  process said to that request; only the event that ends the reading answers that an outcome is
  not known. After that nothing is read and nobody is answered.
\<close>

definition step_ok ::
  "(nat \<times> (request_error + json)) option \<Rightarrow> app_proc \<Rightarrow> app_proc \<Rightarrow> bool" where
  "step_ok said p q \<longleftrightarrow>
     ap_next_id p \<le> ap_next_id q \<and> set (ap_pending q) \<subseteq> set (ap_pending p) \<union> {ap_next_id p ..< ap_next_id q} \<and>
     distinct (ap_pending q) \<and> (ap_reading q \<longrightarrow> ap_reading p) \<and>
     (\<exists>new. ap_answers q = ap_answers p @ new \<and> distinct (map fst new) \<and>
        fst ` set new \<subseteq> set (ap_pending p) \<and> fst ` set new \<inter> set (ap_pending q) = {} \<and>
        (\<forall>a \<in> set new. ap_reading p \<and> (said = Some a \<or> is_unknown (snd a) \<and> \<not> ap_reading q)))"

lemma step_ok_same: "distinct (ap_pending p) \<Longrightarrow> same_requests p q \<Longrightarrow> step_ok said p q"
  by (simp add: step_ok_def same_requests_def)

lemma step_ok_send:
  "requests_ok p \<Longrightarrow> step_ok said p (snd (request_send m params p))"
  by (auto simp: step_ok_def requests_ok_def request_send_def Let_def)

lemma step_ok_sent:
  "requests_ok p \<Longrightarrow> request_send m params p = (r, q) \<Longrightarrow> step_ok said p q"
  using step_ok_send [of p said m params] by simp

lemma step_ok_answer:
  "requests_ok p \<Longrightarrow> ap_reading p \<Longrightarrow> step_ok (Some (i, response_of ser v)) p (answer_request ser i v p)"
  by (auto simp: step_ok_def requests_ok_def answer_request_def response_of_def)

lemma step_ok_fails: "requests_ok p \<Longrightarrow> ap_reading p \<Longrightarrow> step_ok said p (app_reader_fails e c p)"
  by (auto simp: step_ok_def requests_ok_def app_reader_fails_def fail_pending_def mark_process_failed_def
    close_turn_def Let_def comp_def is_unknown_def)

lemma step_ok_time_out:
  "requests_ok p \<Longrightarrow> step_ok said p (snd (request_finish m n i RequestTimedOut p))"
  by (auto simp: step_ok_def requests_ok_def request_finish_def)

lemma same_requests_out [app_frame]: "same_requests p (p\<lparr>ap_requests := rs\<rparr>)"
  by (simp add: same_requests_def)

lemma step_ok_line:
  assumes "requests_ok p" "ap_reading p"
  shows "step_ok (response_line ser de (OutLine line)) p (app_reader_line ser de line p)"
proof -
  have d: "distinct (ap_pending p)" using assms by (simp add: requests_ok_def)
  note same = step_ok_same [OF d]
  show ?thesis
    using assms
    by (auto simp: app_reader_line_def Let_def response_line_def same app_frame same_notification step_ok_fails
      step_ok_answer split: option.split)
qed

lemma requests_ok_cong:
  "ap_pending q = ap_pending p \<Longrightarrow> ap_answers q = ap_answers p \<Longrightarrow> ap_next_id q = ap_next_id p \<Longrightarrow>
   requests_ok q = requests_ok p"
  by (simp add: requests_ok_def answered_def)

lemma step_ok_cong:
  "ap_pending p' = ap_pending p \<Longrightarrow> ap_answers p' = ap_answers p \<Longrightarrow> ap_next_id p' = ap_next_id p \<Longrightarrow>
   ap_reading p' = ap_reading p \<Longrightarrow> step_ok said p' q = step_ok said p q"
  by (simp add: step_ok_def)

lemma step_ok_begin: "requests_ok p \<Longrightarrow> step_ok said p (snd (begin_send m dir profile p))"
proof -
  assume ok: "requests_ok p"
  let ?q = "clear_turn (p\<lparr>ap_turns := Suc (ap_turns p), ap_slot := Some (Suc (ap_turns p))\<rparr>)"
  have frm: "ap_pending ?q = ap_pending p" "ap_answers ?q = ap_answers p" "ap_next_id ?q = ap_next_id p"
    and rd: "ap_reading ?q = ap_reading p"
    by (simp_all add: clear_turn_def)
  have "step_ok said p (snd (request_send m' params ?q))" for m' params
    using step_ok_send [of ?q said m' params] ok by (simp add: requests_ok_cong [OF frm] step_ok_cong [OF frm rd])
  moreover have "step_ok said p ?q" using ok frm rd by (simp add: step_ok_def requests_ok_def)
  ultimately show ?thesis
    by (simp add: begin_send_def Let_def split: option.split prod.split sum.split) (metis snd_conv)
qed

lemma step_ok_step:
  assumes "requests_ok p"
  shows "step_ok (response_line ser de e) p (app_step ser de e p)"
proof (cases e)
  case (BeginSend m dir profile)
  with assms show ?thesis by (simp add: app_step_def step_ok_begin)
next
  case (OutLine line)
  with assms show ?thesis
    by (simp add: app_step_def step_ok_line step_ok_same requests_ok_def)
next
  case (TimesOut i)
  with assms show ?thesis by (simp add: app_step_def step_ok_time_out)
next
  case (ReaderEnds stop)
  with assms show ?thesis
    by (simp add: app_step_def app_reader_ends_def step_ok_fails step_ok_same requests_ok_def split: app_stop.split)
next
  case (SteerSend m c)
  with assms show ?thesis
    by (auto simp: app_step_def steer_send_def step_ok_same requests_ok_distinct [OF assms]
      intro: step_ok_sent [OF assms] split: option.split prod.split sum.split request_error.split)
next
  case InterruptSend
  with assms show ?thesis
    by (auto simp: app_step_def app_interrupt_send_def step_ok_same requests_ok_distinct [OF assms]
      intro: step_ok_sent [OF assms] split: option.split prod.split sum.split)
next
  case (ApprovalSend d)
  with assms show ?thesis
    by (auto simp: app_step_def approval_send_def step_ok_same requests_ok_distinct [OF assms]
      intro: step_ok_sent [OF assms] split: option.split prod.split sum.split)
qed (use assms in \<open>auto simp: app_step_def begin_finish_def approval_finish_def step_ok_def requests_ok_def
       split: option.split sum.split\<close>)

lemma step_ok_keeps:
  assumes ok: "requests_ok p" and step: "step_ok said p q"
  shows "requests_ok q"
proof -
  obtain new where new: "ap_answers q = ap_answers p @ new" "distinct (map fst new)"
    "fst ` set new \<subseteq> set (ap_pending p)" "fst ` set new \<inter> set (ap_pending q) = {}"
    using step by (auto simp: step_ok_def)
  have more: "ap_next_id p \<le> ap_next_id q" "distinct (ap_pending q)"
    "set (ap_pending q) \<subseteq> set (ap_pending p) \<union> {ap_next_id p ..< ap_next_id q}"
    using step by (simp_all add: step_ok_def)
  have ans: "answered q = answered p @ map fst new" by (simp add: answered_def new(1))
  have old: "\<forall>i \<in> set (ap_pending p). i < ap_next_id p" "\<forall>i \<in> set (answered p). i < ap_next_id p"
    "set (ap_pending p) \<inter> set (answered p) = {}" "distinct (answered p)"
    using ok by (auto simp: requests_ok_def)
  have "set (ap_pending q) \<inter> set (answered p) = {}" using more(3) old by fastforce
  moreover have "set (answered p) \<inter> fst ` set new = {}" using new(3) old(3) by blast
  moreover have "\<forall>i \<in> set (ap_pending q) \<union> set (answered p) \<union> fst ` set new. i < ap_next_id q"
    using more(1,3) old(1,2) new(3) by fastforce
  ultimately show ?thesis
    unfolding requests_ok_def ans using more(2) old(4) new(2,4) by auto
qed

lemma requests_ok_fresh: "requests_ok (fresh_app a)"
  by (simp add: requests_ok_def fresh_app_def answered_def)

definition said_in ::
  "(json \<Rightarrow> string) \<Rightarrow> (string \<Rightarrow> json option) \<Rightarrow> app_event list \<Rightarrow> (nat \<times> (request_error + json)) list" where
  "said_in ser de es = List.map_filter (response_line ser de) es"

text \<open>The same over any number of events; \<open>said\<close> is what the process said meanwhile.\<close>

definition history_ok :: "(nat \<times> (request_error + json)) set \<Rightarrow> app_proc \<Rightarrow> app_proc \<Rightarrow> bool" where
  "history_ok said p q \<longleftrightarrow>
     prefix (ap_answers p) (ap_answers q) \<and> ap_next_id p \<le> ap_next_id q \<and>
     (ap_reading q \<longrightarrow> ap_reading p) \<and> (ap_reading p \<or> ap_answers q = ap_answers p) \<and>
     set (ap_pending q) \<subseteq> set (ap_pending p) \<union> {ap_next_id p ..} \<and>
     set (answered q) \<subseteq> set (answered p) \<union> set (ap_pending p) \<union> {ap_next_id p ..} \<and>
     set (ap_answers q) \<subseteq> set (ap_answers p) \<union> said \<union> {a. is_unknown (snd a) \<and> \<not> ap_reading q}"

lemma history_ok_refl: "history_ok {} p p"
  by (auto simp: history_ok_def)

lemma history_ok_step:
  assumes "step_ok said p q"
  shows "history_ok (set_option said) p q"
proof -
  obtain new where new: "ap_answers q = ap_answers p @ new" "fst ` set new \<subseteq> set (ap_pending p)"
    "\<forall>a \<in> set new. ap_reading p \<and> (said = Some a \<or> is_unknown (snd a) \<and> \<not> ap_reading q)"
    using assms by (auto simp: step_ok_def)
  have "ap_reading q \<longrightarrow> ap_reading p" using assms by (simp add: step_ok_def)
  moreover have "ap_reading p \<or> ap_answers q = ap_answers p" using new(1,3) by (cases new) auto
  moreover have "set (ap_pending q) \<subseteq> set (ap_pending p) \<union> {ap_next_id p ..< ap_next_id q}"
    "ap_next_id p \<le> ap_next_id q" using assms by (simp_all add: step_ok_def)
  ultimately show ?thesis using new unfolding history_ok_def answered_def by fastforce
qed

lemma subset_through:
  "X \<subseteq> Y \<union> D \<Longrightarrow> Y \<subseteq> Z \<union> C \<Longrightarrow> D \<subseteq> C \<Longrightarrow> X \<subseteq> Z \<union> C"
  by blast

lemma history_ok_trans:
  assumes "history_ok A p q" "history_ok B q r"
  shows "history_ok (A \<union> B) p r"
proof -
  note pq = assms(1) [unfolded history_ok_def] and qr = assms(2) [unfolded history_ok_def]
  have up: "{ap_next_id q ..} \<subseteq> {ap_next_id p ..}" using pq by simp
  have 1: "prefix (ap_answers p) (ap_answers r)" using pq qr prefix_order.trans by blast
  have 2: "ap_next_id p \<le> ap_next_id r" using pq qr by linarith
  have 3: "set (ap_pending r) \<subseteq> set (ap_pending p) \<union> {ap_next_id p ..}"
    using subset_through pq qr up by metis
  have "set (answered q) \<union> set (ap_pending q) \<subseteq> (set (answered p) \<union> set (ap_pending p)) \<union> {ap_next_id p ..}"
    using pq by (simp add: Un_subset_iff le_supI1 sup.coboundedI1 sup.assoc) (meson Un_upper2 subset_trans)
  then have 4: "set (answered r) \<subseteq> set (answered p) \<union> set (ap_pending p) \<union> {ap_next_id p ..}"
    using subset_through qr up by metis
  have 5: "set (ap_answers r) \<subseteq> set (ap_answers p) \<union> (A \<union> B) \<union> {a. is_unknown (snd a) \<and> \<not> ap_reading r}"
    using pq qr by auto
  have 6: "ap_reading r \<longrightarrow> ap_reading p" "ap_reading p \<or> ap_answers r = ap_answers p"
    using pq qr by auto
  from 1 2 3 4 5 6 show ?thesis by (simp add: history_ok_def)
qed

lemma run_answers:
  assumes "requests_ok p"
  shows "requests_ok (run_app ser de es p)"
    and "history_ok (set (said_in ser de es)) p (run_app ser de es p)"
  using assms
proof (induction es arbitrary: p)
  case Nil
  { case 1 then show ?case by simp }
  { case 2 then show ?case by (simp add: said_in_def map_filter_simps history_ok_refl) }
next
  case (Cons e es)
  have set_said: "set (said_in ser de (e # es)) = set_option (response_line ser de e) \<union> set (said_in ser de es)"
    by (simp add: said_in_def map_filter_simps split: option.split)
  { case 1 with Cons.IH(1) step_ok_keeps step_ok_step show ?case by simp blast }
  { case 2
    note step = step_ok_step [OF this, of ser de e]
    show ?case unfolding set_said run_app_simps
      by (rule history_ok_trans [OF history_ok_step [OF step] Cons.IH(2) [OF step_ok_keeps [OF 2 step]]]) }
qed

text \<open>The events at which the reading may end: its output ends, or it has to answer a request of
  the server after the input broke.\<close>

definition may_end :: "(string \<Rightarrow> json option) \<Rightarrow> app_event \<Rightarrow> bool" where
  "may_end de e =
     (case e of
        ReaderEnds _ \<Rightarrow> True
      | OutLine line \<Rightarrow>
          (case de (trim line) of Some v \<Rightarrow> unsupported_server_request_response v \<noteq> None | None \<Rightarrow> False)
      | _ \<Rightarrow> False)"

lemma answering_reads: "ap_reading (answer_request ser i v p) = ap_reading p"
  by (simp add: answer_request_def)

lemma reads_on:
  assumes "ap_reading p" "\<not> may_end de e"
  shows "ap_reading (app_step ser de e p)"
proof (cases e)
  case (OutLine line)
  have "ap_reading (handle_notification ser v p)" for v
    using same_notification [of p ser v] assms(1) by (simp add: same_requests_def)
  with OutLine assms show ?thesis
    by (auto simp: app_step_def may_end_def app_reader_line_def Let_def answering_reads split: option.split)
qed (use assms in \<open>auto simp: app_step_def may_end_def begin_send_def clear_turn_def request_send_def Let_def
       begin_finish_def steer_send_def app_interrupt_send_def approval_send_def approval_finish_def
       request_finish_def split: option.split sum.split prod.split request_error.split\<close>)

lemma reads_through: "ap_reading p \<Longrightarrow> \<not> list_ex (may_end de) es \<Longrightarrow> ap_reading (run_app ser de es p)"
  by (induction es arbitrary: p) (simp_all add: reads_on)

text \<open>
  Property C11: each request to an app server is answered at most once, in whatever order events
  come. While the output of the process is read every answer is what a response line that carried
  the number of the request said; only the end of the reading tells the requests that
  wait then that their outcome is not known, and after it nobody is answered. No answer is
  taken back, and a request that is neither waiting nor new (it was answered, or it timed out, which
  removes it without an answer here) gets none later. The reading goes on until the output ends, or
  until a line of it is a request of the server, which ends it if the input is broken.
\<close>

theorem request_answered_once:
  "let p = run_app ser de es (fresh_app is_astra); q = run_app ser de es' p in
     distinct (answered q) \<and> prefix (ap_answers p) (ap_answers q) \<and>
     set (answered q) \<subseteq> set (answered p) \<union> set (ap_pending p) \<union> {ap_next_id p ..} \<and>
     set (ap_answers p) \<subseteq> set (said_in ser de es) \<union> (if ap_reading p then {} else {a. is_unknown (snd a)}) \<and>
     (ap_reading p \<or> ap_answers q = ap_answers p) \<and> (ap_reading p \<or> list_ex (may_end de) es)"
proof -
  let ?f = "fresh_app is_astra"
  let ?p = "run_app ser de es ?f"
  note ok = run_answers(1) [OF requests_ok_fresh [of is_astra], of ser de es]
  have f: "ap_answers ?f = []" "ap_reading ?f" by (simp_all add: fresh_app_def)
  have "distinct (answered (run_app ser de es' ?p))"
    using run_answers(1) [OF ok] by (simp add: requests_ok_def)
  moreover have "ap_reading ?p \<or> list_ex (may_end de) es" using reads_through [OF f(2)] by blast
  moreover have "set (ap_answers ?p) \<subseteq> set (said_in ser de es) \<union> {a. is_unknown (snd a) \<and> \<not> ap_reading ?p}"
    using run_answers(2) [OF requests_ok_fresh [of is_astra], of ser de es] by (simp add: history_ok_def f)
  moreover have "history_ok (set (said_in ser de es')) ?p (run_app ser de es' ?p)" by (rule run_answers(2) [OF ok])
  ultimately show ?thesis by (auto simp: Let_def history_ok_def)
qed

section \<open>The end of the process\<close>

definition stop_text :: "app_stop \<Rightarrow> string" where
  "stop_text stop =
     (case stop of
        Eof \<Rightarrow> ''codex app-server stdout closed''
      | ReadError e \<Rightarrow> ''codex app-server stdout error: '' @ e
      | Cancelled \<Rightarrow> ''codex app-server cancelled'')"

definition begins :: "app_event \<Rightarrow> bool" where
  "begins e = (case e of BeginSend _ _ _ \<Rightarrow> True | BeginFinish _ \<Rightarrow> True | _ \<Rightarrow> False)"

definition ended :: "string \<Rightarrow> (nat \<times> (request_error + json)) list \<Rightarrow> app_proc \<Rightarrow> bool" where
  "ended m answers p \<longleftrightarrow>
     \<not> ap_reading p \<and> ap_pending p = [] \<and> ap_answers p = answers \<and> ap_slot p = None \<and>
     ap_active_turn_id p = None \<and> ap_approval_id p = None \<and> ap_turn_failed p \<and> ap_last_error p = Some m"

lemma ended_start:
  "ended (stop_text stop)
     (ap_answers p @ map (\<lambda>i. (i, Inl (OutcomeUnknownError (stop_text stop)))) (ap_pending p)) (app_reader_ends stop p)"
  by (cases stop) (simp_all add: ended_def app_reader_ends_def app_reader_fails_def fail_pending_def
    mark_process_failed_def close_turn_def stop_text_def Let_def)

lemma ended_step: "ended m a p \<Longrightarrow> \<not> begins e \<Longrightarrow> ended m a (app_step ser de e p)"
  by (cases e) (auto simp: app_step_def begins_def ended_def steer_send_def app_interrupt_send_def
    approval_send_def approval_finish_def request_finish_def split: option.split sum.split)

lemma ended_run: "ended m a p \<Longrightarrow> \<not> list_ex begins es \<Longrightarrow> ended m a (run_app ser de es p)"
  by (induction es arbitrary: p) (auto simp: ended_step)

text \<open>
  Property C12: when the output of an app server ends, nobody is left waiting: each pending request
  is answered that its outcome is not known, the channel of the turn is closed, and the turn's
  result is a failure with the reason, which no later event changes until a new turn begins.
\<close>

theorem process_end_frees_waiters:
  assumes "ap_reading p" "\<not> list_ex begins es"
    and "q = run_app ser de (ReaderEnds stop # es) p"
  shows "ap_pending q = [] \<and>
    ap_answers q = ap_answers p @ map (\<lambda>i. (i, Inl (OutcomeUnknownError (stop_text stop)))) (ap_pending p) \<and>
    ap_slot q = None \<and> \<not> cr_success (app_result q) \<and> cr_text (app_result q) = None \<and>
    cr_stderr (app_result q) = stop_text stop"
proof -
  from assms(1,2) ended_run [OF ended_start] have "ended (stop_text stop)
     (ap_answers p @ map (\<lambda>i. (i, Inl (OutcomeUnknownError (stop_text stop)))) (ap_pending p)) q"
    by (simp add: assms(3) app_step_def)
  then show ?thesis by (simp add: ended_def app_result_def exit_result_def or_str_def Let_def)
qed

definition sample_profile :: cli_profile where
  "sample_profile = Codex ''codex'' None None ''read-only'' True [] False False"

definition sample_turn :: app_proc where
  "sample_turn = snd (begin_send ''hi'' None sample_profile ((fresh_app False)\<lparr>ap_thread_id := Some ''t''\<rparr>))"

lemma process_end_frees_waiters_witness:
  "ap_pending sample_turn = [1] \<and>
   ap_answers (run_app (\<lambda>_. []) (\<lambda>_. None) [ReaderEnds Eof, SteerSend ''more'' None] sample_turn) =
     [(1, Inl (OutcomeUnknownError ''codex app-server stdout closed''))]"
proof -
  have p: "ap_reading sample_turn" "ap_pending sample_turn = [1]" "ap_answers sample_turn = []" by code_simp+
  have "\<not> list_ex begins [SteerSend ''more'' None]" by (simp add: begins_def)
  from process_end_frees_waiters [OF p(1) this refl, where stop = Eof] p(2,3)
  show ?thesis by (auto simp: stop_text_def simp del: run_app_simps)
qed

section \<open>Steering and approvals\<close>

text \<open>
  A steering message is accepted only into the turn it was sent for: what was sent
  names the thread and the turn that ran when the user's message came, with that message, and the
  outcome is an acceptance only when the server says it took it into that very turn.
\<close>

theorem steering_hits_its_turn:
  assumes "steer_send message client_id p = (Inr (turn_id, i), q)"
    and "steer_finish turn_id r = SteerAccepted accepted"
  shows "ap_active_turn_id p = Some turn_id \<and> accepted = turn_id \<and> ap_pending q = i # ap_pending p \<and>
    (\<exists>tid response. ap_thread_id p = Some tid \<and>
       ap_requests q = ap_requests p @ [obj_of [(''id'', JNum (int i)), (''method'', JStr ''turn/steer''),
         (''params'', turn_steer_params tid turn_id message client_id)]] \<and>
       r = Inr response \<and> as_str (jfield response ''turnId'') = Some turn_id)"
  using assms
  by (auto simp: steer_send_def steer_finish_def request_send_def Let_def
    split: option.splits sum.splits request_error.splits if_splits prod.splits)

lemma steering_hits_its_turn_witness:
  "ap_pending (snd (steer_send ''more'' None (sample_turn\<lparr>ap_active_turn_id := Some ''u''\<rparr>))) = [2, 1]"
proof -
  let ?p = "sample_turn\<lparr>ap_active_turn_id := Some ''u''\<rparr>"
  have sent: "steer_send ''more'' None ?p = (Inr (''u'', 2), snd (steer_send ''more'' None ?p))"
    and p: "ap_pending sample_turn = [1]"
    by code_simp+
  have "steer_finish ''u'' (Inr (JObj [(''turnId'', JStr ''u'')])) = SteerAccepted ''u''" by code_simp
  from steering_hits_its_turn [OF sent this] p show ?thesis by simp
qed

text \<open>
  An approval that is requested while the answer to another is on its way is lost:
  when that answer arrives the process forgets which approval waits, whichever it is, and the user
  can no longer decide the second one.
\<close>

theorem second_approval_forgotten:
  assumes "approval_requested_progress APPROVAL_HEADER APPROVAL_REASON params = Some (second, ev)"
    and "q = snd (approval_finish (Inr answer) (on_approval_requested params p))"
  shows "ap_approval_id (on_approval_requested params p) = Some second \<and> ap_approval_id q = None \<and>
    fst (approval_send decision q) = Inl NO_APPROVAL_TEXT"
  using assms
  by (simp add: on_approval_requested_def approval_finish_def approval_send_def send_progress_def
    split: option.split)

definition sample_approval :: json where
  "sample_approval = JObj [(''approval'', JObj [(''id'', JStr ''a2'')])]"

lemma second_approval_forgotten_witness:
  "fst (approval_send ''accept'' (snd (approval_finish (Inr JNull)
     (on_approval_requested sample_approval (sample_turn\<lparr>ap_approval_id := Some ''a1''\<rparr>))))) =
   Inl NO_APPROVAL_TEXT"
proof -
  have "approval_requested_progress APPROVAL_HEADER APPROVAL_REASON sample_approval =
      Some (''a2'', ApprovalRequested ''a2'' ''tool'' APPROVAL_HEADER None APPROVAL_REASON)"
    by code_simp
  from second_approval_forgotten [OF this refl] show ?thesis by blast
qed

text \<open>
  The answer to \<open>turn/start\<close> may be taken up after the turn's end was read: then a turn that has
  ended stays the active one, and steering and interrupts are sent to it.
\<close>

theorem quick_turn_stays_active:
  assumes "as_str (jfield (jfield response ''turn'') ''id'') = Some t"
    and "q = snd (begin_finish (Inr response) (on_turn_completed params p))"
  shows "ap_slot q = None \<and> ap_active_turn_id q = Some t"
  using assms by (simp add: begin_finish_def on_turn_completed_def close_turn_def)

text \<open>
  The end of a turn closes the channel of whichever turn is running; its number is not compared.
  A turn that is interrupted and ends late so ends the next one, without text and as a success.
\<close>

theorem late_completion_ends_next_turn:
  assumes "begin_send message dir profile p = (Inr i, q)"
    and "as_str (jfield params ''status'') \<noteq> Some ''failed''"
  shows "ap_slot q \<noteq> None \<and> ap_slot (on_turn_completed params q) = None \<and>
    cr_success (app_result (on_turn_completed params q)) \<and>
    cr_text (app_result (on_turn_completed params q)) = None"
  using assms
  by (auto simp: begin_send_def clear_turn_def request_send_def on_turn_completed_def close_turn_def
    app_result_def exit_result_def Let_def split: option.splits if_splits)

end
