(* ===== verification/Codex_Turns.thy ===== *)
theory Codex_Turns
  imports Codex_Props
begin

text \<open>
  The output of a turn of an app server: up to the next end of a turn its channel receives the
  events that the notifications show, in order, and its result carries the text that was streamed.
\<close>

section \<open>What a notification shows\<close>

definition option_list :: "'a option \<Rightarrow> 'a list" where
  "option_list x = (case x of Some y \<Rightarrow> [y] | None \<Rightarrow> [])"

lemma option_list_simps [simp]: "option_list None = []" "option_list (Some x) = [x]"
  by (simp_all add: option_list_def)

definition error_message :: "json \<Rightarrow> string" where
  "error_message params =
     or_str (or_else (as_str (jfield params ''message'')) (as_str (jfield params ''error'')))
       ''codex app-server error''"

definition note_shown :: "json \<Rightarrow> cli_progress list" where
  "note_shown v =
     (let params = jfield v ''params'';
          m = as_str (jfield v ''method'');
          item = jfield params ''item''
      in if m = Some ''item/agentMessage/delta'' then option_list (map_option Token (delta_of params))
         else if m = Some ''item/reasoning/textDelta''
           then option_list (map_option (ReasoningBlock Raw) (delta_of params))
         else if m = Some ''item/reasoning/summaryTextDelta''
           then option_list (map_option (ReasoningBlock Summary) (delta_of params))
         else if m = Some ''item/started'' then option_list (item_started_progress item)
         else if m = Some ''item/completed''
           then (if as_str (jfield item ''type'') = Some ''agentMessage'' then []
                 else option_list (snd (item_completed_progress item)))
         else if m = Some ''approval/requested''
           then option_list (map_option snd (approval_requested_progress APPROVAL_HEADER APPROVAL_REASON params))
         else if m = Some ''error'' then [Status (''[error] '' @ error_message params)]
         else [])"

text \<open>The text of a message that is reported as a whole.\<close>

definition note_messages :: "json \<Rightarrow> string list" where
  "note_messages v =
     (let item = jfield (jfield v ''params'') ''item'' in
      if as_str (jfield v ''method'') = Some ''item/completed'' \<and>
         as_str (jfield item ''type'') = Some ''agentMessage''
      then option_list (as_str (jfield item ''text'')) else [])"

fun streamed :: "cli_progress list \<Rightarrow> string" where
  "streamed [] = []"
| "streamed (Token t # evs) = t @ streamed evs"
| "streamed (_ # evs) = streamed evs"

lemma streamed_append [simp]: "streamed (xs @ ys) = streamed xs @ streamed ys"
  by (induction xs rule: streamed.induct) simp_all

text \<open>In the middle of turn \<open>g\<close>, of which \<open>out\<close> was shown since \<open>sent\<close> and \<open>msgs\<close> were reported.\<close>

definition app_turn ::
  "nat \<Rightarrow> (nat \<times> cli_progress) list \<Rightarrow> cli_progress list \<Rightarrow> string list \<Rightarrow> app_proc \<Rightarrow> bool" where
  "app_turn g sent out msgs p \<longleftrightarrow>
     ap_slot p = Some g \<and> ap_open p \<and> ap_reading p \<and> \<not> ap_turn_failed p \<and>
     ap_sent p = sent @ map (Pair g) out \<and>
     (\<exists>pre. ap_last_text p = pre @ streamed out \<and> (pre = [] \<or> pre \<in> set msgs))"

definition is_end :: "json \<Rightarrow> bool" where
  "is_end v \<longleftrightarrow> as_str (jfield v ''method'') = Some ''turn/completed''"

named_theorems turn_note

lemma app_turn_thread [turn_note]: "app_turn g sent out msgs p \<Longrightarrow> app_turn g sent out msgs (set_thread t p)"
  by (simp add: app_turn_def set_thread_def split: option.split)

lemma app_turn_started [turn_note]: "app_turn g sent out msgs p \<Longrightarrow> app_turn g sent out msgs (on_turn_started params p)"
  by (simp add: app_turn_def on_turn_started_def split: option.split)

lemma app_turn_usage [turn_note]: "app_turn g sent out msgs p \<Longrightarrow> app_turn g sent out msgs (on_token_usage ser params p)"
  by (simp add: app_turn_def on_token_usage_def Let_def)

lemma app_turn_delta [turn_note]:
  "app_turn g sent out msgs p \<Longrightarrow>
   app_turn g sent (out @ option_list (map_option Token (delta_of params))) msgs (on_message_delta params p)"
  by (auto simp: app_turn_def on_message_delta_def send_progress_def split: option.split)

definition no_token :: "cli_progress option \<Rightarrow> bool" where
  "no_token ev \<longleftrightarrow> (case ev of Some (Token _) \<Rightarrow> False | _ \<Rightarrow> True)"

lemma streamed_no_token: "no_token ev \<Longrightarrow> streamed (option_list ev) = []"
  by (auto simp: no_token_def split: option.splits cli_progress.splits)

lemma app_turn_send [turn_note]:
  assumes "app_turn g sent out msgs p" "no_token ev"
  shows "app_turn g sent (out @ option_list ev) msgs (send_some ev p)"
  using assms streamed_no_token [OF assms(2)]
  by (auto simp: app_turn_def send_some_def send_progress_def split: option.split)

lemma no_token_started: "no_token (item_started_progress item)"
  by (simp add: no_token_def item_started_progress_def Let_def)

lemma no_token_completed: "no_token (snd (item_completed_progress item))"
  by (simp add: no_token_def item_completed_progress_def Let_def)

lemma app_turn_reasoning [turn_note]:
  "app_turn g sent out msgs p \<Longrightarrow>
   app_turn g sent (out @ option_list (map_option (ReasoningBlock k) (delta_of params))) msgs
     (on_reasoning_delta k params p)"
  unfolding on_reasoning_delta_def
  by (rule app_turn_send) (auto simp: no_token_def split: option.split)

lemma app_turn_approval [turn_note]:
  "app_turn g sent out msgs p \<Longrightarrow>
   app_turn g sent (out @ option_list (map_option snd
     (approval_requested_progress APPROVAL_HEADER APPROVAL_REASON params))) msgs (on_approval_requested params p)"
  by (auto simp: app_turn_def on_approval_requested_def send_progress_def approval_requested_progress_def Let_def
    bind_eq_Some_conv split: option.splits)

lemma app_turn_error [turn_note]:
  "app_turn g sent out msgs p \<Longrightarrow>
   app_turn g sent (out @ [Status (''[error] '' @ error_message params)]) msgs (on_error params p)"
  by (auto simp: app_turn_def on_error_def error_message_def send_progress_def Let_def)

lemma app_turn_message:
  assumes "app_turn g sent out msgs p" "as_str (jfield (jfield params ''item'') ''type'') = Some ''agentMessage''"
  shows "app_turn g sent out (msgs @ option_list (as_str (jfield (jfield params ''item'') ''text'')))
    (on_item_completed params p)"
  using assms by (auto simp: app_turn_def on_item_completed_def Let_def split: option.split)

lemma app_turn_tool:
  assumes "app_turn g sent out msgs p" "as_str (jfield (jfield params ''item'') ''type'') \<noteq> Some ''agentMessage''"
  shows "app_turn g sent (out @ option_list (snd (item_completed_progress (jfield params ''item'')))) msgs
    (on_item_completed params p)"
proof -
  obtain tool ev where it: "item_completed_progress (jfield params ''item'') = (tool, ev)" by fastforce
  have "app_turn g sent out msgs (case tool of Some n \<Rightarrow> record_tool n p | None \<Rightarrow> p)"
    using assms(1) by (simp add: app_turn_def record_tool_def split: option.split)
  from app_turn_send [OF this, of ev] no_token_completed [of "jfield params ''item''"] assms(2)
  show ?thesis by (simp add: on_item_completed_def Let_def it)
qed

lemma app_turn_notification:
  assumes "app_turn g sent out msgs p" "\<not> is_end v"
  shows "app_turn g sent (out @ note_shown v) (msgs @ note_messages v) (handle_notification ser v p)"
proof (cases "as_str (jfield v ''method'')")
  case None
  with assms show ?thesis by (simp add: handle_notification_def note_shown_def note_messages_def)
next
  case (Some m)
  show ?thesis
  proof (cases "m = ''item/completed''")
    case True
    with assms Some app_turn_message app_turn_tool show ?thesis
      by (simp add: handle_notification_def note_shown_def note_messages_def Let_def)
  next
    case False
    with assms Some turn_note no_token_started show ?thesis
      by (simp add: handle_notification_def note_shown_def note_messages_def Let_def is_end_def)
  qed
qed

section \<open>What a line shows\<close>

text \<open>The notification on a line, when it is one.\<close>

definition notification_of :: "(string \<Rightarrow> json option) \<Rightarrow> string \<Rightarrow> json option" where
  "notification_of de line =
     (if trim line = [] then None
      else Option.bind (de (trim line)) (\<lambda>v.
        if unsupported_server_request_response v = None \<and> as_u64 (jfield v ''id'') = None then Some v else None))"

definition on_notification :: "(string \<Rightarrow> json option) \<Rightarrow> (json \<Rightarrow> 'b list) \<Rightarrow> app_event \<Rightarrow> 'b list" where
  "on_notification de f e =
     (case e of OutLine line \<Rightarrow> (case notification_of de line of Some v \<Rightarrow> f v | None \<Rightarrow> []) | _ \<Rightarrow> [])"

definition all_shown :: "(string \<Rightarrow> json option) \<Rightarrow> app_event list \<Rightarrow> cli_progress list" where
  "all_shown de es = concat (map (on_notification de note_shown) es)"

definition all_messages :: "(string \<Rightarrow> json option) \<Rightarrow> app_event list \<Rightarrow> string list" where
  "all_messages de es = concat (map (on_notification de note_messages) es)"

text \<open>What may happen between the beginning of a turn and its end.\<close>

definition within_app_turn :: "(string \<Rightarrow> json option) \<Rightarrow> app_event \<Rightarrow> bool" where
  "within_app_turn de e \<longleftrightarrow>
     (case e of
        BeginSend _ _ _ \<Rightarrow> False
      | StdinBreaks \<Rightarrow> False
      | ReaderEnds _ \<Rightarrow> False
      | OutLine line \<Rightarrow> (case notification_of de line of Some v \<Rightarrow> \<not> is_end v | None \<Rightarrow> True)
      | _ \<Rightarrow> True)"

lemma app_turn_requests: "app_turn g sent out msgs (p\<lparr>ap_requests := r\<rparr>) = app_turn g sent out msgs p"
  by (simp add: app_turn_def)

lemma app_turn_answer: "app_turn g sent out msgs p \<Longrightarrow> app_turn g sent out msgs (answer_request ser i v p)"
  by (simp add: app_turn_def answer_request_def)

lemma app_notification_line:
  "notification_of de line = Some v \<Longrightarrow> app_reader_line ser de line p = handle_notification ser v p"
  by (auto simp: notification_of_def app_reader_line_def Let_def bind_eq_Some_conv split: if_splits)

lemma app_turn_line:
  assumes "app_turn g sent out msgs p" "within_app_turn de (OutLine line)"
  shows "app_turn g sent (out @ on_notification de note_shown (OutLine line))
    (msgs @ on_notification de note_messages (OutLine line)) (app_reader_line ser de line p)"
proof (cases "notification_of de line")
  case (Some v)
  with assms show ?thesis
    by (simp add: app_notification_line on_notification_def within_app_turn_def app_turn_notification)
next
  case None
  have "ap_open p" using assms(1) by (simp add: app_turn_def)
  with None assms(1) show ?thesis
    by (auto simp: app_reader_line_def Let_def on_notification_def notification_of_def app_turn_requests
      app_turn_answer split: option.split option.splits if_splits)
qed

lemma app_turn_request: "app_turn g sent out msgs p \<Longrightarrow> request_send m params p = (r, q) \<Longrightarrow> app_turn g sent out msgs q"
  by (auto simp: app_turn_def request_send_def Let_def)

lemma app_turn_step:
  assumes "app_turn g sent out msgs p" "within_app_turn de e"
  shows "app_turn g sent (out @ on_notification de note_shown e) (msgs @ on_notification de note_messages e)
    (app_step ser de e p)"
proof (cases e)
  case (OutLine line)
  have "ap_reading p" using assms(1) by (simp add: app_turn_def)
  with OutLine assms app_turn_line show ?thesis by (simp add: app_step_def)
next
  case (SteerSend m c)
  with assms(1) show ?thesis
    by (auto simp: app_step_def on_notification_def steer_send_def
      intro: app_turn_request [OF assms(1)] split: option.split prod.split sum.split request_error.split)
next
  case InterruptSend
  with assms(1) show ?thesis
    by (auto simp: app_step_def on_notification_def app_interrupt_send_def
      intro: app_turn_request [OF assms(1)] split: option.split prod.split sum.split)
next
  case (ApprovalSend d)
  with assms(1) show ?thesis
    by (auto simp: app_step_def on_notification_def approval_send_def
      intro: app_turn_request [OF assms(1)] split: option.split prod.split sum.split)
qed (use assms in \<open>auto simp: app_step_def on_notification_def within_app_turn_def app_turn_def begin_finish_def
       approval_finish_def request_finish_def split: option.split sum.split\<close>)

lemma app_turn_run:
  assumes "app_turn g sent out msgs p" "list_all (within_app_turn de) es"
  shows "app_turn g sent (out @ all_shown de es) (msgs @ all_messages de es) (run_app ser de es p)"
  using assms
proof (induction es arbitrary: p out msgs)
  case (Cons e es)
  from Cons.IH [OF app_turn_step [OF Cons.prems(1)]] Cons.prems(2)
  show ?case by (simp add: all_shown_def all_messages_def)
qed (simp add: all_shown_def all_messages_def)

lemma app_turn_begin:
  assumes "begin_send m dir profile p = (Inr i, q)" "ap_reading p"
  shows "app_turn (Suc (ap_turns p)) (ap_sent p) [] [] q"
  using assms
  by (auto simp: begin_send_def clear_turn_def request_send_def Let_def app_turn_def
    split: option.splits if_splits)


definition sample_app_lines :: "string \<Rightarrow> json option" where
  "sample_app_lines l =
     (if l = ''d'' then Some (JObj [(''method'', JStr ''item/agentMessage/delta''),
          (''params'', JObj [(''delta'', JStr ''hello'')])])
      else if l = ''e'' then Some (JObj [(''method'', JStr ''turn/completed''), (''params'', JNull)])
      else None)"


end
