(* ===== verification/Attachments.thy ===== *)
theory Attachments
  imports Messages
begin

text \<open>
  Attachments of an inbound message (\<open>inbound_attachments.rs\<close>): where they are stored, under which
  name, and what the user is told of those that could not be read.

  A path is the list of its components and \<open>resolve\<close> removes \<open>.\<close> and \<open>..\<close> from it, as the file
  system does when no component is a symbolic link. Parsing of URLs is a parameter, which gives
  the last segment of the path of a valid URL.
\<close>

definition MAX_INBOUND_ATTACHMENT_BYTES :: nat where
  "MAX_INBOUND_ATTACHMENT_BYTES = 128 * 1024 * 1024"

section \<open>Names\<close>

definition path_char :: "char \<Rightarrow> bool" where
  "path_char c \<longleftrightarrow> is_ascii_alphanumeric c \<or> c = CHR ''.'' \<or> c = CHR ''-'' \<or> c = CHR ''_''"

text \<open>A character of several bytes is replaced once, at its first byte.\<close>

definition sanitize_chars :: "string \<Rightarrow> string" where
  "sanitize_chars input =
     concat (map (\<lambda>c. if path_char c then [c] else if is_cont c then [] else ''_'') input)"

definition trim_matches :: "char \<Rightarrow> string \<Rightarrow> string" where
  "trim_matches c s = rev (dropWhile (\<lambda>x. x = c) (rev (dropWhile (\<lambda>x. x = c) s)))"

definition sanitize_path_part :: "string \<Rightarrow> string" where
  "sanitize_path_part input = trim_matches (CHR ''_'') (sanitize_chars input)"

definition infer_name_from_url :: "(string \<Rightarrow> string option) \<Rightarrow> string option \<Rightarrow> string option" where
  "infer_name_from_url last_segment url =
     Option.bind (Option.bind url last_segment) (\<lambda>s. if s \<noteq> [] then Some s else None)"

text \<open>\<open>Path::file_name\<close>, and its split at the last dot into \<open>file_stem\<close> and \<open>extension\<close>.\<close>

definition file_name :: "string \<Rightarrow> string option" where
  "file_name path =
     (case rev (filter (\<lambda>c. c \<noteq> [] \<and> c \<noteq> ''.'') (split_char (CHR ''/'') path)) of
        [] \<Rightarrow> None
      | c # _ \<Rightarrow> if c = ''..'' then None else Some c)"

definition split_at_dot :: "string \<Rightarrow> string \<times> string option" where
  "split_at_dot name =
     (case rfind_sub ''.'' name of
        None \<Rightarrow> (name, None)
      | Some i \<Rightarrow> if i = 0 then (name, None) else (take i name, Some (drop (Suc i) name)))"

definition TRUSTED_EXTENSIONS :: "string list" where
  "TRUSTED_EXTENSIONS =
     [''png'', ''jpg'', ''jpeg'', ''gif'', ''webp'', ''pdf'', ''html'', ''htm'', ''txt'', ''mp4'', ''mov'', ''mp3'', ''wav'',
      ''m4a'', ''ogg'']"

definition is_trusted_extension :: "string \<Rightarrow> bool" where
  "is_trusted_extension ext \<longleftrightarrow> ext \<in> set TRUSTED_EXTENSIONS"

text \<open>The kind of a file from its first bytes: its extension and its mime type.\<close>

definition looks_like_html :: "string \<Rightarrow> bool" where
  "looks_like_html bytes \<longleftrightarrow>
     (let sample = to_ascii_lowercase (take 512 bytes)
      in contains sample ''<!doctype html'' \<or> contains sample ''<html'')"

definition sniff :: "string \<Rightarrow> (string \<times> string) option" where
  "sniff bytes =
     (if starts_with bytes ''%PDF-'' then Some (''pdf'', ''application/pdf'')
      else if starts_with bytes ([CHR 0x89] @ ''PNG'' @ [CHR 0x0D, CHR 0x0A, CHR 0x1A, CHR 0x0A])
        then Some (''png'', ''image/png'')
      else if starts_with bytes [CHR 0xFF, CHR 0xD8, CHR 0xFF] then Some (''jpg'', ''image/jpeg'')
      else if starts_with bytes ''GIF87a'' \<or> starts_with bytes ''GIF89a'' then Some (''gif'', ''image/gif'')
      else if starts_with bytes ''RIFF'' \<and> 12 \<le> length bytes \<and> take 4 (drop 8 bytes) = ''WEBP''
        then Some (''webp'', ''image/webp'')
      else if looks_like_html bytes then Some (''html'', ''text/html'')
      else None)"

definition mime_extension :: "string \<Rightarrow> string option" where
  "mime_extension mime =
     map_of [(''text/html'', ''html''), (''application/xhtml+xml'', ''html''), (''application/pdf'', ''pdf''),
             (''image/png'', ''png''), (''image/jpeg'', ''jpg''), (''image/jpg'', ''jpg''), (''image/gif'', ''gif''),
             (''image/webp'', ''webp''), (''text/plain'', ''txt'')] mime"

definition extension :: "string option \<Rightarrow> attachment_kind \<Rightarrow> string \<Rightarrow> string option" where
  "extension mime_type kind bytes =
     (case sniff bytes of
        Some (ext, _) \<Rightarrow> Some ext
      | None \<Rightarrow>
          (case mime_extension (to_ascii_lowercase (trim (case mime_type of Some m \<Rightarrow> m | None \<Rightarrow> []))) of
             Some ext \<Rightarrow> Some ext
           | None \<Rightarrow>
               if kind = AkVideo then Some ''mp4'' else if kind = AkAudio then Some ''audio'' else None))"

definition detect_mime_from_bytes :: "string \<Rightarrow> string option \<Rightarrow> string option" where
  "detect_mime_from_bytes bytes fallback =
     (case sniff bytes of Some (_, mime) \<Rightarrow> Some mime | None \<Rightarrow> fallback)"

definition ensure_extension :: "string \<Rightarrow> string option \<Rightarrow> attachment_kind \<Rightarrow> string \<Rightarrow> string" where
  "ensure_extension name mime_type kind bytes =
     (case extension mime_type kind bytes of
        None \<Rightarrow> name
      | Some ext \<Rightarrow>
          (let split = map_option split_at_dot (file_name name);
               stem = map_option fst split;
               current = map_option to_ascii_lowercase (Option.bind split snd)
           in if (case current of Some c \<Rightarrow> c = ext \<and> is_trusted_extension c | None \<Rightarrow> False) then name
              else (case (stem, current) of
                      (Some st, Some c) \<Rightarrow>
                        if \<not> is_trusted_extension c then st @ ''.'' @ ext else name @ ''.'' @ ext
                    | _ \<Rightarrow> name @ ''.'' @ ext)))"

definition attachment_filename ::
  "(string \<Rightarrow> string option) \<Rightarrow> inbound_attachment \<Rightarrow> nat \<Rightarrow> string \<Rightarrow> string" where
  "attachment_filename last_segment a idx bytes =
     (let base = (case map_option sanitize_path_part
             (or_else (ia_name a) (infer_name_from_url last_segment (ia_url a))) of
            Some n \<Rightarrow> if n \<noteq> [] then n else ''attachment-'' @ show_nat idx
          | None \<Rightarrow> ''attachment-'' @ show_nat idx)
      in show_nat (idx + 1) @ ''-'' @ ensure_extension base (ia_mime_type a) (ia_kind a) bytes)"

section \<open>Directories\<close>

text \<open>The directory a message's attachments are written to, and removed with.\<close>

definition attachment_dir :: "string list \<Rightarrow> string \<Rightarrow> string list" where
  "attachment_dir run_dir msg_id = run_dir @ [''.attachments'', sanitize_path_part msg_id]"

fun resolve_step :: "string list \<Rightarrow> string \<Rightarrow> string list" where
  "resolve_step p c = (if c = [] \<or> c = ''.'' then p else if c = ''..'' then butlast p else p @ [c])"

definition resolve :: "string list \<Rightarrow> string list" where
  "resolve p = foldl resolve_step [] p"

section \<open>Failures\<close>

definition attachment_label :: "inbound_attachment \<Rightarrow> nat \<Rightarrow> string" where
  "attachment_label a idx =
     (case Option.bind (ia_name a) (\<lambda>n. if trim n \<noteq> [] then Some (trim n) else None) of
        Some n \<Rightarrow> [CHR 0xE9, CHR 0x99, CHR 0x84, CHR 0xE4, CHR 0xBB, CHR 0xB6] @ '' '' @ [CHR 0x60] @ n @ [CHR 0x60]
      | None \<Rightarrow> [CHR 0xE7, CHR 0xAC, CHR 0xAC] @ '' '' @ show_nat (idx + 1) @ '' '' @ [CHR 0xE4, CHR 0xB8, CHR 0xAA, CHR 0xE9, CHR 0x99, CHR 0x84, CHR 0xE4, CHR 0xBB, CHR 0xB6])"

definition missing_url_failure :: "inbound_attachment \<Rightarrow> nat \<Rightarrow> string" where
  "missing_url_failure a idx = attachment_label a idx @ '' '' @
     [CHR 0xE7, CHR 0xBC, CHR 0xBA, CHR 0xE5, CHR 0xB0, CHR 0x91, CHR 0xE5, CHR 0x8F, CHR 0xAF, CHR 0xE4,
     CHR 0xB8, CHR 0x8B, CHR 0xE8, CHR 0xBD, CHR 0xBD, CHR 0xE9, CHR 0x93, CHR 0xBE, CHR 0xE6, CHR 0x8E,
     CHR 0xA5]"

definition too_large_failure :: "inbound_attachment \<Rightarrow> nat \<Rightarrow> string" where
  "too_large_failure a idx = attachment_label a idx @ '' '' @
     [CHR 0xE8, CHR 0xB6, CHR 0x85, CHR 0xE8, CHR 0xBF, CHR 0x87, CHR 0xE5, CHR 0xA4, CHR 0xA7, CHR 0xE5,
     CHR 0xB0, CHR 0x8F, CHR 0xE4, CHR 0xB8, CHR 0x8A, CHR 0xE9, CHR 0x99, CHR 0x90] @ '' '' @
     show_nat (MAX_INBOUND_ATTACHMENT_BYTES div 1024 div 1024) @ ''MB''"

text \<open>The first three different failures.\<close>

fun unique_three :: "string list \<Rightarrow> string list \<Rightarrow> string list" where
  "unique_three unique [] = unique"
| "unique_three unique (f # fs) =
     (let u = (if f \<in> set unique then unique else unique @ [f])
      in if 3 \<le> length u then u else unique_three u fs)"

definition failure_detail :: "string list \<Rightarrow> string" where
  "failure_detail failures =
     (let unique = unique_three [] failures in
      if unique = [] then []
      else [CHR 0xE5, CHR 0x8E, CHR 0x9F, CHR 0xE5, CHR 0x9B, CHR 0xA0, CHR 0xEF, CHR 0xBC, CHR 0x9A] @
        join [CHR 0xEF, CHR 0xBC, CHR 0x9B] unique @ [CHR 0xE3, CHR 0x80, CHR 0x82])"

definition prepare_response :: "nat \<Rightarrow> bool \<Rightarrow> string list \<Rightarrow> string option" where
  "prepare_response dropped all_dropped failures =
     (if dropped = 0 then None
      else
        (let detail = failure_detail failures;
             again =
     [CHR 0xE8, CHR 0xAF, CHR 0xB7, CHR 0xE9, CHR 0x87, CHR 0x8D, CHR 0xE6, CHR 0x96, CHR 0xB0, CHR 0xE5,
     CHR 0x8F, CHR 0x91, CHR 0xE9, CHR 0x80, CHR 0x81, CHR 0xE5, CHR 0x8F, CHR 0xAF, CHR 0xE4, CHR 0xB8,
     CHR 0x8B, CHR 0xE8, CHR 0xBD, CHR 0xBD, CHR 0xE7, CHR 0x9A, CHR 0x84, CHR 0xE5, CHR 0x9B, CHR 0xBE,
     CHR 0xE7, CHR 0x89, CHR 0x87, CHR 0xE6, CHR 0x88, CHR 0x96, CHR 0xE6, CHR 0x96, CHR 0x87, CHR 0xE4,
     CHR 0xBB, CHR 0xB6, CHR 0xE3, CHR 0x80, CHR 0x82]
         in Some (if all_dropped
            then
     [CHR 0xE6, CHR 0x94, CHR 0xB6, CHR 0xE5, CHR 0x88, CHR 0xB0, CHR 0xE9, CHR 0x99, CHR 0x84, CHR 0xE4,
     CHR 0xBB, CHR 0xB6, CHR 0xEF, CHR 0xBC, CHR 0x8C, CHR 0xE4, CHR 0xBD, CHR 0x86, CHR 0xE5, CHR 0xBD,
     CHR 0x93, CHR 0xE5, CHR 0x89, CHR 0x8D, CHR 0xE6, CHR 0x97, CHR 0xA0, CHR 0xE6, CHR 0xB3, CHR 0x95,
     CHR 0xE8, CHR 0xAF, CHR 0xBB, CHR 0xE5, CHR 0x8F, CHR 0x96, CHR 0xE8, CHR 0xAF, CHR 0xA5, CHR 0xE9,
     CHR 0x99, CHR 0x84, CHR 0xE4, CHR 0xBB, CHR 0xB6, CHR 0xE5, CHR 0x86, CHR 0x85, CHR 0xE5, CHR 0xAE,
     CHR 0xB9, CHR 0xE3, CHR 0x80, CHR 0x82] @ detail @ again
            else [CHR 0xE6, CHR 0x94, CHR 0xB6, CHR 0xE5, CHR 0x88, CHR 0xB0] @ '' '' @ show_nat dropped @ '' '' @
     [CHR 0xE4, CHR 0xB8, CHR 0xAA, CHR 0xE9, CHR 0x99, CHR 0x84, CHR 0xE4, CHR 0xBB, CHR 0xB6, CHR 0xEF,
     CHR 0xBC, CHR 0x8C, CHR 0xE4, CHR 0xBD, CHR 0x86, CHR 0xE6, CHR 0x97, CHR 0xA0, CHR 0xE6, CHR 0xB3,
     CHR 0x95, CHR 0xE8, CHR 0xAF, CHR 0xBB, CHR 0xE5, CHR 0x8F, CHR 0x96, CHR 0xE5, CHR 0x85, CHR 0xB6,
     CHR 0xE4, CHR 0xB8, CHR 0xAD, CHR 0xE9, CHR 0x83, CHR 0xA8, CHR 0xE5, CHR 0x88, CHR 0x86, CHR 0xE5,
     CHR 0x86, CHR 0x85, CHR 0xE5, CHR 0xAE, CHR 0xB9, CHR 0xE3, CHR 0x80, CHR 0x82] @ detail @ again)))"

end
