(* ===== verification/Weixin_Media.thy ===== *)
theory Weixin_Media
  imports Prelude
begin

text \<open>
  Encryption of media for WeChat (\<open>weixin_media.rs\<close>). The block cipher, base64 and hexadecimal
  coding are crates: a cipher is a function on blocks of 16 bytes, with its key.
\<close>

definition BLOCK_SIZE :: nat where
  "BLOCK_SIZE = 16"

definition pkcs7_pad :: "string \<Rightarrow> string" where
  "pkcs7_pad data =
     (let pad_len = BLOCK_SIZE - length data mod BLOCK_SIZE in data @ replicate pad_len (char_of pad_len))"

definition pkcs7_unpad :: "string \<Rightarrow> string" where
  "pkcs7_unpad data =
     (if data = [] then data
      else
        (let pad_len = byte (last data);
             start = length data - pad_len
         in if 1 \<le> pad_len \<and> pad_len \<le> BLOCK_SIZE \<and> pad_len \<le> length data \<and>
               list_all (\<lambda>b. b = char_of pad_len) (drop start data)
            then take start data else data))"

text \<open>\<open>chunks_mut(BLOCK_SIZE)\<close>: the cipher is applied to each block.\<close>

function each_block :: "(string \<Rightarrow> string) \<Rightarrow> string \<Rightarrow> string" where
  "each_block f buf =
     (if buf = [] then [] else f (take BLOCK_SIZE buf) @ each_block f (drop BLOCK_SIZE buf))"
  by pat_completeness auto
termination by (relation "measure (\<lambda>(f, buf). length buf)") (auto simp: BLOCK_SIZE_def)

declare each_block.simps [simp del]

definition aes128_ecb_encrypt :: "(string \<Rightarrow> string \<Rightarrow> string) \<Rightarrow> string \<Rightarrow> string \<Rightarrow> string" where
  "aes128_ecb_encrypt enc plaintext key = each_block (enc key) (pkcs7_pad plaintext)"

definition aes128_ecb_decrypt :: "(string \<Rightarrow> string \<Rightarrow> string) \<Rightarrow> string \<Rightarrow> string \<Rightarrow> string" where
  "aes128_ecb_decrypt dec ciphertext key =
     (if ciphertext = [] \<or> length ciphertext mod BLOCK_SIZE \<noteq> 0 then ciphertext
      else pkcs7_unpad (each_block (dec key) ciphertext))"

definition aes_padded_size :: "nat \<Rightarrow> nat" where
  "aes_padded_size raw_size = (raw_size + 1 + 15) div 16 * 16"

definition direct_key :: "(string \<Rightarrow> string + string) \<Rightarrow> string \<Rightarrow> (string + string) option" where
  "direct_key unhex s =
     (if length s = 32 \<and> list_all is_ascii_hexdigit s
      then (case unhex s of
              Inl e \<Rightarrow> Some (Inl (''hex decode: '' @ e))
            | Inr bytes \<Rightarrow> if length bytes = 16 then Some (Inr bytes) else None)
      else None)"

definition parse_aes_key ::
  "(string \<Rightarrow> string + string) \<Rightarrow> (string \<Rightarrow> string + string) \<Rightarrow> string \<Rightarrow> string + string" where
  "parse_aes_key unhex unbase64 aes_key_b64 =
     (let s = trim aes_key_b64 in
      case direct_key unhex s of
        Some r \<Rightarrow> r
      | None \<Rightarrow>
          (case unbase64 s of
             Inl e \<Rightarrow> Inl (''base64 decode: '' @ e)
           | Inr decoded \<Rightarrow>
               if length decoded = 16 then Inr decoded
               else (case direct_key unhex decoded of
                       Some r \<Rightarrow> r
                     | None \<Rightarrow> Inl (''unexpected aes_key format ('' @ show_nat (length decoded) @ '' decoded bytes)''))))"

definition encode_aes_key_for_api :: "(string \<Rightarrow> string) \<Rightarrow> (string \<Rightarrow> string) \<Rightarrow> string \<Rightarrow> string" where
  "encode_aes_key_for_api hex base64 key = base64 (hex key)"

text \<open>\<open>encode\<close> is percent-encoding.\<close>

definition CDN_BASE_URL :: string where
  "CDN_BASE_URL = ''https://novac2c.cdn.weixin.qq.com/c2c''"

definition cdn_download_url :: "(string \<Rightarrow> string) \<Rightarrow> string \<Rightarrow> string" where
  "cdn_download_url encode p = CDN_BASE_URL @ ''/download?encrypted_query_param='' @ encode p"

definition cdn_upload_url :: "(string \<Rightarrow> string) \<Rightarrow> string \<Rightarrow> string \<Rightarrow> string" where
  "cdn_upload_url encode p filekey =
     CDN_BASE_URL @ ''/upload?encrypted_query_param='' @ encode p @ ''&filekey='' @ encode filekey"

section \<open>Padding\<close>

lemma byte_char_of: "n < 256 \<Longrightarrow> byte (char_of n) = n"
  by (simp add: byte_def of_char_of)

lemma pad_len_bounds: "1 \<le> BLOCK_SIZE - n mod BLOCK_SIZE" "BLOCK_SIZE - n mod BLOCK_SIZE \<le> 16"
  by (simp_all add: BLOCK_SIZE_def Suc_leI)

lemma length_pkcs7_pad: "length (pkcs7_pad data) = aes_padded_size (length data)"
proof -
  let ?n = "length data"
  have "?n = ?n div 16 * 16 + ?n mod 16" by simp
  moreover have "?n mod 16 < 16" by simp
  ultimately have "?n + (16 - ?n mod 16) = ?n div 16 * 16 + 16" by linarith
  also have "\<dots> = (?n + 16) div 16 * 16" by (simp add: div_add_self2)
  finally show ?thesis by (simp add: pkcs7_pad_def Let_def aes_padded_size_def BLOCK_SIZE_def add.commute)
qed

lemma pkcs7_pad_blocks: "length (pkcs7_pad data) mod BLOCK_SIZE = 0" "pkcs7_pad data \<noteq> []"
proof -
  show "length (pkcs7_pad data) mod BLOCK_SIZE = 0"
    by (simp add: length_pkcs7_pad aes_padded_size_def BLOCK_SIZE_def)
  show "pkcs7_pad data \<noteq> []"
    using pad_len_bounds(1) [of "length data"] by (simp add: pkcs7_pad_def Let_def BLOCK_SIZE_def)
qed

lemma unpad_replicate:
  assumes "1 \<le> k" "k \<le> BLOCK_SIZE"
  shows "pkcs7_unpad (data @ replicate k (char_of k)) = data"
proof -
  have "byte (char_of k) = k" using assms(2) by (intro byte_char_of) (simp add: BLOCK_SIZE_def)
  moreover have "last (data @ replicate k (char_of k)) = char_of k" using assms(1) by (cases k) auto
  ultimately show ?thesis using assms by (simp add: pkcs7_unpad_def list_all_iff)
qed

lemma pkcs7_unpad_pad: "pkcs7_unpad (pkcs7_pad data) = data"
  unfolding pkcs7_pad_def Let_def
  by (rule unpad_replicate) (use pad_len_bounds in \<open>simp_all add: BLOCK_SIZE_def\<close>)

section \<open>Round trip\<close>

text \<open>What the code relies on: the cipher maps blocks to blocks and decryption undoes encryption.\<close>

definition block_cipher :: "(string \<Rightarrow> string) \<Rightarrow> (string \<Rightarrow> string) \<Rightarrow> bool" where
  "block_cipher e d \<longleftrightarrow> (\<forall>b. length b = BLOCK_SIZE \<longrightarrow> length (e b) = BLOCK_SIZE \<and> d (e b) = b)"

lemma each_block_block:
  "length b = BLOCK_SIZE \<Longrightarrow> each_block f (b @ buf) = f b @ each_block f buf"
  by (subst each_block.simps) (auto simp: BLOCK_SIZE_def)

lemma each_block_inverse:
  assumes "block_cipher e d" "length buf mod BLOCK_SIZE = 0"
  shows "each_block d (each_block e buf) = buf \<and> length (each_block e buf) = length buf"
  using assms(2)
proof (induction buf rule: length_induct)
  case (1 buf)
  show ?case
  proof (cases "buf = []")
    case False
    let ?b = "take BLOCK_SIZE buf" and ?r = "drop BLOCK_SIZE buf"
    have "BLOCK_SIZE \<le> length buf" using 1(2) False by (metis length_0_conv mod_less not_le)
    then have b: "length ?b = BLOCK_SIZE" "length ?r < length buf" "length ?r mod BLOCK_SIZE = 0"
      using 1(2) by (auto simp: BLOCK_SIZE_def le_mod_geq [symmetric])
    from assms(1) b(1) have e: "length (e ?b) = BLOCK_SIZE" "d (e ?b) = ?b" by (simp_all add: block_cipher_def)
    have "each_block e buf = e ?b @ each_block e ?r"
      using each_block_block [OF b(1), of e ?r] by simp
    with 1(1) b e show ?thesis
      by (simp add: each_block_block)
  qed (simp add: each_block.simps)
qed

text \<open>
  Media that was encrypted for upload decrypts to itself, whatever its length, and the
  encrypted size announced to the server is the size of what is sent.
\<close>

theorem media_roundtrip:
  assumes "block_cipher (enc key) (dec key)"
  shows "aes128_ecb_decrypt dec (aes128_ecb_encrypt enc raw key) key = raw \<and>
    length (aes128_ecb_encrypt enc raw key) = aes_padded_size (length raw)"
proof -
  let ?p = "pkcs7_pad raw"
  from each_block_inverse [OF assms pkcs7_pad_blocks(1), of raw]
  have inv: "each_block (dec key) (each_block (enc key) ?p) = ?p"
    "length (each_block (enc key) ?p) = length ?p" by simp_all
  have "each_block (enc key) ?p \<noteq> []" using inv(2) pkcs7_pad_blocks(2) [of raw] by auto
  with inv pkcs7_pad_blocks(1) [of raw] show ?thesis
    by (simp add: aes128_ecb_encrypt_def aes128_ecb_decrypt_def pkcs7_unpad_pad length_pkcs7_pad)
qed

lemma media_roundtrip_witness:
  "aes128_ecb_decrypt (\<lambda>_. rev) (aes128_ecb_encrypt (\<lambda>_. rev) ''photo'' ''key'') ''key'' = ''photo''"
proof -
  have "block_cipher rev rev" by (simp add: block_cipher_def)
  then show ?thesis using media_roundtrip [of "\<lambda>_. rev" "''key''" "\<lambda>_. rev" "''photo''"] by simp
qed

end
