(* ===== verification/Weixin.thy ===== *)
theory Weixin
  imports Json Text Policies Attachments Weixin_Media "HOL-Library.AList"
begin

text \<open>
  The adapter of personal WeChat accounts (\<open>platforms/weixin.rs\<close>): reading the updates of a long
  poll into inbound messages, and sending texts with retries and the token of the peer.

  The poll and a send run beside each other over the tokens of the peers: a poll is one event, a
  send is the event that reads the token and the one that records the outcome. HTTP is a
  parameter. A map of strings is an association list; the channel of inbound messages is the list
  of those not yet received. Sleeps and health events, which are logged, are left out.
\<close>

section \<open>Fields of messages\<close>

definition parse_u64 :: "string \<Rightarrow> nat option" where
  "parse_u64 s = parse_uint (2 ^ 64 - 1) s"

definition first_string :: "string list \<Rightarrow> json \<Rightarrow> string option" where
  "first_string keys v =
     first_some (\<lambda>k. Option.bind (Option.bind (jget v k) as_str)
       (\<lambda>s. if trim s \<noteq> [] then Some (trim s) else None)) keys"

definition first_u64 :: "string list \<Rightarrow> json \<Rightarrow> nat option" where
  "first_u64 keys v =
     first_some (\<lambda>k. Option.bind (jget v k) (\<lambda>x.
       or_else (as_u64 x) (Option.bind (as_str x) (\<lambda>s. parse_u64 (trim s))))) keys"

fun find_string_deep :: "string list \<Rightarrow> json \<Rightarrow> string option"
and find_in_values :: "string list \<Rightarrow> json list \<Rightarrow> string option"
and find_in_entries :: "string list \<Rightarrow> (string \<times> json) list \<Rightarrow> string option" where
  "find_string_deep keys (JArr items) = or_else (first_string keys (JArr items)) (find_in_values keys items)"
| "find_string_deep keys (JObj kvs) = or_else (first_string keys (JObj kvs)) (find_in_entries keys kvs)"
| "find_string_deep keys v = first_string keys v"
| "find_in_values keys [] = None"
| "find_in_values keys (v # vs) = or_else (find_string_deep keys v) (find_in_values keys vs)"
| "find_in_entries keys [] = None"
| "find_in_entries keys ((k, v) # kvs) = or_else (find_string_deep keys v) (find_in_entries keys kvs)"

definition json_items :: "json \<Rightarrow> json list" where
  "json_items v = (case as_array v of Some vs \<Rightarrow> vs | None \<Rightarrow> [])"

definition item_text :: "json \<Rightarrow> string option" where
  "item_text item =
     (let kind = as_i64 (jfield item ''type'') in
      if kind = Some 1 then as_str (jfield (jfield item ''text_item'') ''text'')
      else if kind = Some 3 then
        Option.bind (as_str (jfield (jfield item ''voice_item'') ''text''))
          (\<lambda>t. if trim t \<noteq> [] then Some ([CHR 0xF0, CHR 0x9F, CHR 0x8E, CHR 0xA4] @ '' '' @ t) else None)
      else None)"

definition extract_text :: "json \<Rightarrow> string" where
  "extract_text msg =
     trim (join [CHR 0x0A] (List.map_filter item_text (json_items (jfield msg ''item_list''))))"

definition weixin_item_attachment_spec :: "int option \<Rightarrow> (attachment_kind \<times> string) option" where
  "weixin_item_attachment_spec t =
     (if t = Some 2 then Some (AkImage, ''image_item'')
      else if t = Some 3 then Some (AkAudio, ''voice_item'')
      else if t = Some 4 then Some (AkFile, ''file_item'')
      else if t = Some 5 then Some (AkVideo, ''video_item'')
      else None)"

definition URL_KEYS :: "string list" where
  "URL_KEYS = [''url'', ''full_url'', ''download_url'', ''downloadurl'']"

definition NAME_KEYS :: "string list" where
  "NAME_KEYS = [''file_name'', ''filename'', ''name'']"

definition SIZE_KEYS :: "string list" where
  "SIZE_KEYS = [''rawsize'', ''raw_size'', ''len'', ''size'']"

definition item_attachment :: "(string \<Rightarrow> string) \<Rightarrow> json \<Rightarrow> inbound_attachment option" where
  "item_attachment encode item =
     Option.bind (weixin_item_attachment_spec (as_i64 (jfield item ''type''))) (\<lambda>(kind, item_key).
       let section = jfield item item_key;
           media = jfield section ''media'';
           url = (case first_string [''encrypt_query_param''] media of
               Some p \<Rightarrow> Some (cdn_download_url encode p)
             | None \<Rightarrow> or_else (first_string URL_KEYS section) (first_string URL_KEYS media))
       in map_option (\<lambda>u.
            \<lparr>ia_kind = kind,
             ia_name = or_else (first_string NAME_KEYS section) (first_string NAME_KEYS item),
             ia_media_id = first_string [''filekey'', ''media_id'', ''mediaid''] media,
             ia_url = Some u, ia_local_path = None,
             ia_mime_type = first_string [''mime_type'', ''mimetype'', ''content_type''] section,
             ia_size_bytes = or_else (first_u64 SIZE_KEYS section) (first_u64 SIZE_KEYS media),
             ia_raw = item\<rparr>) url)"

definition extract_attachments :: "(string \<Rightarrow> string) \<Rightarrow> json \<Rightarrow> inbound_attachment list" where
  "extract_attachments encode msg =
     List.map_filter (item_attachment encode) (json_items (jfield msg ''item_list''))"

section \<open>Credentials and restored state\<close>

definition MAX_RESTORED_TOKEN_LEN :: nat where
  "MAX_RESTORED_TOKEN_LEN = 8192"

definition MAX_RESTORED_ID_LEN :: nat where
  "MAX_RESTORED_ID_LEN = 512"

definition MAX_RESTORED_SYNC_BUF_LEN :: nat where
  "MAX_RESTORED_SYNC_BUF_LEN = 64 * 1024"

definition MAX_RESTORED_CONTEXT_TOKENS :: nat where
  "MAX_RESTORED_CONTEXT_TOKENS = 4096"

text \<open>\<open>char::is_control\<close> of some character: the controls of ASCII, and U+0080 to U+009F in two bytes.\<close>

fun has_control :: "string \<Rightarrow> bool" where
  "has_control [] = False"
| "has_control (c # s) =
     (byte c < 32 \<or> byte c = 127 \<or>
      (c = CHR 0xC2 \<and> (case s of d # _ \<Rightarrow> 0x80 \<le> byte d \<and> byte d \<le> 0x9F | [] \<Rightarrow> False)) \<or> has_control s)"

text \<open>\<open>header_ok\<close> tells whether a text can be the value of an HTTP header.\<close>

definition validate_restored_token :: "(string \<Rightarrow> bool) \<Rightarrow> string \<Rightarrow> bool" where
  "validate_restored_token header_ok token \<longleftrightarrow>
     token \<noteq> [] \<and> length token \<le> MAX_RESTORED_TOKEN_LEN \<and> trim token = token \<and>
     \<not> has_control token \<and> header_ok (''Bearer '' @ token)"

definition validate_restored_id :: "string \<Rightarrow> bool" where
  "validate_restored_id v \<longleftrightarrow>
     v \<noteq> [] \<and> length v \<le> MAX_RESTORED_ID_LEN \<and> trim v = v \<and> \<not> has_control v"

definition restore_sync_buf_value :: "json \<Rightarrow> string option" where
  "restore_sync_buf_value v =
     Option.bind (as_str v) (\<lambda>s.
       if MAX_RESTORED_SYNC_BUF_LEN < length s \<or> has_control s then None else Some s)"

definition restore_context_tokens_value :: "(string \<Rightarrow> bool) \<Rightarrow> json \<Rightarrow> (string \<times> string) list" where
  "restore_context_tokens_value header_ok v =
     (case as_object v of
        None \<Rightarrow> []
      | Some kvs \<Rightarrow>
          List.map_filter (\<lambda>(k, x). Option.bind (as_str x) (\<lambda>token.
            if validate_restored_id k \<and> validate_restored_token header_ok token then Some (k, token) else None))
            (take MAX_RESTORED_CONTEXT_TOKENS kvs))"

record weixin_config =
  wc_token :: string
  wc_account_id :: string

definition validate_weixin_credentials :: "(string \<Rightarrow> bool) \<Rightarrow> string \<Rightarrow> string \<Rightarrow> string + unit" where
  "validate_weixin_credentials header_ok token account_id =
     (if \<not> validate_restored_token header_ok token then Inl ''weixin: invalid token''
      else if account_id \<noteq> [] \<and> \<not> validate_restored_id account_id then Inl ''weixin: invalid account_id''
      else Inr ())"

text \<open>\<open>stored\<close> is the credential of the store, when there is a store that has one.\<close>

definition resolve_credentials ::
  "(string \<Rightarrow> bool) \<Rightarrow> json option \<Rightarrow> weixin_config \<Rightarrow> (string + unit) \<times> weixin_config" where
  "resolve_credentials header_ok stored c =
     (if wc_token c \<noteq> [] then (validate_weixin_credentials header_ok (wc_token c) (wc_account_id c), c)
      else
        (let missing = Inl (''weixin: token required '' @ [CHR 0xE2, CHR 0x80, CHR 0x94] @ '' run '' @ [CHR 0x60] @
               ''astra-gateway weixin login'' @ [CHR 0x60] @ '' to scan QR code'')
         in case stored of
              None \<Rightarrow> (missing, c)
            | Some cred \<Rightarrow>
                (let c1 = (case as_str (jfield cred ''token'') of
                       Some t \<Rightarrow> if validate_restored_token header_ok t then c\<lparr>wc_token := t\<rparr> else c
                     | None \<Rightarrow> c);
                     c2 = (case as_str (jfield cred ''account_id'') of
                       Some a \<Rightarrow>
                         if wc_account_id c1 = [] \<and> validate_restored_id a then c1\<lparr>wc_account_id := a\<rparr> else c1
                     | None \<Rightarrow> c1)
                 in if wc_token c2 \<noteq> []
                    then (validate_weixin_credentials header_ok (wc_token c2) (wc_account_id c2), c2)
                    else (missing, c2))))"

section \<open>Sending\<close>

definition MAX_MESSAGE_LENGTH :: nat where
  "MAX_MESSAGE_LENGTH = 2000"

definition CHANNEL_VERSION :: string where
  "CHANNEL_VERSION = ''2.2.0''"

definition SEND_MAX_RETRIES :: nat where
  "SEND_MAX_RETRIES = 3"

definition FATAL_SEND_ERROR_PREFIX :: string where
  "FATAL_SEND_ERROR_PREFIX = ''weixin fatal send: ''"

datatype send_retry_action = DropContextToken | RateLimitBackoff | NormalRetry | Fatal

text \<open>\<open>lower\<close> is \<open>str::to_lowercase\<close>, which the text is compared after.\<close>

definition is_stale_session_errmsg :: "(string \<Rightarrow> string) \<Rightarrow> string \<Rightarrow> bool" where
  "is_stale_session_errmsg lower errmsg \<longleftrightarrow>
     (let trimmed = lower (trim errmsg) in trimmed \<in> set [[], ''unknown'', ''unknown error''])"

definition classify_send_error :: "(string \<Rightarrow> string) \<Rightarrow> int \<Rightarrow> string \<Rightarrow> bool \<Rightarrow> send_retry_action" where
  "classify_send_error lower errcode errmsg already_tried_tokenless =
     (if errcode = - 14 then (if already_tried_tokenless then Fatal else DropContextToken)
      else if errcode = - 2 \<and> contains errmsg ''freq'' then RateLimitBackoff
      else if errcode = - 2 \<and> is_stale_session_errmsg lower errmsg
        then (if already_tried_tokenless then Fatal else DropContextToken)
      else if errcode = - 2 \<and> already_tried_tokenless then Fatal
      else NormalRetry)"

datatype http_reply = HttpFailed string | BadBody string | Reply json

definition reply_errcode :: "json \<Rightarrow> int" where
  "reply_errcode d =
     (case or_else (as_i64 (jfield d ''errcode'')) (as_i64 (jfield d ''ret'')) of Some n \<Rightarrow> n | None \<Rightarrow> 0)"

definition reply_errmsg :: "json \<Rightarrow> string" where
  "reply_errmsg d = (case as_str (jfield d ''errmsg'') of Some m \<Rightarrow> m | None \<Rightarrow> ''unknown'')"

definition reply_token :: "json \<Rightarrow> string option" where
  "reply_token d =
     Option.bind (or_else (as_str (jfield d ''context_token''))
                          (as_str (jfield (jfield d ''data'') ''context_token'')))
       (\<lambda>s. if s \<noteq> [] then Some s else None)"

definition send_body :: "string \<Rightarrow> json \<Rightarrow> string \<Rightarrow> string \<Rightarrow> json" where
  "send_body chat_id item ct client_id =
     obj_of [(''msg'', obj_of [(''from_user_id'', JStr []), (''to_user_id'', JStr chat_id),
                (''client_id'', JStr client_id), (''message_type'', JNum 2), (''message_state'', JNum 2),
                (''context_token'', JStr ct), (''item_list'', JArr [item])]),
             (''base_info'', obj_of [(''channel_version'', JStr CHANNEL_VERSION)])]"

definition text_item :: "string \<Rightarrow> json" where
  "text_item t = obj_of [(''type'', JNum 1), (''text_item'', obj_of [(''text'', JStr t)])]"

text \<open>
  The attempts of one send, \<open>n\<close> of them left. \<open>post i b\<close> is what the server answers to the \<open>i\<close>-th
  post and \<open>uuid i\<close> its new identifier; the second component lists the tokens the posts carried.
\<close>

fun send_attempts ::
  "(string \<Rightarrow> string) \<Rightarrow> (nat \<Rightarrow> json \<Rightarrow> http_reply) \<Rightarrow> (nat \<Rightarrow> string) \<Rightarrow> (string \<Rightarrow> string \<Rightarrow> json) \<Rightarrow>
   string \<Rightarrow> string \<Rightarrow> nat \<Rightarrow> nat \<Rightarrow> bool \<Rightarrow> string \<Rightarrow> (string + string option) \<times> string list" where
  "send_attempts lower post uuid body gave_up context_token 0 att tokenless last_error =
     (Inl (gave_up @ last_error), [])"
| "send_attempts lower post uuid body gave_up context_token (Suc n) att tokenless last_error =
     (let ct = (if tokenless then [] else context_token);
          again = (\<lambda>t e. case send_attempts lower post uuid body gave_up context_token n (Suc att) t e of
             (r, cts) \<Rightarrow> (r, ct # cts))
      in case post att (body ct (''astra-gw-'' @ uuid att)) of
           HttpFailed e \<Rightarrow> again tokenless (''HTTP error: '' @ e)
         | BadBody e \<Rightarrow> again tokenless (''parse error: '' @ e)
         | Reply d \<Rightarrow>
             if reply_errcode d = 0 then (Inr (reply_token d), [ct])
             else
               (let e = show_int (reply_errcode d) @ '': '' @ reply_errmsg d in
                case classify_send_error lower (reply_errcode d) (reply_errmsg d) tokenless of
                  DropContextToken \<Rightarrow> again True e
                | RateLimitBackoff \<Rightarrow> again tokenless e
                | Fatal \<Rightarrow> (Inl (FATAL_SEND_ERROR_PREFIX @ e), [ct])
                | NormalRetry \<Rightarrow> again tokenless e))"

definition send_text_with_retry ::
  "(string \<Rightarrow> string) \<Rightarrow> (nat \<Rightarrow> json \<Rightarrow> http_reply) \<Rightarrow> (nat \<Rightarrow> string) \<Rightarrow> string \<Rightarrow> string \<Rightarrow> string \<Rightarrow>
   (string + string option) \<times> string list" where
  "send_text_with_retry lower post uuid chat_id t context_token =
     (if t = [] then (Inl ''empty message text'', [])
      else send_attempts lower post uuid (send_body chat_id (text_item t)) ''weixin send failed after retries: ''
             context_token (SEND_MAX_RETRIES + 1) 0 False [])"

definition send_weixin_item_with_retry ::
  "(string \<Rightarrow> string) \<Rightarrow> (nat \<Rightarrow> json \<Rightarrow> http_reply) \<Rightarrow> (nat \<Rightarrow> string) \<Rightarrow> string \<Rightarrow> int \<Rightarrow> string \<Rightarrow> json \<Rightarrow>
   string \<Rightarrow> (string + string option) \<times> string list" where
  "send_weixin_item_with_retry lower post uuid chat_id item_type item_key item context_token =
     send_attempts lower post uuid
       (send_body chat_id (obj_of [(''type'', JNum item_type), (item_key, item)]))
       ''weixin attachment send failed after retries: '' context_token (SEND_MAX_RETRIES + 1) 0 False []"

text \<open>The text that is sent of an answer.\<close>

definition text_to_send :: "string \<Rightarrow> string option" where
  "text_to_send answer =
     (let t = rewrite_for_weixin answer in
      if MAX_MESSAGE_LENGTH < length t then truncate_with_suffix t MAX_MESSAGE_LENGTH ELLIPSIS else Some t)"

section \<open>The state of the adapter\<close>

definition INBOX_SIZE :: nat where
  "INBOX_SIZE = 256"

record weixin =
  wx_cursor :: string
  wx_seen :: "(string \<times> nat) list"
  wx_tokens :: "(string \<times> string) list"
  wx_tickets :: "(string \<times> (string \<times> nat)) list"
  wx_inbox :: "inbound_message list"
  wx_open :: bool
  wx_has_store :: bool
  wx_saved :: "(string \<times> json) list"

text \<open>\<open>send_text\<close> up to the posts, which reads the token, and after them.\<close>

definition token_for :: "string \<Rightarrow> weixin \<Rightarrow> string" where
  "token_for chat_id a = (case map_of (wx_tokens a) chat_id of Some t \<Rightarrow> t | None \<Rightarrow> [])"

definition send_done :: "string \<Rightarrow> string + string option \<Rightarrow> weixin \<Rightarrow> (string + unit) \<times> weixin" where
  "send_done chat_id r a =
     (case r of
        Inr None \<Rightarrow> (Inr (), a)
      | Inr (Some ct) \<Rightarrow> (Inr (), a\<lparr>wx_tokens := AList.update chat_id ct (wx_tokens a)\<rparr>)
      | Inl e \<Rightarrow>
          (Inl e, if starts_with e FATAL_SEND_ERROR_PREFIX
                  then a\<lparr>wx_tokens := AList.delete chat_id (wx_tokens a)\<rparr> else a))"

definition TYPING_TICKET_TTL_SECS :: nat where
  "TYPING_TICKET_TTL_SECS = 600"

text \<open>The ticket for \<open>send_typing\<close>; \<open>fetched\<close> is what \<open>fetch_typing_ticket\<close> comes back with.\<close>

definition typing_ticket ::
  "nat \<Rightarrow> string + string \<Rightarrow> string \<Rightarrow> weixin \<Rightarrow> string option \<times> weixin" where
  "typing_ticket now fetched chat_id a =
     (case Option.bind (map_of (wx_tickets a) chat_id) (\<lambda>(t, ts).
             if (now - ts) div 1000000000 < TYPING_TICKET_TTL_SECS then Some t else None) of
        Some t \<Rightarrow> (Some t, a)
      | None \<Rightarrow>
          (case fetched of
             Inl _ \<Rightarrow> (None, a)
           | Inr t \<Rightarrow> (Some t, a\<lparr>wx_tickets := AList.update chat_id (t, now) (wx_tickets a)\<rparr>)))"

definition ticket_of_reply :: "http_reply \<Rightarrow> string + string" where
  "ticket_of_reply r =
     (case r of
        HttpFailed e \<Rightarrow> Inl (''getconfig: '' @ e)
      | BadBody e \<Rightarrow> Inl (''getconfig parse: '' @ e)
      | Reply d \<Rightarrow>
          ok_or ''no typing_ticket in response''
            (Option.bind (as_str (jfield d ''typing_ticket'')) (\<lambda>s. if s \<noteq> [] then Some s else None)))"

section \<open>The poll\<close>

definition save_credential :: "string \<Rightarrow> json \<Rightarrow> weixin \<Rightarrow> weixin" where
  "save_credential name v a = (if wx_has_store a then a\<lparr>wx_saved := wx_saved a @ [(name, v)]\<rparr> else a)"

datatype inbound_delivery = Delivered | DroppedFull | Closed

definition deliver_weixin_inbound :: "inbound_message \<Rightarrow> weixin \<Rightarrow> inbound_delivery \<times> weixin" where
  "deliver_weixin_inbound m a =
     (if \<not> wx_open a then (Closed, a)
      else if INBOX_SIZE \<le> length (wx_inbox a) then (DroppedFull, a)
      else (Delivered, a\<lparr>wx_inbox := wx_inbox a @ [m]\<rparr>))"

definition weixin_msg_id :: "json \<Rightarrow> string" where
  "weixin_msg_id msg =
     (let v = jfield msg ''message_id'' in
      case or_else (as_str v) (or_else (map_option show_nat (as_u64 v)) (map_option show_int (as_i64 v))) of
        Some i \<Rightarrow> i | None \<Rightarrow> [])"

definition weixin_from :: "json \<Rightarrow> string" where
  "weixin_from msg = (case as_str (jfield msg ''from_user_id'') of Some s \<Rightarrow> s | None \<Rightarrow> ''unknown'')"

definition weixin_room :: "json \<Rightarrow> string" where
  "weixin_room msg = (case as_str (jfield msg ''room_id'') of Some s \<Rightarrow> s | None \<Rightarrow> [])"

definition tokens_json :: "(string \<times> string) list \<Rightarrow> json" where
  "tokens_json tokens = obj_of (map (\<lambda>(k, v). (k, JStr v)) tokens)"

definition cache_token :: "json \<Rightarrow> weixin \<Rightarrow> weixin" where
  "cache_token msg a =
     (case as_str (jfield msg ''context_token'') of
        None \<Rightarrow> a
      | Some ct \<Rightarrow>
          if ct = [] then a
          else
            (let tokens = AList.update (weixin_from msg) ct (wx_tokens a)
             in save_credential ''context_tokens'' (tokens_json tokens) (a\<lparr>wx_tokens := tokens\<rparr>)))"

definition inbound_of :: "(string \<Rightarrow> string) \<Rightarrow> json \<Rightarrow> inbound_message" where
  "inbound_of encode msg =
     (let room = weixin_room msg; from = weixin_from msg in
      \<lparr>im_platform = ''weixin'', im_chat_id = (if room = [] then from else room), im_user_id = from,
       im_text = extract_text msg, im_attachments = extract_attachments encode msg,
       im_msg_id = weixin_msg_id msg, im_chat_type = (if room = [] then DirectMessage else Group),
       im_reply_token = None, im_route_override = None, im_feedback = None\<rparr>)"

definition has_content :: "(string \<Rightarrow> string) \<Rightarrow> json \<Rightarrow> bool" where
  "has_content encode msg \<longleftrightarrow> extract_text msg \<noteq> [] \<or> extract_attachments encode msg \<noteq> []"

definition own_message :: "json \<Rightarrow> bool" where
  "own_message msg \<longleftrightarrow> as_i64 (jfield msg ''msg_type'') = Some 2"

text \<open>One message of a poll at time \<open>now\<close>; the first component tells that the loop goes on.\<close>

definition poll_message :: "(string \<Rightarrow> string) \<Rightarrow> nat \<Rightarrow> json \<Rightarrow> weixin \<Rightarrow> bool \<times> weixin" where
  "poll_message encode now msg a =
     (if own_message msg \<or> weixin_msg_id msg = [] then (True, a)
      else
        (case check_message DEFAULT_MAX_SIZE DEFAULT_TTL now (weixin_msg_id msg) (wx_seen a) of
           (False, seen) \<Rightarrow> (True, a\<lparr>wx_seen := seen\<rparr>)
         | (True, seen) \<Rightarrow>
             (let a1 = a\<lparr>wx_seen := seen\<rparr> in
              if \<not> has_content encode msg then (True, a1)
              else
                (case deliver_weixin_inbound (inbound_of encode msg) (cache_token msg a1) of
                   (Closed, a2) \<Rightarrow> (False, a2)
                 | (_, a2) \<Rightarrow> (True, a2)))))"

fun poll_messages :: "(string \<Rightarrow> string) \<Rightarrow> (nat \<times> json) list \<Rightarrow> weixin \<Rightarrow> weixin" where
  "poll_messages encode [] a = a"
| "poll_messages encode ((now, msg) # msgs) a =
     (case poll_message encode now msg a of
        (True, a') \<Rightarrow> poll_messages encode msgs a'
      | (False, a') \<Rightarrow> a')"

datatype poll_reply = PollTimeout | PollFailed string | PollData json

definition enumerate_with :: "(nat \<Rightarrow> nat) \<Rightarrow> 'a list \<Rightarrow> (nat \<times> 'a) list" where
  "enumerate_with clock xs = zip (map clock [0 ..< length xs]) xs"

definition poll_body :: "weixin \<Rightarrow> json" where
  "poll_body a =
     obj_of [(''get_updates_buf'', JStr (wx_cursor a)),
             (''base_info'', obj_of [(''channel_version'', JStr CHANNEL_VERSION)])]"

text \<open>\<open>clock i\<close> is the time at which the \<open>i\<close>-th message is checked.\<close>

definition poll_updates ::
  "(string \<Rightarrow> string) \<Rightarrow> (nat \<Rightarrow> nat) \<Rightarrow> poll_reply \<Rightarrow> weixin \<Rightarrow> (string + unit) \<times> weixin" where
  "poll_updates encode clock reply a =
     (case reply of
        PollTimeout \<Rightarrow> (Inl ''poll timeout'', a)
      | PollFailed e \<Rightarrow> (Inl e, a)
      | PollData d \<Rightarrow>
          (let ret = (case as_i64 (jfield d ''ret'') of Some n \<Rightarrow> n | None \<Rightarrow> 0) in
           if ret \<noteq> 0 then
             (Inl (''getupdates error '' @
                show_int (case as_i64 (jfield d ''errcode'') of Some n \<Rightarrow> n | None \<Rightarrow> ret) @ '': '' @ reply_errmsg d), a)
           else
             (let a1 = (case as_str (jfield d ''get_updates_buf'') of
                    Some buf \<Rightarrow> save_credential ''sync_buf'' (JStr buf) (a\<lparr>wx_cursor := buf\<rparr>)
                  | None \<Rightarrow> a);
                  msgs = json_items (jfield d ''msgs'')
              in (Inr (), poll_messages encode (enumerate_with clock msgs) a1))))"

text \<open>What the poll loop does after a poll: the errors in a row and the seconds it waits.\<close>

definition poll_backoff :: "string + unit \<Rightarrow> nat \<Rightarrow> nat \<times> nat" where
  "poll_backoff r errors =
     (case r of
        Inr _ \<Rightarrow> (0, 0)
      | Inl e \<Rightarrow>
          (let n = Suc errors mod 2 ^ 32 in
           (n, if contains e ''-14'' \<or> contains e ''session timeout'' then 60 else if 3 < n then 10 else 2)))"


text \<open>The state a start restores: the stored tokens over those it has, and the cursor.\<close>

definition start_state ::
  "(string \<Rightarrow> bool) \<Rightarrow> json option \<Rightarrow> json option \<Rightarrow> weixin \<Rightarrow> weixin" where
  "start_state header_ok stored_tokens stored_cursor a =
     (let tokens = (case stored_tokens of
            Some v \<Rightarrow> fold (\<lambda>(k, t). AList.update k t) (restore_context_tokens_value header_ok v) (wx_tokens a)
          | None \<Rightarrow> wx_tokens a);
          cursor = (case Option.bind stored_cursor restore_sync_buf_value of Some s \<Rightarrow> s | None \<Rightarrow> [])
      in a\<lparr>wx_tokens := tokens, wx_cursor := cursor\<rparr>)"

section \<open>Inbound attachments\<close>

text \<open>
  What the surroundings do: a download, the cipher and the codings of keys, whether the directory
  can be made and a file written.
\<close>

datatype download = DownloadFailed | Downloaded nat "nat option" "string option"

record download_env =
  de_client :: bool
  de_get :: "string \<Rightarrow> download"
  de_unhex :: "string \<Rightarrow> string + string"
  de_unbase64 :: "string \<Rightarrow> string + string"
  de_dec :: "string \<Rightarrow> string \<Rightarrow> string"
  de_mkdir :: bool
  de_write :: "string \<Rightarrow> bool"
  de_last_segment :: "string \<Rightarrow> string option"

text \<open>\<open>PathBuf::join\<close> with a relative name.\<close>

definition path_join :: "string \<Rightarrow> string \<Rightarrow> string" where
  "path_join p c = (if p = [] \<or> ends_with p ''/'' then p @ c else p @ ''/'' @ c)"

definition dir_path :: "string \<Rightarrow> string \<Rightarrow> string" where
  "dir_path run_dir msg_id = path_join (path_join run_dir ''.attachments'') (sanitize_path_part msg_id)"

datatype fetched = FetchError string | Fetched string

definition fetch_attachment :: "download_env \<Rightarrow> inbound_attachment \<Rightarrow> nat \<Rightarrow> string \<Rightarrow> fetched" where
  "fetch_attachment env a idx url =
     (let failed = (\<lambda>what. FetchError (attachment_label a idx @ '' '' @ what)) in
      case de_get env url of
        DownloadFailed \<Rightarrow> failed [CHR 0xE4, CHR 0xB8, CHR 0x8B, CHR 0xE8, CHR 0xBD, CHR 0xBD, CHR 0xE5, CHR 0xA4, CHR 0xB1, CHR 0xE8,
     CHR 0xB4, CHR 0xA5]
      | Downloaded status len body \<Rightarrow>
          if \<not> (200 \<le> status \<and> status \<le> 299)
          then failed ([CHR 0xE4, CHR 0xB8, CHR 0x8B, CHR 0xE8, CHR 0xBD, CHR 0xBD, CHR 0xE8, CHR 0xBF, CHR 0x94, CHR 0xE5,
     CHR 0x9B, CHR 0x9E] @ '' HTTP '' @ show_nat status)
          else if (case len of Some n \<Rightarrow> MAX_INBOUND_ATTACHMENT_BYTES < n | None \<Rightarrow> False)
          then FetchError (too_large_failure a idx)
          else (case body of
                  None \<Rightarrow> failed [CHR 0xE8, CHR 0xAF, CHR 0xBB, CHR 0xE5, CHR 0x8F, CHR 0x96, CHR 0xE5, CHR 0xA4, CHR 0xB1, CHR 0xE8,
     CHR 0xB4, CHR 0xA5]
                | Some bytes \<Rightarrow>
                    if MAX_INBOUND_ATTACHMENT_BYTES < length bytes then FetchError (too_large_failure a idx)
                    else (case find_string_deep [''aes_key'', ''aeskey''] (ia_raw a) of
                            None \<Rightarrow> failed [CHR 0xE7, CHR 0xBC, CHR 0xBA, CHR 0xE5, CHR 0xB0, CHR 0x91, CHR 0xE8, CHR 0xA7, CHR 0xA3, CHR 0xE5,
     CHR 0xAF, CHR 0x86, CHR 0xE5, CHR 0xAF, CHR 0x86, CHR 0xE9, CHR 0x92, CHR 0xA5]
                          | Some k \<Rightarrow>
                              (case parse_aes_key (de_unhex env) (de_unbase64 env) k of
                                 Inl _ \<Rightarrow> failed
     [CHR 0xE8, CHR 0xA7, CHR 0xA3, CHR 0xE5, CHR 0xAF, CHR 0x86, CHR 0xE5, CHR 0xAF, CHR 0x86, CHR 0xE9,
     CHR 0x92, CHR 0xA5, CHR 0xE6, CHR 0x97, CHR 0xA0, CHR 0xE6, CHR 0x95, CHR 0x88]
                               | Inr key \<Rightarrow> Fetched (aes128_ecb_decrypt (de_dec env) bytes key)))))"

definition DIR_FAILURE :: string where
  "DIR_FAILURE =
     [CHR 0xE9, CHR 0x99, CHR 0x84, CHR 0xE4, CHR 0xBB, CHR 0xB6, CHR 0xE7, CHR 0x9B, CHR 0xAE, CHR 0xE5,
     CHR 0xBD, CHR 0x95, CHR 0xE5, CHR 0x88, CHR 0x9B, CHR 0xE5, CHR 0xBB, CHR 0xBA, CHR 0xE5, CHR 0xA4,
     CHR 0xB1, CHR 0xE8, CHR 0xB4, CHR 0xA5]"

definition CLIENT_FAILURE :: string where
  "CLIENT_FAILURE =
     [CHR 0xE9, CHR 0x99, CHR 0x84, CHR 0xE4, CHR 0xBB, CHR 0xB6, CHR 0xE4, CHR 0xB8, CHR 0x8B, CHR 0xE8,
     CHR 0xBD, CHR 0xBD, CHR 0xE5, CHR 0xAE, CHR 0xA2, CHR 0xE6, CHR 0x88, CHR 0xB7, CHR 0xE7, CHR 0xAB,
     CHR 0xAF, CHR 0xE5, CHR 0x88, CHR 0x9B, CHR 0xE5, CHR 0xBB, CHR 0xBA, CHR 0xE5, CHR 0xA4, CHR 0xB1,
     CHR 0xE8, CHR 0xB4, CHR 0xA5]"

text \<open>One attachment: what becomes of it, the failure if there was one, and whether to go on.\<close>

definition download_one ::
  "download_env \<Rightarrow> string \<Rightarrow> nat \<Rightarrow> inbound_attachment \<Rightarrow> inbound_attachment \<times> string list \<times> bool" where
  "download_one env dir idx a =
     (if ia_local_path a \<noteq> None then (a, [], True)
      else case ia_url a of
        None \<Rightarrow> (a, [missing_url_failure a idx], True)
      | Some url \<Rightarrow>
          (case fetch_attachment env a idx url of
             FetchError e \<Rightarrow> (a, [e], True)
           | Fetched bytes \<Rightarrow>
               (let a1 = a\<lparr>ia_mime_type := detect_mime_from_bytes bytes (ia_mime_type a)\<rparr>;
                    path = path_join dir (attachment_filename (de_last_segment env) a1 idx bytes)
                in if \<not> de_mkdir env then (a1, [DIR_FAILURE], False)
                   else if \<not> de_write env path
                   then (a1, [attachment_label a1 idx @ '' '' @ [CHR 0xE5, CHR 0x86, CHR 0x99, CHR 0xE5, CHR 0x85, CHR 0xA5, CHR 0xE5, CHR 0xA4, CHR 0xB1, CHR 0xE8,
     CHR 0xB4, CHR 0xA5]], True)
                   else (a1\<lparr>ia_size_bytes := Some (case ia_size_bytes a1 of Some n \<Rightarrow> n | None \<Rightarrow> length bytes),
                            ia_local_path := Some path\<rparr>, [], True))))"

text \<open>The attachments from number \<open>idx\<close> on, with the failures so far.\<close>

fun download_from ::
  "download_env \<Rightarrow> string \<Rightarrow> nat \<Rightarrow> inbound_attachment list \<Rightarrow> string list \<Rightarrow>
   inbound_attachment list \<times> string list" where
  "download_from env dir idx [] failures = ([], failures)"
| "download_from env dir idx (a # as) failures =
     (case download_one env dir idx a of
        (a', f, True) \<Rightarrow>
          (case download_from env dir (Suc idx) as (failures @ f) of (as', fs) \<Rightarrow> (a' # as', fs))
      | (a', f, False) \<Rightarrow> (a' # as, failures @ f))"

definition download_weixin_attachments ::
  "download_env \<Rightarrow> string \<Rightarrow> string \<Rightarrow> inbound_attachment list \<Rightarrow> inbound_attachment list \<times> string list" where
  "download_weixin_attachments env run_dir msg_id as =
     (if list_all (\<lambda>a. ia_local_path a \<noteq> None \<or> ia_url a = None) as then (as, [])
      else if \<not> de_client env then (as, [CLIENT_FAILURE])
      else download_from env (dir_path run_dir msg_id) 0 as [])"

text \<open>
  The attachments that are left, what the user is told, and whether the directory of the message
  is removed again.
\<close>

definition prepare_inbound_attachments ::
  "download_env \<Rightarrow> string \<Rightarrow> string \<Rightarrow> inbound_attachment list \<Rightarrow>
   inbound_attachment list \<times> string option \<times> bool" where
  "prepare_inbound_attachments env run_dir msg_id as =
     (if as = [] then ([], None, False)
      else
        (let (as1, failures) = download_weixin_attachments env run_dir msg_id as;
             kept = filter (\<lambda>a. ia_local_path a \<noteq> None) as1
         in (kept, prepare_response (length as1 - length kept) (kept = []) failures, kept = [])))"

end
