(* ===== verification/Attachments_Props.thy ===== *)
theory Attachments_Props
  imports Attachments
begin

text \<open>
  Where attachments end up: a file name never leaves its directory, whatever the sender called the
  file, and which directory a message's attachments are written to and removed with.
\<close>

section \<open>Names without separators\<close>

definition plain_name :: "string \<Rightarrow> bool" where
  "plain_name s \<longleftrightarrow> CHR ''/'' \<notin> set s"

lemma plain_name_append [simp]: "plain_name (s @ t) \<longleftrightarrow> plain_name s \<and> plain_name t"
  by (auto simp: plain_name_def)

lemma plain_name_Nil [simp]: "plain_name []" and plain_name_Cons [simp]: "plain_name (c # s) \<longleftrightarrow> c \<noteq> CHR ''/'' \<and> plain_name s"
  by (auto simp: plain_name_def)

lemma path_char_not_slash: "path_char c \<Longrightarrow> c \<noteq> CHR ''/''"
  by (auto simp: path_char_def is_ascii_alphanumeric_def is_digit_def byte_def)

lemma set_sanitize: "c \<in> set (sanitize_path_part s) \<Longrightarrow> path_char c"
  by (auto simp: sanitize_path_part_def trim_matches_def sanitize_chars_def path_char_def
    dest!: set_dropWhileD split: if_splits)

lemma plain_name_sanitize: "plain_name (sanitize_path_part s)"
  using set_sanitize path_char_not_slash by (auto simp: plain_name_def)

lemma plain_name_show_nat [simp]: "plain_name (show_nat n)"
proof (induction n rule: show_nat.induct)
  case (1 n)
  have "char_of (48 + n mod 10) \<noteq> CHR ''/''"
  proof
    assume "char_of (48 + n mod 10) = CHR ''/''"
    then have "of_char (char_of (48 + n mod 10) :: char) = (of_char (CHR ''/'') :: nat)" by simp
    then show False by (simp add: of_char_of)
  qed
  with 1 show ?case by (subst show_nat.simps) (auto simp: plain_name_def)
qed

lemma plain_name_extension: "extension mime kind bytes = Some ext \<Longrightarrow> plain_name ext"
  by (auto simp: extension_def sniff_def mime_extension_def plain_name_def split: if_splits option.splits)

lemma plain_name_file_name: "file_name s = Some t \<Longrightarrow> plain_name t"
proof -
  assume "file_name s = Some t"
  then obtain rest where "rev (filter (\<lambda>c. c \<noteq> [] \<and> c \<noteq> ''.'') (split_char (CHR ''/'') s)) = t # rest"
    by (auto simp: file_name_def split: list.splits if_splits)
  then have "t \<in> set (rev (filter (\<lambda>c. c \<noteq> [] \<and> c \<noteq> ''.'') (split_char (CHR ''/'') s)))" by (metis list.set_intros(1))
  then have "t \<in> set (split_char (CHR ''/'') s)" by simp
  then show "plain_name t" by (simp add: plain_name_def split_char_no_sep)
qed

lemma plain_name_split_at_dot: "plain_name s \<Longrightarrow> plain_name (fst (split_at_dot s))"
  by (auto simp: split_at_dot_def plain_name_def dest: in_set_takeD split: option.split)

lemma plain_ensure_extension:
  assumes "plain_name name"
  shows "plain_name (ensure_extension name mime kind bytes)"
proof (cases "extension mime kind bytes")
  case None
  with assms show ?thesis by (simp add: ensure_extension_def)
next
  case (Some ext)
  have "plain_name ext" by (rule plain_name_extension [OF Some])
  with assms Some show ?thesis
    using plain_name_split_at_dot [OF plain_name_file_name]
    by (auto simp: ensure_extension_def Let_def simp del: map_option_eq_Some split: option.split)
qed

lemma plain_filename: "plain_name (attachment_filename last_segment a idx bytes)"
  by (auto simp: attachment_filename_def Let_def plain_ensure_extension plain_name_sanitize split: option.split)

text \<open>A file name begins with a digit, so it is a name of its own.\<close>

lemma show_nat_first: "\<exists>c rest. show_nat n = c # rest \<and> is_digit c"
proof (induction n rule: show_nat.induct)
  case (1 n)
  show ?case
  proof (cases "n < 10")
    case True
    then have "is_digit (char_of (48 + n))" by (simp add: is_digit_def byte_def of_char_of)
    with True show ?thesis by (simp add: show_nat.simps [of n])
  next
    case False
    with 1 show ?thesis by (auto simp: show_nat.simps [of n])
  qed
qed

lemma filename_is_name:
  "attachment_filename last_segment a idx bytes \<notin> set [[], ''.'', ''..'']"
proof -
  obtain c rest where "show_nat (idx + 1) = c # rest" "is_digit c" using show_nat_first by blast
  moreover have "\<not> is_digit (CHR ''.'')" by code_simp
  ultimately show ?thesis by (auto simp: attachment_filename_def Let_def)
qed

section \<open>Paths\<close>

definition names :: "string list \<Rightarrow> bool" where
  "names p \<longleftrightarrow> list_all (\<lambda>c. c \<notin> set [[], ''.'', ''..'']) p"

lemma resolve_names_from: "names p \<Longrightarrow> foldl resolve_step q p = q @ p"
  by (induction p arbitrary: q) (auto simp: names_def)

lemma resolve_append: "resolve (p @ q) = foldl resolve_step (resolve p) q"
  by (simp add: resolve_def)

lemma resolve_names: "names p \<Longrightarrow> resolve p = p"
  by (simp add: resolve_def resolve_names_from)

text \<open>What the name of the message makes of the directory.\<close>

definition message_dir :: "string list \<Rightarrow> string \<Rightarrow> string list" where
  "message_dir run_dir msg_id =
     (let part = sanitize_path_part msg_id in
      if part = ''..'' then run_dir
      else if part = [] \<or> part = ''.'' then run_dir @ [''.attachments'']
      else run_dir @ [''.attachments'', part])"

lemma resolve_dir: "names run_dir \<Longrightarrow> resolve (attachment_dir run_dir msg_id) = message_dir run_dir msg_id"
  by (simp add: attachment_dir_def resolve_append resolve_names message_dir_def Let_def)

text \<open>
  Property C30: an attachment's file lies directly in the directory of its message, whatever name,
  link or type the sender gave it: its name has no separator, is no name of a directory and is kept
  as it is when the path is resolved. That directory is one of the message's own below the
  attachments directory, unless the identifier of the message comes down to nothing or to dots;
  then it is the attachments directory of all messages, or the whole run directory of the gateway.
\<close>

theorem attachment_path_resolved:
  assumes "names run_dir" and "d = message_dir run_dir msg_id"
  shows "resolve (attachment_dir run_dir msg_id) = d \<and>
    resolve (attachment_dir run_dir msg_id @ [attachment_filename last_segment a idx bytes]) =
      d @ [attachment_filename last_segment a idx bytes] \<and>
    CHR ''/'' \<notin> set (attachment_filename last_segment a idx bytes) \<and>
    (d = run_dir @ [''.attachments'', sanitize_path_part msg_id] \<longleftrightarrow>
       sanitize_path_part msg_id \<notin> set [[], ''.'', ''..''])"
proof -
  have "plain_name (attachment_filename last_segment a idx bytes)" by (rule plain_filename)
  then show ?thesis
    using resolve_dir [OF assms(1)] filename_is_name [of last_segment a idx bytes]
    by (auto simp: resolve_append assms(2) message_dir_def Let_def plain_name_def)
qed

lemma attachment_path_resolved_witness:
  "resolve (attachment_dir [''var'', ''gateway''] ''..'') = [''var'', ''gateway'']"
proof -
  have "names [''var'', ''gateway'']" by (simp add: names_def)
  moreover have "message_dir [''var'', ''gateway''] ''..'' = [''var'', ''gateway'']" by code_simp
  ultimately show ?thesis using attachment_path_resolved [OF _ refl, of "[''var'', ''gateway'']" "''..''"] by simp
qed

end
