(* ===== verification/Weixin_Props.thy ===== *)
theory Weixin_Props
  imports Weixin Attachments_Props
begin

text \<open>
  What the adapter of WeChat promises: a send posts a bounded number of times and gives up its token
  once; a poll hands on each message at most once and in order; what is sent fits; credentials
  that are used are valid; attachments that are kept can be read. And three ways in which a
  message or a token is lost.
\<close>

section \<open>Sending\<close>

text \<open>
  The posts of one send: \<open>n\<close> at most, first with the token and then without; a success is what the
  last post was answered.
\<close>

definition posts_ok ::
  "(nat \<Rightarrow> json \<Rightarrow> http_reply) \<Rightarrow> (nat \<Rightarrow> string) \<Rightarrow> (string \<Rightarrow> string \<Rightarrow> json) \<Rightarrow> string \<Rightarrow> nat \<Rightarrow> nat \<Rightarrow> bool \<Rightarrow>
   string + string option \<Rightarrow> string list \<Rightarrow> bool" where
  "posts_ok post uuid body ct n att tokenless r cts \<longleftrightarrow>
     length cts \<le> n \<and>
     (\<exists>k m. cts = replicate k ct @ replicate m [] \<and> (tokenless \<longrightarrow> k = 0)) \<and>
     (case r of
        Inl _ \<Rightarrow> True
      | Inr t \<Rightarrow> cts \<noteq> [] \<and>
          (\<exists>d. post (att + length cts - 1) (body (last cts) (''astra-gw-'' @ uuid (att + length cts - 1))) = Reply d \<and>
             reply_errcode d = 0 \<and> t = reply_token d))"

lemma posts_ok_again:
  assumes "posts_ok post uuid body ct n (Suc att) t r cts" "tokenless \<Longrightarrow> t"
  shows "posts_ok post uuid body ct (Suc n) att tokenless r ((if tokenless then [] else ct) # cts)"
proof -
  from assms obtain k m where km: "cts = replicate k ct @ replicate m []" "t \<longrightarrow> k = 0"
    by (auto simp: posts_ok_def)
  have "\<exists>k m. (if tokenless then [] else ct) # cts = replicate k ct @ replicate m [] \<and> (tokenless \<longrightarrow> k = 0)"
  proof (cases tokenless)
    case True
    with km assms(2) have "[] # cts = replicate 0 ct @ replicate (Suc m) []" by simp
    with True show ?thesis by metis
  next
    case False
    with km have "ct # cts = replicate (Suc k) ct @ replicate m []" by simp
    with False show ?thesis by metis
  qed
  with assms(1) show ?thesis by (auto simp: posts_ok_def split: sum.splits)
qed

lemma posts_ok_end:
  assumes "\<And>t. r = Inr t \<Longrightarrow> \<exists>d. post att (body (if tokenless then [] else ct) (''astra-gw-'' @ uuid att)) = Reply d \<and>
      reply_errcode d = 0 \<and> t = reply_token d"
  shows "posts_ok post uuid body ct (Suc n) att tokenless r [if tokenless then [] else ct]"
proof -
  have "\<exists>k m. [if tokenless then [] else ct] = replicate k ct @ replicate m [] \<and> (tokenless \<longrightarrow> k = 0)"
  proof (cases tokenless)
    case True
    then have "[if tokenless then [] else ct] = replicate 0 ct @ replicate 1 []" by simp
    with True show ?thesis by blast
  next
    case False
    then have "[if tokenless then [] else ct] = replicate 1 ct @ replicate 0 []" by simp
    with False show ?thesis by blast
  qed
  with assms show ?thesis by (auto simp: posts_ok_def split: sum.split)
qed

lemma attempts_step:
  assumes "send_attempts lower post uuid body gave_up ct (Suc n) att tokenless le = (r, cts)"
    and "c = (if tokenless then [] else ct)"
  shows "(\<exists>t e cts'. send_attempts lower post uuid body gave_up ct n (Suc att) t e = (r, cts') \<and>
      cts = c # cts' \<and> (tokenless \<longrightarrow> t)) \<or>
    (cts = [c] \<and> (\<forall>t. r = Inr t \<longrightarrow> (\<exists>d. post att (body c (''astra-gw-'' @ uuid att)) = Reply d \<and>
       reply_errcode d = 0 \<and> t = reply_token d)))"
proof -
  have again: "(case send_attempts lower post uuid body gave_up ct n (Suc att) t e of (r, cts) \<Rightarrow> (r, c # cts)) = (r, cts) \<Longrightarrow>
      (tokenless \<longrightarrow> t) \<Longrightarrow> ?thesis" for t e
    by (auto split: prod.splits)
  show ?thesis
  proof (cases "post att (body c (''astra-gw-'' @ uuid att))")
    case (HttpFailed e)
    with assms show ?thesis by (intro again [of tokenless "''HTTP error: '' @ e"]) (simp_all add: Let_def)
  next
    case (BadBody e)
    with assms show ?thesis by (intro again [of tokenless "''parse error: '' @ e"]) (simp_all add: Let_def)
  next
    case (Reply d)
    show ?thesis
    proof (cases "reply_errcode d = 0")
      case True
      with Reply assms show ?thesis by (auto simp: Let_def)
    next
      case False
      let ?e = "show_int (reply_errcode d) @ '': '' @ reply_errmsg d"
      show ?thesis
      proof (cases "classify_send_error lower (reply_errcode d) (reply_errmsg d) tokenless")
        case Fatal
        with Reply False assms show ?thesis by (auto simp: Let_def)
      next
        case DropContextToken
        with Reply False assms show ?thesis by (intro again [of True ?e]) (simp_all add: Let_def)
      next
        case RateLimitBackoff
        with Reply False assms show ?thesis by (intro again [of tokenless ?e]) (simp_all add: Let_def)
      next
        case NormalRetry
        with Reply False assms show ?thesis by (intro again [of tokenless ?e]) (simp_all add: Let_def)
      qed
    qed
  qed
qed

lemma posts_ok_attempts:
  "send_attempts lower post uuid body gave_up ct n att tokenless le = (r, cts) \<Longrightarrow>
   posts_ok post uuid body ct n att tokenless r cts"
proof (induction n arbitrary: att tokenless le r cts)
  case 0
  then show ?case by (auto simp: posts_ok_def)
next
  case (Suc n)
  from attempts_step [OF Suc.prems refl] show ?case
    using posts_ok_again [OF Suc.IH] posts_ok_end by blast
qed

text \<open>
  A text is posted at most four times: with the peer's token first, and once the server
  said the token is stale never with it again; the send succeeds only when the server accepted
  the last post, and the new token is the one of that answer.
\<close>

theorem send_posts_bounded:
  "let (r, cts) = send_text_with_retry lower post uuid chat_id txt ct;
       body = send_body chat_id (text_item txt);
       final = length cts - 1
   in length cts \<le> 4 \<and> (\<exists>k m. cts = replicate k ct @ replicate m []) \<and>
      (case r of
         Inl _ \<Rightarrow> True
       | Inr t \<Rightarrow> \<exists>d. post final (body (last cts) (''astra-gw-'' @ uuid final)) = Reply d \<and>
           reply_errcode d = 0 \<and> t = reply_token d)"
proof (cases "txt = []")
  case True
  then show ?thesis by (simp add: send_text_with_retry_def)
next
  case False
  obtain r cts where run: "send_attempts lower post uuid (send_body chat_id (text_item txt))
      ''weixin send failed after retries: '' ct (SEND_MAX_RETRIES + 1) 0 False [] = (r, cts)" by fastforce
  from posts_ok_attempts [OF run] False run show ?thesis
    by (cases r) (auto simp: send_text_with_retry_def posts_ok_def SEND_MAX_RETRIES_def Let_def)
qed

text \<open>
  What is sent of an answer always fits in the limit of the platform, and is the
  answer as rewritten when that fits.
\<close>

theorem sent_text_fits:
  "\<exists>t. text_to_send answer = Some t \<and> length t \<le> MAX_MESSAGE_LENGTH \<and>
     (length (rewrite_for_weixin answer) \<le> MAX_MESSAGE_LENGTH \<longleftrightarrow> t = rewrite_for_weixin answer)"
proof (cases "length (rewrite_for_weixin answer) \<le> MAX_MESSAGE_LENGTH")
  case True
  then show ?thesis by (simp add: text_to_send_def Let_def)
next
  case False
  obtain t where t: "truncate_with_suffix (rewrite_for_weixin answer) MAX_MESSAGE_LENGTH ELLIPSIS = Some t"
    using truncate_with_suffix_total by blast
  from truncate_with_suffix_length [OF t] have "length t \<le> MAX_MESSAGE_LENGTH"
    by (simp add: MAX_MESSAGE_LENGTH_def ELLIPSIS_def)
  with False t show ?thesis by (auto simp: text_to_send_def Let_def)
qed

section \<open>Credentials\<close>

text \<open>
  An adapter that starts has valid credentials, from its configuration or from the
  store: a token that can be sent in a header, and no account or a valid one.
\<close>

theorem credentials_valid:
  assumes "resolve_credentials header_ok stored c = (Inr (), c')"
  shows "validate_restored_token header_ok (wc_token c') \<and>
    (wc_account_id c' = [] \<or> validate_restored_id (wc_account_id c'))"
  using assms
  by (auto simp: resolve_credentials_def validate_weixin_credentials_def Let_def
    split: if_splits option.splits)

lemma credentials_valid_witness:
  "validate_restored_token (\<lambda>_. True) ''tok''"
proof -
  have "resolve_credentials (\<lambda>_. True) (Some (JObj [(''token'', JStr ''tok'')])) \<lparr>wc_token = [], wc_account_id = []\<rparr> =
      (Inr (), \<lparr>wc_token = ''tok'', wc_account_id = []\<rparr>)" by code_simp
  from credentials_valid [OF this] show ?thesis by simp
qed

section \<open>The poll\<close>

text \<open>Whether the deduplicator lets a message through, and what it remembers then.\<close>

definition fresh_update :: "(string \<Rightarrow> string) \<Rightarrow> nat \<times> json \<Rightarrow> (string \<times> nat) list \<Rightarrow> bool" where
  "fresh_update encode m seen \<longleftrightarrow>
     \<not> own_message (snd m) \<and> weixin_msg_id (snd m) \<noteq> [] \<and> has_content encode (snd m) \<and>
     fst (check_message DEFAULT_MAX_SIZE DEFAULT_TTL (fst m) (weixin_msg_id (snd m)) seen)"

definition remembered :: "nat \<times> json \<Rightarrow> (string \<times> nat) list \<Rightarrow> (string \<times> nat) list" where
  "remembered m seen =
     (if own_message (snd m) \<or> weixin_msg_id (snd m) = [] then seen
      else snd (check_message DEFAULT_MAX_SIZE DEFAULT_TTL (fst m) (weixin_msg_id (snd m)) seen))"

fun accepted_of :: "(string \<Rightarrow> string) \<Rightarrow> (nat \<times> json) list \<Rightarrow> (string \<times> nat) list \<Rightarrow> json list" where
  "accepted_of encode [] seen = []"
| "accepted_of encode (m # ms) seen =
     (if fresh_update encode m seen then [snd m] else []) @ accepted_of encode ms (remembered m seen)"

lemma save_credential_simps [simp]:
  "wx_inbox (save_credential n v a) = wx_inbox a" "wx_seen (save_credential n v a) = wx_seen a"
  "wx_open (save_credential n v a) = wx_open a" "wx_cursor (save_credential n v a) = wx_cursor a"
  "wx_tokens (save_credential n v a) = wx_tokens a"
  by (simp_all add: save_credential_def)

lemma cache_token_simps [simp]:
  "wx_inbox (cache_token msg a) = wx_inbox a" "wx_seen (cache_token msg a) = wx_seen a"
  "wx_open (cache_token msg a) = wx_open a" "wx_cursor (cache_token msg a) = wx_cursor a"
  by (simp_all add: cache_token_def Let_def split: option.split)

lemma poll_message_room:
  assumes "wx_open a" "length (wx_inbox a) < INBOX_SIZE" "poll_message encode now msg a = (go, a')"
  shows "go \<and> wx_open a' \<and> wx_seen a' = remembered (now, msg) (wx_seen a) \<and>
    wx_inbox a' = wx_inbox a @ (if fresh_update encode (now, msg) (wx_seen a) then [inbound_of encode msg] else [])"
  using assms
  by (auto simp: poll_message_def fresh_update_def remembered_def deliver_weixin_inbound_def Let_def
    split: prod.splits bool.splits if_splits)

lemma poll_messages_room:
  assumes "wx_open a" "length (wx_inbox a) + length ms \<le> INBOX_SIZE"
  shows "wx_inbox (poll_messages encode ms a) =
    wx_inbox a @ map (inbound_of encode) (accepted_of encode ms (wx_seen a))"
  using assms
proof (induction ms arbitrary: a)
  case (Cons m ms)
  obtain now msg where m: "m = (now, msg)" by (cases m)
  obtain go a' where step: "poll_message encode now msg a = (go, a')" by fastforce
  from poll_message_room [OF Cons.prems(1) _ step] Cons.prems(2)
  have a': "go" "wx_open a'" "wx_seen a' = remembered m (wx_seen a)"
    "wx_inbox a' = wx_inbox a @ (if fresh_update encode m (wx_seen a) then [inbound_of encode msg] else [])"
    by (auto simp: m)
  then have "length (wx_inbox a') + length ms \<le> INBOX_SIZE" using Cons.prems(2) by auto
  from Cons.IH [OF a'(2) this] a' show ?case by (simp add: m step)
qed simp

text \<open>Within the time to live and the size of the deduplicator an identifier is let through once.\<close>

definition ids_of :: "(string \<times> nat) list \<Rightarrow> string set" where
  "ids_of seen = fst ` set seen"

lemma check_message_fresh:
  assumes "\<forall>(i, ts) \<in> set seen. now - ts \<le> ttl" "length seen < mx"
  shows "check_message mx ttl now i seen =
    (if i \<in> ids_of seen then (False, seen) else (True, seen @ [(i, now)]))"
proof -
  have "evict_expired ttl now seen = seen"
    using assms(1) by (cases seen) (auto simp: evict_expired_def)
  then show ?thesis using assms(2) by (force simp: check_message_def Let_def ids_of_def list_ex_iff)
qed

definition settled_batch :: "nat \<Rightarrow> (nat \<times> json) list \<Rightarrow> (string \<times> nat) list \<Rightarrow> bool" where
  "settled_batch t0 ms seen \<longleftrightarrow>
     list_all (\<lambda>(now, _). t0 \<le> now \<and> now \<le> t0 + DEFAULT_TTL) ms \<and> list_all (\<lambda>(_, ts). t0 \<le> ts) seen \<and>
     length seen + length ms \<le> DEFAULT_MAX_SIZE"

lemma remembered_fresh:
  assumes "settled_batch t0 (m # ms) seen"
  shows "settled_batch t0 ms (remembered m seen)"
    and "fresh_update encode m seen \<Longrightarrow>
      weixin_msg_id (snd m) \<notin> ids_of seen \<and> weixin_msg_id (snd m) \<in> ids_of (remembered m seen)"
    and "ids_of seen \<subseteq> ids_of (remembered m seen)"
proof -
  obtain now msg where m: "m = (now, msg)" by (cases m)
  have "\<forall>(i, ts) \<in> set seen. now - ts \<le> DEFAULT_TTL"
    using assms by (fastforce simp: settled_batch_def list_all_iff m)
  moreover have "length seen < DEFAULT_MAX_SIZE" using assms by (simp add: settled_batch_def)
  ultimately have check: "check_message DEFAULT_MAX_SIZE DEFAULT_TTL now i seen =
      (if i \<in> ids_of seen then (False, seen) else (True, seen @ [(i, now)]))" for i
    by (rule check_message_fresh)
  from assms show "settled_batch t0 ms (remembered m seen)"
    by (auto simp: settled_batch_def remembered_def check m)
  show "fresh_update encode m seen \<Longrightarrow>
      weixin_msg_id (snd m) \<notin> ids_of seen \<and> weixin_msg_id (snd m) \<in> ids_of (remembered m seen)"
    by (auto simp: fresh_update_def remembered_def check m ids_of_def split: if_splits)
  show "ids_of seen \<subseteq> ids_of (remembered m seen)"
    by (auto simp: remembered_def check m ids_of_def)
qed

lemma accepted_once:
  assumes "settled_batch t0 ms seen"
  shows "distinct (map weixin_msg_id (accepted_of encode ms seen)) \<and>
    set (map weixin_msg_id (accepted_of encode ms seen)) \<inter> ids_of seen = {} \<and>
    subseq (accepted_of encode ms seen) (map snd ms)"
  using assms
proof (induction ms arbitrary: seen)
  case (Cons m ms)
  note fresh = remembered_fresh [OF Cons.prems]
  from Cons.IH [OF fresh(1)] have ih:
    "distinct (map weixin_msg_id (accepted_of encode ms (remembered m seen)))"
    "set (map weixin_msg_id (accepted_of encode ms (remembered m seen))) \<inter> ids_of (remembered m seen) = {}"
    "subseq (accepted_of encode ms (remembered m seen)) (map snd ms)" by simp_all
  show ?case
  proof (cases "fresh_update encode m seen")
    case True
    with fresh(2,3) ih show ?thesis by auto
  next
    case False
    with fresh(3) ih show ?thesis by auto
  qed
qed simp

lemma poll_message_kept:
  "poll_message encode now msg a = (go, a') \<Longrightarrow>
   wx_cursor a' = wx_cursor a \<and> wx_has_store a' = wx_has_store a \<and> prefix (wx_saved a) (wx_saved a')"
  by (auto simp: poll_message_def deliver_weixin_inbound_def cache_token_def save_credential_def Let_def
    split: prod.splits bool.splits if_splits option.splits)

lemma poll_messages_kept:
  "wx_cursor (poll_messages encode ms a) = wx_cursor a \<and> prefix (wx_saved a) (wx_saved (poll_messages encode ms a))"
proof (induction encode ms a rule: poll_messages.induct)
  case (2 encode now msg ms a)
  obtain go a' where step: "poll_message encode now msg a = (go, a')" by fastforce
  with poll_message_kept [OF step] 2 show ?case by (cases go) (auto intro: prefix_order.trans)
qed simp

text \<open>
  Property C29: what a poll hands on, when its answer reports no error and carries a cursor, the queue is
  open and has room for the whole answer, and the batch lies within the window of the deduplicator
  (its size and its time to live): the messages of the answer in their
  order, each at most once, exactly those that are not the account's own, have an
  identifier not remembered and something in them. The cursor moves to the one of the answer and
  is stored. Without room, messages are lost although the cursor is stored.
\<close>

theorem poll_hands_on_once:
  assumes "wx_open a" "length (wx_inbox a) + length (json_items (jfield d ''msgs'')) \<le> INBOX_SIZE"
    and "case as_i64 (jfield d ''ret'') of Some n \<Rightarrow> n = 0 | None \<Rightarrow> True"
    and "as_str (jfield d ''get_updates_buf'') = Some cursor"
    and "ms = enumerate_with clock (json_items (jfield d ''msgs''))" "settled_batch t0 ms (wx_seen a)"
    and "poll_updates encode clock (PollData d) a = (r, a')" "new = accepted_of encode ms (wx_seen a)"
  shows "r = Inr () \<and> wx_inbox a' = wx_inbox a @ map (inbound_of encode) new \<and>
    subseq new (json_items (jfield d ''msgs'')) \<and> distinct (map weixin_msg_id new) \<and>
    set (map weixin_msg_id new) \<inter> ids_of (wx_seen a) = {} \<and> wx_cursor a' = cursor \<and>
    (wx_has_store a \<longrightarrow> (''sync_buf'', JStr cursor) \<in> set (wx_saved a'))"
proof -
  let ?a1 = "save_credential ''sync_buf'' (JStr cursor) (a\<lparr>wx_cursor := cursor\<rparr>)"
  have run: "r = Inr ()" "a' = poll_messages encode ms ?a1"
    using assms(3,4,7) by (auto simp: poll_updates_def assms(5) Let_def split: option.splits)
  have len: "length ms = length (json_items (jfield d ''msgs''))" and snds: "map snd ms = json_items (jfield d ''msgs'')"
    by (simp_all add: assms(5) enumerate_with_def)
  have "wx_inbox a' = wx_inbox a @ map (inbound_of encode) new"
    using poll_messages_room [of ?a1 ms encode] assms(1,2) run(2) len by (simp add: assms(8))
  moreover have "wx_cursor a' = cursor" "prefix (wx_saved ?a1) (wx_saved a')"
    using poll_messages_kept [of encode ms ?a1] run(2) by simp_all
  moreover have "wx_has_store a \<longrightarrow> (''sync_buf'', JStr cursor) \<in> set (wx_saved ?a1)"
    by (simp add: save_credential_def)
  ultimately show ?thesis
    using accepted_once [OF assms(6), of encode] run(1) set_mono_prefix by (auto simp: snds assms(8))
qed

definition sample_update :: json where
  "sample_update =
     JObj [(''item_list'', JArr [JObj [(''text_item'', JObj [(''text'', JStr ''hi'')]), (''type'', JNum 1)]]),
           (''message_id'', JStr ''m1'')]"

definition sample_poll :: json where
  "sample_poll = JObj [(''get_updates_buf'', JStr ''c2''), (''msgs'', JArr [sample_update, sample_update])]"

definition sample_adapter :: weixin where
  "sample_adapter =
     \<lparr>wx_cursor = [], wx_seen = [], wx_tokens = [], wx_tickets = [], wx_inbox = [], wx_open = True,
      wx_has_store = False, wx_saved = []\<rparr>"

lemma poll_hands_on_once_witness:
  "wx_cursor (snd (poll_updates id (\<lambda>_. 7) (PollData sample_poll) sample_adapter)) = ''c2''"
proof -
  let ?ms = "enumerate_with (\<lambda>_. 7) (json_items (jfield sample_poll ''msgs''))"
  have a: "wx_open sample_adapter" "wx_inbox sample_adapter = []" "wx_seen sample_adapter = []"
    and d: "length (json_items (jfield sample_poll ''msgs'')) = 2"
      "case as_i64 (jfield sample_poll ''ret'') of Some n \<Rightarrow> n = 0 | None \<Rightarrow> True"
      "as_str (jfield sample_poll ''get_updates_buf'') = Some ''c2''"
    by code_simp+
  have "length ?ms = 2" using d(1) by (simp add: enumerate_with_def)
  moreover have "list_all (\<lambda>(now, _). 7 \<le> now \<and> now \<le> 7 + DEFAULT_TTL) ?ms"
    by (auto simp: enumerate_with_def list_all_iff dest!: set_zip_leftD)
  ultimately have s: "settled_batch 7 ?ms []" by (simp add: settled_batch_def DEFAULT_MAX_SIZE_def)
  have "length (wx_inbox sample_adapter) + length (json_items (jfield sample_poll ''msgs'')) \<le> INBOX_SIZE"
    by (simp add: a d INBOX_SIZE_def)
  from poll_hands_on_once [OF a(1) this d(2,3) refl s [folded a(3)] prod.collapse [symmetric] refl, of id]
  show ?thesis by blast
qed

section \<open>What is lost\<close>

text \<open>
  A message that finds the queue of the runner full is lost for good: the adapter has
  marked its identifier as seen, so when the server sends it again within the time to live it
  is dropped, although there is room then.
\<close>

theorem dropped_message_lost:
  assumes "fresh_update encode (now, msg) (wx_seen a)" "wx_open a" "INBOX_SIZE \<le> length (wx_inbox a)"
    and "poll_message encode now msg a = (go, a1)"
    and "wx_seen a2 = wx_seen a1" "later \<le> now + DEFAULT_TTL" "list_all (\<lambda>(_, ts). later \<le> ts + DEFAULT_TTL) (wx_seen a1)"
  shows "wx_inbox a1 = wx_inbox a \<and> wx_inbox (snd (poll_message encode later msg a2)) = wx_inbox a2"
proof -
  obtain seen where check: "check_message DEFAULT_MAX_SIZE DEFAULT_TTL now (weixin_msg_id msg) (wx_seen a) = (True, seen)"
    using assms(1) by (auto simp: fresh_update_def) (metis prod.collapse)
  with assms(1-4) have a1: "wx_inbox a1 = wx_inbox a" "wx_seen a1 = seen"
    by (auto simp: poll_message_def fresh_update_def deliver_weixin_inbound_def Let_def)
  have mem: "(weixin_msg_id msg, now) \<in> set seen"
    using check by (auto simp: check_message_def Let_def split: if_splits)
  have "evict_expired DEFAULT_TTL later seen = seen"
    using assms(7) a1(2) by (cases seen) (auto simp: evict_expired_def)
  with mem have "fst (check_message DEFAULT_MAX_SIZE DEFAULT_TTL later (weixin_msg_id msg) seen) = False"
    by (force simp: check_message_def Let_def list_ex_iff)
  then show ?thesis
    using a1 assms(5) by (auto simp: poll_message_def split: prod.splits bool.splits)
qed

definition full_adapter :: weixin where
  "full_adapter = sample_adapter\<lparr>wx_inbox := replicate INBOX_SIZE (inbound_of id JNull)\<rparr>"

lemma dropped_message_lost_witness:
  "wx_inbox (snd (poll_message id 8 sample_update (sample_adapter\<lparr>wx_seen := [(''m1'', 7)]\<rparr>))) = []"
proof -
  have m: "weixin_msg_id sample_update = ''m1''" "\<not> own_message sample_update" "has_content id sample_update"
    by code_simp+
  have f: "wx_open full_adapter" "INBOX_SIZE \<le> length (wx_inbox full_adapter)" "wx_seen full_adapter = []"
    by (simp_all add: full_adapter_def sample_adapter_def)
  have check: "check_message DEFAULT_MAX_SIZE DEFAULT_TTL 7 ''m1'' [] = (True, [(''m1'', 7)])"
    by (simp add: check_message_def evict_expired_def DEFAULT_MAX_SIZE_def)
  have w: "fresh_update id (7, sample_update) (wx_seen full_adapter)" by (simp add: fresh_update_def m f(3) check)
  have "wx_seen (snd (poll_message id 7 sample_update full_adapter)) = [(''m1'', 7)]"
    using f by (simp add: poll_message_def m check deliver_weixin_inbound_def Let_def)
  with dropped_message_lost [OF w f(1,2) prod.collapse [symmetric], of "sample_adapter\<lparr>wx_seen := [(''m1'', 7)]\<rparr>" 8]
  show ?thesis by (simp add: sample_adapter_def DEFAULT_TTL_def)
qed

text \<open>
  A reply to a group never carries a token: the token of a message from a group is kept
  under its sender, and a reply is sent to the group, under which none is looked up.
\<close>

theorem group_replies_without_token:
  assumes "weixin_room msg \<noteq> []" "weixin_room msg \<noteq> weixin_from msg"
  shows "token_for (im_chat_id (inbound_of encode msg)) (snd (poll_message encode now msg a)) =
    token_for (im_chat_id (inbound_of encode msg)) a"
proof -
  let ?chat = "im_chat_id (inbound_of encode msg)"
  have chat: "?chat = weixin_room msg" using assms(1) by (simp add: inbound_of_def Let_def)
  have "map_of (wx_tokens (cache_token msg b)) ?chat = map_of (wx_tokens b) ?chat" for b
    using assms(2) by (simp add: cache_token_def chat Let_def update_conv' split: option.split)
  then show ?thesis
    by (auto simp: poll_message_def token_for_def deliver_weixin_inbound_def Let_def
      split: prod.splits bool.splits)
qed

definition group_update :: json where
  "group_update =
     JObj [(''context_token'', JStr ''tok''), (''from_user_id'', JStr ''u''),
           (''item_list'', JArr [JObj [(''text_item'', JObj [(''text'', JStr ''hi'')]), (''type'', JNum 1)]]),
           (''message_id'', JStr ''m1''), (''room_id'', JStr ''r'')]"

lemma group_replies_without_token_witness:
  "token_for ''r'' (snd (poll_message id 7 group_update sample_adapter)) = []"
proof -
  have g: "weixin_room group_update \<noteq> []" "weixin_room group_update \<noteq> weixin_from group_update"
    and "im_chat_id (inbound_of id group_update) = ''r''" "token_for ''r'' sample_adapter = []"
    by code_simp+
  with group_replies_without_token [OF g, of id 7 sample_adapter] show ?thesis by simp
qed

text \<open>
  A send that fails for good takes away the token of the peer as it is then, also when it
  came with a message after the send had read the old one.
\<close>

theorem fresh_token_evicted:
  assumes "as_str (jfield msg ''context_token'') = Some ct" "ct \<noteq> []"
    and "starts_with e FATAL_SEND_ERROR_PREFIX"
  shows "token_for (weixin_from msg) (cache_token msg a) = ct \<and>
    token_for (weixin_from msg) (snd (send_done (weixin_from msg) (Inl e) (cache_token msg a))) = []"
  using assms
  by (simp add: cache_token_def send_done_def token_for_def Let_def update_conv' delete_conv')

lemma fresh_token_evicted_witness:
  "token_for ''u'' (snd (send_done ''u'' (Inl (FATAL_SEND_ERROR_PREFIX @ ''-14: unknown''))
     (cache_token group_update sample_adapter))) = []"
proof -
  have t: "as_str (jfield group_update ''context_token'') = Some ''tok''"
    "starts_with (FATAL_SEND_ERROR_PREFIX @ ''-14: unknown'') FATAL_SEND_ERROR_PREFIX"
    and "weixin_from group_update = ''u''"
    by code_simp+
  with fresh_token_evicted [OF t(1) _ t(2), of sample_adapter] show ?thesis by simp
qed

section \<open>Attachments\<close>

definition written_in :: "download_env \<Rightarrow> string \<Rightarrow> inbound_attachment \<Rightarrow> bool" where
  "written_in env dir a \<longleftrightarrow>
     (\<exists>name. plain_name name \<and> ia_local_path a = Some (path_join dir name) \<and> de_write env (path_join dir name))"

lemma download_one_file:
  assumes "download_one env dir idx a = (a', f, go)"
  shows "ia_local_path a' = ia_local_path a \<or> written_in env dir a'"
  using assms plain_filename
  by (auto simp: download_one_def written_in_def Let_def split: if_splits option.splits fetched.splits)

lemma download_from_files:
  assumes "download_from env dir idx as fs = (as', fs')"
  shows "length as' = length as \<and>
    (\<forall>a' \<in> set as'. ia_local_path a' \<in> ia_local_path ` set as \<or> written_in env dir a')"
  using assms
proof (induction as arbitrary: idx fs as' fs')
  case (Cons a as)
  obtain a1 f go where one: "download_one env dir idx a = (a1, f, go)" by (metis prod_cases3)
  show ?case
  proof (cases go)
    case True
    obtain as1 fs1 where rest: "download_from env dir (Suc idx) as (fs @ f) = (as1, fs1)" by fastforce
    with Cons.prems one True have "as' = a1 # as1" by simp
    with Cons.IH [OF rest] download_one_file [OF one] show ?thesis by auto
  next
    case False
    with Cons.prems one have "as' = a1 # as" by simp
    with download_one_file [OF one] show ?thesis by auto
  qed
qed simp

text \<open>
  After the attachments of a message were prepared each that is left can be read: it
  has a local path, the one it came with or that of a file written into the directory of the
  message. The user is told exactly when some were dropped, and the directory is removed
  exactly when none is left.
\<close>

theorem prepared_attachments_readable:
  "case prepare_inbound_attachments env run_dir msg_id as of (kept, reply, removed) \<Rightarrow>
     list_all (\<lambda>a. ia_local_path a \<noteq> None \<and>
       (ia_local_path a \<in> ia_local_path ` set as \<or> written_in env (dir_path run_dir msg_id) a)) kept \<and>
     length kept \<le> length as \<and> (reply = None \<longleftrightarrow> length kept = length as) \<and>
     (removed \<longleftrightarrow> as \<noteq> [] \<and> kept = [])"
proof (cases "as = []")
  case True
  then show ?thesis by (simp add: prepare_inbound_attachments_def)
next
  case False
  obtain as1 fs where run: "download_weixin_attachments env run_dir msg_id as = (as1, fs)" by fastforce
  then have as1: "length as1 = length as" "\<forall>a \<in> set as1. ia_local_path a \<in> ia_local_path ` set as \<or>
      written_in env (dir_path run_dir msg_id) a"
    using download_from_files [of env "dir_path run_dir msg_id" 0 as "[]" as1 fs]
    by (auto simp: download_weixin_attachments_def split: if_splits)
  let ?kept = "filter (\<lambda>a. ia_local_path a \<noteq> None) as1"
  have "length ?kept \<le> length as1" by (rule length_filter_le)
  with as1 False run show ?thesis
    by (auto simp: prepare_inbound_attachments_def prepare_response_def Let_def list_all_iff)
qed

end
