(* ===== verification/Codex_Sessions.thy ===== *)
theory Codex_Sessions
  imports Store_Sqlite Json
begin

text \<open>
  The catalog of sessions that Codex itself keeps (\<open>codex_sessions.rs\<close>): its thread table, read
  only, page by page or by prefix of an id, the file with the names of the threads, and the last
  message of the user in a rollout file, which is read backwards in chunks.

  Parameters: \<open>de\<close> is \<open>serde_json\<close>'s reader, \<open>read_file\<close> gives the contents of a file. A file is
  taken not to change while it is read. The columns of \<open>threads\<close> hold values of their declared
  types, and the milliseconds of a thread fit in 64 bits.
\<close>

definition PAGE_SIZE :: nat where
  "PAGE_SIZE = 10"

record codex_session_summary =
  cs_id :: string
  cs_name :: "string option"
  cs_title :: string
  cs_last_user_message :: string
  cs_cwd :: string
  cs_model :: "string option"
  cs_reasoning_effort :: "string option"
  cs_git_branch :: "string option"
  cs_source :: string
  cs_thread_source :: "string option"
  cs_updated_at_ms :: int
  cs_archived :: bool

record codex_session_page =
  cp_items :: "codex_session_summary list"
  cp_page :: nat
  cp_total :: nat
  cp_total_pages :: nat

section \<open>The state database\<close>

definition newest_state_db :: "string list \<Rightarrow> string option" where
  "newest_state_db names =
     (let candidates = sort_key fst (List.map_filter (\<lambda>n.
        map_option (\<lambda>v. (v, n))
          (Option.bind (strip_prefix ''state_'' n) (\<lambda>r.
           Option.bind (strip_suffix ''.sqlite'' r) parse_u32))) names)
      in if candidates = [] then None else Some (snd (last candidates)))"

record thread_row =
  th_id :: string
  th_rollout_path :: "string option"
  th_name :: "string option"
  th_title :: "string option"
  th_first_user_message :: "string option"
  th_cwd :: "string option"
  th_model :: "string option"
  th_reasoning_effort :: "string option"
  th_git_branch :: "string option"
  th_source :: "string option"
  th_thread_source :: "string option"
  th_recency_at_ms :: "int option"
  th_updated_at_ms :: "int option"
  th_updated_at :: "int option"
  th_archived :: "int option"

text \<open>SQL's \<open>NULLIF\<close> and \<open>COALESCE\<close>.\<close>

definition nullif :: "'a option \<Rightarrow> 'a \<Rightarrow> 'a option" where
  "nullif x v = (if x = Some v then None else x)"

definition coalesce :: "'a option list \<Rightarrow> 'a \<Rightarrow> 'a" where
  "coalesce xs d = (case first_some id xs of Some v \<Rightarrow> v | None \<Rightarrow> d)"

definition NO_TITLE :: string where
  "NO_TITLE = [CHR 0x28, CHR 0xE6, CHR 0x97, CHR 0xA0, CHR 0xE6, CHR 0xA0, CHR 0x87, CHR 0xE9, CHR 0xA2, CHR 0x98,
     CHR 0x29]"

definition display_title :: "thread_row \<Rightarrow> string" where
  "display_title r =
     coalesce [nullif (th_title r) [], nullif (th_name r) [], nullif (th_first_user_message r) []] NO_TITLE"

definition effective_updated_at_ms :: "thread_row \<Rightarrow> int" where
  "effective_updated_at_ms r =
     coalesce [nullif (th_recency_at_ms r) 0, nullif (th_updated_at_ms r) 0,
               map_option (\<lambda>s. s * 1000) (th_updated_at r)] 0"

definition top_level :: "thread_row \<Rightarrow> bool" where
  "top_level r \<longleftrightarrow> coalesce [th_thread_source r] [] \<noteq> ''subagent''"

definition by_recency :: "thread_row list \<Rightarrow> thread_row list" where
  "by_recency rows = order_desc (\<lambda>r. (effective_updated_at_ms r, th_id r)) rows"

section \<open>Rollout files\<close>

definition user_message_from_rollout_line :: "(string \<Rightarrow> json option) \<Rightarrow> string \<Rightarrow> string option" where
  "user_message_from_rollout_line de line =
     Option.bind (de line) (\<lambda>value.
     Option.bind (jget value ''payload'') (\<lambda>payload.
       if Option.bind (jget value ''type'') as_str = Some ''event_msg''
          \<and> Option.bind (jget payload ''type'') as_str = Some ''user_message''
       then Option.bind (jget payload ''message'') as_str
       else None))"

definition CHUNK_SIZE :: nat where
  "CHUNK_SIZE = 64 * 1024"

text \<open>The loop: \<open>position\<close> is where the part not yet read ends, \<open>pending\<close> the incomplete line after it.\<close>

function read_back :: "(string \<Rightarrow> string option) \<Rightarrow> string \<Rightarrow> nat \<Rightarrow> string \<Rightarrow> string option" where
  "read_back msg f position pending =
     (if position = 0 then msg pending
      else
        let size = min position CHUNK_SIZE;
            position' = position - size;
            data = take size (drop position' f) @ pending
        in case find_sub [CHR 0x0A] data of
             None \<Rightarrow> read_back msg f position' data
           | Some i \<Rightarrow>
               (case first_some msg (rev (split_char (CHR 0x0A) (drop (i + 1) data))) of
                  Some m \<Rightarrow> Some m
                | None \<Rightarrow> read_back msg f position' (take i data)))"
  by pat_completeness auto
termination
  by (relation "measure (\<lambda>(msg, f, position, pending). position)") (auto simp: CHUNK_SIZE_def)

declare read_back.simps [simp del]

definition read_last_user_message ::
  "(string \<Rightarrow> json option) \<Rightarrow> (string \<Rightarrow> string option) \<Rightarrow> string \<Rightarrow> string option" where
  "read_last_user_message de read_file path =
     Option.bind (read_file path) (\<lambda>f. read_back (user_message_from_rollout_line de) f (length f) [])"

definition load_session_index :: "(string \<Rightarrow> json option) \<Rightarrow> string option \<Rightarrow> string \<Rightarrow> string option" where
  "load_session_index de index =
     (case index of
        None \<Rightarrow> (\<lambda>_. None)
      | Some f \<Rightarrow> fold (\<lambda>line names.
          (case Option.bind (de line) (\<lambda>v.
             Option.bind (Option.bind (jget v ''id'') as_str) (\<lambda>i.
             Option.bind (Option.bind (jget v ''thread_name'') as_str) (\<lambda>n.
             if trim n \<noteq> [] then Some (i, n) else None))) of
             Some (i, n) \<Rightarrow> names(i \<mapsto> n)
           | None \<Rightarrow> names)) (lines_of f) (\<lambda>_. None))"

section \<open>Queries\<close>

datatype catalog_error = CannotOpen string | CannotCount string | CannotList string | CannotFind string
  | CannotReadDir string

type_synonym 'a catalog_op = "(thread_row list, catalog_error, 'a) op"

definition open_read_only :: "unit catalog_op" where
  "open_read_only = map_err CannotOpen (stmt (query (\<lambda>e rows. ())))"

definition summary_of ::
  "(string \<Rightarrow> json option) \<Rightarrow> (string \<Rightarrow> string option) \<Rightarrow> (string \<Rightarrow> string option) \<Rightarrow> thread_row \<Rightarrow>
   codex_session_summary" where
  "summary_of de read_file names r =
     \<lparr>cs_id = th_id r,
      cs_name = or_else (names (th_id r)) (nullif (th_name r) []),
      cs_title = display_title r,
      cs_last_user_message =
        (case Option.bind (nullif (th_rollout_path r) []) (read_last_user_message de read_file) of
           Some m \<Rightarrow> m | None \<Rightarrow> []),
      cs_cwd = coalesce [th_cwd r] [],
      cs_model = nullif (th_model r) [],
      cs_reasoning_effort = nullif (th_reasoning_effort r) [],
      cs_git_branch = nullif (th_git_branch r) [],
      cs_source = coalesce [th_source r] [],
      cs_thread_source = nullif (th_thread_source r) [],
      cs_updated_at_ms = effective_updated_at_ms r,
      cs_archived = (coalesce [th_archived r] 0 \<noteq> 0)\<rparr>"

definition pages_for :: "nat \<Rightarrow> nat" where
  "pages_for n = (if n = 0 then 1 else (n + PAGE_SIZE - 1) div PAGE_SIZE)"

definition list_sessions_from ::
  "(string \<Rightarrow> json option) \<Rightarrow> (string \<Rightarrow> string option) \<Rightarrow> string option \<Rightarrow> nat \<Rightarrow>
   codex_session_page catalog_op" where
  "list_sessions_from de read_file index requested_page =
     and_then open_read_only (\<lambda>_.
     and_then (map_err CannotCount (stmt (query (\<lambda>e rows. length (filter top_level rows))))) (\<lambda>count.
     let total_pages = pages_for count;
         page = min (max requested_page 1) total_pages;
         offset = (page - 1) * PAGE_SIZE
     in and_then (map_err CannotList (stmt (query (\<lambda>e rows.
            take PAGE_SIZE (drop offset (by_recency (filter top_level rows))))))) (\<lambda>rows.
        ret \<lparr>cp_items = map (summary_of de read_file (load_session_index de index)) rows,
             cp_page = page, cp_total = count, cp_total_pages = total_pages\<rparr>)))"

text \<open>SQLite's \<open>LIKE \<dots> ESCAPE '\'\<close>, which folds the case of ASCII letters.\<close>

function like :: "string \<Rightarrow> string \<Rightarrow> bool" where
  "like [] s \<longleftrightarrow> s = []"
| "like (c # p) s \<longleftrightarrow>
     (if c = CHR 0x5C then
        (case (p, s) of
           (d # q, x # t) \<Rightarrow> to_ascii_lowercase [d] = to_ascii_lowercase [x] \<and> like q t
         | _ \<Rightarrow> False)
      else if c = CHR ''%'' then like p s \<or> (case s of [] \<Rightarrow> False | x # t \<Rightarrow> like (c # p) t)
      else if c = CHR ''_'' then (case s of [] \<Rightarrow> False | x # t \<Rightarrow> like p (dropWhile is_cont t))
      else (case s of [] \<Rightarrow> False | x # t \<Rightarrow> to_ascii_lowercase [c] = to_ascii_lowercase [x] \<and> like p t))"
  by pat_completeness auto
termination
  by (relation "measure (\<lambda>(p, s). length p + length s)")
     (auto simp: less_Suc_eq_le length_dropWhile_le intro: le_trans [OF length_dropWhile_le])

declare like.simps(2) [simp del]

definition like_escape :: "string \<Rightarrow> string" where
  "like_escape s =
     replace ''_'' [CHR 0x5C, CHR ''_''] (replace ''%'' [CHR 0x5C, CHR ''%'']
       (replace [CHR 0x5C] [CHR 0x5C, CHR 0x5C] s))"

definition catalog_find_by_prefix :: "string \<Rightarrow> string list catalog_op" where
  "catalog_find_by_prefix pre =
     and_then open_read_only (\<lambda>_.
       map_err CannotFind (stmt (query (\<lambda>e rows. map th_id (take 2
         (order_desc effective_updated_at_ms
            (filter (\<lambda>r. like (like_escape pre @ ''%'') (th_id r)) rows)))))))"

definition session_cwd_from :: "string \<Rightarrow> string option catalog_op" where
  "session_cwd_from session_id =
     and_then open_read_only (\<lambda>_.
       map_err CannotReadDir (stmt (query (\<lambda>e rows.
         Option.bind (find (\<lambda>r. th_id r = session_id) rows) (\<lambda>r. nullif (th_cwd r) [])))))"

section \<open>Reading backwards\<close>

lemma find_newline: "find_sub [c] s = (if c \<in> set s then Some (length (takeWhile (\<lambda>x. x \<noteq> c) s)) else None)"
  by (induction s) (auto simp: find_sub.simps)

lemma split_char_absent: "c \<notin> set s \<Longrightarrow> split_char c s = [s]"
  by (induction s) auto

lemma split_char_not_Nil [simp]: "split_char c s \<noteq> []"
  by (cases s) (auto split: list.splits)

lemma split_char_append:
  "split_char c (s @ c # t) = split_char c s @ split_char c t"
  by (induction s) (auto split: list.splits simp: append_eq_Cons_conv)

lemma first_some_append: "first_some f (xs @ ys) = or_else (first_some f xs) (first_some f ys)"
  by (induction xs) (auto simp: or_else_def split: option.splits)

lemma read_back_correct:
  assumes "CHR 0x0A \<notin> set pending" and "position \<le> length f"
  shows "read_back msg f position pending =
    first_some msg (rev (split_char (CHR 0x0A) (take position f @ pending)))"
  using assms
proof (induction msg f position pending rule: read_back.induct)
  case (1 msg f position pending)
  show ?case
  proof (cases "position = 0")
    case True
    with "1.prems" show ?thesis
      by (simp add: read_back.simps [of msg f] split_char_absent split: option.split)
  next
    case False
    define size where "size = min position CHUNK_SIZE"
    define start where "start = position - size"
    define data where "data = take size (drop start f) @ pending"
    have le: "start \<le> length f" using "1.prems" by (simp add: start_def)
    have "size + start = position" by (simp add: size_def start_def)
    then have all: "take position f @ pending = take start f @ data"
      by (metis append.assoc data_def add.commute take_add)
    note IH = "1.IH" [OF False size_def start_def [unfolded size_def, folded size_def] data_def]
    show ?thesis
    proof (cases "CHR 0x0A \<in> set data")
      case False
      then have "find_sub [CHR 0x0A] data = None" by (simp add: find_newline)
      with IH(1) [OF this False le] \<open>position \<noteq> 0\<close> show ?thesis
        by (subst read_back.simps) (simp add: Let_def all flip: size_def start_def data_def)
    next
      case True
      then obtain a b where ab: "data = a @ CHR 0x0A # b" "CHR 0x0A \<notin> set a" by (meson split_list_first)
      from ab(2) have "takeWhile (\<lambda>x. x \<noteq> CHR 0x0A) (a @ CHR 0x0A # b) = a"
        by (subst takeWhile_append2) auto
      then have i: "find_sub [CHR 0x0A] data = Some (length a)"
        by (simp add: find_newline ab(1))
      have lines: "take position f @ pending = (take start f @ a) @ CHR 0x0A # b"
        by (simp add: all ab)
      have "read_back msg f position pending =
        or_else (first_some msg (rev (split_char (CHR 0x0A) b))) (read_back msg f start a)"
        using \<open>position \<noteq> 0\<close> i by (subst read_back.simps)
          (simp add: Let_def ab or_else_def flip: size_def start_def data_def split: option.split)
      moreover have "read_back msg f start a =
          first_some msg (rev (split_char (CHR 0x0A) (take start f @ a)))"
        if "first_some msg (rev (split_char (CHR 0x0A) b)) = None"
        using IH(2) [OF i] that ab le by simp
      ultimately show ?thesis
        unfolding lines split_char_append rev_append first_some_append
        by (cases "first_some msg (rev (split_char (CHR 0x0A) b))") (simp_all add: or_else_def)
    qed
  qed
qed

end
