(* ===== verification/Codex_Sessions_Props.thy ===== *)
theory Codex_Sessions_Props
  imports Codex_Sessions "HOL-Library.Multiset"
begin

text \<open>
  The catalog of Codex's sessions: reading a rollout file backwards in chunks finds the same
  message as looking at all its lines; the pages of the list are a partition of the threads in
  order of recency; a prefix given to \<open>/session switch\<close> matches literally up to the case of ASCII
  letters, whatever characters it holds.
\<close>

text \<open>Property C19: the backwards reader of a rollout file returns exactly the last line of the file
  that is a message of the user, for every file, wherever its chunks of 64 KiB cut the lines.\<close>

theorem last_user_message_found:
  "read_last_user_message de read_file path =
    Option.bind (read_file path) (\<lambda>f.
      first_some (user_message_from_rollout_line de) (rev (split_char (CHR 0x0A) f)))"
proof (cases "read_file path")
  case None
  then show ?thesis by (simp add: read_last_user_message_def)
next
  case (Some f)
  then show ?thesis
    using read_back_correct [of "[]" "length f" f "user_message_from_rollout_line de"]
    by (simp add: read_last_user_message_def)
qed

section \<open>Pages\<close>

lemma concat_pages:
  "concat (map (\<lambda>i. take k (drop (i * k) xs)) [0..<n]) = take (n * k) xs"
proof (induction n)
  case (Suc n)
  have "take (Suc n * k) xs = take (n * k) xs @ take k (drop (n * k) xs)"
    by (metis add.commute mult_Suc take_add)
  with Suc show ?case by simp
qed simp

lemma pages_cover: "n \<le> pages_for n * PAGE_SIZE"
  unfolding pages_for_def PAGE_SIZE_def by auto

lemma list_sessions_quiet:
  assumes "quiet c" and "1 \<le> p" and "p \<le> pages_for (length (filter top_level (tables c)))"
  shows "\<exists>c'. list_sessions_from de read_file index p c =
    (Inr \<lparr>cp_items = map (summary_of de read_file (load_session_index de index))
            (take PAGE_SIZE (drop ((p - 1) * PAGE_SIZE) (by_recency (filter top_level (tables c))))),
          cp_page = p, cp_total = length (filter top_level (tables c)),
          cp_total_pages = pages_for (length (filter top_level (tables c)))\<rparr>, c')"
  using assms
  by (auto simp: list_sessions_from_def open_read_only_def and_then_def map_err_def stmt_quiet query_def
      ret_def Let_def)

lemma pages_in_order:
  assumes "quiet c"
  defines "rows \<equiv> by_recency (filter top_level (tables c))"
  shows "concat (map (\<lambda>p. case fst (list_sessions_from de read_file index p c) of
      Inr page \<Rightarrow> map cs_id (cp_items page) | Inl e \<Rightarrow> []) [1..<pages_for (length rows) + 1]) = map th_id rows"
proof -
  let ?shown = "\<lambda>p. case fst (list_sessions_from de read_file index p c) of
      Inr page \<Rightarrow> map cs_id (cp_items page) | Inl e \<Rightarrow> []"
  let ?n = "length (filter top_level (tables c))"
  have len: "length rows = ?n" by (simp add: rows_def by_recency_def order_desc_def)
  have page: "?shown (Suc i) = take PAGE_SIZE (drop (i * PAGE_SIZE) (map th_id rows))"
    if "i < pages_for ?n" for i
    using that list_sessions_quiet [OF assms(1), of "Suc i" de read_file index]
    by (auto simp: rows_def summary_of_def take_map drop_map)
  have "concat (map ?shown [1..<pages_for (length rows) + 1]) =
      concat (map (\<lambda>i. ?shown (Suc i)) [0..<pages_for ?n])"
    by (simp add: len map_Suc_upt [symmetric] o_def del: upt_Suc)
  also have "\<dots> = concat (map (\<lambda>i. take PAGE_SIZE (drop (i * PAGE_SIZE) (map th_id rows))) [0..<pages_for ?n])"
    by (intro arg_cong [where f = concat] map_cong) (auto simp: page)
  also have "\<dots> = map th_id rows"
    using pages_cover [of ?n] by (simp add: concat_pages len)
  finally show ?thesis .
qed

lemma by_recency_sorted:
  "sorted_wrt (\<lambda>r r'. effective_updated_at_ms r' \<le> effective_updated_at_ms r) (by_recency rows)"
proof -
  have "sorted_wrt (\<lambda>r r'. (effective_updated_at_ms r', th_id r') \<le> (effective_updated_at_ms r, th_id r))
      (by_recency rows)"
    using sorted_order_desc [of "\<lambda>r. (effective_updated_at_ms r, th_id r)" rows]
    by (simp add: by_recency_def rev_map sorted_wrt_map sorted_wrt_rev flip: rev_map)
  then show ?thesis by (rule sorted_wrt_mono_rel [rotated]) (auto simp: less_eq_prod_def)
qed

lemma page_bounded:
  "fst (list_sessions_from de read_file index p c) = Inr page \<Longrightarrow> length (cp_items page) \<le> PAGE_SIZE"
  by (auto simp: list_sessions_from_def and_then_def map_err_def ret_def Let_def open_read_only_def
      stmt_def query_def split: prod.splits sum.splits fate.splits)

text \<open>Property C20: the pages of the session list, one after the other, hold every top-level thread
  exactly once, the most recent first, and nothing else; no page has more than ten.\<close>

theorem session_pages_partition:
  assumes "quiet c" and "rows = by_recency (filter top_level (tables c))"
  shows "concat (map (\<lambda>p. case fst (list_sessions_from de read_file index p c) of
             Inr page \<Rightarrow> map cs_id (cp_items page) | Inl e \<Rightarrow> []) [1..<pages_for (length rows) + 1]) =
           map th_id rows \<and>
    mset rows = filter_mset top_level (mset (tables c)) \<and>
    sorted_wrt (\<lambda>r r'. effective_updated_at_ms r' \<le> effective_updated_at_ms r) rows \<and>
    (\<forall>p page. fst (list_sessions_from de read_file index p c) = Inr page \<longrightarrow>
       length (cp_items page) \<le> PAGE_SIZE)"
  unfolding assms(2)
  using pages_in_order [OF assms(1)] by_recency_sorted page_bounded
  by (auto simp: by_recency_def order_desc_def mset_filter)

definition sample_thread :: "string \<Rightarrow> int \<Rightarrow> string option \<Rightarrow> thread_row" where
  "sample_thread i t source =
     \<lparr>th_id = i, th_rollout_path = None, th_name = None, th_title = Some ''t'',
      th_first_user_message = None, th_cwd = None, th_model = None, th_reasoning_effort = None,
      th_git_branch = None, th_source = None, th_thread_source = source,
      th_recency_at_ms = Some t, th_updated_at_ms = Some 0, th_updated_at = Some 0,
      th_archived = Some 0\<rparr>"

theorem session_pages_partition_witness:
  "concat (map (\<lambda>p. case fst (list_sessions_from (\<lambda>_. None) (\<lambda>_. None) None p
       (calm [sample_thread ''a'' 1 None, sample_thread ''b'' 2 None])) of
       Inr page \<Rightarrow> map cs_id (cp_items page) | Inl e \<Rightarrow> []) [1..<2]) = [''b'', ''a'']"
proof -
  let ?c = "calm [sample_thread ''a'' 1 None, sample_thread ''b'' 2 None]"
  have rows: "[sample_thread ''b'' 2 None, sample_thread ''a'' 1 None] =
      by_recency (filter top_level (tables ?c))"
    by (simp add: calm_def sample_thread_def by_recency_def order_desc_def top_level_def coalesce_def
        effective_updated_at_ms_def nullif_def)
  show ?thesis
    using session_pages_partition [OF calm_simps(2) rows, of "\<lambda>_. None" "\<lambda>_. None" None, THEN conjunct1]
    by (simp add: pages_for_def PAGE_SIZE_def numeral_2_eq_2)
       (simp add: sample_thread_def)
qed

section \<open>Prefixes\<close>

lemma replace_char: "replace [c] by s = concat (map (\<lambda>x. if x = c then by else [x]) s)"
proof (induction s)
  case Nil
  then show ?case by (subst replace.simps) simp
next
  case (Cons x s)
  then show ?case by (subst replace.simps) auto
qed

lemma concat_map_concat: "concat (map f (concat xss)) = concat (map (\<lambda>xs. concat (map f xs)) xss)"
  by (induction xss) auto

lemma like_escape_eq:
  "like_escape s = concat (map (\<lambda>x. if x \<in> {CHR 0x5C, CHR ''%'', CHR ''_''} then [CHR 0x5C, x] else [x]) s)"
  by (auto simp: like_escape_def replace_char concat_map_concat o_def intro!: arg_cong [where f = concat])

lemma like_percent: "like ''%'' s"
  by (induction s) (simp_all add: like.simps)

lemma like_literal:
  "like (like_escape p @ ''%'') s \<longleftrightarrow> prefix (to_ascii_lowercase p) (to_ascii_lowercase s)"
proof (induction p arbitrary: s)
  case Nil
  then show ?case by (simp add: like_escape_eq like_percent to_ascii_lowercase_def)
next
  case (Cons c p)
  have esc: "like_escape (c # p) =
      (if c \<in> {CHR 0x5C, CHR ''%'', CHR ''_''} then [CHR 0x5C, c] else [c]) @ like_escape p"
    by (simp add: like_escape_eq)
  show ?case
    using Cons by (cases s) (auto simp: esc like.simps(2) to_ascii_lowercase_def)
qed

text \<open>A selector matches the ids that begin with it, up to the case of ASCII letters,
  also when it holds the wildcards or the escape character of SQL; two results mean that it is
  ambiguous, one that no other thread has it.\<close>

lemma catalog_prefix_literal:
  assumes "quiet c"
    and "hits = filter (\<lambda>r. prefix (to_ascii_lowercase pre) (to_ascii_lowercase (th_id r))) (tables c)"
  shows "fst (catalog_find_by_prefix pre c) = Inr (map th_id (take 2 (order_desc effective_updated_at_ms hits)))"
  using assms
  by (simp add: catalog_find_by_prefix_def open_read_only_def and_then_def map_err_def stmt_quiet
      query_def like_literal)

text \<open>The threads of subagents, which the list leaves out, take part in the search: the prefix of a
  listed thread is ambiguous when a hidden one shares it.\<close>

lemma hidden_thread_is_found:
  "fst (catalog_find_by_prefix ''aa''
     (calm [sample_thread ''aab'' 2 None, sample_thread ''aac'' 1 (Some ''subagent'')])) = Inr [''aab'', ''aac'']
   \<and> by_recency (filter top_level [sample_thread ''aab'' 2 None, sample_thread ''aac'' 1 (Some ''subagent'')])
     = [sample_thread ''aab'' 2 None]"
  by (simp add: catalog_prefix_literal [OF calm_simps(2) refl])
     (simp add: sample_thread_def order_desc_def effective_updated_at_ms_def coalesce_def nullif_def
       by_recency_def top_level_def to_ascii_lowercase_def byte_def)

end
