(* ===== verification/Models.thy ===== *)
theory Models
  imports Cli_Stream
begin

text \<open>
  The model lists behind \<open>/model\<close> (\<open>commands.rs\<close>): the catalogs of astra, Claude and Codex as
  entries, the conversation with an app server that lists its models page by page, the cache of the
  lists, and the reading of what the user typed as one of the entries.

  Parameters: \<open>de\<close> is \<open>serde_json\<close>'s reader, \<open>tenths\<close> renders a quotient with one decimal, \<open>ask\<close>
  is one probe of the Claude CLI. An object that repeats a name and the array form of a struct,
  which \<open>serde\<close> treats in its own way, are not modelled. \<open>from_str\<close> and \<open>from_slice\<close> of a struct
  read a value and then its fields.
\<close>

section \<open>Entries\<close>

record model_entry =
  me_label :: string
  me_desc :: string
  me_full_id :: "string option"
  me_resolved_id :: "string option"
  me_aliases :: "string list"
  me_reasoning_efforts :: "string list"
  me_default_effort :: "string option"

definition DEFAULT_LABEL :: string where
  "DEFAULT_LABEL = [CHR 0xE9, CHR 0xBB, CHR 0x98, CHR 0xE8, CHR 0xAE, CHR 0xA4]"

definition default_model_entry :: model_entry where
  "default_model_entry =
     \<lparr>me_label = DEFAULT_LABEL, me_desc = [CHR 0xE8, CHR 0xB7, CHR 0x9F, CHR 0xE9, CHR 0x9A, CHR 0x8F, CHR 0xE9, CHR 0x85, CHR 0x8D, CHR 0xE7,
     CHR 0xBD, CHR 0xAE], me_full_id = None,
      me_resolved_id = None, me_aliases = [], me_reasoning_efforts = [], me_default_effort = None\<rparr>"

text \<open>An entry as every catalog makes it, but for the efforts.\<close>

definition plain_entry :: "string \<Rightarrow> string \<Rightarrow> string \<Rightarrow> string list \<Rightarrow> model_entry" where
  "plain_entry label desc model aliases =
     \<lparr>me_label = label, me_desc = desc, me_full_id = Some model, me_resolved_id = None,
      me_aliases = aliases, me_reasoning_efforts = [], me_default_effort = None\<rparr>"

definition matches_current :: "model_entry \<Rightarrow> string option \<Rightarrow> bool" where
  "matches_current e current \<longleftrightarrow> me_full_id e = current"

definition supports_effort :: "model_entry \<Rightarrow> string \<Rightarrow> bool" where
  "supports_effort e effort \<longleftrightarrow> list_ex (\<lambda>c. eq_ignore_ascii_case c effort) (me_reasoning_efforts e)"

definition push_unique_model_entry :: "model_entry list \<Rightarrow> model_entry \<Rightarrow> model_entry list" where
  "push_unique_model_entry entries e =
     (case me_full_id e of
        Some i \<Rightarrow> if list_ex (\<lambda>x. me_full_id x = Some i) entries then entries else entries @ [e]
      | None \<Rightarrow> entries @ [e])"

definition dedup_sorted :: "string list \<Rightarrow> string list" where
  "dedup_sorted xs = remdups_adj (sort xs)"

definition codex_model_aliases :: "string \<Rightarrow> string list" where
  "codex_model_aliases slug =
     dedup_sorted ([filter (\<lambda>c. c \<noteq> CHR ''-'' \<and> c \<noteq> CHR ''.'') slug] @
       (if slug = ''gpt-5.5'' then [''gpt55''] else if slug = ''gpt-5.4'' then [''gpt54''] else []))"

definition astra_model_aliases :: "string \<Rightarrow> string list" where
  "astra_model_aliases name =
     dedup_sorted (
       (let p = hd (split_char (CHR ''-'') name) in if p \<noteq> name \<and> p \<noteq> [] then [p] else []) @
       (if starts_with name ''deepseek'' then [''ds''] else []) @
       (if starts_with name ''qwen'' then [''qwen''] else []))"

definition format_context_window :: "(nat \<Rightarrow> nat \<Rightarrow> string) \<Rightarrow> nat \<Rightarrow> string" where
  "format_context_window tenths n =
     (if 1000000 \<le> n then tenths n 1000000 @ ''M''
      else if 1000 \<le> n then show_nat (n div 1000) @ ''k''
      else show_nat n)"

section \<open>Fields of a struct\<close>

text \<open>A field of type \<open>String\<close>, of type \<open>Option\<close>, and one that must be there.\<close>

definition string_field :: "json \<Rightarrow> string \<Rightarrow> string option" where
  "string_field v k = Option.bind (jget v k) as_str"

definition optional :: "(json \<Rightarrow> 'a option) \<Rightarrow> json \<Rightarrow> string \<Rightarrow> 'a option option" where
  "optional f v k =
     (case jget v k of None \<Rightarrow> Some None | Some JNull \<Rightarrow> Some None | Some x \<Rightarrow> map_option Some (f x))"

definition bool_field_or :: "bool \<Rightarrow> json \<Rightarrow> string \<Rightarrow> bool option" where
  "bool_field_or d v k = (case jget v k of None \<Rightarrow> Some d | Some x \<Rightarrow> as_bool x)"

definition list_field :: "(json \<Rightarrow> 'a option) \<Rightarrow> json \<Rightarrow> string \<Rightarrow> 'a list option" where
  "list_field f v k = Option.bind (Option.bind (jget v k) as_array) (\<lambda>vs. all_some (map f vs))"

datatype catalog_failure = Malformed | NoModels | ProbeFailed string | PagingFailed string

section \<open>The catalog of astra\<close>

record astra_model =
  am_name :: string
  am_provider :: "string option"
  am_description :: "string option"
  am_is_active :: bool
  am_context_window :: "nat option"

definition read_astra_model :: "json \<Rightarrow> astra_model option" where
  "read_astra_model v =
     Option.bind (string_field v ''name'') (\<lambda>n.
     Option.bind (optional as_str v ''provider'') (\<lambda>p.
     Option.bind (optional as_str v ''description'') (\<lambda>d.
     Option.bind (bool_field_or False v ''is_active'') (\<lambda>a.
     Option.bind (optional as_u64 v ''context_window'') (\<lambda>w.
     Some \<lparr>am_name = n, am_provider = p, am_description = d, am_is_active = a,
           am_context_window = w\<rparr>)))))"

definition DOT :: string where
  "DOT = [CHR 0x20, CHR 0xC2, CHR 0xB7, CHR 0x20]"

definition astra_desc :: "(nat \<Rightarrow> nat \<Rightarrow> string) \<Rightarrow> astra_model \<Rightarrow> string" where
  "astra_desc tenths m =
     (case am_provider m of Some p \<Rightarrow> p | None \<Rightarrow> ''unknown'') @
     (case am_context_window m of
        Some w \<Rightarrow> DOT @ ''ctx '' @ format_context_window tenths w | None \<Rightarrow> []) @
     (case am_description m of
        Some d \<Rightarrow> if trim d \<noteq> [] then DOT @ trim d else [] | None \<Rightarrow> [])"

definition parse_astra_model_entries ::
  "(string \<Rightarrow> json option) \<Rightarrow> (nat \<Rightarrow> nat \<Rightarrow> string) \<Rightarrow> string \<Rightarrow> catalog_failure + model_entry list" where
  "parse_astra_model_entries de tenths output =
     (case Option.bind (de output) (\<lambda>v. list_field read_astra_model v ''items'') of
        None \<Rightarrow> Inl Malformed
      | Some items \<Rightarrow>
          (let entries = default_model_entry #
             map (\<lambda>m. plain_entry (am_name m) (astra_desc tenths m) (am_name m)
                    (astra_model_aliases (am_name m)))
               (filter am_is_active items)
           in if length entries = 1 then Inl NoModels else Inr entries))"

section \<open>The models of Claude\<close>

definition parse_claude_init_model :: "(string \<Rightarrow> json option) \<Rightarrow> string \<Rightarrow> string option" where
  "parse_claude_init_model de out =
     first_some (\<lambda>line. Option.bind (de line) (\<lambda>v.
       if jfield v ''type'' = JStr ''system'' \<and> jfield v ''subtype'' = JStr ''init''
       then Option.bind (as_str (jfield v ''model'')) (\<lambda>m. if trim m \<noteq> [] then Some m else None)
       else None)) (lines_of out)"

text \<open>What \<open>probe_claude_model\<close> makes of the output of the run it starts.\<close>

definition probe_outcome :: "(string \<Rightarrow> json option) \<Rightarrow> string \<Rightarrow> bool \<Rightarrow> string \<Rightarrow> string + string option" where
  "probe_outcome de out success e =
     (case parse_claude_init_model de out of
        Some m \<Rightarrow> Inr (Some m)
      | None \<Rightarrow> if \<not> success then Inl e else Inr None)"

definition claude_candidates :: "(string \<times> string \<times> string list) list" where
  "claude_candidates =
     [(''opus'', ''Claude alias: opus'', [''opus'']),
      (''sonnet'', ''Claude alias: sonnet'', [''sonnet'']),
      (''haiku'', ''Claude alias: haiku'', [''haiku'']),
      (''fable'', ''Claude alias: fable'', [''fable''])]"

definition cli_profile_env_value :: "cli_profile \<Rightarrow> string \<Rightarrow> string option" where
  "cli_profile_env_value profile key =
     (let found = (\<lambda>env. Option.bind (map_option trim (map_of env key))
                          (\<lambda>v. if v \<noteq> [] then Some v else None))
      in case profile of
           Claude _ _ _ _ env _ \<Rightarrow> found env
         | Copilot _ _ env _ _ _ _ _ \<Rightarrow> found env
         | _ \<Rightarrow> None)"

definition claude_custom_env_models ::
  "cli_profile \<Rightarrow> (string \<times> string) list option \<Rightarrow> string list" where
  "claude_custom_env_models profile provider_env =
     dedup_sorted (
       (case cli_profile_env_value profile ''ANTHROPIC_MODEL'' of Some m \<Rightarrow> [m] | None \<Rightarrow> []) @
       (case Option.bind provider_env (\<lambda>env. map_of env ''ANTHROPIC_MODEL'') of
          Some m \<Rightarrow> if trim m \<noteq> [] then [trim m] else [] | None \<Rightarrow> []))"

text \<open>One candidate after the other is probed; the first failure ends the function.\<close>

fun probe_candidates ::
  "(string option \<Rightarrow> string + string option) \<Rightarrow> (string \<times> string \<times> string list) list \<Rightarrow>
   model_entry list \<Rightarrow> string + model_entry list" where
  "probe_candidates ask [] entries = Inr entries"
| "probe_candidates ask ((candidate, desc, aliases) # cs) entries =
     (case ask (Some candidate) of
        Inl e \<Rightarrow> Inl e
      | Inr None \<Rightarrow> probe_candidates ask cs entries
      | Inr (Some m) \<Rightarrow>
          probe_candidates ask cs (push_unique_model_entry entries (plain_entry m desc m aliases)))"

definition claude_model_entries ::
  "(string option \<Rightarrow> string + string option) \<Rightarrow> cli_profile \<Rightarrow> (string \<times> string) list option \<Rightarrow>
   catalog_failure + model_entry list" where
  "claude_model_entries ask base provider_env =
     (case ask None of
        Inl e \<Rightarrow> Inl (ProbeFailed e)
      | Inr m \<Rightarrow>
          (let first = (case m of
             None \<Rightarrow> default_model_entry
           | Some model \<Rightarrow> default_model_entry
               \<lparr>me_desc := [CHR 0xE5, CHR 0xBD, CHR 0x93, CHR 0xE5, CHR 0x89, CHR 0x8D, CHR 0xE9, CHR 0xBB, CHR 0x98, CHR 0xE8,
     CHR 0xAE, CHR 0xA4, CHR 0x20, CHR 0xE2, CHR 0x86, CHR 0x92, CHR 0x20] @ model,
                me_resolved_id := Some model\<rparr>)
           in case probe_candidates ask claude_candidates [first] of
             Inl e \<Rightarrow> Inl (ProbeFailed e)
           | Inr entries \<Rightarrow>
               (let all = foldl push_unique_model_entry entries
                  (map (\<lambda>model. plain_entry model ''Claude custom model'' model [''custom''])
                     (claude_custom_env_models base provider_env))
                in if length all = 1 then Inl NoModels else Inr all)))"

section \<open>The models of Codex\<close>

record codex_model =
  cm_model :: string
  cm_display_name :: string
  cm_description :: string
  cm_hidden :: bool
  cm_efforts :: "string list"
  cm_default_effort :: "string option"

definition read_codex_model :: "json \<Rightarrow> codex_model option" where
  "read_codex_model v =
     Option.bind (string_field v ''model'') (\<lambda>m.
     Option.bind (string_field v ''displayName'') (\<lambda>n.
     Option.bind (string_field v ''description'') (\<lambda>d.
     Option.bind (Option.bind (jget v ''hidden'') as_bool) (\<lambda>h.
     Option.bind (list_field (\<lambda>e. string_field e ''reasoningEffort'') v ''supportedReasoningEfforts'') (\<lambda>es.
     Option.bind (optional as_str v ''defaultReasoningEffort'') (\<lambda>de.
     Some \<lparr>cm_model = m, cm_display_name = n, cm_description = d, cm_hidden = h, cm_efforts = es,
           cm_default_effort = de\<rparr>))))))"

definition read_codex_page :: "json \<Rightarrow> (codex_model list \<times> string option) option" where
  "read_codex_page v =
     Option.bind (list_field read_codex_model v ''data'') (\<lambda>ms.
     Option.bind (optional as_str v ''nextCursor'') (\<lambda>c. Some (ms, c)))"

definition codex_model_entries_from_app_server :: "codex_model list \<Rightarrow> model_entry list" where
  "codex_model_entries_from_app_server models =
     foldl push_unique_model_entry [default_model_entry]
       (map (\<lambda>m. (plain_entry (cm_display_name m) (cm_description m) (cm_model m)
                     (codex_model_aliases (cm_model m)))
                   \<lparr>me_reasoning_efforts := cm_efforts m, me_default_effort := cm_default_effort m\<rparr>)
          (filter (\<lambda>m. \<not> cm_hidden m) models))"

text \<open>The answer to request \<open>id\<close> among the lines of the app server, and the lines after it.\<close>

fun wait_app_server_response ::
  "(json \<Rightarrow> string) \<Rightarrow> (string \<Rightarrow> json option) \<Rightarrow> string list \<Rightarrow> nat \<Rightarrow> (string + json) \<times> string list" where
  "wait_app_server_response ser de [] i = (Inl ''Codex app-server closed stdout'', [])"
| "wait_app_server_response ser de (line # lines) i =
     (case de line of
        None \<Rightarrow> (Inl ''invalid JSON'', lines)
      | Some v \<Rightarrow>
          if as_u64 (jfield v ''id'') = Some i
          then ((case jget v ''error'' of
                   Some e \<Rightarrow> Inl (''Codex app-server error: '' @ ser e)
                 | None \<Rightarrow> Inr (jfield v ''result'')), lines)
          else wait_app_server_response ser de lines i)"

definition model_list_request :: "nat \<Rightarrow> string option \<Rightarrow> json" where
  "model_list_request i cursor =
     JObj [(''id'', JNum (int i)), (''method'', JStr ''model/list''),
           (''params'', JObj (case cursor of Some c \<Rightarrow> [(''cursor'', JStr c)] | None \<Rightarrow> []))]"

text \<open>The pages: \<open>answer request\<close> is what \<open>write_app_server_request\<close> and
  \<open>wait_app_server_response\<close> give for it. At most ten are asked for, and no cursor twice.\<close>

fun list_pages ::
  "(json \<Rightarrow> string + json) \<Rightarrow> nat \<Rightarrow> nat \<Rightarrow> string option \<Rightarrow> string list \<Rightarrow> codex_model list \<Rightarrow>
   string + codex_model list" where
  "list_pages answer 0 i cursor seen models = Inl ''Codex model/list exceeded the 10-page limit''"
| "list_pages answer (Suc n) i cursor seen models =
     (case answer (model_list_request i cursor) of
        Inl e \<Rightarrow> Inl e
      | Inr response \<Rightarrow>
          (case read_codex_page response of
             None \<Rightarrow> Inl ''model/list''
           | Some (page, next_cursor) \<Rightarrow>
               (case Option.bind next_cursor (\<lambda>c. if trim c \<noteq> [] then Some c else None) of
                  None \<Rightarrow> Inr (models @ page)
                | Some c \<Rightarrow>
                    if c \<in> set seen then Inl ''Codex model/list returned a repeated cursor''
                    else list_pages answer n (i + 1) (Some c) (c # seen) (models @ page))))"

definition MAX_MODEL_PAGES :: nat where
  "MAX_MODEL_PAGES = 10"

definition codex_app_server_models ::
  "(string + json) \<Rightarrow> (json \<Rightarrow> string + json) \<Rightarrow> string + codex_model list" where
  "codex_app_server_models initialized answer =
     (case initialized of Inl e \<Rightarrow> Inl e | Inr v \<Rightarrow> list_pages answer MAX_MODEL_PAGES 2 None [] [])"

record codex_catalog_item =
  ci_slug :: string
  ci_display_name :: "string option"
  ci_description :: "string option"
  ci_visibility :: "string option"

definition read_catalog_item :: "json \<Rightarrow> codex_catalog_item option" where
  "read_catalog_item v =
     Option.bind (string_field v ''slug'') (\<lambda>s.
     Option.bind (optional as_str v ''display_name'') (\<lambda>n.
     Option.bind (optional as_str v ''description'') (\<lambda>d.
     Option.bind (optional as_str v ''visibility'') (\<lambda>vis.
     Some \<lparr>ci_slug = s, ci_display_name = n, ci_description = d, ci_visibility = vis\<rparr>))))"

text \<open>\<open>debug_models\<close> is the run of \<open>debug models\<close>: an error, or its standard output.\<close>

definition codex_model_entries ::
  "(string \<Rightarrow> json option) \<Rightarrow> string + codex_model list \<Rightarrow> string + string \<Rightarrow> catalog_failure + model_entry list" where
  "codex_model_entries de served debug_models =
     (case (case served of Inr models \<Rightarrow> if models \<noteq> [] then Some models else None | Inl e \<Rightarrow> None) of
        Some models \<Rightarrow> Inr (codex_model_entries_from_app_server models)
      | None \<Rightarrow>
          (case debug_models of
             Inl e \<Rightarrow> Inl (ProbeFailed e)
           | Inr out \<Rightarrow>
               (case Option.bind (de out) (\<lambda>v. list_field read_catalog_item v ''models'') of
                  None \<Rightarrow> Inl Malformed
                | Some items \<Rightarrow>
                    (let entries = foldl push_unique_model_entry [default_model_entry]
                       (map (\<lambda>m. plain_entry
                             (case ci_display_name m of Some n \<Rightarrow> n | None \<Rightarrow> ci_slug m)
                             (case ci_description m of Some d \<Rightarrow> d | None \<Rightarrow> ''Codex model'')
                             (ci_slug m) (codex_model_aliases (ci_slug m)))
                          (filter (\<lambda>m. ci_visibility m = Some ''list'') items))
                     in if length entries = 1 then Inl NoModels else Inr entries))))"

section \<open>Choosing an entry\<close>

datatype resolved_model = ResolvedDefault | ResolvedId string | Unrecognized

definition resolved_entry :: "model_entry \<Rightarrow> resolved_model" where
  "resolved_entry e = (case me_full_id e of None \<Rightarrow> ResolvedDefault | Some i \<Rightarrow> ResolvedId i)"

definition has_whitespace :: "string \<Rightarrow> bool" where
  "has_whitespace s \<longleftrightarrow> list_ex (contains s) white_space"

text \<open>What is left without white space: the words between.\<close>

definition strip_whitespace :: "string \<Rightarrow> string" where
  "strip_whitespace s = concat (split_whitespace s)"

definition is_explicit_model_id :: "string \<Rightarrow> bool" where
  "is_explicit_model_id s \<longleftrightarrow> \<not> has_whitespace s"

definition looks_like_configured_model_id :: "string \<Rightarrow> bool" where
  "looks_like_configured_model_id s \<longleftrightarrow>
     \<not> has_whitespace s \<and> (CHR ''.'' \<in> set s \<or> CHR ''-'' \<in> set s \<or> list_ex is_digit s)"

definition parse_usize :: "string \<Rightarrow> nat option" where
  "parse_usize s = parse_uint (2 ^ 64 - 1) s"

definition by_number :: "string \<Rightarrow> model_entry list \<Rightarrow> resolved_model option" where
  "by_number s entries =
     (case parse_usize s of
        Some i \<Rightarrow> if 1 \<le> i \<and> i \<le> length entries then Some (resolved_entry (entries ! (i - 1))) else None
      | None \<Rightarrow> None)"

definition by_default_word :: "string \<Rightarrow> resolved_model option" where
  "by_default_word s =
     (if s = DEFAULT_LABEL \<or> eq_ignore_ascii_case s ''default'' then Some ResolvedDefault else None)"

definition by_label :: "string \<Rightarrow> model_entry list \<Rightarrow> resolved_model option" where
  "by_label s entries =
     map_option resolved_entry
       (find (\<lambda>e. eq_ignore_ascii_case (strip_whitespace s) (strip_whitespace (me_label e))) entries)"

definition by_alias :: "string \<Rightarrow> model_entry list \<Rightarrow> resolved_model option" where
  "by_alias s entries =
     map_option resolved_entry (find (\<lambda>e. list_ex (eq_ignore_ascii_case s) (me_aliases e)) entries)"

definition by_full_id :: "string \<Rightarrow> model_entry list \<Rightarrow> resolved_model option" where
  "by_full_id s entries =
     map_option ResolvedId
       (first_some (\<lambda>e. Option.bind (me_full_id e)
          (\<lambda>i. if eq_ignore_ascii_case s i then Some i else None)) entries)"

definition resolve_model_input :: "string \<Rightarrow> model_entry list \<Rightarrow> resolved_model" where
  "resolve_model_input inp entries =
     (let s = trim inp in
      if s = [] then Unrecognized
      else case first_some id [by_number s entries, by_default_word s, by_label s entries,
                               by_alias s entries, by_full_id s entries] of
        Some r \<Rightarrow> r
      | None \<Rightarrow> if is_explicit_model_id s then ResolvedId s else Unrecognized)"

definition resolved_model_id_from_entries :: "string option \<Rightarrow> model_entry list \<Rightarrow> string option" where
  "resolved_model_id_from_entries current entries =
     (let default = find (\<lambda>e. me_full_id e = None) entries in
      case current of
        None \<Rightarrow> (case default of Some d \<Rightarrow> me_resolved_id d | None \<Rightarrow> None)
      | Some cur \<Rightarrow>
          (case resolve_model_input cur entries of
             ResolvedId i \<Rightarrow> Some i
           | ResolvedDefault \<Rightarrow> Option.bind default me_resolved_id
           | Unrecognized \<Rightarrow> if looks_like_configured_model_id cur then Some cur else None))"

definition display_model_name :: "string \<Rightarrow> model_entry list \<Rightarrow> string" where
  "display_model_name i entries =
     (case find (\<lambda>e. me_full_id e = Some i) entries of Some e \<Rightarrow> me_label e | None \<Rightarrow> i)"

section \<open>The cache\<close>

text \<open>\<open>now\<close> is the instant of the call, \<open>fetched\<close> what \<open>model_entries_uncached\<close> gives.\<close>

type_synonym model_cache = "string \<Rightarrow> (model_entry list \<times> nat) option"

definition model_entries_for_context ::
  "string option \<Rightarrow> catalog_failure + model_entry list \<Rightarrow> nat \<Rightarrow> string \<Rightarrow> bool \<Rightarrow> model_cache \<Rightarrow>
   (catalog_failure + model_entry list \<times> nat option) \<times> model_cache" where
  "model_entries_for_context cache_key fetched now arg force_refresh cache =
     (if trim arg = DEFAULT_LABEL \<or> eq_ignore_ascii_case (trim arg) ''default''
      then (Inr ([default_model_entry], None), cache)
      else case cache_key of
        None \<Rightarrow> (bind_ok fetched (\<lambda>es. Inr (es, None)), cache)
      | Some key \<Rightarrow>
          (case (if force_refresh then None else cache key) of
             Some (es, created) \<Rightarrow> (Inr (es, Some (now - created)), cache)
           | None \<Rightarrow>
               (let cache' = (if force_refresh then cache(key := None) else cache) in
                case fetched of
                  Inl e \<Rightarrow> (Inl e, cache')
                | Inr es \<Rightarrow> (Inr (es, None), cache'(key \<mapsto> (es, now))))))"

end
