(* ===== verification/Models_Props.thy ===== *)
theory Models_Props
  imports Models
begin

text \<open>
  What \<open>/model\<close> chooses: every entry can be chosen by its number, what is chosen is an entry or the
  word itself, and a word is never refused. The pages of the app server's model list are all read,
  in order, or the list is refused. A list from the cache is one that was fetched under its key.
\<close>

section \<open>White space\<close>

lemma has_whitespace_iff: "has_whitespace s \<longleftrightarrow> (\<exists>w \<in> set white_space. sublist w s)"
  by (auto simp: has_whitespace_def list_ex_iff contains_iff_sublist)

lemma strip_all_id: "(\<And>w. w \<in> set ws \<Longrightarrow> \<not> prefix w s) \<Longrightarrow> strip_all ws s = s"
  by (subst strip_all.simps) (auto simp: find_None_iff split: option.split dest: find_in)

lemma trim_id:
  assumes "\<not> has_whitespace s"
  shows "trim s = s"
proof -
  have "trim_start s = s"
    unfolding trim_start_def using assms by (intro strip_all_id) (auto simp: has_whitespace_iff)
  moreover have "strip_all (map rev white_space) (rev s) = rev s"
    using assms by (intro strip_all_id) (auto simp: has_whitespace_iff suffix_to_prefix [symmetric])
  ultimately show ?thesis by (simp add: trim_def trim_end_def)
qed

text \<open>A word of \<open>split_whitespace\<close> is not empty and has no white space.\<close>

definition clear_of_space :: "string \<Rightarrow> string \<Rightarrow> bool" where
  "clear_of_space acc s \<longleftrightarrow> (\<forall>k < length acc. ws_prefix (drop k acc @ s) = 0)"

lemma ws_prefix_0: "ws_prefix s = 0 \<longleftrightarrow> (\<forall>w \<in> set white_space. \<not> prefix w s)"
proof -
  have "w \<noteq> []" if "w \<in> set white_space" for w using that by (auto simp: white_space_def)
  then show ?thesis
    by (auto simp: ws_prefix_def find_None_iff split: option.split dest!: find_in)
qed

lemma clear_no_space: "clear_of_space acc s \<Longrightarrow> \<not> has_whitespace acc"
proof
  assume c: "clear_of_space acc s" and "has_whitespace acc"
  then obtain w a b where w: "w \<in> set white_space" "acc = a @ w @ b"
    by (auto simp: has_whitespace_iff sublist_def)
  then have "w \<noteq> []" by (auto simp: white_space_def)
  then have "length a < length acc" using w(2) by simp
  then have "ws_prefix (drop (length a) acc @ s) = 0" using c by (simp add: clear_of_space_def)
  with w show False by (auto simp: ws_prefix_0)
qed

lemma split_ws_from_words:
  assumes "clear_of_space acc s" and "0 < skip \<Longrightarrow> acc = []" and "w \<in> set (split_ws_from skip acc s)"
  shows "w \<noteq> [] \<and> \<not> has_whitespace w"
  using assms
proof (induction skip acc s rule: split_ws_from.induct)
  case (1 skip acc)
  then show ?case by (auto split: if_splits dest: clear_no_space)
next
  case (2 k acc c s)
  then show ?case by (simp add: clear_of_space_def)
next
  case (3 acc c s)
  show ?case
  proof (cases "ws_prefix (c # s)")
    case 0
    moreover have "clear_of_space (acc @ [c]) s"
      using "3.prems"(1) 0 by (auto simp: clear_of_space_def less_Suc_eq)
    ultimately show ?thesis using "3.IH"(1) [OF 0] "3.prems"(3) by simp
  next
    case (Suc k)
    then show ?thesis
      using "3.IH"(2) [OF Suc] "3.prems"(1,3) clear_no_space [OF "3.prems"(1)]
      by (auto simp: clear_of_space_def split: if_splits)
  qed
qed

lemma word_clear: "w \<in> set (split_whitespace s) \<Longrightarrow> w \<noteq> [] \<and> \<not> has_whitespace w"
  unfolding split_whitespace_def by (rule split_ws_from_words) (auto simp: clear_of_space_def)

section \<open>Numbers\<close>

lemma digits_value_snoc: "digits_value (s @ [c]) = digits_value s * 10 + (byte c - 48)"
  by (simp add: digits_value_def)

lemma byte_digit: "d < 10 \<Longrightarrow> byte (char_of (48 + d)) = 48 + d"
  by (simp add: byte_def)

lemma digits_value_show_nat [simp]: "digits_value (show_nat n) = n"
proof (induction n rule: show_nat.induct)
  case (1 n)
  show ?case
  proof (cases "n < 10")
    case True
    then show ?thesis using byte_digit [of n] by (subst show_nat.simps) (simp add: digits_value_def)
  next
    case False
    then show ?thesis
      using 1 byte_digit [of "n mod 10"] by (subst show_nat.simps) (simp add: digits_value_snoc)
  qed
qed

lemma digit_char: "(d::nat) < 10 \<Longrightarrow> is_digit (char_of (48 + d))"
  by (simp add: is_digit_def byte_digit)

lemma show_nat_digits: "list_all is_digit (show_nat n)"
proof (induction n rule: show_nat.induct)
  case (1 n)
  then show ?case by (subst show_nat.simps) (simp add: digit_char)
qed

lemma show_nat_not_Nil: "show_nat n \<noteq> []"
  by (subst show_nat.simps) simp

lemma parse_usize_show_nat: "n < 2 ^ 64 \<Longrightarrow> parse_usize (show_nat n) = Some n"
proof -
  assume n: "n < 2 ^ 64"
  obtain c t where ct: "show_nat n = c # t" using show_nat_not_Nil [of n] by (cases "show_nat n") auto
  with show_nat_digits [of n] have "c \<noteq> CHR ''+''" by (auto simp: is_digit_def byte_def)
  with ct n show_nat_digits [of n] digits_value_show_nat [of n] show ?thesis
    by (simp add: parse_usize_def parse_uint_def)
qed

lemma digits_no_space: "list_all is_digit s \<Longrightarrow> \<not> has_whitespace s"
proof
  assume d: "list_all is_digit s" and "has_whitespace s"
  then obtain w where w: "w \<in> set white_space" "sublist w s" by (auto simp: has_whitespace_iff)
  then have "list_all is_digit w" using d by (auto simp: sublist_def)
  with w(1) show False by (auto simp: white_space_def is_digit_def byte_def)
qed

section \<open>The choice\<close>

lemma resolved_entry_Id: "resolved_entry e = ResolvedId i \<longleftrightarrow> me_full_id e = Some i"
  and resolved_entry_Default: "resolved_entry e = ResolvedDefault \<longleftrightarrow> me_full_id e = None"
  and resolved_entry_recognized: "resolved_entry e \<noteq> Unrecognized"
  by (auto simp: resolved_entry_def split: option.split)

lemma by_number_sound: "by_number s es = Some x \<Longrightarrow> \<exists>e \<in> set es. x = resolved_entry e"
proof -
  assume "by_number s es = Some x"
  then obtain i where "1 \<le> i" "i \<le> length es" "x = resolved_entry (es ! (i - 1))"
    by (auto simp: by_number_def split: option.splits if_splits)
  moreover from this have "es ! (i - 1) \<in> set es" by (intro nth_mem) simp
  ultimately show ?thesis by blast
qed

lemma by_default_word_sound: "by_default_word s = Some x \<Longrightarrow>
    x = ResolvedDefault \<and> (s = DEFAULT_LABEL \<or> eq_ignore_ascii_case s ''default'')"
  and by_label_sound: "by_label s es = Some x \<Longrightarrow> \<exists>e \<in> set es. x = resolved_entry e"
  and by_alias_sound: "by_alias s es = Some x \<Longrightarrow> \<exists>e \<in> set es. x = resolved_entry e"
  by (auto simp: by_default_word_def by_label_def by_alias_def split: if_splits dest!: find_in)

lemma by_full_id_sound: "by_full_id s es = Some x \<Longrightarrow> \<exists>e \<in> set es. x = resolved_entry e"
  unfolding by_full_id_def map_option_eq_Some
  by (auto simp: bind_eq_Some_conv split: if_splits dest!: first_some_in)
     (metis resolved_entry_Id)

lemma choice_cases:
  obtains "trim inp = []" "resolve_model_input inp es = Unrecognized"
  | e where "e \<in> set es" "resolve_model_input inp es = resolved_entry e"
  | "resolve_model_input inp es = ResolvedDefault"
    "trim inp = DEFAULT_LABEL \<or> eq_ignore_ascii_case (trim inp) ''default''"
  | "\<not> has_whitespace (trim inp)" "resolve_model_input inp es = ResolvedId (trim inp)"
  | "has_whitespace (trim inp)" "resolve_model_input inp es = Unrecognized"
proof -
  let ?s = "trim inp"
  let ?steps = "first_some id [by_number ?s es, by_default_word ?s, by_label ?s es, by_alias ?s es, by_full_id ?s es]"
  consider "?s = []" | "?s \<noteq> []" "?steps = None" | x where "?s \<noteq> []" "?steps = Some x" by auto
  then show thesis
  proof cases
    case 1
    then show thesis using that(1) by (simp add: resolve_model_input_def)
  next
    case 2
    then have "resolve_model_input inp es =
        (if is_explicit_model_id ?s then ResolvedId ?s else Unrecognized)"
      by (simp add: resolve_model_input_def Let_def del: first_some.simps)
    then show thesis using that(4,5) by (auto simp: is_explicit_model_id_def split: if_splits)
  next
    case 3
    then have r: "resolve_model_input inp es = x"
      by (simp add: resolve_model_input_def Let_def del: first_some.simps)
    from 3(2) consider "by_number ?s es = Some x" | "by_default_word ?s = Some x" | "by_label ?s es = Some x"
      | "by_alias ?s es = Some x" | "by_full_id ?s es = Some x"
      by (auto split: option.splits)
    then show thesis
      using that(2,3) r by_number_sound by_default_word_sound by_label_sound by_alias_sound by_full_id_sound
      by metis
  qed
qed

lemma number_chooses:
  assumes "1 \<le> i" and "i \<le> length es" and "i < 2 ^ 64"
  shows "resolve_model_input (show_nat i) es = resolved_entry (es ! (i - 1))"
  using assms digits_no_space [OF show_nat_digits [of i]] show_nat_not_Nil [of i]
  by (simp add: resolve_model_input_def trim_id by_number_def parse_usize_show_nat)

text \<open>Property C22: of a model list, the entry with the number typed is chosen; whatever is typed, a
  chosen model is the model of an entry or the text itself, which then has no white space; and the
  default is chosen only by its words or by an entry that stands for it.\<close>

theorem model_choice_sound:
  assumes "length es < 2 ^ 64"
  shows "(\<forall>i. 1 \<le> i \<longrightarrow> i \<le> length es \<longrightarrow>
            resolve_model_input (show_nat i) es = resolved_entry (es ! (i - 1))) \<and>
    (\<forall>inp m. resolve_model_input inp es = ResolvedId m \<longrightarrow>
       (\<exists>e \<in> set es. me_full_id e = Some m) \<or> m = trim inp \<and> \<not> has_whitespace m) \<and>
    (\<forall>inp. resolve_model_input inp es = ResolvedDefault \<longrightarrow>
       (\<exists>e \<in> set es. me_full_id e = None) \<or> trim inp = DEFAULT_LABEL \<or>
       eq_ignore_ascii_case (trim inp) ''default'')"
proof (intro conjI allI impI)
  show "resolve_model_input (show_nat i) es = resolved_entry (es ! (i - 1))"
    if "1 \<le> i" "i \<le> length es" for i
    using that assms by (intro number_chooses) simp_all
  show "(\<exists>e \<in> set es. me_full_id e = Some m) \<or> m = trim inp \<and> \<not> has_whitespace m"
    if "resolve_model_input inp es = ResolvedId m" for inp m
    using that by (cases inp es rule: choice_cases) (auto simp: resolved_entry_Id [symmetric])
  show "(\<exists>e \<in> set es. me_full_id e = None) \<or> trim inp = DEFAULT_LABEL \<or>
      eq_ignore_ascii_case (trim inp) ''default''"
    if "resolve_model_input inp es = ResolvedDefault" for inp
    using that by (cases inp es rule: choice_cases) (auto simp: resolved_entry_Default [symmetric])
qed

lemma show_one: "show_nat 1 = ''1''"
  by code_simp

theorem model_choice_sound_witness:
  "resolve_model_input ''1'' [plain_entry ''GPT 5'' [] ''gpt-5'' []] = ResolvedId ''gpt-5''"
  using model_choice_sound [of "[plain_entry ''GPT 5'' [] ''gpt-5'' []]", THEN conjunct1, rule_format, of 1]
  by (simp add: plain_entry_def resolved_entry_def show_one [unfolded One_nat_def])

text \<open>The answer that a model is not recognised is never given: the command hands over one word of its
  argument, and a word that is no entry, such as a number past the end of the list, is taken for an id.\<close>

lemma word_always_recognized:
  "w \<in> set (split_whitespace arg) \<Longrightarrow> resolve_model_input w es \<noteq> Unrecognized"
  using word_clear [of w arg] trim_id [of w]
  by (cases w es rule: choice_cases) (auto simp: resolved_entry_recognized)

lemma number_past_end_is_an_id: "resolve_model_input ''7'' [default_model_entry] = ResolvedId ''7''"
proof -
  have seven: "show_nat 7 = ''7''" by code_simp
  have number: "parse_usize ''7'' = Some 7" using parse_usize_show_nat [of 7] by (simp add: seven)
  have clear: "\<not> has_whitespace ''7''" by (rule digits_no_space) (simp add: is_digit_def byte_def)
  have other: "by_default_word ''7'' = None" "by_label ''7'' [default_model_entry] = None" by code_simp+
  have rest: "by_alias ''7'' [default_model_entry] = None" "by_full_id ''7'' [default_model_entry] = None"
    by (simp_all add: by_alias_def by_full_id_def default_model_entry_def)
  show ?thesis
    by (simp add: resolve_model_input_def trim_id [OF clear] by_number_def number other rest
        is_explicit_model_id_def clear)
qed

section \<open>Lists\<close>

lemma push_unique_distinct:
  "distinct (map me_full_id es) \<Longrightarrow> me_full_id e \<noteq> None \<Longrightarrow>
   distinct (map me_full_id (push_unique_model_entry es e))"
  by (auto simp: push_unique_model_entry_def list_ex_iff split: option.split)

lemma push_unique_keeps: "\<exists>ys. push_unique_model_entry es e = es @ ys"
  by (auto simp: push_unique_model_entry_def split: option.split)

lemma push_all:
  assumes "distinct (map me_full_id es)" and "\<forall>e \<in> set xs. me_full_id e \<noteq> None"
  shows "distinct (map me_full_id (foldl push_unique_model_entry es xs)) \<and>
    prefix es (foldl push_unique_model_entry es xs)"
  using assms
proof (induction xs arbitrary: es)
  case (Cons x xs)
  from Cons.prems push_unique_distinct have "distinct (map me_full_id (push_unique_model_entry es x))" by simp
  moreover obtain ys where "push_unique_model_entry es x = es @ ys" using push_unique_keeps by blast
  ultimately show ?case using Cons.IH [of "push_unique_model_entry es x"] Cons.prems(2)
    by (auto simp: prefix_def)
qed simp

lemma codex_entries_distinct:
  "distinct (map me_full_id (codex_model_entries_from_app_server models)) \<and>
   prefix [default_model_entry] (codex_model_entries_from_app_server models)"
  unfolding codex_model_entries_from_app_server_def
  by (rule push_all) (auto simp: plain_entry_def)

section \<open>Pages\<close>

text \<open>The pages from a cursor on, and the cursors between them, as the app server answers.\<close>

inductive page_chain ::
  "(json \<Rightarrow> string + json) \<Rightarrow> nat \<Rightarrow> string option \<Rightarrow> codex_model list list \<Rightarrow> string list \<Rightarrow> bool"
  for answer where
  last_page: "answer (model_list_request i cursor) = Inr r \<Longrightarrow> read_codex_page r = Some (p, n) \<Longrightarrow>
     n = None \<or> (\<exists>c. n = Some c \<and> trim c = []) \<Longrightarrow> page_chain answer i cursor [p] []"
| more_pages: "answer (model_list_request i cursor) = Inr r \<Longrightarrow> read_codex_page r = Some (p, Some c) \<Longrightarrow>
     trim c \<noteq> [] \<Longrightarrow> page_chain answer (i + 1) (Some c) ps cs \<Longrightarrow>
     page_chain answer i cursor (p # ps) (c # cs)"

inductive_cases page_chainE: "page_chain answer i cursor ps cs"

lemma list_pages_sound:
  "list_pages answer n i cursor seen models = Inr out \<Longrightarrow>
   \<exists>ps cs. page_chain answer i cursor ps cs \<and> length ps \<le> n \<and> distinct cs \<and>
     set cs \<inter> set seen = {} \<and> out = models @ concat ps"
proof (induction answer n i cursor seen models rule: list_pages.induct)
  case (2 answer n i cursor seen models)
  from "2.prems" obtain r p nxt where r: "answer (model_list_request i cursor) = Inr r"
    and p: "read_codex_page r = Some (p, nxt)" by (auto split: sum.splits option.splits)
  let ?c = "Option.bind nxt (\<lambda>c. if trim c \<noteq> [] then Some c else None)"
  show ?case
  proof (cases ?c)
    case None
    then have "nxt = None \<or> (\<exists>c. nxt = Some c \<and> trim c = [])" by (cases nxt) (auto split: if_splits)
    with r p have "page_chain answer i cursor [p] []" by (rule last_page)
    moreover have "out = models @ p" using "2.prems" r p None by simp
    ultimately show ?thesis by (intro exI [of _ "[p]"] exI [of _ "[]"]) simp
  next
    case (Some c)
    then have c: "nxt = Some c" "trim c \<noteq> []" by (auto simp: bind_eq_Some_conv split: if_splits)
    with "2.prems" r p have new: "c \<notin> set seen" by (auto split: if_splits)
    with "2.prems" r p Some have
      "list_pages answer n (i + 1) (Some c) (c # seen) (models @ p) = Inr out" by simp
    from "2.IH" [OF r p [unfolded surjective_pairing] refl Some new this] obtain ps cs where
      "page_chain answer (i + 1) (Some c) ps cs" "length ps \<le> n" "distinct cs"
      "set cs \<inter> set (c # seen) = {}" "out = (models @ p) @ concat ps" by blast
    with more_pages [of answer i cursor r p c ps cs, OF r p [unfolded c(1)] c(2)] new show ?thesis
      by (intro exI [of _ "p # ps"] exI [of _ "c # cs"]) auto
  qed
qed simp

lemma list_pages_complete:
  "page_chain answer i cursor ps cs \<Longrightarrow> length ps \<le> n \<Longrightarrow> distinct cs \<Longrightarrow> set cs \<inter> set seen = {} \<Longrightarrow>
   list_pages answer n i cursor seen models = Inr (models @ concat ps)"
proof (induction arbitrary: n seen models rule: page_chain.induct)
  case (last_page i cursor r p nxt)
  then show ?case by (cases n) auto
next
  case (more_pages i cursor r p c ps cs)
  then show ?case by (cases n) auto
qed

text \<open>Property C21: the models an app server lists are those of all its pages in order: the list is
  returned exactly when the pages end within ten and no cursor comes back, and otherwise it is
  refused as a whole.\<close>

theorem model_pages_complete:
  "codex_app_server_models initialized answer = Inr models \<longleftrightarrow>
   (\<exists>v ps cs. initialized = Inr v \<and> page_chain answer 2 None ps cs \<and> length ps \<le> MAX_MODEL_PAGES \<and>
      distinct cs \<and> models = concat ps)"
  using list_pages_sound [of answer MAX_MODEL_PAGES 2 None "[]" "[]" models]
    list_pages_complete [of answer 2 None _ _ MAX_MODEL_PAGES "[]" "[]"]
  by (auto simp: codex_app_server_models_def split: sum.split)

section \<open>The cache\<close>

text \<open>What was fetched and when, per key, is all the cache holds.\<close>

definition cache_fetched ::
  "(string \<times> model_entry list \<times> nat) set \<Rightarrow> model_cache \<Rightarrow> bool" where
  "cache_fetched log cache \<longleftrightarrow> (\<forall>k es t. cache k = Some (es, t) \<longrightarrow> (k, es, t) \<in> log)"

lemma cached_list_was_fetched:
  assumes "cache_fetched log cache"
    and "model_entries_for_context (Some key) fetched now arg refresh cache = (Inr (es, age), cache')"
  shows "cache_fetched (log \<union> (case fetched of Inr xs \<Rightarrow> {(key, xs, now)} | Inl e \<Rightarrow> {})) cache'"
    and "(\<exists>t. age = Some (now - t) \<and> (key, es, t) \<in> log \<and> \<not> refresh) \<or> fetched = Inr es
      \<or> es = [default_model_entry]"
  using assms
  by (auto simp: model_entries_for_context_def cache_fetched_def Let_def split: option.splits if_splits sum.splits)

end
