(* ===== verification/Command_Base.thy ===== *)
theory Command_Base
  imports Models Codex_Sessions Codex_Pool Policies Delivery
begin

text \<open>
  What the slash commands of \<open>commands.rs\<close> work on: the store and the trace repository as records
  of operations, the context of a command, the state it runs on, and the pure helpers.

  A command is a function of the state; \<open>scomp\<close> runs one after the other and hands its result on.
  A reply is a value that names the message and holds what is put into it; the words around are
  those of the source. Where the source slices a string at a byte offset, the slice is
  \<open>slice_to\<close>, which gives nothing where Rust panics.

  The environment holds what comes from outside: \<open>chrono\<close>'s two parsers, Unicode lower case,
  \<open>serde_json\<close>, files and directories, generated identifiers, the HTTP answers of astra.
\<close>

section \<open>State\<close>

record ('s, 'f) command_store =
  cd_get_current_session :: "string \<Rightarrow> string \<Rightarrow> string \<Rightarrow> ('s, store_error, string option) op"
  cd_list_sessions :: "string \<Rightarrow> string \<Rightarrow> string \<Rightarrow> ('s, store_error, session_record list) op"
  cd_find_sessions_by_prefix ::
    "string \<Rightarrow> string \<Rightarrow> string \<Rightarrow> string \<Rightarrow> ('s, store_error, string list) op"
  cd_switch_session :: "string \<Rightarrow> string \<Rightarrow> string \<Rightarrow> string \<Rightarrow> ('s, store_error, bool) op"
  cd_reset_session :: "string \<Rightarrow> string \<Rightarrow> string \<Rightarrow> ('s, store_error, unit) op"
  cd_set_current_session ::
    "string \<Rightarrow> string \<Rightarrow> string \<Rightarrow> string \<Rightarrow> string \<Rightarrow> ('s, store_error, unit) op"
  cd_create_cron_job :: "cron_job_spec \<Rightarrow> ('s, store_error, unit) op"
  cd_list_cron_jobs :: "string \<Rightarrow> string \<Rightarrow> ('s, store_error, cron_job_record list) op"
  cd_delete_cron_job :: "string \<Rightarrow> ('s, store_error, bool) op"
  cd_get_user_preference :: "string \<Rightarrow> string \<Rightarrow> string \<Rightarrow> ('s, store_error, string option) op"
  cd_set_user_preference :: "string \<Rightarrow> string \<Rightarrow> string \<Rightarrow> string \<Rightarrow> ('s, store_error, unit) op"
  cd_get_usage_today :: "string \<Rightarrow> string \<Rightarrow> ('s, store_error, 'f usage_summary) op"
  cd_get_usage_total :: "string \<Rightarrow> string \<Rightarrow> ('s, store_error, 'f usage_summary) op"
  cd_get_usage_session ::
    "string \<Rightarrow> string \<Rightarrow> string \<Rightarrow> string \<Rightarrow> ('s, store_error, 'f usage_summary) op"

text \<open>\<open>cc_registry\<close> and \<open>cc_has_pool\<close> say whether the optional registry of running requests and
  the pool of app servers are there.\<close>

datatype cli_availability = Available "string option" | NotInstalled | NotExecutable string

record ('s, 't, 'f) command_context =
  cc_platform :: string
  cc_chat_id :: string
  cc_user_id :: string
  cc_cli :: cli_profile
  cc_default_cli :: cli_profile
  cc_profiles :: "(string \<times> cli_profile) list"
  cc_default_model :: "string option"
  cc_policy :: action_policy
  cc_store :: "('s, 'f) command_store option"
  cc_trace_repo :: "'t trace_repo option"
  cc_registry :: bool
  cc_has_pool :: bool
  cc_gateway_start :: int
  cc_availability :: "(string \<times> cli_availability) list"
  cc_auth_status :: "string option"

text \<open>The registry of running requests is the list of its keys; \<open>st_fired\<close> records the cancellation
  tokens that were fired.\<close>

record ('s, 't) command_state =
  st_store :: "'s conn"
  st_trace :: "'t conn"
  st_catalog :: "thread_row list conn"
  st_live :: "string list"
  st_fired :: "string list"
  st_models :: model_cache
  st_pool :: app_pool

type_synonym ('s, 't, 'a) command = "('s, 't) command_state \<Rightarrow> 'a \<times> ('s, 't) command_state"

definition on_store :: "('s, 'e, 'a) op \<Rightarrow> ('s, 't, 'e + 'a) command" where
  "on_store m s = (case m (st_store s) of (r, c) \<Rightarrow> (r, s\<lparr>st_store := c\<rparr>))"

definition on_trace :: "('t, 'e, 'a) op \<Rightarrow> ('s, 't, 'e + 'a) command" where
  "on_trace m s = (case m (st_trace s) of (r, c) \<Rightarrow> (r, s\<lparr>st_trace := c\<rparr>))"

definition on_catalog :: "'a catalog_op \<Rightarrow> ('s, 't, catalog_error + 'a) command" where
  "on_catalog m s = (case m (st_catalog s) of (r, c) \<Rightarrow> (r, s\<lparr>st_catalog := c\<rparr>))"

text \<open>\<open>unwrap_or_default\<close> of a list, and \<open>ok().flatten()\<close>.\<close>

definition or_empty :: "'e + 'a list \<Rightarrow> 'a list" where
  "or_empty r = (case r of Inl e \<Rightarrow> [] | Inr xs \<Rightarrow> xs)"

definition ok_flatten :: "'e + 'a option \<Rightarrow> 'a option" where
  "ok_flatten r = (case r of Inl e \<Rightarrow> None | Inr x \<Rightarrow> x)"

definition cli_name :: "('s, 't, 'f) command_context \<Rightarrow> string" where
  "cli_name ctx = CliProfile_name (cc_cli ctx)"

definition command_conversation :: "('s, 't, 'f) command_context \<Rightarrow> conversation_key" where
  "command_conversation ctx = ConversationKey_new (cc_platform ctx) (cc_chat_id ctx) (cli_name ctx)"

definition slash_denial :: "('s, 't, 'f) command_context \<Rightarrow> action_capability \<Rightarrow> refusal option" where
  "slash_denial ctx capability =
     (case check_action (cc_policy ctx) SlashCommand capability of Inl r \<Rightarrow> Some r | Inr u \<Rightarrow> None)"

text \<open>\<open>contains_key\<close> and \<open>remove\<close> with \<open>cancel\<close> on the registry, when there is one.\<close>

definition has_live_token :: "('s, 't, 'f) command_context \<Rightarrow> string \<Rightarrow> ('s, 't) command_state \<Rightarrow> bool" where
  "has_live_token ctx trace_id s \<longleftrightarrow> cc_registry ctx \<and> trace_id \<in> set (st_live s)"

definition fire_token :: "('s, 't, 'f) command_context \<Rightarrow> string \<Rightarrow> ('s, 't, bool) command" where
  "fire_token ctx trace_id s =
     (if has_live_token ctx trace_id s
      then (True, s\<lparr>st_live := removeAll trace_id (st_live s), st_fired := st_fired s @ [trace_id]\<rparr>)
      else (False, s))"

section \<open>Helpers\<close>

text \<open>The characters are the back quote, zero-width spaces and joiners, the word joiner and the byte
  order mark.\<close>

definition selector_noise :: "string list" where
  "selector_noise =
     [[CHR 0x60], [CHR 0xE2, CHR 0x80, CHR 0x8B], [CHR 0xE2, CHR 0x80, CHR 0x8C],
      [CHR 0xE2, CHR 0x80, CHR 0x8D], [CHR 0xE2, CHR 0x81, CHR 0xA0], [CHR 0xEF, CHR 0xBB, CHR 0xBF]]"

definition normalize_session_selector :: "string \<Rightarrow> string" where
  "normalize_session_selector selector = trim (foldl (\<lambda>s w. replace w [] s) selector selector_noise)"

definition truncate_text :: "string \<Rightarrow> nat \<Rightarrow> string" where
  "truncate_text s max_chars =
     (if max_chars < char_count s then take_chars max_chars s @ ELLIPSIS else s)"

definition compact_session_text :: "string \<Rightarrow> nat \<Rightarrow> string" where
  "compact_session_text v limit = truncate_text (join '' '' (split_whitespace v)) limit"

text \<open>\<open>&s[..8.min(s.len())]\<close>, and \<open>short_id\<close>; no value where the slice is inside a character.\<close>

definition first_8_bytes :: "string \<Rightarrow> string option" where
  "first_8_bytes s = slice_to s (min 8 (length s))"

definition short_id :: "string \<Rightarrow> string option" where
  "short_id s = (if length s \<le> 8 then Some s else map_option (\<lambda>p. p @ ELLIPSIS) (slice_to s 8))"

definition short_timestamp :: "string \<Rightarrow> string \<Rightarrow> string" where
  "short_timestamp today ts =
     (case strip_prefix today ts of
        Some rest \<Rightarrow> dropWhile (\<lambda>c. c = CHR '' '' \<or> c = CHR ''T'') rest
      | None \<Rightarrow> ts)"

text \<open>\<open>naive\<close> and \<open>rfc3339\<close> are the two parsers of \<open>chrono\<close>.\<close>

definition is_zombie_request ::
  "(string \<Rightarrow> int option) \<Rightarrow> (string \<Rightarrow> int option) \<Rightarrow> string \<Rightarrow> int \<Rightarrow> bool" where
  "is_zombie_request naive rfc3339 created_at gateway_start =
     (case or_else (naive created_at) (rfc3339 created_at) of
        Some ts \<Rightarrow> ts < gateway_start
      | None \<Rightarrow> False)"

text \<open>\<open>splitn(n, ' ')\<close>: at most \<open>n\<close> pieces, the last one with the rest.\<close>

fun splitn_space :: "nat \<Rightarrow> string \<Rightarrow> string list" where
  "splitn_space 0 s = []"
| "splitn_space (Suc 0) s = [s]"
| "splitn_space (Suc (Suc n)) s =
     (case split_once (CHR '' '') s of
        None \<Rightarrow> [s]
      | Some (w, rest) \<Rightarrow> w # splitn_space (Suc n) rest)"

definition cron_quoted :: "string \<Rightarrow> (string \<times> string) option" where
  "cron_quoted s =
     Option.bind (strip_prefix [CHR 0x22] s) (\<lambda>after_quote.
     Option.bind (find_sub [CHR 0x22] after_quote) (\<lambda>i.
       let expr = take i after_quote; msg = trim (drop (i + 1) after_quote) in
       if expr \<noteq> [] \<and> msg \<noteq> [] \<and> is_valid_cron_expr expr then Some (expr, msg) else None))"

definition cron_unquoted :: "string \<Rightarrow> (string \<times> string) option" where
  "cron_unquoted s =
     (let parts = splitn_space 6 s in
      if 6 \<le> length parts then
        let expr = join '' '' (take 5 parts); msg = parts ! 5 in
        if msg \<noteq> [] \<and> is_valid_cron_expr expr then Some (expr, msg) else None
      else None)"

definition parse_cron_add :: "string \<Rightarrow> (string \<times> string) option" where
  "parse_cron_add inp = (let s = trim inp in or_else (cron_quoted s) (cron_unquoted s))"

text \<open>What \<open>compact_event_payload\<close> puts beside an event; the outer option is the slice.\<close>

datatype event_note = NoNote | Depth nat | OfSession string | ErrorText string | OfOutbox string | IsSent

definition compact_event_payload :: "event_kind \<Rightarrow> json \<Rightarrow> event_note option" where
  "compact_event_payload kind payload =
     (case kind of
        RequestQueued \<Rightarrow>
          Some (case as_u64 (jfield payload ''queue_depth'') of Some d \<Rightarrow> Depth d | None \<Rightarrow> NoNote)
      | RunStarted \<Rightarrow>
          (case as_str (jfield payload ''session_id'') of
             Some sid \<Rightarrow> map_option OfSession (short_id sid) | None \<Rightarrow> Some NoNote)
      | OutboxQueued \<Rightarrow>
          (case as_str (jfield payload ''outbox_id'') of
             Some i \<Rightarrow> map_option OfOutbox (short_id i) | None \<Rightarrow> Some NoNote)
      | OutboxSent \<Rightarrow> Some IsSent
      | _ \<Rightarrow>
          if kind \<in> {RunFailed, RequestFailed, OutboxFailed}
          then Some (ErrorText (take_chars 80
                 (case as_str (jfield payload ''error'') of Some e \<Rightarrow> e | None \<Rightarrow> [])))
          else Some NoNote)"

definition to_ascii_uppercase :: "string \<Rightarrow> string" where
  "to_ascii_uppercase s = map (\<lambda>c. if 97 \<le> byte c \<and> byte c \<le> 122 then char_of (byte c - 32) else c) s"

definition short_request_tag :: "string \<Rightarrow> string" where
  "short_request_tag trace_id =
     (let hex = take 2 (filter is_ascii_hexdigit trace_id)
      in if length hex = 2 then ''#'' @ to_ascii_uppercase hex else ''#??'')"

section \<open>Reasoning display\<close>

datatype reasoning_display = ReasoningOff | RawIfAvailable

definition reasoning_on_words :: "string list" where
  "reasoning_on_words =
     [''on'', ''raw'', ''raw-if-available'', ''raw_if_available'', ''thinking'', ''thinking-chain'',
      ''thinking_chain'', ''reasoning'']"

definition reasoning_from_pref :: "string option \<Rightarrow> reasoning_display" where
  "reasoning_from_pref v =
     (if to_ascii_lowercase (trim (case v of Some s \<Rightarrow> s | None \<Rightarrow> [])) \<in> set reasoning_on_words
      then RawIfAvailable else ReasoningOff)"

definition reasoning_from_command_arg :: "string \<Rightarrow> reasoning_display option" where
  "reasoning_from_command_arg v =
     (let w = to_ascii_lowercase (trim v) in
      if w \<in> set reasoning_on_words then Some RawIfAvailable
      else if w \<in> {''off'', ''none'', ''false''} then Some ReasoningOff
      else None)"

fun reasoning_as_pref :: "reasoning_display \<Rightarrow> string" where
  "reasoning_as_pref ReasoningOff = ''off''"
| "reasoning_as_pref RawIfAvailable = ''raw-if-available''"

definition REASONING_PREF_KEY :: string where
  "REASONING_PREF_KEY = ''reasoning_display''"

section \<open>Profiles\<close>

record cli_capabilities =
  cap_session :: bool
  cap_model_switch :: bool
  cap_json_output :: bool
  cap_harness :: bool
  cap_tools :: bool

definition capabilities :: "cli_profile \<Rightarrow> cli_capabilities" where
  "capabilities p =
     (case p of
        Custom _ _ json _ _ \<Rightarrow>
          \<lparr>cap_session = False, cap_model_switch = False, cap_json_output = json,
           cap_harness = False, cap_tools = False\<rparr>
      | Astra _ _ _ _ \<Rightarrow>
          \<lparr>cap_session = True, cap_model_switch = True, cap_json_output = True,
           cap_harness = True, cap_tools = True\<rparr>
      | _ \<Rightarrow>
          \<lparr>cap_session = True, cap_model_switch = True, cap_json_output = True,
           cap_harness = False, cap_tools = True\<rparr>)"

fun model_name :: "cli_profile \<Rightarrow> string option" where
  "model_name (Astra _ m _ _) = m"
| "model_name (Claude _ m _ _ _ _) = m"
| "model_name (Copilot _ m _ _ _ _ _ _) = m"
| "model_name (Codex _ m _ _ _ _ _ _) = m"
| "model_name (Custom _ _ _ _ _) = None"

fun reasoning_effort :: "cli_profile \<Rightarrow> string option" where
  "reasoning_effort (Codex _ _ effort _ _ _ _ _) = effort"
| "reasoning_effort _ = None"

fun is_codex :: "cli_profile \<Rightarrow> bool" where
  "is_codex (Codex _ _ _ _ _ _ _ _) = True"
| "is_codex _ = False"

definition base_profile_for_model_probe :: "('s, 't, 'f) command_context \<Rightarrow> cli_profile" where
  "base_profile_for_model_probe ctx =
     (if CliProfile_name (cc_default_cli ctx) = cli_name ctx then cc_default_cli ctx
      else case find (\<lambda>(n, p). CliProfile_name p = cli_name ctx) (cc_profiles ctx) of
        Some (n, p) \<Rightarrow> p
      | None \<Rightarrow> cc_cli ctx)"

end
