(* ===== verification/Harness.thy ===== *)
theory Harness
  imports Json
begin

text \<open>
  The harness snapshots of astra shown by \<open>/inspect\<close>, \<open>/audit\<close> and \<open>/status\<close> (\<open>commands.rs\<close>):
  read from JSON, and for the audit the newest snapshot of each of the last ten turns. \<open>get\<close> is
  the text an HTTP request to astra answers with, \<open>de\<close> \<open>serde_json\<close>'s reader, \<open>f32_of\<close> reads a
  number as \<open>f32\<close>, \<open>near_limit\<close> is the comparison of a share with 0.85.
\<close>

record 'f harness_snapshot =
  hs_session_id :: string
  hs_turn_number :: nat
  hs_model :: "string option"
  hs_context_utilization :: "'f option"
  hs_context_message_count :: nat
  hs_context_total_tokens :: "nat option"
  hs_turns_used :: nat
  hs_turns_limit :: "nat option"
  hs_tokens_used :: nat
  hs_tokens_prompt :: nat
  hs_tokens_completion :: nat
  hs_tokens_cache_read :: nat
  hs_elapsed_ms :: nat
  hs_tool_calls :: nat
  hs_unique_tools :: "string list"
  hs_last_tool :: "string option"
  hs_consecutive_same_tool :: nat
  hs_delegations :: nat
  hs_consecutive_errors :: nat

text \<open>\<open>as u32\<close> keeps the low 32 bits.\<close>

definition as_u32 :: "nat \<Rightarrow> nat" where
  "as_u32 n = n mod 2 ^ 32"

definition u64_or_0 :: "json \<Rightarrow> string \<Rightarrow> nat" where
  "u64_or_0 v k = (case as_u64 (jfield v k) of Some n \<Rightarrow> n | None \<Rightarrow> 0)"

definition parse_harness_snapshot :: "(json \<Rightarrow> 'f option) \<Rightarrow> json \<Rightarrow> string \<Rightarrow> 'f harness_snapshot" where
  "parse_harness_snapshot f32_of v session_id =
     \<lparr>hs_session_id = (case as_str (jfield v ''session_id'') of Some s \<Rightarrow> s | None \<Rightarrow> session_id),
      hs_turn_number = as_u32 (u64_or_0 v ''turn_number''),
      hs_model = as_str (jfield v ''model''),
      hs_context_utilization = f32_of (jfield v ''context_utilization''),
      hs_context_message_count = as_u32 (u64_or_0 v ''context_message_count''),
      hs_context_total_tokens = map_option as_u32 (as_u64 (jfield v ''context_total_tokens'')),
      hs_turns_used = as_u32 (u64_or_0 v ''turns_used''),
      hs_turns_limit = map_option as_u32 (as_u64 (jfield v ''turns_limit'')),
      hs_tokens_used = u64_or_0 v ''tokens_used_session'',
      hs_tokens_prompt = u64_or_0 v ''tokens_prompt'',
      hs_tokens_completion = u64_or_0 v ''tokens_completion'',
      hs_tokens_cache_read = u64_or_0 v ''tokens_cache_read'',
      hs_elapsed_ms = u64_or_0 v ''elapsed_millis'',
      hs_tool_calls = as_u32 (u64_or_0 v ''tool_calls_this_session''),
      hs_unique_tools =
        (case as_array (jfield v ''unique_tools_used'') of
           Some vs \<Rightarrow> List.map_filter as_str vs | None \<Rightarrow> []),
      hs_last_tool = as_str (jfield v ''last_tool_called''),
      hs_consecutive_same_tool = as_u32 (u64_or_0 v ''consecutive_same_tool''),
      hs_delegations = as_u32 (u64_or_0 v ''delegations_this_turn''),
      hs_consecutive_errors = as_u32 (u64_or_0 v ''consecutive_errors'')\<rparr>"

definition fetch_harness_snapshot ::
  "(string \<Rightarrow> string option) \<Rightarrow> (string \<Rightarrow> json option) \<Rightarrow> (json \<Rightarrow> 'f option) \<Rightarrow> string \<Rightarrow>
   'f harness_snapshot option" where
  "fetch_harness_snapshot get de f32_of session_id =
     map_option (\<lambda>v. parse_harness_snapshot f32_of v session_id)
       (Option.bind (get (''/sessions/'' @ session_id @ ''/harness/snapshot'')) de)"

definition fetch_harness_history ::
  "(string \<Rightarrow> string option) \<Rightarrow> (string \<Rightarrow> json option) \<Rightarrow> (json \<Rightarrow> 'f option) \<Rightarrow> string \<Rightarrow> nat \<Rightarrow>
   'f harness_snapshot list" where
  "fetch_harness_history get de f32_of session_id n =
     (case Option.bind (Option.bind (get (''/sessions/'' @ session_id @ ''/harness/history?n='' @ show_nat n)) de)
             as_array of
        Some vs \<Rightarrow> map (\<lambda>v. parse_harness_snapshot f32_of v session_id) vs
      | None \<Rightarrow> [])"

section \<open>What is shown\<close>

datatype tool_note = NoTools | Redacted | Tools string

definition tool_summary_of :: "'f harness_snapshot \<Rightarrow> tool_note" where
  "tool_summary_of h =
     (if hs_unique_tools h = [] then (if 0 < hs_tool_calls h then Redacted else NoTools)
      else Tools (join '', '' (take 5 (hs_unique_tools h))))"

datatype 'f harness_warning = RepeatedTool nat "string option" | NearLimit 'f | ErrorsInARow nat

definition harness_warnings :: "('f \<Rightarrow> bool) \<Rightarrow> 'f harness_snapshot \<Rightarrow> 'f harness_warning list" where
  "harness_warnings near_limit h =
     (if 2 < hs_consecutive_same_tool h then [RepeatedTool (hs_consecutive_same_tool h) (hs_last_tool h)]
      else []) @
     (case hs_context_utilization h of Some u \<Rightarrow> if near_limit u then [NearLimit u] else [] | None \<Rightarrow> []) @
     (if 1 < hs_consecutive_errors h then [ErrorsInARow (hs_consecutive_errors h)] else [])"

text \<open>\<open>entry(turn).or_insert(snapshot)\<close> on the map, kept in the order of its keys.\<close>

fun or_insert_turn :: "'f harness_snapshot \<Rightarrow> 'f harness_snapshot list \<Rightarrow> 'f harness_snapshot list" where
  "or_insert_turn h [] = [h]"
| "or_insert_turn h (x # xs) =
     (if hs_turn_number h = hs_turn_number x then x # xs
      else if hs_turn_number h < hs_turn_number x then h # x # xs
      else x # or_insert_turn h xs)"

definition latest_by_turn :: "'f harness_snapshot list \<Rightarrow> 'f harness_snapshot list" where
  "latest_by_turn history = fold or_insert_turn history []"

definition audit_turns :: "'f harness_snapshot list \<Rightarrow> 'f harness_snapshot list" where
  "audit_turns history = rev (take 10 (rev (latest_by_turn history)))"

section \<open>The audit\<close>

lemma or_insert_turn_set:
  "set (or_insert_turn h xs) =
    (if hs_turn_number h \<in> hs_turn_number ` set xs then set xs else insert h (set xs))"
  if "sorted_wrt (<) (map hs_turn_number xs)"
  using that by (induction xs) auto

lemma or_insert_turn_turns:
  "hs_turn_number ` set (or_insert_turn h xs) = insert (hs_turn_number h) (hs_turn_number ` set xs)"
  by (induction xs) auto

lemma or_insert_turn_sorted:
  "sorted_wrt (<) (map hs_turn_number xs) \<Longrightarrow> sorted_wrt (<) (map hs_turn_number (or_insert_turn h xs))"
proof (induction xs)
  case (Cons x xs)
  then have "sorted_wrt (<) (map hs_turn_number (or_insert_turn h xs))" by simp
  moreover have "\<forall>t \<in> set (map hs_turn_number (or_insert_turn h xs)).
      t = hs_turn_number h \<or> t \<in> hs_turn_number ` set xs"
    by (simp only: set_map or_insert_turn_turns) auto
  ultimately show ?case using Cons.prems by auto
qed simp

text \<open>The turns are kept in order, each with the snapshot that came first in the answer.\<close>

lemma latest_by_turn_correct:
  "sorted_wrt (<) (map hs_turn_number (latest_by_turn history)) \<and>
   (\<forall>h. h \<in> set (latest_by_turn history) \<longleftrightarrow>
      find (\<lambda>x. hs_turn_number x = hs_turn_number h) history = Some h)"
proof (induction history rule: rev_induct)
  case Nil
  then show ?case by (simp add: latest_by_turn_def)
next
  case (snoc x xs)
  let ?m = "latest_by_turn xs"
  have m: "latest_by_turn (xs @ [x]) = or_insert_turn x ?m" by (simp add: latest_by_turn_def)
  have turns: "t \<in> hs_turn_number ` set ?m \<longleftrightarrow> t \<in> hs_turn_number ` set xs" for t
  proof
    assume "t \<in> hs_turn_number ` set ?m"
    with snoc show "t \<in> hs_turn_number ` set xs" by (auto dest: find_in)
  next
    assume "t \<in> hs_turn_number ` set xs"
    then obtain h where "find (\<lambda>x. hs_turn_number x = t) xs = Some h"
      by (cases "find (\<lambda>x. hs_turn_number x = t) xs") (auto simp: find_None_iff)
    moreover from this have "hs_turn_number h = t" by (auto simp: find_Some_iff)
    ultimately show "t \<in> hs_turn_number ` set ?m" using snoc by auto
  qed
  have app: "find p (xs @ [x]) = (case find p xs of Some h \<Rightarrow> Some h | None \<Rightarrow> if p x then Some x else None)"
    for p by (induction xs) auto
  have none: "find (\<lambda>y. hs_turn_number y = t) xs = None \<longleftrightarrow> t \<notin> hs_turn_number ` set xs" for t
    by (auto simp: find_None_iff)
  show ?case
    using snoc or_insert_turn_sorted [of ?m x]
    by (auto simp: m or_insert_turn_set app turns none [symmetric] split: option.split)
       (auto simp: find_None_iff)
qed

end
