(* ===== verification/Workspaces.thy ===== *)
theory Workspaces
  imports Policies
begin

text \<open>
  Projects a chat can switch to (\<open>workspace.rs\<close>): discovery in the configured directories and the
  choice of one by name. A path is a string; the file system is a record of what it answers. A
  result \<open>None\<close> where a project is read is the panic of a slice inside a character.
\<close>

record project_info =
  pj_name :: string
  pj_path :: string
  pj_branch :: "string option"
  pj_has_changes :: bool

text \<open>\<open>fs_entries\<close> lists the paths in a directory with their last components; \<open>fs_dirty\<close> says whether
  \<open>git status --porcelain\<close> prints anything there.\<close>

record file_system =
  fs_home :: string
  fs_is_dir :: "string \<Rightarrow> bool"
  fs_exists :: "string \<Rightarrow> bool"
  fs_read :: "string \<Rightarrow> string option"
  fs_entries :: "string \<Rightarrow> (string \<times> string) list option"
  fs_dirty :: "string \<Rightarrow> bool"

definition read_git_branch :: "file_system \<Rightarrow> string \<Rightarrow> string option option" where
  "read_git_branch fs repo =
     (case fs_read fs (repo @ ''/.git/HEAD'') of
        None \<Rightarrow> Some None
      | Some content \<Rightarrow>
          (let trimmed = trim content in
           case strip_prefix ''ref: refs/heads/'' trimmed of
             Some branch \<Rightarrow> Some (Some branch)
           | None \<Rightarrow>
               if 8 \<le> length trimmed
               then (if is_char_boundary trimmed 8 then Some (Some (take 8 trimmed)) else None)
               else Some None))"

definition read_project :: "file_system \<Rightarrow> string \<times> string \<Rightarrow> project_info option" where
  "read_project fs entry =
     map_option (\<lambda>branch. \<lparr>pj_name = snd entry, pj_path = fst entry, pj_branch = branch,
                          pj_has_changes = fs_dirty fs (fst entry)\<rparr>)
       (read_git_branch fs (fst entry))"

definition is_project :: "file_system \<Rightarrow> string \<times> string \<Rightarrow> bool" where
  "is_project fs entry \<longleftrightarrow> fs_is_dir fs (fst entry) \<and> fs_exists fs (fst entry @ ''/.git'')"

definition discover_projects :: "file_system \<Rightarrow> string \<Rightarrow> project_info list option" where
  "discover_projects fs base_dir =
     (let path = expand_home (fs_home fs) base_dir in
      if \<not> fs_is_dir fs path then Some []
      else map_option (sort_key pj_name)
        (all_some (map (read_project fs)
           (filter (is_project fs) (case fs_entries fs path of Some es \<Rightarrow> es | None \<Rightarrow> [])))))"

text \<open>\<open>dedup_by(|a, b| a.path == b.path)\<close>: of neighbours with one path the first stays.\<close>

fun dedup_by_path :: "project_info list \<Rightarrow> project_info list" where
  "dedup_by_path [] = []"
| "dedup_by_path [p] = [p]"
| "dedup_by_path (p # q # ps) =
     (if pj_path p = pj_path q then dedup_by_path (p # ps) else p # dedup_by_path (q # ps))"

definition discover_all_projects :: "file_system \<Rightarrow> string list \<Rightarrow> project_info list option" where
  "discover_all_projects fs dirs =
     map_option (\<lambda>found. dedup_by_path (sort_key pj_name (concat found)))
       (all_some (map (discover_projects fs) dirs))"

text \<open>\<open>lower\<close> is Unicode's lower case.\<close>

definition project_matches :: "(string \<Rightarrow> string) \<Rightarrow> string \<Rightarrow> project_info list \<Rightarrow> project_info list" where
  "project_matches lower arg projects =
     filter (\<lambda>p. eq_ignore_ascii_case (pj_name p) arg \<or> contains (lower (pj_name p)) (lower arg)) projects"

text \<open>The path a selector stands for, or the projects it does not decide between.\<close>

definition workspace_target ::
  "file_system \<Rightarrow> (string \<Rightarrow> string) \<Rightarrow> string \<Rightarrow> project_info list \<Rightarrow> project_info list + string" where
  "workspace_target fs lower arg projects =
     (case project_matches lower arg projects of
        [] \<Rightarrow> Inr (expand_home (fs_home fs) arg)
      | [p] \<Rightarrow> Inr (pj_path p)
      | ps \<Rightarrow> Inl ps)"

section \<open>Lemmas\<close>

lemma set_dedup_by_path: "p \<in> set (dedup_by_path ps) \<Longrightarrow> p \<in> set ps"
  by (induction ps rule: dedup_by_path.induct) (auto split: if_splits)

lemma dedup_by_path_paths: "pj_path ` set (dedup_by_path ps) = pj_path ` set ps"
  by (induction ps rule: dedup_by_path.induct) auto

lemma dedup_by_path_sorted: "sorted (map pj_name ps) \<Longrightarrow> sorted (map pj_name (dedup_by_path ps))"
  by (induction ps rule: dedup_by_path.induct) (auto dest!: set_dedup_by_path)

text \<open>A project whose name is part of another's cannot be chosen by its name: the selector matches
  both, also when it is the full name of the first.\<close>

lemma shadowed_name_is_ambiguous:
  assumes "p \<in> set projects" and "q \<in> set projects" and "p \<noteq> q"
    and "contains (lower (pj_name q)) (lower (pj_name p))"
  shows "\<exists>ps. workspace_target fs lower (pj_name p) projects = Inl ps"
proof -
  let ?ms = "project_matches lower (pj_name p) projects"
  have "p \<in> set ?ms" "q \<in> set ?ms" using assms by (auto simp: project_matches_def eq_ignore_ascii_case_def)
  with assms(3) show ?thesis
    by (auto simp: workspace_target_def split: list.split)
qed

end
