(* ===== verification/Command_Store.thy ===== *)
theory Command_Store
  imports Command_Base Harness Workspaces
begin

text \<open>
  The slash commands that read and change the gateway store: sessions, scheduled jobs, the model,
  the CLI profile, the reasoning display and the workspace of a chat (\<open>handle_command\<close>), and the
  replies of all commands.
\<close>

section \<open>Replies\<close>

text \<open>A listed request: number, icon status, tag, text, time, and whether it is a zombie.\<close>

record running_line =
  rl_number :: nat
  rl_status :: string
  rl_tag :: string
  rl_text :: string
  rl_time :: string
  rl_zombie :: bool

datatype session_reply =
    SessionWasReset string | CurrentSession string string
  | NoCurrentSession string "(string \<times> string) list" | NoActiveSession
  | CodexSessions codex_session_page "string option" | CatalogFailed catalog_error
  | NoSessions string | SessionList string "(bool \<times> string \<times> string) list" | SessionListUsage
  | PrefixTooShort | SwitchedTo string | NoSuchSession string | AmbiguousSession string | SessionUsage

datatype job_reply =
    NoJobs | JobList "(bool \<times> string \<times> string \<times> string) list" | CronFormat
  | JobCreated string string string | AmbiguousJob string nat | JobDeleted | NoSuchJob | CronUsage
  | NoTasks | TaskList "(string \<times> string \<times> string option) list" | TaskCancelled | TaskUsage

datatype model_reply =
    ModelListFailed catalog_failure
  | ModelList bool "nat option" string "string option" "model_entry list"
  | ModelUsage | NoEffortHere | UnknownModel string | NoEffortForDefault | NoEffortInfo | NoEffortChoice
  | EffortUnsupported string string "string list" | ModelSwitched string "string option"

datatype profile_reply =
    ReasoningIs reasoning_display | ReasoningUsage | ReasoningSet reasoning_display
  | CliInfo string cli_capabilities "string option" reasoning_display
      "(string \<times> string \<times> cli_capabilities \<times> cli_availability option) list"
  | CliUsage | CliSwitched string string cli_capabilities "reasoning_display option"
  | NoSuchCli string "string list"
  | NoProjects | ProjectList "project_info list" | WorkspaceIs "string option"
  | AmbiguousProject "project_info list" | NoSuchDir string | WorkspaceSwitched string

datatype request_reply =
    NothingRunning | RunningList "running_line list" nat nat
  | NoTraces | TraceList "(string \<times> string \<times> string \<times> nat \<times> string) list"
  | NoSuchTrace string | NoEventsFor string
  | TraceEvents string "(int \<times> string \<times> string \<times> event_note) list"
  | NothingQueued | NoMatch string | AlreadyRuns string | WasCancelled string
  | RunsAlready | NothingToCancel | CannotCancel string

datatype interrupt_reply =
    NotRunning | HandedOver | StateChanged | BeingDelivered | Interrupted string bool
  | AlreadyTerminal string | NothingActive | Cleared nat nat nat
  | NothingStuck | Dismissed nat | DismissedOne string | OutOfRange nat nat
  | StuckList "(string \<times> string option) list"
  | NoApprovals | ApprovalUsage bool | ApprovalAnswered bool | ApprovalFailed string

datatype 'f report_reply =
    UsageReport "'f usage_summary" "'f usage_summary"
  | NoHarness | HarnessReport "'f harness_snapshot" | NoAudit | AuditReport "'f harness_snapshot list"
  | StatusReport "string option" "'f usage_summary option" "gateway_status_summary option"
      "'f harness_snapshot option"
  | GatewayReport string "string option" "(string \<times> string \<times> string) list"

datatype 'f reply =
    NeedsStore | NeedsTrace | Denied refusal | StoreFailed store_error | TraceFailed string
  | CompactUnsupported string | HelpText
  | OnSessions session_reply | OnJobs job_reply | OnModels model_reply | OnProfile profile_reply
  | OnRequests request_reply | OnInterrupts interrupt_reply | OnReports "'f report_reply"

text \<open>\<open>None\<close> of the source is \<open>NotHandled\<close>: the text goes to the CLI.\<close>

datatype 'f outcome = NotHandled | Reply "'f reply" | Panics

abbreviation say :: "'f reply \<Rightarrow> ('s, 't, 'f outcome) command" where
  "say r \<equiv> Pair (Reply r)"

abbreviation say_sess :: "session_reply \<Rightarrow> ('s, 't, 'f outcome) command" where
  "say_sess r \<equiv> Pair (Reply (OnSessions r))"

abbreviation say_job :: "job_reply \<Rightarrow> ('s, 't, 'f outcome) command" where
  "say_job r \<equiv> Pair (Reply (OnJobs r))"

abbreviation say_model :: "model_reply \<Rightarrow> ('s, 't, 'f outcome) command" where
  "say_model r \<equiv> Pair (Reply (OnModels r))"

abbreviation say_prof :: "profile_reply \<Rightarrow> ('s, 't, 'f outcome) command" where
  "say_prof r \<equiv> Pair (Reply (OnProfile r))"

abbreviation say_req :: "request_reply \<Rightarrow> ('s, 't, 'f outcome) command" where
  "say_req r \<equiv> Pair (Reply (OnRequests r))"

abbreviation say_intr :: "interrupt_reply \<Rightarrow> ('s, 't, 'f outcome) command" where
  "say_intr r \<equiv> Pair (Reply (OnInterrupts r))"

abbreviation say_rep :: "'f report_reply \<Rightarrow> ('s, 't, 'f outcome) command" where
  "say_rep r \<equiv> Pair (Reply (OnReports r))"

definition sliced :: "('a \<Rightarrow> 'f reply) \<Rightarrow> 'a option \<Rightarrow> 'f outcome" where
  "sliced f x = (case x of Some a \<Rightarrow> Reply (f a) | None \<Rightarrow> Panics)"

text \<open>What a command takes from outside.\<close>

record 'f command_env =
  ce_naive :: "string \<Rightarrow> int option"
  ce_rfc3339 :: "string \<Rightarrow> int option"
  ce_lower :: "string \<Rightarrow> string"
  ce_today :: string
  ce_ser :: "json \<Rightarrow> string"
  ce_de :: "string \<Rightarrow> json option"
  ce_f32 :: "json \<Rightarrow> 'f option"
  ce_no_usage :: "'f usage_summary"
  ce_read_file :: "string \<Rightarrow> string option"
  ce_session_index :: "string option"
  ce_uuid :: string
  ce_models_key :: "string option"
  ce_models_fetched :: "catalog_failure + model_entry list"
  ce_now :: nat
  ce_fs :: file_system
  ce_project_dirs :: "string list"
  ce_canonical :: "string \<Rightarrow> string + string list"
  ce_canonical_text :: "string \<Rightarrow> string option"
  ce_http :: "string \<Rightarrow> string option"
  ce_approval :: "nat \<Rightarrow> app_proc \<Rightarrow> (request_error + json) \<times> app_proc"

definition with_store ::
  "('s, 't, 'f) command_context \<Rightarrow> (('s, 'f) command_store \<Rightarrow> ('s, 't, 'f outcome) command) \<Rightarrow>
   ('s, 't, 'f outcome) command" where
  "with_store ctx k = (case cc_store ctx of None \<Rightarrow> say NeedsStore | Some st \<Rightarrow> k st)"

definition with_trace ::
  "('s, 't, 'f) command_context \<Rightarrow> ('t trace_repo \<Rightarrow> ('s, 't, 'f outcome) command) \<Rightarrow>
   ('s, 't, 'f outcome) command" where
  "with_trace ctx k = (case cc_trace_repo ctx of None \<Rightarrow> say NeedsTrace | Some repo \<Rightarrow> k repo)"

definition when_allowed ::
  "('s, 't, 'f) command_context \<Rightarrow> action_capability \<Rightarrow> ('s, 't, 'f outcome) command \<Rightarrow>
   ('s, 't, 'f outcome) command" where
  "when_allowed ctx capability k =
     (case slash_denial ctx capability of Some d \<Rightarrow> say (Denied d) | None \<Rightarrow> k)"

section \<open>Sessions\<close>

definition new_command :: "('s, 't, 'f) command_context \<Rightarrow> ('s, 't, 'f outcome) command" where
  "new_command ctx =
     when_allowed ctx SessionMutation (with_store ctx (\<lambda>st.
       scomp (on_store (cd_reset_session st (cc_platform ctx) (cc_chat_id ctx) (cli_name ctx))) (\<lambda>r.
       case r of Inr _ \<Rightarrow> say_sess (SessionWasReset (cli_name ctx)) | Inl e \<Rightarrow> say (StoreFailed e))))"

fun sessions_elsewhere ::
  "('s, 't, 'f) command_context \<Rightarrow> ('s, 'f) command_store \<Rightarrow> string list \<Rightarrow>
   ('s, 't, (string \<times> string) list) command" where
  "sessions_elsewhere ctx st [] = Pair []"
| "sessions_elsewhere ctx st (name # names) =
     scomp (on_store (cd_get_current_session st (cc_platform ctx) (cc_chat_id ctx) name)) (\<lambda>r.
     scomp (sessions_elsewhere ctx st names) (\<lambda>found.
     Pair ((case r of Inr (Some sid) \<Rightarrow> [(name, take_chars 8 sid)] | _ \<Rightarrow> []) @ found)))"

definition session_current :: "('s, 't, 'f) command_context \<Rightarrow> ('s, 't, 'f outcome) command" where
  "session_current ctx =
     with_store ctx (\<lambda>st.
       scomp (on_store (cd_get_current_session st (cc_platform ctx) (cc_chat_id ctx) (cli_name ctx))) (\<lambda>r.
       case ok_flatten r of
         Some sid \<Rightarrow> say_sess (CurrentSession (cli_name ctx) sid)
       | None \<Rightarrow>
           scomp (sessions_elsewhere ctx st
             ((let d = CliProfile_name (cc_default_cli ctx) in if d \<noteq> cli_name ctx then [d] else []) @
              filter (\<lambda>n. n \<noteq> cli_name ctx) (map fst (cc_profiles ctx)))) (\<lambda>found.
           say_sess (NoCurrentSession (cli_name ctx) found))))"

text \<open>The page asked for: the first one by default.\<close>

definition requested_page :: "string \<Rightarrow> nat option" where
  "requested_page arg =
     (let v = trim (case strip_prefix ''list'' arg of Some r \<Rightarrow> r | None \<Rightarrow> []) in
      if v = [] then Some 1
      else case parse_u32 v of Some p \<Rightarrow> if 0 < p then Some p else None | None \<Rightarrow> None)"

definition session_list ::
  "('s, 't, 'f) command_context \<Rightarrow> 'f command_env \<Rightarrow> string \<Rightarrow> ('s, 't, 'f outcome) command" where
  "session_list ctx env arg =
     (case requested_page arg of
        None \<Rightarrow> say_sess SessionListUsage
      | Some p \<Rightarrow>
          if is_codex (cc_cli ctx) then
            scomp (on_catalog (list_sessions_from (ce_de env) (ce_read_file env) (ce_session_index env) p)) (\<lambda>r.
            case r of
              Inl e \<Rightarrow> say_sess (CatalogFailed e)
            | Inr page \<Rightarrow> with_store ctx (\<lambda>st.
                scomp (on_store (cd_get_current_session st (cc_platform ctx) (cc_chat_id ctx) (cli_name ctx))) (\<lambda>c.
                say_sess (CodexSessions page (ok_flatten c)))))
          else with_store ctx (\<lambda>st.
            scomp (on_store (cd_list_sessions st (cc_platform ctx) (cc_chat_id ctx) (cli_name ctx))) (\<lambda>r.
            if or_empty r = [] then say_sess (NoSessions (cli_name ctx))
            else Pair (sliced (OnSessions \<circ> SessionList (cli_name ctx))
              (all_some (map (\<lambda>x. map_option (\<lambda>short. (sr_is_current x, short, sr_created_at x))
                 (first_8_bytes (sr_session_id x))) (or_empty r)))))))"

text \<open>The reply to a switch, which shows the beginning of the id.\<close>

definition switch_reply :: "string \<Rightarrow> string \<Rightarrow> store_error + bool \<Rightarrow> 'f outcome" where
  "switch_reply target sid r =
     (case r of
        Inr True \<Rightarrow> sliced (OnSessions \<circ> SwitchedTo) (first_8_bytes sid)
      | Inr False \<Rightarrow> Reply (OnSessions (NoSuchSession target))
      | Inl e \<Rightarrow> Reply (StoreFailed e))"

definition adopt_codex_session ::
  "('s, 't, 'f) command_context \<Rightarrow> ('s, 'f) command_store \<Rightarrow> string \<Rightarrow> ('s, 't, 'f outcome) command" where
  "adopt_codex_session ctx st target =
     scomp (on_catalog (catalog_find_by_prefix target)) (\<lambda>r.
     case r of
       Inl e \<Rightarrow> say_sess (CatalogFailed e)
     | Inr [] \<Rightarrow> say_sess (NoSuchSession target)
     | Inr [sid] \<Rightarrow>
         scomp (on_store (cd_set_current_session st (cc_platform ctx) (cc_chat_id ctx) (cc_user_id ctx) sid
           (cli_name ctx))) (\<lambda>w.
         Pair (case w of
           Inr _ \<Rightarrow> sliced (OnSessions \<circ> SwitchedTo) (first_8_bytes sid)
         | Inl e \<Rightarrow> Reply (StoreFailed e)))
     | Inr _ \<Rightarrow> say_sess (AmbiguousSession target))"

definition switch_by_prefix ::
  "('s, 't, 'f) command_context \<Rightarrow> ('s, 'f) command_store \<Rightarrow> string \<Rightarrow> ('s, 't, 'f outcome) command" where
  "switch_by_prefix ctx st target =
     scomp (on_store (cd_find_sessions_by_prefix st (cc_platform ctx) (cc_chat_id ctx) (cli_name ctx) target)) (\<lambda>r.
     case r of
       Inl e \<Rightarrow> say (StoreFailed e)
     | Inr [] \<Rightarrow>
         if is_codex (cc_cli ctx) then adopt_codex_session ctx st target else say_sess (NoSuchSession target)
     | Inr [sid] \<Rightarrow>
         scomp (on_store (cd_switch_session st (cc_platform ctx) (cc_chat_id ctx) (cli_name ctx) sid)) (\<lambda>w.
         Pair (switch_reply target sid w))
     | Inr _ \<Rightarrow> say_sess (AmbiguousSession target))"

definition session_switch ::
  "('s, 't, 'f) command_context \<Rightarrow> string \<Rightarrow> ('s, 't, 'f outcome) command" where
  "session_switch ctx selector =
     when_allowed ctx SessionMutation (
       let target = normalize_session_selector selector in
       if char_count target < 8 then say_sess PrefixTooShort
       else with_store ctx (\<lambda>st.
         scomp (on_store (cd_switch_session st (cc_platform ctx) (cc_chat_id ctx) (cli_name ctx) target)) (\<lambda>r.
         case r of
           Inr True \<Rightarrow> Pair (sliced (OnSessions \<circ> SwitchedTo) (first_8_bytes target))
         | Inl e \<Rightarrow> say (StoreFailed e)
         | Inr False \<Rightarrow> switch_by_prefix ctx st target)))"

definition session_command ::
  "('s, 't, 'f) command_context \<Rightarrow> 'f command_env \<Rightarrow> string \<Rightarrow> ('s, 't, 'f outcome) command" where
  "session_command ctx env arg =
     (if arg = [] \<or> arg = ''current'' then session_current ctx
      else if arg = ''list'' \<or> starts_with arg ''list '' then session_list ctx env arg
      else case or_else (strip_prefix ''switch '' arg) (strip_prefix ''sw '' arg) of
        Some target \<Rightarrow> session_switch ctx target
      | None \<Rightarrow> say_sess SessionUsage)"

section \<open>Scheduled jobs\<close>

definition job_line :: "cron_job_record \<Rightarrow> (bool \<times> string \<times> string \<times> string) option" where
  "job_line j = map_option (\<lambda>short. (cr_enabled j, short, cr_cron_expr j, cr_description j))
     (first_8_bytes (cr_job_id j))"

definition cron_list :: "('s, 't, 'f) command_context \<Rightarrow> ('s, 't, 'f outcome) command" where
  "cron_list ctx =
     with_store ctx (\<lambda>st.
       scomp (on_store (cd_list_cron_jobs st (cc_platform ctx) (cc_chat_id ctx))) (\<lambda>r.
       if or_empty r = [] then say_job NoJobs
       else Pair (sliced (OnJobs \<circ> JobList) (all_some (map job_line (or_empty r))))))"

definition cron_add ::
  "('s, 't, 'f) command_context \<Rightarrow> 'f command_env \<Rightarrow> string \<Rightarrow> ('s, 't, 'f outcome) command" where
  "cron_add ctx env rest =
     when_allowed ctx CronMutation (
       case parse_cron_add rest of
         None \<Rightarrow> say_job CronFormat
       | Some (expr, message) \<Rightarrow> with_store ctx (\<lambda>st.
           scomp (on_store (cd_create_cron_job st
             \<lparr>cj_job_id = ce_uuid env, cj_platform = cc_platform ctx, cj_chat_id = cc_chat_id ctx,
              cj_user_id = cc_user_id ctx, cj_cron_expr = expr, cj_message = message,
              cj_description = message\<rparr>)) (\<lambda>r.
           Pair (case r of
             Inr _ \<Rightarrow> sliced (\<lambda>short. OnJobs (JobCreated short expr message)) (slice_to (ce_uuid env) 8)
           | Inl e \<Rightarrow> Reply (StoreFailed e)))))"

definition delete_reply :: "job_reply \<Rightarrow> store_error + bool \<Rightarrow> 'f reply" where
  "delete_reply deleted r =
     (case r of Inr True \<Rightarrow> OnJobs deleted | Inr False \<Rightarrow> OnJobs NoSuchJob | Inl e \<Rightarrow> StoreFailed e)"

definition cron_del ::
  "('s, 't, 'f) command_context \<Rightarrow> string \<Rightarrow> ('s, 't, 'f outcome) command" where
  "cron_del ctx arg =
     when_allowed ctx CronMutation (
       let i = trim arg in with_store ctx (\<lambda>st.
         scomp (on_store (cd_list_cron_jobs st (cc_platform ctx) (cc_chat_id ctx))) (\<lambda>r.
         let matches = filter (\<lambda>j. starts_with (cr_job_id j) i) (or_empty r) in
         if 1 < length matches then say_job (AmbiguousJob i (length matches))
         else
           scomp (on_store (cd_delete_cron_job st
             (case first_row matches of Some j \<Rightarrow> cr_job_id j | None \<Rightarrow> i))) (\<lambda>w.
           say (delete_reply JobDeleted w)))))"

definition cron_command ::
  "('s, 't, 'f) command_context \<Rightarrow> 'f command_env \<Rightarrow> string \<Rightarrow> ('s, 't, 'f outcome) command" where
  "cron_command ctx env arg =
     (if arg = [] \<or> arg = ''list'' then cron_list ctx
      else case strip_prefix ''add '' arg of
        Some rest \<Rightarrow> cron_add ctx env rest
      | None \<Rightarrow>
          (case or_else (strip_prefix ''del '' arg) (strip_prefix ''rm '' arg) of
             Some i \<Rightarrow> cron_del ctx i
           | None \<Rightarrow> say_job CronUsage))"

text \<open>A listed task; one that runs once has no expression.\<close>

definition task_line :: "cron_job_record \<Rightarrow> (string \<times> string \<times> string option) option" where
  "task_line j = map_option (\<lambda>short. (short, cr_description j,
       if cr_cron_expr j = ''once'' then None else Some (cr_cron_expr j)))
     (first_8_bytes (cr_job_id j))"

definition task_list :: "('s, 't, 'f) command_context \<Rightarrow> ('s, 't, 'f outcome) command" where
  "task_list ctx =
     (case cc_store ctx of
        None \<Rightarrow> say_job NoTasks
      | Some st \<Rightarrow>
          scomp (on_store (cd_list_cron_jobs st (cc_platform ctx) (cc_chat_id ctx))) (\<lambda>r.
          if or_empty r = [] then say_job NoTasks
          else Pair (sliced (OnJobs \<circ> TaskList) (all_some (map task_line (or_empty r))))))"

definition task_cancel :: "('s, 't, 'f) command_context \<Rightarrow> string \<Rightarrow> ('s, 't, 'f outcome) command" where
  "task_cancel ctx arg =
     (case cc_store ctx of
        None \<Rightarrow> say_job NoSuchJob
      | Some st \<Rightarrow>
          scomp (on_store (cd_list_cron_jobs st (cc_platform ctx) (cc_chat_id ctx))) (\<lambda>r.
          case find (\<lambda>j. starts_with (cr_job_id j) (trim arg)) (or_empty r) of
            None \<Rightarrow> say_job NoSuchJob
          | Some j \<Rightarrow>
              scomp (on_store (cd_delete_cron_job st (cr_job_id j))) (\<lambda>w. say (delete_reply TaskCancelled w))))"

definition task_command ::
  "('s, 't, 'f) command_context \<Rightarrow> string \<Rightarrow> ('s, 't, 'f outcome) command" where
  "task_command ctx arg =
     (if arg = [] \<or> arg = ''list'' then task_list ctx
      else case or_else (or_else (strip_prefix ''cancel '' arg) (strip_prefix ''rm '' arg))
                        (strip_prefix ''del '' arg) of
        Some i \<Rightarrow> task_cancel ctx i
      | None \<Rightarrow> say_job TaskUsage)"

end
