(* ===== verification/Command_Profile.thy ===== *)
theory Command_Profile
  imports Command_Store
begin

text \<open>
  The commands that change what a chat runs with: \<open>/model\<close>, \<open>/reasoning\<close>, \<open>/cli\<close> and \<open>/ws\<close>. Each
  stores one preference of the user, after the checks of the source in their order.
\<close>

section \<open>The model\<close>

definition codex_selection_json :: "string option \<Rightarrow> string option \<Rightarrow> json" where
  "codex_selection_json model effort =
     JObj [(''model'', opt_json JStr model), (''effort'', opt_json JStr effort)]"

text \<open>The effort that goes with a chosen Codex model, or the refusal of the one asked for.\<close>

definition codex_effort ::
  "string option \<Rightarrow> model_entry list \<Rightarrow> resolved_model \<Rightarrow> model_reply + string option" where
  "codex_effort requested entries resolved =
     (case resolved of
        ResolvedDefault \<Rightarrow> if requested \<noteq> None then Inl NoEffortForDefault else Inr None
      | ResolvedId i \<Rightarrow>
          (let entry = find (\<lambda>e. me_full_id e = Some i) entries in
           case requested of
             None \<Rightarrow> Inr (Option.bind entry me_default_effort)
           | Some wanted_effort \<Rightarrow>
               (case entry of
                  None \<Rightarrow> Inl NoEffortInfo
                | Some e \<Rightarrow>
                    if me_reasoning_efforts e = [] then Inl NoEffortChoice
                    else if \<not> supports_effort e wanted_effort
                    then Inl (EffortUnsupported i wanted_effort (me_reasoning_efforts e))
                    else Inr (Some (to_ascii_lowercase wanted_effort))))
      | Unrecognized \<Rightarrow> Inr None)"

definition chosen_display :: "resolved_model \<Rightarrow> model_entry list \<Rightarrow> string" where
  "chosen_display resolved entries =
     (case resolved of ResolvedId i \<Rightarrow> display_model_name i entries | _ \<Rightarrow> DEFAULT_LABEL)"

text \<open>Writing the choice down: for Codex with its effort under one key of the chat, else the id, empty
  for the default, under the key of the profile and the chat.\<close>

definition store_model_choice ::
  "('s, 't, 'f) command_context \<Rightarrow> 'f command_env \<Rightarrow> ('s, 'f) command_store \<Rightarrow> resolved_model \<Rightarrow>
   string option \<Rightarrow> ('s, 't, store_error + unit) command" where
  "store_model_choice ctx env st resolved effort =
     on_store (
       if is_codex (cc_cli ctx) then
         cd_set_user_preference st (cc_platform ctx) (cc_user_id ctx)
           (codex_model_selection_preference_key (cc_chat_id ctx))
           (ce_ser env (case resolved of
              ResolvedId i \<Rightarrow> codex_selection_json (Some i) effort
            | _ \<Rightarrow> codex_selection_json None None))
       else
         cd_set_user_preference st (cc_platform ctx) (cc_user_id ctx)
           (model_preference_key (cli_name ctx) (Some (cc_chat_id ctx)))
           (case resolved of ResolvedId i \<Rightarrow> i | _ \<Rightarrow> []))"

definition choose_model ::
  "('s, 't, 'f) command_context \<Rightarrow> 'f command_env \<Rightarrow> string \<Rightarrow> model_entry list \<Rightarrow>
   ('s, 't, 'f outcome) command" where
  "choose_model ctx env arg entries =
     (let words = split_whitespace arg;
          model_arg = (case first_row words of Some w \<Rightarrow> w | None \<Rightarrow> []);
          requested = first_row (drop 1 words)
      in if 2 < length words \<or> (\<not> is_codex (cc_cli ctx) \<and> requested \<noteq> None)
         then (if is_codex (cc_cli ctx) then say_model ModelUsage else say_model NoEffortHere)
         else
           let resolved = resolve_model_input model_arg entries in
           if resolved = Unrecognized then say_model (UnknownModel arg)
           else case (if is_codex (cc_cli ctx) then codex_effort requested entries resolved else Inr None) of
             Inl refused \<Rightarrow> say_model refused
           | Inr effort \<Rightarrow>
               (case cc_store ctx of
                  None \<Rightarrow> say_model (ModelSwitched (chosen_display resolved entries) effort)
                | Some st \<Rightarrow>
                    scomp (store_model_choice ctx env st resolved effort) (\<lambda>r.
                    case r of
                      Inl e \<Rightarrow> say (StoreFailed e)
                    | Inr _ \<Rightarrow> say_model (ModelSwitched (chosen_display resolved entries) effort))))"

text \<open>The list is fetched, or taken from the cache, before anything else.\<close>

definition model_command ::
  "('s, 't, 'f) command_context \<Rightarrow> 'f command_env \<Rightarrow> string \<Rightarrow> ('s, 't, 'f outcome) command" where
  "model_command ctx env arg s =
     (let refresh = eq_ignore_ascii_case arg ''refresh'' in
      case model_entries_for_context (ce_models_key env) (ce_models_fetched env) (ce_now env) arg refresh
             (st_models s) of
        (r, cache) \<Rightarrow>
          (case r of
             Inl e \<Rightarrow> say_model (ModelListFailed e)
           | Inr (entries, age) \<Rightarrow>
               if arg = [] \<or> refresh then
                 say_model (ModelList refresh age
                   (case model_name (cc_cli ctx) of
                      Some m \<Rightarrow> display_model_name m entries | None \<Rightarrow> DEFAULT_LABEL)
                   (reasoning_effort (cc_cli ctx)) entries)
               else when_allowed ctx ModelMutation (choose_model ctx env arg entries))
          (s\<lparr>st_models := cache\<rparr>))"

section \<open>Reasoning\<close>

definition reasoning_command ::
  "('s, 't, 'f) command_context \<Rightarrow> string \<Rightarrow> ('s, 't, 'f outcome) command" where
  "reasoning_command ctx arg =
     with_store ctx (\<lambda>st.
       if arg = [] then
         scomp (on_store (cd_get_user_preference st (cc_platform ctx) (cc_user_id ctx) REASONING_PREF_KEY)) (\<lambda>r.
         say_prof (ReasoningIs (reasoning_from_pref (ok_flatten r))))
       else case reasoning_from_command_arg arg of
         None \<Rightarrow> say_prof ReasoningUsage
       | Some mode \<Rightarrow>
           scomp (on_store (cd_set_user_preference st (cc_platform ctx) (cc_user_id ctx) REASONING_PREF_KEY
             (reasoning_as_pref mode))) (\<lambda>r.
           case r of Inl e \<Rightarrow> say (StoreFailed e) | Inr _ \<Rightarrow> say_prof (ReasoningSet mode)))"

section \<open>The CLI\<close>

text \<open>A preference, or nothing without a store.\<close>

definition preference_if_stored ::
  "('s, 't, 'f) command_context \<Rightarrow> string \<Rightarrow> ('s, 't, string option) command" where
  "preference_if_stored ctx key =
     (case cc_store ctx of
        None \<Rightarrow> Pair None
      | Some st \<Rightarrow>
          scomp (on_store (cd_get_user_preference st (cc_platform ctx) (cc_user_id ctx) key)) (\<lambda>r.
          Pair (ok_flatten r)))"

definition cli_info :: "('s, 't, 'f) command_context \<Rightarrow> ('s, 't, 'f outcome) command" where
  "cli_info ctx =
     scomp (preference_if_stored ctx ''workspace'') (\<lambda>workspace.
     scomp (preference_if_stored ctx REASONING_PREF_KEY) (\<lambda>pref.
     say_prof (CliInfo (cli_name ctx) (capabilities (cc_cli ctx)) workspace (reasoning_from_pref pref)
       (map (\<lambda>(name, p). (name, CliProfile_name p, capabilities p, map_of (cc_availability ctx) name))
          (cc_profiles ctx)))))"

definition set_reasoning_too ::
  "('s, 't, 'f) command_context \<Rightarrow> string \<Rightarrow> cli_profile \<Rightarrow> reasoning_display option \<Rightarrow>
   ('s, 't, 'f outcome) command" where
  "set_reasoning_too ctx name p mode =
     (let done_reply = say_prof (CliSwitched name (CliProfile_name p) (capabilities p) mode) in
      case mode of
        None \<Rightarrow> done_reply
      | Some m \<Rightarrow> with_store ctx (\<lambda>st.
          scomp (on_store (cd_set_user_preference st (cc_platform ctx) (cc_user_id ctx) REASONING_PREF_KEY
            (reasoning_as_pref m))) (\<lambda>r.
          case r of Inl e \<Rightarrow> say (StoreFailed e) | Inr _ \<Rightarrow> done_reply)))"

definition cli_switch ::
  "('s, 't, 'f) command_context \<Rightarrow> string \<Rightarrow> reasoning_display option \<Rightarrow> ('s, 't, 'f outcome) command" where
  "cli_switch ctx name mode =
     (case map_of (cc_profiles ctx) name of
        None \<Rightarrow> say_prof (NoSuchCli name (map fst (cc_profiles ctx)))
      | Some p \<Rightarrow>
          when_allowed ctx CliMutation (
            case cc_store ctx of
              None \<Rightarrow> set_reasoning_too ctx name p mode
            | Some st \<Rightarrow>
                scomp (on_store (cd_set_user_preference st (cc_platform ctx) (cc_user_id ctx) ''cli_profile'' name)) (\<lambda>r.
                case r of Inl e \<Rightarrow> say (StoreFailed e) | Inr _ \<Rightarrow> set_reasoning_too ctx name p mode)))"

definition cli_command ::
  "('s, 't, 'f) command_context \<Rightarrow> string \<Rightarrow> ('s, 't, 'f outcome) command" where
  "cli_command ctx arg =
     (if arg = [] then cli_info ctx
      else
        let words = split_whitespace arg;
            name = (case first_row words of Some w \<Rightarrow> w | None \<Rightarrow> [])
        in if 2 < length words then say_prof CliUsage
           else case first_row (drop 1 words) of
             None \<Rightarrow> cli_switch ctx name None
           | Some v \<Rightarrow>
               (case reasoning_from_command_arg v of
                  None \<Rightarrow> say_prof CliUsage
                | Some mode \<Rightarrow> cli_switch ctx name (Some mode)))"

section \<open>The workspace\<close>

definition workspace_switch ::
  "('s, 't, 'f) command_context \<Rightarrow> 'f command_env \<Rightarrow> ('s, 'f) command_store \<Rightarrow> string \<Rightarrow>
   ('s, 't, 'f outcome) command" where
  "workspace_switch ctx env st target =
     (if \<not> fs_is_dir (ce_fs env) target then say_prof (NoSuchDir target)
      else when_allowed ctx WorkspaceMutation (
        case workspace_allowed (ce_canonical env) (fs_home (ce_fs env)) (cc_policy ctx) target of
          Inl refused \<Rightarrow> say (Denied refused)
        | Inr _ \<Rightarrow>
            (let canonical = (case ce_canonical_text env target of Some c \<Rightarrow> c | None \<Rightarrow> target) in
             scomp (on_store (cd_set_user_preference st (cc_platform ctx) (cc_user_id ctx) ''workspace'' canonical))
               (\<lambda>r. case r of
                 Inr _ \<Rightarrow> say_prof (WorkspaceSwitched canonical)
               | Inl e \<Rightarrow> say (StoreFailed e)))))"

definition workspace_command ::
  "('s, 't, 'f) command_context \<Rightarrow> 'f command_env \<Rightarrow> string \<Rightarrow> ('s, 't, 'f outcome) command" where
  "workspace_command ctx env arg =
     (let found = discover_all_projects (ce_fs env) (ce_project_dirs env) in
      if arg = ''ls'' \<or> arg = ''list'' then
        (case found of
           None \<Rightarrow> Pair Panics
         | Some [] \<Rightarrow> say_prof NoProjects
         | Some ps \<Rightarrow> say_prof (ProjectList ps))
      else with_store ctx (\<lambda>st.
        if arg = [] then
          scomp (on_store (cd_get_user_preference st (cc_platform ctx) (cc_user_id ctx) ''workspace'')) (\<lambda>r.
          say_prof (WorkspaceIs (ok_flatten r)))
        else case found of
          None \<Rightarrow> Pair Panics
        | Some projects \<Rightarrow>
            (case workspace_target (ce_fs env) (ce_lower env) arg projects of
               Inl ps \<Rightarrow> say_prof (AmbiguousProject ps)
             | Inr target \<Rightarrow> workspace_switch ctx env st target)))"

end
