(* ===== verification/Command_Requests.thy ===== *)
theory Command_Requests
  imports Command_Store
begin

text \<open>
  The commands about the requests of a conversation: \<open>/running\<close>, \<open>/trace\<close>, \<open>/cancel\<close>, \<open>/esc\<close> with its
  alias \<open>/kill\<close>, and \<open>/retry\<close>.
\<close>

section \<open>Which request is meant\<close>

definition is_zombie :: "('s, 't, 'f) command_context \<Rightarrow> 'f command_env \<Rightarrow> active_request_summary \<Rightarrow> bool" where
  "is_zombie ctx env row \<longleftrightarrow>
     is_zombie_request (ce_naive env) (ce_rfc3339 env) (as_created_at row) (cc_gateway_start ctx)"

text \<open>A number in the list, an id or the beginning of one, or a part of the text.\<close>

definition pick_active_request ::
  "(string \<Rightarrow> string) \<Rightarrow> string \<Rightarrow> active_request_summary list \<Rightarrow> active_request_summary option" where
  "pick_active_request lower selector rows =
     (let numeric = (list_all is_digit selector \<and> selector \<noteq> []);
          by_id = find (selected selector) rows;
          by_text = find (\<lambda>r. contains (lower (as_text_preview r)) (lower selector)) rows
      in case (if numeric then parse_usize selector else None) of
           Some i \<Rightarrow>
             if 1 \<le> i \<and> i \<le> length rows then Some (rows ! (i - 1))
             else if length selector < 4 then None
             else or_else by_id by_text
         | None \<Rightarrow> if numeric \<and> length selector < 4 then None else or_else by_id by_text)"

definition resolve_active_request ::
  "('s, 't, 'f) command_context \<Rightarrow> 'f command_env \<Rightarrow> 't trace_repo \<Rightarrow> string \<Rightarrow>
   ('s, 't, active_request_summary option) command" where
  "resolve_active_request ctx env repo selector =
     scomp (on_trace (tr_list_active_requests repo (command_conversation ctx) 50)) (\<lambda>r.
     Pair (case r of Inl e \<Rightarrow> None | Inr rows \<Rightarrow> pick_active_request (ce_lower env) selector rows))"

definition resolve_trace_selector ::
  "('s, 't, 'f) command_context \<Rightarrow> 't trace_repo \<Rightarrow> string \<Rightarrow> ('s, 't, string option) command" where
  "resolve_trace_selector ctx repo selector =
     scomp (on_trace (tr_list_recent_traces repo (command_conversation ctx) 50)) (\<lambda>r.
     Pair (case r of
       Inl e \<Rightarrow> None
     | Inr traces \<Rightarrow>
         or_else (map_option ts_trace_id (find (\<lambda>t.
            ts_trace_id t = selector \<or> ts_request_id t = selector \<or>
            starts_with (ts_trace_id t) selector \<or> starts_with (ts_request_id t) selector) traces))
           (Some selector)))"

section \<open>Lists\<close>

definition running_line_of ::
  "('s, 't, 'f) command_context \<Rightarrow> 'f command_env \<Rightarrow> nat \<times> active_request_summary \<Rightarrow> running_line" where
  "running_line_of ctx env numbered =
     (case numbered of (i, row) \<Rightarrow>
       \<lparr>rl_number = i + 1, rl_status = display_status row, rl_tag = short_request_tag (as_trace_id row),
        rl_text = truncate_text (as_text_preview row) 40,
        rl_time = short_timestamp (ce_today env) (as_created_at row), rl_zombie = is_zombie ctx env row\<rparr>)"

definition reply_stuck :: "active_request_summary \<Rightarrow> bool" where
  "reply_stuck row \<longleftrightarrow> RequestStatus_is_terminal (as_status row) \<and> as_outbox_status row = Some ObFailed"

definition running_command ::
  "('s, 't, 'f) command_context \<Rightarrow> 'f command_env \<Rightarrow> ('s, 't, 'f outcome) command" where
  "running_command ctx env =
     with_trace ctx (\<lambda>repo.
       scomp (on_trace (tr_list_active_requests repo (command_conversation ctx) 20)) (\<lambda>r.
       let rows = or_empty r in
       if rows = [] then say_req NothingRunning
       else say_req (RunningList (map (running_line_of ctx env) (enumerate 0 rows))
              (length (filter (is_zombie ctx env) rows)) (length (filter reply_stuck rows)))))"

definition trace_list :: "('s, 't, 'f) command_context \<Rightarrow> 't trace_repo \<Rightarrow> ('s, 't, 'f outcome) command" where
  "trace_list ctx repo =
     scomp (on_trace (tr_list_recent_traces repo (command_conversation ctx) 10)) (\<lambda>r.
     if or_empty r = [] then say_req NoTraces
     else Pair (sliced (OnRequests \<circ> TraceList) (all_some (map (\<lambda>t.
       map_option (\<lambda>short. (short, RequestStatus_as_str (ts_status t), ts_text_preview t,
                            ts_event_count t, ts_created_at t))
         (short_id (ts_trace_id t))) (or_empty r)))))"

definition format_trace_events :: "string \<Rightarrow> gateway_event list \<Rightarrow> request_reply option" where
  "format_trace_events trace_id events =
     Option.bind (short_id trace_id) (\<lambda>short.
     map_option (TraceEvents short) (all_some (map (\<lambda>e.
       map_option (\<lambda>note. (ge_sequence e, GatewayEventKind_as_str (ge_kind e), ge_created_at e, note))
         (compact_event_payload (ge_kind e) (ge_payload e))) events)))"

definition trace_command ::
  "('s, 't, 'f) command_context \<Rightarrow> string \<Rightarrow> ('s, 't, 'f outcome) command" where
  "trace_command ctx arg =
     with_trace ctx (\<lambda>repo.
       if arg = [] \<or> arg = ''list'' then trace_list ctx repo
       else scomp (resolve_trace_selector ctx repo arg) (\<lambda>found.
         case found of
           None \<Rightarrow> say_req (NoSuchTrace arg)
         | Some trace_id \<Rightarrow>
             scomp (on_trace (tr_list_events_for_trace repo trace_id 80)) (\<lambda>r.
             if or_empty r = []
             then Pair (sliced (OnRequests \<circ> NoEventsFor) (short_id trace_id))
             else Pair (sliced OnRequests (format_trace_events trace_id (or_empty r))))))"

section \<open>Clearing a conversation\<close>

record sweep_counts =
  sc_cleared :: nat
  sc_interrupted :: nat
  sc_zombies :: nat

definition no_counts :: sweep_counts where
  "no_counts = \<lparr>sc_cleared = 0, sc_interrupted = 0, sc_zombies = 0\<rparr>"

definition count_fired :: "bool \<Rightarrow> sweep_counts \<Rightarrow> sweep_counts" where
  "count_fired fired n = (if fired then n\<lparr>sc_interrupted := sc_interrupted n + 1\<rparr> else n)"

text \<open>One turn of the loop of \<open>kill_or_cancel_all\<close>.\<close>

definition sweep_request ::
  "('s, 't, 'f) command_context \<Rightarrow> 'f command_env \<Rightarrow> 't trace_repo \<Rightarrow> string \<Rightarrow>
   active_request_summary \<Rightarrow> sweep_counts \<Rightarrow> ('s, 't, sweep_counts) command" where
  "sweep_request ctx env repo reason row n s =
     (if as_status row = RqAccepted then
        (scomp (on_trace (cancel_accepted_request repo (command_conversation ctx) (as_trace_id row) reason)) (\<lambda>r.
         let n1 = (case r of
              Inr (cancel_request_outcome.Cancelled _) \<Rightarrow> n\<lparr>sc_cleared := sc_cleared n + 1\<rparr>
            | Inr CancelNotFound \<Rightarrow> n\<lparr>sc_zombies := sc_zombies n + 1\<rparr>
            | _ \<Rightarrow> n)
         in scomp (fire_token ctx (as_trace_id row)) (\<lambda>fired. Pair (count_fired fired n1)))) s
      else if \<not> has_live_token ctx (as_trace_id row) s \<and> \<not> is_zombie ctx env row then (n, s)
      else
        (scomp (on_trace (tr_force_fail_request repo (as_trace_id row) reason)) (\<lambda>r.
         let n1 = (case r of
              Inr True \<Rightarrow> n\<lparr>sc_cleared := sc_cleared n + 1\<rparr>
            | Inr False \<Rightarrow> n\<lparr>sc_zombies := sc_zombies n + 1\<rparr>
            | Inl e \<Rightarrow> n)
         in scomp (fire_token ctx (as_trace_id row)) (\<lambda>fired. Pair (count_fired fired n1)))) s)"

fun sweep_requests ::
  "('s, 't, 'f) command_context \<Rightarrow> 'f command_env \<Rightarrow> 't trace_repo \<Rightarrow> string \<Rightarrow>
   active_request_summary list \<Rightarrow> sweep_counts \<Rightarrow> ('s, 't, sweep_counts) command" where
  "sweep_requests ctx env repo reason [] n = Pair n"
| "sweep_requests ctx env repo reason (row # rows) n =
     scomp (sweep_request ctx env repo reason row n) (\<lambda>n1. sweep_requests ctx env repo reason rows n1)"

definition kill_or_cancel_all ::
  "('s, 't, 'f) command_context \<Rightarrow> 'f command_env \<Rightarrow> 't trace_repo \<Rightarrow> string \<Rightarrow> ('s, 't, 'f outcome) command" where
  "kill_or_cancel_all ctx env repo reason =
     scomp (on_trace (tr_list_active_requests repo (command_conversation ctx) 200)) (\<lambda>r.
     case r of
       Inl e \<Rightarrow> say (TraceFailed e)
     | Inr rows \<Rightarrow>
         if rows = [] then say_intr NothingActive
         else scomp (sweep_requests ctx env repo reason rows no_counts) (\<lambda>n.
           say_intr (Cleared (sc_cleared n) (sc_interrupted n) (sc_zombies n))))"

section \<open>One request\<close>

definition cancel_row ::
  "('s, 't, 'f) command_context \<Rightarrow> 't trace_repo \<Rightarrow> active_request_summary \<Rightarrow> request_reply \<Rightarrow>
   ('s, 't, 'f outcome) command" where
  "cancel_row ctx repo row not_found =
     scomp (on_trace (cancel_accepted_request repo (command_conversation ctx) (as_trace_id row) ''cancelled by user'')) (\<lambda>r.
     case r of
       Inr (cancel_request_outcome.Cancelled x) \<Rightarrow> say_req (WasCancelled (truncate_text (as_text_preview x) 40))
     | Inr (AlreadyRunning x) \<Rightarrow> say_req RunsAlready
     | Inr CancelNotFound \<Rightarrow> say_req not_found
     | Inl e \<Rightarrow> say (TraceFailed e))"

definition cancel_command ::
  "('s, 't, 'f) command_context \<Rightarrow> 'f command_env \<Rightarrow> string \<Rightarrow> ('s, 't, 'f outcome) command" where
  "cancel_command ctx env arg =
     with_trace ctx (\<lambda>repo.
       if arg = ''all'' then kill_or_cancel_all ctx env repo ''cancelled by user via /cancel all''
       else if arg = [] then
         scomp (on_trace (tr_list_active_requests repo (command_conversation ctx) 20)) (\<lambda>r.
         case find is_cancellable (or_empty r) of
           None \<Rightarrow> say_req NothingQueued
         | Some row \<Rightarrow> cancel_row ctx repo row NothingToCancel)
       else
         scomp (resolve_active_request ctx env repo arg) (\<lambda>found.
         case found of
           None \<Rightarrow> say_req (NoMatch arg)
         | Some row \<Rightarrow>
             if \<not> is_cancellable row
             then say_req (AlreadyRuns (truncate_text (as_text_preview row) 30))
             else cancel_row ctx repo row (CannotCancel arg)))"

definition withdraw_row ::
  "('s, 't, 'f) command_context \<Rightarrow> 't trace_repo \<Rightarrow> active_request_summary \<Rightarrow> string \<Rightarrow>
   ('s, 't, 'f outcome) command" where
  "withdraw_row ctx repo row reason =
     scomp (on_trace (cancel_accepted_request repo (command_conversation ctx) (as_trace_id row) reason)) (\<lambda>r.
     case r of
       Inr (cancel_request_outcome.Cancelled x) \<Rightarrow> say_req (WasCancelled (truncate_text (as_text_preview x) 40))
     | Inr (AlreadyRunning x) \<Rightarrow> say_intr HandedOver
     | Inr CancelNotFound \<Rightarrow> say_intr StateChanged
     | Inl e \<Rightarrow> say (TraceFailed e))"

definition interrupt_row ::
  "('s, 't, 'f) command_context \<Rightarrow> 'f command_env \<Rightarrow> 't trace_repo \<Rightarrow> active_request_summary \<Rightarrow> string \<Rightarrow>
   ('s, 't, 'f outcome) command" where
  "interrupt_row ctx env repo row reason s =
     (if \<not> has_live_token ctx (as_trace_id row) s \<and> \<not> is_zombie ctx env row
      then say_intr BeingDelivered s
      else
        (scomp (on_trace (tr_force_fail_request repo (as_trace_id row) reason)) (\<lambda>r.
         case r of
           Inr True \<Rightarrow>
             scomp (fire_token ctx (as_trace_id row)) (\<lambda>fired.
             say_intr (Interrupted (truncate_text (as_text_preview row) 40) fired))
         | Inr False \<Rightarrow> say_intr (AlreadyTerminal (truncate_text (as_text_preview row) 30))
         | Inl e \<Rightarrow> say (TraceFailed e))) s)"

definition esc_command ::
  "('s, 't, 'f) command_context \<Rightarrow> 'f command_env \<Rightarrow> bool \<Rightarrow> string \<Rightarrow> ('s, 't, 'f outcome) command" where
  "esc_command ctx env is_kill arg =
     with_trace ctx (\<lambda>repo.
       if arg = ''all'' then
         kill_or_cancel_all ctx env repo
           (if is_kill then ''interrupted by user via /esc all (/kill alias)''
            else ''interrupted by user via /esc all'')
       else
         scomp (if arg = [] then
            scomp (on_trace (tr_list_active_requests repo (command_conversation ctx) 20)) (\<lambda>r.
            Pair (find (\<lambda>row. as_status row = RqRunning) (or_empty r)))
          else resolve_active_request ctx env repo arg) (\<lambda>found.
         case found of
           None \<Rightarrow> if arg = [] then say_intr NotRunning else say_req (NoMatch arg)
         | Some row \<Rightarrow>
             if as_status row = RqAccepted then
               withdraw_row ctx repo row
                 (if is_kill then ''cancelled by user via /esc (/kill alias)''
                  else ''cancelled by user via /esc'')
             else
               interrupt_row ctx env repo row
                 (if is_kill then ''interrupted by user via /esc (/kill alias)''
                  else ''interrupted by user via /esc'')))"

section \<open>Replies that could not be sent\<close>

fun dismiss_all ::
  "'t trace_repo \<Rightarrow> active_request_summary list \<Rightarrow> nat \<Rightarrow> ('s, 't, nat) command" where
  "dismiss_all repo [] n = Pair n"
| "dismiss_all repo (row # rows) n =
     scomp (on_trace (tr_dismiss_failed_outbox repo (as_request_id row))) (\<lambda>r.
     dismiss_all repo rows (case r of Inr _ \<Rightarrow> n + 1 | Inl e \<Rightarrow> n))"

definition retry_command ::
  "('s, 't, 'f) command_context \<Rightarrow> string \<Rightarrow> ('s, 't, 'f outcome) command" where
  "retry_command ctx arg =
     with_trace ctx (\<lambda>repo.
       scomp (on_trace (tr_list_active_requests repo (command_conversation ctx) 20)) (\<lambda>r.
       let stuck_rows = filter reply_stuck (or_empty r) in
       if stuck_rows = [] then say_intr NothingStuck
       else if arg = ''dismiss'' \<or> arg = ''clear'' then
         scomp (dismiss_all repo stuck_rows 0) (\<lambda>n. say_intr (Dismissed n))
       else case parse_usize arg of
         Some i \<Rightarrow>
           if 1 \<le> i \<and> i \<le> length stuck_rows then
             scomp (on_trace (tr_dismiss_failed_outbox repo (as_request_id (stuck_rows ! (i - 1))))) (\<lambda>w.
             case w of
               Inr _ \<Rightarrow> say_intr (DismissedOne (truncate_text (as_text_preview (stuck_rows ! (i - 1))) 40))
             | Inl e \<Rightarrow> say (TraceFailed e))
           else say_intr (OutOfRange i (length stuck_rows))
       | None \<Rightarrow>
           say_intr (StuckList (map (\<lambda>row. (truncate_text (as_text_preview row) 40,
              as_outbox_error_message row)) stuck_rows))))"

end
