(* ===== verification/Commands.thy ===== *)
theory Commands
  imports Command_Profile Command_Requests Store_Calls
begin

text \<open>
  \<open>handle_command\<close> (\<open>commands.rs\<close>): the parsing of a slash command, the approvals, the commands that
  report, and the dispatch to all commands.
\<close>

section \<open>Approvals\<close>

text \<open>\<open>respond_current_approval\<close> of the pool: \<open>answer\<close> is what the waiter of the request gets, and the
  state the reader has brought the process to by then.\<close>

definition respond_current_approval ::
  "(nat \<Rightarrow> app_proc \<Rightarrow> (request_error + json) \<times> app_proc) \<Rightarrow> string \<Rightarrow> string \<Rightarrow> app_pool \<Rightarrow>
   (string + unit) \<times> app_pool" where
  "respond_current_approval answer key decision pool =
     (case pool key of
        None \<Rightarrow> (Inl ''no app-server process for conversation'', pool)
      | Some p \<Rightarrow>
          (case approval_send decision p of
             (Inl e, p1) \<Rightarrow> (Inl e, pool(key \<mapsto> p1))
           | (Inr n, p1) \<Rightarrow>
               (case answer n p1 of (a, p2) \<Rightarrow>
                (case approval_finish a p2 of (r, p3) \<Rightarrow> (r, pool(key \<mapsto> p3))))))"

definition handle_approval_response_command ::
  "('s, 't, 'f) command_context \<Rightarrow> 'f command_env \<Rightarrow> string \<Rightarrow> bool \<Rightarrow> ('s, 't, 'f outcome) command" where
  "handle_approval_response_command ctx env arg is_deny s =
     (if \<not> cc_has_pool ctx then say_intr NoApprovals s
      else if trim arg \<noteq> [] then say_intr (ApprovalUsage is_deny) s
      else case respond_current_approval (ce_approval env)
             (persistent_pool_key (cc_platform ctx) (cc_chat_id ctx) (cli_name ctx))
             (if is_deny then ''deny'' else ''allow_once'') (st_pool s) of
        (r, pool) \<Rightarrow>
          (case r of Inr _ \<Rightarrow> say_intr (ApprovalAnswered is_deny) | Inl e \<Rightarrow> say_intr (ApprovalFailed e))
          (s\<lparr>st_pool := pool\<rparr>))"

section \<open>Reports\<close>

definition usage_command ::
  "('s, 't, 'f) command_context \<Rightarrow> 'f command_env \<Rightarrow> ('s, 't, 'f outcome) command" where
  "usage_command ctx env =
     with_store ctx (\<lambda>st.
       scomp (on_store (cd_get_usage_today st (cc_platform ctx) (cc_user_id ctx))) (\<lambda>today.
       scomp (on_store (cd_get_usage_total st (cc_platform ctx) (cc_user_id ctx))) (\<lambda>all_time.
       let or_none = (\<lambda>r. case r of Inr u \<Rightarrow> u | Inl e \<Rightarrow> ce_no_usage env)
       in say_rep (UsageReport (or_none today) (or_none all_time)))))"

text \<open>The active session of the chat, which \<open>/inspect\<close> and \<open>/audit\<close> need.\<close>

definition with_session ::
  "('s, 't, 'f) command_context \<Rightarrow> (string \<Rightarrow> ('s, 't, 'f outcome) command) \<Rightarrow> ('s, 't, 'f outcome) command" where
  "with_session ctx k =
     with_store ctx (\<lambda>st.
       scomp (on_store (cd_get_current_session st (cc_platform ctx) (cc_chat_id ctx) (cli_name ctx))) (\<lambda>r.
       case r of Inr (Some sid) \<Rightarrow> k sid | _ \<Rightarrow> say_sess NoActiveSession))"

definition inspect_command ::
  "('s, 't, 'f) command_context \<Rightarrow> 'f command_env \<Rightarrow> ('s, 't, 'f outcome) command" where
  "inspect_command ctx env =
     with_session ctx (\<lambda>sid.
       case fetch_harness_snapshot (ce_http env) (ce_de env) (ce_f32 env) sid of
         None \<Rightarrow> say_rep NoHarness
       | Some h \<Rightarrow> Pair (sliced (\<lambda>short. OnReports (HarnessReport h)) (first_8_bytes (hs_session_id h))))"

definition audit_command ::
  "('s, 't, 'f) command_context \<Rightarrow> 'f command_env \<Rightarrow> ('s, 't, 'f outcome) command" where
  "audit_command ctx env =
     with_session ctx (\<lambda>sid.
       let history = fetch_harness_history (ce_http env) (ce_de env) (ce_f32 env) sid 50 in
       if history = [] then say_rep NoAudit else say_rep (AuditReport (audit_turns history)))"

text \<open>An operation that goes on without a value when it fails.\<close>

definition attempted :: "('s, 't, 'e + 'a) command \<Rightarrow> ('s, 't, 'a option) command" where
  "attempted m = scomp m (\<lambda>r. Pair (case r of Inr a \<Rightarrow> Some a | Inl e \<Rightarrow> None))"

definition status_command ::
  "('s, 't, 'f) command_context \<Rightarrow> 'f command_env \<Rightarrow> ('s, 't, 'f outcome) command" where
  "status_command ctx env =
     scomp (case cc_store ctx of
        None \<Rightarrow> Pair None
      | Some st \<Rightarrow>
          scomp (attempted (on_store (cd_get_current_session st (cc_platform ctx) (cc_chat_id ctx) (cli_name ctx))))
            (\<lambda>x. Pair (Option.bind x id))) (\<lambda>session.
     scomp (case (cc_store ctx, session) of
        (Some st, Some sid) \<Rightarrow>
          scomp (attempted (on_store (cd_get_usage_session st (cc_platform ctx) (cc_user_id ctx) (cli_name ctx) sid)))
            (\<lambda>u. Pair (case u of Some x \<Rightarrow> if 0 < us_messages x then Some x else None | None \<Rightarrow> None))
      | _ \<Rightarrow> Pair None) (\<lambda>usage.
     scomp (case cc_trace_repo ctx of
        None \<Rightarrow> Pair None
      | Some repo \<Rightarrow> attempted (on_trace (gateway_status repo (command_conversation ctx)))) (\<lambda>status.
     let harness = Option.bind session (fetch_harness_snapshot (ce_http env) (ce_de env) (ce_f32 env))
     in case Option.bind status gs_last_trace of
          None \<Rightarrow> say_rep (StatusReport session usage status harness)
        | Some t \<Rightarrow> Pair (sliced (\<lambda>short. OnReports (StatusReport session usage status harness))
            (short_id (ts_trace_id t))))))"

definition gateway_command :: "('s, 't, 'f) command_context \<Rightarrow> ('s, 't, 'f outcome) command" where
  "gateway_command ctx =
     scomp (preference_if_stored ctx ''workspace'') (\<lambda>workspace.
     scomp (case cc_store ctx of
        None \<Rightarrow> Pair []
      | Some st \<Rightarrow>
          scomp (on_store (cd_list_cron_jobs st (cc_platform ctx) (cc_chat_id ctx))) (\<lambda>r. Pair (or_empty r))) (\<lambda>jobs.
     let model = (case or_else (model_name (cc_cli ctx)) (cc_default_model ctx) of
            Some m \<Rightarrow> m | None \<Rightarrow> ''default'')
     in Pair (sliced (OnReports \<circ> GatewayReport model workspace) (all_some (map (\<lambda>j.
          map_option (\<lambda>short. (short, cr_cron_expr j, cr_description j)) (first_8_bytes (cr_job_id j)))
          jobs)))))"

definition compact_command :: "('s, 't, 'f) command_context \<Rightarrow> ('s, 't, 'f outcome) command" where
  "compact_command ctx =
     (if cli_name ctx = ''claude'' then Pair NotHandled else say (CompactUnsupported (cli_name ctx)))"

section \<open>Dispatch\<close>

definition split_command :: "string \<Rightarrow> (string \<times> string) option" where
  "split_command text =
     (let t = trim text in
      if \<not> starts_with t ''/'' then None
      else case split_once (CHR '' '') t of
        Some (cmd, arg) \<Rightarrow> Some (cmd, trim arg)
      | None \<Rightarrow> Some (t, []))"

definition dispatch_command ::
  "('s, 't, 'f) command_context \<Rightarrow> 'f command_env \<Rightarrow> string \<Rightarrow> string \<Rightarrow> ('s, 't, 'f outcome) command" where
  "dispatch_command ctx env cmd arg =
     (if cmd = ''/compact'' then compact_command ctx
      else if cmd = ''/new'' \<or> cmd = ''/reset'' then new_command ctx
      else if cmd = ''/status'' then status_command ctx env
      else if cmd = ''/inspect'' then inspect_command ctx env
      else if cmd = ''/session'' then session_command ctx env arg
      else if cmd = ''/cron'' then cron_command ctx env arg
      else if cmd = ''/model'' then model_command ctx env arg
      else if cmd = ''/reasoning'' then reasoning_command ctx arg
      else if cmd = ''/cli'' then cli_command ctx arg
      else if cmd = ''/approve'' then handle_approval_response_command ctx env arg False
      else if cmd = ''/deny'' then handle_approval_response_command ctx env arg True
      else if cmd = ''/help'' then say HelpText
      else if cmd = ''/task'' then task_command ctx arg
      else if cmd = ''/audit'' then audit_command ctx env
      else if cmd = ''/running'' then running_command ctx env
      else if cmd = ''/trace'' then trace_command ctx arg
      else if cmd = ''/cancel'' then cancel_command ctx env arg
      else if cmd = ''/esc'' then esc_command ctx env False arg
      else if cmd = ''/kill'' then esc_command ctx env True arg
      else if cmd = ''/retry'' then retry_command ctx arg
      else if cmd = ''/usage'' then usage_command ctx env
      else if cmd = ''/workspace'' \<or> cmd = ''/ws'' then workspace_command ctx env arg
      else if cmd = ''/gateway'' then gateway_command ctx
      else Pair NotHandled)"

definition handle_command ::
  "('s, 't, 'f) command_context \<Rightarrow> 'f command_env \<Rightarrow> string \<Rightarrow> ('s, 't, 'f outcome) command" where
  "handle_command ctx env text =
     (case split_command text of
        None \<Rightarrow> Pair NotHandled
      | Some (cmd, arg) \<Rightarrow> dispatch_command ctx env cmd arg)"

section \<open>The stores behind it\<close>

definition sqlite_command_store :: "'f runtime \<Rightarrow> ('f gw_db, 'f) command_store" where
  "sqlite_command_store rt =
     \<lparr>cd_get_current_session = sqlite_get_current_session,
      cd_list_sessions = sqlite_list_sessions,
      cd_find_sessions_by_prefix = sqlite_find_sessions_by_prefix,
      cd_switch_session = sqlite_switch_session,
      cd_reset_session = sqlite_reset_session,
      cd_set_current_session = sqlite_set_current_session,
      cd_create_cron_job = sqlite_create_cron_job (rt_fmt rt) (rt_tz rt),
      cd_list_cron_jobs = sqlite_list_cron_jobs,
      cd_delete_cron_job = sqlite_delete_cron_job,
      cd_get_user_preference = sqlite_get_user_preference (rt_path_get rt),
      cd_set_user_preference = sqlite_set_user_preference (rt_path_set rt),
      cd_get_usage_today = sqlite_get_usage_today (rt_fsum rt),
      cd_get_usage_total = sqlite_get_usage_total (rt_fsum rt),
      cd_get_usage_session = sqlite_get_usage_session (rt_fsum rt)\<rparr>"

end
