(* ===== verification/Command_Props.thy ===== *)
theory Command_Props
  imports Commands Store_Props Trace_Props
begin

text \<open>
  What every slash command keeps. \<open>keeps R m\<close>: a run of \<open>m\<close> leads from each state to one related to
  it by \<open>R\<close>; the rules of \<open>keeps_intros\<close> follow the way the commands are composed. The contract of
  the two backends is the locale \<open>command_backend\<close>, with the SQLite stores as its interpretation.
\<close>

section \<open>Composition\<close>

named_theorems keeps_intros \<open>commands that keep a relation of the states\<close>

definition keeps ::
  "(('s, 't) command_state \<Rightarrow> ('s, 't) command_state \<Rightarrow> bool) \<Rightarrow> ('s, 't, 'a) command \<Rightarrow> bool" where
  "keeps rel m \<longleftrightarrow> (\<forall>s. rel s (snd (m s)))"

text \<open>A command's step: each database stays well-formed and follows its relation under the conditions of
  \<open>obeys\<close>, and the tokens that leave the registry are those that were fired.\<close>

definition conn_step :: "('s \<Rightarrow> bool) \<Rightarrow> ('s \<Rightarrow> 's \<Rightarrow> bool) \<Rightarrow> 's conn \<Rightarrow> 's conn \<Rightarrow> bool" where
  "conn_step I R c c' \<longleftrightarrow>
     (polite I R (world c) \<and> I (tables c) \<longrightarrow>
        I (tables c') \<and> R (tables c) (tables c') \<and> world c' = world c)"

definition tokens_step :: "('s, 't) command_state \<Rightarrow> ('s, 't) command_state \<Rightarrow> bool" where
  "tokens_step s s' \<longleftrightarrow>
     (\<exists>new. st_fired s' = st_fired s @ new \<and> set new \<subseteq> set (st_live s) \<and>
        set (st_live s') = set (st_live s) - set new)"

definition command_step ::
  "('s \<Rightarrow> bool) \<Rightarrow> ('s \<Rightarrow> 's \<Rightarrow> bool) \<Rightarrow> ('t \<Rightarrow> bool) \<Rightarrow> ('t \<Rightarrow> 't \<Rightarrow> bool) \<Rightarrow>
   ('s, 't) command_state \<Rightarrow> ('s, 't) command_state \<Rightarrow> bool" where
  "command_step I R J Q s s' \<longleftrightarrow>
     conn_step I R (st_store s) (st_store s') \<and> conn_step J Q (st_trace s) (st_trace s') \<and>
     tokens_step s s'"

lemma tokens_step_refl: "tokens_step s s"
  by (auto simp: tokens_step_def intro: exI [of _ "[]"])

lemma tokens_step_same: "st_fired s' = st_fired s \<Longrightarrow> st_live s' = st_live s \<Longrightarrow> tokens_step s s'"
  by (auto simp: tokens_step_def intro: exI [of _ "[]"])

lemma tokens_step_trans: "tokens_step s t \<Longrightarrow> tokens_step t u \<Longrightarrow> tokens_step s u"
  unfolding tokens_step_def
proof (elim exE conjE)
  fix new more
  assume "st_fired t = st_fired s @ new" "set new \<subseteq> set (st_live s)"
    "set (st_live t) = set (st_live s) - set new" "st_fired u = st_fired t @ more"
    "set more \<subseteq> set (st_live t)" "set (st_live u) = set (st_live t) - set more"
  then show "\<exists>new. st_fired u = st_fired s @ new \<and> set new \<subseteq> set (st_live s) \<and>
      set (st_live u) = set (st_live s) - set new"
    by (intro exI [of _ "new @ more"]) auto
qed

context protocol
begin

lemma conn_step_refl: "conn_step I R c c"
  by (simp add: conn_step_def refl)

lemma conn_step_trans: "conn_step I R c d \<Longrightarrow> conn_step I R d e \<Longrightarrow> conn_step I R c e"
  by (auto simp: conn_step_def intro: trans)

end

section \<open>The contract of the backends\<close>

locale command_backend = st: protocol I R + tr: trace_repository J Q repo
  for I :: "'s \<Rightarrow> bool" and R :: "'s \<Rightarrow> 's \<Rightarrow> bool"
  and J :: "'t \<Rightarrow> bool" and Q :: "'t \<Rightarrow> 't \<Rightarrow> bool" and repo :: "'t trace_repo" +
  fixes cs :: "('s, 'f) command_store"
  assumes get_session: "obeys I R (cd_get_current_session cs p ch cl)"
    and list_sessions: "obeys I R (cd_list_sessions cs p ch cl)"
    and find_sessions: "obeys I R (cd_find_sessions_by_prefix cs p ch cl x)"
    and switch_session: "obeys I R (cd_switch_session cs p ch cl x)"
    and reset_session: "obeys I R (cd_reset_session cs p ch cl)"
    and set_session: "obeys I R (cd_set_current_session cs p ch u x cl)"
    and create_job: "obeys I R (cd_create_cron_job cs spec)"
    and list_jobs: "obeys I R (cd_list_cron_jobs cs p ch)"
    and delete_job: "obeys I R (cd_delete_cron_job cs i)"
    and get_preference: "obeys I R (cd_get_user_preference cs p u k)"
    and set_preference: "obeys I R (cd_set_user_preference cs p u k v)"
    and usage_today: "obeys I R (cd_get_usage_today cs p u)"
    and usage_total: "obeys I R (cd_get_usage_total cs p u)"
    and usage_session: "obeys I R (cd_get_usage_session cs p u cl x)"
begin

abbreviation step :: "('s, 't) command_state \<Rightarrow> ('s, 't) command_state \<Rightarrow> bool" where
  "step \<equiv> command_step I R J Q"

lemma step_refl: "step s s"
  by (simp add: command_step_def tokens_step_refl st.conn_step_refl tr.conn_step_refl)

lemma step_trans: "step s t \<Longrightarrow> step t u \<Longrightarrow> step s u"
  unfolding command_step_def
  by (blast intro: tokens_step_trans st.conn_step_trans tr.conn_step_trans)

lemma keeps_Pair [keeps_intros]: "keeps step (Pair a)"
  by (simp add: keeps_def step_refl)

lemma keeps_scomp [keeps_intros]:
  "keeps step m \<Longrightarrow> (\<And>a. keeps step (k a)) \<Longrightarrow> keeps step (scomp m k)"
  unfolding keeps_def scomp_unfold using step_trans by blast

lemma keeps_if [keeps_intros]:
  "(b \<Longrightarrow> keeps step m) \<Longrightarrow> (\<not> b \<Longrightarrow> keeps step n) \<Longrightarrow> keeps step (if b then m else n)"
  by simp

lemma keeps_option [keeps_intros]:
  "keeps step m \<Longrightarrow> (\<And>a. keeps step (k a)) \<Longrightarrow> keeps step (case x of None \<Rightarrow> m | Some a \<Rightarrow> k a)"
  by (cases x) auto

lemma keeps_sum [keeps_intros]:
  "(\<And>e. keeps step (m e)) \<Longrightarrow> (\<And>a. keeps step (k a)) \<Longrightarrow>
   keeps step (case x of Inl e \<Rightarrow> m e | Inr a \<Rightarrow> k a)"
  by (cases x) auto

lemma keeps_on_store [keeps_intros]: "obeys I R m \<Longrightarrow> keeps step (on_store m)"
  by (auto simp: keeps_def on_store_def command_step_def conn_step_def obeys_def tr.refl
      intro: tokens_step_same split: prod.split)

lemma keeps_on_trace [keeps_intros]: "obeys J Q m \<Longrightarrow> keeps step (on_trace m)"
  by (auto simp: keeps_def on_trace_def command_step_def conn_step_def obeys_def st.refl
      intro: tokens_step_same split: prod.split)

lemma keeps_on_catalog [keeps_intros]: "keeps step (on_catalog m)"
  by (auto simp: keeps_def on_catalog_def command_step_def conn_step_def st.refl tr.refl
      intro: tokens_step_same split: prod.split)

lemma keeps_fire [keeps_intros]: "keeps step (fire_token ctx i)"
  by (auto simp: keeps_def fire_token_def has_live_token_def command_step_def conn_step_def st.refl tr.refl
      tokens_step_refl tokens_step_def)

lemmas store_obeys = get_session list_sessions find_sessions switch_session reset_session set_session
  create_job list_jobs delete_job get_preference set_preference usage_today usage_total usage_session

lemmas keeps_rules = keeps_Pair keeps_scomp keeps_if keeps_option keeps_sum keeps_on_store keeps_on_trace
  keeps_on_catalog keeps_fire store_obeys tr.op_obeys tr.cancel_obeys tr.gateway_status_obeys

lemma keeps_with_store:
  "cc_store ctx = None \<or> cc_store ctx = Some cs \<Longrightarrow> keeps step (k cs) \<Longrightarrow> keeps step (with_store ctx k)"
  by (auto simp: with_store_def keeps_Pair)

lemma keeps_with_trace:
  "cc_trace_repo ctx = None \<or> cc_trace_repo ctx = Some repo \<Longrightarrow> keeps step (k repo) \<Longrightarrow>
   keeps step (with_trace ctx k)"
  by (auto simp: with_trace_def keeps_Pair)

lemma keeps_when_allowed [keeps_intros]: "keeps step k \<Longrightarrow> keeps step (when_allowed ctx capability k)"
  by (simp add: when_allowed_def keeps_rules)

lemma keeps_Let [keeps_intros]: "(\<And>a. keeps step (k a)) \<Longrightarrow> keeps step (let a = x in k a)"
  by simp

lemma keeps_list [keeps_intros]:
  "keeps step m \<Longrightarrow> (\<And>a as. keeps step (k a as)) \<Longrightarrow> keeps step (case x of [] \<Rightarrow> m | a # as \<Rightarrow> k a as)"
  by (cases x) auto

lemma keeps_bool [keeps_intros]:
  "keeps step m \<Longrightarrow> keeps step n \<Longrightarrow> keeps step (case b of True \<Rightarrow> m | False \<Rightarrow> n)"
  by (cases b) auto

lemma keeps_pair [keeps_intros]:
  "(\<And>a b. keeps step (k a b)) \<Longrightarrow> keeps step (case x of (a, b) \<Rightarrow> k a b)"
  by (cases x) auto

lemma keeps_outcome [keeps_intros]:
  "(\<And>a. keeps step (k a)) \<Longrightarrow> (\<And>a. keeps step (m a)) \<Longrightarrow> keeps step n \<Longrightarrow>
   keeps step (case x of cancel_request_outcome.Cancelled a \<Rightarrow> k a | AlreadyRunning a \<Rightarrow> m a | CancelNotFound \<Rightarrow> n)"
  by (cases x) auto

lemma keeps_guard:
  "keeps step m \<Longrightarrow> keeps step n \<Longrightarrow> keeps step (\<lambda>s. if b s then m s else n s)"
  by (simp add: keeps_def)

lemmas keeps_all = st.if_obeys keeps_rules keeps_when_allowed keeps_Let keeps_list keeps_bool keeps_pair keeps_outcome

lemma sessions_elsewhere_keeps: "keeps step (sessions_elsewhere ctx cs names)"
proof (induction names)
  case (Cons name names)
  then show ?case unfolding sessions_elsewhere.simps by (intro keeps_all)
qed (simp add: keeps_Pair)

lemma session_command_keeps:
  assumes "cc_store ctx = None \<or> cc_store ctx = Some cs"
  shows "keeps step (session_command ctx env arg)"
  unfolding session_command_def session_current_def session_list_def session_switch_def
    switch_by_prefix_def adopt_codex_session_def
  by (intro keeps_all keeps_with_store [OF assms] sessions_elsewhere_keeps)

lemma job_commands_keep:
  assumes "cc_store ctx = None \<or> cc_store ctx = Some cs"
  shows "keeps step (cron_command ctx env arg)" "keeps step (task_command ctx arg)"
proof -
  show "keeps step (cron_command ctx env arg)"
    unfolding cron_command_def cron_list_def cron_add_def cron_del_def
    by (intro keeps_all keeps_with_store [OF assms])
  show "keeps step (task_command ctx arg)"
    using assms unfolding task_command_def task_list_def task_cancel_def
    by (elim disjE) (simp only: option.case, intro keeps_all)+
qed

lemma model_command_keeps:
  assumes "cc_store ctx = None \<or> cc_store ctx = Some cs"
  shows "keeps step (model_command ctx env arg)"
proof -
  have choose: "keeps step (choose_model ctx env arg entries)" for entries
    using assms unfolding choose_model_def store_model_choice_def
    by (elim disjE) (simp only: option.case, intro keeps_all)+
  show ?thesis
    unfolding keeps_def model_command_def Let_def
  proof
    fix s :: "('s, 't) command_state"
    obtain r cache where m: "model_entries_for_context (ce_models_key env) (ce_models_fetched env)
        (ce_now env) arg (eq_ignore_ascii_case arg ''refresh'') (st_models s) = (r, cache)" by fastforce
    let ?k = "\<lambda>r. case r of Inl e \<Rightarrow> say_model (ModelListFailed e)
      | Inr (entries, age) \<Rightarrow>
          if arg = [] \<or> eq_ignore_ascii_case arg ''refresh'' then
            say_model (ModelList (eq_ignore_ascii_case arg ''refresh'') age
              (case model_name (cc_cli ctx) of
                 Some m \<Rightarrow> display_model_name m entries | None \<Rightarrow> DEFAULT_LABEL)
              (reasoning_effort (cc_cli ctx)) entries)
          else when_allowed ctx ModelMutation (choose_model ctx env arg entries)"
    have "keeps step (?k r)" by (intro keeps_all choose)
    moreover have "step s (s\<lparr>st_models := cache\<rparr>)"
      by (simp add: command_step_def st.conn_step_refl tr.conn_step_refl tokens_step_same)
    ultimately have "step s (snd (?k r (s\<lparr>st_models := cache\<rparr>)))"
      using step_trans unfolding keeps_def by blast
    then show "step s (snd (case model_entries_for_context (ce_models_key env) (ce_models_fetched env)
        (ce_now env) arg (eq_ignore_ascii_case arg ''refresh'') (st_models s) of
        (r, cache) \<Rightarrow> ?k r (s\<lparr>st_models := cache\<rparr>)))"
      unfolding m prod.case .
  qed
qed

lemma profile_commands_keep:
  assumes "cc_store ctx = None \<or> cc_store ctx = Some cs"
  shows "keeps step (reasoning_command ctx arg)" "keeps step (cli_command ctx arg)"
    "keeps step (workspace_command ctx env arg)"
proof -
  have pref: "keeps step (preference_if_stored ctx key)" for key
    using assms unfolding preference_if_stored_def
    by (elim disjE) (simp only: option.case, intro keeps_all)+
  have too: "keeps step (set_reasoning_too ctx name p mode)" for name p mode
    unfolding set_reasoning_too_def Let_def by (intro keeps_all keeps_with_store [OF assms])
  have switch: "keeps step (cli_switch ctx name mode)" for name mode
    using assms unfolding cli_switch_def
    by (elim disjE) (simp only: option.case, intro keeps_all too)+
  show "keeps step (reasoning_command ctx arg)"
    unfolding reasoning_command_def by (intro keeps_all keeps_with_store [OF assms])
  show "keeps step (cli_command ctx arg)"
    unfolding cli_command_def cli_info_def by (intro keeps_all pref switch)
  show "keeps step (workspace_command ctx env arg)"
    unfolding workspace_command_def workspace_switch_def
    by (intro keeps_all keeps_with_store [OF assms])
qed

lemma sweep_keeps: "keeps step (sweep_requests ctx env repo reason rows n)"
proof (induction rows arbitrary: n)
  case (Cons row rows)
  have eq: "sweep_request ctx env repo reason row n = (\<lambda>s.
      if as_status row = RqAccepted then
        (scomp (on_trace (cancel_accepted_request repo (command_conversation ctx) (as_trace_id row) reason)) (\<lambda>r.
         let n1 = (case r of
              Inr (cancel_request_outcome.Cancelled _) \<Rightarrow> n\<lparr>sc_cleared := sc_cleared n + 1\<rparr>
            | Inr CancelNotFound \<Rightarrow> n\<lparr>sc_zombies := sc_zombies n + 1\<rparr>
            | _ \<Rightarrow> n)
         in scomp (fire_token ctx (as_trace_id row)) (\<lambda>fired. Pair (count_fired fired n1)))) s
      else if \<not> has_live_token ctx (as_trace_id row) s \<and> \<not> is_zombie ctx env row then Pair n s
      else
        (scomp (on_trace (tr_force_fail_request repo (as_trace_id row) reason)) (\<lambda>r.
         let n1 = (case r of
              Inr True \<Rightarrow> n\<lparr>sc_cleared := sc_cleared n + 1\<rparr>
            | Inr False \<Rightarrow> n\<lparr>sc_zombies := sc_zombies n + 1\<rparr>
            | Inl e \<Rightarrow> n)
         in scomp (fire_token ctx (as_trace_id row)) (\<lambda>fired. Pair (count_fired fired n1)))) s)"
    by (rule ext) (rule sweep_request_def)
  have "keeps step (sweep_request ctx env repo reason row n)"
    unfolding eq by (intro keeps_guard keeps_all)
  then show ?case unfolding sweep_requests.simps using Cons by (intro keeps_scomp)
qed (simp add: keeps_Pair)

lemma interrupt_keeps:
  "keeps step (interrupt_row ctx env repo row reason :: ('s, 't, 'g outcome) command)"
proof -
  have eq: "interrupt_row ctx env repo row reason = (\<lambda>s.
      if \<not> has_live_token ctx (as_trace_id row) s \<and> \<not> is_zombie ctx env row
      then say_intr BeingDelivered s
      else (scomp (on_trace (tr_force_fail_request repo (as_trace_id row) reason)) (\<lambda>r.
         case r of
           Inr True \<Rightarrow>
             scomp (fire_token ctx (as_trace_id row)) (\<lambda>fired.
             say_intr (Interrupted (truncate_text (as_text_preview row) 40) fired))
         | Inr False \<Rightarrow> say_intr (AlreadyTerminal (truncate_text (as_text_preview row) 30))
         | Inl e \<Rightarrow> say (TraceFailed e))) s)"
    by (rule ext) (rule interrupt_row_def)
  show ?thesis unfolding eq by (intro keeps_guard keeps_all)
qed

lemma dismiss_keeps: "keeps step (dismiss_all repo rows n)"
proof (induction rows arbitrary: n)
  case (Cons row rows)
  then show ?case unfolding dismiss_all.simps by (intro keeps_all)
qed (simp add: keeps_Pair)

lemma request_commands_keep:
  assumes "cc_trace_repo ctx = None \<or> cc_trace_repo ctx = Some repo"
  shows "keeps step (running_command ctx env)" "keeps step (trace_command ctx arg)"
    "keeps step (cancel_command ctx env arg)" "keeps step (esc_command ctx env is_kill arg)"
    "keeps step (retry_command ctx arg)"
proof -
  have all: "keeps step (kill_or_cancel_all ctx env repo reason)" for reason
    unfolding kill_or_cancel_all_def by (intro keeps_all sweep_keeps)
  show "keeps step (running_command ctx env)"
    unfolding running_command_def by (intro keeps_all keeps_with_trace [OF assms])
  show "keeps step (trace_command ctx arg)"
    unfolding trace_command_def trace_list_def resolve_trace_selector_def
    by (intro keeps_all keeps_with_trace [OF assms])
  show "keeps step (cancel_command ctx env arg)"
    unfolding cancel_command_def cancel_row_def resolve_active_request_def
    by (intro keeps_all keeps_with_trace [OF assms] all)
  show "keeps step (esc_command ctx env is_kill arg)"
    unfolding esc_command_def withdraw_row_def resolve_active_request_def
    by (intro keeps_all keeps_with_trace [OF assms] all interrupt_keeps)
  show "keeps step (retry_command ctx arg)"
    unfolding retry_command_def by (intro keeps_all keeps_with_trace [OF assms] dismiss_keeps)
qed

lemma approval_keeps: "keeps step (handle_approval_response_command ctx env arg is_deny)"
  unfolding keeps_def handle_approval_response_command_def
  by (auto simp: step_refl command_step_def st.conn_step_refl tr.conn_step_refl tokens_step_same
      split: prod.split sum.split)

lemma report_commands_keep:
  assumes "cc_store ctx = None \<or> cc_store ctx = Some cs"
    and "cc_trace_repo ctx = None \<or> cc_trace_repo ctx = Some repo"
  shows "keeps step (status_command ctx env)" "keeps step (inspect_command ctx env)"
    "keeps step (audit_command ctx env)" "keeps step (usage_command ctx env)"
    "keeps step (gateway_command ctx)"
proof -
  have pref: "keeps step (preference_if_stored ctx key)" for key
    using assms(1) unfolding preference_if_stored_def
    by (elim disjE) (simp only: option.case, intro keeps_all)+
  show "keeps step (status_command ctx env)"
    using assms unfolding status_command_def attempted_def
    by (elim disjE) (simp only: option.case prod.case, intro keeps_all)+
  show "keeps step (inspect_command ctx env)"
    unfolding inspect_command_def with_session_def by (intro keeps_all keeps_with_store [OF assms(1)])
  show "keeps step (audit_command ctx env)"
    unfolding audit_command_def with_session_def by (intro keeps_all keeps_with_store [OF assms(1)])
  show "keeps step (usage_command ctx env)"
    unfolding usage_command_def by (intro keeps_all keeps_with_store [OF assms(1)])
  show "keeps step (gateway_command ctx)"
    using assms(1) unfolding gateway_command_def
    by (elim disjE) (simp only: option.case, intro keeps_all pref)+
qed

lemma handle_command_keeps:
  assumes "cc_store ctx = None \<or> cc_store ctx = Some cs"
    and "cc_trace_repo ctx = None \<or> cc_trace_repo ctx = Some repo"
  shows "keeps step (handle_command ctx env text)"
proof -
  have new: "keeps step (new_command ctx)"
    unfolding new_command_def by (intro keeps_all keeps_with_store [OF assms(1)])
  have compact: "keeps step (compact_command ctx)"
    unfolding compact_command_def by (intro keeps_all)
  show ?thesis
    unfolding handle_command_def dispatch_command_def
    by (intro keeps_all new compact session_command_keeps job_commands_keep model_command_keeps
        profile_commands_keep request_commands_keep approval_keeps report_commands_keep assms)
qed

end

interpretation sqlite_commands: command_backend gw_ok gw_step trace_ok trace_step "sqlite_repo ser de"
  "sqlite_command_store rt" for ser de rt
  by unfold_locales
     (simp_all add: sqlite.method_obeys sqlite.transition_request_if_obeys
        sqlite_command_store_def sqlite_user_obeys sqlite_session_obeys
        sqlite_set_current_session_obeys sqlite_switch_session_obeys sqlite_job_obeys sqlite_usage_obeys)

text \<open>Whatever a user types, a slash command keeps the gateway store and the trace database
  well-formed and moves them only along their allowed steps (a session keeps its conversation, a
  finished request stays finished, the log only grows), with other writers in between and whichever
  statements fail; and a cancellation token leaves the registry exactly when it is fired.\<close>

theorem commands_keep_stores:
  assumes "cc_store ctx = None \<or> cc_store ctx = Some (sqlite_command_store rt)"
    and "cc_trace_repo ctx = None \<or> cc_trace_repo ctx = Some (sqlite_repo ser de)"
    and "polite gw_ok gw_step (world (st_store s))" and "gw_ok (tables (st_store s))"
    and "polite trace_ok trace_step (world (st_trace s))" and "trace_ok (tables (st_trace s))"
    and "handle_command ctx env line s = (reply, s')"
  shows "gw_ok (tables (st_store s')) \<and> gw_step (tables (st_store s)) (tables (st_store s')) \<and>
    trace_ok (tables (st_trace s')) \<and> trace_step (tables (st_trace s)) (tables (st_trace s')) \<and>
    (\<exists>new. st_fired s' = st_fired s @ new \<and> set new \<subseteq> set (st_live s) \<and>
       set (st_live s') = set (st_live s) - set new)"
  using sqlite_commands.handle_command_keeps [OF assms(1,2), of env line] assms(3-7)
  by (auto simp: keeps_def command_step_def conn_step_def tokens_step_def dest!: spec [of _ s])

text \<open>A chat of the Claude CLI on both databases, with two rows of each table in them.\<close>

definition demo_context :: "(int gw_db, trace_db, int) command_context" where
  "demo_context =
     \<lparr>cc_platform = ''p'', cc_chat_id = ''c'', cc_user_id = ''u'',
      cc_cli = Claude ''claude'' None True [] [] None, cc_default_cli = Claude ''claude'' None True [] [] None,
      cc_profiles = [], cc_default_model = None, cc_policy = default_action_policy,
      cc_store = Some (sqlite_command_store demo_runtime),
      cc_trace_repo = Some (sqlite_repo (\<lambda>_. Inr ''{}'') (\<lambda>_. None)),
      cc_registry = True, cc_has_pool = False, cc_gateway_start = 0, cc_availability = [],
      cc_auth_status = None\<rparr>"

definition demo_outside :: "int command_env" where
  "demo_outside =
     \<lparr>ce_naive = (\<lambda>_. None), ce_rfc3339 = (\<lambda>_. None), ce_lower = id, ce_today = ''2026-01-01'',
      ce_ser = (\<lambda>_. []), ce_de = (\<lambda>_. None), ce_f32 = (\<lambda>_. None),
      ce_no_usage = no_usage 0, ce_read_file = (\<lambda>_. None), ce_session_index = None,
      ce_uuid = ''id'', ce_models_key = None, ce_models_fetched = Inr [], ce_now = 0,
      ce_fs = \<lparr>fs_home = ''/h'', fs_is_dir = (\<lambda>_. False), fs_exists = (\<lambda>_. False), fs_read = (\<lambda>_. None),
        fs_entries = (\<lambda>_. None), fs_dirty = (\<lambda>_. False)\<rparr>,
      ce_project_dirs = [], ce_canonical = Inl, ce_canonical_text = (\<lambda>_. None), ce_http = (\<lambda>_. None),
      ce_approval = (\<lambda>_ p. (Inr JNull, p))\<rparr>"

definition demo_command_state :: "(int gw_db, trace_db) command_state" where
  "demo_command_state =
     \<lparr>st_store = calm demo_gw, st_trace = calm demo_db, st_catalog = calm [], st_live = [''t''],
      st_fired = [], st_models = Map.empty, st_pool = Map.empty\<rparr>"

lemma commands_keep_stores_witness:
  "trace_ok (tables (st_trace (snd (handle_command demo_context demo_outside ''/cancel all'' demo_command_state))))"
  using commands_keep_stores [of demo_context demo_runtime "\<lambda>_. Inr ''{}''" "\<lambda>_. None" demo_command_state
      demo_outside "''/cancel all''", OF _ _ _ _ _ _ surjective_pairing] demo_gw_ok demo_ok
  by (simp add: demo_context_def demo_command_state_def)

end
