(* ===== verification/Command_Effects.thy ===== *)
theory Command_Effects
  imports Command_Props
begin

text \<open>
  What single commands do: under a policy that refuses changes the gateway store stays as it is, but
  for two commands that do not ask the policy; what \<open>/esc all\<close> clears; and inputs on which a command
  does what its words do not say.
\<close>

section \<open>A policy that refuses changes\<close>

text \<open>The same store with its writes taken out.\<close>

definition frozen :: "('s, 'f) command_store \<Rightarrow> ('s, 'f) command_store" where
  "frozen st = st
     \<lparr>cd_switch_session := \<lambda>_ _ _ _. ret False, cd_reset_session := \<lambda>_ _ _. ret (),
      cd_set_current_session := \<lambda>_ _ _ _ _. ret (), cd_create_cron_job := \<lambda>_. ret (),
      cd_delete_cron_job := \<lambda>_. ret False, cd_set_user_preference := \<lambda>_ _ _ _. ret ()\<rparr>"

definition on_frozen :: "('s, 't, 'f) command_context \<Rightarrow> ('s, 't, 'f) command_context" where
  "on_frozen ctx = ctx\<lparr>cc_store := map_option frozen (cc_store ctx)\<rparr>"

lemma frozen_reads [simp]:
  "cd_get_current_session (frozen st) = cd_get_current_session st"
  "cd_list_sessions (frozen st) = cd_list_sessions st"
  "cd_find_sessions_by_prefix (frozen st) = cd_find_sessions_by_prefix st"
  "cd_list_cron_jobs (frozen st) = cd_list_cron_jobs st"
  "cd_get_user_preference (frozen st) = cd_get_user_preference st"
  "cd_get_usage_today (frozen st) = cd_get_usage_today st"
  "cd_get_usage_total (frozen st) = cd_get_usage_total st"
  "cd_get_usage_session (frozen st) = cd_get_usage_session st"
  by (simp_all add: frozen_def)

lemma on_frozen_fields [simp]:
  "cc_platform (on_frozen ctx) = cc_platform ctx" "cc_chat_id (on_frozen ctx) = cc_chat_id ctx"
  "cc_user_id (on_frozen ctx) = cc_user_id ctx" "cc_cli (on_frozen ctx) = cc_cli ctx"
  "cc_default_cli (on_frozen ctx) = cc_default_cli ctx" "cc_profiles (on_frozen ctx) = cc_profiles ctx"
  "cc_default_model (on_frozen ctx) = cc_default_model ctx" "cc_policy (on_frozen ctx) = cc_policy ctx"
  "cc_store (on_frozen ctx) = map_option frozen (cc_store ctx)"
  "cc_trace_repo (on_frozen ctx) = cc_trace_repo ctx" "cc_registry (on_frozen ctx) = cc_registry ctx"
  "cc_has_pool (on_frozen ctx) = cc_has_pool ctx" "cc_gateway_start (on_frozen ctx) = cc_gateway_start ctx"
  "cc_availability (on_frozen ctx) = cc_availability ctx" "cc_auth_status (on_frozen ctx) = cc_auth_status ctx"
  by (simp_all add: on_frozen_def)

lemma on_frozen_helpers [simp]:
  "cli_name (on_frozen ctx) = cli_name ctx" "command_conversation (on_frozen ctx) = command_conversation ctx"
  "slash_denial (on_frozen ctx) = slash_denial ctx" "fire_token (on_frozen ctx) = fire_token ctx"
  "has_live_token (on_frozen ctx) = has_live_token ctx" "is_zombie (on_frozen ctx) = is_zombie ctx"
  "with_trace (on_frozen ctx) = with_trace ctx"
  by (auto simp: cli_name_def command_conversation_def slash_denial_def fire_token_def has_live_token_def
      is_zombie_def with_trace_def fun_eq_iff)

text \<open>The branches of a command are rewritten too.\<close>

declare sum.case_cong_weak [cong del] option.case_cong_weak [cong del] if_weak_cong [cong del]

lemma with_store_frozen: "with_store (on_frozen ctx) k = with_store ctx (k \<circ> frozen)"
  by (simp add: with_store_def split: option.split)

lemma when_allowed_frozen [simp]: "when_allowed (on_frozen ctx) capability k = when_allowed ctx capability k"
  by (simp add: when_allowed_def)

lemma when_locked:
  "\<not> allow_slash_mutations (cc_policy ctx) \<Longrightarrow> when_allowed ctx capability k = say (Denied SlashRefused)"
  by (cases capability) (simp_all add: when_allowed_def slash_denial_def check_action_def)

lemma sessions_elsewhere_frozen [simp]:
  "sessions_elsewhere (on_frozen ctx) (frozen st) names = sessions_elsewhere ctx st names"
  by (induction names) simp_all

lemma preference_if_stored_frozen [simp]: "preference_if_stored (on_frozen ctx) = preference_if_stored ctx"
  by (auto simp: preference_if_stored_def fun_eq_iff split: option.splits)

lemma sweep_frozen [simp]:
  "sweep_requests (on_frozen ctx) env repo reason rows n = sweep_requests ctx env repo reason rows n"
proof (induction rows arbitrary: n)
  case (Cons row rows)
  have "sweep_request (on_frozen ctx) env repo reason row n = sweep_request ctx env repo reason row n"
    by (simp add: sweep_request_def fun_eq_iff)
  with Cons show ?case by (simp add: fun_eq_iff split: prod.split)
qed simp

lemma request_commands_frozen:
  "running_command (on_frozen ctx) env = running_command ctx env"
  "trace_command (on_frozen ctx) arg = trace_command ctx arg"
  "cancel_command (on_frozen ctx) env arg = cancel_command ctx env arg"
  "esc_command (on_frozen ctx) env is_kill arg = esc_command ctx env is_kill arg"
  "retry_command (on_frozen ctx) arg = retry_command ctx arg"
proof -
  have lines: "running_line_of (on_frozen ctx) env = running_line_of ctx env"
    by (auto simp: running_line_of_def fun_eq_iff)
  have all: "kill_or_cancel_all (on_frozen ctx) env repo reason = kill_or_cancel_all ctx env repo reason"
    for repo reason by (simp add: kill_or_cancel_all_def)
  have pick: "resolve_active_request (on_frozen ctx) env repo selector = resolve_active_request ctx env repo selector"
    for repo selector by (simp add: resolve_active_request_def)
  show "running_command (on_frozen ctx) env = running_command ctx env"
    by (simp add: running_command_def lines)
  show "trace_command (on_frozen ctx) arg = trace_command ctx arg"
    by (simp add: trace_command_def trace_list_def resolve_trace_selector_def)
  show "cancel_command (on_frozen ctx) env arg = cancel_command ctx env arg"
    by (simp add: cancel_command_def cancel_row_def all pick)
  have row: "interrupt_row (on_frozen ctx) env repo row reason = interrupt_row ctx env repo row reason"
    for repo row reason by (simp add: interrupt_row_def fun_eq_iff)
  show "esc_command (on_frozen ctx) env is_kill arg = esc_command ctx env is_kill arg"
    by (simp add: esc_command_def withdraw_row_def all pick row)
  show "retry_command (on_frozen ctx) arg = retry_command ctx arg"
    by (simp add: retry_command_def)
qed

lemma locked_commands_frozen:
  assumes "\<not> allow_slash_mutations (cc_policy ctx)"
  shows "new_command (on_frozen ctx) = new_command ctx"
    "session_command (on_frozen ctx) env arg = session_command ctx env arg"
    "cron_command (on_frozen ctx) env arg = cron_command ctx env arg"
    "model_command (on_frozen ctx) env arg = model_command ctx env arg"
    "cli_command (on_frozen ctx) arg = cli_command ctx arg"
    "workspace_command (on_frozen ctx) env arg = workspace_command ctx env arg"
proof -
  note denied = when_locked [OF assms]
  show "new_command (on_frozen ctx) = new_command ctx" by (simp add: new_command_def denied)
  show "session_command (on_frozen ctx) env arg = session_command ctx env arg"
    by (simp add: session_command_def session_current_def session_list_def session_switch_def denied
        with_store_frozen comp_def)
  show "cron_command (on_frozen ctx) env arg = cron_command ctx env arg"
    by (simp add: cron_command_def cron_list_def cron_add_def cron_del_def denied with_store_frozen comp_def)
  show "model_command (on_frozen ctx) env arg = model_command ctx env arg"
    by (simp add: model_command_def denied fun_eq_iff)
  show "cli_command (on_frozen ctx) arg = cli_command ctx arg"
    by (simp add: cli_command_def cli_info_def cli_switch_def denied)
  show "workspace_command (on_frozen ctx) env arg = workspace_command ctx env arg"
    by (simp add: workspace_command_def workspace_switch_def denied with_store_frozen comp_def)
qed

lemma report_commands_frozen:
  "status_command (on_frozen ctx) env = status_command ctx env"
  "inspect_command (on_frozen ctx) env = inspect_command ctx env"
  "audit_command (on_frozen ctx) env = audit_command ctx env"
  "usage_command (on_frozen ctx) env = usage_command ctx env"
  "gateway_command (on_frozen ctx) = gateway_command ctx"
  "compact_command (on_frozen ctx) = compact_command ctx"
  "handle_approval_response_command (on_frozen ctx) env arg is_deny = handle_approval_response_command ctx env arg is_deny"
proof -
  show "status_command (on_frozen ctx) env = status_command ctx env"
    by (cases "cc_store ctx") (simp_all add: status_command_def)
  show "gateway_command (on_frozen ctx) = gateway_command ctx"
    by (cases "cc_store ctx") (simp_all add: gateway_command_def)
qed (simp_all add: inspect_command_def audit_command_def usage_command_def with_session_def
    compact_command_def handle_approval_response_command_def with_store_frozen comp_def fun_eq_iff)

lemma handle_command_frozen:
  assumes "\<not> allow_slash_mutations (cc_policy ctx)"
    and "\<forall>arg. split_command line \<noteq> Some (''/task'', arg) \<and> split_command line \<noteq> Some (''/reasoning'', arg)"
  shows "handle_command (on_frozen ctx) env line = handle_command ctx env line"
proof (cases "split_command line")
  case (Some x)
  then obtain cmd arg where x: "split_command line = Some (cmd, arg)" by (cases x) auto
  with assms(2) have "cmd \<noteq> ''/task''" "cmd \<noteq> ''/reasoning''" by auto
  with x show ?thesis
    by (simp add: handle_command_def dispatch_command_def locked_commands_frozen [OF assms(1)]
        report_commands_frozen request_commands_frozen)
qed (simp add: handle_command_def)

interpretation still: protocol "\<lambda>s. True" "(=)"
  by unfold_locales simp_all

lemma sqlite_reads_still:
  "obeys (\<lambda>s. True) (=) (sqlite_get_current_session p ch cl)"
  "obeys (\<lambda>s. True) (=) (sqlite_list_sessions p ch cl)"
  "obeys (\<lambda>s. True) (=) (sqlite_find_sessions_by_prefix p ch cl pre)"
  "obeys (\<lambda>s. True) (=) (sqlite_list_cron_jobs p ch)"
  "obeys (\<lambda>s. True) (=) (sqlite_get_user_preference path p u key)"
  "obeys (\<lambda>s. True) (=) (sqlite_get_usage_today fsum p u)"
  "obeys (\<lambda>s. True) (=) (sqlite_get_usage_total fsum p u)"
  "obeys (\<lambda>s. True) (=) (sqlite_get_usage_session fsum p u cl sid)"
  unfolding sqlite_get_current_session_def sqlite_list_sessions_def sqlite_find_sessions_by_prefix_def
    sqlite_list_cron_jobs_def sqlite_get_user_preference_def sqlite_get_usage_today_def
    sqlite_get_usage_total_def sqlite_get_usage_session_def db_def
  by (intro still.obeys_rules still.read_obeys, simp add: query_def usage_query_def split: sum.split)+

interpretation frozen_commands: command_backend "\<lambda>s. True" "(=)" trace_ok trace_step "sqlite_repo ser de"
  "frozen (sqlite_command_store rt)" for ser de rt
  by unfold_locales
     (simp_all add: sqlite.method_obeys sqlite.transition_request_if_obeys sqlite_command_store_def
        sqlite_reads_still, simp_all add: frozen_def still.obeys_rules)

text \<open>Property C18: under a policy that refuses changes by slash commands, no command but \<open>/task\<close> and
  \<open>/reasoning\<close> changes anything in the gateway store, whatever is typed and whichever statements fail.\<close>

theorem locked_commands_write_nothing:
  assumes "\<not> allow_slash_mutations (cc_policy ctx)"
    and "\<forall>arg. split_command line \<noteq> Some (''/task'', arg) \<and> split_command line \<noteq> Some (''/reasoning'', arg)"
    and "cc_store ctx = None \<or> cc_store ctx = Some (sqlite_command_store rt)"
    and "cc_trace_repo ctx = None \<or> cc_trace_repo ctx = Some (sqlite_repo ser de)"
    and "\<forall>n t. env_others (world (st_store s) n) t = t"
  shows "tables (st_store (snd (handle_command ctx env line s))) = tables (st_store s)"
proof -
  have "keeps (command_step (\<lambda>s. True) (=) trace_ok trace_step) (handle_command (on_frozen ctx) env line)"
    using frozen_commands.handle_command_keeps [of "on_frozen ctx" rt ser de env line] assms(3,4) by auto
  then have "conn_step (\<lambda>s. True) (=) (st_store s) (st_store (snd (handle_command ctx env line s)))"
    unfolding handle_command_frozen [OF assms(1,2)] keeps_def command_step_def by blast
  with assms(5) show ?thesis by (simp add: conn_step_def polite_def)
qed

definition locked_context :: "(int gw_db, trace_db, int) command_context" where
  "locked_context = demo_context\<lparr>cc_policy := default_action_policy\<lparr>allow_slash_mutations := False\<rparr>\<rparr>"

lemma locked_commands_write_nothing_witness:
  "tables (st_store (snd (handle_command locked_context demo_outside ''/cron del j'' demo_command_state))) = demo_gw"
proof -
  have "split_command ''/cron del j'' = Some (''/cron'', ''del j'')" by code_simp
  then show ?thesis
    using locked_commands_write_nothing [of locked_context "''/cron del j''" demo_runtime "\<lambda>_. Inr ''{}''"
        "\<lambda>_. None" demo_command_state demo_outside]
    by (simp add: locked_context_def demo_context_def demo_command_state_def calm_def calm_env_def)
qed

text \<open>\<open>/task cancel\<close> deletes the job that \<open>/cron del\<close> may not delete: it does not ask the policy.\<close>

lemma task_cancel_ignores_policy:
  "fst (handle_command locked_context demo_outside ''/cron del j'' demo_command_state) = Reply (Denied SlashRefused)"
  "fst (handle_command locked_context demo_outside ''/task cancel j'' demo_command_state) = Reply (OnJobs TaskCancelled)"
  "map jo_job_id (gw_jobs (tables (st_store (snd
     (handle_command locked_context demo_outside ''/task cancel j'' demo_command_state))))) = [''l'']"
  by code_simp+

section \<open>Selectors\<close>

text \<open>\<open>/cron del\<close> hands an id it does not find among the jobs of the chat to the store as it is, and the
  store deletes by the id alone: the job of another chat is deleted.\<close>

lemma cron_del_reaches_other_chats:
  "let r = handle_command (demo_context\<lparr>cc_chat_id := ''d''\<rparr>) demo_outside ''/cron del j'' demo_command_state
   in cr_job_id ` set (or_empty (fst (sqlite_list_cron_jobs ''p'' ''d'' (calm demo_gw)))) = {} \<and>
      fst r = Reply (OnJobs JobDeleted) \<and>
      map jo_job_id (gw_jobs (tables (st_store (snd r)))) = [''l'']"
  by code_simp

text \<open>\<open>/trace\<close> takes a text that names no trace for an id, and slices it at its eighth byte: two
  characters of four bytes and one more, or three of three bytes, and the command panics.\<close>

lemma trace_selector_panics:
  "fst (handle_command demo_context demo_outside
     (''/trace '' @ concat (replicate 3 [CHR 0xE4, CHR 0xBD, CHR 0xA0])) demo_command_state) = Panics"
  by code_simp

text \<open>A job that is added has a valid expression and a message; one written with quotes, as the usage
  shows, is read as it was written.\<close>

lemma parse_cron_add_sound:
  assumes "parse_cron_add inp = Some (expr, message)"
  shows "is_valid_cron_expr expr \<and> message \<noteq> []"
  using assms
  by (auto simp: parse_cron_add_def cron_quoted_def cron_unquoted_def or_else_def Let_def bind_eq_Some_conv
      split: option.splits if_splits)

end
