(* ===== verification/Command_Clear.thy ===== *)
theory Command_Clear
  imports Command_Props
begin

text \<open>
  What \<open>/esc all\<close>, \<open>/kill all\<close> and \<open>/cancel all\<close> do (\<open>kill_or_cancel_all\<close> of \<open>commands.rs\<close>) on the
  SQLite tables: which requests they fail, which tokens they fire, and what they report.
\<close>

section \<open>Failing requests\<close>

text \<open>The open requests with an id in the set have failed with the reason; all else is as before.\<close>

definition failed_in :: "string \<Rightarrow> string set \<Rightarrow> request_row \<Rightarrow> request_row \<Rightarrow> bool" where
  "failed_in reason ids r r' \<longleftrightarrow>
     (if qr_request_id r \<in> ids \<and> active_status (qr_status r) then \<exists>now. r' = fail_row reason now r
      else r' = r)"

definition failing :: "string \<Rightarrow> string set \<Rightarrow> trace_db \<Rightarrow> trace_db \<Rightarrow> bool" where
  "failing reason ids t t' \<longleftrightarrow>
     tb_outbox t' = tb_outbox t \<and> list_all2 (failed_in reason ids) (tb_requests t) (tb_requests t')"

lemma fail_row_simps [simp]:
  "qr_request_id (fail_row m now r) = qr_request_id r" "qr_trace_id (fail_row m now r) = qr_trace_id r"
  "qr_status (fail_row m now r) = ''failed''" "in_conversation k (fail_row m now r) = in_conversation k r"
  by (simp_all add: fail_row_def in_conversation_def)

lemma failed_not_active [simp]: "\<not> active_status ''failed''"
  by (simp add: active_status_def)

lemma failed_in_cases:
  assumes "failed_in reason ids r r'"
  obtains (same) "r' = r" "qr_request_id r \<in> ids \<Longrightarrow> \<not> active_status (qr_status r)"
  | (fails) now where "r' = fail_row reason now r" "qr_request_id r \<in> ids" "active_status (qr_status r)"
  using assms by (auto simp: failed_in_def split: if_splits)

lemma failed_in_trans: "failed_in reason F a b \<Longrightarrow> failed_in reason G b d \<Longrightarrow> failed_in reason (F \<union> G) a d"
  by (elim failed_in_cases) (auto simp: failed_in_def)

lemma failing_refl: "failing reason {} t t"
  by (simp add: failing_def failed_in_def list_all2_same)

lemma failing_update:
  assumes "\<And>r. r \<in> set (tb_requests t) \<Longrightarrow> p r \<longleftrightarrow> qr_request_id r \<in> ids \<and> active_status (qr_status r)"
    and "tb_outbox t' = tb_outbox t" and "tb_requests t' = update_where p (fail_row reason now) (tb_requests t)"
  shows "failing reason ids t t'"
  using assms by (auto simp: failing_def failed_in_def update_where_def list_all2_conv_all_nth)

lemma failing_trans:
  assumes "failing reason F t u" and "failing reason G u v"
  shows "failing reason (F \<union> G) t v"
  using assms list_all2_trans [of "failed_in reason F" "failed_in reason G" "failed_in reason (F \<union> G)"]
    failed_in_trans unfolding failing_def by metis

lemma failing_row:
  assumes "failing reason F t u" and "r' \<in> set (tb_requests u)"
  obtains r where "r \<in> set (tb_requests t)" "failed_in reason F r r'"
  using assms unfolding failing_def by (metis in_set_conv_nth list_all2_conv_all_nth)

lemma failing_kept:
  assumes "failing reason F t u" and "r \<in> set (tb_requests t)" and "qr_request_id r \<notin> F"
  shows "r \<in> set (tb_requests u)"
proof -
  from assms(1,2) obtain r' where "r' \<in> set (tb_requests u)" "failed_in reason F r r'"
    unfolding failing_def by (metis in_set_conv_nth list_all2_conv_all_nth)
  with assms(3) show ?thesis by (auto simp: failed_in_def)
qed

lemma failing_ids:
  "failing reason F t u \<Longrightarrow> map qr_request_id (tb_requests u) = map qr_request_id (tb_requests t)"
  by (auto simp: failing_def list_all2_conv_all_nth intro!: nth_equalityI elim!: failed_in_cases)

lemma filter_list_all2:
  "list_all2 R xs ys \<Longrightarrow> (\<And>x y. R x y \<Longrightarrow> q y \<Longrightarrow> p x) \<Longrightarrow> length (filter q ys) \<le> length (filter p xs)"
  by (induction rule: list_all2_induct) (auto intro: le_SucI)

lemma failing_open:
  assumes "failing reason F t u"
  shows "length (active_rows u k) \<le> length (active_rows t k)"
proof -
  have "retryable_of_request u = retryable_of_request t"
    using assms by (simp add: failing_def retryable_of_request_def fun_eq_iff)
  then show ?thesis
    unfolding active_rows_def order_asc_def length_sort
    by (intro filter_list_all2 [OF assms [unfolded failing_def, THEN conjunct2]])
      (auto elim!: failed_in_cases)
qed

section \<open>One request\<close>

lemma force_fail_failing:
  assumes "quiet c" and "\<And>r. r \<in> set (tb_requests (tables c)) \<Longrightarrow> qr_trace_id r = tid \<longleftrightarrow> qr_request_id r = rid"
  obtains c' where "sqlite_force_fail_request tid reason c =
      (Inr (\<exists>r \<in> set (tb_requests (tables c)). qr_request_id r = rid \<and> active_status (qr_status r)), c')"
    "quiet c'" "failing reason {rid} (tables c) (tables c')"
proof -
  let ?p = "\<lambda>r. qr_trace_id r = tid \<and> active_status (qr_status r)"
  let ?t = "(tables c)\<lparr>tb_requests := update_where ?p (fail_row reason (env_now (here c))) (tb_requests (tables c))\<rparr>"
  have "0 < affected ?p (tb_requests (tables c)) \<longleftrightarrow>
      (\<exists>r \<in> set (tb_requests (tables c)). qr_request_id r = rid \<and> active_status (qr_status r))"
    using assms(2) by (auto simp: affected_pos)
  then have "sqlite_force_fail_request tid reason c =
      (Inr (\<exists>r \<in> set (tb_requests (tables c)). qr_request_id r = rid \<and> active_status (qr_status r)),
       c\<lparr>tick := Suc (tick c), tables := ?t\<rparr>)"
    using assms(1) by (simp add: sqlite_force_fail_request_def and_then_def map_err_def stmt_quiet ret_def
        update_requests_def)
  moreover have "failing reason {rid} (tables c) ?t"
    by (rule failing_update [where p = ?p]) (use assms(2) in auto)
  ultimately show thesis
    using assms(1) by (intro that [of "c\<lparr>tick := Suc (tick c), tables := ?t\<rparr>"]) simp_all
qed

lemma as_status_of_row:
  "as_status (active_of_row t r) = RqAccepted \<longleftrightarrow> qr_status r = ''accepted''"
  "as_trace_id (active_of_row t r) = qr_trace_id r" "as_request_id (active_of_row t r) = qr_request_id r"
  "as_created_at (active_of_row t r) = qr_created_at r"
proof -
  have "RequestStatus_parse (qr_status r) = Some RqAccepted \<longleftrightarrow> qr_status r = ''accepted''"
    by (simp add: RequestStatus_parse_Some)
  moreover have "as_status (active_of_row t r) = unwrap_or RqFailed (RequestStatus_parse (qr_status r))"
    by (simp add: active_of_row_def Let_def)
  ultimately show "as_status (active_of_row t r) = RqAccepted \<longleftrightarrow> qr_status r = ''accepted''"
    by (cases "RequestStatus_parse (qr_status r)") (simp_all add: unwrap_or_def)
qed (simp_all add: active_of_row_def Let_def)

lemma cancel_failing:
  assumes "quiet c" and "distinct (map qr_request_id (tb_requests (tables c)))"
    and "row \<in> set (active_rows (tables c) k)" and "qr_status row = ''accepted''"
    and "length (active_rows (tables c) k) \<le> 50"
    and only: "\<And>r. r \<in> set (active_rows (tables c) k) \<Longrightarrow>
      selected (qr_trace_id row) (active_of_row (tables c) r) \<Longrightarrow> r = row"
  shows "\<exists>q c'. cancel_accepted_request (sqlite_repo (\<lambda>j. Inr (ser j)) de) k (qr_trace_id row) reason c =
      (Inr (cancel_request_outcome.Cancelled q), c') \<and> quiet c' \<and>
      failing reason {qr_request_id row} (tables c) (tables c')"
proof -
  let ?t = "tables c" and ?sel = "selected (qr_trace_id row)"
  let ?p = "\<lambda>r. qr_request_id r = qr_request_id row \<and> qr_status r = ''accepted''"
  have row: "row \<in> set (tb_requests ?t)" using assms(3) by (auto simp: active_rows_def)
  have sel: "?sel (active_of_row ?t row)" by (simp add: selected_def as_status_of_row)
  have "find ?sel (map (active_of_row ?t) (active_rows ?t k)) \<noteq> None"
    using sel assms(3) by (auto simp: find_None_iff)
  then obtain q where q: "find ?sel (map (active_of_row ?t) (active_rows ?t k)) = Some q" by blast
  then have "q \<in> active_of_row ?t ` set (active_rows ?t k)" "?sel q" by (auto dest: find_SomeD)
  with only have qrow: "q = active_of_row ?t row" by auto
  have one: "affected ?p (tb_requests ?t) = 1"
    using affected_lookup [OF assms(2), of "qr_request_id row" "\<lambda>r. qr_status r = ''accepted''"]
      lookup_mem [OF assms(2) row] assms(4) by simp
  let ?f = "fail_row reason (env_now (world c (Suc (tick c))))"
  let ?t1 = "?t\<lparr>tb_requests := update_where ?p ?f (tb_requests ?t)\<rparr>"
  have "sqlite_transition_request_if (qr_request_id row) RqAccepted RqFailed (Some reason)
        (c\<lparr>tick := Suc (tick c)\<rparr>) = (Inr True, c\<lparr>tick := Suc (Suc (tick c)), tables := ?t1\<rparr>)"
    using assms(1) one
    by (simp add: sqlite_transition_request_if_def and_then_def map_err_def stmt_quiet ret_def
        update_requests_def fail_row_def [abs_def])
  moreover have "sqlite_list_active_requests k 50 c =
      (Inr (map (active_of_row ?t) (active_rows ?t k)), c\<lparr>tick := Suc (tick c)\<rparr>)"
    using assms(1,5) by (simp add: sqlite_list_active_requests_def map_err_def stmt_select_quiet)
  moreover have "as_status q = RqAccepted" "as_request_id q = qr_request_id row"
    using assms(4) by (simp_all add: qrow as_status_of_row)
  ultimately have run: "\<exists>x c'. cancel_accepted_request (sqlite_repo (\<lambda>j. Inr (ser j)) de) k (qr_trace_id row) reason c =
      (Inr (cancel_request_outcome.Cancelled x), c') \<and> quiet c' \<and>
      tb_outbox (tables c') = tb_outbox ?t \<and> tb_requests (tables c') = tb_requests ?t1"
    using assms(1) q
    by (simp add: cancel_accepted_request_def fail_if_accepted_def sqlite_repo_def and_then_def ret_def
        sqlite_append_event_def map_err_def stmt_quiet insert_event_def)
  have "failing reason {qr_request_id row} ?t t'" if "tb_outbox t' = tb_outbox ?t"
    "tb_requests t' = tb_requests ?t1" for t'
  proof (rule failing_update [where p = ?p])
    fix r assume r: "r \<in> set (tb_requests ?t)"
    have "r = row" if "qr_request_id r = qr_request_id row"
      using that r row assms(2) by (meson eq_key_imp_eq_value distinct_map inj_onD)
    with assms(4) show "?p r \<longleftrightarrow> qr_request_id r \<in> {qr_request_id row} \<and> active_status (qr_status r)"
      by (auto simp: active_status_def)
  qed (use that in simp_all)
  with run show ?thesis by blast
qed

section \<open>The sweep\<close>

text \<open>The requests the sweep fails: those still queued, and those running whose token is registered or
  that were made before the gateway started.\<close>

definition clearable ::
  "('s, 't, 'f) command_context \<Rightarrow> 'f command_env \<Rightarrow> ('s, 't) command_state \<Rightarrow> request_row \<Rightarrow> bool" where
  "clearable ctx env s r \<longleftrightarrow>
     qr_status r = ''accepted'' \<or>
     qr_status r = ''running'' \<and>
       (has_live_token ctx (qr_trace_id r) s \<or>
        is_zombie_request (ce_naive env) (ce_rfc3339 env) (qr_created_at r) (cc_gateway_start ctx))"

text \<open>No id of a request is the beginning of an id of another.\<close>

definition ids_apart :: "trace_db \<Rightarrow> bool" where
  "ids_apart t \<longleftrightarrow> distinct (map qr_request_id (tb_requests t)) \<and>
     (\<forall>r \<in> set (tb_requests t). \<forall>x \<in> set (tb_requests t).
        starts_with (qr_trace_id x) (qr_trace_id r) \<or> starts_with (qr_request_id x) (qr_trace_id r) \<longrightarrow> x = r)"

lemma starts_with_same [simp]: "starts_with s s"
  by (simp add: starts_with_def)

lemma failing_drop:
  assumes "failing reason (insert i F) t u"
    and "\<And>r. r \<in> set (tb_requests t) \<Longrightarrow> qr_request_id r = i \<Longrightarrow> \<not> active_status (qr_status r)"
  shows "failing reason F t u"
proof -
  have "list_all2 (failed_in reason F) (tb_requests t) (tb_requests u)"
    using assms(1)[unfolded failing_def, THEN conjunct2]
    by (rule list.rel_mono_strong) (use assms(2) in \<open>auto simp: failed_in_def\<close>)
  with assms(1) show ?thesis by (simp add: failing_def)
qed

lemma ids_apart_rows:
  assumes "ids_apart t" and "r \<in> set (tb_requests t)" and "x \<in> set (tb_requests t)"
  shows "qr_trace_id x = qr_trace_id r \<longleftrightarrow> x = r" and "qr_request_id x = qr_request_id r \<longleftrightarrow> x = r"
    and "selected (qr_trace_id r) (active_of_row u x) \<longleftrightarrow> x = r"
proof -
  show tr: "qr_trace_id x = qr_trace_id r \<longleftrightarrow> x = r"
    using assms starts_with_same unfolding ids_apart_def by metis
  show "qr_request_id x = qr_request_id r \<longleftrightarrow> x = r"
    using assms unfolding ids_apart_def by (meson eq_key_imp_eq_value distinct_map inj_onD)
  show "selected (qr_trace_id r) (active_of_row u x) \<longleftrightarrow> x = r"
    using assms starts_with_same unfolding ids_apart_def selected_def as_status_of_row by metis
qed

text \<open>The rows of the tables during the sweep, by those of the tables before it.\<close>

lemma failing_match:
  assumes "failing reason F t u" and "ids_apart t" and "row \<in> set (tb_requests t)" and "qr_request_id row \<notin> F"
    and "x \<in> set (tb_requests u)"
  shows "qr_trace_id x = qr_trace_id row \<longleftrightarrow> x = row" and "qr_request_id x = qr_request_id row \<longleftrightarrow> x = row"
    and "selected (qr_trace_id row) (active_of_row u x) \<longleftrightarrow> x = row"
proof -
  obtain r where r: "r \<in> set (tb_requests t)" "failed_in reason F r x"
    using failing_row [OF assms(1,5)] .
  then have ids: "qr_trace_id x = qr_trace_id r" "qr_request_id x = qr_request_id r"
    by (auto elim!: failed_in_cases)
  have same: "r = row \<longleftrightarrow> x = row"
  proof
    assume "r = row"
    with r(2) assms(4) show "x = row" by (auto simp: failed_in_def)
  next
    assume "x = row"
    with ids(1) ids_apart_rows(1) [OF assms(2,3) r(1)] show "r = row" by metis
  qed
  note ap = ids_apart_rows [OF assms(2,3) r(1)]
  show "qr_trace_id x = qr_trace_id row \<longleftrightarrow> x = row" using ids(1) ap(1) same by metis
  show "qr_request_id x = qr_request_id row \<longleftrightarrow> x = row" using ids(2) ap(2) same by metis
  have "selected (qr_trace_id row) (active_of_row u x) \<longleftrightarrow> selected (qr_trace_id row) (active_of_row t r)"
    using ids by (simp add: selected_def as_status_of_row)
  then show "selected (qr_trace_id row) (active_of_row u x) \<longleftrightarrow> x = row" using ap(3) [of t] same by blast
qed

lemma sweep_request_effect:
  fixes ctx :: "('s, trace_db, 'f) command_context"
  assumes "quiet (st_trace s)" and t: "failing reason F t0 (tables (st_trace s))" and apart: "ids_apart t0"
    and row: "row \<in> set (active_rows t0 (command_conversation ctx))" "qr_request_id row \<notin> F"
    and few: "length (active_rows t0 (command_conversation ctx)) \<le> 50"
    and m: "sweep_request ctx env (sqlite_repo (\<lambda>j. Inr (ser j)) de) reason (active_of_row t0 row) n s = (n', s')"
  shows "quiet (st_trace s') \<and>
    failing reason (F \<union> (if clearable ctx env s row then {qr_request_id row} else {})) t0 (tables (st_trace s')) \<and>
    sc_cleared n' = sc_cleared n + (if clearable ctx env s row then 1 else 0) \<and>
    st_live s' = (if has_live_token ctx (qr_trace_id row) s then removeAll (qr_trace_id row) (st_live s)
      else st_live s)"
proof -
  let ?k = "command_conversation ctx" and ?c = "st_trace s"
  have row0: "row \<in> set (tb_requests t0)" using row(1) by (auto simp: active_rows_def)
  have here: "row \<in> set (tb_requests (tables ?c))" using failing_kept [OF t row0 row(2)] .
  note match = failing_match [OF t apart row0 row(2)]
  have live [simp]: "has_live_token ctx i (s\<lparr>st_trace := c'\<rparr>) = has_live_token ctx i s" for i c'
    by (simp add: has_live_token_def)
  have fired: "fire_token ctx i (s\<lparr>st_trace := c'\<rparr>) = (has_live_token ctx i s,
      if has_live_token ctx i s
      then s\<lparr>st_trace := c', st_live := removeAll i (st_live s), st_fired := st_fired s @ [i]\<rparr>
      else s\<lparr>st_trace := c'\<rparr>)" for i c' by (simp add: fire_token_def)
  have count: "sc_cleared (count_fired b x) = sc_cleared x" for b x by (simp add: count_fired_def)
  show ?thesis
  proof (cases "qr_status row = ''accepted''")
    case True
    have "distinct (map qr_request_id (tb_requests (tables ?c)))"
      using apart by (simp add: failing_ids [OF t] ids_apart_def)
    moreover have "row \<in> set (active_rows (tables ?c) ?k)"
      using row(1) True here by (auto simp: active_rows_def active_status_def)
    moreover have "length (active_rows (tables ?c) ?k) \<le> 50" using failing_open [OF t] few le_trans by blast
    moreover have "r = row" if "r \<in> set (active_rows (tables ?c) ?k)"
      "selected (qr_trace_id row) (active_of_row (tables ?c) r)" for r
      using that match(3) [of r] by (simp add: active_rows_def)
    ultimately obtain q c' where q: "cancel_accepted_request (sqlite_repo (\<lambda>j. Inr (ser j)) de) ?k (qr_trace_id row)
        reason ?c = (Inr (cancel_request_outcome.Cancelled q), c')" "quiet c'"
        "failing reason {qr_request_id row} (tables ?c) (tables c')"
      using cancel_failing [OF assms(1) _ _ True, of ?k ser de reason] by blast
    have "sweep_request ctx env (sqlite_repo (\<lambda>j. Inr (ser j)) de) reason (active_of_row t0 row) n s =
        (count_fired (has_live_token ctx (qr_trace_id row) s) (n\<lparr>sc_cleared := sc_cleared n + 1\<rparr>),
         snd (fire_token ctx (qr_trace_id row) (s\<lparr>st_trace := c'\<rparr>)))"
      using True q(1) by (simp add: sweep_request_def as_status_of_row on_trace_def scomp_def fired Let_def)
    moreover have "clearable ctx env s row" using True by (simp add: clearable_def)
    ultimately show ?thesis
      using m q(2) failing_trans [OF t q(3)] by (simp add: fired count split: if_splits)
  next
    case False
    have same: "qr_trace_id r = qr_trace_id row \<longleftrightarrow> qr_request_id r = qr_request_id row"
      if "r \<in> set (tb_requests (tables ?c))" for r using match(1,2) [OF that] by blast
    obtain c' where f: "sqlite_force_fail_request (qr_trace_id row) reason ?c =
      (Inr (\<exists>r \<in> set (tb_requests (tables ?c)). qr_request_id r = qr_request_id row \<and> active_status (qr_status r)), c')"
      "quiet c'" "failing reason {qr_request_id row} (tables ?c) (tables c')"
      by (rule force_fail_failing [OF assms(1) same])
    let ?live = "has_live_token ctx (qr_trace_id row) s" and ?zombie = "is_zombie ctx env (active_of_row t0 row)"
    have active: "(\<exists>r \<in> set (tb_requests (tables ?c)). qr_request_id r = qr_request_id row \<and>
        active_status (qr_status r)) \<longleftrightarrow> qr_status row = ''running''"
      using match(2) here False by (auto simp: active_status_def)
    have clear: "clearable ctx env s row \<longleftrightarrow> qr_status row = ''running'' \<and> (?live \<or> ?zombie)"
      using False by (simp add: clearable_def is_zombie_def as_status_of_row)
    have not_acc: "as_status (active_of_row t0 row) \<noteq> RqAccepted" using False by (simp add: as_status_of_row)
    show ?thesis
    proof (cases "?live \<or> ?zombie")
      case False
      with m not_acc clear assms(1) t show ?thesis by (auto simp: sweep_request_def as_status_of_row)
    next
      case True
      have "failing reason (F \<union> (if clearable ctx env s row then {qr_request_id row} else {})) t0 (tables c')"
        using failing_trans [OF t f(3)] failing_drop [of reason "qr_request_id row" F t0 "tables c'"]
          ids_apart_rows(2) [OF apart row0] clear True False
        by (auto simp: active_status_def split: if_splits)
      moreover obtain n1 where "sweep_request ctx env (sqlite_repo (\<lambda>j. Inr (ser j)) de) reason (active_of_row t0 row) n s =
          (count_fired ?live n1, snd (fire_token ctx (qr_trace_id row) (s\<lparr>st_trace := c'\<rparr>)))"
          "sc_cleared n1 = sc_cleared n + (if qr_status row = ''running'' then 1 else 0)"
      proof -
        have go: "(\<not> ?live \<and> \<not> ?zombie) = False" using True by blast
        show thesis
          using not_acc f(1) unfolding active
          by (intro that [of "if qr_status row = ''running'' then n\<lparr>sc_cleared := sc_cleared n + 1\<rparr>
                else n\<lparr>sc_zombies := sc_zombies n + 1\<rparr>"]; cases "qr_status row = ''running''")
             (simp_all add: sweep_request_def go as_status_of_row on_trace_def scomp_def fired Let_def sqlite_repo_def)
      qed
      ultimately show ?thesis
        using m f(2) True clear by (simp add: fired count split: if_splits)
    qed
  qed
qed

lemma clearable_live:
  "has_live_token ctx (qr_trace_id r) s = has_live_token ctx (qr_trace_id r) s' \<Longrightarrow>
   clearable ctx env s r = clearable ctx env s' r"
  by (simp add: clearable_def)

lemma sweep_effect:
  fixes ctx :: "('s, trace_db, 'f) command_context"
  assumes "quiet (st_trace s)" and "failing reason F t0 (tables (st_trace s))" and apart: "ids_apart t0"
    and few: "length (active_rows t0 (command_conversation ctx)) \<le> 50"
    and "set rs \<subseteq> set (active_rows t0 (command_conversation ctx))" and "distinct rs"
    and "\<forall>r \<in> set rs. qr_request_id r \<notin> F"
    and "\<forall>r \<in> set rs. has_live_token ctx (qr_trace_id r) s = has_live_token ctx (qr_trace_id r) s0"
    and "sweep_requests ctx env (sqlite_repo (\<lambda>j. Inr (ser j)) de) reason (map (active_of_row t0) rs) n s = (n', s')"
  shows "failing reason (F \<union> qr_request_id ` {r \<in> set rs. clearable ctx env s0 r}) t0 (tables (st_trace s')) \<and>
    sc_cleared n' = sc_cleared n + length (filter (clearable ctx env s0) rs) \<and>
    set (st_live s') = set (st_live s) - (if cc_registry ctx then qr_trace_id ` set rs else {})"
  using assms(1,2,5-9)
proof (induction rs arbitrary: F n s)
  case (Cons row rs)
  let ?G = "if clearable ctx env s row then {qr_request_id row} else {}"
  obtain n1 s1 where m1: "sweep_request ctx env (sqlite_repo (\<lambda>j. Inr (ser j)) de) reason
      (active_of_row t0 row) n s = (n1, s1)" by fastforce
  have row: "row \<in> set (active_rows t0 (command_conversation ctx))" "qr_request_id row \<notin> F"
    using Cons.prems(3,5) by auto
  note 1 = sweep_request_effect [OF Cons.prems(1,2) apart row few m1]
  have clear: "clearable ctx env s row = clearable ctx env s0 row"
    using Cons.prems(6) by (intro clearable_live) simp
  have in0: "r \<in> set (tb_requests t0)" if "r \<in> set (row # rs)" for r
    using that Cons.prems(3) by (auto simp: active_rows_def)
  have other: "qr_trace_id r \<noteq> qr_trace_id row" "qr_request_id r \<noteq> qr_request_id row" if "r \<in> set rs" for r
  proof -
    have "r \<noteq> row" using that Cons.prems(4) by auto
    moreover have "row \<in> set (tb_requests t0)" "r \<in> set (tb_requests t0)" using in0 that by simp_all
    ultimately show "qr_trace_id r \<noteq> qr_trace_id row" "qr_request_id r \<noteq> qr_request_id row"
      using ids_apart_rows(1,2) [OF apart, of row r] by blast+
  qed
  have m2: "sweep_requests ctx env (sqlite_repo (\<lambda>j. Inr (ser j)) de) reason (map (active_of_row t0) rs) n1 s1 = (n', s')"
    using Cons.prems(7) m1 by (simp add: scomp_def)
  have live: "\<forall>r \<in> set rs. has_live_token ctx (qr_trace_id r) s1 = has_live_token ctx (qr_trace_id r) s0"
  proof
    fix r assume r: "r \<in> set rs"
    have "st_live s1 = st_live s \<or> st_live s1 = removeAll (qr_trace_id row) (st_live s)" using 1 by metis
    with other(1) [OF r] have "has_live_token ctx (qr_trace_id r) s1 = has_live_token ctx (qr_trace_id r) s"
      by (auto simp: has_live_token_def)
    with r Cons.prems(6) show "has_live_token ctx (qr_trace_id r) s1 = has_live_token ctx (qr_trace_id r) s0"
      by simp
  qed
  have IH: "failing reason (F \<union> ?G \<union> qr_request_id ` {r \<in> set rs. clearable ctx env s0 r}) t0 (tables (st_trace s')) \<and>
      sc_cleared n' = sc_cleared n1 + length (filter (clearable ctx env s0) rs) \<and>
      set (st_live s') = set (st_live s1) - (if cc_registry ctx then qr_trace_id ` set rs else {})"
  proof (rule Cons.IH)
    show "\<forall>r \<in> set rs. qr_request_id r \<notin> F \<union> ?G" using Cons.prems(5) other(2) by simp
  qed (use 1 Cons.prems(3,4) live m2 in simp_all)
  have "F \<union> ?G \<union> qr_request_id ` {r \<in> set rs. clearable ctx env s0 r} =
      F \<union> qr_request_id ` {r \<in> set (row # rs). clearable ctx env s0 r}" using clear by auto
  moreover have "set (st_live s1) = set (st_live s) - (if cc_registry ctx then {qr_trace_id row} else {})"
    using 1 by (auto simp: has_live_token_def)
  ultimately show ?case using IH 1 clear by auto
qed simp

section \<open>Clearing a conversation\<close>

text \<open>Which rows that is, in the listing and in the table.\<close>

lemma clearable_active: "clearable ctx env s r \<Longrightarrow> active_status (qr_status r)"
  by (auto simp: clearable_def active_status_def)

lemma cleared_rows:
  assumes "ids_apart t" and "r \<in> set (tb_requests t)"
  shows "qr_request_id r \<in> qr_request_id ` {x \<in> set (active_rows t k). clearable ctx env s x} \<and>
      active_status (qr_status r) \<longleftrightarrow> in_conversation k r \<and> clearable ctx env s r"
    (is "?l \<longleftrightarrow> ?r")
proof
  assume ?l
  then obtain x where "x \<in> set (active_rows t k)" "clearable ctx env s x" "qr_request_id x = qr_request_id r"
    by force
  with ids_apart_rows(2) [OF assms, of x] show ?r by (auto simp: active_rows_def)
next
  assume ?r
  with assms(2) clearable_active [of ctx env s r] show ?l by (auto simp: active_rows_def)
qed

lemma cleared_number:
  "length (filter (clearable ctx env s) (open_requests k t)) =
   length (filter (\<lambda>r. in_conversation k r \<and> clearable ctx env s r) (tb_requests t))"
  unfolding open_requests_def filter_filter
  by (intro arg_cong [where f = length] filter_cong) (auto simp: clearable_def)

lemma clear_all_run:
  fixes ctx :: "('s, trace_db, 'f) command_context"
  assumes "quiet (st_trace s)" and "length (active_rows (tables (st_trace s)) (command_conversation ctx)) \<le> 50"
    and "kill_or_cancel_all ctx env (sqlite_repo (\<lambda>j. Inr (ser j)) de) reason s = (out, s')"
  obtains n where "sweep_requests ctx env (sqlite_repo (\<lambda>j. Inr (ser j)) de) reason
      (map (active_of_row (tables (st_trace s))) (active_rows (tables (st_trace s)) (command_conversation ctx)))
      no_counts (s\<lparr>st_trace := (st_trace s)\<lparr>tick := Suc (tick (st_trace s))\<rparr>\<rparr>) = (n, s')"
    "active_rows (tables (st_trace s)) (command_conversation ctx) \<noteq> [] \<Longrightarrow>
     out = Reply (OnInterrupts (Cleared (sc_cleared n) (sc_interrupted n) (sc_zombies n)))"
    "active_rows (tables (st_trace s)) (command_conversation ctx) = [] \<Longrightarrow>
     out = Reply (OnInterrupts NothingActive)"
proof -
  let ?k = "command_conversation ctx" and ?t = "tables (st_trace s)"
  have "sqlite_list_active_requests ?k 200 (st_trace s) =
      (Inr (map (active_of_row ?t) (active_rows ?t ?k)), (st_trace s)\<lparr>tick := Suc (tick (st_trace s))\<rparr>)"
    using assms(1,2) by (simp add: sqlite_list_active_requests_def map_err_def stmt_select_quiet)
  then have list: "tr_list_active_requests (sqlite_repo (\<lambda>j. Inr (ser j)) de) ?k 200 (st_trace s) =
      (Inr (map (active_of_row ?t) (active_rows ?t ?k)), (st_trace s)\<lparr>tick := Suc (tick (st_trace s))\<rparr>)"
    by (simp add: sqlite_repo_def)
  obtain n s2 where m: "sweep_requests ctx env (sqlite_repo (\<lambda>j. Inr (ser j)) de) reason
      (map (active_of_row ?t) (active_rows ?t ?k)) no_counts
      (s\<lparr>st_trace := (st_trace s)\<lparr>tick := Suc (tick (st_trace s))\<rparr>\<rparr>) = (n, s2)" by fastforce
  have run: "(out, s') = (if active_rows ?t ?k = []
      then (Reply (OnInterrupts NothingActive), s\<lparr>st_trace := (st_trace s)\<lparr>tick := Suc (tick (st_trace s))\<rparr>\<rparr>)
      else (Reply (OnInterrupts (Cleared (sc_cleared n) (sc_interrupted n) (sc_zombies n))), s2))"
    unfolding assms(3) [symmetric] kill_or_cancel_all_def on_trace_def scomp_def by (simp add: list m)
  show thesis
  proof (cases "active_rows ?t ?k = []")
    case True
    with run m show thesis by (intro that [of n]) simp_all
  next
    case False
    with run m show thesis by (intro that [of n]) simp_all
  qed
qed

text \<open>Property C17: on an undisturbed database whose ids are not beginnings of each other, with at most
  fifty open requests in the conversation, \<open>/esc all\<close> fails exactly the queued requests of the
  conversation and those running whose token is registered or that are left from an earlier run of
  the gateway; every other request, the replies and the other conversations stay as they are; it
  reports their number, and takes the tokens of the open requests from the registry.\<close>

theorem clear_all_effect:
  fixes ctx :: "('s, trace_db, 'f) command_context"
  assumes "quiet (st_trace s)" and "ids_apart (tables (st_trace s))"
    and "length (open_requests (command_conversation ctx) (tables (st_trace s))) \<le> 50"
    and "kill_or_cancel_all ctx env (sqlite_repo (\<lambda>j. Inr (ser j)) de) reason s = (out, s')"
  shows "let k = command_conversation ctx; t = tables (st_trace s); t' = tables (st_trace s');
      clears = (\<lambda>r. in_conversation k r \<and> clearable ctx env s r)
    in list_all2 (\<lambda>r r'. if clears r then \<exists>now. r' = fail_row reason now r else r' = r)
         (tb_requests t) (tb_requests t') \<and>
       tb_outbox t' = tb_outbox t \<and>
       set (st_live s') = set (st_live s) -
         (if cc_registry ctx then qr_trace_id ` set (open_requests k t) else {}) \<and>
       (if open_requests k t = [] then out = Reply (OnInterrupts NothingActive)
        else \<exists>i z. out = Reply (OnInterrupts (Cleared (length (filter clears (tb_requests t))) i z)))"
proof -
  let ?k = "command_conversation ctx" and ?t = "tables (st_trace s)"
  let ?clears = "\<lambda>r. in_conversation ?k r \<and> clearable ctx env s r"
  let ?rs = "active_rows ?t ?k" and ?s1 = "s\<lparr>st_trace := (st_trace s)\<lparr>tick := Suc (tick (st_trace s))\<rparr>\<rparr>"
  note opened = active_rows_open [of ?t ?k]
  have few: "length ?rs \<le> 50" using assms(3) by (simp add: opened order_asc_def)
  obtain n where run: "sweep_requests ctx env (sqlite_repo (\<lambda>j. Inr (ser j)) de) reason
      (map (active_of_row ?t) ?rs) no_counts ?s1 = (n, s')"
    "?rs \<noteq> [] \<Longrightarrow> out = Reply (OnInterrupts (Cleared (sc_cleared n) (sc_interrupted n) (sc_zombies n)))"
    "?rs = [] \<Longrightarrow> out = Reply (OnInterrupts NothingActive)"
    using clear_all_run [OF assms(1) few assms(4)] by metis
  have "distinct (tb_requests ?t)" using assms(2) by (auto simp: ids_apart_def distinct_map)
  then have rs: "distinct ?rs" "\<forall>r \<in> set ?rs. r \<in> set (tb_requests ?t)"
    by (auto simp: active_rows_def order_asc_def)
  have eff: "failing reason ({} \<union> qr_request_id ` {r \<in> set ?rs. clearable ctx env s r}) ?t (tables (st_trace s')) \<and>
      sc_cleared n = sc_cleared no_counts + length (filter (clearable ctx env s) ?rs) \<and>
      set (st_live s') = set (st_live ?s1) - (if cc_registry ctx then qr_trace_id ` set ?rs else {})"
    by (rule sweep_effect [OF _ _ assms(2) few _ rs(1) _ _ run(1)])
       (use assms(1) failing_refl in \<open>auto simp: has_live_token_def\<close>)
  have "list_all2 (failed_in reason (qr_request_id ` {r \<in> set ?rs. clearable ctx env s r}))
      (tb_requests ?t) (tb_requests (tables (st_trace s')))" using eff by (simp add: failing_def)
  then have rows: "list_all2 (\<lambda>r r'. if ?clears r then \<exists>now. r' = fail_row reason now r else r' = r)
      (tb_requests ?t) (tb_requests (tables (st_trace s')))"
    by (rule list.rel_mono_strong) (simp add: failed_in_def cleared_rows [OF assms(2)])
  have number: "length (filter (clearable ctx env s) ?rs) = length (filter ?clears (tb_requests ?t))"
    by (simp add: opened order_asc_def filter_sort cleared_number)
  have same: "set ?rs = set (open_requests ?k ?t)" "?rs = [] \<longleftrightarrow> open_requests ?k ?t = []"
    by (simp_all add: opened flip: set_empty)
  show ?thesis
    using eff rows run(2,3) number unfolding Let_def failing_def same no_counts_def by simp
qed

text \<open>The example tables, as requests of the CLI of the example context.\<close>

definition clear_db :: trace_db where
  "clear_db = demo_db\<lparr>tb_requests := map (\<lambda>r. r\<lparr>qr_cli_profile := ''claude''\<rparr>) (tb_requests demo_db)\<rparr>"

definition clear_state :: "(int gw_db, trace_db) command_state" where
  "clear_state = demo_command_state\<lparr>st_trace := calm clear_db, st_live := [''tr'', ''x'']\<rparr>"

lemma clear_all_effect_witness:
  "\<exists>i z s'. kill_or_cancel_all demo_context demo_outside (sqlite_repo (\<lambda>j. Inr ''{}'') (\<lambda>_. None)) ''stop''
     clear_state = (Reply (OnInterrupts (Cleared 2 i z)), s') \<and> set (st_live s') = {''x''}"
proof -
  obtain out s' where m: "kill_or_cancel_all demo_context demo_outside
      (sqlite_repo (\<lambda>j. Inr ''{}'') (\<lambda>_. None)) ''stop'' clear_state = (out, s')" by fastforce
  let ?k = "command_conversation demo_context" and ?t = "tables (st_trace clear_state)"
  have facts: "quiet (st_trace clear_state)" "ids_apart ?t"
    "length (open_requests ?k ?t) = 2" "cc_registry demo_context"
    "qr_trace_id ` set (open_requests ?k ?t) = {''ta'', ''tr''}" "set (st_live clear_state) = {''tr'', ''x''}"
    "length (filter (\<lambda>r. in_conversation ?k r \<and> clearable demo_context demo_outside clear_state r)
       (tb_requests ?t)) = 2"
    by (simp add: clear_state_def, code_simp+)
  with clear_all_effect [OF facts(1,2) _ m] m show ?thesis
    by (auto simp: Let_def split: if_splits)
qed

end
