(* ===== verification/Wecom.thy ===== *)
theory Wecom
  imports Weixin
begin

text \<open>
  The adapter of WeCom's AI bots (\<open>platforms/wecom.rs\<close>), its inbound half: reading the frames of the
  websocket into inbound messages, feedback and control messages. \<open>Wecom_Media\<close> downloads and
  decrypts attachments, \<open>Wecom_Connection\<close> has the connection and the outbound half.

  Sending on the channel of inbound messages waits while it is full, so a step stands for the
  moment at which there is room; a closed channel drops the message. Health events are recorded in
  the order they are emitted, the capabilities at the start apart.
\<close>

section \<open>Health\<close>

datatype adapter_health_event_type =
  HeCapability | HeConnected | HeDisconnected | HeReconnecting | HeShutdown | HeSubscribeAck
  | HeSubscribeError | HeSendAck | HeSendError | HeCredentialRestored | HeCredentialInvalid
  | HeStateRestored | HeStateInvalid | HePollError | HePollBackoff | HeInboundDropped

definition health_is_error :: "adapter_health_event_type \<Rightarrow> bool" where
  "health_is_error t \<longleftrightarrow>
     t \<in> set [HeDisconnected, HeSubscribeError, HeSendError, HeCredentialInvalid, HeStateInvalid, HeInboundDropped]"

definition health_is_warn :: "adapter_health_event_type \<Rightarrow> bool" where
  "health_is_warn t \<longleftrightarrow> t \<in> set [HeReconnecting, HePollError, HePollBackoff]"

section \<open>Kinds of items\<close>

datatype mixed_kind = MixedText | MixedImage | MixedVoice | MixedFile | MixedVideo

text \<open>\<open>str::parse::<i64>\<close>\<close>

definition parse_i64 :: "string \<Rightarrow> int option" where
  "parse_i64 s =
     (case s of
        [] \<Rightarrow> None
      | c # ds \<Rightarrow>
          if c = CHR ''-''
          then (if ds \<noteq> [] \<and> list_all is_digit ds \<and> digits_value ds \<le> 2 ^ 63
                then Some (- int (digits_value ds)) else None)
          else map_option int (parse_uint (2 ^ 63 - 1) s))"

definition kind_of_code :: "int \<Rightarrow> mixed_kind option" where
  "kind_of_code n =
     (if n = 1 then Some MixedText else if n = 2 then Some MixedImage else if n = 3 then Some MixedVoice
      else if n = 4 then Some MixedFile else if n = 5 then Some MixedVideo else None)"

definition kind_of_word :: "string \<Rightarrow> mixed_kind option" where
  "kind_of_word w =
     (if w = ''text'' then Some MixedText
      else if w \<in> set [''image'', ''pic'', ''picture''] then Some MixedImage
      else if w \<in> set [''voice'', ''audio''] then Some MixedVoice
      else if w \<in> set [''file'', ''document'', ''doc''] then Some MixedFile
      else if w = ''video'' then Some MixedVideo
      else None)"

definition KIND_SUFFIXES :: "(string \<times> mixed_kind) list" where
  "KIND_SUFFIXES =
     [(''text'', MixedText), (''image'', MixedImage), (''pic'', MixedImage), (''picture'', MixedImage),
      (''voice'', MixedVoice), (''audio'', MixedVoice), (''file'', MixedFile), (''document'', MixedFile),
      (''doc'', MixedFile), (''video'', MixedVideo)]"

text \<open>One key of the loop: the answer of the function, or nothing when the loop goes on.\<close>

definition kind_of_field :: "json \<Rightarrow> mixed_kind option option" where
  "kind_of_field v =
     (case as_i64 v of
        Some code \<Rightarrow> Some (kind_of_code code)
      | None \<Rightarrow>
          Option.bind (as_str v) (\<lambda>s.
            let w = to_ascii_lowercase (trim s) in
            case parse_i64 w of
              Some code \<Rightarrow> Some (kind_of_code code)
            | None \<Rightarrow>
                map_option Some
                  (or_else (kind_of_word w)
                     (first_some (\<lambda>(suffix, k). if ends_with w suffix then Some k else None) KIND_SUFFIXES))))"

definition wecom_mixed_kind :: "json \<Rightarrow> mixed_kind option" where
  "wecom_mixed_kind item =
     (case first_some (\<lambda>k. kind_of_field (jfield item k)) [''type'', ''msgtype'', ''msg_type''] of
        Some r \<Rightarrow> r | None \<Rightarrow> None)"

section \<open>Texts\<close>

definition first_object_section :: "json \<Rightarrow> string list \<Rightarrow> json option" where
  "first_object_section v keys =
     first_some (\<lambda>k. Option.bind (jget v k) (\<lambda>x. if as_object x \<noteq> None then Some x else None)) keys"

lemma size_map_of: "map_of kvs k = Some x \<Longrightarrow> size x < size (JObj kvs)"
proof (induction kvs)
  case (Cons p kvs) then show ?case by (cases p) (auto split: if_splits)
qed simp

lemma size_jget: "jget v k = Some x \<Longrightarrow> size x < size v"
  by (cases v) (simp_all add: jget_def size_map_of del: json.size)

lemma first_object_section_in:
  "first_object_section v keys = Some x \<Longrightarrow> \<exists>k \<in> set keys. jget v k = Some x"
  unfolding first_object_section_def
  by (drule first_some_in) (auto simp: Option.bind_eq_Some_conv split: if_splits)

definition TEXT_KEYS :: "string list" where
  "TEXT_KEYS = [''text'', ''content'', ''plain_text'', ''msg'', ''message'', ''caption'', ''description'']"

function first_text_string :: "json \<Rightarrow> string option" where
  "first_text_string v =
     or_else (Option.bind (as_str v) (\<lambda>s. if trim s \<noteq> [] then Some (trim s) else None))
       (or_else (first_string TEXT_KEYS v)
          (case first_object_section v [''text'', ''content''] of
             Some section \<Rightarrow> first_text_string section | None \<Rightarrow> None))"
  by pat_completeness auto
termination
  by (relation "measure size") (auto dest!: first_object_section_in size_jget)

declare first_text_string.simps [simp del]

definition push_nonempty_text :: "string \<Rightarrow> string list \<Rightarrow> string list" where
  "push_nonempty_text t parts = (if trim t \<noteq> [] then parts @ [trim t] else parts)"

definition wecom_mixed_items :: "json \<Rightarrow> json list" where
  "wecom_mixed_items body =
     (let mixed = jfield body ''mixed'' in
      case first_some as_array
             ([jfield body ''item_list'', mixed] @
              map (jfield mixed) [''item_list'', ''items'', ''itemlist'', ''item'', ''msg_item'', ''message_items'']) of
        Some items \<Rightarrow> items | None \<Rightarrow> [])"

definition wecom_mixed_item_text :: "json \<Rightarrow> string option" where
  "wecom_mixed_item_text item =
     (if wecom_mixed_kind item = Some MixedText
      then or_else (Option.bind (first_object_section item [''text_item'', ''text'', ''content_item'']) first_text_string)
             (first_text_string item)
      else None)"

definition VOICE_SECTIONS :: "string list" where
  "VOICE_SECTIONS = [''voice_item'', ''voice'', ''audio'']"

definition push_item_text :: "json \<Rightarrow> string list \<Rightarrow> string list" where
  "push_item_text item parts =
     (case wecom_mixed_item_text item of
        Some t \<Rightarrow> push_nonempty_text t parts
      | None \<Rightarrow>
          if wecom_mixed_kind item = Some MixedVoice
          then (case Option.bind (first_object_section item VOICE_SECTIONS) first_text_string of
                  Some t \<Rightarrow> push_nonempty_text (''voice: '' @ trim t) parts
                | None \<Rightarrow> parts)
          else parts)"

definition push_content :: "json \<Rightarrow> string list \<Rightarrow> string list" where
  "push_content section parts =
     (case as_str (jfield section ''content'') of Some t \<Rightarrow> push_nonempty_text t parts | None \<Rightarrow> parts)"

definition extract_wecom_text :: "json \<Rightarrow> string" where
  "extract_wecom_text body =
     join [CHR 0x0A]
       (fold push_item_text (wecom_mixed_items body)
          (push_content (jfield body ''voice'') (push_content (jfield body ''text'') [])))"

section \<open>Attachments\<close>

definition ATTACHMENT_NAME_KEYS :: "string list" where
  "ATTACHMENT_NAME_KEYS = [''filename'', ''file_name'', ''name'', ''title'', ''display_name'', ''origin_name'']"

definition ATTACHMENT_MEDIA_ID_KEYS :: "string list" where
  "ATTACHMENT_MEDIA_ID_KEYS = [''media_id'', ''mediaid'', ''file_id'', ''fileid'']"

definition ATTACHMENT_MIME_KEYS :: "string list" where
  "ATTACHMENT_MIME_KEYS = [''mime_type'', ''mimetype'', ''content_type'']"

definition ATTACHMENT_SIZE_KEYS :: "string list" where
  "ATTACHMENT_SIZE_KEYS = [''size'', ''file_size'', ''filesize'', ''size_bytes'']"

definition url_keys :: "string list" where
  "url_keys = [''url'', ''download_url'', ''file_url'', ''full_url'', ''pic_url'', ''picurl'', ''image_url'']"

definition is_transcribed_voice_without_download ::
  "attachment_kind \<Rightarrow> json \<Rightarrow> string option \<Rightarrow> string list \<Rightarrow> bool" where
  "is_transcribed_voice_without_download kind section url text_keys \<longleftrightarrow>
     kind = AkAudio \<and> url = None \<and> first_string text_keys section \<noteq> None"

text \<open>The four sections of a body; \<open>last_segment\<close> gives the last segment of a URL's path.\<close>

definition section_attachment ::
  "(string \<Rightarrow> string option) \<Rightarrow> json \<Rightarrow> string \<times> attachment_kind \<Rightarrow> inbound_attachment option" where
  "section_attachment last_segment body = (\<lambda>(key, kind).
     Option.bind (Option.bind (jget body key) (\<lambda>s. if as_object s \<noteq> None then Some s else None)) (\<lambda>section.
       let url = first_string url_keys section;
           a = \<lparr>ia_kind = kind,
                ia_name = or_else (first_string ATTACHMENT_NAME_KEYS section) (infer_name_from_url last_segment url),
                ia_media_id = first_string ATTACHMENT_MEDIA_ID_KEYS section,
                ia_url = url, ia_local_path = None,
                ia_mime_type = first_string ATTACHMENT_MIME_KEYS section,
                ia_size_bytes = first_u64 ATTACHMENT_SIZE_KEYS section,
                ia_raw = section\<rparr>
       in if is_transcribed_voice_without_download kind section url [''content''] then None
          else if ia_media_id a \<noteq> None \<or> ia_url a \<noteq> None \<or> ia_name a \<noteq> None \<or> kind \<noteq> AkAudio
          then Some a else None))"

definition IMAGE_SECTIONS :: "string list" where
  "IMAGE_SECTIONS = [''image_item'', ''image'', ''pic'']"

definition FILE_SECTIONS :: "string list" where
  "FILE_SECTIONS = [''file_item'', ''file'', ''document'']"

definition VIDEO_SECTIONS :: "string list" where
  "VIDEO_SECTIONS = [''video_item'', ''video'']"

definition wecom_item_attachment_spec :: "json \<Rightarrow> (attachment_kind \<times> string list \<times> string list) option" where
  "wecom_item_attachment_spec item =
     (let is = (\<lambda>kind sections.
            wecom_mixed_kind item = Some kind \<or> first_object_section item sections \<noteq> None)
      in if is MixedImage IMAGE_SECTIONS then Some (AkImage, IMAGE_SECTIONS, [''image''])
         else if is MixedFile FILE_SECTIONS then Some (AkFile, FILE_SECTIONS, [''file''])
         else if is MixedVideo VIDEO_SECTIONS then Some (AkVideo, VIDEO_SECTIONS, [''video''])
         else if is MixedVoice VOICE_SECTIONS then Some (AkAudio, VOICE_SECTIONS, [''voice''])
         else None)"

definition attachment_from_wecom_item ::
  "(string \<Rightarrow> string option) \<Rightarrow> json \<Rightarrow> attachment_kind \<Rightarrow> json \<Rightarrow> string list \<Rightarrow> inbound_attachment" where
  "attachment_from_wecom_item last_segment item kind section name_fallbacks =
     (let media = jfield section ''media'';
          url = or_else (first_string url_keys media) (first_string url_keys section)
      in \<lparr>ia_kind = kind,
          ia_name = or_else (first_string ATTACHMENT_NAME_KEYS section)
            (or_else (first_string name_fallbacks item) (infer_name_from_url last_segment url)),
          ia_media_id = or_else (first_string ATTACHMENT_MEDIA_ID_KEYS media)
            (first_string ATTACHMENT_MEDIA_ID_KEYS section),
          ia_url = url, ia_local_path = None,
          ia_mime_type = or_else (first_string ATTACHMENT_MIME_KEYS media) (first_string ATTACHMENT_MIME_KEYS section),
          ia_size_bytes = or_else (first_u64 ATTACHMENT_SIZE_KEYS media) (first_u64 ATTACHMENT_SIZE_KEYS section),
          ia_raw = item\<rparr>)"

definition inbound_attachment_has_identity :: "inbound_attachment \<Rightarrow> bool" where
  "inbound_attachment_has_identity a \<longleftrightarrow>
     ia_media_id a \<noteq> None \<or> ia_url a \<noteq> None \<or> ia_name a \<noteq> None \<or> ia_mime_type a \<noteq> None"

definition extract_wecom_item_attachment :: "(string \<Rightarrow> string option) \<Rightarrow> json \<Rightarrow> inbound_attachment option" where
  "extract_wecom_item_attachment last_segment item =
     Option.bind (wecom_item_attachment_spec item) (\<lambda>(kind, item_keys, name_fallbacks).
       let section = (case first_object_section item item_keys of Some s \<Rightarrow> s | None \<Rightarrow> item);
           url = or_else (first_string url_keys (jfield section ''media'')) (first_string url_keys section);
           a = attachment_from_wecom_item last_segment item kind section name_fallbacks
       in if is_transcribed_voice_without_download kind section url [''text''] then None
          else if inbound_attachment_has_identity a then Some a else None)"

definition attachment_key :: "inbound_attachment \<Rightarrow> string option" where
  "attachment_key a =
     or_else (map_option (\<lambda>v. ''media:'' @ v) (ia_media_id a)) (map_option (\<lambda>v. ''url:'' @ v) (ia_url a))"

text \<open>\<open>retain\<close> with the keys seen so far.\<close>

fun retain_new :: "string list \<Rightarrow> inbound_attachment list \<Rightarrow> inbound_attachment list" where
  "retain_new seen [] = []"
| "retain_new seen (a # as) =
     (case attachment_key a of
        None \<Rightarrow> a # retain_new seen as
      | Some key \<Rightarrow> if key \<in> set seen then retain_new seen as else a # retain_new (key # seen) as)"

definition dedupe_inbound_attachments :: "inbound_attachment list \<Rightarrow> inbound_attachment list" where
  "dedupe_inbound_attachments as = retain_new [] as"

definition extract_wecom_attachments :: "(string \<Rightarrow> string option) \<Rightarrow> json \<Rightarrow> inbound_attachment list" where
  "extract_wecom_attachments last_segment body =
     dedupe_inbound_attachments
       (List.map_filter (section_attachment last_segment body)
          [(''image'', AkImage), (''file'', AkFile), (''video'', AkVideo), (''voice'', AkAudio)] @
        List.map_filter (extract_wecom_item_attachment last_segment) (wecom_mixed_items body))"

section \<open>Feedback and control messages\<close>

definition parse_feedback_event :: "json \<Rightarrow> feedback_event option" where
  "parse_feedback_event body =
     (let event = jfield body ''event'' in
      Option.bind (as_str (jfield event ''eventtype'')) (\<lambda>t.
        if t \<noteq> ''feedback_event'' then None
        else
          Option.bind (or_else (jget event ''feedback_event'') (jget event ''feedback'')) (\<lambda>feedback.
            Option.bind (as_str (jfield feedback ''id'')) (\<lambda>i.
              if trim i = [] then None
              else Some
                \<lparr>fe_feedback_id = trim i,
                 fe_feedback_type = (case as_i64 (jfield feedback ''type'') of Some n \<Rightarrow> n | None \<Rightarrow> 0),
                 fe_content = as_str (jfield feedback ''content''),
                 fe_inaccurate_reason_list =
                   (case as_array (jfield feedback ''inaccurate_reason_list'') of
                      Some items \<Rightarrow> List.map_filter as_i64 items | None \<Rightarrow> []),
                 fe_raw = feedback\<rparr>))))"

text \<open>\<open>errcode\<close> and \<open>errmsg\<close> of the body, or else of the frame.\<close>

definition frame_errcode :: "json \<Rightarrow> int" where
  "frame_errcode d =
     (case or_else (as_i64 (jfield (jfield d ''body'') ''errcode'')) (as_i64 (jfield d ''errcode'')) of
        Some n \<Rightarrow> n | None \<Rightarrow> 0)"

definition frame_errmsg :: "json \<Rightarrow> string" where
  "frame_errmsg d =
     (case or_else (as_str (jfield (jfield d ''body'') ''errmsg'')) (as_str (jfield d ''errmsg'')) of
        Some m \<Rightarrow> m | None \<Rightarrow> ''unknown'')"

definition frame_cmd :: "json \<Rightarrow> string" where
  "frame_cmd d = (case as_str (jfield d ''cmd'') of Some c \<Rightarrow> c | None \<Rightarrow> [])"

definition classify_wecom_control_message ::
  "json \<Rightarrow> (adapter_health_event_type \<times> string option) option" where
  "classify_wecom_control_message d =
     (if frame_cmd d = ''aibot_subscribe''
      then (let errcode = (case as_i64 (jfield (jfield d ''body'') ''errcode'') of Some n \<Rightarrow> n | None \<Rightarrow> - 1) in
            if errcode = 0 then Some (HeSubscribeAck, None)
            else Some (HeSubscribeError, Some (''errcode='' @ show_int errcode)))
      else if frame_cmd d \<in> set [''aibot_send_msg'', ''aibot_respond_msg'']
      then (if frame_errcode d = 0 then Some (HeSendAck, None)
            else Some (HeSendError, Some (show_int (frame_errcode d) @ '': '' @ frame_errmsg d)))
      else None)"


section \<open>The state of a connection\<close>

text \<open>
  The deduplicator, the channel to the gateway, the frames written to the websocket, when a text
  frame was last received, and the outbound messages that wait in the queue.
\<close>

record wecom_outbound =
  wo_chat_id :: string
  wo_text :: string
  wo_attachment :: "outbound_attachment option"
  wo_reply_token :: "string option"
  wo_stream_id :: "string option"
  wo_feedback_id :: "string option"
  wo_stream_finish :: bool

record wecom =
  wm_seen :: "(string \<times> nat) list"
  wm_inbox :: "inbound_message list"
  wm_open :: bool
  wm_health :: "(adapter_health_event_type \<times> string option) list"
  wm_sent :: "json list"
  wm_last_recv :: nat
  wm_queue :: "wecom_outbound list"

definition emit_wecom_health :: "adapter_health_event_type \<Rightarrow> string option \<Rightarrow> wecom \<Rightarrow> wecom" where
  "emit_wecom_health t detail w = w\<lparr>wm_health := wm_health w @ [(t, detail)]\<rparr>"

section \<open>A frame\<close>

definition send_inbound :: "inbound_message \<Rightarrow> wecom \<Rightarrow> wecom" where
  "send_inbound m w = (if wm_open w then w\<lparr>wm_inbox := wm_inbox w @ [m]\<rparr> else w)"

definition frame_user :: "json \<Rightarrow> string" where
  "frame_user body =
     (case as_str (jfield (jfield body ''from'') ''userid'') of Some u \<Rightarrow> u | None \<Rightarrow> ''unknown'')"

definition frame_chat :: "json \<Rightarrow> string" where
  "frame_chat body =
     (case as_str (jfield body ''chatid'') of
        Some c \<Rightarrow> if c \<noteq> [] then c else frame_user body | None \<Rightarrow> frame_user body)"

definition frame_chat_type :: "json \<Rightarrow> chat_type" where
  "frame_chat_type body = (if as_str (jfield body ''chattype'') = Some ''group'' then Group else DirectMessage)"

definition frame_req_id :: "json \<Rightarrow> string option" where
  "frame_req_id d = as_str (jfield (jfield d ''headers'') ''req_id'')"

definition frame_message ::
  "json \<Rightarrow> string \<Rightarrow> string \<Rightarrow> inbound_attachment list \<Rightarrow> feedback_event option \<Rightarrow> inbound_message" where
  "frame_message d msg_id t attachments feedback =
     (let body = jfield d ''body'' in
      \<lparr>im_platform = ''wecom'', im_chat_id = frame_chat body, im_user_id = frame_user body, im_text = t,
       im_attachments = attachments, im_msg_id = msg_id, im_chat_type = frame_chat_type body,
       im_reply_token = frame_req_id d, im_route_override = None, im_feedback = feedback\<rparr>)"

definition feedback_msg_id :: "json \<Rightarrow> feedback_event \<Rightarrow> string" where
  "feedback_msg_id body f =
     (case as_str (jfield body ''msgid'') of
        Some i \<Rightarrow> if i \<noteq> [] then i else fe_feedback_id f | None \<Rightarrow> fe_feedback_id f)"

definition feedback_key :: "json \<Rightarrow> feedback_event \<Rightarrow> string" where
  "feedback_key body f =
     ''feedback:'' @ feedback_msg_id body f @ '':'' @ fe_feedback_id f @ '':'' @ show_int (fe_feedback_type f)"

definition callback_msg_id :: "json \<Rightarrow> string" where
  "callback_msg_id body = (case as_str (jfield body ''msgid'') of Some i \<Rightarrow> i | None \<Rightarrow> [])"

definition handle_wecom_message :: "(string \<Rightarrow> string option) \<Rightarrow> nat \<Rightarrow> json \<Rightarrow> wecom \<Rightarrow> wecom" where
  "handle_wecom_message last_segment now d w =
     (let body = jfield d ''body'' in
      case parse_feedback_event body of
        Some f \<Rightarrow>
          (case check_message DEFAULT_MAX_SIZE DEFAULT_TTL now (feedback_key body f) (wm_seen w) of
             (False, seen) \<Rightarrow> w\<lparr>wm_seen := seen\<rparr>
           | (True, seen) \<Rightarrow>
               send_inbound (frame_message d (feedback_msg_id body f) [] [] (Some f)) (w\<lparr>wm_seen := seen\<rparr>))
      | None \<Rightarrow>
          if frame_cmd d \<notin> set [''aibot_msg_callback'', ''aibot_callback'']
          then (case classify_wecom_control_message d of
                  Some (t, detail) \<Rightarrow> emit_wecom_health t detail w | None \<Rightarrow> w)
          else if callback_msg_id body = [] then w
          else
            (case check_message DEFAULT_MAX_SIZE DEFAULT_TTL now (callback_msg_id body) (wm_seen w) of
               (False, seen) \<Rightarrow> w\<lparr>wm_seen := seen\<rparr>
             | (True, seen) \<Rightarrow>
                 (let w1 = w\<lparr>wm_seen := seen\<rparr>;
                      t = extract_wecom_text body;
                      attachments = extract_wecom_attachments last_segment body
                  in if t = [] \<and> attachments = [] then w1
                     else send_inbound (frame_message d (callback_msg_id body) t attachments None) w1)))"

end
