(* ===== verification/Wecom_Media.thy ===== *)
theory Wecom_Media
  imports Wecom
begin

text \<open>
  Inbound attachments of WeCom (\<open>platforms/wecom.rs\<close>): which links are followed, the download, the
  decryption with AES-256 in CBC mode and the removal of the padding. The cipher, base64, the
  parsing of a URL and HTTP are parameters; addresses are read as the standard library reads them.
\<close>

unbundle bit_operations_syntax

section \<open>Addresses\<close>

definition hex_value :: "char \<Rightarrow> nat" where
  "hex_value c = (if is_digit c then byte c - 48 else if 97 \<le> byte c then byte c - 87 else byte c - 55)"

text \<open>
  The readers of \<open>core::net::parser\<close>: each takes what it can from the front and gives the rest.
  A number has at most \<open>digits\<close> digits in base \<open>radix\<close> and is at most \<open>largest\<close>.
\<close>

definition read_number :: "nat \<Rightarrow> nat \<Rightarrow> nat \<Rightarrow> bool \<Rightarrow> string \<Rightarrow> (nat \<times> string) option" where
  "read_number radix digits largest zero_prefix s =
     (let ds = takeWhile (if radix = 10 then is_digit else is_ascii_hexdigit) s;
          n = foldl (\<lambda>n c. n * radix + hex_value c) 0 ds
      in if ds = [] \<or> digits < length ds \<or> largest < n \<or>
            (\<not> zero_prefix \<and> hd ds = CHR ''0'' \<and> 1 < length ds)
         then None else Some (n, drop (length ds) s))"

definition read_given_char :: "char \<Rightarrow> string \<Rightarrow> string option" where
  "read_given_char c s = (case s of d # t \<Rightarrow> if d = c then Some t else None | [] \<Rightarrow> None)"

definition read_separated ::
  "char \<Rightarrow> nat \<Rightarrow> (string \<Rightarrow> ('a \<times> string) option) \<Rightarrow> string \<Rightarrow> ('a \<times> string) option" where
  "read_separated sep i f s = (if 0 < i then Option.bind (read_given_char sep s) f else f s)"

fun read_octets :: "nat \<Rightarrow> nat \<Rightarrow> string \<Rightarrow> (nat list \<times> string) option" where
  "read_octets i 0 s = Some ([], s)"
| "read_octets i (Suc n) s =
     Option.bind (read_separated (CHR ''.'') i (read_number 10 3 255 False) s) (\<lambda>(o1, r).
       map_option (\<lambda>(os, r'). (o1 # os, r')) (read_octets (Suc i) n r))"

definition read_ipv4_addr :: "string \<Rightarrow> (nat list \<times> string) option" where
  "read_ipv4_addr s = read_octets 0 4 s"

text \<open>The groups from number \<open>i\<close> on, \<open>n\<close> of them at most, and whether an IPv4 address ended them.\<close>

fun read_groups :: "nat \<Rightarrow> nat \<Rightarrow> string \<Rightarrow> nat list \<times> bool \<times> string" where
  "read_groups i 0 s = ([], False, s)"
| "read_groups i (Suc n) s =
     (case (if 0 < n then read_separated (CHR '':'') i read_ipv4_addr s else None) of
        Some (v4, r) \<Rightarrow> ([v4 ! 0 * 256 + v4 ! 1, v4 ! 2 * 256 + v4 ! 3], True, r)
      | None \<Rightarrow>
          (case read_separated (CHR '':'') i (read_number 16 4 65535 True) s of
             None \<Rightarrow> ([], False, s)
           | Some (g, r) \<Rightarrow> (case read_groups (Suc i) n r of (gs, v4, r') \<Rightarrow> (g # gs, v4, r'))))"

definition read_ipv6_addr :: "string \<Rightarrow> (nat list \<times> string) option" where
  "read_ipv6_addr s =
     (case read_groups 0 8 s of
        (front, front_v4, r) \<Rightarrow>
          if length front = 8 then Some (front, r)
          else if front_v4 then None
          else Option.bind (Option.bind (read_given_char (CHR '':'') r) (read_given_char (CHR '':''))) (\<lambda>r1.
            case read_groups 0 (7 - length front) r1 of
              (back, _, r2) \<Rightarrow> Some (front @ replicate (8 - length front - length back) 0 @ back, r2)))"

datatype ip_addr = V4 "nat list" | V6 "nat list"

definition parse_ip_addr :: "string \<Rightarrow> ip_addr option" where
  "parse_ip_addr s =
     (case read_ipv4_addr s of
        Some (os, r) \<Rightarrow> if r = [] then Some (V4 os) else None
      | None \<Rightarrow>
          (case read_ipv6_addr s of
             Some (gs, r) \<Rightarrow> if r = [] then Some (V6 gs) else None
           | None \<Rightarrow> None))"

fun is_private_attachment_ip :: "ip_addr \<Rightarrow> bool" where
  "is_private_attachment_ip (V4 os) \<longleftrightarrow>
     os ! 0 = 127 \<or> os = [0, 0, 0, 0] \<or> (224 \<le> os ! 0 \<and> os ! 0 \<le> 239) \<or>
     os ! 0 = 10 \<or> (os ! 0 = 172 \<and> 16 \<le> os ! 1 \<and> os ! 1 \<le> 31) \<or> (os ! 0 = 192 \<and> os ! 1 = 168) \<or>
     (os ! 0 = 169 \<and> os ! 1 = 254)"
| "is_private_attachment_ip (V6 gs) \<longleftrightarrow>
     gs = [0, 0, 0, 0, 0, 0, 0, 1] \<or> gs = [0, 0, 0, 0, 0, 0, 0, 0] \<or> gs ! 0 div 0x100 = 0xFF \<or>
     gs ! 0 div 0x200 = 0x7E \<or> gs ! 0 div 0x40 = 0x3FA"

text \<open>\<open>parse_url\<close> gives the scheme and the host of a valid URL.\<close>

definition is_safe_attachment_url :: "(string \<Rightarrow> (string \<times> string option) option) \<Rightarrow> string \<Rightarrow> bool" where
  "is_safe_attachment_url parse_url url =
     (case parse_url url of
        None \<Rightarrow> False
      | Some (scheme, host) \<Rightarrow>
          scheme \<in> set [''http'', ''https''] \<and>
          (case host of
             None \<Rightarrow> False
           | Some h \<Rightarrow>
               \<not> eq_ignore_ascii_case h ''localhost'' \<and>
               (case parse_ip_addr h of Some ip \<Rightarrow> \<not> is_private_attachment_ip ip | None \<Rightarrow> True)))"

section \<open>Decryption\<close>

text \<open>\<open>decode url_safe padded s\<close> is base64 decoding with that alphabet and padding.\<close>

definition decode_wecom_aes_key :: "(bool \<Rightarrow> bool \<Rightarrow> string \<Rightarrow> string + string) \<Rightarrow> string \<Rightarrow> string + string" where
  "decode_wecom_aes_key decode aes_key =
     (let s = trim aes_key;
          ok = (\<lambda>r. case r of Inr k \<Rightarrow> Some k | Inl _ \<Rightarrow> None)
      in case first_some (\<lambda>(url_safe, padded). ok (decode url_safe padded s))
                [(False, True), (False, False), (True, True), (True, False)] of
           Some k \<Rightarrow> Inr k
         | None \<Rightarrow>
             (let p = (if length s mod 4 \<noteq> 0 then s @ replicate (4 - length s mod 4) (CHR ''='') else s)
              in case decode False True p of
                   Inr k \<Rightarrow> Inr k
                 | Inl _ \<Rightarrow>
                     (case decode True True p of
                        Inr k \<Rightarrow> Inr k
                      | Inl e \<Rightarrow> Inl (''invalid base64 aeskey: '' @ e))))"

definition xor_char :: "char \<Rightarrow> char \<Rightarrow> char" where
  "xor_char a b = char_of (byte a XOR byte b)"

function cbc_decrypt :: "(string \<Rightarrow> string) \<Rightarrow> string \<Rightarrow> string \<Rightarrow> string" where
  "cbc_decrypt d prev buf =
     (if buf = [] then []
      else map2 xor_char (d (take BLOCK_SIZE buf)) prev @
             cbc_decrypt d (take BLOCK_SIZE buf) (drop BLOCK_SIZE buf))"
  by pat_completeness auto
termination by (relation "measure (\<lambda>(d, prev, buf). length buf)") (auto simp: BLOCK_SIZE_def)

declare cbc_decrypt.simps [simp del]

definition remove_padding :: "string \<Rightarrow> string + string" where
  "remove_padding out =
     (if out = [] then Inl ''decrypted body is empty''
      else
        (let pad_len = byte (last out) in
         if pad_len = 0 \<or> 32 < pad_len \<or> length out < pad_len
         then Inl (''invalid PKCS#7 padding value: '' @ show_nat pad_len)
         else if list_ex (\<lambda>b. byte b \<noteq> pad_len) (drop (length out - pad_len) out)
         then Inl ''invalid PKCS#7 padding bytes''
         else Inr (take (length out - pad_len) out)))"

definition decrypt_wecom_media ::
  "(bool \<Rightarrow> bool \<Rightarrow> string \<Rightarrow> string + string) \<Rightarrow> (string \<Rightarrow> string \<Rightarrow> string) \<Rightarrow> string \<Rightarrow> string \<Rightarrow> string + string" where
  "decrypt_wecom_media decode dec encrypted aes_key =
     (if encrypted = [] then Inl ''empty encrypted body''
      else if length encrypted mod 16 \<noteq> 0
      then Inl (''encrypted body length '' @ show_nat (length encrypted) @ '' is not AES block aligned'')
      else
        bind_ok (decode_wecom_aes_key decode aes_key) (\<lambda>key.
          if length key \<noteq> 32
          then Inl (''aeskey decoded to '' @ show_nat (length key) @ '' bytes, expected 32'')
          else remove_padding (cbc_decrypt (dec key) (take 16 key) encrypted)))"

section \<open>Download\<close>

definition normalize_content_type :: "string \<Rightarrow> string option" where
  "normalize_content_type v =
     (let mime = to_ascii_lowercase (trim (hd (split_char (CHR '';'') v)))
      in if mime = [] \<or> mime = ''application/octet-stream'' then None else Some mime)"

text \<open>A response has its status, the announced length, the content type and the body, if it could be read.\<close>

datatype wecom_response = RequestFailed | Responded nat "nat option" "string option" "string option"

record wecom_env =
  wv_client :: bool
  wv_get :: "string \<Rightarrow> wecom_response"
  wv_parse_url :: "string \<Rightarrow> (string \<times> string option) option"
  wv_decode :: "bool \<Rightarrow> bool \<Rightarrow> string \<Rightarrow> string + string"
  wv_dec :: "string \<Rightarrow> string \<Rightarrow> string"
  wv_mkdir :: bool
  wv_write :: "string \<Rightarrow> bool"
  wv_last_segment :: "string \<Rightarrow> string option"

text \<open>The body of a response that can be used, with the type the server gave it.\<close>

definition fetch_wecom :: "wecom_env \<Rightarrow> inbound_attachment \<Rightarrow> nat \<Rightarrow> string \<Rightarrow> string + string option \<times> string" where
  "fetch_wecom env a idx url =
     (let failed = (\<lambda>what. Inl (attachment_label a idx @ '' '' @ what)) in
      if \<not> is_safe_attachment_url (wv_parse_url env) url
      then failed [CHR 0xE9, CHR 0x93, CHR 0xBE, CHR 0xE6, CHR 0x8E, CHR 0xA5, CHR 0xE5, CHR 0x9C, CHR 0xB0, CHR 0xE5,
     CHR 0x9D, CHR 0x80, CHR 0xE4, CHR 0xB8, CHR 0x8D, CHR 0xE5, CHR 0xAE, CHR 0x89, CHR 0xE5, CHR 0x85,
     CHR 0xA8, CHR 0xE6, CHR 0x88, CHR 0x96, CHR 0xE5, CHR 0x8D, CHR 0x8F, CHR 0xE8, CHR 0xAE, CHR 0xAE,
     CHR 0xE4, CHR 0xB8, CHR 0x8D, CHR 0xE6, CHR 0x94, CHR 0xAF, CHR 0xE6, CHR 0x8C, CHR 0x81]
      else case wv_get env url of
        RequestFailed \<Rightarrow> failed [CHR 0xE4, CHR 0xB8, CHR 0x8B, CHR 0xE8, CHR 0xBD, CHR 0xBD, CHR 0xE5, CHR 0xA4, CHR 0xB1, CHR 0xE8,
     CHR 0xB4, CHR 0xA5]
      | Responded status len content_type body \<Rightarrow>
          if \<not> (200 \<le> status \<and> status \<le> 299)
          then failed ([CHR 0xE4, CHR 0xB8, CHR 0x8B, CHR 0xE8, CHR 0xBD, CHR 0xBD, CHR 0xE8, CHR 0xBF, CHR 0x94, CHR 0xE5,
     CHR 0x9B, CHR 0x9E] @ '' HTTP '' @ show_nat status)
          else if (case len of Some n \<Rightarrow> MAX_INBOUND_ATTACHMENT_BYTES < n | None \<Rightarrow> False)
          then Inl (too_large_failure a idx)
          else (case body of
                  None \<Rightarrow> failed [CHR 0xE8, CHR 0xAF, CHR 0xBB, CHR 0xE5, CHR 0x8F, CHR 0x96, CHR 0xE5, CHR 0xA4, CHR 0xB1, CHR 0xE8,
     CHR 0xB4, CHR 0xA5]
                | Some bytes \<Rightarrow>
                    if MAX_INBOUND_ATTACHMENT_BYTES < length bytes then Inl (too_large_failure a idx)
                    else Inr (Option.bind content_type normalize_content_type, bytes)))"

definition decrypted_body :: "wecom_env \<Rightarrow> inbound_attachment \<Rightarrow> string \<Rightarrow> string + string" where
  "decrypted_body env a raw_bytes =
     (case find_string_deep [''aeskey'', ''aes_key'', ''aesKey''] (ia_raw a) of
        None \<Rightarrow> Inr raw_bytes
      | Some k \<Rightarrow> decrypt_wecom_media (wv_decode env) (wv_dec env) raw_bytes k)"

definition download_wecom_one ::
  "wecom_env \<Rightarrow> string \<Rightarrow> nat \<Rightarrow> inbound_attachment \<Rightarrow> inbound_attachment \<times> string list \<times> bool" where
  "download_wecom_one env dir idx a =
     (if ia_local_path a \<noteq> None then (a, [], True)
      else case ia_url a of
        None \<Rightarrow> (a, [], True)
      | Some url \<Rightarrow>
          (case fetch_wecom env a idx url of
             Inl e \<Rightarrow> (a, [e], True)
           | Inr (response_mime, raw_bytes) \<Rightarrow>
               (let a1 = a\<lparr>ia_mime_type := or_else (ia_mime_type a) response_mime\<rparr> in
                case decrypted_body env a1 raw_bytes of
                  Inl _ \<Rightarrow> (a1, [attachment_label a1 idx @ '' '' @ [CHR 0xE8, CHR 0xA7, CHR 0xA3, CHR 0xE5, CHR 0xAF, CHR 0x86, CHR 0xE5, CHR 0xA4, CHR 0xB1, CHR 0xE8,
     CHR 0xB4, CHR 0xA5]], True)
                | Inr bytes \<Rightarrow>
                    (let a2 = a1\<lparr>ia_mime_type := detect_mime_from_bytes bytes (ia_mime_type a1)\<rparr>;
                         path = path_join dir (attachment_filename (wv_last_segment env) a2 idx bytes)
                     in if \<not> wv_mkdir env then (a2, [DIR_FAILURE], False)
                        else if \<not> wv_write env path
                        then (a2, [attachment_label a2 idx @ '' '' @ [CHR 0xE5, CHR 0x86, CHR 0x99, CHR 0xE5, CHR 0x85, CHR 0xA5, CHR 0xE5, CHR 0xA4, CHR 0xB1, CHR 0xE8,
     CHR 0xB4, CHR 0xA5]], True)
                        else (a2\<lparr>ia_size_bytes := Some (case ia_size_bytes a2 of Some n \<Rightarrow> n | None \<Rightarrow> length bytes),
                                 ia_local_path := Some path\<rparr>, [], True)))))"

fun download_wecom_from ::
  "wecom_env \<Rightarrow> string \<Rightarrow> nat \<Rightarrow> inbound_attachment list \<Rightarrow> string list \<Rightarrow>
   inbound_attachment list \<times> string list" where
  "download_wecom_from env dir idx [] failures = ([], failures)"
| "download_wecom_from env dir idx (a # as) failures =
     (case download_wecom_one env dir idx a of
        (a', f, True) \<Rightarrow>
          (case download_wecom_from env dir (Suc idx) as (failures @ f) of (as', fs) \<Rightarrow> (a' # as', fs))
      | (a', f, False) \<Rightarrow> (a' # as, failures @ f))"

definition download_wecom_attachments ::
  "wecom_env \<Rightarrow> string \<Rightarrow> string \<Rightarrow> inbound_attachment list \<Rightarrow> string list \<Rightarrow>
   inbound_attachment list \<times> string list" where
  "download_wecom_attachments env run_dir msg_id as failures =
     (if list_all (\<lambda>a. ia_local_path a \<noteq> None \<or> ia_url a = None) as then (as, failures)
      else if \<not> wv_client env then (as, failures @ [[CHR 0xE4, CHR 0xB8, CHR 0x8B, CHR 0xE8, CHR 0xBD, CHR 0xBD, CHR 0xE5, CHR 0xAE, CHR 0xA2, CHR 0xE6,
     CHR 0x88, CHR 0xB7, CHR 0xE7, CHR 0xAB, CHR 0xAF, CHR 0xE4, CHR 0xB8, CHR 0x8D, CHR 0xE5, CHR 0x8F,
     CHR 0xAF, CHR 0xE7, CHR 0x94, CHR 0xA8]])
      else download_wecom_from env (dir_path run_dir msg_id) 0 as failures)"

definition missing_urls :: "inbound_attachment list \<Rightarrow> string list" where
  "missing_urls as =
     map (\<lambda>(idx, a). missing_url_failure a idx)
       (filter (\<lambda>(_, a). ia_local_path a = None \<and> ia_url a = None) (List.enumerate 0 as))"

text \<open>As for WeChat: what is left, what the user is told, whether the directory is removed again.\<close>

definition prepare_wecom_attachments ::
  "wecom_env \<Rightarrow> string \<Rightarrow> string \<Rightarrow> inbound_attachment list \<Rightarrow>
   inbound_attachment list \<times> string option \<times> bool" where
  "prepare_wecom_attachments env run_dir msg_id as =
     (let (as1, failures) = download_wecom_attachments env run_dir msg_id as (missing_urls as);
          kept = filter (\<lambda>a. ia_local_path a \<noteq> None) as1
      in (kept, prepare_response (length as1 - length kept) (kept = []) failures, kept = []))"

end
