(* ===== verification/Wecom_Connection.thy ===== *)
theory Wecom_Connection
  imports Wecom
begin

text \<open>
  The connection of the WeCom adapter and its outbound half (\<open>platforms/wecom.rs\<close>): the frames it
  builds, the upload of media in chunks, the loop over what happens on the connection, and the
  task that connects again.

  What happens is given as a list of events, each with the time. While an upload waits for an
  answer the loop reads the websocket and its own deadline only, so a message taken off the queue
  comes with the events its upload sees; when they run out the call is still waiting. Writing to
  the socket, files, base64, MD5, identifiers and the parsing of JSON are parameters.
\<close>

definition MAX_TEXT_LENGTH :: nat where
  "MAX_TEXT_LENGTH = 4000"

definition MEDIA_UPLOAD_CHUNK_BYTES :: nat where
  "MEDIA_UPLOAD_CHUNK_BYTES = 512 * 1024"

definition MEDIA_UPLOAD_MAX_CHUNKS :: nat where
  "MEDIA_UPLOAD_MAX_CHUNKS = 100"

definition PONG_TIMEOUT_SECS :: nat where
  "PONG_TIMEOUT_SECS = 60"

definition RECONNECT_DELAYS :: "nat list" where
  "RECONNECT_DELAYS = [2, 5, 10, 30, 60]"

text \<open>The write of the \<open>n\<close>-th frame fails with \<open>wn_write_error n\<close>; \<open>wn_uuid n\<close> is its new identifier.\<close>

record wecom_net =
  wn_bot_id :: string
  wn_secret :: string
  wn_uuid :: "nat \<Rightarrow> string"
  wn_device :: string
  wn_write_error :: "nat \<Rightarrow> string option"
  wn_parse :: "string \<Rightarrow> json option"
  wn_read_file :: "string \<Rightarrow> string + string"
  wn_md5 :: "string \<Rightarrow> string"
  wn_base64 :: "string \<Rightarrow> string"
  wn_show_json :: "json \<Rightarrow> string"
  wn_last_segment :: "string \<Rightarrow> string option"

section \<open>The queue\<close>

definition TRUNCATION_MARK :: string where
  "TRUNCATION_MARK = ELLIPSIS @ [CHR 0x0A, CHR 0x0A] @ ''(truncated)''"

text \<open>\<open>send_stream_chunk\<close>; without a result the cut of the text panics.\<close>

definition send_stream_chunk ::
  "bool \<Rightarrow> string \<Rightarrow> string \<Rightarrow> string option \<Rightarrow> string option \<Rightarrow> string option \<Rightarrow> bool \<Rightarrow> wecom \<Rightarrow>
   ((string + unit) \<times> wecom) option" where
  "send_stream_chunk receiver_open chat_id t reply stream_id feedback_id finish w =
     map_option
       (\<lambda>t'.
         if receiver_open
         then (Inr (), w\<lparr>wm_queue := wm_queue w @
                [\<lparr>wo_chat_id = chat_id, wo_text = t', wo_attachment = None, wo_reply_token = reply,
                  wo_stream_id = stream_id, wo_feedback_id = feedback_id, wo_stream_finish = finish\<rparr>]\<rparr>)
         else (Inl ''outbound channel send failed: channel closed'', w))
       (if stream_id = None \<and> MAX_TEXT_LENGTH < length t
        then truncate_with_suffix t MAX_TEXT_LENGTH TRUNCATION_MARK else Some t)"

definition send_wecom_text ::
  "bool \<Rightarrow> string \<Rightarrow> string \<Rightarrow> string option \<Rightarrow> wecom \<Rightarrow> ((string + unit) \<times> wecom) option" where
  "send_wecom_text receiver_open chat_id t reply w =
     send_stream_chunk receiver_open chat_id t reply None None True w"

definition send_wecom_attachment ::
  "bool \<Rightarrow> string \<Rightarrow> outbound_attachment \<Rightarrow> string option \<Rightarrow> wecom \<Rightarrow> (string + unit) \<times> wecom" where
  "send_wecom_attachment receiver_open chat_id a reply w =
     (if receiver_open
      then (Inr (), w\<lparr>wm_queue := wm_queue w @
             [\<lparr>wo_chat_id = chat_id, wo_text = [], wo_attachment = Some a, wo_reply_token = reply,
               wo_stream_id = None, wo_feedback_id = None, wo_stream_finish = True\<rparr>]\<rparr>)
      else (Inl ''outbound channel send failed: channel closed'', w))"

section \<open>Frames\<close>

definition wecom_frame :: "string \<Rightarrow> string \<Rightarrow> json \<Rightarrow> json" where
  "wecom_frame cmd req_id body =
     obj_of [(''cmd'', JStr cmd), (''headers'', obj_of [(''req_id'', JStr req_id)]), (''body'', body)]"

definition noop_frame :: json where
  "noop_frame = obj_of [(''cmd'', JStr ''noop'')]"

fun wecom_attachment_spec :: "attachment_kind \<Rightarrow> string" where
  "wecom_attachment_spec AkImage = ''image''"
| "wecom_attachment_spec AkFile = ''file''"
| "wecom_attachment_spec AkUnknown = ''file''"
| "wecom_attachment_spec AkVideo = ''video''"
| "wecom_attachment_spec AkAudio = ''voice''"

definition feedback_entry :: "string option \<Rightarrow> (string \<times> json) list" where
  "feedback_entry feedback_id =
     (case feedback_id of Some i \<Rightarrow> [(''feedback'', obj_of [(''id'', JStr i)])] | None \<Rightarrow> [])"

definition build_attachment_send_frame ::
  "string \<Rightarrow> string \<Rightarrow> wecom_outbound \<Rightarrow> outbound_attachment \<Rightarrow> json" where
  "build_attachment_send_frame bot_id uuid out a =
     (case oa_media_id a of
        None \<Rightarrow> noop_frame
      | Some media_id \<Rightarrow>
          (let spec = wecom_attachment_spec (oa_kind a);
               title = (if oa_kind a = AkVideo
                 then (case oa_name a of Some n \<Rightarrow> [(''title'', JStr n)] | None \<Rightarrow> []) else []);
               body = [(''msgtype'', JStr spec), (spec, obj_of ((''media_id'', JStr media_id) # title))]
           in case wo_reply_token out of
                Some req_id \<Rightarrow> wecom_frame ''aibot_respond_msg'' req_id (obj_of body)
              | None \<Rightarrow>
                  if wo_chat_id out \<noteq> []
                  then wecom_frame ''aibot_send_msg'' (''send-'' @ uuid)
                         (obj_of (body @ [(''bot_id'', JStr bot_id), (''chatid'', JStr (wo_chat_id out))]))
                  else noop_frame))"

definition build_send_frame :: "string \<Rightarrow> string \<Rightarrow> wecom_outbound \<Rightarrow> json" where
  "build_send_frame bot_id uuid out =
     (let markdown = (''markdown'', obj_of [(''content'', JStr (wo_text out))]) in
      case wo_attachment out of
        Some a \<Rightarrow> build_attachment_send_frame bot_id uuid out a
      | None \<Rightarrow>
          (case (wo_reply_token out, wo_stream_id out) of
             (Some req_id, Some stream_id) \<Rightarrow>
               wecom_frame ''aibot_respond_msg'' req_id
                 (obj_of [(''msgtype'', JStr ''stream''),
                   (''stream'', obj_of ([(''id'', JStr stream_id), (''finish'', JBool (wo_stream_finish out)),
                      (''content'', JStr (wo_text out))] @ feedback_entry (wo_feedback_id out)))])
           | (Some req_id, None) \<Rightarrow>
               wecom_frame ''aibot_respond_msg'' req_id
                 (obj_of ([(''msgtype'', JStr ''markdown''), markdown] @ feedback_entry (wo_feedback_id out)))
           | (None, _) \<Rightarrow>
               if wo_chat_id out \<noteq> []
               then wecom_frame ''aibot_send_msg'' (''send-'' @ uuid)
                      (obj_of ([(''bot_id'', JStr bot_id), (''chatid'', JStr (wo_chat_id out)),
                         (''msgtype'', JStr ''markdown''), markdown] @ feedback_entry (wo_feedback_id out)))
               else noop_frame))"

section \<open>Waiting for an answer\<close>

datatype ws_item = WsText string | WsClose | WsEnd | WsError string | WsOther

datatype wait_event = Deadline | Item nat ws_item

text \<open>A call that reads the socket: it waits, fails or has its result; the events left and the state.\<close>

datatype 'a wait_outcome = Waiting | Failed string | Got 'a

type_synonym 'a waiting = "wait_event list \<Rightarrow> wecom \<Rightarrow> 'a wait_outcome \<times> wait_event list \<times> wecom"

definition wgot :: "'a \<Rightarrow> 'a waiting" where
  "wgot a = (\<lambda>es w. (Got a, es, w))"

definition wfail :: "string \<Rightarrow> 'a waiting" where
  "wfail e = (\<lambda>es w. (Failed e, es, w))"

definition wbind :: "'a waiting \<Rightarrow> ('a \<Rightarrow> 'b waiting) \<Rightarrow> 'b waiting" where
  "wbind m k = (\<lambda>es w. case m es w of
     (Got a, es', w') \<Rightarrow> k a es' w'
   | (Failed e, es', w') \<Rightarrow> (Failed e, es', w')
   | (Waiting, es', w') \<Rightarrow> (Waiting, es', w'))"

definition wok :: "string + 'a \<Rightarrow> 'a waiting" where
  "wok r = (case r of Inl e \<Rightarrow> wfail e | Inr a \<Rightarrow> wgot a)"

text \<open>One text frame is written; its fresh identifier is the one of its number.\<close>

definition write_frame :: "wecom_net \<Rightarrow> (string \<Rightarrow> json) \<Rightarrow> string waiting" where
  "write_frame net frame = (\<lambda>es w.
     let n = length (wm_sent w); u = wn_uuid net n in
     case wn_write_error net n of
       Some e \<Rightarrow> (Failed e, es, w)
     | None \<Rightarrow> (Got u, es, w\<lparr>wm_sent := wm_sent w @ [frame u]\<rparr>))"

fun await_reply :: "wecom_net \<Rightarrow> string \<Rightarrow> string \<Rightarrow> json waiting" where
  "await_reply net cmd req_id [] w = (Waiting, [], w)"
| "await_reply net cmd req_id (Deadline # es) w =
     (Failed (''wecom '' @ cmd @ '' timed out waiting for req_id '' @ req_id), es, w)"
| "await_reply net cmd req_id (Item now (WsText t) # es) w =
     (let w1 = w\<lparr>wm_last_recv := now\<rparr> in
      case wn_parse net t of
        None \<Rightarrow> await_reply net cmd req_id es w1
      | Some d \<Rightarrow>
          if (case frame_req_id d of Some i \<Rightarrow> i | None \<Rightarrow> []) = req_id
          then (if frame_errcode d \<noteq> 0
                then (Failed (''wecom '' @ cmd @ '' failed: '' @ show_int (frame_errcode d) @ '': '' @ frame_errmsg d),
                      es, w1)
                else (Got (jfield d ''body''), es, w1))
          else await_reply net cmd req_id es (handle_wecom_message (wn_last_segment net) now d w1))"
| "await_reply net cmd req_id (Item now (WsError e) # es) w =
     (Failed (''wecom ws error while waiting for upload ack: '' @ e), es, w)"
| "await_reply net cmd req_id (Item now WsOther # es) w = await_reply net cmd req_id es w"
| "await_reply net cmd req_id (Item now _ # es) w =
     (Failed ''wecom websocket closed while waiting for upload ack'', es, w)"

definition send_frame_and_wait :: "wecom_net \<Rightarrow> string \<Rightarrow> json \<Rightarrow> json waiting" where
  "send_frame_and_wait net cmd body =
     wbind (write_frame net (\<lambda>u. wecom_frame cmd (cmd @ ''-'' @ u) body))
       (\<lambda>u. await_reply net cmd (cmd @ ''-'' @ u))"

section \<open>Upload\<close>

function chunks :: "nat \<Rightarrow> string \<Rightarrow> string list" where
  "chunks n s = (if s = [] \<or> n = 0 then [] else take n s # chunks n (drop n s))"
  by pat_completeness auto
termination by (relation "measure (\<lambda>(n, s). length s)") auto

declare chunks.simps [simp del]

definition div_ceil :: "nat \<Rightarrow> nat \<Rightarrow> nat" where
  "div_ceil a b = (if a mod b = 0 then a div b else a div b + 1)"

text \<open>\<open>filename_or_default\<close>\<close>

definition filename_or_default :: "outbound_attachment \<Rightarrow> string \<Rightarrow> string \<Rightarrow> string" where
  "filename_or_default a path fallback =
     (case or_else (oa_name a) (file_name path) of Some n \<Rightarrow> n | None \<Rightarrow> fallback)"

definition required_local_path :: "string \<Rightarrow> outbound_attachment \<Rightarrow> string + string" where
  "required_local_path platform a = ok_or (platform @ '' attachment requires local_path'') (oa_local_path a)"

definition init_body :: "wecom_net \<Rightarrow> outbound_attachment \<Rightarrow> string \<Rightarrow> string \<Rightarrow> json" where
  "init_body net a path bytes =
     obj_of [(''type'', JStr (wecom_attachment_spec (oa_kind a))),
       (''filename'', JStr (ensure_extension (filename_or_default a path ''attachment'') (oa_mime_type a)
          (oa_kind a) bytes)),
       (''total_size'', JNum (int (length bytes))),
       (''total_chunks'', JNum (int (div_ceil (length bytes) MEDIA_UPLOAD_CHUNK_BYTES))),
       (''md5'', JStr (wn_md5 net bytes))]"

definition chunk_body :: "wecom_net \<Rightarrow> string \<Rightarrow> nat \<Rightarrow> string \<Rightarrow> json" where
  "chunk_body net upload_id i c =
     obj_of [(''upload_id'', JStr upload_id), (''chunk_index'', JNum (int i)), (''base64_data'', JStr (wn_base64 net c))]"

fun send_media_chunks :: "wecom_net \<Rightarrow> string \<Rightarrow> nat \<Rightarrow> string list \<Rightarrow> unit waiting" where
  "send_media_chunks net upload_id i [] = wgot ()"
| "send_media_chunks net upload_id i (c # cs) =
     wbind (send_frame_and_wait net ''aibot_upload_media_chunk'' (chunk_body net upload_id i c))
       (\<lambda>_. send_media_chunks net upload_id (Suc i) cs)"

definition reply_field :: "wecom_net \<Rightarrow> string \<Rightarrow> string \<Rightarrow> json \<Rightarrow> string waiting" where
  "reply_field net what k reply = wok (ok_or (what @ wn_show_json net reply) (as_str (jfield reply k)))"

definition upload_wecom_media :: "wecom_net \<Rightarrow> outbound_attachment \<Rightarrow> string waiting" where
  "upload_wecom_media net a =
     wbind (wok (required_local_path ''wecom'' a)) (\<lambda>path.
     wbind (wok (wn_read_file net path)) (\<lambda>bytes.
       let total_chunks = div_ceil (length bytes) MEDIA_UPLOAD_CHUNK_BYTES in
       if total_chunks = 0 then wfail ''cannot upload empty attachment''
       else if MEDIA_UPLOAD_MAX_CHUNKS < total_chunks
       then wfail (''attachment too large for WeCom upload: '' @ show_nat total_chunks @ '' chunks'')
       else
         wbind (send_frame_and_wait net ''aibot_upload_media_init'' (init_body net a path bytes)) (\<lambda>init_reply.
         wbind (reply_field net ''upload init missing upload_id: '' ''upload_id'' init_reply) (\<lambda>upload_id.
         wbind (send_media_chunks net upload_id 0 (chunks MEDIA_UPLOAD_CHUNK_BYTES bytes)) (\<lambda>_.
         wbind (send_frame_and_wait net ''aibot_upload_media_finish'' (obj_of [(''upload_id'', JStr upload_id)]))
           (reply_field net ''upload finish missing media_id: '' ''media_id''))))))"

section \<open>Outbound messages\<close>

definition set_media :: "string \<Rightarrow> wecom_outbound \<Rightarrow> wecom_outbound" where
  "set_media media_id out = out\<lparr>wo_attachment := map_option (\<lambda>a. a\<lparr>oa_media_id := Some media_id\<rparr>) (wo_attachment out)\<rparr>"

definition with_media :: "wecom_net \<Rightarrow> wecom_outbound \<Rightarrow> wecom_outbound waiting" where
  "with_media net out =
     (case wo_attachment out of
        Some a \<Rightarrow>
          if oa_media_id a = None
          then wbind (upload_wecom_media net a) (\<lambda>media_id. wgot (set_media media_id out)) else wgot out
      | None \<Rightarrow> wgot out)"

definition send_wecom_outbound :: "wecom_net \<Rightarrow> wecom_outbound \<Rightarrow> string waiting" where
  "send_wecom_outbound net out =
     wbind (with_media net out) (\<lambda>out'.
     wbind (write_frame net (\<lambda>u. build_send_frame (wn_bot_id net) u out')) (\<lambda>_.
       wgot (wo_chat_id out')))"


section \<open>The loop\<close>

text \<open>
  A turn of the loop takes what \<open>select!\<close> finds ready: a message of the queue, with the events its
  send reads (an empty queue is ready when it is closed), the heartbeat, an item of the socket,
  or the shutdown.
\<close>

datatype conn_event = OutTaken "wait_event list" | HeartbeatTick | Incoming ws_item | ShutdownSeen

datatype conn_status = Running | Sending | Ended "string + unit"

definition subscribe_body :: "wecom_net \<Rightarrow> json" where
  "subscribe_body net =
     obj_of [(''bot_id'', JStr (wn_bot_id net)), (''secret'', JStr (wn_secret net)), (''device_id'', JStr (wn_device net))]"

definition take_outbound :: "wecom_net \<Rightarrow> wait_event list \<Rightarrow> wecom \<Rightarrow> conn_status \<times> wecom" where
  "take_outbound net es w =
     (case wm_queue w of
        [] \<Rightarrow> (Ended (Inl ''wecom outbound channel closed''),
               emit_wecom_health HeDisconnected (Some ''outbound channel closed'') w)
      | out # queue \<Rightarrow>
          (case send_wecom_outbound net out es (w\<lparr>wm_queue := queue\<rparr>) of
             (Got detail, _, w') \<Rightarrow> (Running, emit_wecom_health HeSendAck (Some detail) w')
           | (Failed e, _, w') \<Rightarrow>
               (Ended (Inl (''wecom outbound send failed: '' @ e)), emit_wecom_health HeSendError (Some e) w')
           | (Waiting, _, w') \<Rightarrow> (Sending, w')))"

definition send_heartbeat :: "wecom_net \<Rightarrow> wecom \<Rightarrow> conn_status \<times> wecom" where
  "send_heartbeat net w =
     (case write_frame net (\<lambda>u. wecom_frame ''ping'' (''ping-'' @ u) (JObj [])) [] w of
        (Failed e, _, w') \<Rightarrow> (Ended (Inl e), w')
      | (_, _, w') \<Rightarrow> (Running, w'))"

fun take_item :: "wecom_net \<Rightarrow> nat \<Rightarrow> ws_item \<Rightarrow> wecom \<Rightarrow> conn_status \<times> wecom" where
  "take_item net now (WsText t) w =
     (let w1 = w\<lparr>wm_last_recv := now\<rparr> in
      (Running, case wn_parse net t of
         Some d \<Rightarrow> handle_wecom_message (wn_last_segment net) now d w1 | None \<Rightarrow> w1))"
| "take_item net now (WsError e) w =
     (Ended (Inl (''wecom ws error: '' @ e)), emit_wecom_health HeDisconnected (Some e) w)"
| "take_item net now WsOther w = (Running, w)"
| "take_item net now _ w =
     (Ended (Inl ''wecom websocket closed''), emit_wecom_health HeDisconnected (Some ''websocket closed'') w)"

fun wecom_turn :: "wecom_net \<Rightarrow> nat \<Rightarrow> conn_event \<Rightarrow> wecom \<Rightarrow> conn_status \<times> wecom" where
  "wecom_turn net now (OutTaken es) w = take_outbound net es w"
| "wecom_turn net now HeartbeatTick w = send_heartbeat net w"
| "wecom_turn net now (Incoming i) w = take_item net now i w"
| "wecom_turn net now ShutdownSeen w = (Ended (Inr ()), emit_wecom_health HeShutdown None w)"

definition timed_out :: "nat \<Rightarrow> wecom \<Rightarrow> bool" where
  "timed_out now w \<longleftrightarrow> PONG_TIMEOUT_SECS < (now - wm_last_recv w) div 1000000000"

text \<open>\<open>start\<close> is when a turn begins, \<open>now\<close> when its event is taken.\<close>

fun conn_loop :: "wecom_net \<Rightarrow> (nat \<times> nat \<times> conn_event) list \<Rightarrow> wecom \<Rightarrow> conn_status \<times> wecom" where
  "conn_loop net [] w = (Running, w)"
| "conn_loop net ((start, now, ev) # evs) w =
     (if timed_out start w then (Ended (Inl ''wecom connection timed out (no message received)''), w)
      else case wecom_turn net now ev w of
             (Running, w') \<Rightarrow> conn_loop net evs w'
           | (st, w') \<Rightarrow> (st, w'))"

text \<open>\<open>connected\<close> is the error of connecting, or the time at which the loop begins.\<close>

definition run_wecom_connection ::
  "wecom_net \<Rightarrow> string + nat \<Rightarrow> (nat \<times> nat \<times> conn_event) list \<Rightarrow> wecom \<Rightarrow> conn_status \<times> wecom" where
  "run_wecom_connection net connected evs w =
     (case connected of
        Inl e \<Rightarrow> (Ended (Inl e), w)
      | Inr now \<Rightarrow>
          (case write_frame net (\<lambda>u. wecom_frame ''aibot_subscribe'' (''subscribe-'' @ u) (subscribe_body net)) []
                  (emit_wecom_health HeConnected None w) of
             (Failed e, _, w') \<Rightarrow> (Ended (Inl e), w')
           | (_, _, w') \<Rightarrow> conn_loop net evs (w'\<lparr>wm_seen := [], wm_last_recv := now\<rparr>)))"

section \<open>The task\<close>

text \<open>
  The connections one after the other, each with what happens on it and whether the shutdown
  ends the wait after it; the delays waited, whether the task has ended, and the state.
\<close>

record wecom_run =
  wr_connected :: "string + nat"
  wr_events :: "(nat \<times> nat \<times> conn_event) list"
  wr_shutdown :: bool

definition reconnect_delay :: "nat \<Rightarrow> nat" where
  "reconnect_delay k = RECONNECT_DELAYS ! min k (length RECONNECT_DELAYS - 1)"

fun wecom_task :: "wecom_net \<Rightarrow> nat \<Rightarrow> wecom_run list \<Rightarrow> wecom \<Rightarrow> nat list \<times> bool \<times> wecom" where
  "wecom_task net k [] w = ([], False, w)"
| "wecom_task net k (r # rs) w =
     (case run_wecom_connection net (wr_connected r) (wr_events r) w of
        (Ended (Inr _), w') \<Rightarrow> ([], True, w')
      | (Ended (Inl e), w') \<Rightarrow>
          (let delay = reconnect_delay k;
               w1 = emit_wecom_health HeReconnecting
                 (Some (e @ ''; retrying in '' @ show_nat delay @ ''s'')) w'
           in if wr_shutdown r then ([delay], True, w1)
              else (case wecom_task net (Suc k) rs w1 of (ds, done_, w2) \<Rightarrow> (delay # ds, done_, w2)))
      | (_, w') \<Rightarrow> ([], False, w'))"

text \<open>\<open>start\<close>\<close>

definition start_wecom :: "wecom_net \<Rightarrow> string + unit" where
  "start_wecom net =
     (if wn_bot_id net = [] \<or> wn_secret net = [] then Inl ''wecom: bot_id and secret required'' else Inr ())"

end
