(* ===== verification/Wecom_Props.thy ===== *)
theory Wecom_Props
  imports Wecom_Media Wecom_Connection Weixin_Props
begin

text \<open>
  Properties of the WeCom adapter: its decryption inverts the encryption of the servers, a download
  follows safe links only, an upload sends the file, the queue is sent in order, and what a
  connection hands on.
\<close>

unbundle bit_operations_syntax

section \<open>Decryption\<close>

text \<open>Cipher block chaining as the servers do it: each block is mixed with the one before it.\<close>

function cbc_encrypt :: "(string \<Rightarrow> string) \<Rightarrow> string \<Rightarrow> string \<Rightarrow> string" where
  "cbc_encrypt e prev buf =
     (if buf = [] then []
      else (let c = e (map2 xor_char (take BLOCK_SIZE buf) prev) in c @ cbc_encrypt e c (drop BLOCK_SIZE buf)))"
  by pat_completeness auto
termination by (relation "measure (\<lambda>(e, prev, buf). length buf)") (auto simp: BLOCK_SIZE_def)

declare cbc_encrypt.simps [simp del]

lemma byte_bound: "byte c < 256"
  by (simp add: byte_def)

lemma byte_xor_char: "byte (xor_char a b) = byte a XOR byte b"
proof -
  have "byte (xor_char a b) = take_bit 8 (byte a XOR byte b)"
    by (simp add: xor_char_def byte_def take_bit_eq_mod)
  also have "\<dots> = byte a XOR byte b"
    using byte_bound [of a] byte_bound [of b]
    by (simp add: take_bit_nat_eq_self)
  finally show ?thesis .
qed

lemma xor_char_cancel: "xor_char (xor_char a b) b = a"
proof -
  have "byte (xor_char (xor_char a b) b) = byte a"
    by (simp add: byte_xor_char xor.assoc)
  then show ?thesis by (simp add: byte_def)
qed

lemma map2_xor_cancel: "length a = length b \<Longrightarrow> map2 xor_char (map2 xor_char a b) b = a"
  by (induction a b rule: list_induct2) (simp_all add: xor_char_cancel)

lemma block_induct [consumes 1, case_names Nil Block]:
  assumes "length buf mod BLOCK_SIZE = 0" "P []"
    "\<And>b r. length b = BLOCK_SIZE \<Longrightarrow> length r mod BLOCK_SIZE = 0 \<Longrightarrow> P r \<Longrightarrow> P (b @ r)"
  shows "P buf"
  using assms(1)
proof (induction buf rule: length_induct)
  case (1 buf)
  show ?case
  proof (cases "buf = []")
    case False
    with 1(2) have "BLOCK_SIZE \<le> length buf" by (metis length_0_conv mod_less not_le)
    then have "length (take BLOCK_SIZE buf) = BLOCK_SIZE" "length (drop BLOCK_SIZE buf) < length buf"
      "length (drop BLOCK_SIZE buf) mod BLOCK_SIZE = 0"
      using 1(2) by (auto simp: BLOCK_SIZE_def le_mod_geq [symmetric])
    with 1(1) have "P (take BLOCK_SIZE buf @ drop BLOCK_SIZE buf)" by (intro assms(3)) auto
    then show ?thesis by simp
  qed (simp add: assms(2))
qed

lemma cbc_block:
  assumes "length b = BLOCK_SIZE"
  shows "cbc_encrypt e prev (b @ r) = e (map2 xor_char b prev) @ cbc_encrypt e (e (map2 xor_char b prev)) r"
    "cbc_decrypt d prev (b @ r) = map2 xor_char (d b) prev @ cbc_decrypt d b r"
  using assms by (subst cbc_encrypt.simps cbc_decrypt.simps; auto simp: BLOCK_SIZE_def Let_def)+

lemma cbc_decrypt_encrypt:
  assumes "block_cipher e d"
  shows "length buf mod BLOCK_SIZE = 0 \<Longrightarrow> length prev = BLOCK_SIZE \<Longrightarrow>
    cbc_decrypt d prev (cbc_encrypt e prev buf) = buf"
proof (induction buf arbitrary: prev rule: block_induct)
  case (Block b r)
  let ?x = "map2 xor_char b prev"
  have x: "length ?x = BLOCK_SIZE" using Block by simp
  with assms have "length (e ?x) = BLOCK_SIZE" "d (e ?x) = ?x" by (simp_all add: block_cipher_def)
  then show ?case using Block by (simp add: cbc_block map2_xor_cancel)
qed (simp add: cbc_encrypt.simps cbc_decrypt.simps)

lemma cbc_encrypt_decrypt:
  assumes "block_cipher d e"
  shows "length buf mod BLOCK_SIZE = 0 \<Longrightarrow> length prev = BLOCK_SIZE \<Longrightarrow>
    cbc_encrypt e prev (cbc_decrypt d prev buf) = buf \<and> length (cbc_decrypt d prev buf) = length buf"
proof (induction buf arbitrary: prev rule: block_induct)
  case (Block b r)
  let ?x = "map2 xor_char (d b) prev"
  from assms Block have d: "length (d b) = BLOCK_SIZE" "e (d b) = b" by (simp_all add: block_cipher_def)
  with Block have x: "length ?x = BLOCK_SIZE" "map2 xor_char ?x prev = d b" by (simp_all add: map2_xor_cancel)
  then show ?case using Block d by (simp add: cbc_block)
qed (simp add: cbc_encrypt.simps cbc_decrypt.simps)

lemma length_cbc_encrypt:
  assumes "block_cipher e d"
  shows "length buf mod BLOCK_SIZE = 0 \<Longrightarrow> length prev = BLOCK_SIZE \<Longrightarrow>
    length (cbc_encrypt e prev buf) = length buf"
proof (induction buf arbitrary: prev rule: block_induct)
  case (Block b r)
  have "length (map2 xor_char b prev) = BLOCK_SIZE" using Block by simp
  with assms have "length (e (map2 xor_char b prev)) = BLOCK_SIZE" unfolding block_cipher_def by blast
  then show ?case using Block by (simp add: cbc_block)
qed (simp add: cbc_encrypt.simps)

lemma remove_padding_Inr:
  "remove_padding out = Inr data \<longleftrightarrow>
     (\<exists>p. p = byte (last out) \<and> out \<noteq> [] \<and> p \<noteq> 0 \<and> p \<le> 32 \<and> p \<le> length out \<and>
        (\<forall>b \<in> set (drop (length out - p) out). byte b = p) \<and> data = take (length out - p) out)"
proof -
  obtain p where p: "p = byte (last out)" by blast
  show ?thesis
    unfolding remove_padding_def Let_def p [symmetric] list_ex_iff by (simp add: not_less) blast
qed

text \<open>Padding is removed exactly when it is between 1 and 32 times its own length.\<close>

lemma remove_padding_iff:
  "remove_padding out = Inr data \<longleftrightarrow> (\<exists>p. 1 \<le> p \<and> p \<le> 32 \<and> out = data @ replicate p (char_of p))"
proof
  assume "remove_padding out = Inr data"
  then obtain p where h: "p \<noteq> 0" "p \<le> 32" "p \<le> length out"
    "\<forall>b \<in> set (drop (length out - p) out). byte b = p" "data = take (length out - p) out"
    unfolding remove_padding_Inr by blast
  have "drop (length out - p) out = replicate p (char_of p)"
  proof (intro replicate_eqI)
    fix x assume "x \<in> set (drop (length out - p) out)"
    with h(4) have "byte x = p" by blast
    then show "x = char_of p" by (metis byte_def char_of_char)
  qed (use h in simp)
  with h show "\<exists>p. 1 \<le> p \<and> p \<le> 32 \<and> out = data @ replicate p (char_of p)"
    by (metis append_take_drop_id less_one not_less)
next
  assume "\<exists>p. 1 \<le> p \<and> p \<le> 32 \<and> out = data @ replicate p (char_of p)"
  then obtain p where p: "1 \<le> p" "p \<le> 32" "out = data @ replicate p (char_of p)" by blast
  then have b: "byte (char_of p) = p" by (intro byte_char_of) simp
  let ?c = "char_of p :: char"
  have "out \<noteq> []" "last out = ?c" "p \<le> length out" "length out - p = length data"
    using p by (simp_all add: last_append)
  moreover have "drop (length data) out = replicate p ?c" "take (length data) out = data"
    unfolding p(3) by simp_all
  moreover have "\<forall>b \<in> set (replicate p ?c). byte b = p" using b by simp
  ultimately show "remove_padding out = Inr data"
    using b p(1,2) unfolding remove_padding_Inr by (intro exI [of _ p]) simp
qed

text \<open>
  Property C27: what a media file of WeCom decrypts to. With a key that decodes to 32 bytes, the
  decryption succeeds with \<open>data\<close> exactly when the body is \<open>data\<close>, padded with 1 to 32 bytes to whole
  blocks, encrypted block after block from the first half of the key on: every such body is
  read, and nothing else is taken for one.
\<close>

theorem wecom_media_decrypts:
  assumes "block_cipher (enc k) (dec k)" "block_cipher (dec k) (enc k)"
    "decode_wecom_aes_key decode aes_key = Inr k" "length k = 32"
  shows "decrypt_wecom_media decode dec body aes_key = Inr data \<longleftrightarrow>
    (\<exists>p. 1 \<le> p \<and> p \<le> 32 \<and> (length data + p) mod 16 = 0 \<and>
       body = cbc_encrypt (enc k) (take 16 k) (data @ replicate p (char_of p)))" (is "?l \<longleftrightarrow> ?r")
proof
  have iv: "length (take 16 k) = BLOCK_SIZE" using assms(4) by (simp add: BLOCK_SIZE_def)
  have eq: "?l \<longleftrightarrow> body \<noteq> [] \<and> length body mod 16 = 0 \<and>
      remove_padding (cbc_decrypt (dec k) (take 16 k) body) = Inr data"
    using assms(3,4) by (simp add: decrypt_wecom_media_def)
  {
    assume ?l
    with eq have b: "length body mod BLOCK_SIZE = 0"
      and r: "remove_padding (cbc_decrypt (dec k) (take 16 k) body) = Inr data"
      by (simp_all add: BLOCK_SIZE_def)
    from r obtain p where p: "1 \<le> p" "p \<le> 32"
      and d: "cbc_decrypt (dec k) (take 16 k) body = data @ replicate p (char_of p)"
      unfolding remove_padding_iff by blast
    from cbc_encrypt_decrypt [OF assms(2) b iv] d
    have "cbc_encrypt (enc k) (take 16 k) (data @ replicate p (char_of p)) = body"
      "length (data @ replicate p (char_of p)) = length body" by simp_all
    with b p show ?r by (intro exI [of _ p]) (simp add: BLOCK_SIZE_def)
  }
  assume ?r
  then obtain p where p: "1 \<le> p" "p \<le> 32" "(length data + p) mod 16 = 0"
    "body = cbc_encrypt (enc k) (take 16 k) (data @ replicate p (char_of p))" by (elim exE conjE) (rule that)
  let ?x = "data @ replicate p (char_of p)"
  have x: "length ?x mod BLOCK_SIZE = 0" using p(3) by (simp add: BLOCK_SIZE_def)
  have l: "length body = length data + p"
    using length_cbc_encrypt [OF assms(1) x iv] unfolding p(4) by simp
  then have "length body \<noteq> 0" "length body mod 16 = 0" using p(1,3) by simp_all
  moreover have "remove_padding (cbc_decrypt (dec k) (take 16 k) body) = Inr data"
    unfolding p(4) cbc_decrypt_encrypt [OF assms(1) x iv] remove_padding_iff
    by (intro exI [of _ p] conjI refl p(1,2))
  ultimately show ?l by (simp only: eq) simp
qed

lemma wecom_media_decrypts_witness:
  "decrypt_wecom_media (\<lambda>_ _ s. Inr s) (\<lambda>_. rev)
     (cbc_encrypt rev (replicate 16 (CHR ''k'')) (''photo'' @ replicate 27 (char_of (27 :: nat))))
     (replicate 32 (CHR ''k'')) = Inr ''photo''"
proof -
  have "block_cipher rev rev" by (simp add: block_cipher_def)
  moreover have "decode_wecom_aes_key (\<lambda>_ _ s. Inr s) (replicate 32 (CHR ''k'')) = Inr (replicate 32 (CHR ''k''))"
    by (simp add: decode_wecom_aes_key_def numeral_eq_Suc trim_def trim_start_def trim_end_def strip_all.simps
        white_space_def)
  moreover have "(\<exists>p. 1 \<le> p \<and> p \<le> 32 \<and> (length ''photo'' + p) mod 16 = 0 \<and>
      cbc_encrypt rev (replicate 16 (CHR ''k'')) (''photo'' @ replicate 27 (char_of (27 :: nat))) =
      cbc_encrypt rev (take 16 (replicate 32 (CHR ''k''))) (''photo'' @ replicate p (char_of p)))"
    by (intro exI [of _ 27]) (simp add: min_def)
  ultimately show ?thesis
    using wecom_media_decrypts [of "\<lambda>_. rev" "replicate 32 (CHR ''k'')" "\<lambda>_. rev"
        "\<lambda>_ _ s. Inr s" "replicate 32 (CHR ''k'')"] by simp
qed

section \<open>Waiting\<close>

lemma wbind_Got:
  "wbind m k es w = (Got b, es', w') \<longleftrightarrow>
     (\<exists>a es1 w1. m es w = (Got a, es1, w1) \<and> k a es1 w1 = (Got b, es', w'))"
  by (auto simp: wbind_def split: prod.splits wait_outcome.splits)

lemma wok_Got: "wok r es w = (Got a, es', w') \<longleftrightarrow> r = Inr a \<and> es' = es \<and> w' = w"
  by (cases r) (auto simp: wok_def wfail_def wgot_def)

lemma wgot_Got: "wgot b es w = (Got a, es', w') \<longleftrightarrow> a = b \<and> es' = es \<and> w' = w"
  by (auto simp: wgot_def)

lemma wfail_Got: "\<not> wfail e es w = (Got a, es', w')"
  by (simp add: wfail_def)

lemmas waiting_Got = wbind_Got wok_Got wgot_Got wfail_Got

text \<open>A relation between the states before and after a call, whatever its outcome.\<close>

definition steps :: "(wecom \<Rightarrow> wecom \<Rightarrow> bool) \<Rightarrow> 'a waiting \<Rightarrow> bool" where
  "steps R m \<longleftrightarrow> (\<forall>es w r es' w'. m es w = (r, es', w') \<longrightarrow> R w w')"

lemma steps_wbind:
  assumes "\<And>a b c. R a b \<Longrightarrow> R b c \<Longrightarrow> R a c" "steps R m" "\<And>a. steps R (k a)"
  shows "steps R (wbind m k)"
  unfolding steps_def
proof (intro allI impI)
  fix es w r es' w'
  assume h: "wbind m k es w = (r, es', w')"
  obtain x es1 w1 where m: "m es w = (x, es1, w1)" by (cases "m es w")
  with assms(2) have r1: "R w w1" by (simp add: steps_def)
  show "R w w'"
  proof (cases x)
    case (Got a)
    with h m have "k a es1 w1 = (r, es', w')" by (simp add: wbind_def)
    with assms(3) have "R w1 w'" by (simp add: steps_def)
    with r1 show ?thesis by (rule assms(1))
  qed (use h m r1 in \<open>simp_all add: wbind_def\<close>)
qed

lemma steps_wok: "(\<And>w. R w w) \<Longrightarrow> steps R (wok r)"
  by (cases r) (simp_all add: steps_def wok_def wfail_def wgot_def)

lemma steps_wfail: "(\<And>w. R w w) \<Longrightarrow> steps R (wfail e)"
  by (simp add: steps_def wfail_def)

lemma steps_wgot: "(\<And>w. R w w) \<Longrightarrow> steps R (wgot a)"
  by (simp add: steps_def wgot_def)

text \<open>Handling a frame touches neither the frames written nor the queue.\<close>

lemma send_inbound_keeps:
  "wm_sent (send_inbound m w) = wm_sent w" "wm_queue (send_inbound m w) = wm_queue w"
  "wm_seen (send_inbound m w) = wm_seen w" "wm_last_recv (send_inbound m w) = wm_last_recv w"
  "wm_open (send_inbound m w) = wm_open w"
  by (simp_all add: send_inbound_def)

lemma emit_keeps:
  "wm_sent (emit_wecom_health t d w) = wm_sent w" "wm_queue (emit_wecom_health t d w) = wm_queue w"
  "wm_seen (emit_wecom_health t d w) = wm_seen w" "wm_inbox (emit_wecom_health t d w) = wm_inbox w"
  "wm_open (emit_wecom_health t d w) = wm_open w" "wm_last_recv (emit_wecom_health t d w) = wm_last_recv w"
  by (simp_all add: emit_wecom_health_def)

lemma handle_keeps:
  "wm_sent (handle_wecom_message ls now d w) = wm_sent w"
  "wm_queue (handle_wecom_message ls now d w) = wm_queue w"
  "wm_open (handle_wecom_message ls now d w) = wm_open w"
  by (simp_all add: handle_wecom_message_def Let_def send_inbound_keeps emit_keeps
      split: option.split prod.split bool.split)

lemma await_keeps:
  "await_reply net cmd req_id es w = (r, es', w') \<Longrightarrow> wm_sent w' = wm_sent w \<and> wm_queue w' = wm_queue w"
proof (induction net cmd req_id es w rule: await_reply.induct)
  case (3 net cmd req_id now t es w)
  let ?w = "w\<lparr>wm_last_recv := now\<rparr>"
  have k: "wm_sent ?w = wm_sent w" "wm_queue ?w = wm_queue w" by simp_all
  show ?case
  proof (cases "wn_parse net t")
    case None
    with 3(1) [OF refl None] 3(3) show ?thesis unfolding await_reply.simps Let_def by (simp add: k)
  next
    case (Some d)
    let ?mine = "(case frame_req_id d of Some i \<Rightarrow> i | None \<Rightarrow> []) = req_id"
    show ?thesis
    proof (cases ?mine)
      case True
      with 3(3) Some have "w' = ?w"
        unfolding await_reply.simps Let_def by (simp split: if_splits)
      then show ?thesis by (simp add: k)
    next
      case False
      with 3(2) [OF refl Some False] 3(3) Some show ?thesis
        unfolding await_reply.simps Let_def by (simp add: k handle_keeps)
    qed
  qed
qed simp_all

section \<open>Uploads\<close>

text \<open>The \<open>n\<close>-th frame written, when it is a request of an upload.\<close>

definition frame_at :: "wecom_net \<Rightarrow> nat \<Rightarrow> string \<times> json \<Rightarrow> json" where
  "frame_at net n = (\<lambda>(cmd, body). wecom_frame cmd (cmd @ ''-'' @ wn_uuid net n) body)"

definition chunk_requests :: "wecom_net \<Rightarrow> string \<Rightarrow> nat \<Rightarrow> string list \<Rightarrow> (string \<times> json) list" where
  "chunk_requests net upload_id i cs =
     map (\<lambda>(j, c). (''aibot_upload_media_chunk'', chunk_body net upload_id j c)) (List.enumerate i cs)"

definition upload_requests ::
  "wecom_net \<Rightarrow> outbound_attachment \<Rightarrow> string \<Rightarrow> string \<Rightarrow> string \<Rightarrow> (string \<times> json) list" where
  "upload_requests net a path bytes upload_id =
     (''aibot_upload_media_init'', init_body net a path bytes) #
     chunk_requests net upload_id 0 (chunks MEDIA_UPLOAD_CHUNK_BYTES bytes) @
     [(''aibot_upload_media_finish'', obj_of [(''upload_id'', JStr upload_id)])]"

definition frames_from :: "wecom_net \<Rightarrow> nat \<Rightarrow> (string \<times> json) list \<Rightarrow> json list" where
  "frames_from net n rs = map (\<lambda>(i, r). frame_at net i r) (List.enumerate n rs)"

lemma frames_from_Cons: "frames_from net n (r # rs) = frame_at net n r # frames_from net (Suc n) rs"
  by (simp add: frames_from_def)

lemma frames_from_append:
  "frames_from net n (rs @ ss) = frames_from net n rs @ frames_from net (n + length rs) ss"
  by (simp add: frames_from_def enumerate_append_eq)

lemma write_frame_Got:
  "write_frame net f es w = (Got u, es', w') \<Longrightarrow>
     u = wn_uuid net (length (wm_sent w)) \<and> es' = es \<and> w' = w\<lparr>wm_sent := wm_sent w @ [f u]\<rparr>"
  by (auto simp: write_frame_def Let_def split: option.splits)

lemma send_frame_and_wait_Got:
  assumes "send_frame_and_wait net cmd body es w = (Got v, es', w')"
  shows "wm_sent w' = wm_sent w @ frames_from net (length (wm_sent w)) [(cmd, body)]"
proof -
  from assms obtain u es1 w1 where
    wr: "write_frame net (\<lambda>u. wecom_frame cmd (cmd @ ''-'' @ u) body) es w = (Got u, es1, w1)" and
    aw: "await_reply net cmd (cmd @ ''-'' @ u) es1 w1 = (Got v, es', w')"
    unfolding send_frame_and_wait_def wbind_Got by blast
  from await_keeps [OF aw] write_frame_Got [OF wr] show ?thesis by (simp add: frames_from_def frame_at_def)
qed

lemma send_chunks_Got:
  "send_media_chunks net upload_id i cs es w = (Got v, es', w') \<Longrightarrow>
     wm_sent w' = wm_sent w @ frames_from net (length (wm_sent w)) (chunk_requests net upload_id i cs)"
proof (induction cs arbitrary: i es w)
  case (Cons c cs)
  then obtain a es1 w1 where
    s: "send_frame_and_wait net ''aibot_upload_media_chunk'' (chunk_body net upload_id i c) es w = (Got a, es1, w1)" and
    r: "send_media_chunks net upload_id (Suc i) cs es1 w1 = (Got v, es', w')"
    by (auto simp: wbind_Got)
  from Cons.IH [OF r] send_frame_and_wait_Got [OF s] show ?case
    by (simp add: chunk_requests_def frames_from_Cons) (simp add: frames_from_def)
qed (simp add: wgot_def chunk_requests_def frames_from_def)

lemma chunks_step: "s \<noteq> [] \<Longrightarrow> 0 < n \<Longrightarrow> chunks n s = take n s # chunks n (drop n s)"
  by (simp add: chunks.simps [of n s])

lemma chunks_Nil [simp]: "chunks n [] = []"
  by (simp add: chunks.simps)

lemma concat_chunks: "0 < n \<Longrightarrow> concat (chunks n s) = s"
proof (induction n s rule: chunks.induct)
  case (1 n s)
  then show ?case by (cases "s = []") (simp_all add: chunks_step)
qed

lemma chunks_sizes: "0 < n \<Longrightarrow> c \<in> set (chunks n s) \<Longrightarrow> c \<noteq> [] \<and> length c \<le> n"
proof (induction n s rule: chunks.induct)
  case (1 n s)
  then show ?case by (cases "s = []") (auto simp: chunks_step)
qed

lemma div_ceil_step: "0 < b \<Longrightarrow> b \<le> a \<Longrightarrow> div_ceil a b = Suc (div_ceil (a - b) b)"
  by (simp add: div_ceil_def le_div_geq le_mod_geq)

lemma length_chunks: "0 < n \<Longrightarrow> length (chunks n s) = div_ceil (length s) n"
proof (induction n s rule: chunks.induct)
  case (1 n s)
  show ?case
  proof (cases "s = []")
    case False
    with 1 have ih: "length (chunks n s) = Suc (div_ceil (length s - n) n)" by (simp add: chunks_step)
    show ?thesis
    proof (cases "n \<le> length s")
      case True
      then show ?thesis using ih 1(2) by (simp add: div_ceil_step)
    next
      case False
      then have "div_ceil (length s - n) n = 0" "div_ceil (length s) n = 1"
        using \<open>s \<noteq> []\<close> by (simp_all add: div_ceil_def)
      then show ?thesis using ih by simp
    qed
  qed (simp add: div_ceil_def)
qed

text \<open>
  Property C24: what an upload that succeeded has sent. The frames written are the announcement, the
  chunks in order and the end, numbered one after the other; the chunks put together are the file,
  there are between 1 and 100 of them, none is empty or over 512 KiB, and their announced number
  is theirs. Frames that came in meanwhile changed none of it.
\<close>

theorem wecom_upload_complete:
  assumes "upload_wecom_media net a es w = (Got media_id, es', w')"
  shows "\<exists>path bytes upload_id. oa_local_path a = Some path \<and> wn_read_file net path = Inr bytes \<and>
    wm_sent w' = wm_sent w @ frames_from net (length (wm_sent w)) (upload_requests net a path bytes upload_id) \<and>
    (let cs = chunks MEDIA_UPLOAD_CHUNK_BYTES bytes in
       concat cs = bytes \<and> list_all (\<lambda>c. c \<noteq> [] \<and> length c \<le> 512 * 1024) cs \<and>
       1 \<le> length cs \<and> length cs \<le> 100 \<and> length cs = div_ceil (length bytes) MEDIA_UPLOAD_CHUNK_BYTES)"
proof -
  let ?C = MEDIA_UPLOAD_CHUNK_BYTES
  have C: "0 < ?C" "?C = 512 * 1024" by (simp_all add: MEDIA_UPLOAD_CHUNK_BYTES_def)
  from assms obtain path bytes where p: "oa_local_path a = Some path" "wn_read_file net path = Inr bytes"
    and n: "div_ceil (length bytes) ?C \<noteq> 0" "div_ceil (length bytes) ?C \<le> MEDIA_UPLOAD_MAX_CHUNKS"
    and rest: "wbind (send_frame_and_wait net ''aibot_upload_media_init'' (init_body net a path bytes)) (\<lambda>init_reply.
         wbind (reply_field net ''upload init missing upload_id: '' ''upload_id'' init_reply) (\<lambda>upload_id.
         wbind (send_media_chunks net upload_id 0 (chunks ?C bytes)) (\<lambda>_.
         wbind (send_frame_and_wait net ''aibot_upload_media_finish'' (obj_of [(''upload_id'', JStr upload_id)]))
           (reply_field net ''upload finish missing media_id: '' ''media_id'')))) es w = (Got media_id, es', w')"
    unfolding upload_wecom_media_def
    by (auto simp: waiting_Got Let_def required_local_path_def ok_or_Inr not_less split: if_splits)
  from rest obtain r1 es1 w1 upload_id u es2 w2 r3 where
    s1: "send_frame_and_wait net ''aibot_upload_media_init'' (init_body net a path bytes) es w = (Got r1, es1, w1)" and
    s2: "send_media_chunks net upload_id 0 (chunks ?C bytes) es1 w1 = (Got u, es2, w2)" and
    s3: "send_frame_and_wait net ''aibot_upload_media_finish'' (obj_of [(''upload_id'', JStr upload_id)]) es2 w2 =
      (Got r3, es', w')"
    unfolding wbind_Got reply_field_def wok_Got by blast
  from send_frame_and_wait_Got [OF s1] send_chunks_Got [OF s2] send_frame_and_wait_Got [OF s3]
  have "wm_sent w' = wm_sent w @ frames_from net (length (wm_sent w)) (upload_requests net a path bytes upload_id)"
    by (simp add: upload_requests_def frames_from_Cons frames_from_append) (simp add: frames_from_def)
  moreover have "list_all (\<lambda>c. c \<noteq> [] \<and> length c \<le> 512 * 1024) (chunks ?C bytes)"
    using chunks_sizes [OF C(1)] C(2) by (auto simp: list_all_iff)
  ultimately show ?thesis
    using p n concat_chunks [OF C(1), of bytes] length_chunks [OF C(1), of bytes]
    unfolding Let_def MEDIA_UPLOAD_MAX_CHUNKS_def by auto
qed

definition demo_reply :: "string \<Rightarrow> (string \<times> json) list \<Rightarrow> json" where
  "demo_reply req_id body = JObj [(''headers'', JObj [(''req_id'', JStr req_id)]), (''body'', JObj body)]"

definition demo_wecom_net :: wecom_net where
  "demo_wecom_net =
     \<lparr>wn_bot_id = ''bot'', wn_secret = ''s'', wn_uuid = (\<lambda>_. ''u''), wn_device = ''dev'',
      wn_write_error = (\<lambda>_. None),
      wn_parse = map_of
        [(''init'', demo_reply ''aibot_upload_media_init-u'' [(''upload_id'', JStr ''up'')]),
         (''chunk'', demo_reply ''aibot_upload_media_chunk-u'' []),
         (''finish'', demo_reply ''aibot_upload_media_finish-u'' [(''media_id'', JStr ''m'')])],
      wn_read_file = (\<lambda>_. Inr ''hi''), wn_md5 = (\<lambda>_. []), wn_base64 = (\<lambda>s. s), wn_show_json = (\<lambda>_. []),
      wn_last_segment = (\<lambda>_. None)\<rparr>"

definition demo_wecom :: wecom where
  "demo_wecom =
     \<lparr>wm_seen = [], wm_inbox = [], wm_open = True, wm_health = [], wm_sent = [], wm_last_recv = 0, wm_queue = []\<rparr>"

definition demo_picture :: outbound_attachment where
  "demo_picture =
     \<lparr>oa_kind = AkImage, oa_name = None, oa_media_id = None, oa_local_path = Some ''/f'', oa_mime_type = None\<rparr>"

definition demo_answers :: "wait_event list" where
  "demo_answers = [Item 2 (WsText ''init''), Item 3 (WsText ''chunk''), Item 4 (WsText ''finish'')]"

lemma demo_send_frame:
  assumes "wn_parse demo_wecom_net t = Some (demo_reply (cmd @ ''-u'') body)"
    "map_of body ''errcode'' = None"
  shows "\<exists>w'. send_frame_and_wait demo_wecom_net cmd b (Item now (WsText t) # es) w = (Got (JObj body), es, w')"
proof -
  have u: "wn_uuid demo_wecom_net n = ''u''" "wn_write_error demo_wecom_net n = None" for n
    by (simp_all add: demo_wecom_net_def)
  have "frame_req_id (demo_reply (cmd @ ''-u'') body) = Some (cmd @ ''-u'')"
    "frame_errcode (demo_reply (cmd @ ''-u'') body) = 0"
    "jfield (demo_reply (cmd @ ''-u'') body) ''body'' = JObj body"
    using assms(2)
    by (simp_all add: demo_reply_def frame_req_id_def frame_errcode_def jfield_def jget_def or_else_def)
  then show ?thesis
    by (simp add: send_frame_and_wait_def wbind_def write_frame_def Let_def u assms(1))
qed

lemma wecom_upload_complete_witness:
  "\<exists>w' upload_id. fst (upload_wecom_media demo_wecom_net demo_picture demo_answers demo_wecom) = Got ''m'' \<and>
     w' = snd (snd (upload_wecom_media demo_wecom_net demo_picture demo_answers demo_wecom)) \<and>
     wm_sent w' = frames_from demo_wecom_net 0 (upload_requests demo_wecom_net demo_picture ''/f'' ''hi'' upload_id)"
proof -
  have ch: "chunks MEDIA_UPLOAD_CHUNK_BYTES ''hi'' = [''hi'']"
    by (simp add: MEDIA_UPLOAD_CHUNK_BYTES_def chunks_step)
  have n: "div_ceil (Suc (Suc 0)) MEDIA_UPLOAD_CHUNK_BYTES = 1"
    by (simp add: div_ceil_def MEDIA_UPLOAD_CHUNK_BYTES_def)
  have f: "oa_local_path demo_picture = Some ''/f''" "wn_read_file demo_wecom_net p = Inr ''hi''" for p
    by (simp_all add: demo_picture_def demo_wecom_net_def)
  let ?i = "''aibot_upload_media_init''" and ?c = "''aibot_upload_media_chunk''" and ?f = "''aibot_upload_media_finish''"
  have p: "wn_parse demo_wecom_net ''init'' = Some (demo_reply (?i @ ''-u'') [(''upload_id'', JStr ''up'')])"
    "wn_parse demo_wecom_net ''chunk'' = Some (demo_reply (?c @ ''-u'') [])"
    "wn_parse demo_wecom_net ''finish'' = Some (demo_reply (?f @ ''-u'') [(''media_id'', JStr ''m'')])"
    by (simp_all add: demo_wecom_net_def)
  obtain w1 where
    s1: "send_frame_and_wait demo_wecom_net ?i (init_body demo_wecom_net demo_picture ''/f'' ''hi'') demo_answers demo_wecom =
      (Got (JObj [(''upload_id'', JStr ''up'')]), tl demo_answers, w1)"
    using demo_send_frame [OF p(1), of "init_body demo_wecom_net demo_picture ''/f'' ''hi''" 2 "tl demo_answers" demo_wecom]
    by (auto simp: demo_answers_def)
  obtain w2 where
    s2: "send_frame_and_wait demo_wecom_net ?c (chunk_body demo_wecom_net ''up'' 0 ''hi'') (tl demo_answers) w1 =
      (Got (JObj []), [Item 4 (WsText ''finish'')], w2)"
    using demo_send_frame [OF p(2), of "chunk_body demo_wecom_net ''up'' 0 ''hi''" 3 "[Item 4 (WsText ''finish'')]" w1]
    by (auto simp: demo_answers_def)
  obtain w3 where
    s3: "send_frame_and_wait demo_wecom_net ?f (obj_of [(''upload_id'', JStr ''up'')]) [Item 4 (WsText ''finish'')] w2 =
      (Got (JObj [(''media_id'', JStr ''m'')]), [], w3)"
    using demo_send_frame [OF p(3), of "obj_of [(''upload_id'', JStr ''up'')]" 4 "[]" w2] by auto
  have "upload_wecom_media demo_wecom_net demo_picture demo_answers demo_wecom = (Got ''m'', [], w3)"
    unfolding upload_wecom_media_def required_local_path_def f ok_or_def
    by (simp add: wbind_def wok_def wgot_def f n ch s1 s2 s3 Let_def MEDIA_UPLOAD_MAX_CHUNKS_def reply_field_def
        ok_or_def jfield_def jget_def)
  moreover from wecom_upload_complete [OF this] have
    "\<exists>upload_id. wm_sent w3 = frames_from demo_wecom_net 0 (upload_requests demo_wecom_net demo_picture ''/f'' ''hi'' upload_id)"
    by (auto simp: f demo_wecom_def)
  ultimately show ?thesis by auto
qed

section \<open>The queue\<close>

lemma frame_cmd_wecom_frame: "frame_cmd (wecom_frame cmd req_id body) = cmd"
  by (simp add: frame_cmd_def wecom_frame_def obj_of_def jfield_def jget_def)

lemma frame_cmd_noop: "frame_cmd noop_frame = ''noop''"
  by (simp add: frame_cmd_def noop_frame_def obj_of_def jfield_def jget_def)

definition is_message_frame :: "json \<Rightarrow> bool" where
  "is_message_frame f \<longleftrightarrow> frame_cmd f \<in> set [''aibot_respond_msg'', ''aibot_send_msg'', ''noop'']"

definition message_frames :: "wecom \<Rightarrow> json list" where
  "message_frames w = filter is_message_frame (wm_sent w)"

text \<open>The frame of a message: built from it as it was queued, or with the identifier its upload gave.\<close>

definition frame_for :: "wecom_net \<Rightarrow> wecom_outbound \<Rightarrow> json \<Rightarrow> bool" where
  "frame_for net out f \<longleftrightarrow>
     (\<exists>u. f = build_send_frame (wn_bot_id net) u out) \<or>
     (\<exists>u media_id. f = build_send_frame (wn_bot_id net) u (set_media media_id out))"

lemma build_send_frame_message: "is_message_frame (build_send_frame b u out)"
  unfolding is_message_frame_def build_send_frame_def build_attachment_send_frame_def Let_def
  by (simp add: frame_cmd_wecom_frame frame_cmd_noop split: option.split)

definition quiet_step :: "wecom \<Rightarrow> wecom \<Rightarrow> bool" where
  "quiet_step w w' \<longleftrightarrow> wm_queue w' = wm_queue w \<and> message_frames w' = message_frames w"

lemma quiet_trans: "quiet_step a b \<Longrightarrow> quiet_step b c \<Longrightarrow> quiet_step a c"
  by (simp add: quiet_step_def)

lemma quiet_refl: "quiet_step w w"
  by (simp add: quiet_step_def)

lemma quiet_write:
  "(\<And>u. \<not> is_message_frame (frame u)) \<Longrightarrow> steps quiet_step (write_frame net frame)"
  by (auto simp: steps_def write_frame_def Let_def quiet_step_def message_frames_def split: option.splits)

lemma quiet_await: "steps quiet_step (await_reply net cmd req_id)"
  unfolding steps_def quiet_step_def message_frames_def using await_keeps by metis

lemma quiet_exchange:
  "cmd \<notin> set [''aibot_respond_msg'', ''aibot_send_msg'', ''noop''] \<Longrightarrow> steps quiet_step (send_frame_and_wait net cmd body)"
  unfolding send_frame_and_wait_def
  by (intro steps_wbind quiet_write quiet_await)
    (auto intro: quiet_trans simp: is_message_frame_def frame_cmd_wecom_frame)

lemma quiet_chunks: "steps quiet_step (send_media_chunks net upload_id i cs)"
proof (induction cs arbitrary: i)
  case (Cons c cs)
  then show ?case
    unfolding send_media_chunks.simps by (intro steps_wbind quiet_exchange) (auto intro: quiet_trans)
qed (simp add: steps_wgot quiet_refl)

lemma quiet_upload: "steps quiet_step (upload_wecom_media net a)"
proof -
  have i: "steps quiet_step (if b then m else k)" if "steps quiet_step m" "steps quiet_step k" for b and m k :: "'x waiting"
    using that by simp
  show ?thesis
    unfolding upload_wecom_media_def Let_def reply_field_def
    by (intro steps_wbind steps_wok steps_wfail i quiet_exchange quiet_chunks)
      (simp_all add: quiet_refl, (blast intro: quiet_trans)+)
qed

lemma with_media_step:
  assumes "with_media net out es w = (r, es', w')"
  shows "quiet_step w w' \<and> (\<forall>out'. r = Got out' \<longrightarrow> out' = out \<or> (\<exists>m. out' = set_media m out))"
proof -
  have "steps quiet_step (with_media net out)"
    unfolding with_media_def
    by (auto intro!: steps_wbind steps_wgot quiet_upload quiet_refl intro: quiet_trans split: option.split)
  with assms have "quiet_step w w'" by (simp add: steps_def)
  with assms show ?thesis
    by (auto simp: with_media_def wbind_Got wgot_Got split: option.splits if_splits)
qed

lemma send_outbound_step:
  assumes "send_wecom_outbound net out es w = (r, es', w')"
  shows "wm_queue w' = wm_queue w \<and>
    (case r of
       Got _ \<Rightarrow> (\<exists>f. message_frames w' = message_frames w @ [f] \<and> frame_for net out f)
     | _ \<Rightarrow> message_frames w' = message_frames w)"
proof -
  obtain x es1 w1 where m: "with_media net out es w = (x, es1, w1)" by (cases "with_media net out es w")
  from with_media_step [OF m] have q: "wm_queue w1 = wm_queue w" "message_frames w1 = message_frames w"
    by (simp_all add: quiet_step_def)
  show ?thesis
  proof (cases x)
    case (Got out')
    from with_media_step [OF m] Got have o: "out' = out \<or> (\<exists>m. out' = set_media m out)" by blast
    let ?n = "length (wm_sent w1)"
    let ?f = "build_send_frame (wn_bot_id net) (wn_uuid net ?n) out'"
    have f: "frame_for net out ?f" using o by (auto simp: frame_for_def)
    show ?thesis
    proof (cases "wn_write_error net ?n")
      case None
      with assms m Got have "r = Got (wo_chat_id out')" "w' = w1\<lparr>wm_sent := wm_sent w1 @ [?f]\<rparr>"
        by (simp_all add: send_wecom_outbound_def wbind_def write_frame_def wgot_def Let_def)
      with q f show ?thesis
        by (intro conjI) (simp_all add: message_frames_def build_send_frame_message)
    next
      case (Some e)
      with assms m Got have "r = Failed e" "w' = w1"
        by (simp_all add: send_wecom_outbound_def wbind_def write_frame_def Let_def)
      with q show ?thesis by simp
    qed
  qed (use assms m q in \<open>auto simp: send_wecom_outbound_def wbind_def\<close>)
qed

lemma quiet_item: "take_item net now i w = (st, w') \<Longrightarrow> quiet_step w w'"
  by (cases i) (auto simp: quiet_step_def message_frames_def handle_keeps emit_keeps Let_def split: option.splits)

lemma quiet_heartbeat: "send_heartbeat net w = (st, w') \<Longrightarrow> quiet_step w w'"
  by (auto simp: send_heartbeat_def write_frame_def Let_def quiet_step_def message_frames_def is_message_frame_def
      frame_cmd_wecom_frame split: option.splits)

text \<open>What a turn does to the queue: nothing, or its first message is taken, and sent if the loop goes on.\<close>

lemma conn_step_queue:
  assumes "wecom_turn net now ev w = (st, w')"
  shows "quiet_step w w' \<or>
    (\<exists>out queue. wm_queue w = out # queue \<and> wm_queue w' = queue \<and>
       (if st = Running then \<exists>f. message_frames w' = message_frames w @ [f] \<and> frame_for net out f
        else message_frames w' = message_frames w))"
proof (cases ev)
  case (OutTaken es)
  show ?thesis
  proof (cases "wm_queue w")
    case Nil
    with assms OutTaken show ?thesis
      by (auto simp: take_outbound_def quiet_step_def message_frames_def emit_keeps)
  next
    case (Cons out queue)
    let ?w = "w\<lparr>wm_queue := queue\<rparr>"
    obtain r es' w1 where s: "send_wecom_outbound net out es ?w = (r, es', w1)"
      by (cases "send_wecom_outbound net out es ?w")
    have "message_frames ?w = message_frames w" by (simp add: message_frames_def)
    with send_outbound_step [OF s] assms OutTaken Cons s show ?thesis
      by (cases r) (auto simp: take_outbound_def emit_keeps message_frames_def)
  qed
qed (use assms quiet_item quiet_heartbeat in
  \<open>auto simp: quiet_step_def message_frames_def emit_keeps\<close>)

text \<open>
  Property C23: the order of outbound messages. However a run of the loop ends, the messages it took
  are the first ones of the queue, in order; the frames of messages it wrote are the frames of
  these, one for each, except that the last one taken may have none, which happens only when
  the run stopped with it. So nothing is sent twice, out of order or left out in between.
\<close>

theorem wecom_sends_in_order:
  assumes "conn_loop net evs w = (st, w')"
  shows "\<exists>n fs. n \<le> length (wm_queue w) \<and> wm_queue w' = drop n (wm_queue w) \<and>
    message_frames w' = message_frames w @ fs \<and>
    list_all2 (frame_for net) (take (length fs) (wm_queue w)) fs \<and>
    (length fs = n \<or> n = Suc (length fs) \<and> st \<noteq> Running)"
  using assms
proof (induction net evs w rule: conn_loop.induct)
  case (1 net w)
  then show ?case by (intro exI [of _ 0] exI [of _ "[]"]) simp
next
  case (2 net start now ev evs w)
  have stop: ?case if "quiet_step w w'"
    using that by (intro exI [of _ 0] exI [of _ "[]"]) (simp add: quiet_step_def)
  obtain s1 w1 where c: "wecom_turn net now ev w = (s1, w1)" by (cases "wecom_turn net now ev w")
  show ?case
  proof (cases "timed_out start w")
    case True
    with 2(2) show ?thesis by (intro stop) (simp add: quiet_refl)
  next
    case False
    show ?thesis
    proof (cases "s1 = Running")
      case True
      with False c 2(2) have "conn_loop net evs w1 = (st, w')" by simp
      from 2(1) [OF False c [symmetric, folded True]] this True obtain n fs where
        ih: "n \<le> length (wm_queue w1)" "wm_queue w' = drop n (wm_queue w1)"
        "message_frames w' = message_frames w1 @ fs"
        "list_all2 (frame_for net) (take (length fs) (wm_queue w1)) fs"
        "length fs = n \<or> n = Suc (length fs) \<and> st \<noteq> Running" by auto
      from conn_step_queue [OF c] show ?thesis
      proof (elim disjE exE conjE)
        assume "quiet_step w w1"
        with ih show ?thesis by (intro exI [of _ n] exI [of _ fs]) (simp add: quiet_step_def)
      next
        fix out queue
        assume q: "wm_queue w = out # queue" "wm_queue w1 = queue"
          and f: "if s1 = Running then \<exists>f. message_frames w1 = message_frames w @ [f] \<and> frame_for net out f
            else message_frames w1 = message_frames w"
        from f True obtain f where "message_frames w1 = message_frames w @ [f]" "frame_for net out f" by auto
        with ih q show ?thesis by (intro exI [of _ "Suc n"] exI [of _ "f # fs"]) auto
      qed
    next
      case stopped: False
      with False c 2(2) have e: "st = s1" "w' = w1" by (auto split: conn_status.splits)
      from conn_step_queue [OF c] show ?thesis
      proof (elim disjE exE conjE)
        assume "quiet_step w w1" with e show ?thesis by (intro stop) simp
      next
        fix out queue
        assume "wm_queue w = out # queue" "wm_queue w1 = queue"
          "if s1 = Running then \<exists>f. message_frames w1 = message_frames w @ [f] \<and> frame_for net out f
            else message_frames w1 = message_frames w"
        with e stopped show ?thesis by (intro exI [of _ 1] exI [of _ "[]"]) simp
      qed
    qed
  qed
qed

definition demo_outbound :: "string \<Rightarrow> wecom_outbound" where
  "demo_outbound t =
     \<lparr>wo_chat_id = ''c'', wo_text = t, wo_attachment = None, wo_reply_token = None, wo_stream_id = None,
      wo_feedback_id = None, wo_stream_finish = True\<rparr>"

definition demo_turns :: "(nat \<times> nat \<times> conn_event) list" where
  "demo_turns = [(0, 0, OutTaken []), (1, 1, HeartbeatTick), (2, 2, OutTaken [])]"

lemma demo_turns_run:
  "fst (conn_loop demo_wecom_net demo_turns (demo_wecom\<lparr>wm_queue := map demo_outbound [''a'', ''b'']\<rparr>)) = Running"
  by (simp add: demo_turns_def timed_out_def PONG_TIMEOUT_SECS_def demo_wecom_def demo_wecom_net_def take_outbound_def
      send_heartbeat_def send_wecom_outbound_def with_media_def wbind_def wgot_def write_frame_def Let_def
      emit_wecom_health_def demo_outbound_def)

lemma wecom_sends_in_order_witness:
  "\<exists>w' fs. conn_loop demo_wecom_net demo_turns (demo_wecom\<lparr>wm_queue := map demo_outbound [''a'', ''b'']\<rparr>) = (Running, w') \<and>
     message_frames w' = fs \<and>
     list_all2 (frame_for demo_wecom_net) (take (length fs) (map demo_outbound [''a'', ''b''])) fs"
proof -
  let ?w = "demo_wecom\<lparr>wm_queue := map demo_outbound [''a'', ''b'']\<rparr>"
  obtain w' where run: "conn_loop demo_wecom_net demo_turns ?w = (Running, w')"
    using demo_turns_run by (metis prod.collapse)
  from wecom_sends_in_order [OF run] show ?thesis
    using run by (auto simp: message_frames_def demo_wecom_def)
qed

text \<open>
  A message whose send fails is lost: it was accepted into the queue, it has left the queue, no
  frame was written for it, and the next connection begins with the one after it.
\<close>

lemma failed_send_loses_message:
  assumes "wn_write_error net (length (wm_sent w)) = Some e" "wo_attachment out = None" "wm_queue w = out # queue"
    "\<not> timed_out start w"
  shows "\<exists>w'. conn_loop net ((start, now, OutTaken es) # evs) w =
      (Ended (Inl (''wecom outbound send failed: '' @ e)), w') \<and>
    wm_queue w' = queue \<and> wm_sent w' = wm_sent w"
  using assms
  by (simp add: take_outbound_def send_wecom_outbound_def with_media_def wbind_def wgot_def write_frame_def Let_def
      emit_keeps)

text \<open>The delay before the next attempt grows with every connection that ended, also after good ones.\<close>

lemma reconnect_delays:
  assumes "\<And>r v. r \<in> set rs \<Longrightarrow> \<not> wr_shutdown r \<and>
      (\<exists>e. fst (run_wecom_connection net (wr_connected r) (wr_events r) v) = Ended (Inl e))"
  shows "fst (wecom_task net k rs w) = map reconnect_delay [k ..< k + length rs]"
  using assms
proof (induction rs arbitrary: k w)
  case (Cons r rs)
  from Cons.prems [of r w] obtain e w' where
    c: "run_wecom_connection net (wr_connected r) (wr_events r) w = (Ended (Inl e), w')" and "\<not> wr_shutdown r"
    by (metis list.set_intros(1) prod.collapse)
  moreover have "fst (wecom_task net (Suc k) rs v) = map reconnect_delay [Suc k ..< Suc k + length rs]" for v
    using Cons.prems by (intro Cons.IH) auto
  moreover have "[k ..< k + length (r # rs)] = k # [Suc k ..< Suc k + length rs]"
    by (simp add: upt_conv_Cons del: upt_Suc)
  ultimately show ?case by (simp add: Let_def case_prod_beta del: upt_Suc)
qed simp

section \<open>Downloads\<close>

text \<open>An attachment that was fetched: from a safe link, read in full, and written into the directory.\<close>

definition downloaded :: "wecom_env \<Rightarrow> string \<Rightarrow> inbound_attachment \<Rightarrow> inbound_attachment \<Rightarrow> bool" where
  "downloaded env dir a a' \<longleftrightarrow>
     (\<exists>url status len content_type raw bytes name.
        ia_local_path a = None \<and> ia_url a = Some url \<and> is_safe_attachment_url (wv_parse_url env) url \<and>
        wv_get env url = Responded status len content_type (Some raw) \<and> 200 \<le> status \<and> status \<le> 299 \<and>
        length raw \<le> MAX_INBOUND_ATTACHMENT_BYTES \<and> decrypted_body env a raw = Inr bytes \<and>
        plain_name name \<and> ia_local_path a' = Some (path_join dir name) \<and> wv_write env (path_join dir name))"

lemma fetch_wecom_ok:
  "fetch_wecom env a idx url = Inr (mime, raw) \<Longrightarrow>
     is_safe_attachment_url (wv_parse_url env) url \<and>
     (\<exists>status len content_type. wv_get env url = Responded status len content_type (Some raw) \<and>
        200 \<le> status \<and> status \<le> 299 \<and> length raw \<le> MAX_INBOUND_ATTACHMENT_BYTES)"
  unfolding fetch_wecom_def Let_def
  by (cases "wv_get env url") (auto split: if_splits option.splits)

lemma download_wecom_one_file:
  assumes "download_wecom_one env dir idx a = (a', f, go)"
  shows "ia_local_path a' = None \<or> a' = a \<or> downloaded env dir a a'"
proof (cases "ia_local_path a = None \<and> ia_url a \<noteq> None")
  case True
  then obtain url where u: "ia_local_path a = None" "ia_url a = Some url" by blast
  show ?thesis
  proof (cases "fetch_wecom env a idx url")
    case (Inr p)
    obtain mime raw where p: "p = (mime, raw)" by (cases p)
    let ?a = "a\<lparr>ia_mime_type := or_else (ia_mime_type a) mime\<rparr>"
    have raw: "decrypted_body env ?a raw = decrypted_body env a raw" by (simp add: decrypted_body_def)
    show ?thesis
    proof (cases "decrypted_body env a raw")
      case (Inr bytes)
      with assms u p \<open>fetch_wecom env a idx url = Inr p\<close> raw fetch_wecom_ok [of env a idx url mime raw] plain_filename
      show ?thesis
        by (auto simp: download_wecom_one_def downloaded_def Let_def split: if_splits)
    qed (use assms u p Inr raw in \<open>auto simp: download_wecom_one_def Let_def\<close>)
  qed (use assms u in \<open>auto simp: download_wecom_one_def\<close>)
qed (use assms in \<open>auto simp: download_wecom_one_def split: option.splits\<close>)

lemma download_wecom_from_files:
  assumes "download_wecom_from env dir idx as fs = (as', fs')"
  shows "length as' = length as \<and>
    (\<forall>a' \<in> set as'. ia_local_path a' \<noteq> None \<longrightarrow> a' \<in> set as \<or> (\<exists>a \<in> set as. downloaded env dir a a'))"
  using assms
proof (induction as arbitrary: idx fs as' fs')
  case (Cons a as)
  obtain a1 f go where one: "download_wecom_one env dir idx a = (a1, f, go)" by (metis prod_cases3)
  show ?case
  proof (cases go)
    case True
    obtain as1 fs1 where rest: "download_wecom_from env dir (Suc idx) as (fs @ f) = (as1, fs1)" by fastforce
    with Cons.prems one True have "as' = a1 # as1" by simp
    with Cons.IH [OF rest] download_wecom_one_file [OF one] show ?thesis by auto
  next
    case False
    with Cons.prems one have "as' = a1 # as" by simp
    with download_wecom_one_file [OF one] show ?thesis by auto
  qed
qed simp

text \<open>
  Property C28: the attachments that are left of a message of WeCom. Each either came with a local path and
  is kept as it came, unfetched, or it was fetched: its link passed the code's own check of addresses
  (which is not complete: it lets the bracketed loopback address of IPv6 through), the server answered with
  a status of success and a body within the limit, the body was decrypted if it was encrypted, and
  the file was written under a plain name into the directory of the message. The user is told
  exactly when some were dropped, and the directory is removed exactly when none is left.
\<close>

theorem wecom_downloads_are_safe:
  "case prepare_wecom_attachments env run_dir msg_id as of (kept, reply, removed) \<Rightarrow>
     list_all (\<lambda>a'. ia_local_path a' \<noteq> None \<and>
       (a' \<in> set as \<or> list_ex (\<lambda>a. downloaded env (dir_path run_dir msg_id) a a') as)) kept \<and>
     length kept \<le> length as \<and> (reply = None \<longleftrightarrow> length kept = length as) \<and> (removed \<longleftrightarrow> kept = [])"
proof -
  obtain as1 fs where run: "download_wecom_attachments env run_dir msg_id as (missing_urls as) = (as1, fs)"
    by fastforce
  then have as1: "length as1 = length as" "\<forall>a' \<in> set as1. ia_local_path a' \<noteq> None \<longrightarrow> a' \<in> set as \<or>
      (\<exists>a \<in> set as. downloaded env (dir_path run_dir msg_id) a a')"
    using download_wecom_from_files [of env "dir_path run_dir msg_id" 0 as "missing_urls as" as1 fs]
    by (auto simp: download_wecom_attachments_def split: if_splits)
  let ?kept = "filter (\<lambda>a. ia_local_path a \<noteq> None) as1"
  have "length ?kept \<le> length as1" by (rule length_filter_le)
  with as1 run show ?thesis
    by (auto simp: prepare_wecom_attachments_def prepare_response_def Let_def list_all_iff list_ex_iff)
qed

lemmas address_defs = read_separated_def read_number_def read_given_char_def is_digit_def byte_def
  is_ascii_hexdigit_def hex_value_def

lemma groups_unrolled:
  "read_octets i 4 s = read_octets i (Suc (Suc (Suc (Suc 0)))) s"
  "read_groups i 7 s = read_groups i (Suc (Suc (Suc (Suc (Suc (Suc (Suc 0))))))) s"
  "read_groups i 8 s = read_groups i (Suc (Suc (Suc (Suc (Suc (Suc (Suc (Suc 0)))))))) s"
  by (simp_all only: numeral_eq_Suc pred_numeral_simps Num.BitM.simps eval_nat_numeral)

lemma no_ipv4:
  "read_ipv4_addr ''[::1]'' = None" "read_ipv4_addr ''::1'' = None" "read_ipv4_addr '':1'' = None"
  "read_ipv4_addr ''1'' = None"
  by (simp_all add: read_ipv4_addr_def groups_unrolled address_defs)

lemma demo_addresses:
  "parse_ip_addr ''127.0.0.1'' = Some (V4 [127, 0, 0, 1])"
  "parse_ip_addr ''[::1]'' = None"
  "parse_ip_addr ''::1'' = Some (V6 [0, 0, 0, 0, 0, 0, 0, 1])"
proof -
  show "parse_ip_addr ''127.0.0.1'' = Some (V4 [127, 0, 0, 1])"
    unfolding parse_ip_addr_def read_ipv4_addr_def by (simp add: groups_unrolled address_defs)
  show "parse_ip_addr ''[::1]'' = None"
    by (simp add: parse_ip_addr_def no_ipv4 read_ipv6_addr_def groups_unrolled address_defs)
  have "replicate 7 (0 :: nat) = [0, 0, 0, 0, 0, 0, 0]" by (simp add: numeral_eq_Suc)
  then show "parse_ip_addr ''::1'' = Some (V6 [0, 0, 0, 0, 0, 0, 0, 1])"
    by (simp add: parse_ip_addr_def no_ipv4 read_ipv6_addr_def groups_unrolled address_defs)
qed

text \<open>
  A host that is an IPv6 address is written in brackets in a URL, which the reader of addresses
  refuses, so the check of private addresses lets the loopback address through; without brackets
  it would not.
\<close>

lemma bracketed_loopback_passes:
  "is_safe_attachment_url (\<lambda>_. Some (''http'', Some ''[::1]'')) url"
  "\<not> is_safe_attachment_url (\<lambda>_. Some (''http'', Some ''::1'')) url"
  "\<not> is_safe_attachment_url (\<lambda>_. Some (''http'', Some ''127.0.0.1'')) url"
proof -
  have l: "\<not> eq_ignore_ascii_case ''[::1]'' ''localhost''"
    by (simp add: eq_ignore_ascii_case_def to_ascii_lowercase_def byte_def)
  then show "is_safe_attachment_url (\<lambda>_. Some (''http'', Some ''[::1]'')) url"
    "\<not> is_safe_attachment_url (\<lambda>_. Some (''http'', Some ''::1'')) url"
    "\<not> is_safe_attachment_url (\<lambda>_. Some (''http'', Some ''127.0.0.1'')) url"
    by (simp_all add: is_safe_attachment_url_def demo_addresses)
qed

section \<open>Inbound messages\<close>

text \<open>What the deduplicator remembers of a message that was handed on.\<close>

definition handed_key :: "inbound_message \<Rightarrow> string" where
  "handed_key m =
     (case im_feedback m of
        None \<Rightarrow> im_msg_id m
      | Some f \<Rightarrow> ''feedback:'' @ im_msg_id m @ '':'' @ fe_feedback_id f @ '':'' @ show_int (fe_feedback_type f))"

fun handle_frames :: "(string \<Rightarrow> string option) \<Rightarrow> (nat \<times> json) list \<Rightarrow> wecom \<Rightarrow> wecom" where
  "handle_frames ls [] w = w"
| "handle_frames ls ((now, d) # ds) w = handle_frames ls ds (handle_wecom_message ls now d w)"

lemma handled_fresh:
  assumes "\<forall>(i, ts) \<in> set (wm_seen w). now - ts \<le> DEFAULT_TTL" "length (wm_seen w) < DEFAULT_MAX_SIZE"
  shows "(wm_seen (handle_wecom_message ls now d w) = wm_seen w \<and> wm_inbox (handle_wecom_message ls now d w) = wm_inbox w) \<or>
    (\<exists>key ms. key \<notin> ids_of (wm_seen w) \<and> wm_seen (handle_wecom_message ls now d w) = wm_seen w @ [(key, now)] \<and>
       wm_inbox (handle_wecom_message ls now d w) = wm_inbox w @ ms \<and> (ms = [] \<or> (\<exists>m. ms = [m] \<and> handed_key m = key)))"
proof -
  note check = check_message_fresh [OF assms]
  show ?thesis
  proof (cases "parse_feedback_event (jfield d ''body'')")
    case (Some f)
    let ?key = "feedback_key (jfield d ''body'') f"
    let ?m = "frame_message d (feedback_msg_id (jfield d ''body'') f) [] [] (Some f)"
    have k: "handed_key ?m = ?key"
      by (simp add: handed_key_def frame_message_def Let_def feedback_key_def)
    show ?thesis
    proof (cases "?key \<in> ids_of (wm_seen w)")
      case False
      with Some k show ?thesis
        by (intro disjI2 exI [of _ ?key] exI [of _ "if wm_open w then [?m] else []"])
          (simp add: handle_wecom_message_def Let_def check send_inbound_def)
    qed (simp add: handle_wecom_message_def Let_def Some check)
  next
    case None
    let ?key = "callback_msg_id (jfield d ''body'')"
    let ?t = "extract_wecom_text (jfield d ''body'')" and ?as = "extract_wecom_attachments ls (jfield d ''body'')"
    let ?m = "frame_message d ?key ?t ?as None"
    have k: "handed_key ?m = ?key" by (simp add: handed_key_def frame_message_def Let_def)
    show ?thesis
    proof (cases "frame_cmd d \<notin> set [''aibot_msg_callback'', ''aibot_callback''] \<or> ?key = [] \<or>
        ?key \<in> ids_of (wm_seen w)")
      case True
      with None show ?thesis
        by (auto simp: handle_wecom_message_def Let_def check emit_keeps split: option.split)
    next
      case False
      with None k show ?thesis
        by (intro disjI2 exI [of _ ?key] exI [of _ "if wm_open w \<and> \<not> (?t = [] \<and> ?as = []) then [?m] else []"])
          (simp add: handle_wecom_message_def Let_def check send_inbound_def)
    qed
  qed
qed

text \<open>
  Property C26: what a connection hands on once, within the window of its deduplicator: when the frames
  and the identifiers already remembered fall into five minutes and are together at most 1000,
  no two messages that reach the gateway have the same identifier (for feedback: the
  same message, feedback and kind), and none has one that was remembered; what was handed on earlier
  stays. Outside that window a repeated message is handed on again.
\<close>

theorem wecom_hands_on_once:
  assumes "list_all (\<lambda>(now, _). t0 \<le> now \<and> now \<le> t0 + DEFAULT_TTL) ds" "list_all (\<lambda>(_, ts). t0 \<le> ts) (wm_seen w)"
    "length (wm_seen w) + length ds \<le> DEFAULT_MAX_SIZE"
  shows "\<exists>ms. wm_inbox (handle_frames ls ds w) = wm_inbox w @ ms \<and> distinct (map handed_key ms) \<and>
    set (map handed_key ms) \<inter> ids_of (wm_seen w) = {} \<and> length ms \<le> length ds"
  using assms
proof (induction ds arbitrary: w)
  case (Cons x ds)
  obtain now d where x: "x = (now, d)" by (cases x)
  let ?w = "handle_wecom_message ls now d w"
  have old: "\<forall>(i, ts) \<in> set (wm_seen w). now - ts \<le> DEFAULT_TTL" "length (wm_seen w) < DEFAULT_MAX_SIZE"
    using Cons.prems by (force simp: list_all_iff x) (use Cons.prems in simp)
  from handled_fresh [OF old, of ls d] show ?case
  proof
    assume "wm_seen ?w = wm_seen w \<and> wm_inbox ?w = wm_inbox w"
    moreover from this Cons.prems have "\<exists>ms. wm_inbox (handle_frames ls ds ?w) = wm_inbox ?w @ ms \<and>
        distinct (map handed_key ms) \<and> set (map handed_key ms) \<inter> ids_of (wm_seen ?w) = {} \<and> length ms \<le> length ds"
      by (intro Cons.IH) simp_all
    ultimately show ?thesis by (auto simp: x)
  next
    assume "\<exists>key ms. key \<notin> ids_of (wm_seen w) \<and> wm_seen ?w = wm_seen w @ [(key, now)] \<and>
      wm_inbox ?w = wm_inbox w @ ms \<and> (ms = [] \<or> (\<exists>m. ms = [m] \<and> handed_key m = key))"
    then obtain key ms where
      k: "key \<notin> ids_of (wm_seen w)" "wm_seen ?w = wm_seen w @ [(key, now)]" "wm_inbox ?w = wm_inbox w @ ms" and
      m: "ms = [] \<or> (\<exists>m. ms = [m] \<and> handed_key m = key)" by blast
    have "\<exists>ms. wm_inbox (handle_frames ls ds ?w) = wm_inbox ?w @ ms \<and>
        distinct (map handed_key ms) \<and> set (map handed_key ms) \<inter> ids_of (wm_seen ?w) = {} \<and> length ms \<le> length ds"
      using Cons.prems k(2) by (intro Cons.IH) (simp_all add: x)
    then obtain ns where n: "wm_inbox (handle_frames ls ds ?w) = wm_inbox ?w @ ns" "distinct (map handed_key ns)"
      "set (map handed_key ns) \<inter> ids_of (wm_seen ?w) = {}" "length ns \<le> length ds" by blast
    have ids: "ids_of (wm_seen ?w) = insert key (ids_of (wm_seen w))" by (simp add: k(2) ids_of_def)
    from m have "distinct (map handed_key (ms @ ns))" "set (map handed_key (ms @ ns)) \<inter> ids_of (wm_seen w) = {}"
      "length (ms @ ns) \<le> length (x # ds)"
      using n k(1) ids by auto
    moreover have "wm_inbox (handle_frames ls (x # ds) w) = wm_inbox w @ (ms @ ns)" using n(1) k(3) by (simp add: x)
    ultimately show ?thesis by blast
  qed
qed simp

definition demo_callback :: json where
  "demo_callback =
     JObj [(''body'', JObj [(''from'', JObj [(''userid'', JStr ''u'')]), (''msgid'', JStr ''m1''),
             (''text'', JObj [(''content'', JStr ''hi'')])]),
           (''cmd'', JStr ''aibot_msg_callback'')]"

lemma wecom_hands_on_once_witness:
  "\<exists>ms. wm_inbox (handle_frames (\<lambda>_. None) [(1, demo_callback), (2, demo_callback)] demo_wecom) = ms \<and>
     distinct (map handed_key ms)"
  using wecom_hands_on_once [of 0 "[(1, demo_callback), (2, demo_callback)]" demo_wecom "\<lambda>_. None"]
  by (auto simp: demo_wecom_def DEFAULT_TTL_def DEFAULT_MAX_SIZE_def)

section \<open>Messages during an upload\<close>

text \<open>The frames among the events, the part of the state they act on, and the answers of an upload.\<close>

fun wait_frames :: "wecom_net \<Rightarrow> wait_event list \<Rightarrow> (nat \<times> json) list" where
  "wait_frames net [] = []"
| "wait_frames net (Item now (WsText t) # es) =
     (case wn_parse net t of Some d \<Rightarrow> [(now, d)] | None \<Rightarrow> []) @ wait_frames net es"
| "wait_frames net (_ # es) = wait_frames net es"

definition core :: "wecom \<Rightarrow> (string \<times> nat) list \<times> inbound_message list \<times> bool" where
  "core w = (wm_seen w, wm_inbox w, wm_open w)"

definition upload_answer :: "json \<Rightarrow> bool" where
  "upload_answer d \<longleftrightarrow> (case frame_req_id d of Some i \<Rightarrow> prefix ''aibot_upload_media'' i | None \<Rightarrow> False)"

definition messages_in :: "(nat \<times> json) list \<Rightarrow> (nat \<times> json) list" where
  "messages_in fs = filter (\<lambda>(_, d). \<not> upload_answer d) fs"

lemma core_handle:
  assumes "core w = core v"
  shows "core (handle_wecom_message ls now d w) = core (handle_wecom_message ls now d v)"
proof -
  from assms have e: "wm_seen w = wm_seen v" "wm_inbox w = wm_inbox v" "wm_open w = wm_open v"
    by (simp_all add: core_def)
  show ?thesis
    unfolding handle_wecom_message_def Let_def e
    by (simp add: core_def send_inbound_def emit_wecom_health_def e split: option.split prod.split bool.split) blast
qed

lemma core_handle_frames: "core w = core v \<Longrightarrow> core (handle_frames ls fs w) = core (handle_frames ls fs v)"
proof (induction fs arbitrary: w v)
  case (Cons x fs)
  obtain now d where x: "x = (now, d)" by (cases x)
  show ?case unfolding x handle_frames.simps by (intro Cons.IH core_handle Cons.prems)
qed simp

lemma handle_frames_append: "handle_frames ls (fs @ gs) w = handle_frames ls gs (handle_frames ls fs w)"
proof (induction fs arbitrary: w)
  case (Cons x fs)
  then show ?case by (cases x) simp
qed simp

text \<open>A call that passes every frame it reads on, its answers apart.\<close>

definition passes_on :: "wecom_net \<Rightarrow> 'a waiting \<Rightarrow> bool" where
  "passes_on net m \<longleftrightarrow> (\<forall>es w r es' w'. m es w = (r, es', w') \<longrightarrow>
     (\<exists>read handled. wait_frames net es = read @ wait_frames net es' \<and> subseq handled read \<and>
        messages_in handled = messages_in read \<and>
        core w' = core (handle_frames (wn_last_segment net) handled w)))"

lemma passes_onI:
  assumes "\<And>es w r es' w'. m es w = (r, es', w') \<Longrightarrow> wait_frames net es = wait_frames net es' \<and> core w' = core w"
  shows "passes_on net m"
  unfolding passes_on_def
proof (intro allI impI)
  fix es w r es' w'
  assume "m es w = (r, es', w')"
  from assms [OF this] show "\<exists>read handled. wait_frames net es = read @ wait_frames net es' \<and> subseq handled read \<and>
        messages_in handled = messages_in read \<and> core w' = core (handle_frames (wn_last_segment net) handled w)"
    by (intro exI [of _ "[]"]) simp
qed

lemma passes_on_wbind:
  assumes "passes_on net m" "\<And>a. passes_on net (k a)"
  shows "passes_on net (wbind m k)"
  unfolding passes_on_def
proof (intro allI impI)
  fix es w r es' w'
  assume h: "wbind m k es w = (r, es', w')"
  obtain x es1 w1 where m: "m es w = (x, es1, w1)" by (cases "m es w")
  with assms(1) obtain r1 h1 where 1: "wait_frames net es = r1 @ wait_frames net es1" "subseq h1 r1"
    "messages_in h1 = messages_in r1" "core w1 = core (handle_frames (wn_last_segment net) h1 w)"
    unfolding passes_on_def by blast
  show "\<exists>read handled. wait_frames net es = read @ wait_frames net es' \<and> subseq handled read \<and>
        messages_in handled = messages_in read \<and> core w' = core (handle_frames (wn_last_segment net) handled w)"
  proof (cases x)
    case (Got a)
    with h m have "k a es1 w1 = (r, es', w')" by (simp add: wbind_def)
    with assms(2) obtain r2 h2 where 2: "wait_frames net es1 = r2 @ wait_frames net es'" "subseq h2 r2"
      "messages_in h2 = messages_in r2" "core w' = core (handle_frames (wn_last_segment net) h2 w1)"
      unfolding passes_on_def by blast
    have "core w' = core (handle_frames (wn_last_segment net) (h1 @ h2) w)"
      unfolding 2(4) handle_frames_append by (rule core_handle_frames [OF 1(4)])
    moreover have "subseq (h1 @ h2) (r1 @ r2)" using 1(2) 2(2) by (rule list_emb_append_mono)
    moreover have "messages_in (h1 @ h2) = messages_in (r1 @ r2)" using 1(3) 2(3) by (simp add: messages_in_def)
    ultimately show ?thesis using 1(1) 2(1) by (intro exI [of _ "r1 @ r2"] exI [of _ "h1 @ h2"]) simp
  next
    case (Failed e)
    with h m have "es' = es1" "w' = w1" by (simp_all add: wbind_def)
    with 1 show ?thesis by (intro exI [of _ r1] exI [of _ h1]) simp
  next
    case Waiting
    with h m have "es' = es1" "w' = w1" by (simp_all add: wbind_def)
    with 1 show ?thesis by (intro exI [of _ r1] exI [of _ h1]) simp
  qed
qed

lemma passes_on_wok: "passes_on net (wok r)" and passes_on_wgot: "passes_on net (wgot a)"
  and passes_on_wfail: "passes_on net (wfail e)"
  by (rule passes_onI; auto simp: wok_def wgot_def wfail_def split: sum.splits)+

lemma passes_on_write: "passes_on net (write_frame net frame)"
  by (rule passes_onI) (auto simp: write_frame_def Let_def core_def split: option.splits)

lemma await_passes:
  assumes "prefix ''aibot_upload_media'' req_id"
  shows "await_reply net cmd req_id es w = (r, es', w') \<Longrightarrow>
    \<exists>read handled. wait_frames net es = read @ wait_frames net es' \<and> subseq handled read \<and>
      messages_in handled = messages_in read \<and> core w' = core (handle_frames (wn_last_segment net) handled w)"
  using assms
proof (induction net cmd req_id es w rule: await_reply.induct)
  case (3 net cmd req_id now t es w)
  let ?w = "w\<lparr>wm_last_recv := now\<rparr>" and ?ls = "wn_last_segment net"
  have k: "core ?w = core w" by (simp add: core_def)
  show ?case
  proof (cases "wn_parse net t")
    case None
    with 3(3) have run: "await_reply net cmd req_id es ?w = (r, es', w')"
      unfolding await_reply.simps Let_def by simp
    from 3(1) [OF refl None run 3(4)] obtain read handled where
      "wait_frames net es = read @ wait_frames net es'" "subseq handled read" "messages_in handled = messages_in read"
      "core w' = core (handle_frames ?ls handled ?w)" by blast
    with None core_handle_frames [OF k, of ?ls handled] show ?thesis
      by (intro exI [of _ read] exI [of _ handled]) simp
  next
    case (Some d)
    let ?id = "case frame_req_id d of Some i \<Rightarrow> i | None \<Rightarrow> []"
    show ?thesis
    proof (cases "?id = req_id")
      case True
      with 3(3) Some have "es' = es" "w' = ?w" unfolding await_reply.simps Let_def by (simp_all split: if_splits)
      moreover have "upload_answer d" using True 3(4) by (auto simp: upload_answer_def split: option.splits)
      ultimately show ?thesis using Some k
        by (intro exI [of _ "[(now, d)]"] exI [of _ "[]"]) (simp add: messages_in_def)
    next
      case False
      let ?v = "handle_wecom_message ?ls now d ?w"
      from False 3(3) Some have run: "await_reply net cmd req_id es ?v = (r, es', w')"
        unfolding await_reply.simps Let_def by simp
      from 3(2) [OF refl Some False run 3(4)] obtain read handled where
        ih: "wait_frames net es = read @ wait_frames net es'" "subseq handled read" "messages_in handled = messages_in read"
        "core w' = core (handle_frames ?ls handled ?v)" by blast
      have "core ?v = core (handle_wecom_message ?ls now d w)" by (rule core_handle [OF k])
      from core_handle_frames [OF this, of ?ls handled] ih Some show ?thesis
        by (intro exI [of _ "(now, d) # read"] exI [of _ "(now, d) # handled"]) (simp add: messages_in_def)
    qed
  qed
qed (auto intro!: exI [of _ "[]"])

lemma passes_on_exchange:
  "prefix ''aibot_upload_media'' cmd \<Longrightarrow> passes_on net (send_frame_and_wait net cmd body)"
proof -
  assume c: "prefix ''aibot_upload_media'' cmd"
  have "passes_on net (await_reply net cmd (cmd @ ''-'' @ u))" for u
    unfolding passes_on_def using await_passes [OF prefix_prefix [OF c]] by blast
  then show ?thesis
    unfolding send_frame_and_wait_def by (intro passes_on_wbind passes_on_write)
qed

lemma passes_on_chunks: "passes_on net (send_media_chunks net upload_id i cs)"
proof (induction cs arbitrary: i)
  case (Cons c cs)
  then show ?case
    unfolding send_media_chunks.simps by (intro passes_on_wbind passes_on_exchange) simp_all
qed (simp add: passes_on_wgot)

text \<open>
  Property C25: messages that come in during an upload. However the upload ends, or while it still
  waits, every frame it read that is no answer to an upload was handled, in the order of the
  socket and each once, so what the gateway was handed and what is remembered against
  duplicates is the same as without the upload.
\<close>

theorem upload_handles_messages:
  "case upload_wecom_media net a es w of (r, es', w') \<Rightarrow>
     \<exists>read handled. wait_frames net es = read @ wait_frames net es' \<and> subseq handled read \<and>
       messages_in handled = messages_in read \<and>
       wm_inbox w' = wm_inbox (handle_frames (wn_last_segment net) handled w) \<and>
       wm_seen w' = wm_seen (handle_frames (wn_last_segment net) handled w)"
proof -
  have i: "passes_on net (if b then m else k)" if "passes_on net m" "passes_on net k" for b and m k :: "'x waiting"
    using that by simp
  have "passes_on net (upload_wecom_media net a)"
    unfolding upload_wecom_media_def Let_def reply_field_def
    by (intro passes_on_wbind passes_on_wok passes_on_wfail i passes_on_exchange passes_on_chunks) simp_all
  moreover obtain r es' w' where "upload_wecom_media net a es w = (r, es', w')"
    by (cases "upload_wecom_media net a es w")
  ultimately show ?thesis unfolding passes_on_def by (fastforce simp: core_def)
qed

text \<open>
  The deduplicator lives as long as the connection: a message that the server sends again after a
  reconnect is handed on again.
\<close>

lemma reconnect_repeats_message:
  "map im_msg_id (wm_inbox (handle_frames (\<lambda>_. None) [(2, demo_callback)]
     ((handle_frames (\<lambda>_. None) [(1, demo_callback)] demo_wecom)\<lparr>wm_seen := []\<rparr>))) = [''m1'', ''m1'']"
proof -
  let ?b = "jfield demo_callback ''body''"
  have b: "parse_feedback_event ?b = None" "frame_cmd demo_callback = ''aibot_msg_callback''"
    "callback_msg_id ?b = ''m1''" "extract_wecom_text ?b \<noteq> []"
    by code_simp+
  have c: "check_message DEFAULT_MAX_SIZE DEFAULT_TTL n i [] = (True, [(i, n)])" for n i
    by (simp add: check_message_fresh ids_of_def DEFAULT_MAX_SIZE_def)
  show ?thesis
    by (simp add: handle_wecom_message_def Let_def b c send_inbound_def demo_wecom_def frame_message_def)
qed

text \<open>A connection begins with an empty deduplicator, whatever the one before remembered.\<close>

lemma connection_forgets:
  assumes "wn_write_error net (length (wm_sent w)) = None"
  shows "wm_seen (snd (run_wecom_connection net (Inr now) [] w)) = []"
  using assms by (simp add: run_wecom_connection_def write_frame_def Let_def emit_keeps)

section \<open>Attachments of a frame\<close>

definition keys_of :: "inbound_attachment list \<Rightarrow> string list" where
  "keys_of as = List.map_filter attachment_key as"

lemma retain_new_keys:
  "distinct (keys_of (retain_new seen as)) \<and> set (keys_of (retain_new seen as)) = set (keys_of as) - set seen \<and>
   filter (\<lambda>a. attachment_key a = None) (retain_new seen as) = filter (\<lambda>a. attachment_key a = None) as"
proof (induction as arbitrary: seen)
  case (Cons a as)
  show ?case
  proof (cases "attachment_key a")
    case None
    with Cons [of seen] show ?thesis by (simp add: keys_of_def map_filter_simps)
  next
    case (Some key)
    with Cons [of seen] Cons [of "key # seen"] show ?thesis
      by (auto simp: keys_of_def map_filter_simps)
  qed
qed (simp add: keys_of_def map_filter_simps)

text \<open>
  The attachments of a frame are told apart: no two have the same media identifier or link, each one
  that a section or item of the frame names is there.
\<close>

lemma wecom_attachments_distinct:
  "distinct (keys_of (extract_wecom_attachments ls body)) \<and>
   set (keys_of (extract_wecom_attachments ls body)) =
     set (keys_of (List.map_filter (section_attachment ls body)
       [(''image'', AkImage), (''file'', AkFile), (''video'', AkVideo), (''voice'', AkAudio)] @
       List.map_filter (extract_wecom_item_attachment ls) (wecom_mixed_items body)))"
  unfolding extract_wecom_attachments_def dedupe_inbound_attachments_def
  using retain_new_keys by simp

end
