(* ===== verification/Spec2Isabelle.thy ===== *)
theory Spec2Isabelle
  imports Text Cron Trace_Props Store_Values Stream_Props Breaker Delivery_Props Lanes_Props
    Dispatch_Props Scheduler_Props Claude_Props Astra_Props Policies_Props Codex_Turns Weixin_Props
    Codex_Sessions_Props Models_Props Command_Effects Command_Clear Wecom_Props
begin

text \<open>
  A verification library for the Astra gateway (\<open>crates/astra-gateway\<close>): the service that takes
  messages from chat platforms, runs a CLI agent for each conversation, streams its answer back,
  and keeps sessions, jobs, usage and a trace of every request in a database or in files.

  \<^bold>\<open>How the program is put together.\<close> A platform adapter hands an \<open>InboundMessage\<close> to the
  runner, which turns it into a \<open>QueuedRequest\<close> with a trace (\<open>TraceWriter\<close>), counts it in the
  execution lane of its conversation and gives it to the worker of the lane through a channel. If
  a turn is running there, an ingress task first tries to steer it. The worker checks that the
  request was not cancelled, runs the turn, and hands the answer to the delivery loop, which
  splits it for the platform, sends the pieces, counts failures in a breaker and settles the
  entry of the answer in the outbox. What was not delivered is replayed at the next start. A
  scheduler runs the due jobs of the store once a minute through the same queue.

  \<^bold>\<open>Theories.\<close>
  \<^item> \<open>Prelude\<close>: lemmas on strings (as lists of bytes), substring search, lists and maps.
  \<^item> \<open>Text\<close>: \<open>text.rs\<close> and \<open>split_message\<close> of \<open>runner.rs\<close>. A loop that need not end is a
    \<open>partial_function\<close>; \<open>None\<close> stands for not returning.
  \<^item> \<open>Sql\<close>: tables as lists of rows, statements that may fail as state-passing functions with an
    error sum, environment (clock, generated identifiers, failures of the engine) as a stream
    read by a tick counter.
  \<^item> \<open>Trace_Types\<close>, \<open>Trace_Tables\<close>, \<open>Trace_Sqlite\<close>: the statuses and records of
    \<open>trace_model.rs\<close> and \<open>SqliteTraceRepository\<close>, one definition per operation over the four tables;
    \<open>Trace_Writer\<close>: \<open>TraceWriter\<close> over any repository (a record of its operations), and the locale
    of what the writer relies on; \<open>Trace_View\<close>: the interpretation on the tables; \<open>Trace_Props\<close>:
    the properties of both.
  \<^item> \<open>Cron\<close>: the cron subset of \<open>store/mod.rs\<close>, validation and next run, over minutes since the epoch.
  \<^item> \<open>Store_Types\<close>, \<open>Store_Sqlite\<close>, \<open>Store_File\<close>: the trait \<open>GatewayStore\<close> in both backends.
    \<open>Store_Inv\<close>, \<open>File_Inv\<close>: their invariants; \<open>Session_Spec\<close>: the contract of the session
    operations as a locale, \<open>Store_Sessions\<close> and \<open>File_Sessions\<close> what interprets it; \<open>Store_Calls\<close>:
    the trait as a vocabulary of calls with a locale for both backends; \<open>Store_Props\<close>,
    \<open>Store_Values\<close>: the properties.
  \<^item> \<open>Stream_Filter\<close>, \<open>Stream_Props\<close>: the filters of \<open>runner.rs\<close> that hide thinking and action
    tags in an answer arriving in chunks.
  \<^item> \<open>Breaker\<close>: the counters of failed sends and failed logins, clock in nanoseconds.
  \<^item> \<open>Delivery\<close>, \<open>Delivery_Props\<close>: sending an answer, recording its outcome, replay at start-up.
  \<^item> \<open>Messages\<close>, \<open>Lanes\<close>, \<open>Lanes_Props\<close>: queued requests and the execution lane of a conversation,
    as a step relation of tasks and workers under locks.
  \<^item> \<open>Dispatch\<close>, \<open>Dispatch_Props\<close>: the check before a request runs, steering and its fall back,
    an ingress round and a turn of the worker.
  \<^item> \<open>Scheduler\<close>, \<open>Scheduler_Props\<close>: \<open>scheduler.rs\<close>.
  \<^item> \<open>Json\<close>: JSON values and the accessors of \<open>serde_json\<close>, and the sums of fallible reads.
  \<^item> \<open>Cli_Result\<close>, \<open>Cli_Stream\<close>: what a CLI printed, read as the result of a turn or as progress
    (\<open>cli_bridge.rs\<close>); \<open>Claude_Usage\<close>: what a turn of a persistent process is charged.
  \<^item> \<open>Claude_Pool\<close>, \<open>Claude_Props\<close>: the pool of Claude processes (\<open>cli_pool.rs\<close>), one event for each
    operation under its mutex and each line the reader handles.
  \<^item> \<open>Codex_Items\<close>, \<open>Codex_Pool\<close>: the app servers (\<open>codex_app_pool.rs\<close>), requests, answers and
    notifications, in the same manner; \<open>Codex_Props\<close>, \<open>Codex_Turns\<close>: their properties.
  \<^item> \<open>Astra_Stream\<close>, \<open>Astra_Props\<close>: the event stream of the astra client (\<open>sse.rs\<close>, \<open>client.rs\<close>).
  \<^item> \<open>Policies\<close>, \<open>Policies_Props\<close>: access, duplicates, resets of sessions, vision and tokens.
  \<^item> \<open>Weixin_Media\<close>, \<open>Attachments\<close>, \<open>Attachments_Props\<close>, \<open>Weixin\<close>, \<open>Weixin_Props\<close>: the adapter of
    WeChat (\<open>platforms/weixin.rs\<close>, \<open>weixin_media.rs\<close>) and inbound attachments
    (\<open>inbound_attachments.rs\<close>).
  \<^item> \<open>Codex_Sessions\<close>, \<open>Codex_Sessions_Props\<close>: the catalog of Codex sessions
    (\<open>codex_sessions.rs\<close>): its queries, its paging, and the backwards reader of a rollout file, which
    is equal to a search of the whole file.
  \<^item> \<open>Models\<close>, \<open>Models_Props\<close>: the model lists of the CLIs and the choice of a model (\<open>commands.rs\<close>);
    \<open>Harness\<close>: the snapshots of a session; \<open>Workspaces\<close>: projects (\<open>workspace.rs\<close>).
  \<^item> \<open>Command_Base\<close>, \<open>Command_Store\<close>, \<open>Command_Profile\<close>, \<open>Command_Requests\<close>, \<open>Commands\<close>: the slash
    commands (\<open>handle_command\<close> of \<open>commands.rs\<close>), state-passing functions over both databases, the
    catalog, the registry of running requests, the cache of models and the pool; a reply is a value
    that names its message. \<open>Command_Props\<close>: the locale of the two backends, and what every command
    keeps of them. \<open>Command_Effects\<close>: what a locked policy protects, and where it does not;
    \<open>Command_Clear\<close>: what \<open>/esc all\<close> clears, for at most fifty open requests, since a single
    cancellation looks at the first fifty.
  \<^item> \<open>Wecom\<close>, \<open>Wecom_Media\<close>, \<open>Wecom_Connection\<close>, \<open>Wecom_Props\<close>: the adapter of WeCom bots
    (\<open>platforms/wecom.rs\<close>): reading frames and attachments, decryption, and the connection. What
    happens on a connection is a list of events with their times, so every function ends; a call
    that still waits for an answer is a value of its own. A message taken off the queue comes with
    the events its upload reads.

  \<^bold>\<open>What the lemmas show.\<close> Every sequence of calls keeps the invariants of either store, and both
  meet the same specification of sessions; a request in a final state stays there, whatever
  is done to its trace, and so does an outbox entry that was sent; of two claims on a queued
  request one wins; a conversation runs one request at a time, and as long as no worker panics its
  requests are taken in the order of their arrival; what an ingress round leaves of a request, on an
  undisturbed store; a reply is sent in pieces within the limit that lose only blank text, if the
  splitter returns, and its outcome is recorded; the replay sends the hundred oldest waiting
  replies, and when it could send all that waited a second one sends nothing; the think filter
  does not depend on where the chunks end, the action filter only away from the closing
  brackets, with the counterexample; breakers open exactly after the streak they name; the
  next run of an accepted expression lies in the future, with the exceptions stated; the channel of
  a turn of Claude gets what is read up to the next result line, which is the turn's own if no
  earlier one was still to come, is charged against totals that do not shrink, and is marked
  interrupted if it failed and an interrupt was acknowledged before it; a request to an app server
  is answered at most once, by a response with its number or by the end of the process, at which
  nobody is left waiting; the events of a stream with one kind of line end are the same
  however it is cut into chunks; the deduplicator suppresses exactly the ids it remembers, within
  its size and time; a slash command keeps both databases well-formed, \<open>/esc all\<close> has the effect
  stated row by row, and under a locked policy a command writes nothing but what is named;
  the adapter of WeCom sends in the order of its queue (a message whose sending fails is lost), completes its uploads, loses
  no message that is read during one, and decrypts exactly what was encrypted with its key. Some
  theorems show where the code departs from this: two orders of events in which
  a turn of Claude is lost or gets the result of another, an approval that is forgotten, a turn ended
  by another's completion, a message on which the splitter does not return, a stream whose
  events depend on the chunks, usage of a single turn taken for a total, a loopback address that
  passes the check of links.

  \<^bold>\<open>Conventions.\<close> Strings are lists of bytes. Fallible code returns \<open>error + value\<close>. Counters of 32
  and 64 bits are kept at their width where they are compared after arithmetic (\<open>mod 2 ^ 32\<close>,
  \<open>add64\<close>); the counters of lanes and generations are natural numbers, since reaching \<open>2 ^ 64\<close> takes
  longer than the program runs. No fuel is used anywhere: a loop that
  may not end is an option. The channels of the runtime hold 128 requests, as the source sets it.
  Rows that an \<open>ORDER BY\<close> leaves tied come in the order of their insertion, which SQLite does not
  promise. The two places of \<open>commands.rs\<close> that take a token and cancel it are one definition.
  Parameters of definitions stand for code outside the repository or outside the component:
  rendering of times, \<open>serde_json\<close>, the engine's JSON paths and floating-point sums, redaction
  of secrets, the network, the pools of processes, the turn of the agent.

  \<^bold>\<open>Not modelled.\<close> Poisoned mutexes; the MySQL stores, which run the same statements on another
  engine; starting and killing external processes, their command lines and the tasks that copy
  their stdin and drain their stderr; the asynchronous body of a turn that composes the pools, the
  filters and the delivery; the adapters of WhatsApp; the wording of the replies to commands; the MCP server,
  configuration and start-up; the request wrappers of the astra client. The manifest lists each
  part with its reason.
\<close>

end
